(* ===== verification/Py_Float.thy ===== *)
theory Py_Float
  imports Complex_Main
begin

text \<open>
  Python floats. A finite binary64 value is a rational number, and every arithmetic
  operation of the source rounds its exact result to 53 significant bits, ties to even:
  \<open>a + b\<close> of the source is \<open>fl (a + b)\<close> here, and so for \<open>-\<close>, \<open>*\<close>, \<open>/\<close> and for
  \<open>int -> float\<close> conversions. The exponent range is not bounded (no overflow to infinity,
  no subnormals) and there is no NaN. \<open>pyround x n\<close> is the built-in \<open>round(x, n)\<close>: the
  decimal rounding of the exact binary value, ties to even, read back as a float;
  \<open>round_half_even\<close> is \<open>round(x)\<close> and \<open>py_int\<close> is \<open>int(x)\<close>. The lemmas say what survives
  rounding: monotonicity, signs, idempotence and exactness on representable values.
\<close>

section \<open>The format\<close>

function bit_length :: "int \<Rightarrow> nat" where
  "bit_length n = (if n \<le> 0 then 0 else Suc (bit_length (n div 2)))"
  by pat_completeness auto
termination
  by (relation "measure nat") auto

declare bit_length.simps [simp del]

lemma bit_length_upper: "n < 2 ^ bit_length n"
proof (induction n rule: bit_length.induct)
  case (1 n)
  show ?case
  proof (cases "n \<le> 0")
    case False
    with "1.IH" have "n div 2 < 2 ^ bit_length (n div 2)" by simp
    then have "n < 2 * 2 ^ bit_length (n div 2)" by linarith
    with False show ?thesis by (simp add: bit_length.simps [of n])
  qed (simp add: bit_length.simps [of n])
qed

lemma bit_length_lower: "0 < n \<Longrightarrow> 2 ^ (bit_length n - 1) \<le> n"
proof (induction n rule: bit_length.induct)
  case (1 n)
  show ?case
  proof (cases "n div 2 \<le> 0")
    case True
    with "1.prems" show ?thesis by (simp add: bit_length.simps [of n] bit_length.simps [of 0])
  next
    case False
    with "1.IH" "1.prems" have IH: "2 ^ (bit_length (n div 2) - 1) \<le> n div 2" by simp
    have "bit_length (n div 2) = Suc (bit_length (n div 2) - 1)"
      using False by (simp add: bit_length.simps [of "n div 2"])
    then have "2 ^ bit_length (n div 2) = 2 * (2::int) ^ (bit_length (n div 2) - 1)"
      by (metis power_Suc)
    also have "\<dots> \<le> n" using IH by linarith
    finally show ?thesis using "1.prems" by (simp add: bit_length.simps [of n])
  qed
qed

definition pow2 :: "int \<Rightarrow> rat" where
  "pow2 e = (if 0 \<le> e then 2 ^ nat e else 1 / 2 ^ nat (- e))"

lemma pow2_pos [simp]: "0 < pow2 e"
  by (simp add: pow2_def)

lemma pow2_powi: "pow2 e = power_int 2 e"
  by (simp add: pow2_def power_int_def power_one_over inverse_eq_divide)

lemma pow2_nonzero [simp]: "pow2 e \<noteq> 0" "\<not> pow2 e < 0" "\<not> pow2 e \<le> 0"
  using pow2_pos [of e] by linarith+

lemma pow2_add: "pow2 (a + b) = pow2 a * pow2 b"
  unfolding pow2_powi by (rule power_int_add) simp

lemma pow2_mono: "a \<le> b \<Longrightarrow> pow2 a \<le> pow2 b"
  unfolding pow2_powi by (rule power_int_increasing) simp_all

lemma pow2_less: "a < b \<Longrightarrow> pow2 a < pow2 b"
  unfolding pow2_powi by (rule power_int_strict_increasing) simp_all

lemma pow2_1: "pow2 1 = 2" and pow2_m1: "pow2 (-1) = 1 / 2"
  by (simp_all add: pow2_def)

definition exponent2 :: "rat \<Rightarrow> int" where
  "exponent2 x = (case quotient_of \<bar>x\<bar> of (p, q) \<Rightarrow>
     let k = int (bit_length p) - int (bit_length q)
     in if pow2 k \<le> \<bar>x\<bar> then k else k - 1)"

definition round_half_even :: "rat \<Rightarrow> int" where
  "round_half_even x =
     (let n = \<lfloor>x\<rfloor>; d = x - of_int n
      in if d < 1 / 2 then n else if 1 / 2 < d then n + 1
         else if even n then n else n + 1)"

definition fl :: "rat \<Rightarrow> rat" where
  "fl x = (if x = 0 then 0
           else let u = pow2 (exponent2 x - 52)
                in of_int (round_half_even (x / u)) * u)"

definition pyround :: "rat \<Rightarrow> nat \<Rightarrow> rat" where
  "pyround x n = fl (of_int (round_half_even (x * 10 ^ n)) / 10 ^ n)"

definition py_int :: "rat \<Rightarrow> int" where
  "py_int x = (if 0 \<le> x then \<lfloor>x\<rfloor> else \<lceil>x\<rceil>)"

definition py_pow :: "rat \<Rightarrow> nat \<Rightarrow> rat" where
  "py_pow x n = fl (x ^ n)"

section \<open>The binary exponent\<close>

lemma exponent2_bounds:
  assumes "x \<noteq> 0"
  shows "pow2 (exponent2 x) \<le> \<bar>x\<bar>" and "\<bar>x\<bar> < pow2 (exponent2 x + 1)"
proof -
  obtain p q where pq: "quotient_of \<bar>x\<bar> = (p, q)" by (cases "quotient_of \<bar>x\<bar>")
  then have q: "0 < q" and x: "\<bar>x\<bar> = of_int p / of_int q"
    using quotient_of_denom_pos quotient_of_div by blast+
  have "0 < \<bar>x\<bar>" using assms by simp
  then have "0 < (of_int p / of_int q :: rat)" unfolding x .
  with q have p: "0 < p" by (simp add: zero_less_divide_iff)
  define k where "k = int (bit_length p) - int (bit_length q)"
  define la where "la = bit_length p - 1"
  define lb where "lb = bit_length q - 1"
  have bl: "bit_length p = Suc la" "bit_length q = Suc lb"
    using p q by (simp_all add: la_def lb_def bit_length.simps [of p] bit_length.simps [of q])
  have "2 ^ la \<le> p" "p < 2 ^ Suc la" "2 ^ lb \<le> q" "q < 2 ^ Suc lb"
    using bit_length_lower [OF p] bit_length_upper [of p]
      bit_length_lower [OF q] bit_length_upper [of q] unfolding bl by simp_all
  then have bnds: "(2::rat) ^ la \<le> of_int p" "of_int p < (2::rat) ^ Suc la"
    "(2::rat) ^ lb \<le> of_int q" "of_int q < (2::rat) ^ Suc lb"
    by (metis of_int_le_iff of_int_less_iff of_int_numeral of_int_power)+
  have k: "k = int la - int lb" by (simp add: k_def bl)
  have pk: "pow2 k = 2 ^ la / 2 ^ lb"
    by (simp add: k pow2_powi power_int_diff)
  have "\<bar>x\<bar> < 2 ^ Suc la / 2 ^ lb"
    unfolding x using bnds p q by (intro frac_less) auto
  then have up: "\<bar>x\<bar> < pow2 (k + 1)" by (simp add: pow2_add pk pow2_1 mult.commute)
  have "2 ^ la / 2 ^ Suc lb \<le> \<bar>x\<bar>"
    unfolding x using bnds p q by (intro frac_le) auto
  moreover have "pow2 (k - 1) = 2 ^ la / 2 ^ Suc lb"
    using pow2_add [of k "-1"] by (simp add: pk pow2_m1)
  ultimately have lo: "pow2 (k - 1) \<le> \<bar>x\<bar>" by simp
  have e: "exponent2 x = (if pow2 k \<le> \<bar>x\<bar> then k else k - 1)"
    by (simp add: exponent2_def pq k_def Let_def)
  show "pow2 (exponent2 x) \<le> \<bar>x\<bar>" using lo by (simp add: e)
  show "\<bar>x\<bar> < pow2 (exponent2 x + 1)" using up by (simp add: e)
qed



lemma exponent2_unique:
  assumes "pow2 e \<le> \<bar>x\<bar>" and "\<bar>x\<bar> < pow2 (e + 1)"
  shows "exponent2 x = e"
proof -
  have "x \<noteq> 0" using assms(1) by auto
  note b = exponent2_bounds [OF this]
  have "\<not> exponent2 x + 1 \<le> e" using b(2) assms(1) pow2_mono [of "exponent2 x + 1" e] by fastforce
  moreover have "\<not> e + 1 \<le> exponent2 x" using b(1) assms(2) pow2_mono [of "e + 1" "exponent2 x"] by fastforce
  ultimately show ?thesis by linarith
qed

lemma exponent2_uminus [simp]: "exponent2 (- x) = exponent2 x"
  by (simp add: exponent2_def)

section \<open>Rounding to integers\<close>

lemma rhe_of_int [simp]: "round_half_even (of_int n) = n"
  by (simp add: round_half_even_def)

lemma rhe_bounds: "\<lfloor>x\<rfloor> \<le> round_half_even x" "round_half_even x \<le> \<lfloor>x\<rfloor> + 1"
  by (simp_all add: round_half_even_def Let_def)

lemma rhe_mono: "x \<le> y \<Longrightarrow> round_half_even x \<le> round_half_even y"
proof -
  assume xy: "x \<le> y"
  show ?thesis
  proof (cases "\<lfloor>x\<rfloor> = \<lfloor>y\<rfloor>")
    case True
    then show ?thesis using xy by (simp add: round_half_even_def Let_def)
  next
    case False
    with floor_mono [OF xy] have "\<lfloor>x\<rfloor> + 1 \<le> \<lfloor>y\<rfloor>" by simp
    then show ?thesis using rhe_bounds(2) [of x] rhe_bounds(1) [of y] by linarith
  qed
qed

lemma rhe_uminus: "round_half_even (- x) = - round_half_even x"
proof (cases "of_int \<lfloor>x\<rfloor> = x")
  case True
  then show ?thesis by (metis rhe_of_int of_int_minus)
next
  case False
  then have "\<lfloor>- x\<rfloor> = - \<lfloor>x\<rfloor> - 1"
    by (simp add: floor_minus ceiling_altdef)
  then show ?thesis by (auto simp: round_half_even_def Let_def)
qed

lemma rhe_error: "\<bar>of_int (round_half_even x) - x\<bar> \<le> 1 / 2"
proof -
  have "of_int \<lfloor>x\<rfloor> \<le> x" "x < of_int \<lfloor>x\<rfloor> + 1" by linarith+
  then show ?thesis by (simp add: round_half_even_def Let_def abs_le_iff)
qed

section \<open>Rounding to binary64\<close>

lemma fl_0 [simp]: "fl 0 = 0"
  by (simp add: fl_def)

lemma fl_uminus: "fl (- x) = - fl x"
  by (simp add: fl_def Let_def rhe_uminus)

lemma pow2_52: "pow2 52 = 2 ^ 52" and pow2_53: "pow2 53 = 2 ^ 53"
  by (simp_all add: pow2_def)

lemma pow2_ulp: "pow2 e = 2 ^ 52 * pow2 (e - 52)" "pow2 (e + 1) = 2 ^ 53 * pow2 (e - 52)"
proof -
  have "e = 52 + (e - 52)" "e + 1 = 53 + (e - 52)" by simp_all
  then show "pow2 e = 2 ^ 52 * pow2 (e - 52)" "pow2 (e + 1) = 2 ^ 53 * pow2 (e - 52)"
    using pow2_add [of 52 "e - 52"] pow2_add [of 53 "e - 52"] unfolding pow2_52 pow2_53 by metis+
qed

lemma fl_pos_bounds:
  assumes "0 < x"
  shows "pow2 (exponent2 x) \<le> fl x" and "fl x \<le> pow2 (exponent2 x + 1)"
proof -
  define u where "u = pow2 (exponent2 x - 52)"
  have u: "0 < u" by (simp add: u_def)
  have e: "pow2 (exponent2 x) = 2 ^ 52 * u" "pow2 (exponent2 x + 1) = 2 ^ 53 * u"
    unfolding u_def by (rule pow2_ulp)+
  have "2 ^ 52 \<le> x / u" "x / u \<le> 2 ^ 53"
    using exponent2_bounds [of x, unfolded e] assms u by (simp_all add: field_simps)
  then have "2 ^ 52 \<le> round_half_even (x / u)" "round_half_even (x / u) \<le> 2 ^ 53"
    using rhe_mono [of "2 ^ 52" "x / u"] rhe_mono [of "x / u" "2 ^ 53"]
      rhe_of_int [of "2 ^ 52"] rhe_of_int [of "2 ^ 53"] by simp_all
  then have "(2::rat) ^ 52 \<le> of_int (round_half_even (x / u))"
    "of_int (round_half_even (x / u)) \<le> (2::rat) ^ 53"
    by (metis of_int_le_iff of_int_numeral of_int_power)+
  then show "pow2 (exponent2 x) \<le> fl x" "fl x \<le> pow2 (exponent2 x + 1)"
    using assms u by (simp_all add: fl_def Let_def e u_def [symmetric])
qed

lemma fl_pos: "0 < x \<Longrightarrow> 0 < fl x"
  using fl_pos_bounds(1) [of x] pow2_pos [of "exponent2 x"] by linarith

lemma fl_mono_pos:
  assumes "0 < x" "x \<le> y"
  shows "fl x \<le> fl y"
proof -
  have y: "0 < y" using assms by simp
  consider "exponent2 x = exponent2 y" | "exponent2 x + 1 \<le> exponent2 y" | "exponent2 y + 1 \<le> exponent2 x"
    by linarith
  then show ?thesis
  proof cases
    case 1
    have "x / pow2 (exponent2 y - 52) \<le> y / pow2 (exponent2 y - 52)"
      using assms by (simp add: divide_right_mono less_imp_le)
    then show ?thesis using assms y 1
      by (simp add: fl_def Let_def rhe_mono less_imp_le)
  next
    case 2
    show ?thesis
      using fl_pos_bounds(2) [OF assms(1)] fl_pos_bounds(1) [OF y] pow2_mono [OF 2] by linarith
  next
    case 3
    show ?thesis
      using exponent2_bounds(1) [of x] exponent2_bounds(2) [of y] pow2_mono [OF 3] assms y by simp
  qed
qed

lemma fl_mono: "x \<le> y \<Longrightarrow> fl x \<le> fl y"
proof -
  assume xy: "x \<le> y"
  consider "0 < x" | "y < 0" | "x \<le> 0" "0 \<le> y" by linarith
  then show ?thesis
  proof cases
    case 2
    then show ?thesis using fl_mono_pos [of "- y" "- x"] xy by (simp add: fl_uminus)
  next
    case 3
    have "fl x \<le> 0" using 3 fl_pos [of "- x"] by (cases "x = 0") (simp_all add: fl_uminus)
    moreover have "0 \<le> fl y" using 3 fl_pos [of y] by (cases "y = 0") simp_all
    ultimately show ?thesis by simp
  qed (simp add: fl_mono_pos xy)
qed

lemma fl_representable:
  assumes "x = of_int m * pow2 k" "\<bar>m\<bar> \<le> 2 ^ 53"
  shows "fl x = x"
proof (cases "x = 0")
  case False
  define e where "e = exponent2 x - 52"
  have m0: "m \<noteq> 0" using False assms by auto
  have ax: "\<bar>x\<bar> = of_int \<bar>m\<bar> * pow2 k"
    using assms pow2_pos [of k] by (simp add: abs_mult abs_of_pos)
  have "\<exists>n. x / pow2 e = of_int n"
  proof (cases "e \<le> k")
    case True
    have "pow2 k = 2 ^ nat (k - e) * pow2 e"
      using pow2_add [of "k - e" e] True by (simp add: pow2_def [of "k - e"])
    then have "x / pow2 e = of_int (m * 2 ^ nat (k - e))"
      using pow2_pos [of e] by (simp add: assms(1))
    then show ?thesis ..
  next
    case False
    have "pow2 (k + 53) \<le> pow2 (exponent2 x)" using False by (intro pow2_mono) (simp add: e_def)
    also have "\<dots> \<le> \<bar>x\<bar>" using exponent2_bounds(1) \<open>x \<noteq> 0\<close> by blast
    also have "\<dots> = of_int \<bar>m\<bar> * pow2 k" by (fact ax)
    finally have "2 ^ 53 * pow2 k \<le> of_int \<bar>m\<bar> * pow2 k" by (simp add: pow2_add pow2_53 mult.commute)
    then have "(2::rat) ^ 53 \<le> of_int \<bar>m\<bar>" by simp
    then have "2 ^ 53 \<le> \<bar>m\<bar>" by (metis of_int_le_iff of_int_numeral of_int_power)
    with assms(2) have am: "\<bar>m\<bar> = 2 ^ 53" by simp
    then have "\<bar>x\<bar> = pow2 (k + 53)" by (simp add: ax pow2_add pow2_53 mult.commute)
    then have "exponent2 x = k + 53"
      using pow2_less [of "k + 53" "k + 53 + 1"] by (intro exponent2_unique) simp_all
    then have ek: "e = k + 1" by (simp add: e_def)
    have "m = sgn m * 2 ^ 53" using am by (metis mult_sgn_abs)
    then have "x = of_int (sgn m) * 2 ^ 53 * pow2 k" by (metis assms(1) of_int_mult of_int_numeral of_int_power)
    also have "\<dots> = of_int (sgn m * 2 ^ 52) * pow2 e" by (simp add: ek pow2_add pow2_1)
    finally have "x / pow2 e = of_int (sgn m * 2 ^ 52)" using pow2_pos [of e] by simp
    then show ?thesis ..
  qed
  then obtain n where n: "x / pow2 e = of_int n" ..
  then have "x = of_int n * pow2 e" using pow2_nonzero(1) [of e] by (metis nonzero_divide_eq_eq)
  moreover have "fl x = of_int (round_half_even (x / pow2 e)) * pow2 e"
    using False by (simp add: fl_def Let_def e_def)
  ultimately show ?thesis using n by (metis rhe_of_int)
qed simp

lemma fl_is_representable: "\<exists>m k. fl x = of_int m * pow2 k \<and> \<bar>m\<bar> \<le> 2 ^ 53"
proof -
  have pos: "\<exists>m k. fl x = of_int m * pow2 k \<and> \<bar>m\<bar> \<le> 2 ^ 53" if "0 < x" for x
  proof -
    let ?u = "pow2 (exponent2 x - 52)"
    let ?m = "round_half_even (x / ?u)"
    have f: "fl x = of_int ?m * ?u" using that by (simp add: fl_def Let_def)
    have "of_int ?m * ?u \<le> 2 ^ 53 * ?u" "0 < of_int ?m * ?u"
      using fl_pos_bounds(2) [OF that] fl_pos [OF that] unfolding f pow2_ulp(2) by simp_all
    then have "of_int ?m \<le> (2::rat) ^ 53" "0 < (of_int ?m :: rat)"
      by (simp_all add: zero_less_mult_iff)
    then have "\<bar>?m\<bar> \<le> 2 ^ 53" by (metis abs_of_pos of_int_0_less_iff of_int_le_iff of_int_numeral of_int_power)
    with f show ?thesis by blast
  qed
  consider "0 < x" | "x = 0" | "0 < - x" by linarith
  then show ?thesis
  proof cases
    case 2 then show ?thesis by (intro exI [of _ 0]) simp
  next
    case 3
    then obtain m k where "fl (- x) = of_int m * pow2 k" "\<bar>m\<bar> \<le> 2 ^ 53" using pos by blast
    then have "fl x = of_int (- m) * pow2 k \<and> \<bar>- m\<bar> \<le> 2 ^ 53" by (simp add: fl_uminus)
    then show ?thesis by blast
  qed (rule pos)
qed

lemma fl_idem [simp]: "fl (fl x) = fl x"
  using fl_is_representable fl_representable by metis

lemma fl_of_int: "\<bar>n\<bar> \<le> 2 ^ 53 \<Longrightarrow> fl (of_int n) = of_int n"
  by (rule fl_representable [of _ n 0]) (simp_all add: pow2_def)

lemma fl_numeral [simp]: "numeral n \<le> (2::int) ^ 53 \<Longrightarrow> fl (numeral n) = numeral n"
  using fl_of_int [of "numeral n"] by simp

lemma fl_1 [simp]: "fl 1 = 1"
  using fl_of_int [of 1] by simp

lemma fl_nonneg: "0 \<le> x \<Longrightarrow> 0 \<le> fl x"
  using fl_mono [of 0 x] by simp

lemma fl_nonpos: "x \<le> 0 \<Longrightarrow> fl x \<le> 0"
  using fl_mono [of x 0] by simp

lemma fl_pos_iff: "0 < fl x \<longleftrightarrow> 0 < x"
  using fl_pos [of x] fl_nonpos [of x] by linarith

text \<open>A value that is a float already bounds a rounded result: this is how a comparison
  against a limit survives the rounding of the compared quantity.\<close>

lemma fl_le_float: "fl b = b \<Longrightarrow> x \<le> b \<Longrightarrow> fl x \<le> b"
  using fl_mono [of x b] by simp

lemma fl_ge_float: "fl b = b \<Longrightarrow> b \<le> x \<Longrightarrow> b \<le> fl x"
  using fl_mono [of b x] by simp

lemma pyround_mono: "x \<le> y \<Longrightarrow> pyround x n \<le> pyround y n"
  unfolding pyround_def
  by (intro fl_mono divide_right_mono) (simp_all add: rhe_mono mult_right_mono)

lemma pyround_uminus: "pyround (- x) n = - pyround x n"
proof -
  have "of_int (round_half_even (- x * 10 ^ n)) / 10 ^ n =
      - (of_int (round_half_even (x * 10 ^ n)) / (10 ^ n :: rat))"
    by (simp add: rhe_uminus)
  then show ?thesis unfolding pyround_def by (simp only: fl_uminus)
qed

lemma pyround_0 [simp]: "pyround 0 n = 0"
  using rhe_of_int [of 0] by (simp add: pyround_def)

lemma pyround_nonneg: "0 \<le> x \<Longrightarrow> 0 \<le> pyround x n"
  using pyround_mono [of 0 x n] by simp

lemma pyround_nonpos: "x \<le> 0 \<Longrightarrow> pyround x n \<le> 0"
  using pyround_mono [of x 0 n] by simp

lemma pyround_le_fixed: "pyround b n = b \<Longrightarrow> x \<le> b \<Longrightarrow> pyround x n \<le> b"
  using pyround_mono [of x b n] by simp

lemma pyround_of_int: "\<bar>m\<bar> \<le> 2 ^ 53 \<Longrightarrow> pyround (of_int m) n = of_int m"
proof -
  assume m: "\<bar>m\<bar> \<le> 2 ^ 53"
  have "of_int m * 10 ^ n = (of_int (m * 10 ^ n) :: rat)" by simp
  then have "round_half_even (of_int m * 10 ^ n) = m * 10 ^ n" by (metis rhe_of_int)
  then show ?thesis using m by (simp add: pyround_def fl_of_int)
qed

lemma pyround_numeral [simp]: "numeral m \<le> (2::int) ^ 53 \<Longrightarrow> pyround (numeral m) n = numeral m"
  using pyround_of_int [of "numeral m" n] by simp

lemma pyround_1 [simp]: "pyround 1 n = 1"
  using pyround_of_int [of 1 n] by simp

text \<open>The relative error of one rounding, and what it implies: rounding to decimals twice is
  rounding once, as long as the value is far from the limit of exact integers.\<close>

lemma fl_error: "\<bar>fl x - x\<bar> \<le> \<bar>x\<bar> / 2 ^ 53"
proof (cases "x = 0")
  case False
  let ?u = "pow2 (exponent2 x - 52)"
  have "fl x - x = (of_int (round_half_even (x / ?u)) - x / ?u) * ?u"
    using False by (simp add: fl_def Let_def left_diff_distrib)
  then have "\<bar>fl x - x\<bar> = \<bar>of_int (round_half_even (x / ?u)) - x / ?u\<bar> * ?u"
    by (simp add: abs_mult abs_of_pos [OF pow2_pos])
  also have "\<dots> \<le> 1 / 2 * ?u" by (intro mult_right_mono rhe_error less_imp_le pow2_pos)
  also have "\<dots> \<le> \<bar>x\<bar> / 2 ^ 53"
    using exponent2_bounds(1) [OF False] pow2_ulp(1) [of "exponent2 x"] by (simp add: field_simps)
  finally show ?thesis .
qed simp

lemma rhe_near: "\<bar>z - of_int k\<bar> < 1 / 2 \<Longrightarrow> round_half_even z = k"
proof -
  assume a: "\<bar>z - of_int k\<bar> < 1 / 2"
  have "\<bar>of_int (round_half_even z) - of_int k :: rat\<bar> < 1"
    using a rhe_error [of z] by linarith
  then have "\<bar>of_int (round_half_even z - k) :: rat\<bar> < 1" by simp
  then show ?thesis by linarith
qed

lemma rhe_decimal:
  assumes "\<bar>of_int k :: rat\<bar> < 2 ^ 52"
  shows "round_half_even (fl (of_int k / 10 ^ n) * 10 ^ n) = k"
proof (rule rhe_near)
  let ?y = "fl (of_int k / 10 ^ n)"
  have "\<bar>?y - of_int k / 10 ^ n\<bar> * 10 ^ n \<le> \<bar>of_int k / 10 ^ n\<bar> / 2 ^ 53 * 10 ^ n"
    by (intro mult_right_mono fl_error) simp
  moreover have "\<bar>?y - of_int k / 10 ^ n\<bar> * 10 ^ n = \<bar>(?y - of_int k / 10 ^ n) * 10 ^ n\<bar>"
    by (simp add: abs_mult)
  moreover have "(?y - of_int k / 10 ^ n) * 10 ^ n = ?y * 10 ^ n - of_int k"
    by (simp add: left_diff_distrib)
  ultimately show "\<bar>?y * 10 ^ n - of_int k\<bar> < 1 / 2" using assms by simp
qed

lemma pyround_idem:
  assumes "\<bar>pyround x n\<bar> * 10 ^ n \<le> 2 ^ 50"
  shows "pyround (pyround x n) n = pyround x n"
proof -
  let ?k = "round_half_even (x * 10 ^ n)"
  let ?q = "of_int ?k / 10 ^ n :: rat"
  have "\<bar>fl ?q - ?q\<bar> \<le> \<bar>?q\<bar> / 2 ^ 53" by (rule fl_error)
  then have "\<bar>?q\<bar> \<le> 2 * \<bar>fl ?q\<bar>" by simp
  then have "\<bar>?q\<bar> * 10 ^ n \<le> 2 * \<bar>fl ?q\<bar> * 10 ^ n" by (intro mult_right_mono) simp_all
  also have "\<dots> \<le> 2 ^ 51" using assms by (simp add: pyround_def mult.commute)
  finally have "\<bar>of_int ?k :: rat\<bar> < 2 ^ 52" by simp
  from rhe_decimal [OF this] show ?thesis by (simp add: pyround_def)
qed

lemma fl_neg_numeral [simp]: "numeral m \<le> (2::int) ^ 53 \<Longrightarrow> fl (- numeral m) = - numeral m"
  by (simp add: fl_uminus)

lemma pyround_neg_numeral [simp]: "numeral m \<le> (2::int) ^ 53 \<Longrightarrow> pyround (- numeral m) n = - numeral m"
  by (simp add: pyround_uminus)

lemma rhe_numeral [simp]: "round_half_even (numeral m) = numeral m" "round_half_even 1 = 1"
    "round_half_even 0 = 0"
  using rhe_of_int [of "numeral m"] rhe_of_int [of 1] rhe_of_int [of 0] by simp_all

lemma py_int_numeral [simp]: "py_int (numeral m) = numeral m" "py_int 0 = 0" "py_int 1 = 1"
  by (simp_all add: py_int_def)

lemma py_int_mono: "x \<le> y \<Longrightarrow> py_int x \<le> py_int y"
proof -
  assume xy: "x \<le> y"
  consider "0 \<le> x" | "x < 0" "0 \<le> y" | "y < 0" by linarith
  then show ?thesis
  proof cases
    case 2
    then have "\<lceil>x\<rceil> \<le> 0" "0 \<le> \<lfloor>y\<rfloor>" by simp_all
    then have "\<lceil>x\<rceil> \<le> \<lfloor>y\<rfloor>" by (rule order_trans)
    then show ?thesis using 2 by (simp add: py_int_def)
  qed (use xy in \<open>simp_all add: py_int_def floor_mono ceiling_mono\<close>)
qed

lemmas float_mono = fl_mono pyround_mono rhe_mono

end
