(* ===== verification/Py_Base.thy ===== *)
theory Py_Base
  imports Py_Float "HOL-Library.AList"
begin

text \<open>
  The part of Python the models share: exceptions as values, dynamically typed values and
  dictionaries (association lists in insertion order, updated by \<open>AList.update\<close> as a
  Python dict is), ASCII strings with \<open>strip\<close>, \<open>lower\<close>, \<open>upper\<close>, and datetimes.
  A string is a list of ASCII characters; characters outside ASCII are not modelled.
\<close>

named_theorems res_simps \<open>inversion of the exception monad\<close>

section \<open>Exceptions\<close>

datatype py_error =
    ValueError string
  | TypeError string
  | KeyError string
  | AssertionError
  | ZeroDivisionError
  | RuntimeError string
  | IndexError
  | AttributeError string
  | QueueEmpty

type_synonym 'a res = "py_error + 'a"

abbreviation raise :: "py_error \<Rightarrow> 'a res" where
  "raise e \<equiv> Inl e"

abbreviation ok :: "'a \<Rightarrow> 'a res" where
  "ok x \<equiv> Inr x"

definition rbind :: "'a res \<Rightarrow> ('a \<Rightarrow> 'b res) \<Rightarrow> 'b res" where
  "rbind m f = (case m of Inl e \<Rightarrow> Inl e | Inr x \<Rightarrow> f x)"

section \<open>Values and dictionaries\<close>

text \<open>A datetime is its wall-clock time in microseconds since the epoch and, when aware,
  its offset from UTC in microseconds.\<close>

datatype datetime = Datetime (wall: int) (utcoffset: "int option")

datatype pyval =
    VNone
  | VBool bool
  | VInt int
  | VFloat rat
  | VStr string
  | VTime datetime
  | VList "pyval list"
  | VDict "(string \<times> pyval) list"

type_synonym pydict = "(string \<times> pyval) list"

definition dget :: "pydict \<Rightarrow> string \<Rightarrow> pyval" where
  "dget d k = (case map_of d k of None \<Rightarrow> VNone | Some v \<Rightarrow> v)"

abbreviation dset :: "string \<Rightarrow> pyval \<Rightarrow> pydict \<Rightarrow> pydict" where
  "dset \<equiv> AList.update"

text \<open>\<open>d.update(e)\<close> and the display \<open>{**d, **e}\<close>.\<close>

definition dmerge :: "pydict \<Rightarrow> pydict \<Rightarrow> pydict" where
  "dmerge d e = fold (\<lambda>(k, v). dset k v) e d"

fun truthy :: "pyval \<Rightarrow> bool" where
  "truthy VNone = False"
| "truthy (VBool b) = b"
| "truthy (VInt n) = (n \<noteq> 0)"
| "truthy (VFloat x) = (x \<noteq> 0)"
| "truthy (VStr s) = (s \<noteq> [])"
| "truthy (VTime t) = True"
| "truthy (VList xs) = (xs \<noteq> [])"
| "truthy (VDict d) = (d \<noteq> [])"

definition opt_float :: "rat option \<Rightarrow> pyval" where
  "opt_float x = (case x of None \<Rightarrow> VNone | Some v \<Rightarrow> VFloat v)"

definition opt_int :: "int option \<Rightarrow> pyval" where
  "opt_int x = (case x of None \<Rightarrow> VNone | Some v \<Rightarrow> VInt v)"

definition opt_str :: "string option \<Rightarrow> pyval" where
  "opt_str x = (case x of None \<Rightarrow> VNone | Some v \<Rightarrow> VStr v)"

section \<open>Strings\<close>

definition is_space :: "char \<Rightarrow> bool" where
  "is_space c = (let n = (of_char c :: nat) in n = 32 \<or> (9 \<le> n \<and> n \<le> 13) \<or> (28 \<le> n \<and> n \<le> 31))"

definition is_upper :: "char \<Rightarrow> bool" where
  "is_upper c = (let n = (of_char c :: nat) in 65 \<le> n \<and> n \<le> 90)"

definition is_lower :: "char \<Rightarrow> bool" where
  "is_lower c = (let n = (of_char c :: nat) in 97 \<le> n \<and> n \<le> 122)"

definition is_digit :: "char \<Rightarrow> bool" where
  "is_digit c = (let n = (of_char c :: nat) in 48 \<le> n \<and> n \<le> 57)"

definition is_alnum :: "char \<Rightarrow> bool" where
  "is_alnum c = (is_upper c \<or> is_lower c \<or> is_digit c)"

definition lower_char :: "char \<Rightarrow> char" where
  "lower_char c = (if is_upper c then char_of ((of_char c :: nat) + 32) else c)"

definition upper_char :: "char \<Rightarrow> char" where
  "upper_char c = (if is_lower c then char_of ((of_char c :: nat) - 32) else c)"

definition strip :: "string \<Rightarrow> string" where
  "strip s = rev (dropWhile is_space (rev (dropWhile is_space s)))"

definition lower :: "string \<Rightarrow> string" where
  "lower s = map lower_char s"

definition upper :: "string \<Rightarrow> string" where
  "upper s = map upper_char s"

fun starts_with :: "string \<Rightarrow> string \<Rightarrow> bool" where
  "starts_with s [] = True"
| "starts_with [] (p # ps) = False"
| "starts_with (c # s) (p # ps) = (c = p \<and> starts_with s ps)"

fun contains_str :: "string \<Rightarrow> string \<Rightarrow> bool" where
  "contains_str [] p = (p = [])"
| "contains_str (c # s) p = (starts_with (c # s) p \<or> contains_str s p)"

text \<open>\<open>s.split(sep)\<close> on one character; the second argument collects the current part.\<close>

fun split_char :: "char \<Rightarrow> string \<Rightarrow> string \<Rightarrow> string list" where
  "split_char sep acc [] = [acc]"
| "split_char sep acc (c # cs) =
    (if c = sep then acc # split_char sep [] cs else split_char sep (acc @ [c]) cs)"

text \<open>\<open>str(n)\<close> of an integer.\<close>

function dec_str :: "int \<Rightarrow> string" where
  "dec_str n = (if n < 10 then [char_of (48 + nat n)]
     else dec_str (n div 10) @ [char_of (48 + nat (n mod 10))])"
  by pat_completeness auto
termination
  by (relation "measure nat") auto

declare dec_str.simps [simp del]

definition int_str :: "int \<Rightarrow> string" where
  "int_str n = (if n < 0 then CHR ''-'' # dec_str (- n) else dec_str n)"

text \<open>\<open>int(x)\<close> of a value; a string is stripped, may carry a sign, and single underscores may
  separate its digits.\<close>

definition digit_val :: "char \<Rightarrow> int" where
  "digit_val c = int (of_char c) - 48"

fun digits_val :: "int \<Rightarrow> bool \<Rightarrow> string \<Rightarrow> int option" where
  "digits_val acc dig [] = (if dig then Some acc else None)"
| "digits_val acc dig (c # cs) =
     (if is_digit c then digits_val (acc * 10 + digit_val c) True cs
      else if c = CHR ''_'' \<and> dig then digits_val acc False cs
      else None)"

definition parse_int :: "string \<Rightarrow> int option" where
  "parse_int s = (case strip s of
      [] \<Rightarrow> None
    | c # cs \<Rightarrow> if c = CHR ''-'' then map_option uminus (digits_val 0 False cs)
               else if c = CHR ''+'' then digits_val 0 False cs
               else digits_val 0 False (c # cs))"

fun py_int_of :: "pyval \<Rightarrow> int res" where
  "py_int_of (VInt n) = ok n"
| "py_int_of (VBool b) = ok (if b then 1 else 0)"
| "py_int_of (VFloat x) = ok (py_int x)"
| "py_int_of (VStr s) = (case parse_int s of
     None \<Rightarrow> raise (ValueError ''invalid literal for int() with base 10'') | Some n \<Rightarrow> ok n)"
| "py_int_of v = raise (TypeError ''int() argument must be a string or a number'')"

text \<open>\<open>float(x)\<close> of a value; \<open>pf\<close> is the parser of \<open>float(text)\<close>, None where it raises.\<close>

fun py_float_of :: "(string \<Rightarrow> rat option) \<Rightarrow> pyval \<Rightarrow> rat res" where
  "py_float_of pf (VFloat x) = ok x"
| "py_float_of pf (VInt n) = ok (fl (of_int n))"
| "py_float_of pf (VBool b) = ok (if b then 1 else 0)"
| "py_float_of pf (VStr s) = (case pf s of Some x \<Rightarrow> ok x
     | None \<Rightarrow> raise (ValueError ''could not convert string to float''))"
| "py_float_of pf v = raise (TypeError ''float() argument must be a string or a real number'')"

fun py_type_name :: "pyval \<Rightarrow> string" where
  "py_type_name VNone = ''NoneType''"
| "py_type_name (VBool b) = ''bool''"
| "py_type_name (VInt n) = ''int''"
| "py_type_name (VFloat x) = ''float''"
| "py_type_name (VStr s) = ''str''"
| "py_type_name (VTime t) = ''datetime.datetime''"
| "py_type_name (VList xs) = ''list''"
| "py_type_name (VDict d) = ''dict''"

text \<open>\<open>list(x or [])\<close>: a string iterates its characters, a dictionary its keys.\<close>

definition list_or_empty :: "pyval \<Rightarrow> pyval list res" where
  "list_or_empty v = (if \<not> truthy v then ok [] else case v of
      VList xs \<Rightarrow> ok xs
    | VStr s \<Rightarrow> ok (map (\<lambda>c. VStr [c]) s)
    | VDict d \<Rightarrow> ok (map (\<lambda>(k, _). VStr k) d)
    | _ \<Rightarrow> raise (TypeError (CHR 0x27 # py_type_name v @ CHR 0x27 # '' object is not iterable'')))"

text \<open>\<open>x or y\<close>.\<close>

definition py_or :: "pyval \<Rightarrow> pyval \<Rightarrow> pyval" where
  "py_or x y = (if truthy x then x else y)"

text \<open>\<open>str(x or "").strip()\<close> and \<open>s or None\<close>.\<close>

definition opt_text :: "string option \<Rightarrow> string" where
  "opt_text x = strip (case x of None \<Rightarrow> [] | Some s \<Rightarrow> s)"

definition some_text :: "string \<Rightarrow> string option" where
  "some_text s = (if s = [] then None else Some s)"

text \<open>\<open>x or y\<close> of optional texts.\<close>

definition text_or :: "string option \<Rightarrow> string option \<Rightarrow> string option" where
  "text_or x y = (case x of None \<Rightarrow> y | Some s \<Rightarrow> if s = [] then y else x)"

text \<open>\<open>sum(xs)\<close> of floats as CPython 3.12 computes it: added from left to right, with the rounding
  error of each addition collected in \<open>c\<close> and added at the end (Neumaier's summation).\<close>

definition sum_step :: "rat \<Rightarrow> rat \<times> rat \<Rightarrow> rat \<times> rat" where
  "sum_step x rc = (let (r, c) = rc; t = fl (r + x)
     in (t, fl (c + (if \<bar>x\<bar> \<le> \<bar>r\<bar> then fl (fl (r - t) + x) else fl (fl (x - t) + r)))))"

definition py_sum :: "rat list \<Rightarrow> rat" where
  "py_sum xs = (let (r, c) = fold sum_step xs (0, 0) in if c = 0 then r else fl (r + c))"

text \<open>\<open>len(x)\<close> of a value, and \<open>list(dict.fromkeys(xs))\<close>: the first occurrences, in order.\<close>

fun py_len :: "pyval \<Rightarrow> int res" where
  "py_len (VList xs) = ok (int (length xs))"
| "py_len (VStr s) = ok (int (length s))"
| "py_len (VDict d) = ok (int (length d))"
| "py_len v = raise (TypeError (''object of type '' @ CHR 0x27 # py_type_name v @ CHR 0x27 # '' has no len()''))"

fun from_keys :: "'a list \<Rightarrow> 'a list" where
  "from_keys [] = []"
| "from_keys (x # xs) = x # filter (\<lambda>y. y \<noteq> x) (from_keys xs)"

section \<open>Datetimes\<close>

definition utc_us :: "datetime \<Rightarrow> int" where
  "utc_us t = (case utcoffset t of None \<Rightarrow> wall t | Some off \<Rightarrow> wall t - off)"

text \<open>\<open>a - b\<close> in microseconds; mixing naive and aware datetimes raises.\<close>

definition dt_sub :: "datetime \<Rightarrow> datetime \<Rightarrow> int res" where
  "dt_sub a b =
     (if (utcoffset a = None) \<noteq> (utcoffset b = None)
      then raise (TypeError ''can't subtract offset-naive and offset-aware datetimes'')
      else ok (utc_us a - utc_us b))"

text \<open>\<open>a >= b\<close> raises in the same way.\<close>

definition dt_ge :: "datetime \<Rightarrow> datetime \<Rightarrow> bool res" where
  "dt_ge a b =
     (if (utcoffset a = None) \<noteq> (utcoffset b = None)
      then raise (TypeError ''can't compare offset-naive and offset-aware datetimes'')
      else ok (utc_us b \<le> utc_us a))"

definition replace_tz :: "int option \<Rightarrow> datetime \<Rightarrow> datetime" where
  "replace_tz tz t = Datetime (wall t) tz"

definition astimezone_utc :: "datetime \<Rightarrow> datetime" where
  "astimezone_utc t = Datetime (utc_us t) (Some 0)"

text \<open>\<open>timedelta.total_seconds()\<close>.\<close>

definition total_seconds :: "int \<Rightarrow> rat" where
  "total_seconds us = fl (of_int us / 1000000)"

text \<open>\<open>value.replace(tzinfo=utc)\<close> of a naive datetime, \<open>astimezone(utc)\<close> of an aware one.\<close>

definition as_utc :: "datetime \<Rightarrow> datetime" where
  "as_utc t = (if utcoffset t = None then replace_tz (Some 0) t else astimezone_utc t)"

text \<open>A naive datetime read as UTC, an aware one kept; \<open>s.replace("Z", "+00:00")\<close>.\<close>

definition aware :: "datetime \<Rightarrow> datetime" where
  "aware t = (if utcoffset t = None then replace_tz (Some 0) t else t)"

definition replace_Z :: "string \<Rightarrow> string" where
  "replace_Z s = concat (map (\<lambda>c. if c = CHR ''Z'' then ''+00:00'' else [c]) s)"

text \<open>\<open>t.timestamp()\<close>: a naive datetime is read in the machine's local zone, whose offset is
  the first argument.\<close>

definition timestamp :: "int \<Rightarrow> datetime \<Rightarrow> rat" where
  "timestamp local_off t =
     (case utcoffset t of None \<Rightarrow> total_seconds (wall t - local_off)
                        | Some off \<Rightarrow> total_seconds (wall t - off))"

text \<open>The start of a UTC day, \<open>replace(hour=0, minute=0, second=0, microsecond=0)\<close>, in UTC
  microseconds, and the calendar day (UTC) of an aware datetime as a day number.\<close>

definition day_start :: "int \<Rightarrow> int" where
  "day_start us = us - us mod 86400000000"

definition utc_day :: "datetime \<Rightarrow> int" where
  "utc_day t = utc_us t div 86400000000"

section \<open>Lemmas\<close>

lemma rbind_simps [simp]: "rbind (Inl e) f = Inl e" "rbind (Inr x) f = f x"
  by (simp_all add: rbind_def)

lemma rbind_eq_Inr [res_simps]: "rbind m f = Inr y \<longleftrightarrow> (\<exists>x. m = Inr x \<and> f x = Inr y)"
  by (cases m) simp_all

lemma rbind_eq_Inl [res_simps]:
  "rbind m f = Inl e \<longleftrightarrow> m = Inl e \<or> (\<exists>x. m = Inr x \<and> f x = Inl e)"
  by (cases m) auto

lemma map_of_update [simp]: "map_of (AList.update k v d) = (map_of d)(k \<mapsto> v)"
  by (rule update_conv')

lemma dget_dset [simp]: "dget (dset k v d) k' = (if k' = k then v else dget d k')"
  by (simp add: dget_def)

lemma distinct_dset: "distinct (map fst d) \<Longrightarrow> distinct (map fst (dset k v d))"
  by (rule distinct_update)

lemmas str_eval = lower_def upper_def strip_def is_space_def is_upper_def is_lower_def is_digit_def
  is_alnum_def lower_char_def upper_char_def

lemma lower_char_idem [simp]: "lower_char (lower_char c) = lower_char c"
  by (auto simp: lower_char_def is_upper_def Let_def)

lemma lower_idem [simp]: "lower (lower s) = lower s"
  by (simp add: lower_def)

lemma length_lower [simp]: "length (lower s) = length s"
  by (simp add: lower_def)

lemma length_upper [simp]: "length (upper s) = length s"
  by (simp add: upper_def)

lemma upper_Nil [simp]: "upper [] = []" and lower_Nil [simp]: "lower [] = []"
  by (simp_all add: upper_def lower_def)

lemma upper_eq_Nil [simp]: "upper s = [] \<longleftrightarrow> s = []" and lower_eq_Nil [simp]: "lower s = [] \<longleftrightarrow> s = []"
  by (simp_all add: upper_def lower_def)

lemma strip_no_space: "list_all (\<lambda>c. \<not> is_space c) s \<Longrightarrow> strip s = s"
proof -
  assume a: "list_all (\<lambda>c. \<not> is_space c) s"
  have keep: "dropWhile is_space t = t" if "list_all (\<lambda>c. \<not> is_space c) t" for t
    using that by (cases t) auto
  have "list_all (\<lambda>c. \<not> is_space c) (rev s)" using a by (simp add: list_all_iff)
  with a show ?thesis by (simp add: strip_def keep)
qed

lemma dropWhile_idem: "dropWhile P (dropWhile P xs) = dropWhile P xs"
  by (induction xs) simp_all

lemma dropWhile_prefix:
  assumes "dropWhile P xs = xs" and "xs = ys @ zs"
  shows "dropWhile P ys = ys"
  using assms unfolding dropWhile_eq_self_iff by (cases ys) auto

lemma strip_strip [simp]: "strip (strip s) = strip s"
proof -
  let ?a = "dropWhile is_space s"
  have "rev (dropWhile is_space (rev ?a)) @ rev (takeWhile is_space (rev ?a)) = ?a"
    by (simp flip: rev_append)
  from dropWhile_prefix [OF dropWhile_idem this [symmetric]] show ?thesis
    unfolding strip_def by (simp add: dropWhile_idem)
qed

lemma opt_text_simps [simp]: "opt_text None = []" "opt_text (Some s) = strip s"
  by (simp_all add: opt_text_def strip_def)

lemma strip_opt_text [simp]: "strip (opt_text x) = opt_text x"
  by (simp add: opt_text_def)

lemma strip_Nil [simp]: "strip [] = []"
  by (simp add: strip_def)

lemma starts_with_append [simp]: "starts_with (p @ s) p"
  by (induction p) simp_all

lemma starts_with_iff: "starts_with s p \<longleftrightarrow> (\<exists>t. s = p @ t)"
  by (induction s p rule: starts_with.induct) auto

lemma total_seconds_mono: "a \<le> b \<Longrightarrow> total_seconds a \<le> total_seconds b"
  unfolding total_seconds_def by (intro fl_mono) (simp add: divide_right_mono)

lemma total_seconds_0 [simp]: "total_seconds 0 = 0"
  by (simp add: total_seconds_def)

lemma total_seconds_nonneg: "0 \<le> a \<Longrightarrow> 0 \<le> total_seconds a"
  using total_seconds_mono [of 0 a] by simp

lemma as_utc_simps [simp]: "utc_us (as_utc t) = utc_us t" "utcoffset (as_utc t) = Some 0"
  by (cases t; simp add: as_utc_def replace_tz_def astimezone_utc_def utc_us_def split: option.splits)+

lemma utc_us_Datetime [simp]: "utc_us (Datetime w (Some z)) = w - z" "utc_us (Datetime w None) = w"
  by (simp_all add: utc_us_def)

lemma utc_us_astimezone [simp]: "utc_us (astimezone_utc t) = utc_us t"
  by (simp add: astimezone_utc_def)

lemma day_start_mono: "a \<le> b \<Longrightarrow> day_start a \<le> day_start b"
proof -
  assume "a \<le> b"
  then have "a div 86400000000 * 86400000000 \<le> b div 86400000000 * 86400000000"
    by (intro mult_right_mono zdiv_mono1) simp_all
  then show ?thesis by (simp add: day_start_def minus_mod_eq_div_mult)
qed

lemma day_start_le: "day_start a \<le> a"
  by (simp add: day_start_def)

lemma dt_sub_as_utc [simp]: "dt_sub (as_utc a) (as_utc b) = ok (utc_us a - utc_us b)"
  by (simp add: dt_sub_def)

lemma dt_sub_same_kind [simp]:
  "dt_sub (Datetime a (Some x)) (Datetime b (Some y)) = ok ((a - x) - (b - y))"
  "dt_sub (Datetime a None) (Datetime b None) = ok (a - b)"
  by (simp_all add: dt_sub_def utc_us_def)

lemma upper_char_idem [simp]: "upper_char (upper_char c) = upper_char c"
  by (auto simp: upper_char_def is_lower_def Let_def)

lemma is_space_upper [simp]: "is_space (upper_char c) = is_space c"
  by (auto simp: is_space_def upper_char_def is_lower_def Let_def)

lemma is_space_lower [simp]: "is_space (lower_char c) = is_space c"
  by (auto simp: is_space_def lower_char_def is_upper_def Let_def)

lemma strip_upper: "strip (upper s) = upper (strip s)"
  by (simp add: strip_def upper_def dropWhile_map rev_map o_def)

lemma strip_lower: "strip (lower s) = lower (strip s)"
  by (simp add: strip_def lower_def dropWhile_map rev_map o_def)

lemma upper_upper [simp]: "upper (upper s) = upper s"
  by (simp add: upper_def)

text \<open>\<open>int(str(n))\<close> is the number again.\<close>

lemma digits_val_foldl:
  "list_all is_digit xs \<Longrightarrow> digits_val acc dig xs =
    (if xs = [] \<and> \<not> dig then None else Some (foldl (\<lambda>a c. a * 10 + digit_val c) acc xs))"
  by (induction xs arbitrary: acc dig) auto

lemma digit_char: "0 \<le> d \<Longrightarrow> d < 10 \<Longrightarrow>
    is_digit (char_of (48 + nat d)) \<and> digit_val (char_of (48 + nat d)) = d"
  by (simp add: is_digit_def digit_val_def of_char_of Let_def)

lemma dec_str_digits:
  "0 \<le> n \<Longrightarrow> dec_str n \<noteq> [] \<and> list_all is_digit (dec_str n) \<and> foldl (\<lambda>a c. a * 10 + digit_val c) 0 (dec_str n) = n"
proof (induction n rule: dec_str.induct)
  case (1 n)
  show ?case
  proof (cases "n < 10")
    case True
    with 1 digit_char [of n] show ?thesis by (simp add: dec_str.simps [of n])
  next
    case False
    with 1 digit_char [of "n mod 10"] show ?thesis by (simp add: dec_str.simps [of n])
  qed
qed

lemma digit_not_special: "is_digit c \<Longrightarrow> \<not> is_space c \<and> c \<noteq> CHR ''-'' \<and> c \<noteq> CHR ''+''"
  by (auto simp: is_digit_def is_space_def Let_def)

lemma int_str_stripped: "strip (int_str n) = int_str n \<and> int_str n \<noteq> []"
proof -
  have "list_all (\<lambda>c. \<not> is_space c) (int_str n)"
    using dec_str_digits [of n] dec_str_digits [of "- n"] digit_not_special
    by (auto simp: int_str_def list_all_iff is_space_def)
  moreover have "int_str n \<noteq> []" using dec_str_digits [of n] by (auto simp: int_str_def)
  ultimately show ?thesis by (simp add: strip_no_space)
qed

lemma parse_int_str: "parse_int (int_str n) = Some n"
proof (cases "n < 0")
  case True
  then show ?thesis using int_str_stripped [of n] dec_str_digits [of "- n"]
    by (simp add: parse_int_def int_str_def digits_val_foldl)
next
  case False
  then obtain c cs where "dec_str n = c # cs" "is_digit c" using dec_str_digits [of n] by (cases "dec_str n") auto
  with False show ?thesis using int_str_stripped [of n] dec_str_digits [of n] digit_not_special [of c]
    by (simp add: parse_int_def int_str_def digits_val_foldl)
qed

lemma set_update_subset: "set (AList.update k v d) \<subseteq> insert (k, v) (set d)"
  by (induction d) auto

lemma fold_max_ge: "(x::'a::linorder) \<in> set (p # ps) \<Longrightarrow> x \<le> fold max ps p"
  by (simp flip: Max.set_eq_fold)

lemma fold_min_le: "(x::'a::linorder) \<in> set (p # ps) \<Longrightarrow> fold min ps p \<le> x"
  by (simp flip: Min.set_eq_fold)

end
