(* ===== verification/Recovery_Models.thy ===== *)
theory Recovery_Models
  imports Py_Base
begin

text \<open>
  The data model of the bounded recovery subsystem
  (\<^verbatim>\<open>src/src/trading/recovery/models.py\<close>): the policy, the cycle state, the market snapshot,
  the decision, the scaling intent and the execution plan. A dataclass is a record; its
  \<open>__post_init__\<close> is a function from the field values to the object or the ValueError,
  and is what every construction of the object (\<open>dataclasses.replace\<close> included) goes
  through.
\<close>

section \<open>RecoveryPolicy\<close>

record recovery_policy =
  rp_enabled :: bool
  rp_base_volume :: rat
  rp_multiplier :: rat
  rp_max_steps :: int
  rp_max_total_volume :: rat
  rp_step_distance_points :: rat
  rp_recovery_target_points :: rat
  rp_point :: rat
  rp_max_next_volume :: "rat option"
  rp_min_step_interval_ms :: int
  rp_max_step_adverse_move_points :: rat
  rp_volume_step :: rat
  rp_contract_size :: rat
  rp_direction_mode :: string
  rp_min_directional_move_points :: rat
  rp_max_directional_move_points :: rat
  rp_min_pressure_delta :: rat
  rp_max_entry_spread_points :: "rat option"
  rp_slippage_budget_points :: rat
  rp_commission_points :: rat
  rp_min_net_profit_points :: rat
  rp_max_cycle_loss_points :: rat
  rp_max_cycle_duration_seconds :: rat
  rp_max_steps_exit_mode :: string
  rp_max_steps_hold_seconds :: rat

text \<open>\<open>str(x or default).strip().lower()\<close>.\<close>

definition norm_or :: "string \<Rightarrow> string \<Rightarrow> string" where
  "norm_or dflt s = lower (strip (if s = [] then dflt else s))"

definition RecoveryPolicy :: "recovery_policy \<Rightarrow> recovery_policy res" where
  "RecoveryPolicy p0 =
    (let direction_mode = norm_or ''fixed'' (rp_direction_mode p0) in
     if direction_mode \<notin> {''fixed'', ''auto''}
     then raise (ValueError ''direction_mode must be fixed or auto'')
     else let p = p0\<lparr>rp_direction_mode := direction_mode\<rparr> in
     if rp_base_volume p \<le> 0 then raise (ValueError ''base_volume must be > 0'')
     else if rp_multiplier p < 1 then raise (ValueError ''multiplier must be >= 1.0'')
     else if rp_max_steps p < 0 then raise (ValueError ''max_steps must be >= 0'')
     else if rp_max_total_volume p < rp_base_volume p
       then raise (ValueError ''max_total_volume must be >= base_volume'')
     else if (case rp_max_next_volume p of None \<Rightarrow> False | Some v \<Rightarrow> v \<le> 0)
       then raise (ValueError ''max_next_volume must be None or > 0'')
     else if rp_step_distance_points p \<le> 0
       then raise (ValueError ''step_distance_points must be > 0'')
     else if rp_recovery_target_points p < 0
       then raise (ValueError ''recovery_target_points must be >= 0'')
     else if rp_point p \<le> 0 then raise (ValueError ''point must be > 0'')
     else if rp_min_step_interval_ms p < 0
       then raise (ValueError ''min_step_interval_ms must be >= 0'')
     else if rp_max_step_adverse_move_points p < 0
       then raise (ValueError ''max_step_adverse_move_points must be >= 0'')
     else if rp_volume_step p < 0 then raise (ValueError ''volume_step must be >= 0'')
     else if rp_contract_size p \<le> 0 then raise (ValueError ''contract_size must be > 0'')
     else if rp_min_directional_move_points p < 0
       then raise (ValueError ''min_directional_move_points must be >= 0'')
     else if rp_max_directional_move_points p < 0
       then raise (ValueError ''max_directional_move_points must be >= 0'')
     else if rp_min_pressure_delta p < 0
       then raise (ValueError ''min_pressure_delta must be >= 0'')
     else if (case rp_max_entry_spread_points p of None \<Rightarrow> False | Some v \<Rightarrow> v \<le> 0)
       then raise (ValueError ''max_entry_spread_points must be None or > 0'')
     else if rp_slippage_budget_points p < 0
       then raise (ValueError ''slippage_budget_points must be >= 0'')
     else if rp_commission_points p < 0
       then raise (ValueError ''commission_points must be >= 0'')
     else if rp_min_net_profit_points p < 0
       then raise (ValueError ''min_net_profit_points must be >= 0'')
     else if rp_max_cycle_loss_points p < 0
       then raise (ValueError ''max_cycle_loss_points must be >= 0'')
     else if rp_max_cycle_duration_seconds p < 0
       then raise (ValueError ''max_cycle_duration_seconds must be >= 0'')
     else if rp_max_steps_hold_seconds p < 0
       then raise (ValueError ''max_steps_hold_seconds must be >= 0'')
     else let max_steps_exit_mode = norm_or ''hold'' (rp_max_steps_exit_mode p) in
     if max_steps_exit_mode \<notin> {''hold'', ''close_cycle''}
     then raise (ValueError ''max_steps_exit_mode must be hold or close_cycle'')
     else ok (p\<lparr>rp_max_steps_exit_mode := max_steps_exit_mode\<rparr>))"

section \<open>RecoveryCycleState\<close>

record recovery_cycle =
  rc_cycle_id :: string
  rc_account_key :: string
  rc_symbol :: string
  rc_direction :: string
  rc_status :: string
  rc_base_volume :: rat
  rc_total_volume :: rat
  rc_step_count :: int
  rc_average_entry_price :: rat
  rc_last_entry_price :: rat
  rc_started_at :: datetime
  rc_updated_at :: datetime
  rc_last_step_at :: "datetime option"
  rc_strategy :: string
  rc_timeframe :: string
  rc_source_signal_id :: "string option"
  rc_metadata :: pydict

text \<open>The check normalises the direction and the status only to test them: the object keeps
  the strings it was given.\<close>

definition RecoveryCycleState :: "recovery_cycle \<Rightarrow> recovery_cycle res" where
  "RecoveryCycleState c =
    (let direction = lower (strip (rc_direction c)) in
     if direction \<notin> {''buy'', ''sell''} then raise (ValueError ''direction must be buy or sell'')
     else let status = lower (strip (rc_status c)) in
     if status \<notin> {''open'', ''closed'', ''blocked''}
       then raise (ValueError ''status must be open, closed, or blocked'')
     else if rc_base_volume c \<le> 0 then raise (ValueError ''base_volume must be > 0'')
     else if rc_total_volume c \<le> 0 then raise (ValueError ''total_volume must be > 0'')
     else if rc_step_count c < 0 then raise (ValueError ''step_count must be >= 0'')
     else if rc_average_entry_price c \<le> 0 \<or> rc_last_entry_price c \<le> 0
       then raise (ValueError ''entry prices must be > 0'')
     else ok c)"

record recovery_cycle_record =
  rr_account_alias :: string
  rr_account_key :: string
  rr_cycle_id :: string
  rr_symbol :: string
  rr_direction :: string
  rr_strategy :: string
  rr_timeframe :: string
  rr_source_signal_id :: "string option"
  rr_status :: string
  rr_status_reason :: "string option"
  rr_base_volume :: rat
  rr_total_volume :: rat
  rr_step_count :: int
  rr_average_entry_price :: rat
  rr_last_entry_price :: rat
  rr_started_at :: datetime
  rr_last_step_at :: "datetime option"
  rr_closed_at :: "datetime option"
  rr_close_price :: "rat option"
  rr_realized_pnl :: "rat option"
  rr_metadata :: pydict
  rr_updated_at :: "datetime option"

definition from_cycle ::
  "recovery_cycle \<Rightarrow> string \<Rightarrow> string \<Rightarrow> string option \<Rightarrow> datetime option \<Rightarrow> rat option \<Rightarrow>
   rat option \<Rightarrow> datetime option \<Rightarrow> recovery_cycle_record" where
  "from_cycle cycle account_alias account_key status_reason closed_at close_price realized_pnl
     updated_at =
   \<lparr>rr_account_alias = account_alias, rr_account_key = account_key,
    rr_cycle_id = rc_cycle_id cycle, rr_symbol = rc_symbol cycle,
    rr_direction = rc_direction cycle, rr_strategy = rc_strategy cycle,
    rr_timeframe = rc_timeframe cycle, rr_source_signal_id = rc_source_signal_id cycle,
    rr_status = rc_status cycle, rr_status_reason = status_reason,
    rr_base_volume = rc_base_volume cycle, rr_total_volume = rc_total_volume cycle,
    rr_step_count = rc_step_count cycle, rr_average_entry_price = rc_average_entry_price cycle,
    rr_last_entry_price = rc_last_entry_price cycle, rr_started_at = rc_started_at cycle,
    rr_last_step_at = rc_last_step_at cycle, rr_closed_at = closed_at,
    rr_close_price = close_price, rr_realized_pnl = realized_pnl,
    rr_metadata = rc_metadata cycle,
    rr_updated_at = Some (case updated_at of Some t \<Rightarrow> t | None \<Rightarrow> rc_updated_at cycle)\<rparr>"

section \<open>RecoveryMarketSnapshot\<close>

record recovery_snapshot =
  rs_symbol :: string
  rs_bid :: "rat option"
  rs_ask :: "rat option"
  rs_time :: datetime
  rs_time_msc :: "int option"

definition has_bid_ask :: "recovery_snapshot \<Rightarrow> bool" where
  "has_bid_ask s = (rs_bid s \<noteq> None \<and> rs_ask s \<noteq> None)"

definition snapshot_entry_price :: "recovery_snapshot \<Rightarrow> string \<Rightarrow> rat option res" where
  "snapshot_entry_price s direction =
    (let normalized = lower (strip direction) in
     if normalized = ''buy'' then ok (rs_ask s)
     else if normalized = ''sell'' then ok (rs_bid s)
     else raise (ValueError ''direction must be buy or sell''))"

definition snapshot_exit_price :: "recovery_snapshot \<Rightarrow> string \<Rightarrow> rat option res" where
  "snapshot_exit_price s direction =
    (let normalized = lower (strip direction) in
     if normalized = ''buy'' then ok (rs_bid s)
     else if normalized = ''sell'' then ok (rs_ask s)
     else raise (ValueError ''direction must be buy or sell''))"

section \<open>RecoveryDecision, PositionScalingIntent, RecoveryExecutionPlan\<close>

record recovery_decision =
  rd_action :: string
  rd_reason :: string
  rd_step_index :: "int option"
  rd_volume :: "rat option"
  rd_entry_price :: "rat option"
  rd_exit_price :: "rat option"
  rd_metadata :: pydict

record scaling_intent =
  si_cycle_id :: string
  si_account_key :: string
  si_symbol :: string
  si_direction :: string
  si_strategy :: string
  si_timeframe :: string
  si_step_index :: int
  si_volume :: rat
  si_entry_price :: "rat option"
  si_reason :: string
  si_created_at :: datetime
  si_source_signal_id :: "string option"
  si_metadata :: pydict

definition PositionScalingIntent :: "scaling_intent \<Rightarrow> scaling_intent res" where
  "PositionScalingIntent i =
    (if strip (si_cycle_id i) = [] then raise (ValueError ''cycle_id is required'')
     else if strip (si_account_key i) = [] then raise (ValueError ''account_key is required'')
     else if strip (si_symbol i) = [] then raise (ValueError ''symbol is required'')
     else let direction = lower (strip (si_direction i)) in
     if direction \<notin> {''buy'', ''sell''} then raise (ValueError ''direction must be buy or sell'')
     else if si_step_index i \<le> 0 then raise (ValueError ''step_index must be > 0'')
     else if si_volume i \<le> 0 then raise (ValueError ''volume must be > 0'')
     else if (case si_entry_price i of None \<Rightarrow> False | Some p \<Rightarrow> p \<le> 0)
       then raise (ValueError ''entry_price must be None or > 0'')
     else if strip (si_reason i) = [] then raise (ValueError ''reason is required'')
     else ok (i\<lparr>si_direction := direction\<rparr>))"

record execution_plan =
  ep_action :: string
  ep_reason :: string
  ep_cycle_id :: string
  ep_account_key :: string
  ep_created_at :: datetime
  ep_intent :: "scaling_intent option"
  ep_exit_price :: "rat option"
  ep_metadata :: pydict

definition plan_intent :: "recovery_cycle \<Rightarrow> recovery_decision \<Rightarrow> datetime \<Rightarrow> scaling_intent res" where
  "plan_intent cycle decision created_at =
    (case rd_step_index decision of
       None \<Rightarrow> raise (ValueError ''open_step decision requires step_index'')
     | Some idx \<Rightarrow>
    (case rd_volume decision of
       None \<Rightarrow> raise (ValueError ''open_step decision requires volume'')
     | Some vol \<Rightarrow>
    (case rd_entry_price decision of
       None \<Rightarrow> raise (ValueError ''open_step decision requires entry_price'')
     | Some price \<Rightarrow>
       PositionScalingIntent
        \<lparr>si_cycle_id = rc_cycle_id cycle, si_account_key = rc_account_key cycle,
         si_symbol = rc_symbol cycle, si_direction = rc_direction cycle,
         si_strategy = rc_strategy cycle, si_timeframe = rc_timeframe cycle,
         si_step_index = idx, si_volume = vol, si_entry_price = Some price,
         si_reason = rd_reason decision, si_created_at = created_at,
         si_source_signal_id = rc_source_signal_id cycle,
         si_metadata = rd_metadata decision\<rparr>)))"

definition from_decision ::
  "recovery_cycle \<Rightarrow> recovery_decision \<Rightarrow> datetime \<Rightarrow> execution_plan res" where
  "from_decision cycle decision created_at =
    (let action = lower (strip (rd_action decision));
         plan = (\<lambda>i. \<lparr>ep_action = action, ep_reason = rd_reason decision,
            ep_cycle_id = rc_cycle_id cycle, ep_account_key = rc_account_key cycle,
            ep_created_at = created_at, ep_intent = i, ep_exit_price = rd_exit_price decision,
            ep_metadata = rd_metadata decision\<rparr>)
     in if action \<notin> {''open_step'', ''close_cycle'', ''hold'', ''block''}
        then raise (ValueError ''unsupported recovery action'')
        else if action = ''open_step''
        then rbind (plan_intent cycle decision created_at) (\<lambda>i. ok (plan (Some i)))
        else ok (plan None))"

section \<open>Well-formed objects\<close>

lemmas recovery_model_defs = RecoveryPolicy_def RecoveryCycleState_def PositionScalingIntent_def

text \<open>What a policy that was constructed guarantees to the controller.\<close>

lemma RecoveryPolicy_valid:
  assumes "RecoveryPolicy p0 = ok p"
  shows "0 < rp_base_volume p" "1 \<le> rp_multiplier p" "0 \<le> rp_max_steps p"
    "rp_base_volume p \<le> rp_max_total_volume p" "0 < rp_step_distance_points p" "0 < rp_point p"
    "0 \<le> rp_volume_step p" "0 < rp_contract_size p" "0 \<le> rp_recovery_target_points p"
    "rp_direction_mode p \<in> {''fixed'', ''auto''}"
    "rp_max_steps_exit_mode p \<in> {''hold'', ''close_cycle''}"
  using assms by (auto simp: RecoveryPolicy_def Let_def split: if_splits)

lemma RecoveryCycleState_ok_iff:
  "RecoveryCycleState c = ok d \<longleftrightarrow> d = c \<and> lower (strip (rc_direction c)) \<in> {''buy'', ''sell''} \<and>
    lower (strip (rc_status c)) \<in> {''open'', ''closed'', ''blocked''} \<and> 0 < rc_base_volume c \<and>
    0 < rc_total_volume c \<and> 0 \<le> rc_step_count c \<and>
    0 < rc_average_entry_price c \<and> 0 < rc_last_entry_price c"
  by (auto simp: RecoveryCycleState_def Let_def)

lemma PositionScalingIntent_ok_iff:
  "PositionScalingIntent i = ok j \<longleftrightarrow>
    j = i\<lparr>si_direction := lower (strip (si_direction i))\<rparr> \<and>
    strip (si_cycle_id i) \<noteq> [] \<and> strip (si_account_key i) \<noteq> [] \<and> strip (si_symbol i) \<noteq> [] \<and>
    lower (strip (si_direction i)) \<in> {''buy'', ''sell''} \<and> 0 < si_step_index i \<and> 0 < si_volume i \<and>
    (\<forall>p. si_entry_price i = Some p \<longrightarrow> 0 < p) \<and> strip (si_reason i) \<noteq> []"
  by (auto simp: PositionScalingIntent_def Let_def split: option.splits)

section \<open>Example objects\<close>

definition policy_example :: recovery_policy where
  "policy_example = \<lparr>rp_enabled = True, rp_base_volume = 1, rp_multiplier = 2, rp_max_steps = 3,
     rp_max_total_volume = 10, rp_step_distance_points = 10, rp_recovery_target_points = 5, rp_point = 1,
     rp_max_next_volume = Some 4, rp_min_step_interval_ms = 0, rp_max_step_adverse_move_points = 0,
     rp_volume_step = 1, rp_contract_size = 100, rp_direction_mode = ''fixed'',
     rp_min_directional_move_points = 0, rp_max_directional_move_points = 0, rp_min_pressure_delta = 0,
     rp_max_entry_spread_points = None, rp_slippage_budget_points = 0, rp_commission_points = 0,
     rp_min_net_profit_points = 0, rp_max_cycle_loss_points = 50, rp_max_cycle_duration_seconds = 0,
     rp_max_steps_exit_mode = ''hold'', rp_max_steps_hold_seconds = 0\<rparr>"

definition cycle_example :: "string \<Rightarrow> recovery_cycle" where
  "cycle_example direction = \<lparr>rc_cycle_id = ''c1'', rc_account_key = ''acct'', rc_symbol = ''XAUUSD'',
     rc_direction = direction, rc_status = ''open'', rc_base_volume = 1, rc_total_volume = 1,
     rc_step_count = 0, rc_average_entry_price = 100, rc_last_entry_price = 100,
     rc_started_at = Datetime 0 (Some 0), rc_updated_at = Datetime 0 (Some 0),
     rc_last_step_at = Some (Datetime 0 (Some 0)), rc_strategy = ''s'', rc_timeframe = ''M5'',
     rc_source_signal_id = None, rc_metadata = []\<rparr>"

definition snapshot_example :: "rat \<Rightarrow> recovery_snapshot" where
  "snapshot_example bid = \<lparr>rs_symbol = ''XAUUSD'', rs_bid = Some bid, rs_ask = Some (bid + 2),
     rs_time = Datetime 1000000 (Some 0), rs_time_msc = None\<rparr>"

lemmas recovery_examples = policy_example_def cycle_example_def snapshot_example_def

lemma policy_example_valid: "RecoveryPolicy policy_example = ok policy_example"
  by (simp add: RecoveryPolicy_def norm_or_def policy_example_def str_eval Let_def)

lemma cycle_example_valid: "RecoveryCycleState (cycle_example ''buy'') = ok (cycle_example ''buy'')"
  by (simp add: RecoveryCycleState_def cycle_example_def str_eval Let_def)

end
