(* ===== verification/Recovery_Controller.thy ===== *)
theory Recovery_Controller
  imports Recovery_Models
begin

text \<open>
  The bounded recovery state machine (\<^verbatim>\<open>src/src/trading/recovery/controller.py\<close>) and the
  exit model it delegates to (\<open>RecoveryExitModel\<close> of
  \<^verbatim>\<open>src/src/trading/recovery/entry_policies.py\<close>): the decision for the next step of a cycle,
  the decision to close it, the state after an executed step and the estimated profit.
\<close>

section \<open>Helpers of the controller\<close>

definition mk_decision ::
  "string \<Rightarrow> string \<Rightarrow> int option \<Rightarrow> rat option \<Rightarrow> rat option \<Rightarrow> rat option \<Rightarrow> pydict \<Rightarrow> recovery_decision" where
  "mk_decision action reason step_index volume entry_price exit_price metadata =
     \<lparr>rd_action = action, rd_reason = reason, rd_step_index = step_index, rd_volume = volume,
      rd_entry_price = entry_price, rd_exit_price = exit_price, rd_metadata = metadata\<rparr>"

abbreviation plain_decision :: "string \<Rightarrow> string \<Rightarrow> pydict \<Rightarrow> recovery_decision" where
  "plain_decision action reason metadata \<equiv> mk_decision action reason None None None None metadata"

definition round_volume :: "rat \<Rightarrow> rat \<Rightarrow> rat" where
  "round_volume value step =
     (if step \<le> 0 then pyround value 8
      else pyround (fl (fl (of_int (round_half_even (fl (value / step)))) * step)) 8)"

definition elapsed_ms :: "datetime option \<Rightarrow> datetime \<Rightarrow> int option res" where
  "elapsed_ms previous now =
     (case previous of None \<Rightarrow> ok None
      | Some prev \<Rightarrow> rbind (dt_sub now prev) (\<lambda>d. ok (Some (max 0 (py_int (fl (total_seconds d * 1000)))))))"

definition adverse_move_points :: "recovery_policy \<Rightarrow> recovery_cycle \<Rightarrow> recovery_snapshot \<Rightarrow> rat res" where
  "adverse_move_points policy cycle snapshot =
     rbind (snapshot_exit_price snapshot (rc_direction cycle)) (\<lambda>p.
       case p of None \<Rightarrow> raise AssertionError
       | Some exit_price \<Rightarrow>
           let adverse = (if rc_direction cycle = ''buy''
                          then max 0 (fl (rc_last_entry_price cycle - exit_price))
                          else max 0 (fl (exit_price - rc_last_entry_price cycle)))
           in if rp_point policy = 0 then raise ZeroDivisionError
              else ok (pyround (fl (adverse / rp_point policy)) 10))"

section \<open>evaluate_next_step\<close>

text \<open>The sizing half of the decision, reached once every guard before it has passed.\<close>

definition size_next_step ::
  "recovery_policy \<Rightarrow> recovery_cycle \<Rightarrow> recovery_snapshot \<Rightarrow> rat \<Rightarrow> recovery_decision res" where
  "size_next_step policy cycle snapshot adverse =
    (let step_index = rc_step_count cycle + 1;
         next_volume = round_volume
           (fl (rc_base_volume cycle * py_pow (rp_multiplier policy) (nat step_index)))
           (rp_volume_step policy)
     in if (case rp_max_next_volume policy of None \<Rightarrow> False | Some cap \<Rightarrow> cap < next_volume)
        then ok (mk_decision ''block'' ''max_next_volume_exceeded'' (Some step_index) (Some next_volume)
               None None [(''next_volume'', VFloat next_volume),
                          (''max_next_volume'', opt_float (rp_max_next_volume policy))])
        else let total_after = round_volume (fl (rc_total_volume cycle + next_volume)) (rp_volume_step policy)
     in if rp_max_total_volume policy < total_after
        then ok (mk_decision ''block'' ''max_total_volume_exceeded'' (Some step_index) (Some next_volume)
               None None [(''total_after'', VFloat total_after),
                          (''max_total_volume'', VFloat (rp_max_total_volume policy))])
        else rbind (snapshot_entry_price snapshot (rc_direction cycle)) (\<lambda>entry_price.
             ok (mk_decision ''open_step'' ''adverse_move_triggered'' (Some step_index) (Some next_volume)
               entry_price None [(''adverse_move_points'', VFloat adverse),
                                 (''total_after'', VFloat total_after)])))"

definition evaluate_next_step ::
  "recovery_policy \<Rightarrow> recovery_cycle \<Rightarrow> recovery_snapshot \<Rightarrow> datetime option \<Rightarrow> recovery_decision res" where
  "evaluate_next_step policy cycle snapshot now =
    (let observed_at = (case now of Some t \<Rightarrow> t | None \<Rightarrow> rs_time snapshot)
     in if \<not> rp_enabled policy then ok (plain_decision ''hold'' ''policy_disabled'' [])
        else if rc_status cycle \<noteq> ''open'' then ok (plain_decision ''hold'' ''cycle_not_open'' [])
        else if rs_symbol snapshot \<noteq> rc_symbol cycle
        then ok (plain_decision ''block'' ''symbol_mismatch''
               [(''expected'', VStr (rc_symbol cycle)), (''actual'', VStr (rs_symbol snapshot))])
        else if \<not> has_bid_ask snapshot then ok (plain_decision ''block'' ''quote_side_missing'' [])
        else if rp_max_steps policy \<le> rc_step_count cycle
        then ok (plain_decision ''block'' ''max_steps_reached''
               [(''step_count'', VInt (rc_step_count cycle)), (''max_steps'', VInt (rp_max_steps policy))])
        else rbind (elapsed_ms (rc_last_step_at cycle) observed_at) (\<lambda>elapsed.
        if (case elapsed of None \<Rightarrow> False | Some ms \<Rightarrow> ms < rp_min_step_interval_ms policy)
        then ok (plain_decision ''hold'' ''step_cooldown_active''
               [(''elapsed_ms'', opt_int elapsed),
                (''min_step_interval_ms'', VInt (rp_min_step_interval_ms policy))])
        else rbind (adverse_move_points policy cycle snapshot) (\<lambda>adverse.
        if adverse < rp_step_distance_points policy
        then ok (plain_decision ''hold'' ''adverse_move_below_trigger''
               [(''adverse_move_points'', VFloat adverse),
                (''step_distance_points'', VFloat (rp_step_distance_points policy))])
        else if 0 < rp_max_step_adverse_move_points policy \<and>
                rp_max_step_adverse_move_points policy < adverse
        then ok (plain_decision ''hold'' ''step_adverse_move_overextended''
               [(''adverse_move_points'', VFloat adverse),
                (''step_distance_points'', VFloat (rp_step_distance_points policy)),
                (''max_step_adverse_move_points'', VFloat (rp_max_step_adverse_move_points policy))])
        else size_next_step policy cycle snapshot adverse)))"

section \<open>apply_open_step and estimate_pnl\<close>

definition apply_open_step ::
  "recovery_cycle \<Rightarrow> recovery_decision \<Rightarrow> datetime \<Rightarrow> recovery_cycle res" where
  "apply_open_step cycle decision now =
    (if rd_action decision \<noteq> ''open_step'' then raise (ValueError ''decision must be open_step'')
     else case (rd_volume decision, rd_entry_price decision, rd_step_index decision) of
       (Some volume, Some entry_price, Some step_index) \<Rightarrow>
         let new_total = fl (rc_total_volume cycle + volume)
         in if new_total = 0 then raise ZeroDivisionError
            else let new_average = fl (fl (fl (rc_average_entry_price cycle * rc_total_volume cycle) +
                                           fl (entry_price * volume)) / new_total)
         in RecoveryCycleState (cycle\<lparr>rc_total_volume := pyround new_total 8,
              rc_step_count := step_index, rc_average_entry_price := pyround new_average 10,
              rc_last_entry_price := entry_price, rc_last_step_at := Some now,
              rc_updated_at := now\<rparr>)
     | _ \<Rightarrow> raise (ValueError ''open_step decision requires volume, entry_price, and step_index''))"

definition estimate_pnl :: "recovery_policy \<Rightarrow> recovery_cycle \<Rightarrow> rat \<Rightarrow> rat" where
  "estimate_pnl policy cycle exit_price =
    (let raw = (if rc_direction cycle = ''buy''
                then fl (fl (exit_price - rc_average_entry_price cycle) * rc_total_volume cycle)
                else fl (fl (rc_average_entry_price cycle - exit_price) * rc_total_volume cycle))
     in pyround (fl (raw * rp_contract_size policy)) 10)"

section \<open>RecoveryExitModel\<close>

definition favorable_points :: "recovery_policy \<Rightarrow> recovery_cycle \<Rightarrow> rat \<Rightarrow> rat res" where
  "favorable_points policy cycle exit_price =
    (let raw = (if rc_direction cycle = ''buy'' then fl (exit_price - rc_average_entry_price cycle)
                else fl (rc_average_entry_price cycle - exit_price))
     in if rp_point policy = 0 then raise ZeroDivisionError
        else ok (pyround (fl (raw / rp_point policy)) 10))"

text \<open>Both ages first give a naive side the zone of the other one.\<close>

definition cycle_age_seconds :: "recovery_cycle \<Rightarrow> recovery_snapshot \<Rightarrow> rat res" where
  "cycle_age_seconds cycle snapshot =
    (let observed0 = rs_time snapshot;
         started = (if utcoffset (rc_started_at cycle) = None
                    then replace_tz (utcoffset observed0) (rc_started_at cycle) else rc_started_at cycle);
         observed = (if utcoffset observed0 = None \<and> utcoffset started \<noteq> None
                     then replace_tz (utcoffset started) observed0 else observed0)
     in rbind (dt_sub observed started) (\<lambda>d. ok (pyround (max 0 (total_seconds d)) 10)))"

definition last_step_age_seconds :: "recovery_cycle \<Rightarrow> recovery_snapshot \<Rightarrow> rat option res" where
  "last_step_age_seconds cycle snapshot =
    (case rc_last_step_at cycle of None \<Rightarrow> ok None
     | Some last0 \<Rightarrow>
         let observed0 = rs_time snapshot;
             last_step = (if utcoffset last0 = None \<and> utcoffset observed0 \<noteq> None
                          then replace_tz (utcoffset observed0) last0 else last0);
             observed = (if utcoffset observed0 = None \<and> utcoffset last_step \<noteq> None
                         then replace_tz (utcoffset last_step) observed0 else observed0)
         in rbind (dt_sub observed last_step) (\<lambda>d. ok (Some (pyround (max 0 (total_seconds d)) 10))))"

definition exit_decision :: "string \<Rightarrow> string \<Rightarrow> rat \<Rightarrow> pydict \<Rightarrow> recovery_decision" where
  "exit_decision action reason exit_price metadata =
     mk_decision action reason None None None (Some exit_price) metadata"

text \<open>The ordered exit rules, from the favourable move at the exit price.\<close>

definition exit_rules ::
  "recovery_policy \<Rightarrow> recovery_cycle \<Rightarrow> recovery_snapshot \<Rightarrow> rat \<Rightarrow> rat \<Rightarrow> recovery_decision res" where
  "exit_rules policy cycle snapshot exit_price favorable =
    (let cost_buffer = pyround (fl (rp_slippage_budget_points policy + rp_commission_points policy)) 10;
         net_profit = pyround (fl (favorable - cost_buffer)) 10;
         m0 = [(''exit_price'', VFloat exit_price), (''favorable_points'', VFloat favorable),
               (''cost_buffer_points'', VFloat cost_buffer), (''net_profit_points'', VFloat net_profit),
               (''target_net_points'', VFloat (rp_recovery_target_points policy))]
     in if 0 < rp_recovery_target_points policy \<and> rp_recovery_target_points policy \<le> net_profit
        then ok (exit_decision ''close_cycle'' ''net_recovery_target_reached'' exit_price m0)
        else let max_loss = rp_max_cycle_loss_points policy;
                 loss = pyround (max 0 (- net_profit)) 10;
                 m1 = m0 @ [(''loss_points'', VFloat loss), (''max_cycle_loss_points'', VFloat max_loss)]
     in if 0 < max_loss \<and> max_loss \<le> loss
        then ok (exit_decision ''close_cycle'' ''cycle_loss_limit_reached'' exit_price m1)
        else rbind (cycle_age_seconds cycle snapshot) (\<lambda>age.
             let max_duration = rp_max_cycle_duration_seconds policy;
                 m2 = m1 @ [(''cycle_age_seconds'', VFloat age),
                            (''max_cycle_duration_seconds'', VFloat max_duration)]
     in if 0 < max_duration \<and> max_duration \<le> age
        then ok (exit_decision ''close_cycle'' ''max_cycle_duration_reached'' exit_price m2)
        else rbind (last_step_age_seconds cycle snapshot) (\<lambda>hold_elapsed.
             let max_hold = rp_max_steps_hold_seconds policy;
                 m3 = m2 @ [(''step_count'', VInt (rc_step_count cycle)),
                            (''max_steps'', VInt (rp_max_steps policy)),
                            (''max_steps_exit_mode'', VStr (rp_max_steps_exit_mode policy)),
                            (''max_steps_hold_seconds'', VFloat max_hold),
                            (''max_steps_hold_elapsed_seconds'', opt_float hold_elapsed)]
     in if 0 < max_hold \<and> rp_max_steps policy \<le> rc_step_count cycle \<and>
           (case hold_elapsed of None \<Rightarrow> False | Some h \<Rightarrow> max_hold \<le> h)
        then ok (exit_decision ''close_cycle'' ''max_steps_hold_time_reached'' exit_price m3)
        else if rp_max_steps_exit_mode policy = ''close_cycle'' \<and> rp_max_steps policy \<le> rc_step_count cycle
        then ok (exit_decision ''close_cycle'' ''max_steps_exit_reached'' exit_price m3)
        else if rp_recovery_target_points policy \<le> 0
        then ok (exit_decision ''hold'' ''recovery_target_disabled'' exit_price m3)
        else ok (exit_decision ''hold'' ''net_recovery_target_not_reached'' exit_price m3))))"

definition evaluate_exit ::
  "recovery_policy \<Rightarrow> recovery_cycle \<Rightarrow> recovery_snapshot \<Rightarrow> recovery_decision res" where
  "evaluate_exit policy cycle snapshot =
    (if rc_status cycle \<noteq> ''open'' then ok (plain_decision ''hold'' ''cycle_not_open'' [])
     else if rs_symbol snapshot \<noteq> rc_symbol cycle
     then ok (plain_decision ''block'' ''symbol_mismatch''
            [(''expected'', VStr (rc_symbol cycle)), (''actual'', VStr (rs_symbol snapshot))])
     else if \<not> has_bid_ask snapshot then ok (plain_decision ''block'' ''quote_side_missing'' [])
     else rbind (snapshot_exit_price snapshot (rc_direction cycle)) (\<lambda>p.
       case p of None \<Rightarrow> raise AssertionError
       | Some exit_price \<Rightarrow> rbind (favorable_points policy cycle exit_price) (exit_rules policy cycle snapshot exit_price)))"

definition evaluate_cycle_exit ::
  "recovery_policy \<Rightarrow> recovery_cycle \<Rightarrow> recovery_snapshot \<Rightarrow> recovery_decision res" where
  "evaluate_cycle_exit = evaluate_exit"

section \<open>Lemmas\<close>

lemma mk_decision_simps [simp]:
  "rd_action (mk_decision a r i v e x m) = a" "rd_reason (mk_decision a r i v e x m) = r"
  "rd_step_index (mk_decision a r i v e x m) = i" "rd_volume (mk_decision a r i v e x m) = v"
  "rd_entry_price (mk_decision a r i v e x m) = e" "rd_exit_price (mk_decision a r i v e x m) = x"
  "rd_metadata (mk_decision a r i v e x m) = m"
  by (simp_all add: mk_decision_def)

lemma exit_decision_simps [simp]:
  "rd_action (exit_decision a r p m) = a" "rd_reason (exit_decision a r p m) = r"
  "rd_exit_price (exit_decision a r p m) = Some p"
  by (simp_all add: exit_decision_def)

lemma size_next_step_open:
  assumes "size_next_step policy cycle snapshot adverse = ok d" and "rd_action d = ''open_step''"
  obtains v where "rd_step_index d = Some (rc_step_count cycle + 1)" "rd_volume d = Some v"
    "v = round_volume (fl (rc_base_volume cycle * py_pow (rp_multiplier policy)
           (nat (rc_step_count cycle + 1)))) (rp_volume_step policy)"
    "\<forall>cap. rp_max_next_volume policy = Some cap \<longrightarrow> v \<le> cap"
    "round_volume (fl (rc_total_volume cycle + v)) (rp_volume_step policy) \<le> rp_max_total_volume policy"
    "snapshot_entry_price snapshot (rc_direction cycle) = ok (rd_entry_price d)"
    "rd_reason d = ''adverse_move_triggered''"
  using assms by (auto simp: size_next_step_def Let_def res_simps split: if_splits option.splits)

lemma has_bid_ask_prices:
  assumes "has_bid_ask s" and "snapshot_entry_price s dir = ok p"
  shows "\<exists>x. p = Some x"
  using assms
  by (cases "rs_bid s"; cases "rs_ask s")
    (auto simp: has_bid_ask_def snapshot_entry_price_def Let_def split: if_splits dest: sym)

text \<open>Everything an escalation decision has been checked against.\<close>

lemma evaluate_next_step_open:
  assumes "evaluate_next_step policy cycle snapshot now = ok d" and "rd_action d = ''open_step''"
  obtains adverse elapsed where "rp_enabled policy" "rc_status cycle = ''open''"
    "rs_symbol snapshot = rc_symbol cycle" "has_bid_ask snapshot"
    "rc_step_count cycle < rp_max_steps policy"
    "elapsed_ms (rc_last_step_at cycle) (case now of Some t \<Rightarrow> t | None \<Rightarrow> rs_time snapshot) = ok elapsed"
    "case elapsed of None \<Rightarrow> True | Some ms \<Rightarrow> rp_min_step_interval_ms policy \<le> ms"
    "adverse_move_points policy cycle snapshot = ok adverse"
    "rp_step_distance_points policy \<le> adverse"
    "0 < rp_max_step_adverse_move_points policy \<longrightarrow> adverse \<le> rp_max_step_adverse_move_points policy"
    "size_next_step policy cycle snapshot adverse = ok d"
proof -
  let ?at = "case now of Some t \<Rightarrow> t | None \<Rightarrow> rs_time snapshot"
  have g: "rp_enabled policy" "rc_status cycle = ''open''" "rs_symbol snapshot = rc_symbol cycle"
      "has_bid_ask snapshot" "rc_step_count cycle < rp_max_steps policy"
    using assms by (auto simp: evaluate_next_step_def Let_def split: if_splits)
  then obtain elapsed adverse where e: "elapsed_ms (rc_last_step_at cycle) ?at = ok elapsed"
    and a: "adverse_move_points policy cycle snapshot = ok adverse"
    and c: "case elapsed of None \<Rightarrow> True | Some ms \<Rightarrow> rp_min_step_interval_ms policy \<le> ms"
    using assms by (auto simp: evaluate_next_step_def Let_def res_simps split: if_splits option.splits)
  with g have "rp_step_distance_points policy \<le> adverse"
      "0 < rp_max_step_adverse_move_points policy \<longrightarrow> adverse \<le> rp_max_step_adverse_move_points policy"
      "size_next_step policy cycle snapshot adverse = ok d"
    using assms by (auto simp: evaluate_next_step_def Let_def split: if_splits option.splits)
  with g e a c that show ?thesis by blast
qed

lemma apply_open_step_ok:
  assumes "apply_open_step c d t = ok c'" and "rd_volume d = Some v" and "rd_step_index d = Some i"
  shows "rc_total_volume c' = pyround (fl (rc_total_volume c + v)) 8" "rc_step_count c' = i"
    "rc_status c' = rc_status c" "rc_direction c' = rc_direction c" "rc_symbol c' = rc_symbol c"
    "rc_cycle_id c' = rc_cycle_id c" "rc_base_volume c' = rc_base_volume c"
    "rd_entry_price d = Some (rc_last_entry_price c')"
  using assms
  by (auto simp: apply_open_step_def Let_def RecoveryCycleState_ok_iff split: if_splits option.splits)

lemma round_volume_mono: "x \<le> y \<Longrightarrow> 0 \<le> step \<Longrightarrow> round_volume x step \<le> round_volume y step"
  by (auto simp: round_volume_def intro!: float_mono mult_right_mono divide_right_mono)

lemma round_volume_nonneg: "0 \<le> x \<Longrightarrow> 0 \<le> step \<Longrightarrow> 0 \<le> round_volume x step"
  using round_volume_mono [of 0 x step] rhe_of_int [of 0] by (simp add: round_volume_def split: if_splits)

lemma dt_sub_same: "(utcoffset a = None) = (utcoffset b = None) \<Longrightarrow> dt_sub a b = ok (utc_us a - utc_us b)"
  by (simp add: dt_sub_def)

lemma utcoffset_replace_tz [simp]: "utcoffset (replace_tz z t) = z"
  by (simp add: replace_tz_def)

text \<open>The two ages align the zones before they subtract, so they never raise.\<close>

lemma cycle_age_defined: "\<exists>a. cycle_age_seconds cycle snapshot = ok a \<and> 0 \<le> a"
  by (cases "utcoffset (rs_time snapshot)"; cases "utcoffset (rc_started_at cycle)")
    (simp_all add: cycle_age_seconds_def Let_def dt_sub_same pyround_nonneg)

lemma last_step_age_defined: "\<exists>a. last_step_age_seconds cycle snapshot = ok a"
  by (cases "utcoffset (rs_time snapshot)")
    (auto simp: last_step_age_seconds_def Let_def dt_sub_same split: option.splits)

lemma valid_direction_prices:
  assumes "lower (strip dir) \<in> {''buy'', ''sell''}" and "has_bid_ask s"
  shows "\<exists>x. snapshot_exit_price s dir = ok (Some x)" "\<exists>x. snapshot_entry_price s dir = ok (Some x)"
  using assms by (auto simp: snapshot_exit_price_def snapshot_entry_price_def has_bid_ask_def Let_def)

lemma favorable_points_defined: "rp_point policy \<noteq> 0 \<Longrightarrow> \<exists>x. favorable_points policy cycle p = ok x"
  by (simp add: favorable_points_def Let_def)

lemma evaluate_exit_total:
  assumes "RecoveryPolicy p0 = ok policy" and "RecoveryCycleState c0 = ok cycle"
  shows "\<exists>d. evaluate_exit policy cycle snapshot = ok d"
proof -
  have dir: "lower (strip (rc_direction cycle)) \<in> {''buy'', ''sell''}"
    using assms(2) by (auto simp: RecoveryCycleState_ok_iff)
  have "rp_point policy \<noteq> 0" using RecoveryPolicy_valid(6) [OF assms(1)] by simp
  then obtain f where f: "\<And>x. favorable_points policy cycle x = ok (f x)"
    using favorable_points_defined by metis
  obtain age where age: "cycle_age_seconds cycle snapshot = ok age" using cycle_age_defined by blast
  obtain hold where hold: "last_step_age_seconds cycle snapshot = ok hold" using last_step_age_defined by blast
  show ?thesis
  proof (cases "has_bid_ask snapshot")
    case True
    obtain x where "snapshot_exit_price snapshot (rc_direction cycle) = ok (Some x)"
      using valid_direction_prices(1) [OF dir True] by blast
    then show ?thesis using True by (simp add: evaluate_exit_def exit_rules_def f age hold Let_def)
  qed (simp add: evaluate_exit_def)
qed

text \<open>The cause of every close.\<close>

lemma exit_close_cause:
  assumes "evaluate_exit policy cycle snapshot = ok d" and "rd_action d = ''close_cycle''"
  shows "\<exists>price favorable. let net = pyround (fl (favorable -
            pyround (fl (rp_slippage_budget_points policy + rp_commission_points policy)) 10)) 10 in
        rc_status cycle = ''open'' \<and> rd_exit_price d = Some price \<and>
        snapshot_exit_price snapshot (rc_direction cycle) = ok (Some price) \<and>
        favorable_points policy cycle price = ok favorable \<and>
        (0 < rp_recovery_target_points policy \<and> rp_recovery_target_points policy \<le> net \<or>
         0 < rp_max_cycle_loss_points policy \<and> rp_max_cycle_loss_points policy \<le> pyround (max 0 (- net)) 10 \<or>
         (\<exists>age. cycle_age_seconds cycle snapshot = ok age \<and> 0 < rp_max_cycle_duration_seconds policy \<and>
            rp_max_cycle_duration_seconds policy \<le> age) \<or>
         rp_max_steps policy \<le> rc_step_count cycle \<and>
           (rp_max_steps_exit_mode policy = ''close_cycle'' \<or>
            (\<exists>h. last_step_age_seconds cycle snapshot = ok (Some h) \<and> 0 < rp_max_steps_hold_seconds policy \<and>
               rp_max_steps_hold_seconds policy \<le> h)))"
proof -
  have g: "rc_status cycle = ''open''" "rs_symbol snapshot = rc_symbol cycle" "has_bid_ask snapshot"
    using assms by (auto simp: evaluate_exit_def split: if_splits)
  then obtain price favorable where
    p: "snapshot_exit_price snapshot (rc_direction cycle) = ok (Some price)"
    and f: "favorable_points policy cycle price = ok favorable"
    using assms by (auto simp: evaluate_exit_def res_simps split: option.splits)
  obtain age where age: "cycle_age_seconds cycle snapshot = ok age" using cycle_age_defined by blast
  obtain hold where hold: "last_step_age_seconds cycle snapshot = ok hold" using last_step_age_defined by blast
  have ev: "exit_rules policy cycle snapshot price favorable = ok d"
    using assms(1) g p f by (simp add: evaluate_exit_def)
  have x: "rd_exit_price d = Some price"
    using ev age hold by (auto simp: exit_rules_def Let_def split: if_splits)
  let ?net = "pyround (fl (favorable -
            pyround (fl (rp_slippage_budget_points policy + rp_commission_points policy)) 10)) 10"
  have "0 < rp_recovery_target_points policy \<and> rp_recovery_target_points policy \<le> ?net \<or>
         0 < rp_max_cycle_loss_points policy \<and> rp_max_cycle_loss_points policy \<le> pyround (max 0 (- ?net)) 10 \<or>
         0 < rp_max_cycle_duration_seconds policy \<and> rp_max_cycle_duration_seconds policy \<le> age \<or>
         rp_max_steps policy \<le> rc_step_count cycle \<and>
           (rp_max_steps_exit_mode policy = ''close_cycle'' \<or>
            (\<exists>h. hold = Some h \<and> 0 < rp_max_steps_hold_seconds policy \<and> rp_max_steps_hold_seconds policy \<le> h))"
    (is "?T \<or> ?L \<or> ?A \<or> ?S")
  proof (rule ccontr)
    assume n: "\<not> (?T \<or> ?L \<or> ?A \<or> ?S)"
    then have n': "\<not> ?T" "\<not> ?L" "\<not> ?A" and s: "\<not> ?S" by blast+
    have "\<not> (0 < rp_max_steps_hold_seconds policy \<and> rp_max_steps policy \<le> rc_step_count cycle \<and>
        (case hold of None \<Rightarrow> False | Some h \<Rightarrow> rp_max_steps_hold_seconds policy \<le> h))"
      "\<not> (rp_max_steps_exit_mode policy = ''close_cycle'' \<and> rp_max_steps policy \<le> rc_step_count cycle)"
      using s by (auto split: option.splits)
    with n' ev assms(2) age hold show False by (auto simp: exit_rules_def Let_def split: if_splits)
  qed
  with g p f age hold x show ?thesis unfolding Let_def by blast
qed

section \<open>How much rounding hides\<close>

lemma fl_lower: "0 \<le> x \<Longrightarrow> x * (1 - 1 / 2 ^ 53) \<le> fl x"
  using abs_le_D2 [OF fl_error [of x]] by (simp add: algebra_simps)

lemma pyround_lower:
  assumes "0 \<le> x"
  shows "(x - 1 / (2 * 10 ^ 8)) * (1 - 1 / 2 ^ 53) \<le> pyround x 8"
proof -
  let ?m = "of_int (round_half_even (x * 10 ^ 8)) / 10 ^ 8 :: rat"
  have "round_half_even 0 \<le> round_half_even (x * 10 ^ 8)" using assms by (intro rhe_mono) simp
  then have "0 \<le> ?m" using rhe_of_int [of 0] by simp
  then have "?m * (1 - 1 / 2 ^ 53) \<le> pyround x 8" unfolding pyround_def by (rule fl_lower)
  moreover have "x - 1 / (2 * 10 ^ 8) \<le> ?m"
    using abs_le_D2 [OF rhe_error [of "x * 10 ^ 8"]] by (simp add: field_simps)
  then have "(x - 1 / (2 * 10 ^ 8)) * (1 - 1 / 2 ^ 53) \<le> ?m * (1 - 1 / 2 ^ 53)" by (intro mult_right_mono) simp_all
  ultimately show ?thesis by simp
qed

text \<open>A volume is at most half a step above what it is rounded to, float rounding included.\<close>

lemma round_volume_lower:
  assumes "0 \<le> x"
  shows "x \<le> (round_volume x step + max 0 step / 2 + 1 / 10 ^ 8) * (1 + 1 / 2 ^ 50)"
proof -
  define k where "k = (1 - 1 / 2 ^ 53 :: rat)"
  define h where "h = (1 / (2 * 10 ^ 8) :: rat)"
  have k: "0 < k" "k \<le> 1" "1 \<le> k ^ 4 * (1 + 1 / 2 ^ 50)" by (simp_all add: k_def power_divide)
  have kp: "k ^ n \<le> 1" for n using k by (simp add: power_le_one)
  have finish: ?thesis if "x * k ^ 4 \<le> round_volume x step + max 0 step / 2 + 1 / 10 ^ 8"
  proof -
    have "x * 1 \<le> x * (k ^ 4 * (1 + 1 / 2 ^ 50))" using assms k(3) by (intro mult_left_mono)
    also have "\<dots> = x * k ^ 4 * (1 + 1 / 2 ^ 50)" by (simp only: mult.assoc)
    also have "\<dots> \<le> (round_volume x step + max 0 step / 2 + 1 / 10 ^ 8) * (1 + 1 / 2 ^ 50)"
      using that by (intro mult_right_mono) simp_all
    finally show ?thesis by simp
  qed
  have hk: "h * k \<le> h" using k by (simp add: h_def)
  show ?thesis
  proof (cases "step \<le> 0")
    case True
    then have r: "(x - h) * k \<le> round_volume x step"
      using pyround_lower [OF assms] by (simp add: round_volume_def k_def h_def)
    have "x * k ^ 4 = x * k * k ^ 3" by (simp add: power_numeral_reduce)
    also have "\<dots> \<le> x * k * 1" using assms k kp by (intro mult_left_mono) simp_all
    finally have "x * k ^ 4 \<le> x * k" by simp
    with r hk have "x * k ^ 4 \<le> round_volume x step + h" by (simp add: algebra_simps)
    then show ?thesis using True by (intro finish) (simp add: h_def)
  next
    case False
    define q where "q = fl (x / step)"
    define n where "n = (of_int (round_half_even q) :: rat)"
    have q: "x / step * k \<le> q" using fl_lower [of "x / step"] assms False by (simp add: q_def k_def)
    have "0 \<le> q" using assms False by (simp add: q_def fl_nonneg)
    then have "round_half_even 0 \<le> round_half_even q" by (rule rhe_mono)
    then have n0: "0 \<le> n" using rhe_of_int [of 0] by (simp add: n_def)
    have n: "q \<le> n + 1 / 2" using abs_le_D2 [OF rhe_error [of q]] by (simp add: n_def)
    have f1: "n * k \<le> fl n" using fl_lower [OF n0] by (simp add: k_def)
    have "0 \<le> fl n * step" using n0 False by (simp add: fl_nonneg)
    then have f2: "fl n * step * k \<le> fl (fl n * step)" "0 \<le> fl (fl n * step)"
      using fl_lower [of "fl n * step"] by (simp_all add: k_def fl_nonneg)
    have r: "(fl (fl n * step) - h) * k \<le> round_volume x step"
      using pyround_lower [OF f2(2)] False by (simp add: round_volume_def k_def h_def n_def q_def)
    have "n * step * k ^ 2 \<le> fl n * step * k"
      using f1 k False by (simp add: power2_eq_square mult_right_mono mult.commute mult.left_commute)
    also note f2(1)
    finally have "n * step * k ^ 2 * k \<le> fl (fl n * step) * k" using k by (intro mult_right_mono) simp_all
    then have nr: "n * step * k ^ 3 \<le> round_volume x step + h"
      using r hk by (simp add: algebra_simps power_numeral_reduce)
    have "x * k \<le> n * step + step / 2" using order_trans [OF q n] False by (simp add: field_simps)
    then have "x * k * k ^ 3 \<le> (n * step + step / 2) * k ^ 3" using k by (intro mult_right_mono) simp_all
    also have "\<dots> = n * step * k ^ 3 + step / 2 * k ^ 3" by (rule distrib_right)
    also have "\<dots> \<le> round_volume x step + h + step / 2 * 1"
      using nr kp [of 3] False by (intro add_mono mult_left_mono) simp_all
    finally show ?thesis using False by (intro finish) (simp add: h_def power_numeral_reduce algebra_simps)
  qed
qed

section \<open>Properties\<close>

text \<open>C19: An escalation decision of the controller respects every configured gate: the policy
  is enabled and the cycle open on the quoted symbol, the step is the next one and within
  \<open>max_steps\<close>, its volume is within \<open>max_next_volume\<close>, the total after it, rounded to the
  volume step as the controller rounds it, is within \<open>max_total_volume\<close> (so the total itself, if not
  negative, is above that cap by at most half a volume step and the float rounding), the adverse move has reached the trigger distance and is not
  overextended, the cooldown has passed, and the entry price is the quote side a market order
  of the cycle's direction pays.\<close>

theorem next_step_respects_caps:
  assumes "evaluate_next_step policy cycle snapshot now = ok d" and "rd_action d = ''open_step''"
  shows "\<exists>v price adverse. rp_enabled policy \<and> rc_status cycle = ''open'' \<and>
    rs_symbol snapshot = rc_symbol cycle \<and>
    rd_step_index d = Some (rc_step_count cycle + 1) \<and> rc_step_count cycle + 1 \<le> rp_max_steps policy \<and>
    rd_volume d = Some v \<and> (\<forall>cap. rp_max_next_volume policy = Some cap \<longrightarrow> v \<le> cap) \<and>
    round_volume (fl (rc_total_volume cycle + v)) (rp_volume_step policy) \<le> rp_max_total_volume policy \<and>
    (0 \<le> rc_total_volume cycle + v \<longrightarrow> fl (rc_total_volume cycle + v) \<le>
      (rp_max_total_volume policy + max 0 (rp_volume_step policy) / 2 + 1 / 10 ^ 8) * (1 + 1 / 2 ^ 50)) \<and>
    adverse_move_points policy cycle snapshot = ok adverse \<and> rp_step_distance_points policy \<le> adverse \<and>
    (0 < rp_max_step_adverse_move_points policy \<longrightarrow> adverse \<le> rp_max_step_adverse_move_points policy) \<and>
    (\<forall>ms. elapsed_ms (rc_last_step_at cycle) (case now of Some t \<Rightarrow> t | None \<Rightarrow> rs_time snapshot) = ok (Some ms)
      \<longrightarrow> rp_min_step_interval_ms policy \<le> ms) \<and>
    rd_entry_price d = Some price \<and>
    snapshot_entry_price snapshot (rc_direction cycle) = ok (Some price)"
proof (rule evaluate_next_step_open [OF assms])
  fix adverse elapsed
  assume g: "rp_enabled policy" "rc_status cycle = ''open''" "rs_symbol snapshot = rc_symbol cycle"
    "has_bid_ask snapshot" "rc_step_count cycle < rp_max_steps policy"
    and e: "elapsed_ms (rc_last_step_at cycle) (case now of Some t \<Rightarrow> t | None \<Rightarrow> rs_time snapshot) = ok elapsed"
      "case elapsed of None \<Rightarrow> True | Some ms \<Rightarrow> rp_min_step_interval_ms policy \<le> ms"
    and a: "adverse_move_points policy cycle snapshot = ok adverse" "rp_step_distance_points policy \<le> adverse"
      "0 < rp_max_step_adverse_move_points policy \<longrightarrow> adverse \<le> rp_max_step_adverse_move_points policy"
    and size: "size_next_step policy cycle snapshot adverse = ok d"
  obtain v where v: "rd_step_index d = Some (rc_step_count cycle + 1)" "rd_volume d = Some v"
    "\<forall>cap. rp_max_next_volume policy = Some cap \<longrightarrow> v \<le> cap"
    "round_volume (fl (rc_total_volume cycle + v)) (rp_volume_step policy) \<le> rp_max_total_volume policy"
    and p: "snapshot_entry_price snapshot (rc_direction cycle) = ok (rd_entry_price d)"
    by (rule size_next_step_open [OF size assms(2)]) blast
  obtain price where price: "rd_entry_price d = Some price" using has_bid_ask_prices [OF g(4) p] by blast
  have cap: "fl (rc_total_volume cycle + v) \<le>
      (rp_max_total_volume policy + max 0 (rp_volume_step policy) / 2 + 1 / 10 ^ 8) * (1 + 1 / 2 ^ 50)"
    if "0 \<le> rc_total_volume cycle + v"
    by (rule order_trans [OF round_volume_lower [OF fl_nonneg [OF that], where step = "rp_volume_step policy"]])
      (intro mult_right_mono add_right_mono v(4), simp)
  have interval: "\<forall>ms. elapsed_ms (rc_last_step_at cycle) (case now of Some t \<Rightarrow> t | None \<Rightarrow> rs_time snapshot) = ok (Some ms) \<longrightarrow>
      rp_min_step_interval_ms policy \<le> ms"
    using e by auto
  show ?thesis
    by (rule exI [of _ v], rule exI [of _ price], rule exI [of _ adverse])
      (intro conjI, (use g a v p price interval in simp; fail | use cap in blast)+)
qed

lemma next_step_example:
  "evaluate_next_step policy_example (cycle_example ''buy'') (snapshot_example 80) None =
     ok (mk_decision ''open_step'' ''adverse_move_triggered'' (Some 1) (Some 2) (Some 82) None
       [(''adverse_move_points'', VFloat 20), (''total_after'', VFloat 3)])"
  by (simp add: evaluate_next_step_def recovery_examples has_bid_ask_def elapsed_ms_def total_seconds_def
      adverse_move_points_def snapshot_exit_price_def snapshot_entry_price_def size_next_step_def
      round_volume_def py_pow_def str_eval Let_def)

theorem next_step_respects_caps_witness:
  "\<exists>d v. evaluate_next_step policy_example (cycle_example ''buy'') (snapshot_example 80) None = ok d \<and>
     rd_action d = ''open_step'' \<and> rd_volume d = Some v \<and> v \<le> 4"
proof -
  have open_step: "rd_action (mk_decision ''open_step'' ''adverse_move_triggered'' (Some 1) (Some 2) (Some 82) None
      [(''adverse_move_points'', VFloat 20), (''total_after'', VFloat 3)]) = ''open_step''" by simp
  from next_step_respects_caps [OF next_step_example open_step]
  have "\<forall>cap. rp_max_next_volume policy_example = Some cap \<longrightarrow> 2 \<le> cap" by simp
  then have "(2::rat) \<le> 4" by (simp add: policy_example_def)
  then show ?thesis unfolding next_step_example by simp
qed

text \<open>C20: The exit model is total on constructed policies and cycles, whatever the zones of
  the datetimes, and every close it decides has its cause: the net profit in points (after the
  cost buffer) reached the recovery target, or the net loss reached the loss limit, or the
  cycle reached its maximum age, or it sits at \<open>max_steps\<close> with the hold time elapsed or the
  exit mode \<open>close_cycle\<close>. It closes at the side of the quote that exits the direction.\<close>

theorem exit_total_and_justified:
  assumes "RecoveryPolicy p0 = ok policy" and "RecoveryCycleState c0 = ok cycle"
  shows "\<exists>d. evaluate_cycle_exit policy cycle snapshot = ok d \<and>
    (rd_action d = ''close_cycle'' \<longrightarrow>
      (\<exists>price favorable. let net = pyround (fl (favorable -
            pyround (fl (rp_slippage_budget_points policy + rp_commission_points policy)) 10)) 10 in
        rc_status cycle = ''open'' \<and> rd_exit_price d = Some price \<and>
        snapshot_exit_price snapshot (rc_direction cycle) = ok (Some price) \<and>
        favorable_points policy cycle price = ok favorable \<and>
        (0 < rp_recovery_target_points policy \<and> rp_recovery_target_points policy \<le> net \<or>
         0 < rp_max_cycle_loss_points policy \<and> rp_max_cycle_loss_points policy \<le> pyround (max 0 (- net)) 10 \<or>
         (\<exists>age. cycle_age_seconds cycle snapshot = ok age \<and> 0 < rp_max_cycle_duration_seconds policy \<and>
            rp_max_cycle_duration_seconds policy \<le> age) \<or>
         rp_max_steps policy \<le> rc_step_count cycle \<and>
           (rp_max_steps_exit_mode policy = ''close_cycle'' \<or>
            (\<exists>h. last_step_age_seconds cycle snapshot = ok (Some h) \<and> 0 < rp_max_steps_hold_seconds policy \<and>
               rp_max_steps_hold_seconds policy \<le> h)))))"
proof -
  obtain d where d: "evaluate_exit policy cycle snapshot = ok d"
    using evaluate_exit_total [OF assms] by blast
  then show ?thesis unfolding evaluate_cycle_exit_def
    by (intro exI [of _ d] conjI impI exit_close_cause)
qed

theorem exit_total_and_justified_witness:
  "\<exists>d. evaluate_cycle_exit policy_example (cycle_example ''buy'') (snapshot_example 120) = ok d"
  using exit_total_and_justified [OF policy_example_valid cycle_example_valid, of "snapshot_example 120"]
  by blast

text \<open>A total-volume cap the controller does not keep: with a volume step the projected
  total is rounded to the step before it is compared, so a decision can be emitted whose
  unrounded total exceeds \<open>max_total_volume\<close>. Here a cycle of 1.25 lots with step 1 and cap 2
  is escalated to 2.25 lots.\<close>

theorem total_cap_lost_in_rounding:
  "let policy = policy_example\<lparr>rp_base_volume := 5/4, rp_multiplier := 1, rp_max_total_volume := 2\<rparr>;
       cycle = (cycle_example ''buy'')\<lparr>rc_base_volume := 5/4, rc_total_volume := 5/4\<rparr>
   in RecoveryPolicy policy = ok policy \<and> RecoveryCycleState cycle = ok cycle \<and>
      (\<exists>d c'. evaluate_next_step policy cycle (snapshot_example 80) None = ok d \<and>
        rd_action d = ''open_step'' \<and> apply_open_step cycle d (Datetime 1000000 (Some 0)) = ok c' \<and>
        rp_max_total_volume policy < rc_total_volume c')"
proof -
  have r: "fl (5/4) = 5/4" "round_half_even (5/4) = 1" "fl (9/4) = 9/4" "round_half_even (9/4) = 2"
    "pyround (9/4) 8 = 9/4" "fl 125 = 125" "fl 82 = 82" "fl 207 = 207" "fl 92 = 92" "pyround 92 10 = 92"
    by code_simp+
  show ?thesis
    by (simp add: RecoveryPolicy_def RecoveryCycleState_def norm_or_def evaluate_next_step_def
        recovery_examples has_bid_ask_def elapsed_ms_def total_seconds_def adverse_move_points_def
        snapshot_exit_price_def snapshot_entry_price_def size_next_step_def round_volume_def py_pow_def
        apply_open_step_def str_eval r Let_def)
qed

text \<open>A cycle whose direction is spelled \<open>BUY\<close> passes the construction check, which
  normalises the spelling only to test it, and is then valued as a sell cycle: 60 points above
  the entry the exit model closes it for its loss limit, where the same cycle spelled \<open>buy\<close>
  is closed for its profit target.\<close>

theorem mixed_case_direction_misvalued:
  "RecoveryCycleState (cycle_example ''BUY'') = ok (cycle_example ''BUY'') \<and>
   (\<exists>d. evaluate_cycle_exit policy_example (cycle_example ''BUY'') (snapshot_example 160) = ok d \<and>
      rd_reason d = ''cycle_loss_limit_reached'') \<and>
   (\<exists>d. evaluate_cycle_exit policy_example (cycle_example ''buy'') (snapshot_example 160) = ok d \<and>
      rd_reason d = ''net_recovery_target_reached'')"
proof -
  have r: "fl (- 60) = - 60" "pyround (- 60) 10 = - 60" 
    "char_of (117::nat) = CHR ''u''" "char_of (98::nat) = CHR ''b''" "char_of (121::nat) = CHR ''y''" by code_simp+
  show ?thesis
    by (simp add: RecoveryCycleState_def evaluate_cycle_exit_def evaluate_exit_def exit_rules_def
        favorable_points_def recovery_examples has_bid_ask_def snapshot_exit_price_def str_eval r Let_def)
qed

text \<open>The estimated profit of a cycle has the right sign: for a buy cycle it is
  non-negative when the exit price is at or above the average entry and non-positive when at
  or below, and the reverse for a sell cycle, binary64 and decimal rounding included.\<close>

theorem estimate_pnl_sign:
  assumes "0 < rc_total_volume cycle" and "0 < rp_contract_size policy"
  shows "(rc_direction cycle = ''buy'' \<longrightarrow>
      (rc_average_entry_price cycle \<le> exit_price \<longrightarrow> 0 \<le> estimate_pnl policy cycle exit_price) \<and>
      (exit_price \<le> rc_average_entry_price cycle \<longrightarrow> estimate_pnl policy cycle exit_price \<le> 0)) \<and>
    (rc_direction cycle = ''sell'' \<longrightarrow>
      (exit_price \<le> rc_average_entry_price cycle \<longrightarrow> 0 \<le> estimate_pnl policy cycle exit_price) \<and>
      (rc_average_entry_price cycle \<le> exit_price \<longrightarrow> estimate_pnl policy cycle exit_price \<le> 0))"
proof -
  have pos: "0 \<le> pyround (fl (fl (fl x * rc_total_volume cycle) * rp_contract_size policy)) 10"
    if "0 \<le> x" for x
    using that assms by (simp add: pyround_nonneg fl_nonneg)
  have neg: "pyround (fl (fl (fl x * rc_total_volume cycle) * rp_contract_size policy)) 10 \<le> 0"
    if "x \<le> 0" for x
    using that assms by (simp add: pyround_nonpos fl_nonpos mult_nonpos_nonneg)
  show ?thesis by (auto simp: estimate_pnl_def Let_def intro!: pos neg)
qed

theorem estimate_pnl_sign_witness:
  "(0::rat) < rc_total_volume (cycle_example ''buy'') \<and> 0 \<le> estimate_pnl policy_example (cycle_example ''buy'') 110"
proof -
  have h: "0 < rc_total_volume (cycle_example ''buy'')" "0 < rp_contract_size policy_example"
    by (simp_all add: cycle_example_def policy_example_def)
  show ?thesis using h(1) estimate_pnl_sign [OF h, of 110] by (simp add: cycle_example_def)
qed

end
