(* ===== verification/Py_Repr.thy ===== *)
theory Py_Repr
  imports Py_Base
begin

text \<open>
  \<open>str\<close>, \<open>repr\<close> and \<open>isoformat\<close> of the values of \<open>Py_Base\<close>: a float prints as the shortest
  decimal that reads back as the same binary64 value, in exponent form outside
  \<open>1e-4 <= x < 1e16\<close>; a string prints with Python's choice of quotes and escapes; a datetime
  prints in the proleptic Gregorian calendar.
\<close>

section \<open>Floats\<close>

definition pow10 :: "int \<Rightarrow> rat" where
  "pow10 e = (if 0 \<le> e then 10 ^ nat e else 1 / 10 ^ nat (- e))"

text \<open>The decimal exponent of a positive number, by search from an estimate on the binary one.\<close>

definition exponent10 :: "rat \<Rightarrow> int" where
  "exponent10 x =
    (let k = (exponent2 x * 30103) div 100000
     in if pow10 (k + 1) \<le> x then k + 1 else if pow10 k \<le> x then k else k - 1)"

fun shortest_digits :: "nat \<Rightarrow> nat \<Rightarrow> int \<Rightarrow> rat \<Rightarrow> int \<times> int" where
  "shortest_digits 0 n e x = (round_half_even (x / pow10 (e - int n + 1)), e - int n + 1)"
| "shortest_digits (Suc fuel) n e x =
    (let s = e - int n + 1; d = round_half_even (x / pow10 s)
     in if fl (of_int d * pow10 s) = x then (d, s) else shortest_digits fuel (Suc n) e x)"

definition zeros :: "nat \<Rightarrow> string" where
  "zeros n = replicate n (CHR ''0'')"

definition exp_str :: "int \<Rightarrow> string" where
  "exp_str e = (if e < 0 then ''-'' else ''+'') @
     (let t = dec_str \<bar>e\<bar> in if length t < 2 then CHR ''0'' # t else t)"

definition repr_pos_float :: "rat \<Rightarrow> string" where
  "repr_pos_float x =
    (let (d, s) = shortest_digits 16 1 (exponent10 x) x;
         raw = dec_str d;
         ds = rev (dropWhile (\<lambda>c. c = CHR ''0'') (rev raw));
         point = int (length raw) + s
     in if - 4 < point \<and> point \<le> 16
        then (if point \<le> 0 then ''0.'' @ zeros (nat (- point)) @ ds
              else if int (length ds) \<le> point then ds @ zeros (nat point - length ds) @ ''.0''
              else take (nat point) ds @ ''.'' @ drop (nat point) ds)
        else (case ds of [] \<Rightarrow> ''''
              | c # cs \<Rightarrow> (if cs = [] then [c] else c # CHR ''.'' # cs) @ ''e'' @ exp_str (point - 1)))"

definition repr_float :: "rat \<Rightarrow> string" where
  "repr_float x = (if x = 0 then ''0.0'' else if x < 0 then CHR ''-'' # repr_pos_float (- x)
                   else repr_pos_float x)"

section \<open>Strings\<close>

definition hex_digit :: "nat \<Rightarrow> char" where
  "hex_digit n = (if n < 10 then char_of (48 + n) else char_of (87 + n))"

definition repr_char :: "char \<Rightarrow> char \<Rightarrow> string" where
  "repr_char q c =
    (let n = (of_char c :: nat); bs = char_of (92 :: nat)
     in if c = q \<or> c = bs then [bs, c]
        else if n = 10 then [bs, CHR ''n''] else if n = 13 then [bs, CHR ''r'']
        else if n = 9 then [bs, CHR ''t'']
        else if n < 32 \<or> 127 \<le> n then [bs, CHR ''x'', hex_digit (n div 16), hex_digit (n mod 16)]
        else [c])"

definition repr_str :: "string \<Rightarrow> string" where
  "repr_str s =
    (let sq = char_of (39 :: nat); dq = char_of (34 :: nat);
         q = (if sq \<in> set s \<and> dq \<notin> set s then dq else sq)
     in q # concat (map (repr_char q) s) @ [q])"

section \<open>Datetimes\<close>

text \<open>Civil date of a day number (days since 1970-01-01).\<close>

definition civil_of_days :: "int \<Rightarrow> int \<times> int \<times> int" where
  "civil_of_days days =
    (let z = days + 719468; era = z div 146097; doe = z mod 146097;
         yoe = (doe - doe div 1460 + doe div 36524 - doe div 146096) div 365;
         doy = doe - (365 * yoe + yoe div 4 - yoe div 100);
         mp = (5 * doy + 2) div 153;
         d = doy - (153 * mp + 2) div 5 + 1;
         m = (if mp < 10 then mp + 3 else mp - 9)
     in (yoe + era * 400 + (if m \<le> 2 then 1 else 0), m, d))"

definition pad :: "nat \<Rightarrow> int \<Rightarrow> string" where
  "pad w n = (let t = dec_str n in zeros (w - length t) @ t)"

definition offset_str :: "int \<Rightarrow> string" where
  "offset_str off =
    (let a = \<bar>off\<bar>; s = a div 1000000
     in (if off < 0 then ''-'' else ''+'') @ pad 2 (s div 3600) @ '':'' @ pad 2 (s div 60 mod 60) @
        (if s mod 60 = 0 \<and> a mod 1000000 = 0 then [] else '':'' @ pad 2 (s mod 60)) @
        (if a mod 1000000 = 0 then [] else ''.'' @ pad 6 (a mod 1000000)))"

definition isoformat_sep :: "string \<Rightarrow> datetime \<Rightarrow> string" where
  "isoformat_sep sep t =
    (let us = wall t; (y, m, d) = civil_of_days (us div 86400000000);
         s = us div 1000000 mod 86400; f = us mod 1000000
     in pad 4 y @ ''-'' @ pad 2 m @ ''-'' @ pad 2 d @ sep @ pad 2 (s div 3600) @ '':'' @
        pad 2 (s div 60 mod 60) @ '':'' @ pad 2 (s mod 60) @
        (if f = 0 then [] else ''.'' @ pad 6 f) @
        (case utcoffset t of None \<Rightarrow> [] | Some off \<Rightarrow> offset_str off))"

definition isoformat :: "datetime \<Rightarrow> string" where
  "isoformat = isoformat_sep ''T''"

section \<open>Values\<close>

definition join :: "string \<Rightarrow> string list \<Rightarrow> string" where
  "join sep parts = (case parts of [] \<Rightarrow> [] | p # ps \<Rightarrow> p @ concat (map (\<lambda>x. sep @ x) ps))"

text \<open>\<open>repr\<close> of a datetime spells out its constructor; no model prints one inside a container,
  and the text used here is its ISO form.\<close>

fun py_repr :: "pyval \<Rightarrow> string" where
  "py_repr VNone = ''None''"
| "py_repr (VBool b) = (if b then ''True'' else ''False'')"
| "py_repr (VInt n) = int_str n"
| "py_repr (VFloat x) = repr_float x"
| "py_repr (VStr s) = repr_str s"
| "py_repr (VTime t) = isoformat_sep '' '' t"
| "py_repr (VList xs) = ''['' @ join '', '' (map py_repr xs) @ '']''"
| "py_repr (VDict d) = ''{'' @ join '', '' (map (\<lambda>(k, v). repr_str k @ '': '' @ py_repr v) d) @ ''}''"

definition py_str :: "pyval \<Rightarrow> string" where
  "py_str v = (case v of VStr s \<Rightarrow> s | _ \<Rightarrow> py_repr v)"

text \<open>\<open>str(exc)\<close>.\<close>

definition exc_text :: "py_error \<Rightarrow> string" where
  "exc_text e = (case e of RuntimeError t \<Rightarrow> t | ValueError t \<Rightarrow> t | TypeError t \<Rightarrow> t | KeyError t \<Rightarrow> repr_str t
     | AttributeError t \<Rightarrow> t | _ \<Rightarrow> [])"

text \<open>\<open>str(x or "")\<close>.\<close>

definition str_or_empty :: "pyval \<Rightarrow> string" where
  "str_or_empty v = (if truthy v then py_str v else [])"

lemma py_str_VStr [simp]: "py_str (VStr s) = s"
  by (simp add: py_str_def)

lemma str_or_empty_VStr [simp]: "str_or_empty (VStr s) = s"
  by (simp add: str_or_empty_def)

lemma str_or_empty_VNone [simp]: "str_or_empty VNone = []"
  by (simp add: str_or_empty_def)

end
