(* ===== verification/Recovery_Execution.thy ===== *)
theory Recovery_Execution
  imports Recovery_Controller Py_Repr
begin

text \<open>
  The execution boundary of recovery scaling intents: the pre-trade guard
  (\<^verbatim>\<open>src/src/trading/recovery/guard.py\<close>), the adapter that builds the trade payload and
  dispatches it (\<^verbatim>\<open>src/src/trading/recovery/execution.py\<close>) and the key of a failed risk
  check (\<open>resolve_risk_failure_key\<close> of \<^verbatim>\<open>src/src/risk/service.py\<close>). The trading port is a
  parameter: a function from the payload to what the call did.
\<close>

section \<open>RecoveryPreTradeGuard\<close>

record guard_decision =
  gd_allowed :: bool
  gd_reason :: string
  gd_details :: pydict

definition guard_details :: "recovery_policy \<Rightarrow> recovery_cycle \<Rightarrow> scaling_intent \<Rightarrow> pydict" where
  "guard_details policy cycle intent =
    [(''cycle_id'', VStr (rc_cycle_id cycle)), (''intent_cycle_id'', VStr (si_cycle_id intent)),
     (''account_key'', VStr (rc_account_key cycle)), (''intent_account_key'', VStr (si_account_key intent)),
     (''cycle_status'', VStr (rc_status cycle)), (''current_step_count'', VInt (rc_step_count cycle)),
     (''actual_step_index'', VInt (si_step_index intent)), (''intent_volume'', VFloat (si_volume intent)),
     (''current_total_volume'', VFloat (rc_total_volume cycle)),
     (''projected_total_volume'', VFloat (fl (rc_total_volume cycle + si_volume intent))),
     (''max_steps'', VInt (rp_max_steps policy)),
     (''max_next_volume'', opt_float (rp_max_next_volume policy)),
     (''max_total_volume'', VFloat (rp_max_total_volume policy))]"

definition guard_assess :: "recovery_policy \<Rightarrow> recovery_cycle \<Rightarrow> scaling_intent \<Rightarrow> guard_decision" where
  "guard_assess policy cycle intent =
    (let details = guard_details policy cycle intent;
         expected_step_index = rc_step_count cycle + 1;
         details' = details @ [(''expected_step_index'', VInt expected_step_index)];
         deny = (\<lambda>reason ds. \<lparr>gd_allowed = False, gd_reason = reason, gd_details = ds\<rparr>)
     in if \<not> rp_enabled policy then deny ''policy_disabled'' details
        else if rc_account_key cycle \<noteq> si_account_key intent then deny ''account_key_mismatch'' details
        else if rc_cycle_id cycle \<noteq> si_cycle_id intent then deny ''cycle_id_mismatch'' details
        else if rc_status cycle \<noteq> ''open'' then deny ''cycle_not_open'' details
        else if rc_symbol cycle \<noteq> si_symbol intent then deny ''symbol_mismatch'' details
        else if rc_direction cycle \<noteq> si_direction intent then deny ''direction_mismatch'' details
        else if si_step_index intent \<noteq> expected_step_index then deny ''step_index_mismatch'' details'
        else if rp_max_steps policy < si_step_index intent then deny ''max_steps_exceeded'' details'
        else if (case rp_max_next_volume policy of None \<Rightarrow> False | Some cap \<Rightarrow> cap < si_volume intent)
        then deny ''max_next_volume_exceeded'' details'
        else if rp_max_total_volume policy < fl (rc_total_volume cycle + si_volume intent)
        then deny ''max_total_volume_exceeded'' details'
        else \<lparr>gd_allowed = True, gd_reason = ''allowed'', gd_details = details'\<rparr>)"

section \<open>Risk block reasons\<close>

fun as_dict :: "pyval \<Rightarrow> pydict option" where
  "as_dict (VDict d) = Some d"
| "as_dict v = None"

text \<open>The name of the first check that satisfies \<open>P\<close> and has one; an item without a \<open>get\<close>
  method raises.\<close>

fun first_named :: "(pydict \<Rightarrow> bool) \<Rightarrow> pyval list \<Rightarrow> string option res" where
  "first_named P [] = ok None"
| "first_named P (VDict d # vs) =
     (let rule_name = strip (str_or_empty (dget d ''name''))
      in if P d \<and> rule_name \<noteq> [] then ok (Some rule_name) else first_named P vs)"
| "first_named P (v # vs) = raise (AttributeError ''get'')"

definition resolve_risk_failure_key :: "pydict \<Rightarrow> string option res" where
  "resolve_risk_failure_key assessment =
    rbind (list_or_empty (dget assessment ''checks'')) (\<lambda>checks.
    rbind (first_named (\<lambda>d. lower (strip (str_or_empty (dget d ''verdict''))) = ''block'') checks) (\<lambda>b.
    case b of Some n \<Rightarrow> ok (Some n)
    | None \<Rightarrow> rbind (first_named (\<lambda>d. True) checks) (\<lambda>f.
        case f of Some n \<Rightarrow> ok (Some n)
        | None \<Rightarrow> ok (if lower (strip (str_or_empty (dget assessment ''reason''))) = ''daily_loss_limit_reached''
                      then Some ''daily_loss_limit'' else None))))"

fun first_check_reason :: "pyval list \<Rightarrow> string option" where
  "first_check_reason [] = None"
| "first_check_reason (VDict d # vs) =
     (let r = strip (str_or_empty (py_or (dget d ''reason'') (dget d ''message'')))
      in if r \<noteq> [] then Some r else first_check_reason vs)"
| "first_check_reason (v # vs) = first_check_reason vs"

definition pretrade_block_reason :: "pydict \<Rightarrow> string \<Rightarrow> string res" where
  "pretrade_block_reason snapshot fallback =
    (if snapshot = [] then ok fallback
     else let reason = strip (str_or_empty (dget snapshot ''reason''))
     in if reason \<noteq> [] then ok reason
        else rbind (resolve_risk_failure_key snapshot) (\<lambda>resolved.
          case resolved of Some k \<Rightarrow> ok k
          | None \<Rightarrow> rbind (list_or_empty (dget snapshot ''checks'')) (\<lambda>checks.
              ok (case first_check_reason checks of Some r \<Rightarrow> r | None \<Rightarrow> fallback))))"

definition snapshot_blocked :: "pydict \<Rightarrow> bool" where
  "snapshot_blocked snapshot =
    (truthy (dget snapshot ''blocked'') \<or>
     lower (strip (str_or_empty (dget snapshot ''verdict''))) = ''block'' \<or>
     dget snapshot ''executable'' = VBool False)"

fun first_blocked :: "pydict \<Rightarrow> string list \<Rightarrow> pydict option" where
  "first_blocked result [] = None"
| "first_blocked result (k # ks) =
     (case as_dict (dget result k) of
        Some s \<Rightarrow> if snapshot_blocked s then Some s else first_blocked result ks
      | None \<Rightarrow> first_blocked result ks)"

definition extract_blocked_pretrade_snapshot :: "pyval \<Rightarrow> pydict option" where
  "extract_blocked_pretrade_snapshot result =
    (case as_dict result of None \<Rightarrow> None
     | Some d \<Rightarrow> first_blocked d [''pre_trade_risk'', ''precheck'', ''dispatch_precheck''])"

section \<open>RecoveryExecutionCanaryPolicy\<close>

record canary_policy =
  cp_enabled :: bool
  cp_dry_run :: bool
  cp_order_kind :: string
  cp_deviation :: int
  cp_magic :: int
  cp_comment_prefix :: string
  cp_protective_stop_points :: "rat option"

fun parse_bool :: "pyval \<Rightarrow> bool \<Rightarrow> bool res" where
  "parse_bool VNone dflt = ok dflt"
| "parse_bool (VBool b) dflt = ok b"
| "parse_bool (VStr s) dflt =
     (let normalized = lower (strip s)
      in if normalized = [] then ok dflt
         else if normalized \<in> {''1'', ''true'', ''yes'', ''y'', ''on''} then ok True
         else if normalized \<in> {''0'', ''false'', ''no'', ''n'', ''off''} then ok False
         else raise (ValueError (''invalid recovery execution canary boolean: '' @ repr_str s)))"
| "parse_bool v dflt = ok (truthy v)"

definition requires_protective_stop :: "canary_policy \<Rightarrow> bool" where
  "requires_protective_stop policy = (norm_or ''market'' (cp_order_kind policy) = ''market'')"

definition has_positive_float :: "rat option \<Rightarrow> bool" where
  "has_positive_float v = (case v of None \<Rightarrow> False | Some x \<Rightarrow> 0 < x)"

definition protective_stop_price :: "string \<Rightarrow> rat \<Rightarrow> rat \<Rightarrow> rat \<Rightarrow> rat res" where
  "protective_stop_price direction entry_price stop_points point =
    (let distance = fl (stop_points * point); normalized = lower (strip direction)
     in if normalized = ''buy'' then ok (pyround (fl (entry_price - distance)) 8)
        else if normalized = ''sell'' then ok (pyround (fl (entry_price + distance)) 8)
        else raise (ValueError ''direction must be buy or sell''))"

section \<open>RecoveryExecutionAdapter\<close>

definition request_id_of :: "scaling_intent \<Rightarrow> string" where
  "request_id_of intent = ''recovery:'' @ si_cycle_id intent @ '':step:'' @ int_str (si_step_index intent)"

definition build_trade_payload ::
  "recovery_policy \<Rightarrow> recovery_cycle \<Rightarrow> scaling_intent \<Rightarrow> canary_policy \<Rightarrow> pydict \<Rightarrow> pydict res" where
  "build_trade_payload policy cycle intent canary guard =
    (let request_id = request_id_of intent;
         metadata = dmerge
           [(''execution_scope'', VStr ''recovery_scaling''), (''recovery_cycle_id'', VStr (si_cycle_id intent)),
            (''recovery_step_index'', VInt (si_step_index intent)), (''recovery_reason'', VStr (si_reason intent)),
            (''source_signal_id'', opt_str (si_source_signal_id intent)),
            (''account_key'', VStr (si_account_key intent)), (''strategy'', VStr (si_strategy intent)),
            (''timeframe'', VStr (si_timeframe intent)), (''guard'', VDict guard)]
           (si_metadata intent);
         payload =
           [(''symbol'', VStr (si_symbol intent)), (''volume'', VFloat (si_volume intent)),
            (''side'', VStr (si_direction intent)), (''order_kind'', VStr (cp_order_kind canary)),
            (''price'', opt_float (si_entry_price intent)), (''deviation'', VInt (cp_deviation canary)),
            (''comment'', VStr (cp_comment_prefix canary @ '':'' @ si_cycle_id intent @ '':s'' @
                               int_str (si_step_index intent))),
            (''magic'', VInt (cp_magic canary)), (''dry_run'', VBool (cp_dry_run canary)),
            (''request_id'', VStr request_id),
            (''trace_id'', VStr (case si_source_signal_id intent of
                None \<Rightarrow> rc_cycle_id cycle | Some s \<Rightarrow> if s = [] then rc_cycle_id cycle else s)),
            (''action_id'', VStr request_id), (''metadata'', VDict metadata)]
     in if requires_protective_stop canary
        then rbind (protective_stop_price (si_direction intent)
               (case si_entry_price intent of None \<Rightarrow> 0 | Some p \<Rightarrow> p)
               (case cp_protective_stop_points canary of None \<Rightarrow> 0 | Some p \<Rightarrow> p)
               (rp_point policy)) (\<lambda>sl. ok (dset ''sl'' (VFloat sl) payload))
        else ok payload)"

text \<open>What \<open>dispatch_operation("trade", payload)\<close> did: it returned, it raised the risk block
  with its text and assessment, or it raised another exception with its text and type name.\<close>

datatype port_outcome =
    PortResult pyval
  | PortRiskBlocked string pydict
  | PortFailure string string

text \<open>\<open>(result or {}).get(k)\<close>.\<close>

definition result_get :: "pyval \<Rightarrow> string \<Rightarrow> pyval res" where
  "result_get v k = (if \<not> truthy v then ok VNone else case v of VDict d \<Rightarrow> ok (dget d k)
     | _ \<Rightarrow> raise (AttributeError ''get''))"

definition skipped :: "string \<Rightarrow> string \<Rightarrow> pydict \<Rightarrow> pydict \<Rightarrow> pydict" where
  "skipped reason category guard extra =
     [(''status'', VStr ''skipped''), (''reason'', VStr reason), (''category'', VStr category),
      (''guard'', VDict guard)] @ extra"

definition port_result_payload :: "canary_policy \<Rightarrow> pydict \<Rightarrow> pydict \<Rightarrow> pyval \<Rightarrow> pydict res" where
  "port_result_payload canary guard payload result =
    (case extract_blocked_pretrade_snapshot result of
       Some blocked \<Rightarrow> rbind (pretrade_block_reason blocked ''pre_trade_risk_blocked'') (\<lambda>reason.
         ok (skipped reason ''pre_trade_risk'' guard
           [(''payload'', VDict payload), (''result'', result), (''pre_trade_risk'', VDict blocked)]))
     | None \<Rightarrow>
         rbind (result_get result ''status'') (\<lambda>status.
         rbind (result_get result ''accepted'') (\<lambda>accepted.
         rbind (result_get result ''error_message'') (\<lambda>error_message.
         rbind (result_get result ''message'') (\<lambda>message.
         let result_status = lower (str_or_empty status); text = py_or error_message message
         in ok (if result_status \<in> {''failed'', ''rejected'', ''error''} \<or> accepted = VBool False
            then skipped
                   (py_str (py_or text (py_or (VStr result_status) (VStr ''trading_port_dispatch_failed''))))
                   ''trading_port_failure'' guard
                   [(''payload'', VDict payload), (''result'', result),
                    (''error_message'', VStr (py_str (py_or text (VStr []))))]
            else [(''status'', VStr (if cp_dry_run canary then ''dry_run'' else ''submitted'')),
                  (''reason'', VStr ''dispatched''), (''category'', VStr ''recovery_execution''),
                  (''guard'', VDict guard), (''payload'', VDict payload), (''result'', result)]))))))"

definition execute_scaling_intent ::
  "(pydict \<Rightarrow> port_outcome) \<Rightarrow> recovery_policy \<Rightarrow> recovery_cycle \<Rightarrow> scaling_intent \<Rightarrow> canary_policy \<Rightarrow>
   pydict res" where
  "execute_scaling_intent port policy cycle intent canary =
    (let g = guard_assess policy cycle intent;
         guard = dmerge [(''allowed'', VBool (gd_allowed g)), (''reason'', VStr (gd_reason g))] (gd_details g)
     in if \<not> gd_allowed g then ok (skipped (gd_reason g) ''recovery_guard'' guard [])
        else if \<not> cp_enabled canary then ok (skipped ''recovery_canary_disabled'' ''recovery_canary'' guard [])
        else if requires_protective_stop canary \<and> \<not> has_positive_float (cp_protective_stop_points canary)
        then ok (skipped ''recovery_protective_stop_required'' ''recovery_canary'' guard [])
        else rbind (build_trade_payload policy cycle intent canary guard) (\<lambda>payload.
          case port payload of
            PortRiskBlocked text assessment \<Rightarrow>
              rbind (pretrade_block_reason assessment text) (\<lambda>reason.
              ok (skipped reason ''pre_trade_risk'' guard
                [(''payload'', VDict payload), (''pre_trade_risk'', VDict assessment),
                 (''error_message'', VStr text)]))
          | PortFailure text type_name \<Rightarrow>
              ok (skipped (if text = [] then type_name else text) ''trading_port_failure'' guard
                [(''payload'', VDict payload), (''error_message'', VStr text)])
          | PortResult result \<Rightarrow> port_result_payload canary guard payload result))"

section \<open>evaluate_current_recovery_step\<close>

record step_result =
  sr_status :: pyval
  sr_reason :: pyval
  sr_decision :: recovery_decision
  sr_execution :: "pydict option"
  sr_updated_cycle :: "recovery_cycle option"
  sr_recorded :: "(recovery_cycle \<times> string) option"

text \<open>One live tick against an open cycle; \<open>has_store\<close> says whether a state store was passed,
  and the recorded pair is what its \<open>record_recovery_cycle_state\<close> was called with.\<close>

definition evaluate_current_recovery_step ::
  "(pydict \<Rightarrow> port_outcome) \<Rightarrow> bool \<Rightarrow> recovery_policy \<Rightarrow> canary_policy \<Rightarrow> recovery_cycle \<Rightarrow>
   recovery_snapshot \<Rightarrow> step_result res" where
  "evaluate_current_recovery_step port has_store policy canary cycle snapshot =
    rbind (evaluate_next_step policy cycle snapshot (Some (rs_time snapshot))) (\<lambda>decision.
    if rd_action decision \<noteq> ''open_step''
    then ok \<lparr>sr_status = VStr (rd_action decision), sr_reason = VStr (rd_reason decision),
             sr_decision = decision, sr_execution = None, sr_updated_cycle = None, sr_recorded = None\<rparr>
    else rbind (from_decision cycle decision (rs_time snapshot)) (\<lambda>plan.
    case ep_intent plan of None \<Rightarrow> raise AssertionError
    | Some intent \<Rightarrow>
    rbind (execute_scaling_intent port policy cycle intent canary) (\<lambda>execution.
    let result = \<lparr>sr_status = (case map_of execution ''status'' of None \<Rightarrow> VStr ''unknown'' | Some v \<Rightarrow> v),
                  sr_reason = dget execution ''reason'', sr_decision = decision,
                  sr_execution = Some execution, sr_updated_cycle = None, sr_recorded = None\<rparr>
    in if dget execution ''status'' = VStr ''submitted''
       then rbind (apply_open_step cycle decision (rs_time snapshot)) (\<lambda>updated.
            ok (result\<lparr>sr_updated_cycle := Some updated,
                  sr_recorded := (if has_store then Some (updated, ''canary_recovery_step_submitted'')
                                  else None)\<rparr>))
       else ok result)))"

text \<open>The states a cycle can reach through submitted live steps, whatever the port answers and
  whatever the ticks are.\<close>

inductive recovery_reach :: "recovery_policy \<Rightarrow> canary_policy \<Rightarrow> recovery_cycle \<Rightarrow> recovery_cycle \<Rightarrow> bool"
  for policy canary c0 where
  start: "recovery_reach policy canary c0 c0"
| submitted: "recovery_reach policy canary c0 c \<Longrightarrow>
    evaluate_current_recovery_step port has_store policy canary c snapshot = ok r \<Longrightarrow>
    sr_updated_cycle r = Some c' \<Longrightarrow> recovery_reach policy canary c0 c'"

section \<open>Lemmas\<close>

lemma guard_allowed_iff:
  "gd_allowed (guard_assess policy cycle intent) \<longleftrightarrow>
    rp_enabled policy \<and> rc_account_key cycle = si_account_key intent \<and>
    rc_cycle_id cycle = si_cycle_id intent \<and> rc_status cycle = ''open'' \<and>
    rc_symbol cycle = si_symbol intent \<and> rc_direction cycle = si_direction intent \<and>
    si_step_index intent = rc_step_count cycle + 1 \<and> si_step_index intent \<le> rp_max_steps policy \<and>
    (\<forall>cap. rp_max_next_volume policy = Some cap \<longrightarrow> si_volume intent \<le> cap) \<and>
    fl (rc_total_volume cycle + si_volume intent) \<le> rp_max_total_volume policy"
  by (auto simp: guard_assess_def Let_def not_less split: option.splits)

lemma skipped_status [simp]: "dget (skipped reason category guard extra) ''status'' = VStr ''skipped''"
  by (simp add: skipped_def dget_def)

text \<open>Only one path of the adapter reports anything but a skip.\<close>

lemma execute_dispatched:
  assumes "execute_scaling_intent port policy cycle intent canary = ok r"
    and "dget r ''status'' \<noteq> VStr ''skipped''"
  obtains guard payload result where "gd_allowed (guard_assess policy cycle intent)" "cp_enabled canary"
    "requires_protective_stop canary \<Longrightarrow> has_positive_float (cp_protective_stop_points canary)"
    "build_trade_payload policy cycle intent canary guard = ok payload"
    "port payload = PortResult result" "port_result_payload canary guard payload result = ok r"
proof -
  let ?g = "guard_assess policy cycle intent"
  let ?guard = "dmerge [(''allowed'', VBool (gd_allowed ?g)), (''reason'', VStr (gd_reason ?g))] (gd_details ?g)"
  have c: "gd_allowed ?g" "cp_enabled canary"
    "requires_protective_stop canary \<Longrightarrow> has_positive_float (cp_protective_stop_points canary)"
    using assms by (auto simp: execute_scaling_intent_def Let_def split: if_splits)
  then obtain payload where p: "build_trade_payload policy cycle intent canary ?guard = ok payload"
    using assms by (auto simp: execute_scaling_intent_def Let_def res_simps split: if_splits)
  with c assms obtain result where "port payload = PortResult result"
    "port_result_payload canary ?guard payload result = ok r"
    by (auto simp: execute_scaling_intent_def Let_def res_simps split: if_splits port_outcome.splits)
  with c p that show ?thesis by blast
qed

lemma plan_intent_of_decision:
  assumes "from_decision cycle d t = ok plan" and "rd_action d = ''open_step''"
    and "ep_intent plan = Some intent"
  shows "si_cycle_id intent = rc_cycle_id cycle" "si_account_key intent = rc_account_key cycle"
    "si_symbol intent = rc_symbol cycle" "si_direction intent = lower (strip (rc_direction cycle))"
    "rd_step_index d = Some (si_step_index intent)" "rd_volume d = Some (si_volume intent)"
    "rd_entry_price d = si_entry_price intent" "0 < si_volume intent"
  using assms
  by (auto simp: from_decision_def plan_intent_def Let_def res_simps PositionScalingIntent_ok_iff
      split: option.splits if_splits)

text \<open>A submitted live step: the decision opened a step, the guard allowed its intent and the
  cycle advanced by it.\<close>

lemma submitted_step:
  assumes "evaluate_current_recovery_step port has_store policy canary c snapshot = ok r"
    and "sr_updated_cycle r = Some c'"
  obtains d intent v where "evaluate_next_step policy c snapshot (Some (rs_time snapshot)) = ok d"
    "rd_action d = ''open_step''" "gd_allowed (guard_assess policy c intent)"
    "rd_volume d = Some v" "si_volume intent = v" "rd_step_index d = Some (si_step_index intent)"
    "0 < v" "cp_enabled canary" "apply_open_step c d (rs_time snapshot) = ok c'"
proof -
  obtain d where d: "evaluate_next_step policy c snapshot (Some (rs_time snapshot)) = ok d"
    and a: "rd_action d = ''open_step''"
    using assms by (auto simp: evaluate_current_recovery_step_def res_simps split: if_splits)
  with assms obtain plan intent where plan: "from_decision c d (rs_time snapshot) = ok plan"
    and i: "ep_intent plan = Some intent"
    by (auto simp: evaluate_current_recovery_step_def res_simps split: option.splits)
  with assms d a obtain e where e: "execute_scaling_intent port policy c intent canary = ok e"
    and s: "dget e ''status'' = VStr ''submitted''"
    and u: "apply_open_step c d (rs_time snapshot) = ok c'"
    by (auto simp: evaluate_current_recovery_step_def res_simps Let_def split: if_splits)
  have ns: "dget e ''status'' \<noteq> VStr ''skipped''" using s by simp
  have "gd_allowed (guard_assess policy c intent)" "cp_enabled canary"
    by (rule execute_dispatched [OF e ns]; assumption)+
  with plan_intent_of_decision [OF plan a i] d a u show ?thesis using that by blast
qed

definition canary_example :: canary_policy where
  "canary_example = \<lparr>cp_enabled = True, cp_dry_run = False, cp_order_kind = ''market'', cp_deviation = 20,
     cp_magic = 0, cp_comment_prefix = ''recovery'', cp_protective_stop_points = Some 50\<rparr>"

lemma protective_stop_side:
  assumes "protective_stop_price dir entry_price stop point = ok sl" and "0 \<le> stop" "0 \<le> point"
    and "fl entry_price = entry_price"
  shows "lower (strip dir) = ''buy'' \<and> sl \<le> pyround entry_price 8 \<or>
    lower (strip dir) = ''sell'' \<and> pyround entry_price 8 \<le> sl"
proof -
  have d: "0 \<le> fl (stop * point)" using assms by (simp add: fl_nonneg)
  then have "fl (entry_price - fl (stop * point)) \<le> entry_price" "entry_price \<le> fl (entry_price + fl (stop * point))"
    using assms(4) by (simp_all add: fl_le_float fl_ge_float)
  with assms(1) show ?thesis
    by (auto simp: protective_stop_price_def Let_def split: if_splits intro: pyround_mono)
qed

lemmas adapter_eval = execute_scaling_intent_def guard_assess_def guard_details_def
  requires_protective_stop_def norm_or_def has_positive_float_def build_trade_payload_def
  protective_stop_price_def port_result_payload_def extract_blocked_pretrade_snapshot_def
  result_get_def str_or_empty_def py_or_def canary_example_def recovery_examples str_eval Let_def dget_def

section \<open>Properties\<close>

text \<open>C2: No order is dispatched that the guard does not allow: when the adapter
  reports a dispatch (\<open>dry_run\<close> or \<open>submitted\<close>), the policy and the canary are enabled, the
  intent belongs to the open cycle (account, id, symbol, direction), is its next step within
  \<open>max_steps\<close>, \<open>max_next_volume\<close> and \<open>max_total_volume\<close>, and a market order carries a stop
  loss, which lies on the protective side of the entry price.\<close>

theorem dispatched_intent_is_guarded:
  assumes r: "execute_scaling_intent port policy cycle intent canary = ok r"
    and s: "dget r ''status'' \<in> {VStr ''dry_run'', VStr ''submitted''}"
    and e: "si_entry_price intent = Some price" "fl price = price" and pt: "0 < rp_point policy"
  shows "rp_enabled policy \<and> cp_enabled canary \<and> rc_status cycle = ''open'' \<and>
    rc_account_key cycle = si_account_key intent \<and> rc_cycle_id cycle = si_cycle_id intent \<and>
    rc_symbol cycle = si_symbol intent \<and> rc_direction cycle = si_direction intent \<and>
    si_step_index intent = rc_step_count cycle + 1 \<and> si_step_index intent \<le> rp_max_steps policy \<and>
    (\<forall>cap. rp_max_next_volume policy = Some cap \<longrightarrow> si_volume intent \<le> cap) \<and>
    fl (rc_total_volume cycle + si_volume intent) \<le> rp_max_total_volume policy \<and>
    (requires_protective_stop canary \<longrightarrow>
      (\<exists>payload result sl. port payload = PortResult result \<and> dget payload ''sl'' = VFloat sl \<and>
        (lower (strip (si_direction intent)) = ''buy'' \<and> sl \<le> pyround price 8 \<or>
         lower (strip (si_direction intent)) = ''sell'' \<and> pyround price 8 \<le> sl)))"
proof -
  have ns: "dget r ''status'' \<noteq> VStr ''skipped''" using s by auto
  obtain guard payload result where g: "gd_allowed (guard_assess policy cycle intent)" "cp_enabled canary"
    and stop: "requires_protective_stop canary \<Longrightarrow> has_positive_float (cp_protective_stop_points canary)"
    and b: "build_trade_payload policy cycle intent canary guard = ok payload"
    and p: "port payload = PortResult result"
    by (rule execute_dispatched [OF r ns]) blast
  have "\<exists>payload result sl. port payload = PortResult result \<and> dget payload ''sl'' = VFloat sl \<and>
      (lower (strip (si_direction intent)) = ''buy'' \<and> sl \<le> pyround price 8 \<or>
       lower (strip (si_direction intent)) = ''sell'' \<and> pyround price 8 \<le> sl)"
    if m: "requires_protective_stop canary"
  proof -
    obtain stop_points where sp: "cp_protective_stop_points canary = Some stop_points" "0 < stop_points"
      using stop [OF m] by (auto simp: has_positive_float_def split: option.splits)
    obtain sl where sl: "protective_stop_price (si_direction intent) price stop_points (rp_point policy) = ok sl"
      and d: "dget payload ''sl'' = VFloat sl"
      using b m sp e by (auto simp: build_trade_payload_def Let_def res_simps dget_def)
    from protective_stop_side [OF sl _ _ e(2)] sp pt d p show ?thesis by (auto simp: less_imp_le)
  qed
  with g show ?thesis by (auto simp: guard_allowed_iff)
qed

text \<open>C1: The hard caps hold in every state a cycle can reach through submitted live steps,
  whatever the ticks and whatever the port answers: the step count never passes \<open>max_steps\<close>
  and the total volume never passes \<open>max_total_volume\<close> (a cap that survives the eight-decimal
  rounding of the stored total, as every configured lot size does); steps only accumulate and
  the cycle keeps its identity, symbol, direction and status.\<close>

theorem reachable_cycle_within_caps:
  assumes "recovery_reach policy canary c0 c"
    and cap: "pyround (rp_max_total_volume policy) 8 = rp_max_total_volume policy"
    and init: "rc_step_count c0 \<le> rp_max_steps policy" "rc_total_volume c0 \<le> rp_max_total_volume policy"
  shows "rc_step_count c0 \<le> rc_step_count c \<and> rc_step_count c \<le> rp_max_steps policy \<and>
    rc_total_volume c \<le> rp_max_total_volume policy \<and> rc_cycle_id c = rc_cycle_id c0 \<and>
    rc_symbol c = rc_symbol c0 \<and> rc_direction c = rc_direction c0 \<and> rc_status c = rc_status c0"
  using assms(1)
proof (induction rule: recovery_reach.induct)
  case start
  show ?case using init by simp
next
  case (submitted c port has_store snapshot r c')
  obtain d intent v where d: "gd_allowed (guard_assess policy c intent)" "rd_volume d = Some v"
    "si_volume intent = v" "rd_step_index d = Some (si_step_index intent)"
    "apply_open_step c d (rs_time snapshot) = ok c'"
    by (rule submitted_step [OF submitted.hyps(2,3)]) blast
  have "pyround (fl (rc_total_volume c + v)) 8 \<le> rp_max_total_volume policy"
    using d(1,3) by (intro pyround_le_fixed [OF cap]) (simp add: guard_allowed_iff)
  then show ?case
    using submitted.IH d(1) apply_open_step_ok [OF d(5,2,4)] by (simp add: guard_allowed_iff)
qed

definition intent_example :: scaling_intent where
  "intent_example = \<lparr>si_cycle_id = ''c1'', si_account_key = ''acct'', si_symbol = ''XAUUSD'',
     si_direction = ''buy'', si_strategy = ''s'', si_timeframe = ''M5'', si_step_index = 1, si_volume = 2,
     si_entry_price = Some 82, si_reason = ''adverse_move_triggered'', si_created_at = Datetime 0 (Some 0),
     si_source_signal_id = None, si_metadata = []\<rparr>"

lemma dispatch_example:
  "\<exists>r. execute_scaling_intent (\<lambda>p. PortResult (VDict [(''status'', VStr ''ok'')])) policy_example
     (cycle_example ''buy'') intent_example canary_example = ok r \<and> dget r ''status'' = VStr ''submitted''"
  by (simp add: intent_example_def adapter_eval)

theorem dispatched_intent_is_guarded_witness:
  "\<exists>r. execute_scaling_intent (\<lambda>p. PortResult (VDict [(''status'', VStr ''ok'')])) policy_example
     (cycle_example ''buy'') intent_example canary_example = ok r \<and> dget r ''status'' = VStr ''submitted'' \<and>
     fl (rc_total_volume (cycle_example ''buy'') + si_volume intent_example) \<le> rp_max_total_volume policy_example"
proof -
  obtain r where r: "execute_scaling_intent (\<lambda>p. PortResult (VDict [(''status'', VStr ''ok'')])) policy_example
     (cycle_example ''buy'') intent_example canary_example = ok r" and s: "dget r ''status'' = VStr ''submitted''"
    using dispatch_example by blast
  have "dget r ''status'' \<in> {VStr ''dry_run'', VStr ''submitted''}" "si_entry_price intent_example = Some 82"
    "fl (82::rat) = 82" "0 < rp_point policy_example"
    using s by (simp_all add: intent_example_def policy_example_def)
  from dispatched_intent_is_guarded [OF r this] r s show ?thesis by blast
qed

lemma live_decision_example:
  "evaluate_next_step policy_example (cycle_example ''buy'') (snapshot_example 80)
     (Some (rs_time (snapshot_example 80))) =
     ok (mk_decision ''open_step'' ''adverse_move_triggered'' (Some 1) (Some 2) (Some 82) None
       [(''adverse_move_points'', VFloat 20), (''total_after'', VFloat 3)])"
  using next_step_example by (simp add: evaluate_next_step_def)

lemma live_step_example:
  "\<exists>r c'. evaluate_current_recovery_step (\<lambda>p. PortResult (VDict [(''status'', VStr ''ok'')])) False
     policy_example canary_example (cycle_example ''buy'') (snapshot_example 80) = ok r \<and>
     sr_updated_cycle r = Some c' \<and> rc_step_count c' = 1 \<and> rc_total_volume c' = 3"
  unfolding evaluate_current_recovery_step_def live_decision_example
  by (simp add: from_decision_def plan_intent_def
      PositionScalingIntent_def apply_open_step_def RecoveryCycleState_def adapter_eval)

theorem reachable_cycle_within_caps_witness:
  "\<exists>c. recovery_reach policy_example canary_example (cycle_example ''buy'') c \<and> rc_step_count c = 1 \<and>
     rc_total_volume c \<le> 10"
proof -
  obtain r c' where r: "evaluate_current_recovery_step (\<lambda>p. PortResult (VDict [(''status'', VStr ''ok'')])) False
     policy_example canary_example (cycle_example ''buy'') (snapshot_example 80) = ok r"
    "sr_updated_cycle r = Some c'" "rc_step_count c' = 1"
    using live_step_example by blast
  have reach: "recovery_reach policy_example canary_example (cycle_example ''buy'') c'"
    by (rule recovery_reach.submitted [OF recovery_reach.start r(1,2)])
  have "pyround (rp_max_total_volume policy_example) 8 = rp_max_total_volume policy_example"
    "rc_step_count (cycle_example ''buy'') \<le> rp_max_steps policy_example"
    "rc_total_volume (cycle_example ''buy'') \<le> rp_max_total_volume policy_example"
    by (simp_all add: recovery_examples)
  from reachable_cycle_within_caps [OF reach this] reach r(3) show ?thesis
    by (auto simp: policy_example_def)
qed

end
