(* ===== verification/Interfaces.thy ===== *)
theory Interfaces
  imports Main
begin

text \<open>
  Contracts that several components share, as locales with the consequences a client uses.
  \<open>event_system\<close>: a state changed by events, with an invariant every event keeps.
  \<open>bounded_fifo\<close>: a queue of fixed capacity that evicts its oldest element when full; after
  any sequence of insertions it holds the last elements, in order, and counts what it lost.
  \<open>fifo_queue\<close>: an unbounded queue; whatever the interleaving of insertions and removals, what
  came out followed by what is still in is what went in.
  \<open>windowed_quota\<close>: slots granted under a limit on those in use, of which time only takes away;
  the limit holds at every later time whatever happens in between.
  \<open>guarded_loop\<close>: a loop over items whose body may raise or leave the loop, with an invariant
  the body keeps and a postcondition it establishes.
\<close>

locale event_system =
  fixes step :: "'e \<Rightarrow> 's \<Rightarrow> 's"
    and inv :: "'s \<Rightarrow> bool"
  assumes inv_step: "inv s \<Longrightarrow> inv (step e s)"
begin

lemma inv_run: "inv s \<Longrightarrow> inv (fold step es s)"
  by (induction es arbitrary: s) (simp_all add: inv_step)

end

text \<open>\<open>for x in xs: body\<close>, where the body raises (Inl), or goes on or breaks (the flag) with a
  new state.\<close>

fun for_loop :: "('e \<Rightarrow> 's \<Rightarrow> 'x + bool \<times> 's) \<Rightarrow> 'e list \<Rightarrow> 's \<Rightarrow> 'x + 's" where
  "for_loop body [] s = Inr s"
| "for_loop body (e # es) s =
     (case body e s of Inl x \<Rightarrow> Inl x
      | Inr (stop, s') \<Rightarrow> if stop then Inr s' else for_loop body es s')"

locale guarded_loop =
  fixes body :: "'e \<Rightarrow> 's \<Rightarrow> 'x + bool \<times> 's"
    and inv :: "'s \<Rightarrow> bool"
    and post :: "'s \<Rightarrow> bool"
  assumes inv_next: "inv s \<Longrightarrow> body e s = Inr (False, s') \<Longrightarrow> inv s'"
    and post_break: "inv s \<Longrightarrow> body e s = Inr (True, s') \<Longrightarrow> post s'"
    and inv_post: "inv s \<Longrightarrow> post s"
begin

lemma loop_post: "inv s \<Longrightarrow> for_loop body es s = Inr s' \<Longrightarrow> post s'"
proof (induction es arbitrary: s)
  case (Cons e es)
  then obtain stop t where "body e s = Inr (stop, t)" by (auto split: sum.splits)
  with Cons show ?case by (cases stop) (auto intro: inv_next post_break)
qed (simp add: inv_post)

end

locale bounded_fifo =
  fixes push :: "'e \<Rightarrow> 'q \<Rightarrow> 'q"
    and payload :: "'e \<Rightarrow> 'a"
    and items :: "'q \<Rightarrow> 'a list"
    and capacity :: "'q \<Rightarrow> nat"
    and evicted :: "'q \<Rightarrow> nat"
    and invar :: "'q \<Rightarrow> bool"
  assumes capacity_pos: "invar q \<Longrightarrow> 0 < capacity q"
    and bounded: "invar q \<Longrightarrow> length (items q) \<le> capacity q"
    and items_push: "invar q \<Longrightarrow> items (push x q) =
      (if capacity q \<le> length (items q) then tl (items q) else items q) @ [payload x]"
    and evicted_push: "invar q \<Longrightarrow> evicted (push x q) =
      evicted q + (if capacity q \<le> length (items q) then 1 else 0)"
    and capacity_push: "invar q \<Longrightarrow> capacity (push x q) = capacity q"
    and invar_push: "invar q \<Longrightarrow> invar (push x q)"
begin

sublocale pushes: event_system push invar
  by unfold_locales (rule invar_push)

lemma capacity_run: "invar q \<Longrightarrow> capacity (fold push xs q) = capacity q"
  by (induction xs arbitrary: q) (simp_all add: capacity_push invar_push)

lemma drop_push:
  assumes "n = length ys - c" and "0 < c"
  shows "(if c \<le> length (drop n ys) then tl (drop n ys) else drop n ys) @ [x] =
    drop (length (ys @ [x]) - c) (ys @ [x])"
proof (cases "c \<le> length (drop n ys)")
  case True
  then have "length (ys @ [x]) - c = Suc n" using assms by simp
  moreover have "Suc n \<le> length ys" using True assms by simp
  ultimately show ?thesis using True by (simp add: drop_Suc drop_tl)
next
  case False
  then have "n = 0" "length ys < c" using assms by auto
  then show ?thesis using False by simp
qed

text \<open>The queue always holds the last \<open>capacity\<close> elements inserted, oldest first.\<close>

lemma items_run:
  assumes "invar q" and "items q = drop (length ys - capacity q) ys"
  shows "items (fold push xs q) = drop (length (ys @ map payload xs) - capacity q) (ys @ map payload xs)"
  using assms
proof (induction xs arbitrary: q ys)
  case (Cons x xs)
  have "items (push x q) =
      drop (length (ys @ [payload x]) - capacity (push x q)) (ys @ [payload x])"
    unfolding items_push [OF Cons.prems(1)] capacity_push [OF Cons.prems(1)] Cons.prems(2)
    by (rule drop_push [OF refl capacity_pos [OF Cons.prems(1)]])
  from Cons.IH [OF invar_push [OF Cons.prems(1)] this] show ?case
    using Cons.prems by (simp add: capacity_push)
qed simp

text \<open>Nothing disappears uncounted.\<close>

lemma conservation:
  "invar q \<Longrightarrow>
    length (items (fold push xs q)) + evicted (fold push xs q) =
    length (items q) + evicted q + length xs"
proof (induction xs arbitrary: q)
  case (Cons x xs)
  have "length (items (push x q)) + evicted (push x q) = length (items q) + evicted q + 1"
    using Cons.prems capacity_pos [OF Cons.prems] by (auto simp: items_push evicted_push)
  with Cons show ?case by (simp add: invar_push)
qed simp

end

locale fifo_queue =
  fixes enq :: "'a \<Rightarrow> 'q \<Rightarrow> 'q"
    and deq :: "'q \<Rightarrow> ('a \<times> 'q) option"
    and items :: "'q \<Rightarrow> 'a list"
    and invar :: "'q \<Rightarrow> bool"
  assumes items_enq: "invar q \<Longrightarrow> items (enq x q) = items q @ [x]"
    and invar_enq: "invar q \<Longrightarrow> invar (enq x q)"
    and deq_None: "invar q \<Longrightarrow> deq q = None \<longleftrightarrow> items q = []"
    and deq_Some: "invar q \<Longrightarrow> deq q = Some (x, q') \<Longrightarrow> items q = x # items q' \<and> invar q'"
begin

text \<open>A run: \<open>Some x\<close> inserts, \<open>None\<close> removes if it can.\<close>

fun run :: "'a option list \<Rightarrow> 'q \<Rightarrow> 'a list \<times> 'q" where
  "run [] q = ([], q)"
| "run (Some x # ops) q = run ops (enq x q)"
| "run (None # ops) q = (case deq q of None \<Rightarrow> run ops q
     | Some (x, q') \<Rightarrow> let (outs, q'') = run ops q' in (x # outs, q''))"

lemma run_fifo: "invar q \<Longrightarrow> run ops q = (outs, q') \<Longrightarrow>
    outs @ items q' = items q @ List.map_filter id ops \<and> invar q'"
proof (induction ops q arbitrary: outs rule: run.induct)
  case (1 q)
  then show ?case by (simp add: List.map_filter_simps)
next
  case (2 x ops q)
  then show ?case by (simp add: List.map_filter_simps items_enq invar_enq)
next
  case (3 ops q)
  show ?case
  proof (cases "deq q")
    case None
    with "3.prems" "3.IH"(1) show ?thesis by (simp add: List.map_filter_simps)
  next
    case (Some a)
    obtain x q1 where a: "a = (x, q1)" by (cases a)
    obtain outs1 where r: "run ops q1 = (outs1, q')" "outs = x # outs1"
      using "3.prems"(2) Some a by (cases "run ops q1") simp
    have "items q = x # items q1 \<and> invar q1" using deq_Some [OF "3.prems"(1)] Some a by simp
    with "3.IH"(2) [OF Some a [symmetric]] r show ?thesis
      by (simp add: List.map_filter_simps a)
  qed
qed

end

text \<open>Slots in use at a time: waiting never adds any, and an event adds one only when the limit
  still holds with it.\<close>

locale windowed_quota =
  fixes step :: "'e \<Rightarrow> 's \<Rightarrow> 's"
    and time :: "'e \<Rightarrow> int"
    and usage :: "'s \<Rightarrow> int \<Rightarrow> int"
    and invar :: "'s \<Rightarrow> int \<Rightarrow> bool"
    and limit :: int
  assumes usage_antimono: "t \<le> t' \<Longrightarrow> usage s t' \<le> usage s t"
    and invar_mono: "invar s t \<Longrightarrow> t \<le> t' \<Longrightarrow> invar s t'"
    and invar_step: "invar s (time e) \<Longrightarrow> invar (step e s) (time e)"
    and step_quota: "invar s (time e) \<Longrightarrow> time e \<le> t \<Longrightarrow>
      usage (step e s) t \<le> usage s t \<or> usage (step e s) (time e) \<le> limit"
begin

lemma quota_step:
  assumes "invar s t0" "usage s t0 \<le> limit" "t0 \<le> time e"
  shows "invar (step e s) (time e) \<and> usage (step e s) (time e) \<le> limit"
proof -
  have i: "invar s (time e)" using assms invar_mono by blast
  have "usage s (time e) \<le> limit" using usage_antimono [OF assms(3), of s] assms(2) by simp
  with step_quota [OF i, of "time e"] invar_step [OF i] show ?thesis by auto
qed

lemma quota_run:
  assumes "invar s t0" "usage s t0 \<le> limit" "sorted (t0 # map time es)" "\<forall>e \<in> set es. time e \<le> t" "t0 \<le> t"
  shows "usage (fold step es s) t \<le> limit"
  using assms
proof (induction es arbitrary: s t0)
  case Nil
  then show ?case using usage_antimono [of t0 t s] by simp
next
  case (Cons e es)
  have "usage (fold step es (step e s)) t \<le> limit"
    using quota_step [of s t0 e] Cons.prems by (intro Cons.IH) auto
  then show ?case by simp
qed

end

end
