(* ===== verification/Tick_Features.thy ===== *)
theory Tick_Features
  imports Py_Repr Interfaces
begin

text \<open>
  The tick-feature subsystem (\<^verbatim>\<open>src/src/market/tick_features\<close>): the pure calculator that
  turns a window of ticks into a feature snapshot, the bounded FIFO bus the snapshots are
  published on, the per-symbol health store and the engine that ties them together.
  Listeners of the bus are identifiers; what a listener does is a parameter that says only
  whether the call raised.
\<close>

section \<open>Ticks and configuration\<close>

record tick =
  tk_symbol :: string
  tk_bid :: "rat option"
  tk_ask :: "rat option"
  tk_last :: "rat option"
  tk_volume :: rat
  tk_time :: datetime
  tk_time_msc :: "int option"
  tk_flags :: int

definition tick_mid :: "tick \<Rightarrow> rat option" where
  "tick_mid t = (case (tk_bid t, tk_ask t) of
     (Some b, Some a) \<Rightarrow> Some (fl (fl (b + a) / 2)) | _ \<Rightarrow> None)"

definition tick_price :: "tick \<Rightarrow> rat option" where
  "tick_price t =
    (if tk_last t \<noteq> None then tk_last t
     else if tick_mid t \<noteq> None \<and> tick_mid t \<noteq> Some 0 then tick_mid t
     else if tk_bid t \<noteq> None \<and> tk_bid t \<noteq> Some 0 then tk_bid t
     else tk_ask t)"

record tick_config =
  tc_window_seconds :: rat
  tc_emit_interval_seconds :: rat
  tc_max_quote_age_ms :: int
  tc_max_spread_points :: rat
  tc_min_ticks_per_window :: int
  tc_point_size :: rat
  tc_max_snapshot_age_seconds :: rat
  tc_bus_maxlen :: int
  tc_point_size_by_symbol :: "(string \<times> rat) list"
  tc_max_spread_points_by_symbol :: "(string \<times> rat) list"

definition normalize_symbol_float_map :: "(string \<times> rat) list \<Rightarrow> (string \<times> rat) list" where
  "normalize_symbol_float_map raw =
     fold (\<lambda>(s, v) d. if strip s = [] then d else AList.update (upper (strip s)) v d) raw []"

definition TickFeatureConfig :: "tick_config \<Rightarrow> tick_config" where
  "TickFeatureConfig c =
     c\<lparr>tc_point_size_by_symbol := normalize_symbol_float_map (tc_point_size_by_symbol c),
       tc_max_spread_points_by_symbol := normalize_symbol_float_map (tc_max_spread_points_by_symbol c)\<rparr>"

definition point_size_for :: "tick_config \<Rightarrow> string \<Rightarrow> rat" where
  "point_size_for c symbol =
     (case map_of (tc_point_size_by_symbol c) (upper (strip symbol)) of
        Some v \<Rightarrow> if v = 0 then tc_point_size c else v
      | None \<Rightarrow> tc_point_size c)"

definition max_spread_points_for :: "tick_config \<Rightarrow> string \<Rightarrow> rat" where
  "max_spread_points_for c symbol =
     (case map_of (tc_max_spread_points_by_symbol c) (upper (strip symbol)) of
        Some v \<Rightarrow> if v = 0 then tc_max_spread_points c else v
      | None \<Rightarrow> tc_max_spread_points c)"

record tick_snapshot =
  ts_symbol :: string
  ts_window_start_msc :: int
  ts_window_end_msc :: int
  ts_generated_at :: datetime
  ts_tick_count :: int
  ts_bid :: "rat option"
  ts_ask :: "rat option"
  ts_last :: "rat option"
  ts_mid :: "rat option"
  ts_spread_points :: "rat option"
  ts_quote_age_ms :: "int option"
  ts_realized_range_points :: "rat option"
  ts_price_change_points :: "rat option"
  ts_buy_pressure :: "rat option"
  ts_sell_pressure :: "rat option"
  ts_status :: string
  ts_reasons :: "string list"

section \<open>TickFeatureCalculator\<close>

text \<open>\<open>round(x / point, 10)\<close>, which raises on a zero point.\<close>

definition points_of :: "rat \<Rightarrow> rat \<Rightarrow> rat res" where
  "points_of x point = (if point = 0 then raise ZeroDivisionError else ok (pyround (fl (x / point)) 10))"

definition spread_points :: "tick_config \<Rightarrow> string \<Rightarrow> rat option \<Rightarrow> rat option \<Rightarrow> rat option res" where
  "spread_points c symbol bid ask =
    (case (bid, ask) of
       (Some b, Some a) \<Rightarrow> rbind (points_of (fl (a - b)) (point_size_for c symbol)) (\<lambda>x. ok (Some x))
     | _ \<Rightarrow> ok None)"

definition range_points :: "tick_config \<Rightarrow> string \<Rightarrow> rat list \<Rightarrow> rat option res" where
  "range_points c symbol prices =
    (case prices of [] \<Rightarrow> ok None
     | p # ps \<Rightarrow> rbind (points_of (fl (fold max ps p - fold min ps p)) (point_size_for c symbol))
                   (\<lambda>x. ok (Some x)))"

definition price_change_points ::
  "tick_config \<Rightarrow> string \<Rightarrow> rat option \<Rightarrow> rat option \<Rightarrow> rat option res" where
  "price_change_points c symbol first_price latest_price =
    (case (first_price, latest_price) of
       (Some f, Some l) \<Rightarrow> rbind (points_of (fl (l - f)) (point_size_for c symbol)) (\<lambda>x. ok (Some x))
     | _ \<Rightarrow> ok None)"

fun count_moves :: "rat option \<Rightarrow> rat option list \<Rightarrow> int \<times> int \<Rightarrow> int \<times> int" where
  "count_moves previous [] (buys, sells) = (buys, sells)"
| "count_moves previous (None # ps) (buys, sells) = count_moves previous ps (buys, sells)"
| "count_moves previous (Some price # ps) (buys, sells) =
     count_moves (Some price) ps
       (case previous of None \<Rightarrow> (buys, sells)
        | Some q \<Rightarrow> if q < price then (buys + 1, sells)
                    else if price < q then (buys, sells + 1) else (buys, sells))"

definition direction_pressure :: "tick list \<Rightarrow> rat option \<times> rat option" where
  "direction_pressure ticks =
    (let (buys, sells) = count_moves None (map tick_price ticks) (0, 0);
         moves = buys + sells
     in if moves = 0 then (Some 0, Some 0)
        else (Some (fl (of_int buys / of_int moves)), Some (fl (of_int sells / of_int moves))))"

definition snapshot_status ::
  "tick_config \<Rightarrow> string \<Rightarrow> int \<Rightarrow> rat option \<Rightarrow> int option \<Rightarrow> bool \<Rightarrow> string \<times> string list" where
  "snapshot_status c symbol tick_count spread quote_age quote_side_missing =
    (let reasons =
       (if tick_count < tc_min_ticks_per_window c then [''sparse_ticks''] else []) @
       (if quote_side_missing then [''quote_side_missing''] else []) @
       (if (case spread of None \<Rightarrow> False | Some s \<Rightarrow> max_spread_points_for c symbol < s)
        then [''spread_wide''] else []) @
       (if (case quote_age of None \<Rightarrow> False | Some a \<Rightarrow> tc_max_quote_age_ms c < a)
        then [''quote_stale''] else [])
     in if ''quote_side_missing'' \<in> set reasons \<or> ''spread_wide'' \<in> set reasons
        then (''blocked'', reasons)
        else if ''quote_stale'' \<in> set reasons then (''stale'', reasons)
        else if reasons \<noteq> [] then (''sparse'', reasons)
        else (''healthy'', []))"

text \<open>\<open>int(tick.time_msc or d)\<close>.\<close>

definition msc_or :: "int \<Rightarrow> tick \<Rightarrow> int" where
  "msc_or d t = (case tk_time_msc t of Some m \<Rightarrow> if m = 0 then d else m | None \<Rightarrow> d)"

definition window_ms :: "tick_config \<Rightarrow> int" where
  "window_ms c = py_int (fl (tc_window_seconds c * 1000))"

definition empty_snapshot :: "tick_config \<Rightarrow> string \<Rightarrow> datetime \<Rightarrow> int \<Rightarrow> tick_snapshot" where
  "empty_snapshot c symbol now now_msc =
     \<lparr>ts_symbol = symbol, ts_window_start_msc = now_msc - window_ms c, ts_window_end_msc = now_msc,
      ts_generated_at = now, ts_tick_count = 0, ts_bid = None, ts_ask = None, ts_last = None,
      ts_mid = None, ts_spread_points = None, ts_quote_age_ms = None,
      ts_realized_range_points = None, ts_price_change_points = None, ts_buy_pressure = None,
      ts_sell_pressure = None, ts_status = ''stale'', ts_reasons = [''no_ticks'']\<rparr>"

definition window_of :: "tick_config \<Rightarrow> int \<Rightarrow> tick list \<Rightarrow> tick list" where
  "window_of c now_msc ordered =
     filter (\<lambda>t. msc_or now_msc (last ordered) - window_ms c \<le> msc_or 0 t) ordered"

definition calculate :: "tick_config \<Rightarrow> string \<Rightarrow> tick list \<Rightarrow> datetime \<Rightarrow> tick_snapshot res" where
  "calculate c symbol ticks now0 =
    (let now = as_utc now0;
         now_msc = py_int (fl (timestamp 0 now * 1000));
         ordered = sort_key (msc_or 0) (filter (\<lambda>t. tk_time_msc t \<noteq> None) ticks)
     in if ordered = [] then ok (empty_snapshot c symbol now now_msc)
        else let latest_msc = msc_or now_msc (last ordered);
                 window_start_msc = latest_msc - window_ms c;
                 window_ticks = window_of c now_msc ordered
     in if window_ticks = [] then raise IndexError
        else let latest = last window_ticks;
                 prices = List.map_filter tick_price window_ticks;
                 first_price = (case prices of [] \<Rightarrow> None | p # _ \<Rightarrow> Some p);
                 latest_price = (case prices of [] \<Rightarrow> None | _ \<Rightarrow> Some (last prices));
                 quote_age_ms = now_msc - msc_or now_msc latest;
                 (buys, sells) = direction_pressure window_ticks
     in rbind (spread_points c symbol (tk_bid latest) (tk_ask latest)) (\<lambda>spread.
        rbind (range_points c symbol prices) (\<lambda>range.
        rbind (price_change_points c symbol first_price latest_price) (\<lambda>change.
        let (status, reasons) = snapshot_status c symbol (int (length window_ticks)) spread
              (Some quote_age_ms) (tk_bid latest = None \<or> tk_ask latest = None)
        in ok \<lparr>ts_symbol = symbol, ts_window_start_msc = window_start_msc,
               ts_window_end_msc = msc_or latest_msc latest, ts_generated_at = now,
               ts_tick_count = int (length window_ticks), ts_bid = tk_bid latest,
               ts_ask = tk_ask latest, ts_last = tk_last latest, ts_mid = tick_mid latest,
               ts_spread_points = spread, ts_quote_age_ms = Some quote_age_ms,
               ts_realized_range_points = range, ts_price_change_points = change,
               ts_buy_pressure = buys, ts_sell_pressure = sells,
               ts_status = status, ts_reasons = reasons\<rparr>))))"

section \<open>TickFeatureBus\<close>

record 'l tick_bus =
  tb_maxlen :: int
  tb_queue :: "tick_snapshot list"
  tb_dropped :: int
  tb_last_publish_at :: "datetime option"
  tb_listeners :: "'l list"
  tb_failed :: int
  tb_last_error :: "string option"

definition bus_init :: "int \<Rightarrow> 'l tick_bus" where
  "bus_init maxlen = \<lparr>tb_maxlen = max 1 maxlen, tb_queue = [], tb_dropped = 0,
     tb_last_publish_at = None, tb_listeners = [], tb_failed = 0, tb_last_error = None\<rparr>"

definition add_listener :: "'l \<Rightarrow> 'l tick_bus \<Rightarrow> 'l tick_bus" where
  "add_listener l b = (if l \<in> set (tb_listeners b) then b
     else b\<lparr>tb_listeners := tb_listeners b @ [l]\<rparr>)"

definition remove_listener :: "'l \<Rightarrow> 'l tick_bus \<Rightarrow> 'l tick_bus" where
  "remove_listener l b = b\<lparr>tb_listeners := filter (\<lambda>x. x \<noteq> l) (tb_listeners b)\<rparr>"

text \<open>\<open>calls l s\<close> is the text of the exception listener \<open>l\<close> raises on \<open>s\<close>, None when it
  returns.\<close>

fun dispatch :: "('l \<Rightarrow> tick_snapshot \<Rightarrow> string option) \<Rightarrow> tick_snapshot \<Rightarrow> 'l list \<Rightarrow> 'l tick_bus \<Rightarrow>
    'l tick_bus" where
  "dispatch calls s [] b = b"
| "dispatch calls s (l # ls) b = dispatch calls s ls
     (case calls l s of None \<Rightarrow> b
      | Some err \<Rightarrow> b\<lparr>tb_failed := tb_failed b + 1, tb_last_error := Some err\<rparr>)"

definition publish :: "('l \<Rightarrow> tick_snapshot \<Rightarrow> string option) \<Rightarrow> datetime \<Rightarrow> tick_snapshot \<Rightarrow>
    'l tick_bus \<Rightarrow> 'l tick_bus" where
  "publish calls now s b =
    (let listeners = tb_listeners b;
         b1 = (if listeners = []
               then (let b0 = (if tb_maxlen b \<le> int (length (tb_queue b))
                               then b\<lparr>tb_queue := tl (tb_queue b), tb_dropped := tb_dropped b + 1\<rparr>
                               else b)
                     in b0\<lparr>tb_queue := tb_queue b0 @ [s]\<rparr>)
               else b);
         b2 = b1\<lparr>tb_last_publish_at := Some now\<rparr>
     in dispatch calls s listeners b2)"

definition drain :: "int \<Rightarrow> 'l tick_bus \<Rightarrow> tick_snapshot list \<times> 'l tick_bus" where
  "drain max_items b = (let limit = nat (max 0 max_items)
     in (take limit (tb_queue b), b\<lparr>tb_queue := drop limit (tb_queue b)\<rparr>))"

definition bus_stats :: "'l tick_bus \<Rightarrow> pydict" where
  "bus_stats b =
    [(''queue_depth'', VInt (int (length (tb_queue b)))),
     (''dropped_snapshots'', VInt (tb_dropped b)),
     (''last_publish_at'', case tb_last_publish_at b of None \<Rightarrow> VNone | Some t \<Rightarrow> VStr (isoformat t)),
     (''listeners'', VInt (int (length (tb_listeners b)))),
     (''failed_dispatches'', VInt (tb_failed b)),
     (''last_error'', opt_str (tb_last_error b))]"

section \<open>TickFeatureHealthStore\<close>

record tick_health =
  th_symbol :: string
  th_status :: string
  th_last_snapshot_at :: "datetime option"
  th_last_window_end_msc :: "int option"
  th_snapshot_age_seconds :: "rat option"
  th_queue_depth :: int
  th_dropped_snapshots :: int
  th_last_reasons :: "string list"

definition blocking :: "tick_health \<Rightarrow> bool" where
  "blocking h = (th_status h \<in> {''stale'', ''blocked'', ''missing''})"

record health_store =
  hs_max_snapshot_age_seconds :: rat
  hs_latest_by_symbol :: "(string \<times> tick_snapshot) list"
  hs_last_bus_stats :: pydict

definition health_init :: "rat \<Rightarrow> health_store" where
  "health_init max_age = \<lparr>hs_max_snapshot_age_seconds = max_age, hs_latest_by_symbol = [],
     hs_last_bus_stats = [(''queue_depth'', VInt 0), (''dropped_snapshots'', VInt 0)]\<rparr>"

definition update_from_snapshot :: "tick_snapshot \<Rightarrow> pydict \<Rightarrow> health_store \<Rightarrow> health_store" where
  "update_from_snapshot s stats h =
     h\<lparr>hs_latest_by_symbol := AList.update (ts_symbol s) s (hs_latest_by_symbol h),
       hs_last_bus_stats := stats\<rparr>"

definition stat_int :: "pydict \<Rightarrow> string \<Rightarrow> int res" where
  "stat_int d k = py_int_of (py_or (dget d k) (VInt 0))"

definition health_for :: "health_store \<Rightarrow> string \<Rightarrow> datetime \<Rightarrow> pydict option \<Rightarrow> tick_health res" where
  "health_for h symbol now0 bus_stats0 =
    (let now = as_utc now0;
         stats = (case bus_stats0 of Some (x # xs) \<Rightarrow> x # xs | _ \<Rightarrow> hs_last_bus_stats h)
     in case map_of (hs_latest_by_symbol h) symbol of
          None \<Rightarrow>
            rbind (stat_int stats ''queue_depth'') (\<lambda>depth.
            rbind (stat_int stats ''dropped_snapshots'') (\<lambda>dropped.
            ok \<lparr>th_symbol = symbol, th_status = ''missing'', th_last_snapshot_at = None,
                th_last_window_end_msc = None, th_snapshot_age_seconds = None,
                th_queue_depth = depth, th_dropped_snapshots = dropped,
                th_last_reasons = [''no_snapshot'']\<rparr>))
        | Some s \<Rightarrow>
            rbind (dt_sub now (as_utc (ts_generated_at s))) (\<lambda>d.
            let age = max 0 (total_seconds d);
                (status, reasons) = (if hs_max_snapshot_age_seconds h < age
                  then (''stale'', [''snapshot_stale'']) else (ts_status s, ts_reasons s))
            in rbind (stat_int stats ''queue_depth'') (\<lambda>depth.
               rbind (stat_int stats ''dropped_snapshots'') (\<lambda>dropped.
               ok \<lparr>th_symbol = symbol, th_status = status,
                   th_last_snapshot_at = Some (ts_generated_at s),
                   th_last_window_end_msc = Some (ts_window_end_msc s),
                   th_snapshot_age_seconds = Some age, th_queue_depth = depth,
                   th_dropped_snapshots = dropped, th_last_reasons = reasons\<rparr>))))"

section \<open>TickFeatureEngine\<close>

record 'l tick_engine =
  te_config :: tick_config
  te_bus :: "'l tick_bus"
  te_health :: health_store
  te_buffers :: "(string \<times> tick list) list"
  te_last_emit_msc :: "(string \<times> int) list"

definition latest_batch_msc :: "tick list \<Rightarrow> int option" where
  "latest_batch_msc ticks =
    (case List.map_filter tk_time_msc ticks of [] \<Rightarrow> None | m # ms \<Rightarrow> Some (fold max ms m))"

definition buffer_of :: "'l tick_engine \<Rightarrow> string \<Rightarrow> tick list" where
  "buffer_of e symbol = (case map_of (te_buffers e) symbol of None \<Rightarrow> [] | Some b \<Rightarrow> b)"

text \<open>The second component is the exception the call raised, with the state it left.\<close>

definition ingest_ticks ::
  "('l \<Rightarrow> tick_snapshot \<Rightarrow> string option) \<Rightarrow> datetime \<Rightarrow> string \<Rightarrow> tick list \<Rightarrow> datetime \<Rightarrow>
   'l tick_engine \<Rightarrow> 'l tick_engine \<times> py_error option" where
  "ingest_ticks calls clock symbol ticks received_at e =
    (let appended = buffer_of e symbol @ ticks;
         e1 = e\<lparr>te_buffers := AList.update symbol appended (te_buffers e)\<rparr>
     in case latest_batch_msc ticks of
          None \<Rightarrow> (e1, None)
        | Some latest_msc \<Rightarrow>
            let cutoff_msc = latest_msc - window_ms (te_config e);
                buffer = dropWhile (\<lambda>t. case tk_time_msc t of None \<Rightarrow> False | Some m \<Rightarrow> m < cutoff_msc)
                           appended;
                e2 = e1\<lparr>te_buffers := AList.update symbol buffer (te_buffers e1)\<rparr>;
                emit_delta_msc = py_int (fl (tc_emit_interval_seconds (te_config e) * 1000))
            in if (case map_of (te_last_emit_msc e) symbol of None \<Rightarrow> False
                   | Some last_emit \<Rightarrow> latest_msc - last_emit < emit_delta_msc)
               then (e2, None)
               else case calculate (te_config e) symbol buffer received_at of
                      Inl err \<Rightarrow> (e2, Some err)
                    | Inr snapshot \<Rightarrow>
                        let bus = publish calls clock snapshot (te_bus e2)
                        in (e2\<lparr>te_bus := bus,
                              te_health := update_from_snapshot snapshot (bus_stats bus) (te_health e2),
                              te_last_emit_msc := AList.update symbol latest_msc (te_last_emit_msc e2)\<rparr>,
                            None))"

definition on_tick_batch ::
  "('l \<Rightarrow> tick_snapshot \<Rightarrow> string option) \<Rightarrow> datetime \<Rightarrow> string \<Rightarrow> tick list \<Rightarrow> datetime \<Rightarrow>
   'l tick_engine \<Rightarrow> 'l tick_engine \<times> py_error option" where
  "on_tick_batch calls clock symbol ticks received_at e =
    (if ticks = [] then (e, None) else ingest_ticks calls clock symbol ticks received_at e)"

record quote =
  qt_symbol :: string
  qt_bid :: rat
  qt_ask :: rat
  qt_last :: rat
  qt_volume :: rat
  qt_time :: datetime

definition on_quote ::
  "('l \<Rightarrow> tick_snapshot \<Rightarrow> string option) \<Rightarrow> int \<Rightarrow> datetime \<Rightarrow> string \<Rightarrow> quote \<Rightarrow> datetime \<Rightarrow>
   'l tick_engine \<Rightarrow> 'l tick_engine \<times> py_error option" where
  "on_quote calls local_off clock symbol q received_at e =
    ingest_ticks calls clock symbol
      [\<lparr>tk_symbol = qt_symbol q, tk_bid = Some (qt_bid q), tk_ask = Some (qt_ask q),
        tk_last = Some (qt_last q),
        tk_volume = qt_volume q, tk_time = qt_time q,
        tk_time_msc = Some (py_int (fl (timestamp local_off (qt_time q) * 1000))), tk_flags = 0\<rparr>]
      received_at e"

section \<open>Lemmas: points and pressures\<close>

lemma points_of_mono:
  "0 < p \<Longrightarrow> x \<le> y \<Longrightarrow> points_of x p = ok a \<Longrightarrow> points_of y p = ok b \<Longrightarrow> a \<le> b"
  by (auto simp: points_of_def intro!: float_mono divide_right_mono)

lemma points_of_uminus: "points_of x p = ok a \<Longrightarrow> points_of (- x) p = ok (- a)"
  by (auto simp: points_of_def pyround_uminus fl_uminus split: if_splits)

text \<open>The net price change of a window never exceeds its realised range.\<close>

lemma price_change_within_range:
  assumes p: "0 < point_size_for c symbol"
    and range: "range_points c symbol prices = ok (Some r)"
    and change: "price_change_points c symbol (Some (hd prices)) (Some (last prices)) = ok (Some d)"
  shows "\<bar>d\<bar> \<le> r"
proof -
  obtain q ps where prices: "prices = q # ps"
    using range by (cases prices) (auto simp: range_points_def)
  let ?M = "fold max ps q" and ?m = "fold min ps q" and ?p = "point_size_for c symbol"
  let ?l = "last prices"
  have r: "points_of (fl (?M - ?m)) ?p = ok r"
    using range by (auto simp: range_points_def prices res_simps)
  have d: "points_of (fl (?l - q)) ?p = ok d"
    using change by (auto simp: price_change_points_def prices res_simps)
  have in_l: "?l \<in> set (q # ps)" using prices by simp
  have "?l - q \<le> ?M - ?m" "q - ?l \<le> ?M - ?m"
    using fold_max_ge [OF in_l] fold_min_le [OF in_l] fold_max_ge [of q q ps] fold_min_le [of q q ps]
    by (simp_all add: algebra_simps)
  then have le: "fl (?l - q) \<le> fl (?M - ?m)" "- fl (?l - q) \<le> fl (?M - ?m)"
    using fl_mono [of "?l - q" "?M - ?m"] fl_mono [of "q - ?l" "?M - ?m"] fl_uminus [of "?l - q"]
    by simp_all
  have "d \<le> r" using points_of_mono [OF p le(1) d r] .
  moreover have "- d \<le> r" using points_of_mono [OF p le(2) points_of_uminus [OF d] r] .
  ultimately show ?thesis by simp
qed

lemma count_moves_nonneg:
  "count_moves prev ps (b, s) = (b', s') \<Longrightarrow> 0 \<le> b \<Longrightarrow> 0 \<le> s \<Longrightarrow> 0 \<le> b' \<and> 0 \<le> s'"
proof (induction ps arbitrary: prev b s)
  case (Cons p ps)
  show ?case
  proof (cases p)
    case (Some x)
    with Cons.prems Cons.IH show ?thesis by (fastforce split: option.splits if_splits)
  qed (use Cons in simp)
qed simp

lemma fl_share_bounds:
  "0 \<le> a \<Longrightarrow> 0 \<le> b \<Longrightarrow> a + b \<noteq> 0 \<Longrightarrow> 0 \<le> fl (of_int a / of_int (a + b)) \<and> fl (of_int a / of_int (a + b)) \<le> 1"
  by (intro conjI fl_nonneg fl_le_float) (simp_all add: divide_le_eq)

lemma direction_pressure_bounds:
  assumes "direction_pressure ticks = (b, s)"
  obtains x y where "b = Some x" "s = Some y" "0 \<le> x" "x \<le> 1" "0 \<le> y" "y \<le> 1"
proof -
  obtain m n where mn: "count_moves None (map tick_price ticks) (0, 0) = (m, n)" by fastforce
  have nn: "0 \<le> m" "0 \<le> n" using count_moves_nonneg [OF mn] by simp_all
  show ?thesis
  proof (cases "m + n = 0")
    case True
    with assms mn have "b = Some 0" "s = Some 0" by (auto simp: direction_pressure_def)
    then show ?thesis by (rule that) simp_all
  next
    case False
    with assms mn have "b = Some (fl (of_int m / of_int (m + n)))"
      "s = Some (fl (of_int n / of_int (n + m)))"
      by (simp_all add: direction_pressure_def add.commute)
    then show ?thesis
      by (rule that)
        (use fl_share_bounds [of m n] fl_share_bounds [of n m] nn False in \<open>simp_all add: add.commute\<close>)
  qed
qed

section \<open>Lemmas: the snapshot\<close>

lemma snapshot_status_healthy:
  assumes "snapshot_status c symbol n spread age missing = (''healthy'', rs)"
  shows "tc_min_ticks_per_window c \<le> n" "\<not> missing"
    "\<And>x. spread = Some x \<Longrightarrow> x \<le> max_spread_points_for c symbol"
    "\<And>a. age = Some a \<Longrightarrow> a \<le> tc_max_quote_age_ms c" "rs = []"
  using assms by (auto simp: snapshot_status_def Let_def split: if_splits)

lemma snapshot_status_values:
  "fst (snapshot_status c symbol n spread age missing) \<in> {''blocked'', ''stale'', ''sparse'', ''healthy''}"
  by (simp add: snapshot_status_def Let_def)

lemma map_filter_hd: "prices \<noteq> [] \<Longrightarrow> (case prices of [] \<Rightarrow> None | p # _ \<Rightarrow> Some p) = Some (hd prices)"
  by (cases prices) simp_all

text \<open>The values a successful calculation on a non-empty window computes.\<close>

lemma calculate_okE:
  assumes "calculate c symbol ticks now = ok s" and "0 < ts_tick_count s"
  obtains window spread range change where
    "window \<noteq> []" "set window \<subseteq> set ticks" "ts_tick_count s = int (length window)"
    "spread_points c symbol (ts_bid s) (ts_ask s) = ok spread" "ts_spread_points s = spread"
    "range_points c symbol (List.map_filter tick_price window) = ok range"
    "ts_realized_range_points s = range"
    "price_change_points c symbol
       (case List.map_filter tick_price window of [] \<Rightarrow> None | p # _ \<Rightarrow> Some p)
       (case List.map_filter tick_price window of [] \<Rightarrow> None | _ \<Rightarrow> Some (last (List.map_filter tick_price window)))
       = ok change"
    "ts_price_change_points s = change"
    "direction_pressure window = (ts_buy_pressure s, ts_sell_pressure s)"
    "snapshot_status c symbol (ts_tick_count s) spread (ts_quote_age_ms s)
       (ts_bid s = None \<or> ts_ask s = None) = (ts_status s, ts_reasons s)"
proof -
  define now_msc where "now_msc = py_int (fl (timestamp 0 (as_utc now) * 1000))"
  define ordered where "ordered = sort_key (msc_or 0) (filter (\<lambda>t. tk_time_msc t \<noteq> None) ticks)"
  define window where "window = window_of c now_msc ordered"
  have "ordered \<noteq> []"
    using assms by (auto simp: calculate_def Let_def ordered_def now_msc_def empty_snapshot_def)
  note calc = assms(1) [unfolded calculate_def Let_def, folded now_msc_def ordered_def window_def]
  have w: "window \<noteq> []" using calc \<open>ordered \<noteq> []\<close> by (auto split: if_splits)
  have "set window \<subseteq> set ticks" by (auto simp: window_def window_of_def ordered_def)
  moreover from calc \<open>ordered \<noteq> []\<close> w have "\<exists>spread range change.
    ts_tick_count s = int (length window) \<and>
    spread_points c symbol (ts_bid s) (ts_ask s) = ok spread \<and> ts_spread_points s = spread \<and>
    range_points c symbol (List.map_filter tick_price window) = ok range \<and>
    ts_realized_range_points s = range \<and>
    price_change_points c symbol
       (case List.map_filter tick_price window of [] \<Rightarrow> None | p # _ \<Rightarrow> Some p)
       (case List.map_filter tick_price window of [] \<Rightarrow> None | _ \<Rightarrow> Some (last (List.map_filter tick_price window)))
       = ok change \<and> ts_price_change_points s = change \<and>
    direction_pressure window = (ts_buy_pressure s, ts_sell_pressure s) \<and>
    snapshot_status c symbol (ts_tick_count s) spread (ts_quote_age_ms s)
       (ts_bid s = None \<or> ts_ask s = None) = (ts_status s, ts_reasons s)"
    by (auto simp: res_simps case_prod_beta)
  ultimately show ?thesis using w that by blast
qed

text \<open>No tick in the buffer is outside the window rule, and the latest tick is inside it: the
  calculation is defined whenever tick times are set and the window is not negative.\<close>

lemma window_of_nonempty:
  assumes "ordered \<noteq> []" and "\<And>t. t \<in> set ordered \<Longrightarrow> tk_time_msc t \<noteq> None \<and> tk_time_msc t \<noteq> Some 0"
    and "0 \<le> window_ms c"
  shows "window_of c now_msc ordered \<noteq> []"
proof -
  have "last ordered \<in> set ordered" using assms(1) by simp
  moreover from assms(2) [OF this] have "msc_or now_msc (last ordered) = msc_or 0 (last ordered)"
    by (auto simp: msc_or_def)
  ultimately have "last ordered \<in> set (window_of c now_msc ordered)"
    using assms(3) by (simp add: window_of_def)
  then show ?thesis by (metis empty_iff list.set(1))
qed

lemma points_defined:
  assumes "point_size_for c symbol \<noteq> 0"
  shows "\<exists>x. spread_points c symbol b a = ok x" "\<exists>x. range_points c symbol ps = ok x"
    "\<exists>x. price_change_points c symbol f l = ok x"
  using assms
  by (auto simp: spread_points_def range_points_def price_change_points_def points_of_def
      split: option.splits list.splits)

lemma calculate_defined:
  assumes "\<And>t. t \<in> set ticks \<Longrightarrow> tk_time_msc t \<noteq> Some 0" and "0 \<le> window_ms c"
    and "point_size_for c symbol \<noteq> 0"
  shows "\<exists>s. calculate c symbol ticks now = ok s"
proof -
  define ordered where "ordered = sort_key (msc_or 0) (filter (\<lambda>t. tk_time_msc t \<noteq> None) ticks)"
  have "window_of c n ordered \<noteq> []" if "ordered \<noteq> []" for n
    using that assms(1,2) by (intro window_of_nonempty) (auto simp: ordered_def)
  moreover obtain f g h where "\<And>b a. spread_points c symbol b a = ok (f b a)"
    "\<And>ps. range_points c symbol ps = ok (g ps)" "\<And>a l. price_change_points c symbol a l = ok (h a l)"
    using points_defined [OF assms(3)] by metis
  ultimately show ?thesis
    unfolding calculate_def Let_def ordered_def [symmetric]
    by (simp add: case_prod_beta)
qed

lemma calculate_pressures:
  assumes "calculate c symbol ticks now = ok s" and "0 < ts_tick_count s"
  shows "\<exists>b p. ts_buy_pressure s = Some b \<and> ts_sell_pressure s = Some p \<and>
    0 \<le> b \<and> b \<le> 1 \<and> 0 \<le> p \<and> p \<le> 1"
proof -
  obtain window where "direction_pressure window = (ts_buy_pressure s, ts_sell_pressure s)"
    by (rule calculate_okE [OF assms])
  then show ?thesis by (rule direction_pressure_bounds) blast
qed

lemma calculate_range:
  assumes "calculate c symbol ticks now = ok s" and "0 < ts_tick_count s"
    and point: "0 < point_size_for c symbol"
    and rd: "ts_realized_range_points s = Some r" "ts_price_change_points s = Some d"
  shows "\<bar>d\<bar> \<le> r"
proof -
  obtain window range change where
    range: "range_points c symbol (List.map_filter tick_price window) = ok range"
      "ts_realized_range_points s = range"
    and change: "price_change_points c symbol
        (case List.map_filter tick_price window of [] \<Rightarrow> None | p # _ \<Rightarrow> Some p)
        (case List.map_filter tick_price window of [] \<Rightarrow> None
         | _ \<Rightarrow> Some (last (List.map_filter tick_price window))) = ok change"
      "ts_price_change_points s = change"
    by (rule calculate_okE [OF assms(1,2)])
  let ?ps = "List.map_filter tick_price window"
  have "?ps \<noteq> []" using range rd by (auto simp: range_points_def)
  then have "price_change_points c symbol (Some (hd ?ps)) (Some (last ?ps)) = ok (Some d)"
    using change rd by (cases ?ps) auto
  then show ?thesis using price_change_within_range [OF point] range rd by simp
qed

lemma calculate_healthy:
  assumes "calculate c symbol ticks now = ok s" and "0 < ts_tick_count s"
    and "ts_status s = ''healthy''"
  shows "ts_bid s \<noteq> None \<and> ts_ask s \<noteq> None \<and> tc_min_ticks_per_window c \<le> ts_tick_count s \<and>
    (\<forall>x. ts_spread_points s = Some x \<longrightarrow> x \<le> max_spread_points_for c symbol) \<and>
    (\<forall>a. ts_quote_age_ms s = Some a \<longrightarrow> a \<le> tc_max_quote_age_ms c)"
proof -
  have "snapshot_status c symbol (ts_tick_count s) (ts_spread_points s) (ts_quote_age_ms s)
      (ts_bid s = None \<or> ts_ask s = None) = (''healthy'', ts_reasons s)"
    by (rule calculate_okE [OF assms(1,2)]) (simp add: assms(3))
  note h = snapshot_status_healthy [OF this]
  show ?thesis by (intro conjI allI impI h(1) h(3) h(4)) (use h(2) in simp_all)
qed

section \<open>What a snapshot describes\<close>

text \<open>The ticks of the window, by definition: those with a time no older than the window's length
  before the newest time of all, oldest first, ticks of the same time in the order they came.\<close>

definition tick_time :: "tick \<Rightarrow> int" where
  "tick_time t = (case tk_time_msc t of None \<Rightarrow> 0 | Some m \<Rightarrow> m)"

definition newest :: "tick list \<Rightarrow> int" where
  "newest ticks = Max (set (List.map_filter tk_time_msc ticks))"

definition recent_ticks :: "int \<Rightarrow> tick list \<Rightarrow> tick list" where
  "recent_ticks width ticks =
    sort_key tick_time (filter (\<lambda>t. tk_time_msc t \<noteq> None \<and> newest ticks - width \<le> tick_time t) ticks)"

text \<open>The number of price moves in a direction, and its share of all moves.\<close>

definition moves :: "(rat \<Rightarrow> rat \<Rightarrow> bool) \<Rightarrow> rat list \<Rightarrow> int" where
  "moves rel prices = int (length (filter (\<lambda>(p, q). rel p q) (zip prices (tl prices))))"

definition share :: "int \<Rightarrow> int \<Rightarrow> rat" where
  "share n m = (if n + m = 0 then 0 else fl (of_int n / of_int (n + m)))"

definition snapshot_describes :: "tick_config \<Rightarrow> string \<Rightarrow> tick list \<Rightarrow> datetime \<Rightarrow> tick_snapshot \<Rightarrow> bool" where
  "snapshot_describes c symbol ticks now s \<longleftrightarrow>
    (let window = recent_ticks (window_ms c) ticks; latest = last window;
         prices = List.map_filter tick_price window;
         age = py_int (fl (timestamp 0 (as_utc now) * 1000)) - newest ticks;
         in_points = (\<lambda>x. pyround (fl (fl x / point_size_for c symbol)) 10);
         ups = moves (<) prices; downs = moves (>) prices;
         missing = (tk_bid latest = None \<or> tk_ask latest = None);
         wide = (case ts_spread_points s of None \<Rightarrow> False | Some x \<Rightarrow> max_spread_points_for c symbol < x)
     in window \<noteq> [] \<and> ts_symbol s = symbol \<and> ts_tick_count s = int (length window) \<and>
        ts_window_start_msc s = newest ticks - window_ms c \<and> ts_window_end_msc s = newest ticks \<and>
        tk_time_msc latest = Some (newest ticks) \<and> ts_quote_age_ms s = Some age \<and>
        ts_bid s = tk_bid latest \<and> ts_ask s = tk_ask latest \<and> ts_last s = tk_last latest \<and>
        ts_mid s = tick_mid latest \<and>
        ts_spread_points s = (case (tk_bid latest, tk_ask latest) of
          (Some b, Some a) \<Rightarrow> Some (in_points (a - b)) | _ \<Rightarrow> None) \<and>
        ts_realized_range_points s =
          (if prices = [] then None else Some (in_points (Max (set prices) - Min (set prices)))) \<and>
        ts_price_change_points s = (if prices = [] then None else Some (in_points (last prices - hd prices))) \<and>
        ts_buy_pressure s = Some (share ups downs) \<and> ts_sell_pressure s = Some (share downs ups) \<and>
        ts_status s = (if missing \<or> wide then ''blocked'' else if tc_max_quote_age_ms c < age then ''stale''
          else if int (length window) < tc_min_ticks_per_window c then ''sparse'' else ''healthy''))"

lemma msc_or_time: "msc_or 0 = tick_time"
  by (auto simp: msc_or_def tick_time_def split: option.splits)

lemma msc_or_stamped: "tk_time_msc t \<noteq> None \<Longrightarrow> tk_time_msc t \<noteq> Some 0 \<Longrightarrow> msc_or d t = tick_time t"
  by (auto simp: msc_or_def tick_time_def)

lemma last_filter_kept: "xs \<noteq> [] \<Longrightarrow> P (last xs) \<Longrightarrow> last (filter P xs) = last xs"
  by (induction xs rule: rev_induct) simp_all

lemma newest_last:
  assumes "ordered = sort_key tick_time (filter (\<lambda>t. tk_time_msc t \<noteq> None) ticks)" "ordered \<noteq> []"
  shows "tick_time (last ordered) = newest ticks"
proof -
  have times: "set (List.map_filter tk_time_msc ticks) = tick_time ` set ordered"
    by (force simp: assms(1) List.map_filter_def tick_time_def)
  have "sorted (map tick_time (butlast ordered @ [last ordered]))" using assms by simp
  then have "\<forall>t \<in> set (butlast ordered). tick_time t \<le> tick_time (last ordered)"
    unfolding map_append sorted_append by simp
  then have "\<forall>t \<in> set ordered. tick_time t \<le> tick_time (last ordered)"
    using assms(2) by (metis Un_iff append_butlast_last_id empty_iff empty_set insert_iff list.simps(15) order_refl set_append)
  then show ?thesis unfolding newest_def times using assms(2) by (intro Max_eqI [symmetric]) auto
qed

lemma window_is_recent:
  assumes "\<forall>t \<in> set ticks. tk_time_msc t \<noteq> Some 0" "0 \<le> window_ms c"
    and "ordered = sort_key (msc_or 0) (filter (\<lambda>t. tk_time_msc t \<noteq> None) ticks)" "ordered \<noteq> []"
  shows "msc_or now_msc (last ordered) = newest ticks" "window_of c now_msc ordered = recent_ticks (window_ms c) ticks"
    "last (recent_ticks (window_ms c) ticks) = last ordered" "tk_time_msc (last ordered) = Some (newest ticks)"
    "recent_ticks (window_ms c) ticks \<noteq> []"
proof -
  have ord: "ordered = sort_key tick_time (filter (\<lambda>t. tk_time_msc t \<noteq> None) ticks)" using assms(3) by (simp add: msc_or_time)
  have "last ordered \<in> set ordered" using assms(4) by simp
  then have stamped: "tk_time_msc (last ordered) \<noteq> None" "tk_time_msc (last ordered) \<noteq> Some 0"
    using assms(1) by (auto simp: ord)
  show latest: "msc_or now_msc (last ordered) = newest ticks"
    using newest_last [OF ord assms(4)] msc_or_stamped [OF stamped] by simp
  show w: "window_of c now_msc ordered = recent_ticks (window_ms c) ticks"
    unfolding window_of_def latest recent_ticks_def msc_or_time by (simp add: ord filter_sort conj_commute)
  show "last (recent_ticks (window_ms c) ticks) = last ordered"
    unfolding w [symmetric] window_of_def latest msc_or_time
    using newest_last [OF ord assms(4)] assms(2,4) by (intro last_filter_kept) simp_all
  show "tk_time_msc (last ordered) = Some (newest ticks)"
    using newest_last [OF ord assms(4)] stamped by (auto simp: tick_time_def)
  show "recent_ticks (window_ms c) ticks \<noteq> []"
    unfolding w [symmetric] using assms(1,2,4) by (intro window_of_nonempty) (auto simp: ord)
qed

lemma count_moves_eq:
  "count_moves previous ps (b, n) =
    (let qs = (case previous of None \<Rightarrow> [] | Some q \<Rightarrow> [q]) @ List.map_filter id ps
     in (b + moves (<) qs, n + moves (>) qs))"
proof (induction ps arbitrary: previous b n)
  case (Cons p ps)
  show ?case
  proof (cases p)
    case (Some x)
    then show ?thesis by (cases previous) (auto simp: Cons.IH moves_def map_filter_simps Let_def)
  qed (simp add: Cons.IH map_filter_simps Let_def)
qed (auto simp: moves_def map_filter_simps split: option.splits)

lemma direction_pressure_eq:
  "direction_pressure ticks = (let ps = List.map_filter tick_price ticks
     in (Some (share (moves (<) ps) (moves (>) ps)), Some (share (moves (>) ps) (moves (<) ps))))"
proof -
  have "List.map_filter id (map tick_price ticks) = List.map_filter tick_price ticks"
    by (induction ticks) (simp_all add: map_filter_simps split: option.splits)
  then show ?thesis by (simp add: direction_pressure_def count_moves_eq share_def add.commute Let_def)
qed

lemma range_points_eq:
  "point_size_for c symbol \<noteq> 0 \<Longrightarrow> range_points c symbol ps =
    ok (if ps = [] then None else Some (pyround (fl (fl (Max (set ps) - Min (set ps)) / point_size_for c symbol)) 10))"
  by (cases ps) (simp_all add: range_points_def points_of_def Max.set_eq_fold Min.set_eq_fold del: set_simps list.set(2))

lemma price_change_eq:
  "point_size_for c symbol \<noteq> 0 \<Longrightarrow> price_change_points c symbol (case ps of [] \<Rightarrow> None | p # _ \<Rightarrow> Some p)
      (case ps of [] \<Rightarrow> None | _ \<Rightarrow> Some (last ps)) =
    ok (if ps = [] then None else Some (pyround (fl (fl (last ps - hd ps) / point_size_for c symbol)) 10))"
  by (cases ps) (simp_all add: price_change_points_def points_of_def)

lemma spread_points_eq:
  "point_size_for c symbol \<noteq> 0 \<Longrightarrow> spread_points c symbol bid ask = ok (case (bid, ask) of
     (Some b, Some a) \<Rightarrow> Some (pyround (fl (fl (a - b) / point_size_for c symbol)) 10) | _ \<Rightarrow> None)"
  by (simp add: spread_points_def points_of_def split: option.splits)

lemma snapshot_status_eq:
  "fst (snapshot_status c symbol n spread (Some age) missing) =
    (if missing \<or> (case spread of None \<Rightarrow> False | Some x \<Rightarrow> max_spread_points_for c symbol < x) then ''blocked''
     else if tc_max_quote_age_ms c < age then ''stale'' else if n < tc_min_ticks_per_window c then ''sparse'' else ''healthy'')"
  by (auto simp: snapshot_status_def Let_def split: option.splits)

lemma calculate_describes:
  assumes "\<forall>t \<in> set ticks. tk_time_msc t \<noteq> Some 0" "0 \<le> window_ms c" "point_size_for c symbol \<noteq> 0"
    and "\<exists>t \<in> set ticks. tk_time_msc t \<noteq> None"
  shows "\<exists>s. calculate c symbol ticks now = ok s \<and> snapshot_describes c symbol ticks now s"
proof -
  define now_msc where "now_msc = py_int (fl (timestamp 0 (as_utc now) * 1000))"
  define ordered where "ordered = sort_key (msc_or 0) (filter (\<lambda>t. tk_time_msc t \<noteq> None) ticks)"
  have "set ordered \<noteq> {}" using assms(4) by (auto simp: ordered_def)
  then have ne: "ordered \<noteq> []" by auto
  note w = window_is_recent [OF assms(1,2) ordered_def ne]
  have newest: "newest ticks \<noteq> 0"
    using w(4) assms(1) last_in_set [OF ne] by (auto simp: ordered_def)
  have msc: "msc_or d (last ordered) = newest ticks" for d using w(4) newest by (simp add: msc_or_def)
  show ?thesis
    unfolding calculate_def snapshot_describes_def Let_def now_msc_def [symmetric] ordered_def [symmetric] w(2)
    by (simp add: ne w(3,5) msc w(4) spread_points_eq [OF assms(3)] range_points_eq [OF assms(3)] price_change_eq [OF assms(3)]
        direction_pressure_eq case_prod_beta snapshot_status_eq Let_def)
qed

lemma calculate_no_ticks:
  assumes "\<forall>t \<in> set ticks. tk_time_msc t = None"
  shows "\<exists>s. calculate c symbol ticks now = ok s \<and> ts_tick_count s = 0 \<and> ts_status s = ''stale'' \<and>
    ts_reasons s = [''no_ticks''] \<and> ts_bid s = None \<and> ts_ask s = None"
proof -
  have "filter (\<lambda>t. tk_time_msc t \<noteq> None) ticks = []" using assms by (simp add: filter_empty_conv)
  then show ?thesis by (simp add: calculate_def empty_snapshot_def Let_def)
qed

section \<open>Lemmas: the bus\<close>

definition quiet_bus :: "'l tick_bus \<Rightarrow> bool" where
  "quiet_bus b = (tb_listeners b = [] \<and> 1 \<le> tb_maxlen b \<and> 0 \<le> tb_dropped b \<and>
     int (length (tb_queue b)) \<le> tb_maxlen b)"

lemma dispatch_frame [simp]:
  "tb_queue (dispatch calls s ls b) = tb_queue b" "tb_maxlen (dispatch calls s ls b) = tb_maxlen b"
  "tb_dropped (dispatch calls s ls b) = tb_dropped b"
  "tb_listeners (dispatch calls s ls b) = tb_listeners b"
  "tb_last_publish_at (dispatch calls s ls b) = tb_last_publish_at b"
  by (induction ls arbitrary: b) (simp_all split: option.splits)

text \<open>Every failing listener is counted once and does not stop the others.\<close>

lemma dispatch_failed:
  "tb_failed (dispatch calls s ls b) = tb_failed b + int (length (filter (\<lambda>l. calls l s \<noteq> None) ls))"
  by (induction ls arbitrary: b) (simp_all split: option.splits)

lemma quiet_publish: "quiet_bus b \<Longrightarrow> quiet_bus (publish calls now s b)"
  by (auto simp: quiet_bus_def publish_def Let_def)

interpretation tickbus: bounded_fifo "\<lambda>(now, s). publish calls now s" snd tb_queue
    "\<lambda>b. nat (tb_maxlen b)" "\<lambda>b. nat (tb_dropped b)" quiet_bus for calls
proof (unfold_locales, goal_cases)
  case (5 q x)
  then show ?case by (auto simp: publish_def Let_def quiet_bus_def split: prod.splits)
next
  case (6 q x)
  then show ?case by (auto simp: quiet_publish split: prod.splits)
qed (auto simp: quiet_bus_def publish_def Let_def nat_add_distrib split: prod.splits)

lemma quiet_init: "quiet_bus (bus_init n)"
  by (simp add: quiet_bus_def bus_init_def)

section \<open>Properties\<close>

text \<open>C36: The feature calculator is total on well-formed input and its snapshot describes the
  ticks of the window: for ticks with non-zero times, a non-negative window and a positive point
  size it returns a snapshot. If no tick has a time, it is empty and stale. Otherwise it describes
  the ticks that are no older than the window before the newest one: it counts exactly these; bid,
  ask, last price, mid, spread and age are those of the newest tick; range, change and pressures
  are those of their prices (the largest minus the smallest, the last minus the first, the shares
  of rises and falls between consecutive ones); the status is blocked exactly for a missing side or
  a spread above the symbol's limit, else stale exactly for a quote older than the limit, else
  sparse exactly for too few ticks. The pressures lie between 0 and 1 and the net price change
  never exceeds the realised range, binary64 rounding included.\<close>

theorem calculate_correct:
  assumes times: "\<forall>t \<in> set ticks. tk_time_msc t \<noteq> Some 0"
    and window: "0 \<le> window_ms c" and point: "0 < point_size_for c symbol"
  shows "\<exists>s. calculate c symbol ticks now = ok s \<and>
    (if \<forall>t \<in> set ticks. tk_time_msc t = None
     then ts_tick_count s = 0 \<and> ts_status s = ''stale'' \<and> ts_reasons s = [''no_ticks''] \<and> ts_bid s = None \<and> ts_ask s = None
     else snapshot_describes c symbol ticks now s) \<and>
    (0 < ts_tick_count s \<longrightarrow>
       (\<exists>b p. ts_buy_pressure s = Some b \<and> ts_sell_pressure s = Some p \<and>
          0 \<le> b \<and> b \<le> 1 \<and> 0 \<le> p \<and> p \<le> 1) \<and>
       (\<forall>r d. ts_realized_range_points s = Some r \<longrightarrow> ts_price_change_points s = Some d \<longrightarrow> \<bar>d\<bar> \<le> r) \<and>
       (ts_status s = ''healthy'' \<longrightarrow> ts_bid s \<noteq> None \<and> ts_ask s \<noteq> None \<and>
          tc_min_ticks_per_window c \<le> ts_tick_count s \<and>
          (\<forall>x. ts_spread_points s = Some x \<longrightarrow> x \<le> max_spread_points_for c symbol) \<and>
          (\<forall>a. ts_quote_age_ms s = Some a \<longrightarrow> a \<le> tc_max_quote_age_ms c)))"
proof -
  obtain s where s: "calculate c symbol ticks now = ok s"
    using calculate_defined [OF _ window] times point by (metis less_irrefl)
  have "if \<forall>t \<in> set ticks. tk_time_msc t = None
     then ts_tick_count s = 0 \<and> ts_status s = ''stale'' \<and> ts_reasons s = [''no_ticks''] \<and> ts_bid s = None \<and> ts_ask s = None
     else snapshot_describes c symbol ticks now s"
    using s calculate_no_ticks [of ticks c symbol now] calculate_describes [OF times window, of symbol now] point by auto
  with s calculate_pressures [OF s] calculate_range [OF s _ point] calculate_healthy [OF s]
  show ?thesis by blast
qed

definition tick_config_example :: tick_config where
  "tick_config_example = \<lparr>tc_window_seconds = 5, tc_emit_interval_seconds = 1, tc_max_quote_age_ms = 1500,
     tc_max_spread_points = 30, tc_min_ticks_per_window = 1, tc_point_size = 1,
     tc_max_snapshot_age_seconds = 3, tc_bus_maxlen = 4096, tc_point_size_by_symbol = [],
     tc_max_spread_points_by_symbol = []\<rparr>"

definition tick_example :: "int \<Rightarrow> rat \<Rightarrow> tick" where
  "tick_example msc price = \<lparr>tk_symbol = ''XAUUSD'', tk_bid = Some price, tk_ask = Some (price + 2),
     tk_last = None, tk_volume = 0, tk_time = Datetime (msc * 1000) (Some 0), tk_time_msc = Some msc,
     tk_flags = 0\<rparr>"

lemma tick_config_example_simps: "window_ms tick_config_example = 5000"
    "point_size_for tick_config_example symbol = 1"
  by (simp_all add: window_ms_def point_size_for_def tick_config_example_def py_int_def)

theorem calculate_correct_witness:
  "\<exists>s. calculate tick_config_example ''XAUUSD'' [tick_example 9000 103, tick_example 1000 50, tick_example 5000 100]
        (Datetime 9000000 (Some 0)) = ok s \<and>
    recent_ticks 5000 [tick_example 9000 103, tick_example 1000 50, tick_example 5000 100] = [tick_example 5000 100, tick_example 9000 103] \<and>
    ts_tick_count s = 2 \<and> ts_bid s = Some 103 \<and> ts_window_start_msc s = 4000"
proof -
  let ?ticks = "[tick_example 9000 103, tick_example 1000 50, tick_example 5000 100]"
  have "\<forall>t \<in> set ?ticks. tk_time_msc t \<noteq> Some 0"
    "0 \<le> window_ms tick_config_example" "0 < point_size_for tick_config_example ''XAUUSD''"
    by (simp_all add: tick_config_example_simps tick_example_def)
  from calculate_correct [OF this, of "Datetime 9000000 (Some 0)"] obtain s where
    s: "calculate tick_config_example ''XAUUSD'' ?ticks (Datetime 9000000 (Some 0)) = ok s"
      "snapshot_describes tick_config_example ''XAUUSD'' ?ticks (Datetime 9000000 (Some 0)) s"
    by (auto simp: tick_example_def)
  have new: "newest ?ticks = 9000" by (simp add: newest_def tick_example_def map_filter_simps)
  have recent: "recent_ticks 5000 ?ticks = [tick_example 5000 100, tick_example 9000 103]"
    unfolding recent_ticks_def new by (simp add: tick_time_def tick_example_def)
  show ?thesis using s new recent by (auto simp: snapshot_describes_def tick_config_example_simps tick_example_def Let_def)
qed

text \<open>The snapshot bus with no listener is a bounded FIFO: after any sequence of
  publications on a new bus it holds exactly the last \<open>max 1 maxlen\<close> snapshots in publication
  order, and its drop counter is the number of snapshots it lost.\<close>

theorem publish_run_keeps_latest:
  "let b = fold (\<lambda>(now, s). publish calls now s) events (bus_init maxlen) :: 'l tick_bus;
       n = nat (max 1 maxlen)
   in tb_queue b = drop (length events - n) (map snd events) \<and>
      length (tb_queue b) + nat (tb_dropped b) = length events"
proof -
  let ?b0 = "bus_init maxlen :: 'l tick_bus"
  have "tb_queue (fold (\<lambda>(now, s). publish calls now s) events ?b0) =
      drop (length ([] @ map snd events) - nat (tb_maxlen ?b0)) ([] @ map snd events)"
    by (rule tickbus.items_run [OF quiet_init]) (simp add: bus_init_def)
  moreover have "length (tb_queue (fold (\<lambda>(now, s). publish calls now s) events ?b0)) +
      nat (tb_dropped (fold (\<lambda>(now, s). publish calls now s) events ?b0)) =
      length (tb_queue ?b0) + nat (tb_dropped ?b0) + length events"
    by (rule tickbus.conservation [OF quiet_init])
  ultimately show ?thesis by (simp add: bus_init_def Let_def)
qed

text \<open>Ingesting a batch publishes at most one snapshot, only for the batch's symbol, and
  never before the emit interval has passed since the symbol's previous emission: either the
  bus, the health store and the emission clocks are unchanged, or the calculator returned a
  snapshot, it was published once, recorded as the symbol's latest, and the symbol's emission
  clock moved to the batch's latest tick, at least the emit interval after the previous one.
  The buffers of other symbols are untouched in every case, an exception included.\<close>

theorem ingest_emission_spacing:
  assumes "ingest_ticks calls clock symbol ticks received_at e = (e', err)"
  shows "(te_bus e' = te_bus e \<and> te_health e' = te_health e \<and> te_last_emit_msc e' = te_last_emit_msc e
      \<or> (\<exists>s m. err = None \<and> calculate (te_config e) symbol (buffer_of e' symbol) received_at = ok s \<and>
          latest_batch_msc ticks = Some m \<and> te_bus e' = publish calls clock s (te_bus e) \<and>
          map_of (hs_latest_by_symbol (te_health e')) (ts_symbol s) = Some s \<and>
          map_of (te_last_emit_msc e') = (map_of (te_last_emit_msc e))(symbol \<mapsto> m) \<and>
          (\<forall>l. map_of (te_last_emit_msc e) symbol = Some l \<longrightarrow>
            l + py_int (fl (tc_emit_interval_seconds (te_config e) * 1000)) \<le> m)))
    \<and> te_config e' = te_config e
    \<and> (\<forall>other. other \<noteq> symbol \<longrightarrow> map_of (te_buffers e') other = map_of (te_buffers e) other)"
proof (cases "latest_batch_msc ticks")
  case None
  then show ?thesis using assms by (auto simp: ingest_ticks_def Let_def)
next
  case (Some m)
  have buf: "buffer_of (e\<lparr>te_buffers := AList.update symbol b bs, te_bus := x, te_health := y,
      te_last_emit_msc := z\<rparr>) symbol = b" for b bs x y z
    by (simp add: buffer_of_def update_conv')
  show ?thesis
    using assms Some
    by (auto simp: ingest_ticks_def Let_def update_conv' buf update_from_snapshot_def
        split: if_splits option.splits sum.splits)
qed

theorem ingest_emission_spacing_witness:
  "\<exists>e' err. ingest_ticks (\<lambda>l s. None) (Datetime 0 (Some 0)) ''XAUUSD'' [tick_example 1000 100]
      (Datetime 1000000 (Some 0))
      \<lparr>te_config = tick_config_example, te_bus = (bus_init 4 :: nat tick_bus), te_health = health_init 3,
       te_buffers = [], te_last_emit_msc = []\<rparr> = (e', err) \<and> te_config e' = tick_config_example"
proof -
  obtain e' err where e: "ingest_ticks (\<lambda>l s. None) (Datetime 0 (Some 0)) ''XAUUSD'' [tick_example 1000 100]
      (Datetime 1000000 (Some 0))
      \<lparr>te_config = tick_config_example, te_bus = (bus_init 4 :: nat tick_bus), te_health = health_init 3,
       te_buffers = [], te_last_emit_msc = []\<rparr> = (e', err)" by fastforce
  with ingest_emission_spacing [OF e] show ?thesis by simp
qed

end
