(* ===== verification/Recovery_Entry.thy ===== *)
theory Recovery_Entry
  imports Recovery_Controller Tick_Features Py_Repr
begin

text \<open>
  The entry side of a recovery cycle (\<^verbatim>\<open>src/src/trading/recovery/entry_policies.py\<close>): the
  confirmer that asks a direction signal to persist over adjacent tick snapshots, the choice of
  the initial direction from a tick feature snapshot, and the cost gate of initial entries and
  scaling steps. The exit model of the same file is in \<open>Recovery_Controller\<close>.
\<close>

section \<open>Helpers\<close>

definition normalize_direction :: "string \<Rightarrow> string option" where
  "normalize_direction value =
    (let direction = lower (strip value) in if direction \<in> {''buy'', ''sell''} then Some direction else None)"

definition pressure_delta :: "tick_snapshot \<Rightarrow> rat option" where
  "pressure_delta snapshot =
    (case (ts_buy_pressure snapshot, ts_sell_pressure snapshot) of
       (Some b, Some s) \<Rightarrow> Some (pyround (fl (b - s)) 10) | _ \<Rightarrow> None)"

definition elapsed_seconds :: "datetime option \<Rightarrow> datetime \<Rightarrow> rat option res" where
  "elapsed_seconds previous current =
    (case previous of None \<Rightarrow> ok None
     | Some prev0 \<Rightarrow>
       let prev = (if utcoffset prev0 = None \<and> utcoffset current \<noteq> None
                   then replace_tz (utcoffset current) prev0 else prev0);
           cur = (if utcoffset current = None \<and> utcoffset prev \<noteq> None
                  then replace_tz (utcoffset prev) current else current)
       in rbind (dt_sub cur prev) (\<lambda>d. ok (Some (pyround (max 0 (total_seconds d)) 10))))"

definition entry_spread_points :: "recovery_policy \<Rightarrow> tick_snapshot \<Rightarrow> rat option res" where
  "entry_spread_points policy snapshot =
    (case ts_spread_points snapshot of Some s \<Rightarrow> ok (Some (pyround s 10))
     | None \<Rightarrow> (case (ts_bid snapshot, ts_ask snapshot) of
         (Some bid, Some ask) \<Rightarrow>
           if rp_point policy = 0 then raise ZeroDivisionError
           else ok (Some (pyround (fl (max 0 (fl (ask - bid)) / rp_point policy)) 10))
       | _ \<Rightarrow> ok None))"

record entry_decision =
  ed_allowed :: bool
  ed_reason :: string
  ed_metadata :: pydict

section \<open>RecoveryEntrySignalConfirmer\<close>

record confirmer =
  cf_direction :: "string option"
  cf_count :: int
  cf_last_observed_at :: "datetime option"

definition confirmer_reset :: "confirmer \<Rightarrow> confirmer" where
  "confirmer_reset c = c\<lparr>cf_direction := None, cf_count := 0, cf_last_observed_at := None\<rparr>"

definition confirmer_init :: confirmer where
  "confirmer_init = \<lparr>cf_direction = None, cf_count = 0, cf_last_observed_at = None\<rparr>"

definition confirmer_status :: "confirmer \<Rightarrow> pydict" where
  "confirmer_status c =
    [(''direction'', opt_str (cf_direction c)), (''confirmation_count'', VInt (cf_count c)),
     (''last_observed_at'', opt_str (map_option isoformat (cf_last_observed_at c)))]"

definition confirmer_assess ::
  "string \<Rightarrow> datetime \<Rightarrow> int \<Rightarrow> rat \<Rightarrow> confirmer \<Rightarrow> (entry_decision \<times> confirmer) res" where
  "confirmer_assess direction observed_at required_snapshots max_gap_seconds c =
    (let normalized = normalize_direction direction;
         required = max 1 required_snapshots;
         max_gap = max 0 max_gap_seconds;
         metadata = [(''direction'', opt_str normalized), (''required_snapshots'', VInt required),
           (''max_gap_seconds'', VFloat max_gap), (''previous_direction'', opt_str (cf_direction c)),
           (''previous_count'', VInt (cf_count c))]
     in case normalized of
       None \<Rightarrow> ok (\<lparr>ed_allowed = False, ed_reason = ''entry_confirmation_direction_invalid'',
                   ed_metadata = metadata @ [(''confirmation_count'', VInt 0)]\<rparr>, confirmer_reset c)
     | Some dir \<Rightarrow>
       if required \<le> 1
       then ok (\<lparr>ed_allowed = True, ed_reason = ''entry_confirmation_not_required'',
                 ed_metadata = metadata @ [(''confirmation_count'', VInt 1)]\<rparr>,
                c\<lparr>cf_direction := Some dir, cf_count := 1, cf_last_observed_at := Some observed_at\<rparr>)
       else rbind (elapsed_seconds (cf_last_observed_at c) observed_at) (\<lambda>gap_seconds.
         let same_direction = (cf_direction c = Some dir);
             gap_ok = (case gap_seconds of None \<Rightarrow> True | Some g \<Rightarrow> max_gap \<le> 0 \<or> g \<le> max_gap);
             c1 = (if same_direction \<and> gap_ok then c\<lparr>cf_count := cf_count c + 1\<rparr>
                   else c\<lparr>cf_direction := Some dir, cf_count := 1\<rparr>);
             c2 = c1\<lparr>cf_last_observed_at := Some observed_at\<rparr>;
             metadata' = metadata @ [(''gap_seconds'', opt_float gap_seconds), (''gap_ok'', VBool gap_ok),
               (''confirmation_count'', VInt (cf_count c2))]
         in ok (if required \<le> cf_count c2
                then \<lparr>ed_allowed = True, ed_reason = ''entry_confirmation_confirmed'', ed_metadata = metadata'\<rparr>
                else \<lparr>ed_allowed = False, ed_reason = ''entry_confirmation_pending'', ed_metadata = metadata'\<rparr>,
                c2)))"

section \<open>RecoveryDirectionPolicy\<close>

record direction_decision =
  dd_direction :: "string option"
  dd_reason :: string
  dd_metadata :: pydict

definition choose_direction ::
  "recovery_policy \<Rightarrow> tick_snapshot \<Rightarrow> string \<Rightarrow> direction_decision" where
  "choose_direction policy snapshot fallback_direction =
    (let fallback = normalize_direction fallback_direction;
         mode = norm_or ''fixed'' (rp_direction_mode policy);
         metadata = [(''direction_mode'', VStr mode), (''fallback_direction'', opt_str fallback),
           (''price_change_points'', opt_float (ts_price_change_points snapshot)),
           (''buy_pressure'', opt_float (ts_buy_pressure snapshot)),
           (''sell_pressure'', opt_float (ts_sell_pressure snapshot)),
           (''min_directional_move_points'', VFloat (rp_min_directional_move_points policy)),
           (''max_directional_move_points'', VFloat (rp_max_directional_move_points policy)),
           (''min_pressure_delta'', VFloat (rp_min_pressure_delta policy))];
         decide = (\<lambda>d r m. \<lparr>dd_direction = d, dd_reason = r, dd_metadata = m\<rparr>)
     in if fallback = None then decide None ''fallback_direction_invalid'' metadata
        else if mode = ''fixed'' then decide fallback ''fixed_direction'' metadata
        else case ts_price_change_points snapshot of
          None \<Rightarrow> decide None ''direction_signal_missing'' metadata
        | Some price_change \<Rightarrow>
          if \<bar>price_change\<bar> < rp_min_directional_move_points policy
          then decide None ''direction_signal_too_weak'' metadata
          else if 0 < rp_max_directional_move_points policy \<and>
                  rp_max_directional_move_points policy < \<bar>price_change\<bar>
          then decide None ''direction_signal_overextended'' metadata
          else let delta = pressure_delta snapshot;
                   metadata' = metadata @ [(''pressure_delta'', opt_float delta)];
                   min_delta = rp_min_pressure_delta policy
          in if 0 < min_delta \<and> delta = None
             then decide None ''direction_pressure_missing'' metadata'
             else if 0 < price_change
             then (if (case delta of None \<Rightarrow> False | Some x \<Rightarrow> x < min_delta)
                   then decide None ''direction_pressure_mismatch'' metadata'
                   else decide (Some ''buy'') ''auto_direction_buy'' metadata')
             else if (case delta of None \<Rightarrow> False | Some x \<Rightarrow> - min_delta < x)
             then decide None ''direction_pressure_mismatch'' metadata'
             else decide (Some ''sell'') ''auto_direction_sell'' metadata')"

section \<open>RecoveryCostGate\<close>

text \<open>The three sums of the gate, in the order of the float additions.\<close>

definition cost_points :: "recovery_policy \<Rightarrow> rat \<Rightarrow> rat" where
  "cost_points policy spread =
    fl (fl (spread + rp_slippage_budget_points policy) + rp_commission_points policy)"

definition required_points :: "recovery_policy \<Rightarrow> rat \<Rightarrow> rat" where
  "required_points policy spread = fl (cost_points policy spread + rp_min_net_profit_points policy)"

definition expected_net_points :: "recovery_policy \<Rightarrow> rat \<Rightarrow> rat" where
  "expected_net_points policy spread = fl (rp_recovery_target_points policy - cost_points policy spread)"

definition assess_market_entry ::
  "recovery_policy \<Rightarrow> string \<Rightarrow> tick_snapshot \<Rightarrow> string \<Rightarrow> string \<Rightarrow> string \<Rightarrow> string \<Rightarrow> pydict \<Rightarrow>
   entry_decision res" where
  "assess_market_entry policy direction snapshot scope ok_reason spread_reason target_reason metadata =
    rbind (entry_spread_points policy snapshot) (\<lambda>spread_points.
    let normalized_direction = normalize_direction direction;
        payload = dmerge
          [(''scope'', VStr scope), (''direction'', opt_str normalized_direction),
           (''spread_points'', opt_float spread_points),
           (''max_entry_spread_points'', opt_float (rp_max_entry_spread_points policy)),
           (''recovery_target_points'', VFloat (rp_recovery_target_points policy)),
           (''slippage_budget_points'', VFloat (rp_slippage_budget_points policy)),
           (''commission_points'', VFloat (rp_commission_points policy)),
           (''min_net_profit_points'', VFloat (rp_min_net_profit_points policy))]
          metadata
    in if normalized_direction = None
       then ok \<lparr>ed_allowed = False, ed_reason = ''direction_invalid'', ed_metadata = payload\<rparr>
       else case spread_points of
         None \<Rightarrow> ok \<lparr>ed_allowed = False, ed_reason = ''spread_unavailable'', ed_metadata = payload\<rparr>
       | Some spread \<Rightarrow>
         let required = required_points policy spread;
             net_margin = fl (rp_recovery_target_points policy - required);
             payload' = dmerge payload
               [(''required_points'', VFloat (pyround required 10)),
                (''expected_net_points'', VFloat (pyround (expected_net_points policy spread) 10)),
                (''net_margin_points'', VFloat (pyround net_margin 10)),
                (''target_shortfall_points'', VFloat (pyround (max 0 (- net_margin)) 10))]
         in if (case rp_max_entry_spread_points policy of None \<Rightarrow> False | Some m \<Rightarrow> m < spread)
            then ok \<lparr>ed_allowed = False, ed_reason = spread_reason, ed_metadata = payload'\<rparr>
            else if rp_recovery_target_points policy \<le> required
            then ok \<lparr>ed_allowed = False, ed_reason = target_reason, ed_metadata = payload'\<rparr>
            else ok \<lparr>ed_allowed = True, ed_reason = ok_reason, ed_metadata = payload'\<rparr>)"

definition assess_entry :: "recovery_policy \<Rightarrow> string \<Rightarrow> tick_snapshot \<Rightarrow> entry_decision res" where
  "assess_entry policy direction snapshot =
    assess_market_entry policy direction snapshot ''recovery_initial'' ''entry_cost_ok''
      ''spread_too_wide'' ''net_target_below_cost'' []"

definition assess_step ::
  "recovery_policy \<Rightarrow> recovery_cycle \<Rightarrow> recovery_decision \<Rightarrow> tick_snapshot \<Rightarrow> entry_decision res" where
  "assess_step policy cycle decision snapshot =
    (let metadata = [(''cycle_id'', VStr (rc_cycle_id cycle)),
           (''current_step_count'', VInt (rc_step_count cycle)),
           (''step_index'', opt_int (rd_step_index decision)),
           (''decision_reason'', VStr (rd_reason decision)),
           (''decision_volume'', opt_float (rd_volume decision))]
     in if rd_action decision \<noteq> ''open_step''
        then ok \<lparr>ed_allowed = False, ed_reason = ''step_decision_invalid'',
          ed_metadata = dmerge [(''scope'', VStr ''recovery_step''), (''action'', VStr (rd_action decision))]
            metadata\<rparr>
        else assess_market_entry policy (rc_direction cycle) snapshot ''recovery_step'' ''step_cost_ok''
          ''step_spread_too_wide'' ''step_net_target_below_cost'' metadata)"

section \<open>Lemmas\<close>

text \<open>The gap is always defined: whichever side is naive takes the zone of the other.\<close>

lemma elapsed_seconds_total: "\<exists>g. elapsed_seconds p t = ok g \<and> (g = None \<longleftrightarrow> p = None)"
  by (cases p) (auto simp: elapsed_seconds_def Let_def dt_sub_def replace_tz_def)

lemma normalize_direction_Some:
  "normalize_direction s = Some d \<longleftrightarrow> d = lower (strip s) \<and> d \<in> {''buy'', ''sell''}"
  by (auto simp: normalize_direction_def Let_def)

text \<open>One observation extends the run that the previous one ends.\<close>

definition continues_run :: "rat \<Rightarrow> string \<times> datetime \<Rightarrow> string \<times> datetime \<Rightarrow> bool" where
  "continues_run max_gap a b \<longleftrightarrow>
    normalize_direction (fst a) = normalize_direction (fst b) \<and>
    (\<forall>g. elapsed_seconds (Some (snd a)) (snd b) = ok (Some g) \<longrightarrow> max 0 max_gap \<le> 0 \<or> g \<le> max 0 max_gap)"

text \<open>The length of the run of agreeing valid observations that the newest one ends; the
  history is newest first.\<close>

fun signal_run :: "rat \<Rightarrow> (string \<times> datetime) list \<Rightarrow> nat" where
  "signal_run g [] = 0"
| "signal_run g [x] = (if normalize_direction (fst x) = None then 0 else 1)"
| "signal_run g (x # y # h) =
     (if normalize_direction (fst x) = None then 0
      else if continues_run g y x then Suc (signal_run g (y # h)) else 1)"

text \<open>What the confirmer's state says about the history it has seen.\<close>

definition confirmer_sees :: "rat \<Rightarrow> (string \<times> datetime) list \<Rightarrow> confirmer \<Rightarrow> bool" where
  "confirmer_sees g h c \<longleftrightarrow> cf_count c = int (signal_run g h) \<and>
    cf_direction c = (case h of [] \<Rightarrow> None | x # _ \<Rightarrow> normalize_direction (fst x)) \<and>
    cf_last_observed_at c = (case h of [] \<Rightarrow> None
       | x # _ \<Rightarrow> if normalize_direction (fst x) = None then None else Some (snd x))"

lemma confirmer_assess_sees:
  assumes "confirmer_sees g h c" and "1 < required"
  shows "\<exists>d c'. confirmer_assess direction t required g c = ok (d, c') \<and>
    confirmer_sees g ((direction, t) # h) c' \<and>
    (ed_allowed d \<longleftrightarrow> required \<le> int (signal_run g ((direction, t) # h)))"
proof (cases "normalize_direction direction")
  case None
  then show ?thesis using assms
    by (cases h) (auto simp: confirmer_assess_def Let_def confirmer_reset_def confirmer_sees_def)
next
  case (Some dir)
  obtain gap where gap: "elapsed_seconds (cf_last_observed_at c) t = ok gap"
    "gap = None \<longleftrightarrow> cf_last_observed_at c = None"
    using elapsed_seconds_total by blast
  let ?run = "cf_direction c = Some dir \<and> (case gap of None \<Rightarrow> True | Some x \<Rightarrow> max 0 g \<le> 0 \<or> x \<le> max 0 g)"
  have run: "signal_run g ((direction, t) # h) = (if ?run then Suc (signal_run g h) else 1)"
  proof (cases h)
    case Nil
    then show ?thesis using Some assms by (simp add: confirmer_sees_def)
  next
    case (Cons y ys)
    have "continues_run g y (direction, t) \<longleftrightarrow> ?run"
      using Some assms gap Cons
      by (auto simp: continues_run_def confirmer_sees_def split: option.splits if_splits)
    then show ?thesis using Cons Some by simp
  qed
  show ?thesis
    using Some assms gap run
    by (auto simp: confirmer_assess_def Let_def confirmer_sees_def)
qed

lemma signal_run_iff:
  "Suc n \<le> signal_run g h \<longleftrightarrow> Suc n \<le> length h \<and> normalize_direction (fst (hd h)) \<noteq> None \<and>
    successively (\<lambda>new old. continues_run g old new) (take (Suc n) h)"
proof (induction g h arbitrary: n rule: signal_run.induct)
  case (3 g x y h)
  show ?case
  proof (cases n)
    case (Suc m)
    have "normalize_direction (fst y) \<noteq> None"
      if "continues_run g y x" "normalize_direction (fst x) \<noteq> None"
      using that by (simp add: continues_run_def)
    then show ?thesis using Suc "3" [of m] by auto
  qed simp
qed auto

text \<open>The confirmer driven over a sequence of observations.\<close>

fun confirm_run :: "int \<Rightarrow> rat \<Rightarrow> (string \<times> datetime) list \<Rightarrow> confirmer \<Rightarrow> confirmer res" where
  "confirm_run required g [] c = ok c"
| "confirm_run required g (x # xs) c =
     rbind (confirmer_assess (fst x) (snd x) required g c) (\<lambda>(_, c'). confirm_run required g xs c')"

lemma confirm_run_sees:
  assumes "confirmer_sees g h c" and "1 < required"
  shows "\<exists>c'. confirm_run required g obs c = ok c' \<and> confirmer_sees g (rev obs @ h) c'"
  using assms(1)
proof (induction obs arbitrary: h c)
  case (Cons x obs)
  obtain d c1 where "confirmer_assess (fst x) (snd x) required g c = ok (d, c1)"
    "confirmer_sees g ((fst x, snd x) # h) c1"
    using confirmer_assess_sees [OF Cons.prems assms(2)] by blast
  with Cons.IH [of "x # h" c1] show ?case by simp
qed simp

text \<open>An allowed entry of the cost gate, and when the gate allows.\<close>

lemma assess_market_entry_allowed:
  "(\<exists>d. assess_market_entry policy direction snapshot scope a b c md = ok d \<and> ed_allowed d) \<longleftrightarrow>
    normalize_direction direction \<noteq> None \<and>
    (\<exists>spread. entry_spread_points policy snapshot = ok (Some spread) \<and>
      (\<forall>m. rp_max_entry_spread_points policy = Some m \<longrightarrow> spread \<le> m) \<and>
      required_points policy spread < rp_recovery_target_points policy)"
  by (cases "entry_spread_points policy snapshot")
    (auto simp: assess_market_entry_def Let_def not_le not_less split: option.splits)

text \<open>A target above the required points leaves the minimum net profit, after every float
  rounding.\<close>

lemma required_points_margin:
  assumes "required_points policy spread < rp_recovery_target_points policy"
    and "fl (rp_recovery_target_points policy) = rp_recovery_target_points policy"
    and "fl (rp_min_net_profit_points policy) = rp_min_net_profit_points policy"
  shows "rp_min_net_profit_points policy \<le> expected_net_points policy spread"
proof -
  have "cost_points policy spread + rp_min_net_profit_points policy < rp_recovery_target_points policy"
    using assms(1,2) fl_mono [of "rp_recovery_target_points policy"
        "cost_points policy spread + rp_min_net_profit_points policy"]
    by (force simp: required_points_def)
  then have "rp_min_net_profit_points policy \<le> rp_recovery_target_points policy - cost_points policy spread"
    by simp
  from fl_mono [OF this] assms(3) show ?thesis by (simp add: expected_net_points_def)
qed

section \<open>Properties\<close>

text \<open>C38: The entry confirmer decides by the signal's persistence: driven over any
  observations with two or more required snapshots it never raises, and it allows the newest
  one exactly when that many latest observations exist, name the same valid direction and
  follow each other within the gap limit (no limit when it is not positive).\<close>

theorem confirmation_iff_signal_persists:
  assumes "1 < required"
  shows "\<exists>c d c'. confirm_run required g obs confirmer_init = ok c \<and>
    confirmer_assess direction t required g c = ok (d, c') \<and>
    (ed_allowed d \<longleftrightarrow>
      (let seen = obs @ [(direction, t)]
       in nat required \<le> length seen \<and> normalize_direction direction \<noteq> None \<and>
          successively (continues_run g) (drop (length seen - nat required) seen)))"
proof -
  have "confirmer_sees g [] confirmer_init" by (simp add: confirmer_sees_def confirmer_init_def)
  from confirm_run_sees [OF this assms] obtain c where c: "confirm_run required g obs confirmer_init = ok c"
    "confirmer_sees g (rev obs) c" by auto
  let ?h = "(direction, t) # rev obs"
  let ?seen = "obs @ [(direction, t)]"
  have "take k ?h = rev (drop (length ?seen - k) ?seen)" for k
    using take_rev [of k ?seen] by simp
  then have recent: "successively (\<lambda>new old. continues_run g old new) (take k ?h) \<longleftrightarrow>
      successively (continues_run g) (drop (length ?seen - k) ?seen)" for k
    by (simp only: successively_rev)
  obtain n where n: "nat required = Suc n" using assms by (cases "nat required") auto
  then have r: "required \<le> int (signal_run g ?h) \<longleftrightarrow> Suc n \<le> signal_run g ?h" using assms by linarith
  from confirmer_assess_sees [OF c(2) assms, of direction t] obtain d c' where
    "confirmer_assess direction t required g c = ok (d, c')"
    "ed_allowed d \<longleftrightarrow> required \<le> int (signal_run g ?h)" by blast
  with c n r show ?thesis
    unfolding signal_run_iff recent by (auto simp: Let_def)
qed

theorem confirmation_iff_signal_persists_witness:
  "(1::int) < 2 \<and> (\<exists>c d c'. confirm_run 2 5 [(''buy'', Datetime 0 (Some 0))] confirmer_init = ok c \<and>
    confirmer_assess ''Buy '' (Datetime 3000000 (Some 0)) 2 5 c = ok (d, c') \<and> ed_allowed d)"
proof -
  have chars: "char_of (98::nat) = CHR ''b''" by code_simp
  have "continues_run 5 (''buy'', Datetime 0 (Some 0)) (''Buy '', Datetime 3000000 (Some 0))"
    by (simp add: continues_run_def normalize_direction_def elapsed_seconds_def total_seconds_def
        chars str_eval Let_def)
  moreover have "normalize_direction ''Buy '' \<noteq> None"
    by (simp add: normalize_direction_def chars str_eval Let_def)
  ultimately show ?thesis
    using confirmation_iff_signal_persists [of 2 5 "[(''buy'', Datetime 0 (Some 0))]" "''Buy ''"
        "Datetime 3000000 (Some 0)"] by (auto simp: Let_def)
qed

text \<open>An entry direction the policy chooses is one of buy and sell and follows the
  evidence: in fixed mode it is the configured one; in auto mode the price moved that way (a
  buy strictly, a sell at most zero), by at least the minimum and, when a maximum is set, at
  most that, and the pressure difference, where it is known, supports the direction by the
  minimum difference; with a positive minimum difference it is known.\<close>

theorem chosen_direction_follows_evidence:
  assumes "dd_direction (choose_direction policy snapshot fallback) = Some dir"
  shows "dir \<in> {''buy'', ''sell''} \<and> normalize_direction fallback \<noteq> None \<and>
    (if norm_or ''fixed'' (rp_direction_mode policy) = ''fixed''
     then normalize_direction fallback = Some dir
     else \<exists>move. ts_price_change_points snapshot = Some move \<and>
       (dir = ''buy'' \<longleftrightarrow> 0 < move) \<and> rp_min_directional_move_points policy \<le> \<bar>move\<bar> \<and>
       (0 < rp_max_directional_move_points policy \<longrightarrow> \<bar>move\<bar> \<le> rp_max_directional_move_points policy) \<and>
       (0 < rp_min_pressure_delta policy \<longrightarrow> pressure_delta snapshot \<noteq> None) \<and>
       (\<forall>delta. pressure_delta snapshot = Some delta \<longrightarrow>
          (if dir = ''buy'' then rp_min_pressure_delta policy \<le> delta
           else delta \<le> - rp_min_pressure_delta policy)))"
  using assms
  by (auto simp: choose_direction_def Let_def not_less normalize_direction_Some
      split: if_splits option.splits)

definition tick_snapshot_example :: "rat \<Rightarrow> tick_snapshot" where
  "tick_snapshot_example move = \<lparr>ts_symbol = ''XAUUSD'', ts_window_start_msc = 0, ts_window_end_msc = 1000,
     ts_generated_at = Datetime 1000000 (Some 0), ts_tick_count = 2, ts_bid = Some 100, ts_ask = Some 101,
     ts_last = None, ts_mid = None, ts_spread_points = Some 1, ts_quote_age_ms = Some 0,
     ts_realized_range_points = Some 4, ts_price_change_points = Some move, ts_buy_pressure = Some 1,
     ts_sell_pressure = Some 0, ts_status = ''ready'', ts_reasons = []\<rparr>"

theorem chosen_direction_follows_evidence_witness:
  "dd_direction (choose_direction (policy_example\<lparr>rp_direction_mode := ''auto''\<rparr>)
     (tick_snapshot_example 4) ''sell'') = Some ''buy'' \<and> ''buy'' \<in> {''buy'', ''sell''}"
proof -
  have "dd_direction (choose_direction (policy_example\<lparr>rp_direction_mode := ''auto''\<rparr>)
     (tick_snapshot_example 4) ''sell'') = Some ''buy''"
    by (simp add: choose_direction_def policy_example_def tick_snapshot_example_def normalize_direction_def
        norm_or_def pressure_delta_def str_eval Let_def)
  from this chosen_direction_follows_evidence [OF this] show ?thesis by blast
qed

text \<open>The cost gate of initial entries and of scaling steps: an entry it allows has a
  valid direction and a known spread within the limit, and the recovery target, net of spread,
  slippage and commission as the gate reports it, still reaches the minimum net profit, all
  float roundings included (target and minimum being floats); a step is only ever allowed for
  an open-step decision.\<close>

theorem cost_gate_keeps_min_profit:
  assumes "assess_entry policy direction snapshot = ok d \<or>
      (assess_step policy cycle decision snapshot = ok d \<and> rc_direction cycle = direction)"
    and "ed_allowed d"
    and "fl (rp_recovery_target_points policy) = rp_recovery_target_points policy"
    and "fl (rp_min_net_profit_points policy) = rp_min_net_profit_points policy"
  shows "normalize_direction direction \<noteq> None \<and>
    (assess_entry policy direction snapshot = ok d \<or> rd_action decision = ''open_step'') \<and>
    (\<exists>spread. entry_spread_points policy snapshot = ok (Some spread) \<and>
      (\<forall>m. rp_max_entry_spread_points policy = Some m \<longrightarrow> spread \<le> m) \<and>
      rp_min_net_profit_points policy \<le> expected_net_points policy spread \<and>
      dget (ed_metadata d) ''expected_net_points'' = VFloat (pyround (expected_net_points policy spread) 10))"
proof -
  obtain scope a b c md where m: "assess_market_entry policy direction snapshot scope a b c md = ok d"
    and act: "assess_entry policy direction snapshot = ok d \<or> rd_action decision = ''open_step''"
    using assms(1,2) by (auto simp: assess_entry_def assess_step_def Let_def split: if_splits)
  obtain spread where s: "normalize_direction direction \<noteq> None"
    "entry_spread_points policy snapshot = ok (Some spread)"
    "\<forall>m. rp_max_entry_spread_points policy = Some m \<longrightarrow> spread \<le> m"
    "required_points policy spread < rp_recovery_target_points policy"
    using m assms(2) assess_market_entry_allowed [of policy direction snapshot scope a b c md] by blast
  have "dget (ed_metadata d) ''expected_net_points'' = VFloat (pyround (expected_net_points policy spread) 10)"
    using m s by (auto simp: assess_market_entry_def Let_def dmerge_def split: if_splits)
  with s act required_points_margin [OF s(4) assms(3,4)] show ?thesis by blast
qed

theorem cost_gate_keeps_min_profit_witness:
  "\<exists>d. assess_entry policy_example ''buy'' (tick_snapshot_example 4) = ok d \<and> ed_allowed d \<and>
     0 \<le> expected_net_points policy_example 1"
proof -
  have sp: "entry_spread_points policy_example (tick_snapshot_example 4) = ok (Some 1)"
    by (simp add: entry_spread_points_def tick_snapshot_example_def pyround_1)
  have "required_points policy_example 1 = 1"
    by (simp add: required_points_def cost_points_def policy_example_def fl_1)
  moreover have "rp_max_entry_spread_points policy_example = None" "rp_recovery_target_points policy_example = 5"
    "normalize_direction ''buy'' \<noteq> None"
    by (simp_all add: policy_example_def normalize_direction_def str_eval Let_def)
  ultimately have "\<exists>d. assess_entry policy_example ''buy'' (tick_snapshot_example 4) = ok d \<and> ed_allowed d"
    unfolding assess_entry_def assess_market_entry_allowed using sp by simp
  then obtain d where d: "assess_entry policy_example ''buy'' (tick_snapshot_example 4) = ok d" "ed_allowed d"
    by blast
  have "fl (rp_recovery_target_points policy_example) = rp_recovery_target_points policy_example"
    "fl (rp_min_net_profit_points policy_example) = rp_min_net_profit_points policy_example"
    by (simp_all add: policy_example_def)
  note fixed = this
  have zero: "rp_min_net_profit_points policy_example = 0" by (simp add: policy_example_def)
  from cost_gate_keeps_min_profit [OF disjI1 [OF d(1)] d(2) fixed] have "0 \<le> expected_net_points policy_example 1"
    unfolding sp zero by auto
  with d show ?thesis by blast
qed

end
