(* ===== verification/Recovery_Budget.thy ===== *)
theory Recovery_Budget
  imports Recovery_Models Py_Repr "HOL-Library.Multiset"
begin

text \<open>
  The loss-budget admission guard of resident recovery cycles
  (\<^verbatim>\<open>src/src/trading/recovery/risk_budget.py\<close>). The state store's lister is a parameter: a
  function from the query to what the call did. The two text parsers of the standard library
  the module calls, \<open>float(text)\<close> and \<open>datetime.fromisoformat(text)\<close>, are the arguments
  \<open>pf\<close> and \<open>fromiso\<close> (None where they raise ValueError), so that what is proved holds for
  whatever texts they accept.
\<close>

section \<open>Settings and rows\<close>

record budget_settings =
  bs_risk_profile :: string
  bs_max_daily_recovery_loss_amount :: rat
  bs_max_rolling_recovery_loss_amount :: rat
  bs_rolling_loss_window_minutes :: int
  bs_max_consecutive_loss_cycles :: int
  bs_loss_lockout_minutes :: int

definition budget_enabled :: "budget_settings \<Rightarrow> bool" where
  "budget_enabled s = (0 < bs_max_daily_recovery_loss_amount s \<or>
     0 < bs_max_rolling_recovery_loss_amount s \<or> 0 < bs_max_consecutive_loss_cycles s)"

record budget_decision =
  bd_allowed :: bool
  bd_reason :: string
  bd_snapshot :: pydict

text \<open>What the lister did: the store has no such port, it raised with a text, or it returned.\<close>

datatype lister_outcome =
    ListerMissing
  | ListerRaised string
  | ListerRows pyval

definition remaining :: "rat \<Rightarrow> rat \<Rightarrow> rat option" where
  "remaining limit used = (if limit \<le> 0 then None else Some (pyround (max 0 (fl (limit - used))) 2))"

definition history_limit :: "budget_settings \<Rightarrow> int" where
  "history_limit s = (if 0 < bs_max_consecutive_loss_cycles s
     then max 200 (bs_max_consecutive_loss_cycles s * 5) else 200)"

definition base_snapshot :: "budget_settings \<Rightarrow> string \<Rightarrow> pydict" where
  "base_snapshot s account_key =
    [(''enabled'', VBool (budget_enabled s)), (''profile'', VStr (bs_risk_profile s)),
     (''account_key'', VStr account_key),
     (''max_daily_recovery_loss_amount'', VFloat (bs_max_daily_recovery_loss_amount s)),
     (''max_rolling_recovery_loss_amount'', VFloat (bs_max_rolling_recovery_loss_amount s)),
     (''rolling_loss_window_minutes'', VInt (bs_rolling_loss_window_minutes s)),
     (''max_consecutive_loss_cycles'', VInt (bs_max_consecutive_loss_cycles s)),
     (''loss_lockout_minutes'', VInt (bs_loss_lockout_minutes s)),
     (''daily_realized_loss_amount'', VFloat 0), (''rolling_realized_loss_amount'', VFloat 0),
     (''remaining_daily_loss_amount'', opt_float (remaining (bs_max_daily_recovery_loss_amount s) 0)),
     (''remaining_rolling_loss_amount'', opt_float (remaining (bs_max_rolling_recovery_loss_amount s) 0)),
     (''consecutive_loss_cycles'', VInt 0), (''loss_lockout_until'', VNone),
     (''active_reason'', VNone), (''error'', VNone)]"

definition recovery_row_is_dry_run_cycle :: "pydict \<Rightarrow> bool" where
  "recovery_row_is_dry_run_cycle row =
    (case dget row ''metadata'' of
       VDict metadata \<Rightarrow> (case dget metadata ''initial_result'' of
           VDict r \<Rightarrow> (case map_of r ''dry_run'' of None \<Rightarrow> False | Some v \<Rightarrow> truthy v)
         | _ \<Rightarrow> False)
     | _ \<Rightarrow> False)"

definition row_matches_resident_recovery ::
  "pydict \<Rightarrow> string \<Rightarrow> string \<Rightarrow> string \<Rightarrow> bool \<Rightarrow> bool" where
  "row_matches_resident_recovery row account_key symbol strategy dry_run =
    (let row_account_key = strip (str_or_empty (dget row ''account_key''));
         expected_account_key = strip account_key
     in if expected_account_key \<noteq> [] \<and> row_account_key \<noteq> expected_account_key then False
        else if upper (strip (str_or_empty (dget row ''symbol''))) \<noteq> upper (strip symbol) then False
        else if strip (str_or_empty (dget row ''strategy'')) \<noteq> strip strategy then False
        else if \<not> starts_with (strip (str_or_empty (dget row ''status_reason''))) ''resident_recovery_'' then False
        else if \<not> dry_run \<and> recovery_row_is_dry_run_cycle row then False
        else True)"

definition realized_loss :: "(string \<Rightarrow> rat option) \<Rightarrow> pydict \<Rightarrow> rat" where
  "realized_loss pf row =
    (case py_float_of pf (dget row ''realized_pnl'') of Inl e \<Rightarrow> 0 | Inr pnl \<Rightarrow> max 0 (- pnl))"

definition parse_datetime :: "(string \<Rightarrow> datetime option) \<Rightarrow> pyval \<Rightarrow> datetime option" where
  "parse_datetime fromiso value =
    (case value of VTime t \<Rightarrow> Some (aware t)
     | _ \<Rightarrow> let text = strip (str_or_empty value)
           in if text = [] then None else map_option aware (fromiso (replace_Z text)))"

fun first_datetime :: "(string \<Rightarrow> datetime option) \<Rightarrow> pydict \<Rightarrow> string list \<Rightarrow> datetime option" where
  "first_datetime fromiso row [] = None"
| "first_datetime fromiso row (k # ks) =
     (case parse_datetime fromiso (dget row k) of Some t \<Rightarrow> Some t | None \<Rightarrow> first_datetime fromiso row ks)"

definition row_event_time :: "(string \<Rightarrow> datetime option) \<Rightarrow> pydict \<Rightarrow> datetime option" where
  "row_event_time fromiso row = first_datetime fromiso row [''closed_at'', ''updated_at'', ''started_at'']"

section \<open>Loss metrics\<close>

definition minutes :: "int \<Rightarrow> int" where
  "minutes n = n * 60000000"

fun loss_sums ::
  "(string \<Rightarrow> rat option) \<Rightarrow> (string \<Rightarrow> datetime option) \<Rightarrow> int \<Rightarrow> int \<Rightarrow> pydict list \<Rightarrow>
   rat \<times> rat \<Rightarrow> rat \<times> rat" where
  "loss_sums pf fromiso today rolling_start [] acc = acc"
| "loss_sums pf fromiso today rolling_start (row # rows) (daily, rolling) =
    (let loss = realized_loss pf row
     in if loss \<le> 0 then loss_sums pf fromiso today rolling_start rows (daily, rolling)
        else case row_event_time fromiso row of
          None \<Rightarrow> loss_sums pf fromiso today rolling_start rows (daily, rolling)
        | Some t \<Rightarrow>
          let occurred_at = as_utc t
          in loss_sums pf fromiso today rolling_start rows
               (if utc_day occurred_at = today then fl (daily + loss) else daily,
                if rolling_start \<le> utc_us occurred_at then fl (rolling + loss) else rolling))"

definition loss_metrics ::
  "(string \<Rightarrow> rat option) \<Rightarrow> (string \<Rightarrow> datetime option) \<Rightarrow> pydict list \<Rightarrow> datetime \<Rightarrow> int \<Rightarrow> rat \<times> rat" where
  "loss_metrics pf fromiso rows now rolling_window_minutes =
    (let (daily, rolling) = loss_sums pf fromiso (utc_day (astimezone_utc now))
           (utc_us now - minutes (max 1 rolling_window_minutes)) rows (0, 0)
     in (pyround daily 2, pyround rolling 2))"

section \<open>Consecutive-loss lockout\<close>

text \<open>\<open>datetime.min\<close> in UTC.\<close>

definition datetime_min :: datetime where
  "datetime_min = Datetime (- 62135596800000000) (Some 0)"

fun count_losses ::
  "(string \<Rightarrow> rat option) \<Rightarrow> (string \<Rightarrow> datetime option) \<Rightarrow> pydict list \<Rightarrow> int \<times> datetime option \<Rightarrow>
   int \<times> datetime option" where
  "count_losses pf fromiso [] acc = acc"
| "count_losses pf fromiso (row # rows) (consecutive, latest) =
    (case row_event_time fromiso row of
       None \<Rightarrow> count_losses pf fromiso rows (consecutive, latest)
     | Some event_at \<Rightarrow>
       if realized_loss pf row \<le> 0 then (consecutive, latest)
       else count_losses pf fromiso rows (consecutive + 1,
              case latest of None \<Rightarrow> Some (as_utc event_at) | Some t \<Rightarrow> Some t))"

definition by_event_time :: "(string \<Rightarrow> datetime option) \<Rightarrow> pydict list \<Rightarrow> pydict list" where
  "by_event_time fromiso rows =
    sort_key (\<lambda>row. - utc_us (case row_event_time fromiso row of Some t \<Rightarrow> t | None \<Rightarrow> datetime_min)) rows"

definition consecutive_loss_lockout ::
  "(string \<Rightarrow> rat option) \<Rightarrow> (string \<Rightarrow> datetime option) \<Rightarrow> pydict list \<Rightarrow> datetime \<Rightarrow> int \<Rightarrow> int \<Rightarrow>
   bool \<times> pydict" where
  "consecutive_loss_lockout pf fromiso rows now max_consecutive_loss_cycles loss_lockout_minutes =
    (let snapshot = (\<lambda>n until. [(''consecutive_loss_cycles'', VInt n), (''loss_lockout_until'', until)])
     in if max_consecutive_loss_cycles \<le> 0 then (False, snapshot 0 VNone)
        else case count_losses pf fromiso (by_event_time fromiso rows) (0, None) of
          (consecutive, None) \<Rightarrow> (False, snapshot consecutive VNone)
        | (consecutive, Some latest_loss_at) \<Rightarrow>
            if consecutive < max_consecutive_loss_cycles then (False, snapshot consecutive VNone)
            else if loss_lockout_minutes \<le> 0 then (True, snapshot consecutive VNone)
            else let lockout_until = Datetime (wall latest_loss_at + minutes loss_lockout_minutes)
                       (utcoffset latest_loss_at)
            in (utc_us now < utc_us lockout_until, snapshot consecutive (VStr (isoformat lockout_until))))"

section \<open>RecoveryRiskBudgetGuard\<close>

definition resident_rows :: "string \<Rightarrow> string \<Rightarrow> string \<Rightarrow> bool \<Rightarrow> pyval list \<Rightarrow> pydict list" where
  "resident_rows account_key symbol strategy dry_run rows =
    concat (map (\<lambda>v. case v of
        VDict row \<Rightarrow> if row_matches_resident_recovery row account_key symbol strategy dry_run then [row] else []
      | _ \<Rightarrow> []) rows)"

definition load_rows ::
  "(string \<Rightarrow> string \<Rightarrow> int \<Rightarrow> lister_outcome) \<Rightarrow> budget_settings \<Rightarrow> string \<Rightarrow> string \<Rightarrow> string \<Rightarrow> bool \<Rightarrow>
   string + pydict list" where
  "load_rows lister s account_key symbol strategy dry_run =
    (case lister symbol strategy (history_limit s) of
       ListerMissing \<Rightarrow> Inl ''list_recovery_cycle_states port unavailable''
     | ListerRaised text \<Rightarrow> Inl text
     | ListerRows v \<Rightarrow> (case list_or_empty v of
         Inl e \<Rightarrow> Inl (case e of TypeError text \<Rightarrow> text | _ \<Rightarrow> [])
       | Inr rows \<Rightarrow> Inr (resident_rows account_key symbol strategy dry_run rows)))"

definition budget_assess ::
  "(string \<Rightarrow> rat option) \<Rightarrow> (string \<Rightarrow> datetime option) \<Rightarrow>
   (string \<Rightarrow> string \<Rightarrow> int \<Rightarrow> lister_outcome) \<Rightarrow> budget_settings \<Rightarrow> datetime \<Rightarrow> string \<Rightarrow> string \<Rightarrow>
   string \<Rightarrow> bool \<Rightarrow> budget_decision" where
  "budget_assess pf fromiso lister s now0 account_key symbol strategy dry_run =
    (let now = as_utc now0;
         normalized_account_key = strip account_key;
         snapshot = base_snapshot s normalized_account_key;
         deny = (\<lambda>reason snap. \<lparr>bd_allowed = False, bd_reason = reason,
           bd_snapshot = dset ''active_reason'' (VStr reason) snap\<rparr>)
     in if \<not> budget_enabled s
        then \<lparr>bd_allowed = True, bd_reason = ''recovery_risk_budget_disabled'', bd_snapshot = snapshot\<rparr>
        else case load_rows lister s normalized_account_key symbol strategy dry_run of
          Inl err \<Rightarrow> deny ''recovery_budget_state_unavailable'' (dset ''error'' (VStr err) snapshot)
        | Inr rows \<Rightarrow>
          let (daily, rolling) = loss_metrics pf fromiso rows now (bs_rolling_loss_window_minutes s);
              daily_limit = bs_max_daily_recovery_loss_amount s;
              rolling_limit = bs_max_rolling_recovery_loss_amount s;
              snapshot = dmerge snapshot
                [(''daily_realized_loss_amount'', VFloat daily), (''rolling_realized_loss_amount'', VFloat rolling),
                 (''remaining_daily_loss_amount'', opt_float (remaining daily_limit daily)),
                 (''remaining_rolling_loss_amount'', opt_float (remaining rolling_limit rolling))]
          in if 0 < daily_limit \<and> daily_limit \<le> daily
             then deny ''recovery_daily_loss_budget_reached''
                    (dset ''remaining_daily_loss_amount'' (VFloat 0) snapshot)
             else if 0 < rolling_limit \<and> rolling_limit \<le> rolling
             then deny ''recovery_rolling_loss_budget_reached''
                    (dset ''remaining_rolling_loss_amount'' (VFloat 0) snapshot)
             else let (blocked, lock) = consecutive_loss_lockout pf fromiso rows now
                        (bs_max_consecutive_loss_cycles s) (bs_loss_lockout_minutes s);
                      snapshot = dmerge snapshot lock
             in if blocked then deny ''recovery_consecutive_loss_lockout'' snapshot
                else \<lparr>bd_allowed = True, bd_reason = ''recovery_risk_budget_ok'', bd_snapshot = snapshot\<rparr>)"

section \<open>Reference definitions and lemmas\<close>

text \<open>The losing rows that carry a time, as amounts and UTC times.\<close>

definition dated_losses ::
  "(string \<Rightarrow> rat option) \<Rightarrow> (string \<Rightarrow> datetime option) \<Rightarrow> pydict list \<Rightarrow> (rat \<times> datetime) list" where
  "dated_losses pf fromiso rows = List.map_filter (\<lambda>row.
     case row_event_time fromiso row of None \<Rightarrow> None
     | Some t \<Rightarrow> if 0 < realized_loss pf row then Some (realized_loss pf row, as_utc t) else None) rows"

definition float_sum :: "rat list \<Rightarrow> rat" where
  "float_sum xs = fold (\<lambda>x acc. fl (acc + x)) xs 0"

definition losses_on_day :: "int \<Rightarrow> (rat \<times> datetime) list \<Rightarrow> rat list" where
  "losses_on_day day losses = map fst (filter (\<lambda>(_, t). utc_day t = day) losses)"

definition losses_since :: "int \<Rightarrow> (rat \<times> datetime) list \<Rightarrow> rat list" where
  "losses_since start losses = map fst (filter (\<lambda>(_, t). start \<le> utc_us t) losses)"

text \<open>The losing cycles since the last one that did not lose, newest first.\<close>

definition loss_streak ::
  "(string \<Rightarrow> rat option) \<Rightarrow> (string \<Rightarrow> datetime option) \<Rightarrow> pydict list \<Rightarrow> pydict list" where
  "loss_streak pf fromiso rows = takeWhile (\<lambda>row. 0 < realized_loss pf row)
     (filter (\<lambda>row. row_event_time fromiso row \<noteq> None) (by_event_time fromiso rows))"

lemma loss_sums_eq:
  "loss_sums pf fromiso today start rows (daily, rolling) =
    (fold (\<lambda>x acc. fl (acc + x)) (losses_on_day today (dated_losses pf fromiso rows)) daily,
     fold (\<lambda>x acc. fl (acc + x)) (losses_since start (dated_losses pf fromiso rows)) rolling)"
proof (induction rows arbitrary: daily rolling)
  case (Cons row rows)
  then show ?case
    by (cases "row_event_time fromiso row"; cases "realized_loss pf row \<le> 0")
      (simp_all add: dated_losses_def losses_on_day_def losses_since_def List.map_filter_simps Let_def)
qed (simp add: dated_losses_def losses_on_day_def losses_since_def List.map_filter_simps)

lemma loss_metrics_eq:
  "loss_metrics pf fromiso rows (as_utc now) w =
    (pyround (float_sum (losses_on_day (utc_day now) (dated_losses pf fromiso rows))) 2,
     pyround (float_sum (losses_since (utc_us now - minutes (max 1 w)) (dated_losses pf fromiso rows))) 2)"
proof -
  have "utc_day (astimezone_utc (as_utc now)) = utc_day now"
    by (simp add: utc_day_def)
  then show ?thesis by (simp add: loss_metrics_def loss_sums_eq float_sum_def)
qed

lemma count_losses_eq:
  "count_losses pf fromiso rows (n, latest) =
    (let streak = takeWhile (\<lambda>row. 0 < realized_loss pf row) (filter (\<lambda>row. row_event_time fromiso row \<noteq> None) rows)
     in (n + int (length streak),
         case latest of Some t \<Rightarrow> Some t
         | None \<Rightarrow> (case streak of [] \<Rightarrow> None | row # _ \<Rightarrow> map_option as_utc (row_event_time fromiso row))))"
proof (induction rows arbitrary: n latest)
  case (Cons row rows)
  then show ?case
    by (cases "row_event_time fromiso row"; cases "realized_loss pf row \<le> 0")
      (auto simp: Let_def split: option.splits)
qed (simp split: option.splits)

lemma by_event_time_newest_first:
  "mset (by_event_time fromiso rows) = mset rows"
  "sorted_wrt (\<lambda>a b. utc_us (case row_event_time fromiso b of Some t \<Rightarrow> t | None \<Rightarrow> datetime_min) \<le>
      utc_us (case row_event_time fromiso a of Some t \<Rightarrow> t | None \<Rightarrow> datetime_min)) (by_event_time fromiso rows)"
proof -
  show "mset (by_event_time fromiso rows) = mset rows" by (simp add: by_event_time_def)
  have "sorted (map (\<lambda>row. - utc_us (case row_event_time fromiso row of Some t \<Rightarrow> t | None \<Rightarrow> datetime_min))
      (by_event_time fromiso rows))"
    unfolding by_event_time_def by (rule sorted_sort_key)
  then show "sorted_wrt (\<lambda>a b. utc_us (case row_event_time fromiso b of Some t \<Rightarrow> t | None \<Rightarrow> datetime_min) \<le>
      utc_us (case row_event_time fromiso a of Some t \<Rightarrow> t | None \<Rightarrow> datetime_min)) (by_event_time fromiso rows)"
    by (simp add: sorted_wrt_map)
qed

lemma lockout_iff:
  "fst (consecutive_loss_lockout pf fromiso rows (as_utc now) m mins) \<longleftrightarrow>
    0 < m \<and> (\<exists>row streak t. loss_streak pf fromiso rows = row # streak \<and> m \<le> int (length (row # streak)) \<and>
      row_event_time fromiso row = Some t \<and> (0 < mins \<longrightarrow> utc_us now < utc_us t + minutes mins))"
proof (cases "loss_streak pf fromiso rows")
  case Nil
  then show ?thesis
    by (auto simp: consecutive_loss_lockout_def count_losses_eq loss_streak_def Let_def)
next
  case (Cons row streak)
  then have "row \<in> set (loss_streak pf fromiso rows)" by simp
  then have "row_event_time fromiso row \<noteq> None" unfolding loss_streak_def by (auto dest: set_takeWhileD)
  then obtain t where "row_event_time fromiso row = Some t" by auto
  moreover have "utc_us (Datetime (wall (as_utc t) + x) (utcoffset (as_utc t))) = utc_us t + x" for x
    using as_utc_simps(1) [of t] by (simp add: utc_us_def)
  ultimately show ?thesis using Cons
    by (auto simp: consecutive_loss_lockout_def count_losses_eq loss_streak_def Let_def split: option.splits)
qed

section \<open>Properties\<close>

text \<open>The recovery loss budget admits a cycle exactly when it may: with every limit off it
  always does; otherwise the store must answer (any failure of it denies), the losses of the
  matching cycles of the UTC day and of the rolling window, summed in floats and rounded to
  cents, must be below their limits where those are set, and the streak of losing cycles,
  newest first by event time, must be shorter than its limit or its lockout time over.\<close>

theorem budget_admission_iff:
  "bd_allowed (budget_assess pf fromiso lister s now account_key symbol strategy dry_run) \<longleftrightarrow>
    (if \<not> budget_enabled s then True else
     \<exists>rows. load_rows lister s (strip account_key) symbol strategy dry_run = Inr rows \<and>
      (let losses = dated_losses pf fromiso rows;
           daily = pyround (float_sum (losses_on_day (utc_day now) losses)) 2;
           rolling = pyround (float_sum (losses_since
             (utc_us now - minutes (max 1 (bs_rolling_loss_window_minutes s))) losses)) 2
       in (bs_max_daily_recovery_loss_amount s \<le> 0 \<or> daily < bs_max_daily_recovery_loss_amount s) \<and>
          (bs_max_rolling_recovery_loss_amount s \<le> 0 \<or> rolling < bs_max_rolling_recovery_loss_amount s) \<and>
          \<not> (0 < bs_max_consecutive_loss_cycles s \<and>
             (\<exists>row streak t. loss_streak pf fromiso rows = row # streak \<and>
                bs_max_consecutive_loss_cycles s \<le> int (length (row # streak)) \<and>
                row_event_time fromiso row = Some t \<and>
                (bs_loss_lockout_minutes s \<le> 0 \<or>
                 utc_us now < utc_us t + minutes (bs_loss_lockout_minutes s))))))"
proof (cases "budget_enabled s")
  case True
  show ?thesis
  proof (cases "load_rows lister s (strip account_key) symbol strategy dry_run")
    case (Inl err)
    with True show ?thesis by (simp add: budget_assess_def Let_def)
  next
    case (Inr rows)
    have lock: "fst (consecutive_loss_lockout pf fromiso rows (as_utc now)
        (bs_max_consecutive_loss_cycles s) (bs_loss_lockout_minutes s)) \<longleftrightarrow>
        0 < bs_max_consecutive_loss_cycles s \<and> (\<exists>row streak t. loss_streak pf fromiso rows = row # streak \<and>
          bs_max_consecutive_loss_cycles s \<le> int (length (row # streak)) \<and> row_event_time fromiso row = Some t \<and>
          (bs_loss_lockout_minutes s \<le> 0 \<or> utc_us now < utc_us t + minutes (bs_loss_lockout_minutes s)))"
      unfolding lockout_iff by (simp add: not_less [symmetric])
    obtain blocked snap where c: "consecutive_loss_lockout pf fromiso rows (as_utc now)
        (bs_max_consecutive_loss_cycles s) (bs_loss_lockout_minutes s) = (blocked, snap)"
      by (cases "consecutive_loss_lockout pf fromiso rows (as_utc now)
        (bs_max_consecutive_loss_cycles s) (bs_loss_lockout_minutes s)")
    have "bd_allowed (budget_assess pf fromiso lister s now account_key symbol strategy dry_run) \<longleftrightarrow>
      (let (daily, rolling) = loss_metrics pf fromiso rows (as_utc now) (bs_rolling_loss_window_minutes s)
       in (bs_max_daily_recovery_loss_amount s \<le> 0 \<or> daily < bs_max_daily_recovery_loss_amount s) \<and>
          (bs_max_rolling_recovery_loss_amount s \<le> 0 \<or> rolling < bs_max_rolling_recovery_loss_amount s) \<and>
          \<not> blocked)"
      using True Inr c by (auto simp: budget_assess_def Let_def split: prod.splits)
    moreover note lock [unfolded c fst_conv]
    ultimately show ?thesis using True Inr by (simp add: Let_def loss_metrics_eq)
  qed
qed (simp add: budget_assess_def Let_def)

end
