(* ===== verification/Recovery_Ledger.thy ===== *)
theory Recovery_Ledger
  imports Recovery_Budget
begin

text \<open>
  The exposure ledger (\<^verbatim>\<open>src/src/trading/recovery/exposure_ledger.py\<close>): the tickets a recovery
  cycle has submitted, the broker positions that belong to it, and the classification of the
  one against the other. A position is a dictionary; \<open>fromiso\<close> is
  \<open>datetime.fromisoformat\<close> as in \<open>Recovery_Budget\<close>.
\<close>

section \<open>Tickets and positions\<close>

record ticket_item =
  ti_scope :: string
  ti_step_index :: int
  ti_ticket :: int

definition ticket_item_of :: "pydict \<Rightarrow> int \<Rightarrow> ticket_item res" where
  "ticket_item_of item ticket =
    rbind (py_int_of (py_or (dget item ''step_index'') (VInt 0))) (\<lambda>step_index.
    ok \<lparr>ti_scope = py_str (py_or (dget item ''scope'') (VStr (''ticket_'' @ int_str ticket))),
        ti_step_index = step_index, ti_ticket = ticket\<rparr>)"

text \<open>The loop over the raw items; \<open>seen\<close> are the tickets already kept. An item that is not a
  mapping, has no integer ticket, or repeats or is not positive is skipped; a step index that
  is no integer raises.\<close>

fun submitted_loop :: "pyval list \<Rightarrow> int list \<Rightarrow> ticket_item list res" where
  "submitted_loop [] seen = ok []"
| "submitted_loop (VDict item # rest) seen =
    (case py_int_of (dget item ''ticket'') of
       Inl e \<Rightarrow> submitted_loop rest seen
     | Inr ticket \<Rightarrow>
       if ticket \<le> 0 \<or> ticket \<in> set seen then submitted_loop rest seen
       else rbind (ticket_item_of item ticket) (\<lambda>i.
            rbind (submitted_loop rest (ticket # seen)) (\<lambda>is. ok (i # is))))"
| "submitted_loop (v # rest) seen = submitted_loop rest seen"

definition submitted_tickets :: "recovery_cycle \<Rightarrow> ticket_item list res" where
  "submitted_tickets cycle =
    rbind (list_or_empty (dget (rc_metadata cycle) ''submitted_tickets'')) (\<lambda>raw. submitted_loop raw [])"

fun first_ticket :: "pydict \<Rightarrow> string list \<Rightarrow> int option" where
  "first_ticket position [] = None"
| "first_ticket position (k # ks) =
    (case py_int_of (dget position k) of
       Inr ticket \<Rightarrow> if 0 < ticket then Some ticket else first_ticket position ks
     | Inl e \<Rightarrow> first_ticket position ks)"

definition position_ticket :: "pydict \<Rightarrow> int option" where
  "position_ticket position = first_ticket position [''ticket'', ''position_ticket'', ''position'', ''order_ticket'']"

definition text_matches_cycle :: "string \<Rightarrow> string \<Rightarrow> string \<Rightarrow> bool" where
  "text_matches_cycle cycle_id source_signal_id text =
    (text \<noteq> [] \<and> (source_signal_id \<noteq> [] \<and> text = source_signal_id \<or>
                 cycle_id \<noteq> [] \<and> contains_str text cycle_id))"

definition position_identity_matches_cycle :: "recovery_cycle \<Rightarrow> pydict \<Rightarrow> bool" where
  "position_identity_matches_cycle cycle position =
    (let cycle_id = strip (rc_cycle_id cycle);
         source_signal_id = strip (str_or_empty (opt_str (rc_source_signal_id cycle)));
         metadata_match = (case dget position ''metadata'' of
             VDict metadata \<Rightarrow>
               cycle_id \<noteq> [] \<and> strip (str_or_empty (dget metadata ''recovery_cycle_id'')) = cycle_id \<or>
               source_signal_id \<noteq> [] \<and> strip (str_or_empty (dget metadata ''source_signal_id'')) = source_signal_id
           | _ \<Rightarrow> False)
     in metadata_match \<or>
        list_ex (\<lambda>k. text_matches_cycle cycle_id source_signal_id (strip (str_or_empty (dget position k))))
          [''signal_id'', ''source_signal_id'', ''trace_id'', ''request_id'', ''action_id'', ''comment''])"

definition position_in_account :: "recovery_cycle \<Rightarrow> pydict \<Rightarrow> bool" where
  "position_in_account cycle position =
    (let account_key = strip (str_or_empty (dget position ''account_key''))
     in account_key = [] \<or> account_key = rc_account_key cycle)"

definition position_matches :: "recovery_cycle \<Rightarrow> int list \<Rightarrow> pydict \<Rightarrow> bool" where
  "position_matches cycle submitted position =
    (position_in_account cycle position \<and>
     ((case position_ticket position of None \<Rightarrow> False | Some ticket \<Rightarrow> ticket \<in> set submitted) \<or>
      position_identity_matches_cycle cycle position))"

definition matching_recovery_positions :: "recovery_cycle \<Rightarrow> pydict list \<Rightarrow> pydict list res" where
  "matching_recovery_positions cycle positions =
    rbind (submitted_tickets cycle) (\<lambda>items.
    ok (filter (position_matches cycle (map ti_ticket items)) positions))"

text \<open>The values are tickets or None here; None is what \<open>int\<close> refuses.\<close>

fun unique_positive_ints :: "int option list \<Rightarrow> int list \<Rightarrow> int list" where
  "unique_positive_ints [] seen = []"
| "unique_positive_ints (None # vs) seen = unique_positive_ints vs seen"
| "unique_positive_ints (Some item # vs) seen =
    (if item \<le> 0 \<or> item \<in> set seen then unique_positive_ints vs seen
     else item # unique_positive_ints vs (item # seen))"

definition position_match_payload :: "pydict \<Rightarrow> pydict" where
  "position_match_payload position =
    (''ticket'', opt_int (position_ticket position)) #
    map (\<lambda>k. (k, VStr (str_or_empty (dget position k))))
      [''signal_id'', ''comment'', ''symbol'', ''strategy'', ''timeframe'']"

definition datetime_after_or_equal :: "datetime \<Rightarrow> datetime \<Rightarrow> bool" where
  "datetime_after_or_equal left right = (utc_us (aware right) \<le> utc_us (aware left))"

section \<open>RecoveryExposureLedger\<close>

record exposure_snapshot =
  es_status :: string
  es_fresh :: bool
  es_submitted_tickets :: "int list"
  es_live_position_tickets :: "int list"
  es_pending_submitted_tickets :: "int list"
  es_position_matches :: "pydict list"
  es_last_reconcile_at :: "datetime option"

definition absent_confirmed :: "exposure_snapshot \<Rightarrow> bool" where
  "absent_confirmed s = (es_status s = ''absent'' \<and> es_fresh s)"

definition exposure_payload :: "exposure_snapshot \<Rightarrow> pydict" where
  "exposure_payload s =
    [(''status'', VStr (es_status s)), (''fresh'', VBool (es_fresh s)),
     (''submitted_tickets'', VList (map VInt (es_submitted_tickets s))),
     (''live_position_tickets'', VList (map VInt (es_live_position_tickets s))),
     (''pending_submitted_tickets'', VList (map VInt (es_pending_submitted_tickets s))),
     (''position_matches'', VList (map VDict (es_position_matches s))),
     (''last_reconcile_at'', opt_str (map_option isoformat (es_last_reconcile_at s))),
     (''absent_confirmed'', VBool (absent_confirmed s))]"

definition classify ::
  "recovery_cycle \<Rightarrow> pydict list option \<Rightarrow> datetime option \<Rightarrow> exposure_snapshot res" where
  "classify cycle positions last_reconcile_at =
    rbind (submitted_tickets cycle) (\<lambda>items.
    let submitted = map ti_ticket items;
        pending = \<lparr>es_status = ''pending'', es_fresh = False, es_submitted_tickets = submitted,
          es_live_position_tickets = [], es_pending_submitted_tickets = submitted,
          es_position_matches = [], es_last_reconcile_at = last_reconcile_at\<rparr>
    in if submitted = []
       then ok \<lparr>es_status = ''none'', es_fresh = True, es_submitted_tickets = [],
         es_live_position_tickets = [], es_pending_submitted_tickets = [],
         es_position_matches = [], es_last_reconcile_at = None\<rparr>
       else case positions of None \<Rightarrow> ok pending
       | Some ps \<Rightarrow>
         let fresh = (case last_reconcile_at of None \<Rightarrow> False
                      | Some t \<Rightarrow> datetime_after_or_equal t (rc_updated_at cycle))
         in rbind (matching_recovery_positions cycle ps) (\<lambda>matches.
         let live_tickets = unique_positive_ints (map position_ticket matches) []
         in if live_tickets \<noteq> []
            then ok \<lparr>es_status = ''confirmed'', es_fresh = fresh, es_submitted_tickets = submitted,
              es_live_position_tickets = live_tickets,
              es_pending_submitted_tickets = filter (\<lambda>t. t \<notin> set live_tickets) submitted,
              es_position_matches = map position_match_payload matches,
              es_last_reconcile_at = last_reconcile_at\<rparr>
            else if fresh
            then ok \<lparr>es_status = ''absent'', es_fresh = True, es_submitted_tickets = submitted,
              es_live_position_tickets = [], es_pending_submitted_tickets = [],
              es_position_matches = [], es_last_reconcile_at = last_reconcile_at\<rparr>
            else ok pending))"

section \<open>Lemmas\<close>

lemma submitted_loop_tickets:
  "submitted_loop raw seen = ok items \<Longrightarrow>
    distinct (map ti_ticket items) \<and> (\<forall>t\<in>set (map ti_ticket items). 0 < t \<and> t \<notin> set seen)"
proof (induction raw seen arbitrary: items rule: submitted_loop.induct)
  case (2 item rest seen)
  show ?case
  proof (cases "py_int_of (dget item ''ticket'')")
    case (Inl e)
    with "2.prems" "2.IH"(1) show ?thesis by simp
  next
    case (Inr ticket)
    show ?thesis
    proof (cases "ticket \<le> 0 \<or> ticket \<in> set seen")
      case True
      with Inr "2.prems" "2.IH"(2) show ?thesis by simp
    next
      case False
      then obtain i its where "ticket_item_of item ticket = ok i" "submitted_loop rest (ticket # seen) = ok its"
        "items = i # its"
        using Inr "2.prems" by (auto simp: res_simps)
      moreover from this(1) have "ti_ticket i = ticket" by (auto simp: ticket_item_of_def res_simps)
      ultimately show ?thesis using "2.IH"(3) Inr False by fastforce
    qed
  qed
qed simp_all

lemma unique_positive_ints_iff:
  "t \<in> set (unique_positive_ints vs seen) \<longleftrightarrow> Some t \<in> set vs \<and> 0 < t \<and> t \<notin> set seen"
  by (induction vs seen rule: unique_positive_ints.induct) auto

lemma unique_positive_ints_distinct: "distinct (unique_positive_ints vs seen)"
  by (induction vs seen rule: unique_positive_ints.induct) (auto simp: unique_positive_ints_iff)

lemma first_ticket_pos: "first_ticket position ks = Some t \<Longrightarrow> 0 < t"
  by (induction ks) (auto split: sum.splits if_splits)

lemma position_ticket_pos: "position_ticket position = Some t \<Longrightarrow> 0 < t"
  unfolding position_ticket_def by (rule first_ticket_pos)

lemma unique_tickets_set:
  "set (unique_positive_ints (map position_ticket (filter P ps)) []) = {t. \<exists>p\<in>set ps. P p \<and> position_ticket p = Some t}"
proof (rule set_eqI)
  fix t
  have "Some t \<in> position_ticket ` {p \<in> set ps. P p} \<longleftrightarrow> (\<exists>p\<in>set ps. P p \<and> position_ticket p = Some t)"
    by (auto simp: image_iff)
  then show "t \<in> set (unique_positive_ints (map position_ticket (filter P ps)) []) \<longleftrightarrow>
      t \<in> {t. \<exists>p\<in>set ps. P p \<and> position_ticket p = Some t}"
    by (auto simp: unique_positive_ints_iff position_ticket_pos)
qed

lemma utc_us_aware [simp]: "utc_us (aware t) = utc_us t"
  by (simp add: aware_def replace_tz_def utc_us_def)

section \<open>Properties\<close>

text \<open>The tickets of the positions that belong to a cycle, in a snapshot: of its account, and with a
  submitted ticket or the cycle's identity. Whether a snapshot is recent enough.\<close>

definition carried :: "recovery_cycle \<Rightarrow> int list \<Rightarrow> pydict list \<Rightarrow> int set" where
  "carried cycle submitted ps = {t. \<exists>p\<in>set ps. position_in_account cycle p \<and> position_ticket p = Some t \<and>
     (t \<in> set submitted \<or> position_identity_matches_cycle cycle p)}"

definition recent :: "recovery_cycle \<Rightarrow> datetime option \<Rightarrow> bool" where
  "recent cycle at_time = (case at_time of None \<Rightarrow> False | Some t \<Rightarrow> utc_us (rc_updated_at cycle) \<le> utc_us t)"

lemma unique_carried:
  "set (unique_positive_ints (map position_ticket (filter (position_matches cycle submitted) ps)) []) = carried cycle submitted ps"
  unfolding unique_tickets_set carried_def by (auto simp: position_matches_def split: option.splits)

lemma classify_items:
  assumes "classify cycle positions last_reconcile_at = ok s"
  obtains items where "submitted_tickets cycle = ok items" "es_submitted_tickets s = map ti_ticket items"
    "distinct (map ti_ticket items)" "\<forall>t\<in>set (map ti_ticket items). 0 < t"
proof -
  obtain items where items: "submitted_tickets cycle = ok items"
    using assms by (auto simp: classify_def res_simps)
  moreover have "es_submitted_tickets s = map ti_ticket items"
    using assms items
    by (auto simp: classify_def Let_def res_simps matching_recovery_positions_def split: if_splits option.splits)
  moreover have "distinct (map ti_ticket items)" "\<forall>t\<in>set (map ti_ticket items). 0 < t"
    using items submitted_loop_tickets by (auto simp: submitted_tickets_def res_simps)
  ultimately show thesis by (rule that)
qed

lemma classify_with_positions:
  assumes "classify cycle (Some ps) last_reconcile_at = ok s" "es_submitted_tickets s \<noteq> []"
  shows "set (es_live_position_tickets s) = carried cycle (es_submitted_tickets s) ps"
    "distinct (es_live_position_tickets s)"
    "if es_live_position_tickets s \<noteq> []
     then es_status s = ''confirmed'' \<and> es_fresh s = recent cycle last_reconcile_at \<and>
       es_pending_submitted_tickets s = filter (\<lambda>t. t \<notin> set (es_live_position_tickets s)) (es_submitted_tickets s)
     else if recent cycle last_reconcile_at
     then es_status s = ''absent'' \<and> es_fresh s \<and> es_pending_submitted_tickets s = []
     else es_status s = ''pending'' \<and> \<not> es_fresh s \<and> es_pending_submitted_tickets s = es_submitted_tickets s"
proof -
  from classify_items [OF assms(1)] obtain items where items: "submitted_tickets cycle = ok items"
    "es_submitted_tickets s = map ti_ticket items" by blast
  let ?live = "unique_positive_ints (map position_ticket (filter (position_matches cycle (map ti_ticket items)) ps)) []"
  have fresh: "(case last_reconcile_at of None \<Rightarrow> False | Some t \<Rightarrow> datetime_after_or_equal t (rc_updated_at cycle)) =
      recent cycle last_reconcile_at"
    by (simp add: recent_def datetime_after_or_equal_def split: option.splits)
  have live: "es_live_position_tickets s = ?live"
    using assms items by (auto simp: classify_def Let_def matching_recovery_positions_def split: if_splits)
  show "set (es_live_position_tickets s) = carried cycle (es_submitted_tickets s) ps"
    "distinct (es_live_position_tickets s)"
    unfolding live items(2) by (simp_all add: unique_carried unique_positive_ints_distinct)
  show "if es_live_position_tickets s \<noteq> []
     then es_status s = ''confirmed'' \<and> es_fresh s = recent cycle last_reconcile_at \<and>
       es_pending_submitted_tickets s = filter (\<lambda>t. t \<notin> set (es_live_position_tickets s)) (es_submitted_tickets s)
     else if recent cycle last_reconcile_at
     then es_status s = ''absent'' \<and> es_fresh s \<and> es_pending_submitted_tickets s = []
     else es_status s = ''pending'' \<and> \<not> es_fresh s \<and> es_pending_submitted_tickets s = es_submitted_tickets s"
    using assms items unfolding live
    by (auto simp: classify_def Let_def matching_recovery_positions_def fresh split: if_splits)
qed

lemma classify_without_positions:
  assumes "classify cycle positions last_reconcile_at = ok s" "positions = None \<or> es_submitted_tickets s = []"
  shows "es_live_position_tickets s = [] \<and> es_pending_submitted_tickets s = es_submitted_tickets s \<and>
    es_status s = (if es_submitted_tickets s = [] then ''none'' else ''pending'')"
proof -
  from classify_items [OF assms(1)] obtain items where items: "submitted_tickets cycle = ok items"
    "es_submitted_tickets s = map ti_ticket items" by blast
  then show ?thesis using assms by (auto simp: classify_def Let_def split: if_splits)
qed

text \<open>C37: The ledger's classification of a cycle's exposure, exactly. The submitted and the live
  tickets are distinct and positive. The live tickets are those of the positions of the cycle's
  account that carry a submitted ticket, or a ticket and the cycle's identity. The status is
  \<open>none\<close> without submitted tickets; \<open>pending\<close> without a position list; else \<open>confirmed\<close> when there is
  a live ticket, \<open>absent\<close> when there is none in a snapshot taken no earlier than the cycle's last
  update, and \<open>pending\<close> when there is none in an older one. Pending tickets are the submitted ones
  that are not live when the status is \<open>confirmed\<close>, all of them when it is \<open>pending\<close>, none otherwise.
  Absence is confirmed exactly for a recent snapshot without a live ticket; a position with the
  cycle's identity but without any ticket does not prevent it.\<close>

theorem classify_sound:
  assumes "classify cycle positions last_reconcile_at = ok s"
  shows "distinct (es_submitted_tickets s) \<and> list_all (\<lambda>t. 0 < t) (es_submitted_tickets s) \<and>
    distinct (es_live_position_tickets s) \<and> list_all (\<lambda>t. 0 < t) (es_live_position_tickets s) \<and>
    set (es_live_position_tickets s) = (if es_submitted_tickets s = [] then {} else
      case positions of None \<Rightarrow> {} | Some ps \<Rightarrow> carried cycle (es_submitted_tickets s) ps) \<and>
    es_status s = (if es_submitted_tickets s = [] then ''none'' else if positions = None then ''pending''
      else if es_live_position_tickets s \<noteq> [] then ''confirmed''
      else if recent cycle last_reconcile_at then ''absent'' else ''pending'') \<and>
    es_pending_submitted_tickets s =
      (if es_status s = ''confirmed'' then filter (\<lambda>t. t \<notin> set (es_live_position_tickets s)) (es_submitted_tickets s)
       else if es_status s = ''pending'' then es_submitted_tickets s else []) \<and>
    (absent_confirmed s \<longleftrightarrow> es_submitted_tickets s \<noteq> [] \<and> recent cycle last_reconcile_at \<and>
      (\<exists>ps. positions = Some ps \<and> carried cycle (es_submitted_tickets s) ps = {}))"
proof -
  obtain items where "submitted_tickets cycle = ok items" and sub: "es_submitted_tickets s = map ti_ticket items"
    and tickets: "distinct (map ti_ticket items)" "\<forall>t\<in>set (map ti_ticket items). 0 < t"
    by (rule classify_items [OF assms])
  have own: "distinct (es_submitted_tickets s)" "list_all (\<lambda>t. 0 < t) (es_submitted_tickets s)"
    using tickets sub by (simp_all add: list_all_iff)
  have pos: "0 < t" if "t \<in> carried cycle (es_submitted_tickets s) ps" for t ps
    using that by (auto simp: carried_def position_ticket_pos)
  show ?thesis
  proof (cases "positions = None \<or> es_submitted_tickets s = []")
    case True
    then show ?thesis using classify_without_positions [OF assms True] own
      by (cases "es_submitted_tickets s = []") (simp_all add: absent_confirmed_def)
  next
    case False
    then obtain ps where ps: "positions = Some ps" and ne: "es_submitted_tickets s \<noteq> []" by auto
    note live = classify_with_positions [OF assms [unfolded ps] ne]
    have "list_all (\<lambda>t. 0 < t) (es_live_position_tickets s)" using live(1) pos by (auto simp: list_all_iff)
    moreover have "carried cycle (es_submitted_tickets s) ps = {} \<longleftrightarrow> es_live_position_tickets s = []"
      using live(1) by (metis set_empty)
    ultimately show ?thesis using own live ps ne
      by (cases "es_live_position_tickets s = []"; cases "recent cycle last_reconcile_at") (simp_all add: absent_confirmed_def)
  qed
qed

definition ledger_cycle_example :: recovery_cycle where
  "ledger_cycle_example = (cycle_example ''buy'')\<lparr>rc_metadata :=
     [(''submitted_tickets'', VList [VDict [(''ticket'', VInt 7)], VDict [(''ticket'', VStr '' 7 '')]])]\<rparr>"

theorem classify_sound_witness:
  "\<exists>s. classify ledger_cycle_example (Some [[(''ticket'', VInt 8)]]) (Some (Datetime 5 None)) = ok s \<and>
     absent_confirmed s \<and> es_submitted_tickets s = [7] \<and> distinct (es_submitted_tickets s)"
proof -
  have digit: "parse_int '' 7 '' = Some 7" by code_simp
  have "\<exists>s. classify ledger_cycle_example (Some [[(''ticket'', VInt 8)]]) (Some (Datetime 5 None)) = ok s \<and>
     absent_confirmed s \<and> es_submitted_tickets s = [7]"
    by (simp add: classify_def submitted_tickets_def ledger_cycle_example_def cycle_example_def dget_def
        list_or_empty_def ticket_item_of_def py_or_def digit matching_recovery_positions_def
        position_matches_def position_in_account_def position_ticket_def position_identity_matches_cycle_def
        text_matches_cycle_def opt_str_def datetime_after_or_equal_def absent_confirmed_def Let_def)
  then obtain s where s: "classify ledger_cycle_example (Some [[(''ticket'', VInt 8)]]) (Some (Datetime 5 None)) = ok s"
    "absent_confirmed s" "es_submitted_tickets s = [7]" by blast
  with classify_sound [OF s(1)] show ?thesis by blast
qed

text \<open>A position that names the cycle in its comment but has no ticket: the ledger finds it, and yet
  confirms the exposure absent.\<close>

lemma ticketless_position_absent:
  "\<exists>s. classify ledger_cycle_example (Some [[(''comment'', VStr (rc_cycle_id ledger_cycle_example))]]) (Some (Datetime 5 None)) = ok s \<and>
     absent_confirmed s \<and>
     position_identity_matches_cycle ledger_cycle_example [(''comment'', VStr (rc_cycle_id ledger_cycle_example))]"
proof -
  let ?p = "[(''comment'', VStr (rc_cycle_id ledger_cycle_example))]"
  have "position_identity_matches_cycle ledger_cycle_example ?p" "position_ticket ?p = None"
    "submitted_tickets ledger_cycle_example = ok [\<lparr>ti_scope = ''ticket_7'', ti_step_index = 0, ti_ticket = 7\<rparr>]"
    "datetime_after_or_equal (Datetime 5 None) (rc_updated_at ledger_cycle_example)"
    by code_simp+
  then show ?thesis
    by (simp add: classify_def matching_recovery_positions_def absent_confirmed_def Let_def)
qed

end
