(* ===== verification/Recovery_Replay.thy ===== *)
theory Recovery_Replay
  imports Recovery_Controller Tick_Features Interfaces "HOL-Library.Product_Lexorder"
begin

text \<open>
  The offline replay of a recovery cycle on recorded ticks
  (\<^verbatim>\<open>src/src/backtesting/tick_replay/recovery.py\<close>): the runner opens the cycle on the first tick
  and drives the controller over the rest until the exit model closes it. \<open>local_off\<close> is the
  offset of the machine's zone, which \<open>timestamp()\<close> of a naive datetime depends on.
\<close>

section \<open>Fills and report\<close>

record replay_fill =
  rf_role :: string
  rf_step_index :: int
  rf_side :: string
  rf_volume :: rat
  rf_fill_price :: rat
  rf_fill_time :: datetime
  rf_fill_time_msc :: "int option"
  rf_tick :: tick

record replay_report =
  rt_symbol :: string
  rt_direction :: string
  rt_tick_count :: int
  rt_tradable_tick_count :: int
  rt_tick_coverage :: rat
  rt_fills :: "replay_fill list"
  rt_events :: "recovery_decision list"
  rt_closed :: bool
  rt_close_reason :: "string option"
  rt_close_price :: "rat option"
  rt_estimated_pnl :: rat
  rt_blocked_count :: int
  rt_hold_count :: int
  rt_max_step_count :: int
  rt_max_total_volume :: rat

text \<open>The local variables of the loop of \<open>run\<close>.\<close>

record replay_state =
  st_cycle :: recovery_cycle
  st_fills :: "replay_fill list"
  st_events :: "recovery_decision list"
  st_blocked :: int
  st_hold :: int
  st_max_total :: rat
  st_closed :: bool
  st_close_reason :: "string option"
  st_close_price :: "rat option"
  st_pnl :: rat

section \<open>Ordering the ticks\<close>

definition tick_msc :: "int \<Rightarrow> tick \<Rightarrow> int" where
  "tick_msc local_off t = (case tk_time_msc t of Some m \<Rightarrow> m
     | None \<Rightarrow> py_int (fl (timestamp local_off (tk_time t) * 1000)))"

text \<open>Comparing the keys of two ticks reaches their times only when the milliseconds are equal,
  and raises when one of these times is naive and the other aware; a comparison sort has to
  compare such a pair of every mixed group.\<close>

fun has_mixed_tie :: "int \<Rightarrow> tick list \<Rightarrow> bool" where
  "has_mixed_tie local_off [] = False"
| "has_mixed_tie local_off (t # ts) =
     (list_ex (\<lambda>u. tick_msc local_off u = tick_msc local_off t \<and>
        (utcoffset (tk_time u) = None) \<noteq> (utcoffset (tk_time t) = None)) ts \<or> has_mixed_tie local_off ts)"

definition ordered_ticks :: "int \<Rightarrow> tick list \<Rightarrow> tick list res" where
  "ordered_ticks local_off ticks =
    (if has_mixed_tie local_off ticks
     then raise (TypeError ''can't compare offset-naive and offset-aware datetimes'')
     else ok (sort_key (\<lambda>t. (tick_msc local_off t, utc_us (tk_time t))) ticks))"

definition snapshot_of_tick :: "string \<Rightarrow> tick \<Rightarrow> recovery_snapshot" where
  "snapshot_of_tick symbol t = \<lparr>rs_symbol = symbol, rs_bid = tk_bid t, rs_ask = tk_ask t,
     rs_time = tk_time t, rs_time_msc = tk_time_msc t\<rparr>"

section \<open>The loop\<close>

definition replay_tick ::
  "recovery_policy \<Rightarrow> string \<Rightarrow> tick \<Rightarrow> replay_state \<Rightarrow> (bool \<times> replay_state) res" where
  "replay_tick policy symbol t st =
    (let snapshot = snapshot_of_tick symbol t; cycle = st_cycle st
     in rbind (evaluate_cycle_exit policy cycle snapshot) (\<lambda>exit.
        if rd_action exit = ''block''
        then ok (False, st\<lparr>st_events := st_events st @ [exit], st_blocked := st_blocked st + 1\<rparr>)
        else if rd_action exit = ''close_cycle''
        then (case rd_exit_price exit of None \<Rightarrow> raise AssertionError
              | Some price \<Rightarrow> ok (True, st\<lparr>st_events := st_events st @ [exit], st_closed := True,
                  st_close_reason := Some (rd_reason exit), st_close_price := Some price,
                  st_pnl := estimate_pnl policy cycle price\<rparr>))
        else rbind (evaluate_next_step policy cycle snapshot (Some (tk_time t))) (\<lambda>decision.
        let st1 = st\<lparr>st_events := st_events st @ [decision]\<rparr>
        in if rd_action decision = ''block'' then ok (False, st1\<lparr>st_blocked := st_blocked st + 1\<rparr>)
           else if rd_action decision = ''hold'' then ok (False, st1\<lparr>st_hold := st_hold st + 1\<rparr>)
           else case (rd_volume decision, rd_entry_price decision, rd_step_index decision) of
             (Some volume, Some price, Some step_index) \<Rightarrow>
               let fill = \<lparr>rf_role = ''recovery'', rf_step_index = step_index, rf_side = rc_direction cycle,
                     rf_volume = volume, rf_fill_price = price, rf_fill_time = tk_time t,
                     rf_fill_time_msc = tk_time_msc t, rf_tick = t\<rparr>
               in rbind (apply_open_step cycle decision (tk_time t)) (\<lambda>cycle'.
                  ok (False, st1\<lparr>st_fills := st_fills st @ [fill], st_cycle := cycle',
                        st_max_total := max (st_max_total st) (rc_total_volume cycle')\<rparr>))
           | _ \<Rightarrow> raise AssertionError)))"

definition replay_report_of ::
  "string \<Rightarrow> string \<Rightarrow> nat \<Rightarrow> nat \<Rightarrow> replay_state \<Rightarrow> replay_report" where
  "replay_report_of symbol direction tick_count tradable st =
    \<lparr>rt_symbol = symbol, rt_direction = direction, rt_tick_count = int tick_count,
     rt_tradable_tick_count = int tradable,
     rt_tick_coverage = (if 0 < tick_count then pyround (fl (of_nat tradable / of_nat tick_count)) 8 else 0),
     rt_fills = st_fills st, rt_events = st_events st, rt_closed = st_closed st,
     rt_close_reason = st_close_reason st, rt_close_price = st_close_price st,
     rt_estimated_pnl = st_pnl st, rt_blocked_count = st_blocked st, rt_hold_count = st_hold st,
     rt_max_step_count = rc_step_count (st_cycle st), rt_max_total_volume = pyround (st_max_total st) 8\<rparr>"

text \<open>The report of the two early returns, which have no cycle.\<close>

definition empty_report ::
  "string \<Rightarrow> string \<Rightarrow> nat \<Rightarrow> nat \<Rightarrow> recovery_decision list \<Rightarrow> int \<Rightarrow> replay_report" where
  "empty_report symbol direction tick_count tradable events blocked =
    \<lparr>rt_symbol = symbol, rt_direction = direction, rt_tick_count = int tick_count,
     rt_tradable_tick_count = int tradable,
     rt_tick_coverage = (if 0 < tick_count then pyround (fl (of_nat tradable / of_nat tick_count)) 8 else 0),
     rt_fills = [], rt_events = events, rt_closed = False, rt_close_reason = None, rt_close_price = None,
     rt_estimated_pnl = 0, rt_blocked_count = blocked, rt_hold_count = 0, rt_max_step_count = 0,
     rt_max_total_volume = pyround 0 8\<rparr>"

definition tradable_ticks :: "tick list \<Rightarrow> tick list" where
  "tradable_ticks ticks = filter (\<lambda>t. tk_bid t \<noteq> None \<and> tk_ask t \<noteq> None) ticks"

definition open_cycle ::
  "recovery_policy \<Rightarrow> string \<Rightarrow> string \<Rightarrow> string \<Rightarrow> string \<Rightarrow> tick \<Rightarrow> rat \<Rightarrow> recovery_cycle res" where
  "open_cycle policy symbol direction account_key cycle_id first price =
    RecoveryCycleState \<lparr>rc_cycle_id = cycle_id, rc_account_key = account_key, rc_symbol = symbol,
      rc_direction = lower (strip direction), rc_status = ''open'', rc_base_volume = rp_base_volume policy,
      rc_total_volume = rp_base_volume policy, rc_step_count = 0, rc_average_entry_price = price,
      rc_last_entry_price = price, rc_started_at = tk_time first, rc_updated_at = tk_time first,
      rc_last_step_at = Some (tk_time first), rc_strategy = [], rc_timeframe = [],
      rc_source_signal_id = None, rc_metadata = []\<rparr>"

definition initial_state :: "recovery_policy \<Rightarrow> tick \<Rightarrow> rat \<Rightarrow> recovery_cycle \<Rightarrow> replay_state" where
  "initial_state policy first price cycle =
    \<lparr>st_cycle = cycle,
     st_fills = [\<lparr>rf_role = ''initial'', rf_step_index = 0, rf_side = rc_direction cycle,
       rf_volume = rp_base_volume policy, rf_fill_price = price, rf_fill_time = tk_time first,
       rf_fill_time_msc = tk_time_msc first, rf_tick = first\<rparr>],
     st_events = [], st_blocked = 0, st_hold = 0, st_max_total = rc_total_volume cycle, st_closed = False,
     st_close_reason = None, st_close_price = None, st_pnl = 0\<rparr>"

definition replay_run ::
  "int \<Rightarrow> string \<Rightarrow> string \<Rightarrow> tick list \<Rightarrow> recovery_policy \<Rightarrow> string \<Rightarrow> string \<Rightarrow> replay_report res" where
  "replay_run local_off symbol direction ticks policy account_key cycle_id =
    rbind (ordered_ticks local_off ticks) (\<lambda>ordered.
    let tradable = length (tradable_ticks ordered)
    in case ordered of
      [] \<Rightarrow> ok (empty_report symbol direction 0 0 [] 0)
    | first # rest \<Rightarrow>
      let s = snapshot_of_tick symbol first
      in rbind (if has_bid_ask s then snapshot_entry_price s direction else ok None) (\<lambda>initial_price.
         case initial_price of
           None \<Rightarrow> ok (empty_report symbol direction (length ordered) tradable
             [plain_decision ''block'' ''quote_side_missing'' []] 1)
         | Some price \<Rightarrow>
           rbind (open_cycle policy symbol direction account_key cycle_id first price) (\<lambda>cycle.
           rbind (for_loop (replay_tick policy symbol) rest (initial_state policy first price cycle)) (\<lambda>st.
           ok (replay_report_of symbol (rc_direction (st_cycle st)) (length ordered) tradable st)))))"

section \<open>The loop invariant\<close>

text \<open>What the local variables say of each other after any number of ticks.\<close>

definition replay_inv :: "recovery_policy \<Rightarrow> replay_state \<Rightarrow> bool" where
  "replay_inv policy st \<longleftrightarrow>
    0 \<le> rc_step_count (st_cycle st) \<and> rc_step_count (st_cycle st) \<le> max 0 (rp_max_steps policy) \<and>
    map rf_step_index (st_fills st) = [0..rc_step_count (st_cycle st)] \<and>
    (\<forall>f\<in>set (tl (st_fills st)). \<forall>cap. rp_max_next_volume policy = Some cap \<longrightarrow> rf_volume f \<le> cap) \<and>
    int (length (st_events st)) =
      st_blocked st + st_hold st + rc_step_count (st_cycle st) + (if st_closed st then 1 else 0) \<and>
    0 \<le> st_blocked st \<and> 0 \<le> st_hold st \<and>
    (rp_volume_step policy \<le> 0 \<and> rp_base_volume policy \<le> rp_max_total_volume policy \<longrightarrow>
      st_max_total st \<le> rp_max_total_volume policy)"

lemma evaluate_next_step_action:
  assumes "evaluate_next_step policy cycle snapshot now = ok d"
  shows "rd_action d \<in> {''hold'', ''block'', ''open_step''}"
proof -
  have "rd_action d' \<in> {''block'', ''open_step''}" if "size_next_step policy cycle snapshot adverse = ok d'" for adverse d'
    using that by (auto simp: size_next_step_def Let_def res_simps split: if_splits option.splits)
  with assms show ?thesis
    by (fastforce simp: evaluate_next_step_def Let_def res_simps split: if_splits option.splits)
qed

text \<open>The step that a tick opens.\<close>

lemma replay_open_step:
  assumes "evaluate_next_step policy cycle snapshot now = ok d" and "rd_action d = ''open_step''"
    and "apply_open_step cycle d t = ok cycle'" and "rd_volume d = Some v"
  shows "rc_step_count cycle' = rc_step_count cycle + 1" "rc_step_count cycle' \<le> rp_max_steps policy"
    "rd_step_index d = Some (rc_step_count cycle')"
    "\<forall>cap. rp_max_next_volume policy = Some cap \<longrightarrow> v \<le> cap"
    "rp_volume_step policy \<le> 0 \<Longrightarrow> rc_total_volume cycle' \<le> rp_max_total_volume policy"
proof -
  obtain adverse where c: "rc_step_count cycle < rp_max_steps policy"
    and size: "size_next_step policy cycle snapshot adverse = ok d"
    by (rule evaluate_next_step_open [OF assms(1,2)])
  have i: "rd_step_index d = Some (rc_step_count cycle + 1)"
    and v: "\<forall>cap. rp_max_next_volume policy = Some cap \<longrightarrow> v \<le> cap"
      "round_volume (fl (rc_total_volume cycle + v)) (rp_volume_step policy) \<le> rp_max_total_volume policy"
    by (rule size_next_step_open [OF size assms(2)], use assms(4) in simp)+
  note a = apply_open_step_ok [OF assms(3,4) i]
  show "rc_step_count cycle' = rc_step_count cycle + 1" "rc_step_count cycle' \<le> rp_max_steps policy"
    "rd_step_index d = Some (rc_step_count cycle')"
    "\<forall>cap. rp_max_next_volume policy = Some cap \<longrightarrow> v \<le> cap"
    using a c i v by simp_all
  show "rp_volume_step policy \<le> 0 \<Longrightarrow> rc_total_volume cycle' \<le> rp_max_total_volume policy"
    using a v(2) by (simp add: round_volume_def)
qed

lemma upto_snoc: "0 \<le> n \<Longrightarrow> [0..n] @ [n + 1] = [0..n + 1]" for n :: int
  by (simp add: upto_rec2 [of 0 "n + 1"])

lemma replay_inv_tick:
  assumes "replay_inv policy st" and "\<not> st_closed st" and "replay_tick policy symbol t st = ok (stop, st')"
  shows "replay_inv policy st' \<and> (\<not> stop \<longrightarrow> \<not> st_closed st')"
proof -
  let ?s = "snapshot_of_tick symbol t" and ?c = "st_cycle st"
  obtain exit where e: "evaluate_cycle_exit policy ?c ?s = ok exit"
    using assms(3) by (auto simp: replay_tick_def Let_def res_simps)
  show ?thesis
  proof (cases "rd_action exit \<in> {''block'', ''close_cycle''}")
    case True
    with assms e show ?thesis
      by (auto simp: replay_tick_def Let_def replay_inv_def split: option.splits if_splits)
  next
    case False
    with assms e obtain d where d: "evaluate_next_step policy ?c ?s (Some (tk_time t)) = ok d"
      by (auto simp: replay_tick_def Let_def res_simps)
    show ?thesis
    proof (cases "rd_action d = ''open_step''")
      case True
      with assms e False d obtain v price i c' where v: "rd_volume d = Some v"
        and i: "rd_step_index d = Some i" and a: "apply_open_step ?c d (tk_time t) = ok c'" and "\<not> stop"
        and st': "st' = st\<lparr>st_events := st_events st @ [d], st_fills := st_fills st @
              [\<lparr>rf_role = ''recovery'', rf_step_index = i, rf_side = rc_direction ?c, rf_volume = v,
                rf_fill_price = price, rf_fill_time = tk_time t, rf_fill_time_msc = tk_time_msc t, rf_tick = t\<rparr>],
              st_cycle := c', st_max_total := max (st_max_total st) (rc_total_volume c')\<rparr>"
        by (auto simp: replay_tick_def Let_def res_simps split: option.splits)
      note o = replay_open_step [OF d True a v]
      have "st_fills st \<noteq> []" using assms(1) by (auto simp: replay_inv_def)
      then show ?thesis using assms(1,2) o i unfolding st'
        by (auto simp: replay_inv_def upto_snoc)
    next
      case not_open: False
      with evaluate_next_step_action [OF d] have "rd_action d \<in> {''hold'', ''block''}" by blast
      with assms e False d show ?thesis
        by (auto simp: replay_tick_def Let_def replay_inv_def)
    qed
  qed
qed

interpretation replay: guarded_loop "replay_tick policy symbol"
  "\<lambda>st. replay_inv policy st \<and> \<not> st_closed st" "replay_inv policy" for policy symbol
  using replay_inv_tick by unfold_locales blast+

lemma replay_inv_initial:
  assumes "open_cycle policy symbol direction account_key cycle_id first price = ok cycle"
  shows "replay_inv policy (initial_state policy first price cycle) \<and>
    \<not> st_closed (initial_state policy first price cycle)"
  using assms by (auto simp: open_cycle_def RecoveryCycleState_ok_iff initial_state_def replay_inv_def)

lemma replay_run_cases:
  assumes "replay_run local_off symbol direction ticks policy account_key cycle_id = ok report"
  obtains (early) n k ev b where "report = empty_report symbol direction n k ev b" "int (length ev) = b"
  | (ran) first price cycle rest st n k where
      "open_cycle policy symbol direction account_key cycle_id first price = ok cycle"
      "for_loop (replay_tick policy symbol) rest (initial_state policy first price cycle) = ok st"
      "report = replay_report_of symbol (rc_direction (st_cycle st)) n k st"
proof -
  obtain ordered where o: "ordered_ticks local_off ticks = ok ordered"
    using assms by (auto simp: replay_run_def res_simps)
  show thesis
  proof (cases ordered)
    case Nil
    with o assms early show thesis by (auto simp: replay_run_def Let_def)
  next
    case (Cons first rest)
    with o assms obtain p where p: "(if has_bid_ask (snapshot_of_tick symbol first)
        then snapshot_entry_price (snapshot_of_tick symbol first) direction else ok None) = ok p"
      by (auto simp: replay_run_def Let_def res_simps)
    show thesis
    proof (cases p)
      case None
      with o Cons assms p early show thesis by (auto simp: replay_run_def Let_def)
    next
      case (Some price)
      with o Cons assms p ran show thesis by (auto simp: replay_run_def Let_def res_simps)
    qed
  qed
qed

section \<open>Properties\<close>

text \<open>A replay report is consistent and bounded: the fills are numbered 0, 1, 2, ... up to
  the reported step count, which never passes \<open>max_steps\<close>; every recovery fill is within
  \<open>max_next_volume\<close>; each processed tick is accounted for once, as a block, a hold, a step or
  the close; with the volume step off, the reported peak volume never passes
  \<open>max_total_volume\<close> (a cap with at most eight decimals).\<close>

theorem replay_report_bounded:
  assumes "RecoveryPolicy p0 = ok policy"
    and "replay_run local_off symbol direction ticks policy account_key cycle_id = ok report"
  shows "rt_max_step_count report \<le> rp_max_steps policy \<and>
    (map rf_step_index (rt_fills report) = [0..rt_max_step_count report] \<or>
     rt_fills report = [] \<and> rt_max_step_count report = 0) \<and>
    (\<forall>f\<in>set (tl (rt_fills report)). \<forall>cap. rp_max_next_volume policy = Some cap \<longrightarrow> rf_volume f \<le> cap) \<and>
    int (length (rt_events report)) = rt_blocked_count report + rt_hold_count report +
      rt_max_step_count report + (if rt_closed report then 1 else 0) \<and>
    (rp_volume_step policy = 0 \<and> pyround (rp_max_total_volume policy) 8 = rp_max_total_volume policy \<longrightarrow>
      rt_max_total_volume report \<le> rp_max_total_volume policy)"
proof -
  note valid = RecoveryPolicy_valid [OF assms(1)]
  from assms(2) show ?thesis
  proof (cases rule: replay_run_cases)
    case (early n k ev b)
    with valid show ?thesis by (auto simp: empty_report_def)
  next
    case (ran first price cycle rest st n k)
    have "replay_inv policy st"
      using replay.loop_post [OF replay_inv_initial [OF ran(1)] ran(2)] .
    then show ?thesis using valid unfolding ran(3)
      by (auto simp: replay_inv_def replay_report_of_def pyround_le_fixed)
  qed
qed

text \<open>A replay on three ticks, given out of order: the entry at ask 102, a step at ask 81, and the close once the
  average entry is back in profit.\<close>

definition replay_tick_example :: "int \<Rightarrow> rat \<Rightarrow> tick" where
  "replay_tick_example ms bid = \<lparr>tk_symbol = ''XAUUSD'', tk_bid = Some bid, tk_ask = Some (bid + 2), tk_last = None,
     tk_volume = 0, tk_time = Datetime (ms * 1000) (Some 0), tk_time_msc = Some ms, tk_flags = 0\<rparr>"

lemmas replay_eval = replay_run_def ordered_ticks_def tick_msc_def tradable_ticks_def snapshot_of_tick_def
  open_cycle_def initial_state_def replay_tick_def replay_report_of_def evaluate_cycle_exit_def
  evaluate_exit_def exit_rules_def favorable_points_def evaluate_next_step_def adverse_move_points_def
  elapsed_ms_def total_seconds_def size_next_step_def round_volume_def py_pow_def apply_open_step_def
  RecoveryCycleState_def has_bid_ask_def snapshot_entry_price_def snapshot_exit_price_def
  cycle_age_seconds_def last_step_age_seconds_def

theorem replay_report_bounded_witness:
  "\<exists>report. replay_run 0 ''XAUUSD'' ''buy'' [replay_tick_example 3000 100, replay_tick_example 1000 100,
     replay_tick_example 2000 79] policy_example ''acct'' ''c1'' = ok report \<and>
     rt_max_step_count report \<le> rp_max_steps policy_example"
proof -
  obtain report where r: "replay_run 0 ''XAUUSD'' ''buy'' [replay_tick_example 3000 100, replay_tick_example 1000 100,
     replay_tick_example 2000 79] policy_example ''acct'' ''c1'' = ok report"
    by (simp add: replay_eval replay_tick_example_def policy_example_def str_eval Let_def)
  with replay_report_bounded [OF policy_example_valid r] show ?thesis by blast
qed

end
