(* ===== verification/Signal_State.thy ===== *)
theory Signal_State
  imports Py_Base
begin

text \<open>
  The confirmed-scope signal state machine
  (\<^verbatim>\<open>src/src/signals/orchestration/state_machine.py\<close>, with \<open>RuntimeSignalState\<close> of
  \<^verbatim>\<open>src/src/signals/orchestration/policy.py\<close>) and its refinement of a three-state machine.
  Python's \<open>hash\<close>, which depends on the process, is the parameter \<open>h\<close>.
\<close>

section \<open>State and emission\<close>

record signal_state =
  ss_confirmed_state :: string
  ss_confirmed_bar_time :: "datetime option"
  ss_last_emitted_state :: "string option"
  ss_last_emitted_at :: "datetime option"
  ss_last_emitted_bar_time :: "datetime option"
  ss_last_snapshot_scope :: "string option"
  ss_last_snapshot_bar_time :: "datetime option"
  ss_last_snapshot_signature :: "int option"
  ss_last_snapshot_time :: "datetime option"

definition signal_state_init :: signal_state where
  "signal_state_init = \<lparr>ss_confirmed_state = ''idle'', ss_confirmed_bar_time = None,
     ss_last_emitted_state = None, ss_last_emitted_at = None, ss_last_emitted_bar_time = None,
     ss_last_snapshot_scope = None, ss_last_snapshot_bar_time = None,
     ss_last_snapshot_signature = None, ss_last_snapshot_time = None\<rparr>"

text \<open>\<open>==\<close> of datetimes: the same instant, and both naive or both aware.\<close>

definition dt_key :: "datetime \<Rightarrow> bool \<times> int" where
  "dt_key t = (utcoffset t = None, utc_us t)"

definition build_transition_metadata :: "pydict \<Rightarrow> string \<Rightarrow> bool \<Rightarrow> string \<Rightarrow> pydict" where
  "build_transition_metadata metadata signal_state state_changed previous_state =
    dset ''previous_state'' (VStr previous_state)
      (dset ''state_changed'' (VBool state_changed)
        (dset ''signal_state'' (VStr signal_state) metadata))"

definition should_emit ::
  "signal_state \<Rightarrow> string \<Rightarrow> datetime \<Rightarrow> datetime \<Rightarrow> rat \<Rightarrow> bool res" where
  "should_emit s state event_time bar_time cooldown_seconds =
    (if ss_last_emitted_state s \<noteq> Some state then ok True
     else if map_option dt_key (ss_last_emitted_bar_time s) \<noteq> Some (dt_key bar_time) then ok True
     else case ss_last_emitted_at s of None \<Rightarrow> ok True
       | Some emitted_at \<Rightarrow> rbind (dt_sub event_time emitted_at) (\<lambda>us. ok (cooldown_seconds \<le> total_seconds us)))"

definition mark_emitted :: "signal_state \<Rightarrow> string \<Rightarrow> datetime \<Rightarrow> datetime \<Rightarrow> signal_state" where
  "mark_emitted s state event_time bar_time =
    s\<lparr>ss_last_emitted_state := Some state, ss_last_emitted_at := Some event_time,
      ss_last_emitted_bar_time := Some bar_time\<rparr>"

definition transition_confirmed ::
  "signal_state \<Rightarrow> string \<Rightarrow> datetime \<Rightarrow> datetime \<Rightarrow> pydict \<Rightarrow> (pydict option \<times> signal_state) res" where
  "transition_confirmed s decision_action event_time bar_time metadata =
    (let previous_state = ss_confirmed_state s
     in if decision_action \<notin> {''buy'', ''sell''}
        then let s1 = s\<lparr>ss_confirmed_state := ''idle'', ss_confirmed_bar_time := Some bar_time\<rparr>
             in if previous_state \<noteq> ''idle''
                then ok (Some (build_transition_metadata metadata ''confirmed_cancelled'' True previous_state),
                         mark_emitted s1 ''confirmed_cancelled'' event_time bar_time)
                else ok (None, s1)
        else let signal_state = ''confirmed_'' @ decision_action;
                 s1 = s\<lparr>ss_confirmed_state := signal_state, ss_confirmed_bar_time := Some bar_time\<rparr>
             in rbind (should_emit s1 signal_state event_time bar_time 0) (\<lambda>emit.
                if \<not> emit then ok (None, s1)
                else ok (Some (build_transition_metadata metadata signal_state
                           (signal_state \<noteq> previous_state) previous_state),
                         mark_emitted s1 signal_state event_time bar_time)))"

section \<open>Snapshot deduplication\<close>

text \<open>The indicators: a payload that is no dictionary is None.\<close>

type_synonym indicator_values = "(string \<times> (string \<times> rat) list option) list"

definition snapshot_signature ::
  "((string \<times> (string \<times> rat) set) set \<Rightarrow> int) \<Rightarrow> indicator_values \<Rightarrow> int" where
  "snapshot_signature h indicators =
    h (set (List.map_filter (\<lambda>(name, payload). map_option (\<lambda>items. (name, set items)) payload) indicators))"

definition is_new_snapshot ::
  "((string \<times> (string \<times> rat) set) set \<Rightarrow> int) \<Rightarrow> signal_state \<Rightarrow> string \<Rightarrow> datetime \<Rightarrow> datetime \<Rightarrow>
   indicator_values \<Rightarrow> rat \<Rightarrow> (bool \<times> signal_state) res" where
  "is_new_snapshot h s scope event_time bar_time indicators dedupe_window_seconds =
    (let sig = snapshot_signature h indicators;
         accept = ok (True, s\<lparr>ss_last_snapshot_scope := Some scope, ss_last_snapshot_bar_time := Some bar_time,
           ss_last_snapshot_signature := Some sig, ss_last_snapshot_time := Some event_time\<rparr>)
     in if ss_last_snapshot_scope s = Some scope \<and>
           map_option dt_key (ss_last_snapshot_bar_time s) = Some (dt_key bar_time) \<and>
           ss_last_snapshot_signature s = Some sig
        then (if scope = ''confirmed'' then ok (False, s)
              else case ss_last_snapshot_time s of None \<Rightarrow> accept
                | Some previous \<Rightarrow> rbind (dt_sub event_time previous) (\<lambda>us.
                    if \<bar>total_seconds us\<bar> < dedupe_window_seconds then ok (False, s) else accept))
        else accept)"

section \<open>The abstract machine\<close>

text \<open>Three states; a directional decision enters its state and is announced, any other decision
  leaves a confirmed state with a cancellation and is silent in idle. An announcement names the
  signal, whether it changes the state, and the state left.\<close>

fun machine_step :: "string \<Rightarrow> string \<Rightarrow> (string \<times> bool \<times> string) option \<times> string" where
  "machine_step m action =
    (if action \<in> {''buy'', ''sell''}
     then (Some (''confirmed_'' @ action, ''confirmed_'' @ action \<noteq> m, m), ''confirmed_'' @ action)
     else if m = ''idle'' then (None, ''idle'')
     else (Some (''confirmed_cancelled'', True, m), ''idle''))"

fun machine_run :: "string \<Rightarrow> string list \<Rightarrow> (string \<times> bool \<times> string) option list \<times> string" where
  "machine_run m [] = ([], m)"
| "machine_run m (a # as) =
     (let (out, m') = machine_step m a; (outs, m'') = machine_run m' as in (out # outs, m''))"

record confirmed_event =
  ce_action :: string
  ce_event_time :: datetime
  ce_bar_time :: datetime
  ce_metadata :: pydict

fun transition_run :: "signal_state \<Rightarrow> confirmed_event list \<Rightarrow> (pydict option list \<times> signal_state) res" where
  "transition_run s [] = ok ([], s)"
| "transition_run s (e # es) =
     rbind (transition_confirmed s (ce_action e) (ce_event_time e) (ce_bar_time e) (ce_metadata e)) (\<lambda>(out, s').
     rbind (transition_run s' es) (\<lambda>(outs, s''). ok (out # outs, s'')))"

definition announced :: "pydict option \<Rightarrow> (pyval \<times> pyval \<times> pyval) option" where
  "announced = map_option (\<lambda>d. (dget d ''signal_state'', dget d ''state_changed'', dget d ''previous_state''))"

definition announcement :: "(string \<times> bool \<times> string) option \<Rightarrow> (pyval \<times> pyval \<times> pyval) option" where
  "announcement = map_option (\<lambda>(s, c, p). (VStr s, VBool c, VStr p))"

text \<open>Event times of one kind, naive or aware, that do not go back, from the last emission on.\<close>

definition in_order :: "datetime option \<Rightarrow> datetime \<Rightarrow> bool" where
  "in_order previous t \<longleftrightarrow> (case previous of None \<Rightarrow> True
     | Some p \<Rightarrow> (utcoffset p = None) = (utcoffset t = None) \<and> utc_us p \<le> utc_us t)"

lemma transition_confirmed_refines:
  assumes "in_order (ss_last_emitted_at s) event_time"
  shows "\<exists>out s'. transition_confirmed s action event_time bar_time metadata = ok (out, s') \<and>
    announced out = announcement (fst (machine_step (ss_confirmed_state s) action)) \<and>
    ss_confirmed_state s' = snd (machine_step (ss_confirmed_state s) action) \<and>
    ss_last_emitted_at s' \<in> {ss_last_emitted_at s, Some event_time}"
proof -
  have "should_emit s' state event_time bar_time 0 = ok True" if "ss_last_emitted_at s' = ss_last_emitted_at s" for s' state
    using assms that
    by (auto simp: should_emit_def in_order_def dt_sub_def total_seconds_nonneg split: option.splits)
  then show ?thesis
    by (auto simp: transition_confirmed_def Let_def mark_emitted_def announced_def announcement_def
        build_transition_metadata_def)
qed

lemma in_order_trans:
  "in_order (Some a) b \<Longrightarrow> in_order p a \<Longrightarrow> q \<in> {p, Some a} \<Longrightarrow> in_order q b"
  by (auto simp: in_order_def split: option.splits)

lemma transition_run_refines:
  assumes "sorted_wrt (\<lambda>a b. in_order (Some (ce_event_time a)) (ce_event_time b)) es"
    and "\<forall>e\<in>set es. in_order (ss_last_emitted_at s) (ce_event_time e)"
  shows "\<exists>outs s'. transition_run s es = ok (outs, s') \<and>
    map announced outs = map announcement (fst (machine_run (ss_confirmed_state s) (map ce_action es))) \<and>
    ss_confirmed_state s' = snd (machine_run (ss_confirmed_state s) (map ce_action es))"
  using assms
proof (induction es arbitrary: s)
  case (Cons e es)
  obtain out s1 where t: "transition_confirmed s (ce_action e) (ce_event_time e) (ce_bar_time e) (ce_metadata e) = ok (out, s1)"
    "announced out = announcement (fst (machine_step (ss_confirmed_state s) (ce_action e)))"
    "ss_confirmed_state s1 = snd (machine_step (ss_confirmed_state s) (ce_action e))"
    "ss_last_emitted_at s1 \<in> {ss_last_emitted_at s, Some (ce_event_time e)}"
    using transition_confirmed_refines [of s "ce_event_time e"] Cons.prems(2) by fastforce
  have "\<forall>x\<in>set es. in_order (ss_last_emitted_at s1) (ce_event_time x)"
    using Cons.prems t(4) by auto
  with Cons.IH [of s1] Cons.prems(1) obtain outs s2 where "transition_run s1 es = ok (outs, s2)"
    "map announced outs = map announcement (fst (machine_run (ss_confirmed_state s1) (map ce_action es)))"
    "ss_confirmed_state s2 = snd (machine_run (ss_confirmed_state s1) (map ce_action es))"
    by auto
  with t show ?case
    by (cases "machine_step (ss_confirmed_state s) (ce_action e)";
        cases "machine_run (ss_confirmed_state s1) (map ce_action es)") (simp del: machine_step.simps)
qed simp

section \<open>Runs of snapshots\<close>

fun snapshot_run ::
  "((string \<times> (string \<times> rat) set) set \<Rightarrow> int) \<Rightarrow> rat \<Rightarrow> (datetime \<times> datetime \<times> indicator_values) list \<Rightarrow>
   signal_state \<Rightarrow> (datetime \<times> datetime \<times> indicator_values) list res" where
  "snapshot_run h w [] s = ok []"
| "snapshot_run h w ((event_time, bar_time, ind) # xs) s =
     rbind (is_new_snapshot h s ''confirmed'' event_time bar_time ind w) (\<lambda>(new, s').
     rbind (snapshot_run h w xs s') (\<lambda>kept. ok (if new then (event_time, bar_time, ind) # kept else kept)))"

definition snapshot_key ::
  "((string \<times> (string \<times> rat) set) set \<Rightarrow> int) \<Rightarrow> datetime \<times> datetime \<times> indicator_values \<Rightarrow> (bool \<times> int) \<times> int" where
  "snapshot_key h x = (case x of (_, bar_time, ind) \<Rightarrow> (dt_key bar_time, snapshot_signature h ind))"

lemma snapshot_key_simps [simp]: "snapshot_key h (e, b, i) = (dt_key b, snapshot_signature h i)"
  by (simp add: snapshot_key_def)

lemma snapshot_run_keys:
  assumes "ss_last_snapshot_scope s = Some ''confirmed''"
    and "map_option dt_key (ss_last_snapshot_bar_time s) = Some (fst k)"
    and "ss_last_snapshot_signature s = Some (snd k)"
  shows "\<exists>kept. snapshot_run h w xs s = ok kept \<and>
    k # map (snapshot_key h) kept = remdups_adj (k # map (snapshot_key h) xs)"
  using assms
proof (induction xs arbitrary: s k)
  case (Cons x xs)
  obtain event_time bar_time ind where x: "x = (event_time, bar_time, ind)" by (cases x)
  let ?s = "s\<lparr>ss_last_snapshot_scope := Some ''confirmed'', ss_last_snapshot_bar_time := Some bar_time,
           ss_last_snapshot_signature := Some (snapshot_signature h ind), ss_last_snapshot_time := Some event_time\<rparr>"
  show ?case
  proof (cases "snapshot_key h x = k")
    case True
    then have "is_new_snapshot h s ''confirmed'' event_time bar_time ind w = ok (False, s)"
      using Cons.prems x by (auto simp: is_new_snapshot_def)
    with Cons.IH [OF Cons.prems] True x show ?thesis by auto
  next
    case False
    then have "is_new_snapshot h s ''confirmed'' event_time bar_time ind w = ok (True, ?s)"
      using Cons.prems x by (cases k) (auto simp: is_new_snapshot_def)
    moreover obtain kept where "snapshot_run h w xs ?s = ok kept"
      "snapshot_key h x # map (snapshot_key h) kept = remdups_adj (snapshot_key h x # map (snapshot_key h) xs)"
      using Cons.IH [of ?s "snapshot_key h x"] x by auto
    ultimately show ?thesis using False x by auto
  qed
qed simp

section \<open>Properties\<close>

text \<open>C39: The confirmed-signal transitions implement the three-state machine: over any events
  whose times are of one kind and do not go back, no transition raises, what is emitted (the
  signal, whether the state changed, the state left) is what the abstract machine announces,
  and the stored state is the abstract one.\<close>

theorem transitions_refine_signal_machine:
  assumes "sorted_wrt (\<lambda>a b. in_order (Some (ce_event_time a)) (ce_event_time b)) es"
  shows "\<exists>outs s'. transition_run signal_state_init es = ok (outs, s') \<and>
    map announced outs = map announcement (fst (machine_run ''idle'' (map ce_action es))) \<and>
    ss_confirmed_state s' = snd (machine_run ''idle'' (map ce_action es))"
  using transition_run_refines [OF assms, of signal_state_init]
  by (simp add: signal_state_init_def in_order_def)

definition event_example :: "string \<Rightarrow> int \<Rightarrow> confirmed_event" where
  "event_example action t = \<lparr>ce_action = action, ce_event_time = Datetime t (Some 0),
     ce_bar_time = Datetime 0 (Some 0), ce_metadata = []\<rparr>"

theorem transitions_refine_signal_machine_witness:
  "\<exists>outs s'. transition_run signal_state_init [event_example ''buy'' 1, event_example ''hold'' 2] = ok (outs, s') \<and>
    map announced outs = [Some (VStr ''confirmed_buy'', VBool True, VStr ''idle''),
      Some (VStr ''confirmed_cancelled'', VBool True, VStr ''confirmed_buy'')] \<and> ss_confirmed_state s' = ''idle''"
proof -
  have "sorted_wrt (\<lambda>a b. in_order (Some (ce_event_time a)) (ce_event_time b))
      [event_example ''buy'' 1, event_example ''hold'' 2]"
    by (simp add: event_example_def in_order_def)
  from transitions_refine_signal_machine [OF this] show ?thesis
    by (simp add: event_example_def announcement_def)
qed

text \<open>Confirmed snapshots are deduplicated by bar and content: of any sequence of snapshots
  of the confirmed scope, with whatever times, exactly those are accepted whose bar time or
  indicator signature differs from the one before.\<close>

theorem confirmed_snapshots_deduplicated:
  "\<exists>kept. snapshot_run h w xs signal_state_init = ok kept \<and>
    map (snapshot_key h) kept = remdups_adj (map (snapshot_key h) xs)"
proof (cases xs)
  case (Cons x rest)
  obtain event_time bar_time ind where x: "x = (event_time, bar_time, ind)" by (cases x)
  let ?s = "signal_state_init\<lparr>ss_last_snapshot_scope := Some ''confirmed'', ss_last_snapshot_bar_time := Some bar_time,
           ss_last_snapshot_signature := Some (snapshot_signature h ind), ss_last_snapshot_time := Some event_time\<rparr>"
  have "is_new_snapshot h signal_state_init ''confirmed'' event_time bar_time ind w = ok (True, ?s)"
    by (simp add: is_new_snapshot_def signal_state_init_def)
  moreover obtain kept where "snapshot_run h w rest ?s = ok kept"
    "snapshot_key h x # map (snapshot_key h) kept = remdups_adj (snapshot_key h x # map (snapshot_key h) rest)"
    using snapshot_run_keys [of ?s "snapshot_key h x" h w rest] x by auto
  ultimately show ?thesis using Cons x by auto
qed simp

end
