(* ===== verification/Wal_Queue.thy ===== *)
theory Wal_Queue
  imports Py_Base Interfaces
begin

text \<open>
  The SQLite-backed queue of confirmed signal events
  (\<^verbatim>\<open>src/src/signals/orchestration/wal_queue.py\<close>). The table is the list of its rows in the order
  of their AUTOINCREMENT ids with the next id; every statement the class executes is a function
  on it. Each commit of the code is one function here, so that a crash between two of them is
  a state of the model. The \<open>json\<close> module is a parameter, a record of the three calls the
  class makes; the clocks are arguments.
\<close>

section \<open>The table and its statements\<close>

record wal_row =
  wr_id :: int
  wr_scope :: string
  wr_symbol :: string
  wr_timeframe :: string
  wr_indicators_json :: string
  wr_metadata_json :: string
  wr_created_at :: rat
  wr_processed :: bool

record wal_db =
  wd_rows :: "wal_row list"
  wd_next_id :: int

text \<open>What \<open>_CLAIM_SQL\<close> returns of a row besides its id.\<close>

record wal_entry =
  we_scope :: string
  we_symbol :: string
  we_timeframe :: string
  we_indicators_json :: string
  we_metadata_json :: string

definition entry_of :: "wal_row \<Rightarrow> wal_entry" where
  "entry_of r = \<lparr>we_scope = wr_scope r, we_symbol = wr_symbol r, we_timeframe = wr_timeframe r,
     we_indicators_json = wr_indicators_json r, we_metadata_json = wr_metadata_json r\<rparr>"

definition insert_sql :: "wal_entry \<Rightarrow> rat \<Rightarrow> wal_db \<Rightarrow> wal_db" where
  "insert_sql e created_at db =
    db\<lparr>wd_rows := wd_rows db @ [\<lparr>wr_id = wd_next_id db, wr_scope = we_scope e, wr_symbol = we_symbol e,
         wr_timeframe = we_timeframe e, wr_indicators_json = we_indicators_json e,
         wr_metadata_json = we_metadata_json e, wr_created_at = created_at, wr_processed = False\<rparr>],
       wd_next_id := wd_next_id db + 1\<rparr>"

definition claim_sql :: "wal_db \<Rightarrow> (int \<times> wal_entry) option \<times> wal_db" where
  "claim_sql db =
    (case List.find (\<lambda>r. \<not> wr_processed r) (wd_rows db) of
       None \<Rightarrow> (None, db)
     | Some r \<Rightarrow> (Some (wr_id r, entry_of r),
         db\<lparr>wd_rows := map (\<lambda>x. if wr_id x = wr_id r then x\<lparr>wr_processed := True\<rparr> else x) (wd_rows db)\<rparr>))"

definition complete_sql :: "int \<Rightarrow> wal_db \<Rightarrow> wal_db" where
  "complete_sql row_id db = db\<lparr>wd_rows := filter (\<lambda>r. wr_id r \<noteq> row_id) (wd_rows db)\<rparr>"

definition reset_inflight_sql :: "wal_db \<Rightarrow> wal_db" where
  "reset_inflight_sql db =
    db\<lparr>wd_rows := map (\<lambda>r. if wr_processed r then r\<lparr>wr_processed := False\<rparr> else r) (wd_rows db)\<rparr>"

definition count_sql :: "wal_db \<Rightarrow> int" where
  "count_sql db = int (length (filter (\<lambda>r. \<not> wr_processed r) (wd_rows db)))"

section \<open>WalSignalQueue\<close>

record wal_queue =
  wq_db :: wal_db
  wq_conn :: bool
  wq_closed :: bool

definition get_conn :: "wal_queue \<Rightarrow> wal_queue res" where
  "get_conn q = (if wq_conn q then ok q
     else if wq_closed q then raise (RuntimeError ''WalSignalQueue is closed; call reopen() before further use'')
     else ok (q\<lparr>wq_conn := True\<rparr>))"

definition init_db :: "wal_queue \<Rightarrow> wal_queue res" where
  "init_db q = rbind (get_conn q) (\<lambda>q1. ok (q1\<lparr>wq_db := reset_inflight_sql (wq_db q1)\<rparr>))"

definition WalSignalQueue :: "wal_db \<Rightarrow> wal_queue res" where
  "WalSignalQueue db = init_db \<lparr>wq_db = db, wq_conn = False, wq_closed = False\<rparr>"

definition reopen :: "wal_queue \<Rightarrow> wal_queue res" where
  "reopen q = init_db (q\<lparr>wq_closed := False, wq_conn := False\<rparr>)"

definition wal_close :: "wal_queue \<Rightarrow> wal_queue" where
  "wal_close q = q\<lparr>wq_closed := True, wq_conn := False\<rparr>"

record json_codec =
  js_dumps :: "pyval \<Rightarrow> string res"
  js_dumps_default_str :: "pyval \<Rightarrow> string res"
  js_loads :: "string \<Rightarrow> pyval res"

record wal_item =
  wi_scope :: string
  wi_symbol :: string
  wi_timeframe :: string
  wi_indicators :: pyval
  wi_metadata :: pyval

text \<open>The outcome and the queue afterwards, also when the call raises.\<close>

definition put_nowait :: "json_codec \<Rightarrow> rat \<Rightarrow> wal_item \<Rightarrow> wal_queue \<Rightarrow> unit res \<times> wal_queue" where
  "put_nowait js now item q =
    (case rbind (js_dumps js (wi_indicators item)) (\<lambda>ij.
          rbind (js_dumps_default_str js (wi_metadata item)) (\<lambda>mj.
          rbind (get_conn q) (\<lambda>q1. ok (ij, mj, q1)))) of
       Inl e \<Rightarrow> (Inl e, q)
     | Inr (ij, mj, q1) \<Rightarrow>
       (ok (), q1\<lparr>wq_db := insert_sql \<lparr>we_scope = wi_scope item, we_symbol = wi_symbol item,
           we_timeframe = wi_timeframe item, we_indicators_json = ij, we_metadata_json = mj\<rparr> now (wq_db q1)\<rparr>))"

text \<open>Item assignment into the loaded metadata.\<close>

definition set_enqueued_at :: "rat \<Rightarrow> pyval \<Rightarrow> pyval res" where
  "set_enqueued_at t v = (case v of VDict d \<Rightarrow> ok (VDict (dset ''_enqueued_at'' (VFloat t) d))
     | _ \<Rightarrow> raise (TypeError ''object does not support item assignment''))"

definition decode_entry :: "json_codec \<Rightarrow> rat \<Rightarrow> wal_entry \<Rightarrow> wal_item res" where
  "decode_entry js now e =
    rbind (js_loads js (we_indicators_json e)) (\<lambda>indicators.
    rbind (js_loads js (we_metadata_json e)) (\<lambda>metadata.
    rbind (set_enqueued_at now metadata) (\<lambda>metadata'.
    ok \<lparr>wi_scope = we_scope e, wi_symbol = we_symbol e, wi_timeframe = we_timeframe e,
        wi_indicators = indicators, wi_metadata = metadata'\<rparr>)))"

definition get_nowait :: "json_codec \<Rightarrow> rat \<Rightarrow> wal_queue \<Rightarrow> wal_item res \<times> wal_queue" where
  "get_nowait js now q =
    (case get_conn q of Inl e \<Rightarrow> (Inl e, q)
     | Inr q1 \<Rightarrow>
       (case claim_sql (wq_db q1) of
          (None, db) \<Rightarrow> (raise QueueEmpty, q1)
        | (Some (row_id, e), db) \<Rightarrow>
          let q2 = q1\<lparr>wq_db := db\<rparr>
          in (case decode_entry js now e of Inl err \<Rightarrow> (Inl err, q2)
              | Inr item \<Rightarrow> (ok item, q2\<lparr>wq_db := complete_sql row_id db\<rparr>))))"

definition qsize :: "wal_queue \<Rightarrow> int res" where
  "qsize q = rbind (get_conn q) (\<lambda>q1. ok (count_sql (wq_db q1)))"

definition wal_empty :: "wal_queue \<Rightarrow> bool res" where
  "wal_empty q = rbind (qsize q) (\<lambda>n. ok (n = 0))"

section \<open>The table as a queue\<close>

definition pending :: "wal_db \<Rightarrow> wal_entry list" where
  "pending db = map entry_of (filter (\<lambda>r. \<not> wr_processed r) (wd_rows db))"

text \<open>Ids grow and are below the next one; between calls no row is claimed.\<close>

definition db_inv :: "wal_db \<Rightarrow> bool" where
  "db_inv db \<longleftrightarrow> sorted_wrt (<) (map wr_id (wd_rows db)) \<and> (\<forall>r\<in>set (wd_rows db). wr_id r < wd_next_id db)"

definition settled :: "wal_db \<Rightarrow> bool" where
  "settled db \<longleftrightarrow> db_inv db \<and> (\<forall>r\<in>set (wd_rows db). \<not> wr_processed r)"

definition db_deq :: "wal_db \<Rightarrow> (wal_entry \<times> wal_db) option" where
  "db_deq db = (case claim_sql db of (None, _) \<Rightarrow> None
     | (Some (row_id, e), db') \<Rightarrow> Some (e, complete_sql row_id db'))"

lemma claim_settled:
  assumes "settled db"
  shows "wd_rows db = [] \<and> claim_sql db = (None, db) \<or>
    (\<exists>r rs. wd_rows db = r # rs \<and> claim_sql db =
       (Some (wr_id r, entry_of r), db\<lparr>wd_rows := r\<lparr>wr_processed := True\<rparr> # rs\<rparr>))"
proof (cases "wd_rows db")
  case (Cons r rs)
  have "map (\<lambda>x. if wr_id x = wr_id r then x\<lparr>wr_processed := True\<rparr> else x) rs = rs"
    using assms Cons by (intro map_idI) (auto simp: settled_def db_inv_def)
  then show ?thesis using assms Cons by (simp add: claim_sql_def settled_def)
qed (simp add: claim_sql_def)

lemma complete_claimed:
  assumes "settled db" and "wd_rows db = r # rs"
  shows "complete_sql (wr_id r) (db\<lparr>wd_rows := r\<lparr>wr_processed := True\<rparr> # rs\<rparr>) = db\<lparr>wd_rows := rs\<rparr>"
proof -
  have "filter (\<lambda>x. wr_id x \<noteq> wr_id r) rs = rs"
    using assms by (intro filter_True) (auto simp: settled_def db_inv_def)
  then show ?thesis by (simp add: complete_sql_def)
qed

lemma settled_tl: "settled db \<Longrightarrow> wd_rows db = r # rs \<Longrightarrow> settled (db\<lparr>wd_rows := rs\<rparr>)"
  by (simp add: settled_def db_inv_def)

lemma settled_insert: "settled db \<Longrightarrow> settled (insert_sql e t db)"
  by (auto simp: settled_def db_inv_def insert_sql_def sorted_wrt_append)

lemma pending_insert: "pending (insert_sql e t db) = pending db @ [e]"
  by (simp add: pending_def insert_sql_def entry_of_def)

interpretation waldb: fifo_queue "\<lambda>e. insert_sql e t" db_deq pending settled for t
proof unfold_locales
  fix db :: wal_db and e db'
  assume s: "settled db"
  show "settled (insert_sql e t db)" using s by (rule settled_insert)
  show "db_deq db = None \<longleftrightarrow> pending db = []"
    using claim_settled [OF s] s by (auto simp: db_deq_def pending_def settled_def)
  assume "db_deq db = Some (e, db')"
  then obtain r rs where r: "wd_rows db = r # rs" "e = entry_of r" "db' = db\<lparr>wd_rows := rs\<rparr>"
    using claim_settled [OF s] complete_claimed [OF s] by (auto simp: db_deq_def)
  then show "pending db = e # pending db' \<and> settled db'"
    using s settled_tl by (auto simp: pending_def settled_def)
qed (rule pending_insert)

section \<open>Runs of the queue\<close>

datatype wal_op = Put rat wal_item | Get rat

fun wal_run :: "json_codec \<Rightarrow> wal_op list \<Rightarrow> wal_queue \<Rightarrow> wal_item list \<times> wal_queue" where
  "wal_run js [] q = ([], q)"
| "wal_run js (Put t x # ops) q = wal_run js ops (snd (put_nowait js t x q))"
| "wal_run js (Get t # ops) q =
     (case get_nowait js t q of
        (Inl e, q') \<Rightarrow> wal_run js ops q'
      | (Inr x, q') \<Rightarrow> let (outs, q'') = wal_run js ops q' in (x # outs, q''))"

fun puts :: "wal_op list \<Rightarrow> wal_item list" where
  "puts [] = []"
| "puts (Put t x # ops) = x # puts ops"
| "puts (Get t # ops) = puts ops"

text \<open>What is asked of \<open>json\<close>: an item whose two payloads it restores from their dumps.\<close>

definition json_ok :: "json_codec \<Rightarrow> wal_item \<Rightarrow> bool" where
  "json_ok js x \<longleftrightarrow> (\<exists>ij mj d. js_dumps js (wi_indicators x) = ok ij \<and> js_loads js ij = ok (wi_indicators x) \<and>
     wi_metadata x = VDict d \<and> js_dumps_default_str js (wi_metadata x) = ok mj \<and> js_loads js mj = ok (VDict d))"

definition encode_item :: "json_codec \<Rightarrow> wal_item \<Rightarrow> wal_entry" where
  "encode_item js x = \<lparr>we_scope = wi_scope x, we_symbol = wi_symbol x, we_timeframe = wi_timeframe x,
     we_indicators_json = projr (js_dumps js (wi_indicators x)),
     we_metadata_json = projr (js_dumps_default_str js (wi_metadata x))\<rparr>"

text \<open>The item as it is delivered, with the time of its delivery in the metadata.\<close>

definition delivered :: "rat \<Rightarrow> wal_item \<Rightarrow> wal_item" where
  "delivered t x = x\<lparr>wi_metadata := projr (set_enqueued_at t (wi_metadata x))\<rparr>"

definition wal_ready :: "wal_queue \<Rightarrow> bool" where
  "wal_ready q \<longleftrightarrow> wq_conn q \<and> settled (wq_db q)"

lemma put_ready:
  assumes "wal_ready q" and "json_ok js x"
  shows "wal_ready (snd (put_nowait js t x q)) \<and>
    pending (wq_db (snd (put_nowait js t x q))) = pending (wq_db q) @ [encode_item js x]"
  using assms
  by (auto simp: wal_ready_def json_ok_def put_nowait_def get_conn_def encode_item_def
      settled_insert pending_insert)

lemma decode_encode:
  assumes "json_ok js x"
  shows "decode_entry js t (encode_item js x) = ok (delivered t x)"
  using assms by (auto simp: json_ok_def decode_entry_def encode_item_def delivered_def set_enqueued_at_def)

lemma get_ready_empty: "wal_ready q \<Longrightarrow> pending (wq_db q) = [] \<Longrightarrow> get_nowait js t q = (raise QueueEmpty, q)"
  using claim_settled [of "wq_db q"]
  by (auto simp: wal_ready_def get_nowait_def get_conn_def pending_def settled_def)

lemma get_ready:
  assumes q: "wal_ready q" and p: "pending (wq_db q) = encode_item js x # es" and j: "json_ok js x"
  obtains q' where "get_nowait js t q = (ok (delivered t x), q')" "wal_ready q'" "pending (wq_db q') = es"
proof -
  have s: "settled (wq_db q)" using q by (simp add: wal_ready_def)
  obtain row_id e db' where c: "claim_sql (wq_db q) = (Some (row_id, e), db')"
    using claim_settled [OF s] p by (auto simp: pending_def)
  then have d: "db_deq (wq_db q) = Some (e, complete_sql row_id db')" by (simp add: db_deq_def)
  have "pending (wq_db q) = e # pending (complete_sql row_id db')" "settled (complete_sql row_id db')"
    using waldb.deq_Some [OF s d] by simp_all
  with p c q decode_encode [OF j] show ?thesis
    by (intro that [of "q\<lparr>wq_db := complete_sql row_id db'\<rparr>"])
      (simp_all add: get_nowait_def get_conn_def wal_ready_def)
qed

lemma wal_run_fifo:
  assumes "wal_ready q" and "pending (wq_db q) = map (encode_item js) ws"
    and "\<forall>x\<in>set (ws @ puts ops). json_ok js x" and "wal_run js ops q = (outs, q')"
  shows "list_all2 (\<lambda>out x. \<exists>t. out = delivered t x) outs (take (length outs) (ws @ puts ops)) \<and>
    pending (wq_db q') = map (encode_item js) (drop (length outs) (ws @ puts ops)) \<and> wal_ready q'"
  using assms
proof (induction js ops q arbitrary: ws outs rule: wal_run.induct)
  case (2 js t x ops q)
  have "wal_ready (snd (put_nowait js t x q))"
    "pending (wq_db (snd (put_nowait js t x q))) = map (encode_item js) (ws @ [x])"
    using put_ready [OF "2.prems"(1), of js x t] "2.prems"(2,3) by auto
  from "2.IH" [OF this] "2.prems"(3,4) show ?case by simp
next
  case (3 js t ops q)
  show ?case
  proof (cases ws)
    case Nil
    then have g: "get_nowait js t q = (raise QueueEmpty, q)"
      using "3.prems"(1,2) by (intro get_ready_empty) simp_all
    show ?thesis using "3.IH"(1) [OF g [symmetric] refl "3.prems"(1,2)] "3.prems"(3,4) g by simp
  next
    case (Cons w ws')
    then have "pending (wq_db q) = encode_item js w # map (encode_item js) ws'" "json_ok js w"
      using "3.prems"(2,3) by simp_all
    then obtain q1 where g: "get_nowait js t q = (ok (delivered t w), q1)" "wal_ready q1"
      "pending (wq_db q1) = map (encode_item js) ws'"
      using get_ready [OF "3.prems"(1)] by metis
    obtain outs1 where r: "wal_run js ops q1 = (outs1, q')" "outs = delivered t w # outs1"
      using "3.prems"(4) g(1) by (cases "wal_run js ops q1") simp
    have "\<forall>x\<in>set (ws' @ puts ops). json_ok js x" using "3.prems"(3) Cons by simp
    from "3.IH"(2) [OF g(1) [symmetric] refl g(2,3) this r(1)] r(2) Cons show ?thesis by auto
  qed
qed simp

section \<open>Properties\<close>

text \<open>C23: The queue is first-in first-out and loses nothing while the process lives: from an
  empty table, after any interleaving of puts and gets of items that \<open>json\<close> restores, the
  items delivered are the first ones put, in order and each once, unchanged but for the
  delivery time in their metadata, and the rest are pending in order.\<close>

theorem wal_queue_fifo:
  assumes "WalSignalQueue \<lparr>wd_rows = [], wd_next_id = 1\<rparr> = ok q0"
    and "\<forall>x\<in>set (puts ops). json_ok js x" and "wal_run js ops q0 = (outs, q')"
  shows "list_all2 (\<lambda>out x. \<exists>t. out = delivered t x) outs (take (length outs) (puts ops)) \<and>
    pending (wq_db q') = map (encode_item js) (drop (length outs) (puts ops))"
proof -
  have "q0 = \<lparr>wq_db = \<lparr>wd_rows = [], wd_next_id = 1\<rparr>, wq_conn = True, wq_closed = False\<rparr>"
    using assms(1) by (auto simp: WalSignalQueue_def init_db_def get_conn_def reset_inflight_sql_def)
  then have "wal_ready q0" "pending (wq_db q0) = map (encode_item js) []"
    by (simp_all add: wal_ready_def settled_def db_inv_def pending_def)
  from wal_run_fifo [OF this, of ops] assms(2,3) show ?thesis by simp
qed

definition json_example :: json_codec where
  "json_example = \<lparr>js_dumps = (\<lambda>v. case v of VStr s \<Rightarrow> ok s | _ \<Rightarrow> ok ''{}''),
     js_dumps_default_str = (\<lambda>v. ok ''{}''), js_loads = (\<lambda>s. ok (VDict []))\<rparr>"

definition item_example :: "string \<Rightarrow> wal_item" where
  "item_example symbol = \<lparr>wi_scope = ''confirmed'', wi_symbol = symbol, wi_timeframe = ''M5'',
     wi_indicators = VDict [], wi_metadata = VDict []\<rparr>"

lemma json_ok_example: "json_ok json_example (item_example symbol)"
  by (simp add: json_ok_def json_example_def item_example_def)

theorem wal_queue_fifo_witness:
  "\<exists>q0 outs q'. WalSignalQueue \<lparr>wd_rows = [], wd_next_id = 1\<rparr> = ok q0 \<and>
    wal_run json_example [Put 1 (item_example ''A''), Put 2 (item_example ''B''), Get 3] q0 = (outs, q') \<and>
    list_all2 (\<lambda>out x. \<exists>t. out = delivered t x) outs
      (take (length outs) [item_example ''A'', item_example ''B''])"
proof -
  let ?ops = "[Put 1 (item_example ''A''), Put 2 (item_example ''B''), Get 3]"
  obtain q0 where q0: "WalSignalQueue \<lparr>wd_rows = [], wd_next_id = 1\<rparr> = ok q0"
    by (simp add: WalSignalQueue_def init_db_def get_conn_def)
  obtain outs q' where r: "wal_run json_example ?ops q0 = (outs, q')" by fastforce
  have "\<forall>x\<in>set (puts ?ops). json_ok json_example x" by (simp add: json_ok_example)
  from wal_queue_fifo [OF q0 this r] q0 r show ?thesis by auto
qed

text \<open>A crash inside a dequeue loses nothing and reorders nothing: if the process dies after
  the claim is committed and before the row is deleted, the queue opened on the file afterwards
  has exactly the table from before the claim.\<close>

theorem crash_inside_get_recovers:
  assumes "settled db" and "claim_sql db = (c, db1)"
  shows "\<exists>q. WalSignalQueue db1 = ok q \<and> wq_db q = db"
proof -
  have reset: "reset_inflight_sql db = db"
  proof -
    have "map (\<lambda>r. if wr_processed r then r\<lparr>wr_processed := False\<rparr> else r) (wd_rows db) = wd_rows db"
      using assms(1) by (intro map_idI) (auto simp: settled_def)
    then show ?thesis by (simp add: reset_inflight_sql_def)
  qed
  have "reset_inflight_sql db1 = db"
  proof (cases "wd_rows db")
    case Nil
    with claim_settled [OF assms(1)] assms(2) reset show ?thesis by auto
  next
    case (Cons r rs)
    then have db1: "db1 = db\<lparr>wd_rows := r\<lparr>wr_processed := True\<rparr> # rs\<rparr>"
      using claim_settled [OF assms(1)] assms(2) by auto
    have "\<not> wr_processed r" using assms(1) Cons by (simp add: settled_def)
    moreover from this have same: "r\<lparr>wr_processed := False\<rparr> = r" by (cases r) simp
    ultimately show ?thesis using Cons reset unfolding db1 by (simp add: reset_inflight_sql_def same)
  qed
  then show ?thesis by (simp add: WalSignalQueue_def init_db_def get_conn_def)
qed

theorem crash_inside_get_recovers_witness:
  "let db = insert_sql (encode_item json_example (item_example ''A'')) 1 \<lparr>wd_rows = [], wd_next_id = 1\<rparr>
   in settled db \<and> (\<exists>q. WalSignalQueue (snd (claim_sql db)) = ok q \<and> wq_db q = db)"
proof -
  have "settled \<lparr>wd_rows = [], wd_next_id = 1\<rparr>" by (simp add: settled_def db_inv_def)
  then have s: "settled (insert_sql (encode_item json_example (item_example ''A'')) 1 \<lparr>wd_rows = [], wd_next_id = 1\<rparr>)"
    by (rule settled_insert)
  show ?thesis using s crash_inside_get_recovers [OF s surjective_pairing] by (simp add: Let_def)
qed

text \<open>A delivered event does not survive a restart: once a get has returned, the row is
  deleted, so a process that dies while it works on the event finds an empty queue.\<close>

theorem delivered_event_not_recovered:
  "\<exists>q0 x q1 q2. WalSignalQueue \<lparr>wd_rows = [], wd_next_id = 1\<rparr> = ok q0 \<and>
    get_nowait json_example 2 (snd (put_nowait json_example 1 (item_example ''A'') q0)) = (ok x, q1) \<and>
    WalSignalQueue (wq_db q1) = ok q2 \<and> qsize q2 = ok 0"
  by (simp add: WalSignalQueue_def init_db_def get_conn_def put_nowait_def get_nowait_def json_example_def
      item_example_def insert_sql_def claim_sql_def complete_sql_def reset_inflight_sql_def decode_entry_def
      set_enqueued_at_def qsize_def count_sql_def entry_of_def)

end
