(* ===== verification/Notification_Limits.thy ===== *)
theory Notification_Limits
  imports Py_Base
begin

text \<open>
  The two in-memory brakes of outbound notifications: the TTL deduplication
  (\<^verbatim>\<open>src/src/notifications/dedup.py\<close>) and the two-level token bucket
  (\<^verbatim>\<open>src/src/notifications/rate_limit.py\<close>). The clock reading is an argument, as in the code's
  \<open>now\<close> parameter; the locks serialise the calls and are not modelled. An ordered dictionary
  is an association list in its order.
\<close>

section \<open>Deduper\<close>

record dedup_verdict =
  dv_allowed :: bool
  dv_suppressed_count :: int

record deduper =
  du_last_sent_at :: "(string \<times> rat) list"
  du_suppressed_count :: "(string \<times> int) list"
  du_max_entries :: int

definition Deduper :: "int \<Rightarrow> deduper res" where
  "Deduper max_entries =
    (if max_entries \<le> 0 then raise (ValueError ''max_entries must be > 0'')
     else ok \<lparr>du_last_sent_at = [], du_suppressed_count = [], du_max_entries = max_entries\<rparr>)"

text \<open>The eviction loop: while there are too many entries, the oldest goes, with its counter.\<close>

fun evict_oldest :: "int \<Rightarrow> (string \<times> rat) list \<Rightarrow> (string \<times> int) list \<Rightarrow>
    (string \<times> rat) list \<times> (string \<times> int) list" where
  "evict_oldest m [] counts = ([], counts)"
| "evict_oldest m (e # es) counts =
     (if m < int (length (e # es)) then evict_oldest m es (AList.delete (fst e) counts)
      else (e # es, counts))"

definition record_allowed :: "string \<Rightarrow> rat \<Rightarrow> deduper \<Rightarrow> deduper" where
  "record_allowed key current d =
    (let (entries, counts) = evict_oldest (du_max_entries d)
           (AList.delete key (du_last_sent_at d) @ [(key, current)])
           (AList.delete key (du_suppressed_count d))
     in d\<lparr>du_last_sent_at := entries, du_suppressed_count := counts\<rparr>)"

definition suppressed_of :: "deduper \<Rightarrow> string \<Rightarrow> int" where
  "suppressed_of d key = (case map_of (du_suppressed_count d) key of None \<Rightarrow> 0 | Some n \<Rightarrow> n)"

definition dedup_check :: "string \<Rightarrow> int \<Rightarrow> rat \<Rightarrow> deduper \<Rightarrow> (dedup_verdict \<times> deduper) res" where
  "dedup_check key ttl current d =
    (if key = [] then raise (ValueError ''dedup_key cannot be empty'')
     else if ttl \<le> 0
     then ok (\<lparr>dv_allowed = True, dv_suppressed_count = 0\<rparr>, record_allowed key current d)
     else if (case map_of (du_last_sent_at d) key of None \<Rightarrow> True | Some sent \<Rightarrow> of_int ttl \<le> fl (current - sent))
     then ok (\<lparr>dv_allowed = True, dv_suppressed_count = 0\<rparr>, record_allowed key current d)
     else let n = suppressed_of d key + 1
     in ok (\<lparr>dv_allowed = False, dv_suppressed_count = n\<rparr>,
            d\<lparr>du_suppressed_count := AList.update key n (du_suppressed_count d)\<rparr>))"

text \<open>The scan stops at the first entry that is not stale.\<close>

definition clear_expired :: "rat \<Rightarrow> int \<Rightarrow> deduper \<Rightarrow> int \<times> deduper" where
  "clear_expired current ttl d =
    (if ttl \<le> 0 then (0, d)
     else let stale = map fst (takeWhile (\<lambda>e. of_int ttl \<le> fl (current - snd e)) (du_last_sent_at d))
     in (int (length stale),
         d\<lparr>du_last_sent_at := fold AList.delete stale (du_last_sent_at d),
           du_suppressed_count := fold AList.delete stale (du_suppressed_count d)\<rparr>))"

definition dedup_size :: "deduper \<Rightarrow> int" where
  "dedup_size d = int (length (du_last_sent_at d))"

section \<open>Token buckets\<close>

record token_bucket =
  tb_capacity :: rat
  tb_refill_per_second :: rat
  tb_tokens :: rat
  tb_last_refill :: "rat option"

definition TokenBucket :: "int \<Rightarrow> rat \<Rightarrow> token_bucket" where
  "TokenBucket capacity refill =
    \<lparr>tb_capacity = fl (of_int capacity), tb_refill_per_second = refill, tb_tokens = fl (of_int capacity),
     tb_last_refill = None\<rparr>"

definition refill :: "rat \<Rightarrow> token_bucket \<Rightarrow> token_bucket" where
  "refill now b =
    (case tb_last_refill b of None \<Rightarrow> b\<lparr>tb_last_refill := Some now\<rparr>
     | Some previous \<Rightarrow>
       let elapsed = fl (now - previous)
       in if elapsed \<le> 0 then b
          else b\<lparr>tb_tokens := min (tb_capacity b) (fl (tb_tokens b + fl (elapsed * tb_refill_per_second b))),
                 tb_last_refill := Some now\<rparr>)"

definition try_acquire :: "rat \<Rightarrow> token_bucket \<Rightarrow> bool \<times> token_bucket" where
  "try_acquire now b0 =
    (let b = refill now b0
     in if 1 \<le> tb_tokens b then (True, b\<lparr>tb_tokens := fl (tb_tokens b - 1)\<rparr>) else (False, b))"

definition available :: "rat \<Rightarrow> token_bucket \<Rightarrow> rat \<times> token_bucket" where
  "available now b0 = (let b = refill now b0 in (tb_tokens b, b))"

record rate_limiter =
  rl_global :: token_bucket
  rl_per_chat_capacity :: int
  rl_per_chat_refill_per_second :: rat
  rl_chat_buckets :: "(string \<times> token_bucket) list"

definition RateLimiter :: "int \<Rightarrow> int \<Rightarrow> rate_limiter res" where
  "RateLimiter global_per_minute per_chat_per_minute =
    (if global_per_minute \<le> 0 \<or> per_chat_per_minute \<le> 0 then raise (ValueError ''rate limits must be > 0'')
     else ok \<lparr>rl_global = TokenBucket global_per_minute (fl (of_int global_per_minute / 60)),
       rl_per_chat_capacity = per_chat_per_minute,
       rl_per_chat_refill_per_second = fl (of_int per_chat_per_minute / 60), rl_chat_buckets = []\<rparr>)"

definition get_chat_bucket :: "string \<Rightarrow> rate_limiter \<Rightarrow> token_bucket \<times> rate_limiter" where
  "get_chat_bucket chat_id r =
    (case map_of (rl_chat_buckets r) chat_id of Some b \<Rightarrow> (b, r)
     | None \<Rightarrow> let b = TokenBucket (rl_per_chat_capacity r) (rl_per_chat_refill_per_second r)
              in (b, r\<lparr>rl_chat_buckets := AList.update chat_id b (rl_chat_buckets r)\<rparr>))"

definition set_chat_bucket :: "string \<Rightarrow> token_bucket \<Rightarrow> rate_limiter \<Rightarrow> rate_limiter" where
  "set_chat_bucket chat_id b r = r\<lparr>rl_chat_buckets := AList.update chat_id b (rl_chat_buckets r)\<rparr>"

record limit_verdict =
  lv_allowed :: bool
  lv_blocked_by :: "string option"

definition acquire :: "string \<Rightarrow> rat \<Rightarrow> rate_limiter \<Rightarrow> (limit_verdict \<times> rate_limiter) res" where
  "acquire chat_id current r0 =
    (if chat_id = [] then raise (ValueError ''chat_id cannot be empty'')
     else let (chat0, r1) = get_chat_bucket chat_id r0;
              (global_tokens, global1) = available current (rl_global r1);
              r2 = r1\<lparr>rl_global := global1\<rparr>
     in if global_tokens < 1 then ok (\<lparr>lv_allowed = False, lv_blocked_by = Some ''global''\<rparr>, r2)
        else let (chat_tokens, chat1) = available current chat0;
                 r3 = set_chat_bucket chat_id chat1 r2
     in if chat_tokens < 1 then ok (\<lparr>lv_allowed = False, lv_blocked_by = Some ''per_chat''\<rparr>, r3)
        else let (got_global, global2) = try_acquire current (rl_global r3)
     in if \<not> got_global then raise AssertionError
        else let (got_chat, chat2) = try_acquire current chat1
     in if \<not> got_chat then raise AssertionError
        else ok (\<lparr>lv_allowed = True, lv_blocked_by = None\<rparr>,
                 set_chat_bucket chat_id chat2 (r3\<lparr>rl_global := global2\<rparr>)))"

section \<open>Lemmas on the deduper\<close>

text \<open>The entries have distinct keys and are in the order of their times, none later than
  \<open>t\<close>; there are at most \<open>max_entries\<close>; only recorded keys are counted.\<close>

definition dedup_inv :: "rat \<Rightarrow> deduper \<Rightarrow> bool" where
  "dedup_inv t d \<longleftrightarrow> distinct (map fst (du_last_sent_at d)) \<and> sorted (map snd (du_last_sent_at d)) \<and>
    (\<forall>e\<in>set (du_last_sent_at d). snd e \<le> t) \<and> int (length (du_last_sent_at d)) \<le> du_max_entries d \<and>
    fst ` set (du_suppressed_count d) \<subseteq> fst ` set (du_last_sent_at d) \<and> 0 < du_max_entries d"

lemma evict_oldest_drop:
  "0 \<le> m \<Longrightarrow> evict_oldest m es counts =
    (drop (length es - nat m) es, fold AList.delete (map fst (take (length es - nat m) es)) counts)"
proof (induction m es counts rule: evict_oldest.induct)
  case (2 m e es counts)
  show ?case
  proof (cases "m < int (length (e # es))")
    case True
    then have "length (e # es) - nat m = Suc (length es - nat m)" using "2.prems" by simp
    with True "2" show ?thesis by simp
  next
    case False
    then have "length (e # es) - nat m = 0" by simp
    with False show ?thesis by simp
  qed
qed simp

lemma fold_delete_eq: "fold AList.delete ks xs = filter (\<lambda>e. fst e \<notin> set ks) xs"
  by (induction ks arbitrary: xs) (auto simp: AList.delete_eq filter_filter intro: filter_cong)

lemma sorted_filter_delete: "sorted (map snd xs) \<Longrightarrow> sorted (map snd (AList.delete k xs))"
  by (auto simp: AList.delete_eq intro: sorted_filter)

lemma dedup_inv_record:
  assumes "dedup_inv t d" and "t \<le> current"
  shows "dedup_inv current (record_allowed key current d)"
proof -
  let ?es = "AList.delete key (du_last_sent_at d) @ [(key, current)]"
  let ?n = "length ?es - nat (du_max_entries d)"
  have old: "distinct (map fst (du_last_sent_at d))" "sorted (map snd (du_last_sent_at d))"
    "\<forall>e\<in>set (du_last_sent_at d). snd e \<le> current"
    using assms by (auto simp: dedup_inv_def intro: order_trans)
  then have le: "\<forall>e\<in>set (AList.delete key (du_last_sent_at d)). snd e \<le> current"
    by (auto simp: AList.delete_eq)
  have es: "distinct (map fst ?es)"
    using distinct_delete [OF old(1)] by (auto simp: AList.delete_eq)
  have es2: "sorted (map snd ?es)" "\<forall>e\<in>set ?es. snd e \<le> current"
    using le sorted_filter_delete [OF old(2)] by (auto simp: sorted_append)
  have m: "0 < du_max_entries d" using assms by (simp add: dedup_inv_def)
  have cut: "set ?es = set (take ?n ?es) \<union> set (drop ?n ?es)"
    by (metis append_take_drop_id set_append)
  have "fst ` set (AList.delete key (du_suppressed_count d)) \<subseteq> fst ` set ?es"
    using assms(1) by (force simp: dedup_inv_def AList.delete_eq)
  then have "fst ` set (fold AList.delete (map fst (take ?n ?es)) (AList.delete key (du_suppressed_count d)))
      \<subseteq> fst ` set (drop ?n ?es)"
    unfolding fold_delete_eq cut by auto
  moreover have "sorted (map snd (drop ?n ?es))" "distinct (map fst (drop ?n ?es))"
    using es es2(1) by (simp_all add: drop_map [symmetric] sorted_wrt_drop del: map_append drop_append)
  moreover have "int (length (drop ?n ?es)) \<le> du_max_entries d" using m by simp
  moreover have "\<forall>e\<in>set (drop ?n ?es). snd e \<le> current" using es2(2) in_set_dropD by fast
  ultimately show ?thesis
    using m by (simp add: dedup_inv_def record_allowed_def evict_oldest_drop)
qed

lemma dedup_check_inv:
  assumes "dedup_inv t d" and "t \<le> current" and "dedup_check key ttl current d = ok (v, d')"
  shows "dedup_inv current d'"
proof (cases "ttl \<le> 0 \<or> (case map_of (du_last_sent_at d) key of None \<Rightarrow> True
    | Some sent \<Rightarrow> of_int ttl \<le> fl (current - sent))")
  case True
  then have "d' = record_allowed key current d" using assms(3) by (auto simp: dedup_check_def split: if_splits)
  with assms dedup_inv_record show ?thesis by simp
next
  case False
  then obtain sent where "map_of (du_last_sent_at d) key = Some sent" by (auto split: option.splits)
  then have "key \<in> fst ` set (du_last_sent_at d)" by (force dest: map_of_SomeD)
  moreover have "d' = d\<lparr>du_suppressed_count := AList.update key (suppressed_of d key + 1) (du_suppressed_count d)\<rparr>"
    using assms(3) False by (auto simp: dedup_check_def Let_def split: if_splits)
  ultimately show ?thesis using assms(1,2) by (force simp: dedup_inv_def dom_update)
qed

text \<open>With the entries in time order the scan finds exactly the stale ones.\<close>

lemma takeWhile_stale:
  assumes "sorted (map snd es)"
  shows "takeWhile (\<lambda>e. c \<le> fl (now - snd e)) es = filter (\<lambda>e. c \<le> fl (now - snd e)) es"
  using assms
proof (induction es)
  case (Cons e es)
  have "fl (now - snd e') \<le> fl (now - snd e)" if "e' \<in> set es" for e'
    using that Cons.prems by (auto intro: fl_mono)
  then have "\<not> c \<le> fl (now - snd e) \<Longrightarrow> filter (\<lambda>e. c \<le> fl (now - snd e)) es = []"
    by (fastforce simp: filter_empty_conv)
  with Cons show ?case by auto
qed simp

lemma clear_expired_eq:
  assumes "dedup_inv t d" and "0 < ttl"
  shows "clear_expired current ttl d =
    (int (length (filter (\<lambda>e. of_int ttl \<le> fl (current - snd e)) (du_last_sent_at d))),
     d\<lparr>du_last_sent_at := filter (\<lambda>e. fl (current - snd e) < of_int ttl) (du_last_sent_at d),
       du_suppressed_count := filter (\<lambda>e. fst e \<notin> fst ` set (filter
         (\<lambda>e. of_int ttl \<le> fl (current - snd e)) (du_last_sent_at d))) (du_suppressed_count d)\<rparr>)"
proof -
  have d: "distinct (map fst (du_last_sent_at d))" "sorted (map snd (du_last_sent_at d))"
    using assms(1) by (simp_all add: dedup_inv_def)
  have "filter (\<lambda>e. fst e \<notin> fst ` set (filter P xs)) xs = filter (\<lambda>e. \<not> P e) xs"
    if "distinct (map fst xs)" for P and xs :: "(string \<times> rat) list"
    using that by (intro filter_cong refl) (auto simp: image_iff dest: eq_key_imp_eq_value)
  from this [OF d(1)] show ?thesis using assms(2)
    by (simp add: clear_expired_def Let_def takeWhile_stale [OF d(2)] fold_delete_eq not_le)
qed

lemma dedup_inv_clear:
  assumes "dedup_inv t d" and "t \<le> current"
  shows "dedup_inv current (snd (clear_expired current ttl d))"
proof (cases "0 < ttl")
  case True
  let ?keep = "filter (\<lambda>e. fl (current - snd e) < of_int ttl) (du_last_sent_at d)"
  have "length ?keep \<le> length (du_last_sent_at d)" by (rule length_filter_le)
  moreover have "int (length (du_last_sent_at d)) \<le> du_max_entries d" using assms(1) by (simp add: dedup_inv_def)
  ultimately have len: "int (length ?keep) \<le> du_max_entries d" by linarith
  have "distinct (map fst ?keep)" "sorted (map snd ?keep)" "\<forall>e\<in>set ?keep. snd e \<le> current"
    using assms by (auto simp: dedup_inv_def distinct_map inj_on_def intro: sorted_filter)
  moreover have "fst e \<in> fst ` set ?keep"
    if "e \<in> set (du_suppressed_count d)"
      and "fst e \<notin> fst ` set (filter (\<lambda>e. of_int ttl \<le> fl (current - snd e)) (du_last_sent_at d))" for e
  proof -
    have "fst e \<in> fst ` set (du_last_sent_at d)" using that(1) assms(1) by (auto simp: dedup_inv_def)
    then obtain x where x: "x \<in> set (du_last_sent_at d)" "fst x = fst e" by auto
    with that(2) have "\<not> of_int ttl \<le> fl (current - snd x)" by (cases x) (auto simp: image_iff)
    with x have "x \<in> set ?keep" by simp
    with x(2) show ?thesis by (metis imageI)
  qed
  moreover have "0 < du_max_entries d" using assms(1) by (simp add: dedup_inv_def)
  ultimately show ?thesis using len
    unfolding clear_expired_eq [OF assms(1) True] dedup_inv_def by auto
next
  case False
  then show ?thesis using assms by (auto simp: clear_expired_def dedup_inv_def)
qed

text \<open>The tables that a deduper can be in at a time, under a clock that does not go back.\<close>

inductive dedup_reach :: "rat \<Rightarrow> deduper \<Rightarrow> bool" where
  new: "Deduper m = ok d \<Longrightarrow> dedup_reach t d"
| check: "dedup_reach t d \<Longrightarrow> t \<le> now \<Longrightarrow> dedup_check key ttl now d = ok (v, d') \<Longrightarrow> dedup_reach now d'"
| clear: "dedup_reach t d \<Longrightarrow> t \<le> now \<Longrightarrow> dedup_reach now (snd (clear_expired now ttl d))"

lemma dedup_reach_inv: "dedup_reach t d \<Longrightarrow> dedup_inv t d"
proof (induction rule: dedup_reach.induct)
  case (new m d t)
  then show ?case by (auto simp: Deduper_def dedup_inv_def split: if_splits)
qed (auto intro: dedup_check_inv dedup_inv_clear)

lemma lookup_kept_entry:
  assumes "distinct (map fst entries)"
  shows "map_of (filter keep entries) key = Option.bind (map_of entries key) (\<lambda>t. if keep (key, t) then Some t else None)"
  using assms
proof (induction entries)
  case (Cons entry rest)
  then have "fst entry = key \<Longrightarrow> map_of rest key = None" by (auto simp: map_of_eq_None_iff)
  with Cons show ?case by (cases entry) auto
qed simp

lemma lookup_other_key: "k \<notin> K \<Longrightarrow> map_of (filter (\<lambda>e. fst e \<notin> K) xs) k = map_of xs k"
  by (induction xs) auto

section \<open>Lemmas on the limiter\<close>

lemma refill_idem [simp]: "refill now (refill now b) = refill now b"
  by (auto simp: refill_def Let_def split: option.splits)

lemma available_eq [simp]: "available now b = (tb_tokens (refill now b), refill now b)"
  by (simp add: available_def Let_def)

lemma try_acquire_refilled:
  "1 \<le> tb_tokens (refill now b) \<Longrightarrow>
    try_acquire now (refill now b) = (True, (refill now b)\<lparr>tb_tokens := fl (tb_tokens (refill now b) - 1)\<rparr>)"
  by (simp add: try_acquire_def Let_def)

definition chat_bucket_of :: "rate_limiter \<Rightarrow> string \<Rightarrow> token_bucket" where
  "chat_bucket_of r chat_id = (case map_of (rl_chat_buckets r) chat_id of Some b \<Rightarrow> b
     | None \<Rightarrow> TokenBucket (rl_per_chat_capacity r) (rl_per_chat_refill_per_second r))"

lemma get_chat_bucket_eq:
  "fst (get_chat_bucket c r) = chat_bucket_of r c" "rl_global (snd (get_chat_bucket c r)) = rl_global r"
  "chat_bucket_of (snd (get_chat_bucket c r)) c' = chat_bucket_of r c'"
  "rl_per_chat_capacity (snd (get_chat_bucket c r)) = rl_per_chat_capacity r"
  by (auto simp: get_chat_bucket_def chat_bucket_of_def Let_def split: option.splits)

lemma set_chat_bucket_simps [simp]:
  "rl_global (set_chat_bucket c b r) = rl_global r"
  "chat_bucket_of (set_chat_bucket c b r) c' = (if c' = c then b else chat_bucket_of r c')"
  "chat_bucket_of (r\<lparr>rl_global := g\<rparr>) c' = chat_bucket_of r c'"
  "rl_per_chat_capacity (set_chat_bucket c b r) = rl_per_chat_capacity r"
  by (auto simp: set_chat_bucket_def chat_bucket_of_def split: option.splits)

text \<open>What one call does, bucket by bucket.\<close>

lemma acquire_eq:
  fixes now :: rat and r :: rate_limiter and chat_id :: string
  assumes "chat_id \<noteq> []"
  defines "g \<equiv> refill now (rl_global r)" and "c \<equiv> refill now (chat_bucket_of r chat_id)"
  obtains r' where "acquire chat_id now r = ok (\<lparr>lv_allowed = (1 \<le> tb_tokens g \<and> 1 \<le> tb_tokens c),
      lv_blocked_by = (if tb_tokens g < 1 then Some ''global'' else if tb_tokens c < 1 then Some ''per_chat'' else None)\<rparr>, r')"
    "rl_global r' = (if 1 \<le> tb_tokens g \<and> 1 \<le> tb_tokens c then g\<lparr>tb_tokens := fl (tb_tokens g - 1)\<rparr> else g)"
    "chat_bucket_of r' chat_id = (if tb_tokens g < 1 then chat_bucket_of r chat_id
       else if tb_tokens c < 1 then c else c\<lparr>tb_tokens := fl (tb_tokens c - 1)\<rparr>)"
    "\<And>other. other \<noteq> chat_id \<Longrightarrow> chat_bucket_of r' other = chat_bucket_of r other"
proof -
  obtain r1 where g1: "get_chat_bucket chat_id r = (chat_bucket_of r chat_id, r1)"
    using get_chat_bucket_eq(1) [of chat_id r] by (cases "get_chat_bucket chat_id r") auto
  have r1: "rl_global r1 = rl_global r" "\<And>x. chat_bucket_of r1 x = chat_bucket_of r x"
    using get_chat_bucket_eq(2,3) [of chat_id r] g1 by auto
  show ?thesis
  proof (cases "tb_tokens g < 1")
    case True
    have "acquire chat_id now r = ok (\<lparr>lv_allowed = False, lv_blocked_by = Some ''global''\<rparr>, r1\<lparr>rl_global := g\<rparr>)"
      using True assms(1) g1 r1 by (simp add: acquire_def g_def)
    with that True r1 show ?thesis by simp
  next
    case g: False
    show ?thesis
    proof (cases "tb_tokens c < 1")
      case True
      have "acquire chat_id now r = ok (\<lparr>lv_allowed = False, lv_blocked_by = Some ''per_chat''\<rparr>,
          set_chat_bucket chat_id c (r1\<lparr>rl_global := g\<rparr>))"
        using True g assms(1) g1 r1 by (simp add: acquire_def g_def c_def Let_def)
      with that True g r1 show ?thesis by simp
    next
      case False
      have "acquire chat_id now r = ok (\<lparr>lv_allowed = True, lv_blocked_by = None\<rparr>,
          set_chat_bucket chat_id (c\<lparr>tb_tokens := fl (tb_tokens c - 1)\<rparr>)
            ((set_chat_bucket chat_id c (r1\<lparr>rl_global := g\<rparr>))\<lparr>rl_global := g\<lparr>tb_tokens := fl (tb_tokens g - 1)\<rparr>\<rparr>))"
        using False g assms(1) g1 r1 by (simp add: acquire_def g_def c_def try_acquire_refilled Let_def)
      with that False g r1 show ?thesis by simp
    qed
  qed
qed

text \<open>A bucket that has not been refilled at another time gains nothing at \<open>now\<close>.\<close>

definition fresh_at :: "rat \<Rightarrow> token_bucket \<Rightarrow> bool" where
  "fresh_at now b \<longleftrightarrow> tb_last_refill b \<in> {None, Some now}"

lemma fresh_refill [simp]: "fresh_at now b \<Longrightarrow> tb_tokens (refill now b) = tb_tokens b"
  "fresh_at now b \<Longrightarrow> fresh_at now (refill now b)"
  "fresh_at now (b\<lparr>tb_tokens := x\<rparr>) = fresh_at now b"
  by (auto simp: fresh_at_def refill_def Let_def split: option.splits)

lemma spend_token: "t \<le> of_int m \<Longrightarrow> 1 \<le> t \<Longrightarrow> \<bar>m\<bar> \<le> 2 ^ 53 \<Longrightarrow> fl (t - 1) \<le> of_int (m - 1)"
proof -
  assume a: "t \<le> of_int m" "1 \<le> t" "\<bar>m\<bar> \<le> 2 ^ 53"
  then have "1 \<le> m" by (metis of_int_1_le_iff order_trans)
  then have "fl (of_int (m - 1)) = of_int (m - 1)" using a by (intro fl_of_int) linarith
  with fl_mono [of "t - 1" "of_int (m - 1)"] a show ?thesis by simp
qed

text \<open>A burst of calls at one instant; the verdicts in order.\<close>

fun acquire_burst :: "rat \<Rightarrow> string list \<Rightarrow> rate_limiter \<Rightarrow> (string \<times> bool) list res" where
  "acquire_burst now [] r = ok []"
| "acquire_burst now (c # cs) r =
     rbind (acquire c now r) (\<lambda>(v, r'). rbind (acquire_burst now cs r') (\<lambda>vs. ok ((c, lv_allowed v) # vs)))"

lemma burst_bound:
  assumes "fresh_at now (rl_global r)" "tb_tokens (rl_global r) \<le> of_int G" "\<bar>G\<bar> \<le> 2 ^ 53" "0 \<le> G"
    and "\<And>c. fresh_at now (chat_bucket_of r c)"
    and "tb_tokens (chat_bucket_of r chat) \<le> of_int P" "\<bar>P\<bar> \<le> 2 ^ 53" "0 \<le> P"
    and "\<forall>c\<in>set cs. c \<noteq> []"
  shows "\<exists>vs. acquire_burst now cs r = ok vs \<and> int (length (filter snd vs)) \<le> G \<and>
    int (length (filter (\<lambda>v. v = (chat, True)) vs)) \<le> P"
  using assms
proof (induction cs arbitrary: r G P)
  case (Cons c cs)
  let ?g = "tb_tokens (rl_global r)" and ?c = "tb_tokens (chat_bucket_of r c)"
  have "c \<noteq> []" using Cons.prems by simp
  then obtain v r' where a: "acquire c now r = ok (v, r')" "lv_allowed v = (1 \<le> ?g \<and> 1 \<le> ?c)"
    and g': "rl_global r' = (if 1 \<le> ?g \<and> 1 \<le> ?c then (refill now (rl_global r))\<lparr>tb_tokens := fl (?g - 1)\<rparr>
       else refill now (rl_global r))"
    and c': "chat_bucket_of r' c = (if ?g < 1 then chat_bucket_of r c else if ?c < 1 then refill now (chat_bucket_of r c)
       else (refill now (chat_bucket_of r c))\<lparr>tb_tokens := fl (?c - 1)\<rparr>)"
    and o': "\<And>other. other \<noteq> c \<Longrightarrow> chat_bucket_of r' other = chat_bucket_of r other"
    using Cons.prems(1,5) by (rule_tac acquire_eq [of c now r]) auto
  let ?G = "if lv_allowed v then G - 1 else G" and ?P = "if lv_allowed v \<and> c = chat then P - 1 else P"
  have "tb_tokens (rl_global r') \<le> of_int ?G"
    using Cons.prems(2,3) a(2) g' spend_token [of ?g G] Cons.prems(1) by auto
  moreover have "tb_tokens (chat_bucket_of r' chat) \<le> of_int ?P"
    using Cons.prems(5-7) a(2) c' o' spend_token [of ?c P] by (cases "chat = c") auto
  moreover have "0 \<le> ?G" "0 \<le> ?P"
    using Cons.prems(2,4,6,8) a(2) by (auto simp flip: of_int_1_le_iff intro: order_trans)
  moreover have "fresh_at now (rl_global r')" "fresh_at now (chat_bucket_of r' x)" for x
    using Cons.prems(1,5) g' c' o' by (simp_all, cases "x = c") simp_all
  ultimately have "\<exists>vs. acquire_burst now cs r' = ok vs \<and> int (length (filter snd vs)) \<le> ?G \<and>
      int (length (filter (\<lambda>v. v = (chat, True)) vs)) \<le> ?P"
    using Cons.prems(3,4,7,8,9) by (intro Cons.IH) auto
  with a(1) show ?case by auto
qed simp

lemma clear_keeps_verdict:
  assumes inv: "dedup_inv t d" and ttl: "0 < ttl" "ttl' \<le> ttl" and "now \<le> later" and key: "key \<noteq> []"
  shows "\<exists>v d1 d2. dedup_check key ttl' later d = ok (v, d1) \<and>
    dedup_check key ttl' later (snd (clear_expired now ttl d)) = ok (v, d2)"
proof -
  let ?old = "\<lambda>e :: string \<times> rat. of_int ttl \<le> fl (now - snd e)"
  note c = clear_expired_eq [OF inv ttl(1), of now]
  have dist: "distinct (map fst (du_last_sent_at d))" using inv by (simp add: dedup_inv_def)
  show ?thesis
  proof (cases "map_of (du_last_sent_at d) key")
    case None
    then show ?thesis using key dist by (simp add: dedup_check_def c lookup_kept_entry)
  next
    case (Some sent)
    have age: "fl (now - sent) \<le> fl (later - sent)" using assms(4) by (intro fl_mono) simp
    have le: "(of_int ttl' :: rat) \<le> of_int ttl" using ttl(2) by simp
    show ?thesis
    proof (cases "of_int ttl \<le> fl (now - sent)")
      case True
      with age le have "of_int ttl' \<le> fl (later - sent)" by linarith
      with True Some key dist show ?thesis by (simp add: dedup_check_def c lookup_kept_entry)
    next
      case False
      have "key \<notin> fst ` set (filter ?old (du_last_sent_at d))"
        using False Some map_of_is_SomeI [OF dist] by auto
      then have "map_of (filter (\<lambda>e. fst e \<notin> fst ` set (filter ?old (du_last_sent_at d))) (du_suppressed_count d)) key =
          map_of (du_suppressed_count d) key" by (rule lookup_other_key)
      with False Some key dist show ?thesis
        by (simp add: dedup_check_def c lookup_kept_entry suppressed_of_def Let_def)
    qed
  qed
qed

lemma clear_counts_removed:
  assumes "dedup_inv t d" "0 < ttl"
  shows "fst (clear_expired now ttl d) = dedup_size d - dedup_size (snd (clear_expired now ttl d))"
  using sum_length_filter_compl [of "\<lambda>e. of_int ttl \<le> fl (now - snd e)" "du_last_sent_at d"]
  by (simp add: clear_expired_eq [OF assms, of now] dedup_size_def not_le)

section \<open>Properties\<close>

text \<open>Cleaning the deduplication table never changes a verdict: in every table that checks
  and cleanings at non-decreasing times can build, for every key, every later time and every
  TTL up to the one that was cleaned with, the check answers the same with and without the
  cleaning; the cleaning reports the number of entries it removed; and the table never
  outgrows its cap.\<close>

theorem clear_expired_transparent:
  assumes "dedup_reach t d" and "t \<le> now" and "now \<le> later" and "ttl' \<le> ttl" and "key \<noteq> []"
  shows "dedup_size d \<le> du_max_entries d \<and> (\<exists>v d1 d2. dedup_check key ttl' later d = ok (v, d1) \<and>
      dedup_check key ttl' later (snd (clear_expired now ttl d)) = ok (v, d2)) \<and>
    fst (clear_expired now ttl d) = dedup_size d - dedup_size (snd (clear_expired now ttl d))"
proof -
  note inv = dedup_reach_inv [OF assms(1)]
  have "dedup_size d \<le> du_max_entries d" using inv by (simp add: dedup_inv_def dedup_size_def)
  then show ?thesis
  proof (cases "0 < ttl")
    case True
    then show ?thesis
      using \<open>dedup_size d \<le> du_max_entries d\<close> clear_keeps_verdict [OF inv True assms(4,3,5)] clear_counts_removed [OF inv True]
      by blast
  next
    case False
    then show ?thesis using \<open>dedup_size d \<le> du_max_entries d\<close> assms(5)
      by (auto simp: clear_expired_def dedup_check_def Let_def)
  qed
qed

theorem clear_expired_transparent_witness:
  "\<exists>d. dedup_reach 10 d \<and> dedup_size d = 1 \<and> fst (clear_expired 100 60 d) = 1 \<and>
     (\<exists>v d1 d2. dedup_check ''k'' 30 100 d = ok (v, d1) \<and>
       dedup_check ''k'' 30 100 (snd (clear_expired 100 60 d)) = ok (v, d2))"
proof -
  let ?e = "\<lparr>du_last_sent_at = [], du_suppressed_count = [], du_max_entries = 4\<rparr> :: deduper"
  let ?d = "\<lparr>du_last_sent_at = [(''k'', 10)], du_suppressed_count = [], du_max_entries = 4\<rparr> :: deduper"
  have e: "dedup_reach 0 ?e" by (rule dedup_reach.new [of 4]) (simp add: Deduper_def)
  have "dedup_check ''k'' 30 10 ?e = ok (\<lparr>dv_allowed = True, dv_suppressed_count = 0\<rparr>, ?d)"
    by (simp add: dedup_check_def record_allowed_def)
  then have i: "dedup_reach 10 ?d" by (rule dedup_reach.check [OF e, rotated]) simp
  have "fst (clear_expired 100 60 ?d) = 1" by (simp add: clear_expired_def)
  with i clear_expired_transparent [OF i, of 100 100 30 60 "''k''"] show ?thesis
    by (intro exI [of _ ?d]) (simp add: dedup_size_def)
qed

text \<open>A burst cannot exceed the rate limits: on a new limiter, any number of acquisitions at
  one instant for any chats is served without raising (the two assertions never fail), at most
  \<open>global_per_minute\<close> of them are allowed, and at most \<open>per_chat_per_minute\<close> for each chat.\<close>

theorem burst_within_limits:
  assumes "RateLimiter G P = ok r" and "G \<le> 2 ^ 53" and "P \<le> 2 ^ 53" and "\<forall>c\<in>set chats. c \<noteq> []"
  shows "\<exists>vs. acquire_burst now chats r = ok vs \<and> length vs = length chats \<and>
    int (length (filter snd vs)) \<le> G \<and> int (length (filter (\<lambda>v. v = (chat, True)) vs)) \<le> P"
proof -
  have r: "0 < G" "0 < P" "r = \<lparr>rl_global = TokenBucket G (fl (of_int G / 60)), rl_per_chat_capacity = P,
      rl_per_chat_refill_per_second = fl (of_int P / 60), rl_chat_buckets = []\<rparr>"
    using assms(1) by (auto simp: RateLimiter_def split: if_splits)
  have len: "acquire_burst now cs s = ok vs \<Longrightarrow> length vs = length cs" for cs s vs
    by (induction cs arbitrary: s vs) (auto simp: res_simps)
  have "\<exists>vs. acquire_burst now chats r = ok vs \<and> int (length (filter snd vs)) \<le> G \<and>
      int (length (filter (\<lambda>v. v = (chat, True)) vs)) \<le> P"
    using assms r by (intro burst_bound)
      (auto simp: TokenBucket_def fresh_at_def chat_bucket_of_def fl_of_int)
  with len show ?thesis by blast
qed

theorem burst_within_limits_witness:
  "\<exists>r vs. RateLimiter 2 1 = ok r \<and> acquire_burst 5 [''a'', ''a'', ''b'', ''c''] r = ok vs \<and>
     int (length (filter snd vs)) \<le> 2"
proof -
  obtain r where r: "RateLimiter 2 1 = ok r" by (simp add: RateLimiter_def)
  have "\<forall>c\<in>set [''a'', ''a'', ''b'', ''c'']. c \<noteq> []" "(2::int) \<le> 2 ^ 53" "(1::int) \<le> 2 ^ 53" by simp_all
  with burst_within_limits [OF r this(2,3,1)] r show ?thesis by blast
qed

end
