(* ===== verification/Position_Exit.thy ===== *)
theory Position_Exit
  imports Py_Repr
begin

text \<open>
  The exit rules of open positions (\<^verbatim>\<open>src/src/trading/positions/exit_rules.py\<close>): pure functions
  that live trading and backtests share. The rules are the initial stop, the hard take profit,
  the Chandelier trail with breakeven and profit lock, the signal reversal, the timeout and the
  end-of-day and weekend closes, and the fixed barrier mode. A decimal literal of the source
  is the float nearest to it. \<open>pf\<close> is the parser of \<open>float(text)\<close>.
\<close>

section \<open>Profiles\<close>

record exit_profile =
  xp_chandelier_atr_multiplier :: rat
  xp_lock_ratio :: rat
  xp_breakeven_r :: rat

definition default_profile :: exit_profile where
  "default_profile = \<lparr>xp_chandelier_atr_multiplier = fl (5/2), xp_lock_ratio = fl (1/2), xp_breakeven_r = 1\<rparr>"

definition profile_from_aggression :: "rat \<Rightarrow> exit_profile" where
  "profile_from_aggression alpha0 =
    (let alpha = max 0 (min 1 alpha0)
     in \<lparr>xp_chandelier_atr_multiplier = pyround (fl (fl (3/2) + fl (2 * alpha))) 4,
         xp_lock_ratio = pyround (fl (fl (9/10) - fl (fl (1/2) * alpha))) 4,
         xp_breakeven_r = pyround (fl (fl (6/10) + fl (fl (6/10) * alpha))) 4\<rparr>)"

definition default_aggression_map :: "((string \<times> string) \<times> rat) list" where
  "default_aggression_map =
    [((''trend'', ''trending''), fl (85/100)), ((''trend'', ''ranging''), fl (15/100)),
     ((''trend'', ''breakout''), fl (65/100)), ((''trend'', ''uncertain''), fl (50/100)),
     ((''reversion'', ''trending''), fl (10/100)), ((''reversion'', ''ranging''), fl (80/100)),
     ((''reversion'', ''breakout''), fl (10/100)), ((''reversion'', ''uncertain''), fl (45/100)),
     ((''breakout'', ''trending''), fl (85/100)), ((''breakout'', ''ranging''), fl (10/100)),
     ((''breakout'', ''breakout''), fl (85/100)), ((''breakout'', ''uncertain''), fl (50/100)),
     ((''session'', ''trending''), fl (80/100)), ((''session'', ''ranging''), fl (20/100)),
     ((''session'', ''breakout''), fl (80/100)), ((''session'', ''uncertain''), fl (50/100)),
     ((''multi_tf'', ''trending''), fl (85/100)), ((''multi_tf'', ''ranging''), fl (15/100)),
     ((''multi_tf'', ''breakout''), fl (65/100)), ((''multi_tf'', ''uncertain''), fl (50/100)),
     ((''price_action'', ''trending''), fl (15/100)), ((''price_action'', ''ranging''), fl (70/100)),
     ((''price_action'', ''breakout''), fl (15/100)), ((''price_action'', ''uncertain''), fl (45/100))]"

definition default_aggression :: rat where
  "default_aggression = fl (50/100)"

definition resolve_aggression ::
  "string \<Rightarrow> string \<Rightarrow> ((string \<times> string) \<times> rat) list \<Rightarrow> rat" where
  "resolve_aggression strategy_category current_regime overrides =
    (let key = (lower strategy_category, lower current_regime);
         source = (if overrides \<noteq> [] then overrides else default_aggression_map)
     in case map_of source key of Some alpha \<Rightarrow> alpha
        | None \<Rightarrow> (case map_of default_aggression_map key of Some alpha \<Rightarrow> alpha | None \<Rightarrow> default_aggression))"

definition resolve_exit_profile ::
  "string \<Rightarrow> string \<Rightarrow> ((string \<times> string) \<times> rat) list \<Rightarrow> exit_profile" where
  "resolve_exit_profile strategy_category current_regime overrides =
    profile_from_aggression (resolve_aggression strategy_category current_regime overrides)"

definition default_tf_trail_scale :: "(string \<times> rat) list" where
  "default_tf_trail_scale = [(''M5'', fl (120/100)), (''M15'', fl (110/100)), (''M30'', 1), (''H1'', 1),
     (''H4'', fl (95/100)), (''D1'', fl (90/100))]"

definition resolve_tf_trail_scale :: "string \<Rightarrow> (string \<times> rat) list \<Rightarrow> rat" where
  "resolve_tf_trail_scale timeframe overrides =
    (let tf = upper (strip timeframe)
     in case map_of overrides tf of Some x \<Rightarrow> x
        | None \<Rightarrow> (case map_of default_tf_trail_scale tf of Some x \<Rightarrow> x | None \<Rightarrow> 1))"

record chandelier_config =
  cc_breakeven_enabled :: bool
  cc_breakeven_buffer_r :: rat
  cc_min_breakeven_buffer :: rat
  cc_signal_exit_enabled :: bool
  cc_signal_exit_confirmation_bars :: int
  cc_timeout_bars :: int
  cc_max_tp_r :: rat
  cc_regime_aware :: bool
  cc_default_profile :: exit_profile
  cc_aggression_overrides :: "((string \<times> string) \<times> rat) list"
  cc_tf_trail_scale :: "(string \<times> rat) list"
  cc_enforce_r_floor :: bool

definition default_chandelier_config :: chandelier_config where
  "default_chandelier_config = \<lparr>cc_breakeven_enabled = True, cc_breakeven_buffer_r = fl (1/10),
     cc_min_breakeven_buffer = 1, cc_signal_exit_enabled = True, cc_signal_exit_confirmation_bars = 2,
     cc_timeout_bars = 0, cc_max_tp_r = 5, cc_regime_aware = True, cc_default_profile = default_profile,
     cc_aggression_overrides = [], cc_tf_trail_scale = [], cc_enforce_r_floor = True\<rparr>"

section \<open>The rules\<close>

record exit_result =
  xr_should_close :: bool
  xr_close_reason :: string
  xr_new_stop_loss :: "rat option"
  xr_r_multiple :: rat
  xr_breakeven_activated :: bool

definition check_initial_sl :: "string \<Rightarrow> rat \<Rightarrow> rat \<Rightarrow> rat \<Rightarrow> rat \<Rightarrow> exit_result option" where
  "check_initial_sl action bar_high bar_low current_stop_loss r_multiple =
    (let hit = Some \<lparr>xr_should_close = True, xr_close_reason = ''stop_loss'', xr_new_stop_loss = None,
           xr_r_multiple = r_multiple, xr_breakeven_activated = False\<rparr>
     in if action = ''buy'' \<and> bar_low \<le> current_stop_loss then hit
        else if action = ''sell'' \<and> current_stop_loss \<le> bar_high then hit else None)"

definition check_hard_tp :: "string \<Rightarrow> rat \<Rightarrow> rat \<Rightarrow> rat \<Rightarrow> rat \<Rightarrow> rat \<Rightarrow> exit_result option" where
  "check_hard_tp action entry_price bar_high bar_low initial_risk max_tp_r =
    (if initial_risk \<le> 0 \<or> max_tp_r \<le> 0 then None
     else let tp_distance = fl (max_tp_r * initial_risk);
              hit = Some \<lparr>xr_should_close = True, xr_close_reason = ''take_profit'', xr_new_stop_loss = None,
                xr_r_multiple = max_tp_r, xr_breakeven_activated = True\<rparr>
     in if action = ''buy''
        then (if fl (entry_price + tp_distance) \<le> bar_high then hit else None)
        else (if bar_low \<le> fl (entry_price - tp_distance) then hit else None))"

definition compute_chandelier_sl :: "string \<Rightarrow> rat \<Rightarrow> rat \<Rightarrow> rat \<Rightarrow> rat option" where
  "compute_chandelier_sl action peak_price current_atr chandelier_multiplier =
    (if current_atr \<le> 0 \<or> chandelier_multiplier \<le> 0 then None
     else let trail_distance = fl (current_atr * chandelier_multiplier)
     in if action = ''buy'' then Some (fl (peak_price - trail_distance))
        else Some (fl (peak_price + trail_distance)))"

text \<open>The profit in units of the initial risk, for either direction.\<close>

definition profit_r :: "string \<Rightarrow> rat \<Rightarrow> rat \<Rightarrow> rat \<Rightarrow> rat" where
  "profit_r action entry_price price initial_risk =
    (if action = ''buy'' then fl (fl (price - entry_price) / initial_risk)
     else fl (fl (entry_price - price) / initial_risk))"

definition compute_breakeven_sl ::
  "string \<Rightarrow> rat \<Rightarrow> rat \<Rightarrow> rat \<Rightarrow> rat \<Rightarrow> rat \<Rightarrow> rat \<Rightarrow> bool \<Rightarrow> rat \<Rightarrow> rat option \<times> bool" where
  "compute_breakeven_sl action entry_price peak_price initial_risk breakeven_r breakeven_buffer_r
     min_buffer already_activated lock_ratio =
    (if initial_risk \<le> 0 then (None, already_activated)
     else let peak_profit_r = profit_r action entry_price peak_price initial_risk;
              activated = (already_activated \<or> breakeven_r \<le> peak_profit_r)
     in if \<not> activated then (None, False)
        else let buffer = max (fl (breakeven_buffer_r * initial_risk)) min_buffer;
                 lock_amount = (if 0 < lock_ratio \<and> breakeven_r < peak_profit_r
                   then max (fl (fl (peak_profit_r * lock_ratio) * initial_risk)) buffer else buffer)
     in if action = ''buy'' then (Some (fl (entry_price + lock_amount)), True)
        else (Some (fl (entry_price - lock_amount)), True))"

definition opt_list :: "'a option \<Rightarrow> 'a list" where
  "opt_list x = (case x of None \<Rightarrow> [] | Some v \<Rightarrow> [v])"

definition merge_trailing_sl :: "string \<Rightarrow> rat \<Rightarrow> rat option \<Rightarrow> rat option \<Rightarrow> rat option" where
  "merge_trailing_sl action current_stop_loss chandelier_sl breakeven_sl =
    (let others = opt_list chandelier_sl @ opt_list breakeven_sl
     in if action = ''buy''
        then let best = fold max others current_stop_loss
             in if current_stop_loss < best then Some (pyround best 2) else None
        else let best = fold min others current_stop_loss
             in if best < current_stop_loss then Some (pyround best 2) else None)"

text \<open>\<open>xs[-n:]\<close>: the whole list for 0, and a start from the left for a negative \<open>n\<close>.\<close>

definition slice_last :: "int \<Rightarrow> 'a list \<Rightarrow> 'a list" where
  "slice_last n xs = (if 0 < n then drop (length xs - nat n) xs else drop (nat (- n)) xs)"

definition check_signal_reversal :: "string \<Rightarrow> string list \<Rightarrow> int \<Rightarrow> bool" where
  "check_signal_reversal action recent_signal_dirs confirmation_bars =
    (if recent_signal_dirs = [] \<or> int (length recent_signal_dirs) < confirmation_bars then False
     else let opposite = (if action = ''buy'' then ''sell'' else ''buy'')
     in list_all (\<lambda>d. d = opposite) (slice_last confirmation_bars recent_signal_dirs))"

definition check_timeout :: "string \<Rightarrow> rat \<Rightarrow> rat \<Rightarrow> rat \<Rightarrow> int \<Rightarrow> int \<Rightarrow> rat \<Rightarrow> bool" where
  "check_timeout action entry_price bar_price initial_risk bars_held timeout_bars breakeven_r =
    (if timeout_bars \<le> 0 \<or> bars_held < timeout_bars then False
     else if initial_risk \<le> 0 then False
     else profit_r action entry_price bar_price initial_risk < breakeven_r)"

section \<open>evaluate_barrier_exit\<close>

definition evaluate_barrier_exit ::
  "string \<Rightarrow> rat \<Rightarrow> rat \<Rightarrow> rat \<Rightarrow> rat \<Rightarrow> rat \<Rightarrow> rat \<Rightarrow> rat \<Rightarrow> int \<Rightarrow> int \<Rightarrow> rat \<Rightarrow> exit_result" where
  "evaluate_barrier_exit action entry_price bar_high bar_low bar_close atr_at_entry sl_atr tp_atr
     time_bars bars_held initial_risk =
    (if atr_at_entry \<le> 0 \<or> sl_atr \<le> 0 \<or> tp_atr \<le> 0 \<or> time_bars < 1
     then \<lparr>xr_should_close = False, xr_close_reason = [], xr_new_stop_loss = None, xr_r_multiple = 0,
           xr_breakeven_activated = False\<rparr>
     else let r_multiple = (if 0 < initial_risk then profit_r action entry_price bar_close initial_risk else 0);
              tp_price = (if action = ''buy'' then fl (entry_price + fl (tp_atr * atr_at_entry))
                          else fl (entry_price - fl (tp_atr * atr_at_entry)));
              sl_price = (if action = ''buy'' then fl (entry_price - fl (sl_atr * atr_at_entry))
                          else fl (entry_price + fl (sl_atr * atr_at_entry)));
              hit_sl = (if action = ''buy'' then bar_low \<le> sl_price else sl_price \<le> bar_high);
              hit_tp = (if action = ''buy'' then tp_price \<le> bar_high else bar_low \<le> tp_price);
              result = (\<lambda>close reason sl. \<lparr>xr_should_close = close, xr_close_reason = reason,
                xr_new_stop_loss = sl, xr_r_multiple = pyround r_multiple 4, xr_breakeven_activated = False\<rparr>)
     in if hit_sl then result True ''stop_loss'' (Some sl_price)
        else if hit_tp then result True ''take_profit'' (Some tp_price)
        else if time_bars \<le> bars_held then result True ''timeout'' None
        else result False [] None)"

section \<open>evaluate_exit\<close>

text \<open>The arguments of \<open>evaluate_exit\<close>, in the order of the signature.\<close>

record exit_args =
  xa_action :: string
  xa_entry_price :: rat
  xa_bar_high :: rat
  xa_bar_low :: rat
  xa_bar_close :: rat
  xa_current_stop_loss :: rat
  xa_initial_risk :: rat
  xa_peak_price :: rat
  xa_current_atr :: rat
  xa_bars_held :: int
  xa_breakeven_already_activated :: bool
  xa_recent_signal_dirs :: "string list"
  xa_strategy_category :: string
  xa_current_regime :: string
  xa_timeframe :: string
  xa_initial_sl_atr_mult :: rat
  xa_atr_at_entry :: rat
  xa_config :: "chandelier_config option"
  xa_exit_spec :: pydict
  xa_peak_price_at_bar_open :: "rat option"

text \<open>A value that is compared with floats; others raise.\<close>

fun number_of :: "pyval \<Rightarrow> rat res" where
  "number_of (VFloat x) = ok x"
| "number_of (VInt n) = ok (of_int n)"
| "number_of (VBool b) = ok (if b then 1 else 0)"
| "number_of v = raise (TypeError ''unorderable types'')"

definition select_profile :: "exit_args \<Rightarrow> chandelier_config \<Rightarrow> exit_profile res" where
  "select_profile a config =
    (case map_of (xa_exit_spec a) ''aggression'' of
       Some v \<Rightarrow> rbind (number_of v) (\<lambda>alpha. ok (profile_from_aggression alpha))
     | None \<Rightarrow> ok (if cc_regime_aware config \<and> xa_strategy_category a \<noteq> [] \<and> xa_current_regime a \<noteq> []
         then resolve_exit_profile (xa_strategy_category a) (xa_current_regime a) (cc_aggression_overrides config)
         else cc_default_profile config))"

definition effective_multiplier :: "exit_args \<Rightarrow> chandelier_config \<Rightarrow> exit_profile \<Rightarrow> rat" where
  "effective_multiplier a config profile =
    (let m = fl (xp_chandelier_atr_multiplier profile *
                 resolve_tf_trail_scale (xa_timeframe a) (cc_tf_trail_scale config))
     in if cc_enforce_r_floor config \<and> 0 < xa_initial_sl_atr_mult a then max m (xa_initial_sl_atr_mult a) else m)"

text \<open>The stop that a given peak implies, when it is tighter than the current one, and whether
  breakeven is active: rules 2, 2b and their merge.\<close>

definition trailing_stop ::
  "exit_args \<Rightarrow> chandelier_config \<Rightarrow> exit_profile \<Rightarrow> rat \<Rightarrow> rat option \<times> bool" where
  "trailing_stop a config profile peak =
    (let chandelier_sl = compute_chandelier_sl (xa_action a) peak (xa_current_atr a)
           (effective_multiplier a config profile);
         (breakeven_sl, activated) = compute_breakeven_sl (xa_action a) (xa_entry_price a) peak (xa_initial_risk a)
           (xp_breakeven_r profile) (cc_breakeven_buffer_r config) (cc_min_breakeven_buffer config)
           (xa_breakeven_already_activated a) (xp_lock_ratio profile)
     in (merge_trailing_sl (xa_action a) (xa_current_stop_loss a) chandelier_sl breakeven_sl, activated))"

text \<open>What follows once neither the initial stop nor the hard target is hit.\<close>

definition trail_exit :: "exit_args \<Rightarrow> chandelier_config \<Rightarrow> exit_profile \<Rightarrow> rat \<Rightarrow> exit_result" where
  "trail_exit a config profile r_multiple =
    (let result = (\<lambda>close reason sl be. \<lparr>xr_should_close = close, xr_close_reason = reason,
           xr_new_stop_loss = sl, xr_r_multiple = pyround r_multiple 4, xr_breakeven_activated = be\<rparr>);
         exit_check_peak = (case xa_peak_price_at_bar_open a of Some p \<Rightarrow> p | None \<Rightarrow> xa_peak_price a);
         (sl_for_check, be_for_check) = trailing_stop a config profile exit_check_peak;
         check_sl = (case sl_for_check of Some s \<Rightarrow> s | None \<Rightarrow> xa_current_stop_loss a)
     in if xa_action a = ''buy'' \<and> xa_bar_low a \<le> check_sl
        then result True ''trailing_stop'' sl_for_check be_for_check
        else if xa_action a = ''sell'' \<and> check_sl \<le> xa_bar_high a
        then result True ''trailing_stop'' sl_for_check be_for_check
        else let (new_sl, be_activated) = trailing_stop a config profile (xa_peak_price a)
     in if cc_signal_exit_enabled config \<and> xa_recent_signal_dirs a \<noteq> [] \<and> 0 \<le> r_multiple \<and>
           check_signal_reversal (xa_action a) (xa_recent_signal_dirs a) (cc_signal_exit_confirmation_bars config)
        then result True ''signal_exit'' new_sl be_activated
        else if 0 < cc_timeout_bars config \<and>
                check_timeout (xa_action a) (xa_entry_price a) (xa_bar_close a) (xa_initial_risk a)
                  (xa_bars_held a) (cc_timeout_bars config) (xp_breakeven_r profile)
        then result True ''timeout'' new_sl be_activated
        else result False [] new_sl be_activated)"

definition bar_r_multiple :: "exit_args \<Rightarrow> rat" where
  "bar_r_multiple a = (if 0 < xa_initial_risk a
     then profit_r (xa_action a) (xa_entry_price a) (xa_bar_close a) (xa_initial_risk a) else 0)"

definition chandelier_exit :: "exit_args \<Rightarrow> chandelier_config \<Rightarrow> exit_profile \<Rightarrow> exit_result" where
  "chandelier_exit a config profile =
    (case check_initial_sl (xa_action a) (xa_bar_high a) (xa_bar_low a) (xa_current_stop_loss a) (bar_r_multiple a) of
       Some r \<Rightarrow> r
     | None \<Rightarrow>
    (case check_hard_tp (xa_action a) (xa_entry_price a) (xa_bar_high a) (xa_bar_low a) (xa_initial_risk a)
            (cc_max_tp_r config) of
       Some r \<Rightarrow> r
     | None \<Rightarrow> trail_exit a config profile (bar_r_multiple a)))"

definition evaluate_position_exit :: "(string \<Rightarrow> rat option) \<Rightarrow> exit_args \<Rightarrow> exit_result res" where
  "evaluate_position_exit pf a =
    (let config = (case xa_config a of Some c \<Rightarrow> c | None \<Rightarrow> default_chandelier_config);
         spec = xa_exit_spec a
     in if lower (str_or_empty (dget spec ''mode'')) = ''barrier''
        then rbind (py_float_of pf (py_or (dget spec ''sl_atr'') (VFloat 0))) (\<lambda>sl_atr.
             rbind (py_float_of pf (py_or (dget spec ''tp_atr'') (VFloat 0))) (\<lambda>tp_atr.
             rbind (py_int_of (py_or (dget spec ''time_bars'') (VInt 0))) (\<lambda>time_bars.
             ok (evaluate_barrier_exit (xa_action a) (xa_entry_price a) (xa_bar_high a) (xa_bar_low a)
               (xa_bar_close a) (if 0 < xa_atr_at_entry a then xa_atr_at_entry a else xa_current_atr a)
               sl_atr tp_atr time_bars (xa_bars_held a) (xa_initial_risk a)))))
        else rbind (select_profile a config) (\<lambda>profile. ok (chandelier_exit a config profile)))"

section \<open>Closes by the clock\<close>

record weekend_policy =
  wp_enabled :: bool
  wp_weekday :: int
  wp_hour_utc :: int
  wp_minute_utc :: int

definition WeekendFlatPolicy :: "weekend_policy \<Rightarrow> weekend_policy res" where
  "WeekendFlatPolicy p =
    (if \<not> (0 \<le> wp_weekday p \<and> wp_weekday p \<le> 6)
     then raise (ValueError (''weekday must be 0-6, got '' @ int_str (wp_weekday p)))
     else if \<not> (0 \<le> wp_hour_utc p \<and> wp_hour_utc p < 24)
     then raise (ValueError (''hour_utc must be 0-23, got '' @ int_str (wp_hour_utc p)))
     else if \<not> (0 \<le> wp_minute_utc p \<and> wp_minute_utc p < 60)
     then raise (ValueError (''minute_utc must be 0-59, got '' @ int_str (wp_minute_utc p)))
     else ok p)"

text \<open>\<open>weekday()\<close>: day 0 of the epoch was a Thursday.\<close>

definition weekday :: "datetime \<Rightarrow> int" where
  "weekday t = (wall t div 86400000000 + 3) mod 7"

text \<open>\<open>t.replace(hour=h, minute=m, second=0, microsecond=0)\<close>.\<close>

definition at_time :: "datetime \<Rightarrow> int \<Rightarrow> int \<Rightarrow> datetime res" where
  "at_time t h m =
    (if \<not> (0 \<le> h \<and> h < 24) then raise (ValueError ''hour must be in 0..23'')
     else if \<not> (0 \<le> m \<and> m < 60) then raise (ValueError ''minute must be in 0..59'')
     else ok (Datetime (wall t div 86400000000 * 86400000000 + (h * 60 + m) * 60000000) (utcoffset t)))"

text \<open>\<open>t.date().isoformat()\<close>.\<close>

definition day_key :: "datetime \<Rightarrow> string" where
  "day_key t = (let (y, m, d) = civil_of_days (wall t div 86400000000)
     in pad 4 y @ ''-'' @ pad 2 m @ ''-'' @ pad 2 d)"

definition check_weekend_flat :: "datetime \<Rightarrow> weekend_policy \<Rightarrow> string option \<Rightarrow> bool res" where
  "check_weekend_flat current_time0 policy last_flat_date =
    (if \<not> wp_enabled policy then ok False
     else let current_time = as_utc current_time0
     in if weekday current_time \<noteq> wp_weekday policy then ok False
        else rbind (at_time current_time (wp_hour_utc policy) (wp_minute_utc policy)) (\<lambda>trigger.
          ok (if utc_us current_time < utc_us trigger then False
              else if last_flat_date = Some (day_key current_time) then False else True)))"

definition check_end_of_day :: "datetime \<Rightarrow> int \<Rightarrow> int \<Rightarrow> string option \<Rightarrow> bool res" where
  "check_end_of_day current_time0 close_hour_utc close_minute_utc last_close_date =
    (let current_time = as_utc current_time0
     in rbind (at_time current_time close_hour_utc close_minute_utc) (\<lambda>closeout_time.
        ok (if utc_us current_time < utc_us closeout_time then False
            else if last_close_date = Some (day_key current_time) then False else True)))"

section \<open>Lemmas\<close>

text \<open>A merged stop is never looser than the current one, when the current one survives the
  rounding to cents.\<close>

lemma merge_trailing_sl_ratchet:
  assumes "merge_trailing_sl action current ch be = Some s" and "pyround current 2 = current"
  shows "if action = ''buy'' then current \<le> s else s \<le> current"
proof -
  have "current \<le> pyround x 2" if "current < x" for x
    using pyround_mono [of current x 2] that assms(2) by simp
  moreover have "pyround x 2 \<le> current" if "x < current" for x
    using pyround_mono [of x current 2] that assms(2) by simp
  ultimately show ?thesis
    using assms(1) by (auto simp: merge_trailing_sl_def Let_def split: if_splits)
qed

lemma check_signal_reversal_suffix:
  assumes "check_signal_reversal action dirs n" and "0 < n"
  shows "\<exists>earlier. dirs = earlier @ replicate (nat n) (if action = ''buy'' then ''sell'' else ''buy'')"
proof -
  let ?o = "if action = ''buy'' then ''sell'' else ''buy''" and ?k = "length dirs - nat n"
  have len: "nat n \<le> length dirs" and all: "list_all (\<lambda>d. d = ?o) (drop ?k dirs)"
    using assms by (auto simp: check_signal_reversal_def slice_last_def Let_def split: if_splits)
  have "drop ?k dirs = replicate (length (drop ?k dirs)) ?o"
    by (rule replicate_length_same [symmetric]) (use all in \<open>simp add: list_all_iff\<close>)
  then have "drop ?k dirs = replicate (nat n) ?o" using len by simp
  then show ?thesis by (metis append_take_drop_id)
qed

text \<open>Every stop the rules propose comes from the merge.\<close>

lemma trail_exit_new_stop:
  "\<exists>peak. xr_new_stop_loss (trail_exit a config profile r) = fst (trailing_stop a config profile peak)"
proof -
  let ?p = "case xa_peak_price_at_bar_open a of Some p \<Rightarrow> p | None \<Rightarrow> xa_peak_price a"
  obtain x y where 1: "trailing_stop a config profile ?p = (x, y)" by (cases "trailing_stop a config profile ?p")
  obtain x' y' where 2: "trailing_stop a config profile (xa_peak_price a) = (x', y')"
    by (cases "trailing_stop a config profile (xa_peak_price a)")
  have "xr_new_stop_loss (trail_exit a config profile r) \<in> {x, x'}"
    by (simp add: trail_exit_def 1 2 Let_def)
  with 1 2 show ?thesis by (metis fst_conv insertE singletonD)
qed

lemma chandelier_exit_new_stop:
  assumes "xr_new_stop_loss (chandelier_exit a config profile) = Some s"
  shows "\<exists>ch be. merge_trailing_sl (xa_action a) (xa_current_stop_loss a) ch be = Some s"
proof -
  have "chandelier_exit a config profile = trail_exit a config profile (bar_r_multiple a)"
    using assms by (auto simp: chandelier_exit_def check_initial_sl_def check_hard_tp_def Let_def
        split: if_splits)
  with assms obtain peak where "fst (trailing_stop a config profile peak) = Some s"
    using trail_exit_new_stop by metis
  then show ?thesis by (auto simp: trailing_stop_def Let_def split: prod.splits)
qed

lemma chandelier_exit_cases:
  obtains (stop) "if xa_action a = ''buy'' then xa_bar_low a \<le> xa_current_stop_loss a
        else xa_action a = ''sell'' \<and> xa_current_stop_loss a \<le> xa_bar_high a"
      "xr_close_reason (chandelier_exit a config profile) = ''stop_loss''"
      "xr_should_close (chandelier_exit a config profile)"
  | (target) "\<not> (if xa_action a = ''buy'' then xa_bar_low a \<le> xa_current_stop_loss a
        else xa_action a = ''sell'' \<and> xa_current_stop_loss a \<le> xa_bar_high a)"
      "if xa_action a = ''buy'' then fl (xa_entry_price a + fl (cc_max_tp_r config * xa_initial_risk a)) \<le> xa_bar_high a
       else xa_bar_low a \<le> fl (xa_entry_price a - fl (cc_max_tp_r config * xa_initial_risk a))"
      "0 < xa_initial_risk a" "xr_close_reason (chandelier_exit a config profile) = ''take_profit''"
      "xr_should_close (chandelier_exit a config profile)"
  | (trail) "\<not> (if xa_action a = ''buy'' then xa_bar_low a \<le> xa_current_stop_loss a
        else xa_action a = ''sell'' \<and> xa_current_stop_loss a \<le> xa_bar_high a)"
      "chandelier_exit a config profile = trail_exit a config profile (bar_r_multiple a)"
proof (cases "if xa_action a = ''buy'' then xa_bar_low a \<le> xa_current_stop_loss a
        else xa_action a = ''sell'' \<and> xa_current_stop_loss a \<le> xa_bar_high a")
  case True
  with stop show thesis by (simp add: chandelier_exit_def check_initial_sl_def split: if_splits)
next
  case False
  then have none: "check_initial_sl (xa_action a) (xa_bar_high a) (xa_bar_low a) (xa_current_stop_loss a)
      (bar_r_multiple a) = None"
    by (auto simp: check_initial_sl_def split: if_splits)
  show thesis
  proof (cases "check_hard_tp (xa_action a) (xa_entry_price a) (xa_bar_high a) (xa_bar_low a) (xa_initial_risk a)
      (cc_max_tp_r config)")
    case None
    with none False trail show thesis by (simp add: chandelier_exit_def)
  next
    case (Some t)
    then have "0 < xa_initial_risk a" "xr_close_reason t = ''take_profit''" "xr_should_close t"
      "if xa_action a = ''buy'' then fl (xa_entry_price a + fl (cc_max_tp_r config * xa_initial_risk a)) \<le> xa_bar_high a
       else xa_bar_low a \<le> fl (xa_entry_price a - fl (cc_max_tp_r config * xa_initial_risk a))"
      by (auto simp: check_hard_tp_def Let_def split: if_splits)
    with Some none False target show thesis by (simp add: chandelier_exit_def)
  qed
qed

definition barrier_mode :: "exit_args \<Rightarrow> bool" where
  "barrier_mode a \<longleftrightarrow> lower (str_or_empty (dget (xa_exit_spec a) ''mode'')) = ''barrier''"

lemma evaluate_position_exit_chandelier:
  assumes "evaluate_position_exit pf a = ok r" and "\<not> barrier_mode a"
  obtains config profile where "r = chandelier_exit a config profile" "select_profile a config = ok profile"
    "config = (case xa_config a of Some c \<Rightarrow> c | None \<Rightarrow> default_chandelier_config)"
  using assms by (auto simp: evaluate_position_exit_def barrier_mode_def Let_def res_simps)

section \<open>A position over its bars\<close>

text \<open>The caller's use of the rules: each bar is evaluated with the stop and the breakeven flag
  that the bars before left; a proposed stop replaces the current one; a close ends the run.
  The result is the stop after each bar.\<close>

fun manage_position ::
  "(string \<Rightarrow> rat option) \<Rightarrow> exit_args list \<Rightarrow> rat \<Rightarrow> bool \<Rightarrow> rat list res" where
  "manage_position pf [] sl be = ok []"
| "manage_position pf (a # as) sl be =
    rbind (evaluate_position_exit pf (a\<lparr>xa_current_stop_loss := sl, xa_breakeven_already_activated := be\<rparr>)) (\<lambda>r.
    let sl' = (case xr_new_stop_loss r of Some s \<Rightarrow> s | None \<Rightarrow> sl)
    in if xr_should_close r then ok [sl']
       else rbind (manage_position pf as sl' (xr_breakeven_activated r)) (\<lambda>sls. ok (sl' # sls)))"

text \<open>\<open>tighter dir\<close>: the order in which a stop may move.\<close>

definition tighter :: "string \<Rightarrow> rat \<Rightarrow> rat \<Rightarrow> bool" where
  "tighter dir a b \<longleftrightarrow> (if dir = ''buy'' then a \<le> b else b \<le> a)"

lemma tighter_trans: "tighter dir a b \<Longrightarrow> tighter dir b c \<Longrightarrow> tighter dir a c"
  by (auto simp: tighter_def split: if_splits)

lemma manage_step_tighter:
  assumes "evaluate_position_exit pf a = ok r" and "\<not> barrier_mode a" and "pyround (xa_current_stop_loss a) 2 = xa_current_stop_loss a"
    and "xr_new_stop_loss r = Some s"
  shows "tighter (xa_action a) (xa_current_stop_loss a) s \<and> (\<exists>x. s = pyround x 2)"
proof -
  obtain config profile where "r = chandelier_exit a config profile"
    by (rule evaluate_position_exit_chandelier [OF assms(1,2)])
  with assms(4) obtain ch be where m: "merge_trailing_sl (xa_action a) (xa_current_stop_loss a) ch be = Some s"
    using chandelier_exit_new_stop by blast
  moreover have "\<exists>x. s = pyround x 2"
    using m by (auto simp: merge_trailing_sl_def Let_def split: if_splits)
  ultimately show ?thesis
    using merge_trailing_sl_ratchet [OF m assms(3)] by (simp add: tighter_def split: if_splits)
qed

lemma manage_position_tighter:
  assumes "manage_position pf as sl be = ok sls" and "pyround sl 2 = sl"
    and "\<forall>a\<in>set as. xa_action a = dir \<and> \<not> barrier_mode a" and "\<forall>s\<in>set sls. \<bar>s\<bar> \<le> 2 ^ 40"
  shows "sorted_wrt (tighter dir) (sl # sls)"
  using assms
proof (induction as arbitrary: sl be sls)
  case (Cons a as)
  let ?a = "a\<lparr>xa_current_stop_loss := sl, xa_breakeven_already_activated := be\<rparr>"
  obtain r where r: "evaluate_position_exit pf ?a = ok r" using Cons.prems(1) by (auto simp: res_simps)
  define sl' where "sl' = (case xr_new_stop_loss r of Some s \<Rightarrow> s | None \<Rightarrow> sl)"
  have in_list: "sl' \<in> set sls" using Cons.prems(1) r
    by (auto simp: res_simps Let_def sl'_def split: if_splits)
  have nb: "\<not> barrier_mode ?a" "xa_action ?a = dir" using Cons.prems(3) by (simp_all add: barrier_mode_def)
  have step: "tighter dir sl sl' \<and> pyround sl' 2 = sl'"
  proof (cases "xr_new_stop_loss r")
    case None
    then show ?thesis using Cons.prems(2) by (simp add: sl'_def tighter_def)
  next
    case (Some s)
    then have s: "sl' = s" by (simp add: sl'_def)
    obtain x where x: "s = pyround x 2" "tighter dir sl s"
      using manage_step_tighter [OF r nb(1) _ Some] Cons.prems(2) nb(2) by auto
    have "\<bar>pyround x 2\<bar> * 10 ^ 2 \<le> 2 ^ 50" using Cons.prems(4) in_list s x(1) by auto
    from pyround_idem [OF this] x s show ?thesis by simp
  qed
  show ?case
  proof (cases "xr_should_close r")
    case True
    then have "sls = [sl']" using Cons.prems(1) r by (simp add: sl'_def)
    with step show ?thesis by simp
  next
    case False
    then obtain rest where rest: "manage_position pf as sl' (xr_breakeven_activated r) = ok rest" "sls = sl' # rest"
      using Cons.prems(1) r by (auto simp: sl'_def res_simps Let_def)
    then have "sorted_wrt (tighter dir) (sl' # rest)"
      using Cons.IH [OF rest(1)] step Cons.prems(3,4) by simp
    with step rest(2) show ?thesis by (auto intro: tighter_trans)
  qed
qed simp

section \<open>Properties\<close>

text \<open>C24: The stop only tightens: over any bars of a position managed by the Chandelier rules,
  starting from a stop in whole cents, the stop of a long position never falls and that of a
  short position never rises, up to the bar that closes it (prices within \<open>2^40\<close>).\<close>

theorem stop_only_tightens:
  assumes "manage_position pf bars sl be = ok sls" and "pyround sl 2 = sl"
    and "\<forall>a\<in>set bars. xa_action a = dir \<and> \<not> barrier_mode a" and "\<forall>s\<in>set sls. \<bar>s\<bar> \<le> 2 ^ 40"
  shows "sorted_wrt (\<lambda>old new. if dir = ''buy'' then old \<le> new else new \<le> old) (sl # sls)"
  using manage_position_tighter [OF assms] unfolding tighter_def .

definition exit_bar_example :: "rat \<Rightarrow> rat \<Rightarrow> exit_args" where
  "exit_bar_example low peak = \<lparr>xa_action = ''buy'', xa_entry_price = 100, xa_bar_high = peak, xa_bar_low = low,
     xa_bar_close = peak, xa_current_stop_loss = 0, xa_initial_risk = 2, xa_peak_price = peak, xa_current_atr = 4,
     xa_bars_held = 1, xa_breakeven_already_activated = False, xa_recent_signal_dirs = [],
     xa_strategy_category = [], xa_current_regime = [], xa_timeframe = ''H1'', xa_initial_sl_atr_mult = 0,
     xa_atr_at_entry = 4, xa_config = Some (default_chandelier_config\<lparr>cc_default_profile :=
       \<lparr>xp_chandelier_atr_multiplier = 2, xp_lock_ratio = 0, xp_breakeven_r = 100\<rparr>\<rparr>),
     xa_exit_spec = [], xa_peak_price_at_bar_open = None\<rparr>"

theorem stop_only_tightens_witness:
  "\<exists>sls. manage_position (\<lambda>s. None) [exit_bar_example 99 102, exit_bar_example 103 108] 90 False = ok sls \<and>
     sorted_wrt (\<lambda>old new. if ''buy'' = ''buy'' then old \<le> new else new \<le> old) (90 # sls) \<and> sls = [94, 100]"
proof -
  have s: "default_tf_trail_scale = [(''M5'', fl (120/100)), (''M15'', fl (110/100)), (''M30'', 1), (''H1'', 1),
     (''H4'', fl (95/100)), (''D1'', fl (90/100))]" by (rule default_tf_trail_scale_def)
  have m: "manage_position (\<lambda>s. None) [exit_bar_example 99 102, exit_bar_example 103 108] 90 False = ok [94, 100]"
    by (simp add: exit_bar_example_def evaluate_position_exit_def select_profile_def chandelier_exit_def trail_exit_def
        bar_r_multiple_def
        default_chandelier_config_def check_initial_sl_def check_hard_tp_def trailing_stop_def
        compute_chandelier_sl_def compute_breakeven_sl_def merge_trailing_sl_def opt_list_def
        effective_multiplier_def resolve_tf_trail_scale_def s profit_r_def dget_def str_eval Let_def)
  have "pyround (90::rat) 2 = 90" "\<forall>s\<in>set [94, 100 :: rat]. \<bar>s\<bar> \<le> 2 ^ 40"
    "\<forall>a\<in>set [exit_bar_example 99 102, exit_bar_example 103 108]. xa_action a = ''buy'' \<and> \<not> barrier_mode a"
    by (simp_all add: exit_bar_example_def barrier_mode_def dget_def)
  from stop_only_tightens [OF m this(1,3,2)] m show ?thesis by blast
qed

text \<open>The rule that a stop only tightens fails beyond cents: the merged stop is rounded to two
  decimals after the comparison, so on a five-digit symbol a long position with its stop at
  1.0835 and a trail at 1.0839 is given the stop 1.08, below the one it has.\<close>

theorem stop_loosened_by_rounding:
  "\<exists>s. merge_trailing_sl ''buy'' (fl (10835 / 10000)) (Some (fl (10839 / 10000))) None = Some s \<and>
     s < fl (10835 / 10000)"
proof -
  have r: "fl (10835 / 10000) < fl (10839 / 10000)" "pyround (fl (10839 / 10000)) 2 < fl (10835 / 10000)"
    by code_simp+
  then have "max (fl (10839 / 10000)) (fl (10835 / 10000)) = fl (10839 / 10000)" by simp
  with r show ?thesis by (simp add: merge_trailing_sl_def opt_list_def Let_def)
qed

text \<open>The aggression profile keeps its documented ranges and directions: for every
  coefficient the trail is 1.5 to 3.5 ATR and grows with it, the lock ratio is 0.4 to 0.9 and
  falls, the breakeven trigger is 0.6 to 1.2 R and grows, float rounding included.\<close>

theorem profile_within_documented_ranges:
  "fl (15/10) \<le> xp_chandelier_atr_multiplier (profile_from_aggression x) \<and>
   xp_chandelier_atr_multiplier (profile_from_aggression x) \<le> fl (35/10) \<and>
   fl (4/10) \<le> xp_lock_ratio (profile_from_aggression x) \<and> xp_lock_ratio (profile_from_aggression x) \<le> fl (9/10) \<and>
   fl (6/10) \<le> xp_breakeven_r (profile_from_aggression x) \<and> xp_breakeven_r (profile_from_aggression x) \<le> fl (12/10) \<and>
   xp_chandelier_atr_multiplier (profile_from_aggression (min x y)) \<le>
     xp_chandelier_atr_multiplier (profile_from_aggression (max x y)) \<and>
   xp_lock_ratio (profile_from_aggression (max x y)) \<le> xp_lock_ratio (profile_from_aggression (min x y)) \<and>
   xp_breakeven_r (profile_from_aggression (min x y)) \<le> xp_breakeven_r (profile_from_aggression (max x y))"
proof -
  have mono: "xp_chandelier_atr_multiplier (profile_from_aggression a) \<le> xp_chandelier_atr_multiplier (profile_from_aggression b)"
    "xp_lock_ratio (profile_from_aggression b) \<le> xp_lock_ratio (profile_from_aggression a)"
    "xp_breakeven_r (profile_from_aggression a) \<le> xp_breakeven_r (profile_from_aggression b)"
    if ab: "max 0 (min 1 a) \<le> max 0 (min 1 b)" for a b
  proof -
    let ?a = "max 0 (min 1 a)" and ?b = "max 0 (min 1 b)"
    have p: "fl (k * ?a) \<le> fl (k * ?b)" if "0 \<le> k" for k
      using ab that by (intro fl_mono mult_left_mono)
    have half: "0 \<le> fl (1/2)" "0 \<le> fl (6/10)" by (simp_all add: fl_nonneg)
    show "xp_chandelier_atr_multiplier (profile_from_aggression a) \<le> xp_chandelier_atr_multiplier (profile_from_aggression b)"
      using p [of 2] by (auto simp: profile_from_aggression_def Let_def intro!: pyround_mono fl_mono)
    show "xp_lock_ratio (profile_from_aggression b) \<le> xp_lock_ratio (profile_from_aggression a)"
      using p [OF half(1)] by (auto simp: profile_from_aggression_def Let_def intro!: pyround_mono fl_mono)
    show "xp_breakeven_r (profile_from_aggression a) \<le> xp_breakeven_r (profile_from_aggression b)"
      using p [OF half(2)] by (auto simp: profile_from_aggression_def Let_def intro!: pyround_mono fl_mono)
  qed
  have "pyround (fl (fl (3/2) + fl (2 * 0))) 4 = fl (15/10)" "pyround (fl (fl (3/2) + fl (2 * 1))) 4 = fl (35/10)"
    "pyround (fl (fl (9/10) - fl (fl (1/2) * 1))) 4 = fl (4/10)" "pyround (fl (fl (9/10) - fl (fl (1/2) * 0))) 4 = fl (9/10)"
    "pyround (fl (fl (6/10) + fl (fl (6/10) * 0))) 4 = fl (6/10)" "pyround (fl (fl (6/10) + fl (fl (6/10) * 1))) 4 = fl (12/10)"
    by code_simp+
  then have ends: "xp_chandelier_atr_multiplier (profile_from_aggression 0) = fl (15/10)"
    "xp_chandelier_atr_multiplier (profile_from_aggression 1) = fl (35/10)"
    "xp_lock_ratio (profile_from_aggression 1) = fl (4/10)" "xp_lock_ratio (profile_from_aggression 0) = fl (9/10)"
    "xp_breakeven_r (profile_from_aggression 0) = fl (6/10)" "xp_breakeven_r (profile_from_aggression 1) = fl (12/10)"
    by (simp_all add: profile_from_aggression_def Let_def)
  have "max 0 (min 1 (0::rat)) \<le> max 0 (min 1 x)" "max 0 (min 1 x) \<le> max 0 (min 1 (1::rat))"
    "max 0 (min 1 (min x y)) \<le> max 0 (min 1 (max x y))" by (auto simp: min_def max_def)
  then show ?thesis unfolding ends [symmetric] using mono by blast
qed

text \<open>A breakeven stop protects the entry: once breakeven is active the stop it proposes is
  at or beyond the entry price on the profitable side (the entry being a float and the minimum
  buffer not negative), and activation is never taken back.\<close>

theorem breakeven_stop_protects_entry:
  assumes "compute_breakeven_sl action entry_price peak initial_risk be_r buffer_r min_buffer already lock_ratio = (sl, active)"
    and "fl entry_price = entry_price" and "0 \<le> min_buffer"
  shows "(already \<longrightarrow> active) \<and> (\<forall>s. sl = Some s \<longrightarrow> active \<and> 0 < initial_risk \<and>
    (if action = ''buy'' then entry_price \<le> s else s \<le> entry_price))"
proof -
  have up: "entry_price \<le> fl (entry_price + x)" if "0 \<le> x" for x
    using that assms(2) by (intro fl_ge_float) simp_all
  have down: "fl (entry_price - x) \<le> entry_price" if "0 \<le> x" for x
    using that assms(2) by (intro fl_le_float) simp_all
  have pos: "0 \<le> max x min_buffer" "0 \<le> max z (max x min_buffer)" for x z using assms(3) by auto
  show ?thesis using assms(1) up down pos
    by (auto simp: compute_breakeven_sl_def Let_def split: if_splits)
qed

theorem breakeven_stop_protects_entry_witness:
  "\<exists>s. compute_breakeven_sl ''buy'' 100 108 2 1 1 1 False 0 = (Some s, True) \<and> 100 \<le> s"
proof -
  have c: "compute_breakeven_sl ''buy'' 100 108 2 1 1 1 False 0 = (Some 102, True)"
    by (simp add: compute_breakeven_sl_def profit_r_def Let_def)
  have "fl (100::rat) = 100" "(0::rat) \<le> 1" by simp_all
  from breakeven_stop_protects_entry [OF c this] c show ?thesis by simp
qed

text \<open>Every close of the Chandelier rules has its reason: a stop loss exactly when the bar
  crosses the current stop, before all else; a take profit only when it crosses the hard
  target; a signal exit only without an open loss and after the required number of consecutive
  opposite signals; a timeout only after the configured bars and below breakeven.\<close>

theorem exit_reasons_sound:
  assumes "evaluate_position_exit pf a = ok r" and "\<not> barrier_mode a" and "xa_action a \<in> {''buy'', ''sell''}"
    and "config = (case xa_config a of Some c \<Rightarrow> c | None \<Rightarrow> default_chandelier_config)"
  shows "(xr_close_reason r = ''stop_loss'' \<longleftrightarrow>
      (if xa_action a = ''buy'' then xa_bar_low a \<le> xa_current_stop_loss a else xa_current_stop_loss a \<le> xa_bar_high a)) \<and>
    (xr_close_reason r = ''take_profit'' \<longrightarrow> 0 < xa_initial_risk a \<and>
      (let d = fl (cc_max_tp_r config * xa_initial_risk a)
       in if xa_action a = ''buy'' then fl (xa_entry_price a + d) \<le> xa_bar_high a
          else xa_bar_low a \<le> fl (xa_entry_price a - d))) \<and>
    (xr_close_reason r = ''signal_exit'' \<and> 0 < cc_signal_exit_confirmation_bars config \<longrightarrow>
      0 \<le> bar_r_multiple a \<and> (\<exists>earlier. xa_recent_signal_dirs a = earlier @
        replicate (nat (cc_signal_exit_confirmation_bars config)) (if xa_action a = ''buy'' then ''sell'' else ''buy''))) \<and>
    (xr_close_reason r = ''timeout'' \<longrightarrow> cc_timeout_bars config \<le> xa_bars_held a) \<and>
    (xr_should_close r \<longleftrightarrow> xr_close_reason r \<noteq> [])"
proof -
  obtain profile where r: "r = chandelier_exit a config profile"
    using evaluate_position_exit_chandelier [OF assms(1,2)] assms(4) by metis
  obtain x y where 1: "trailing_stop a config profile (case xa_peak_price_at_bar_open a of Some p \<Rightarrow> p | None \<Rightarrow> xa_peak_price a) = (x, y)"
    by (cases "trailing_stop a config profile (case xa_peak_price_at_bar_open a of Some p \<Rightarrow> p | None \<Rightarrow> xa_peak_price a)")
  obtain x' y' where 2: "trailing_stop a config profile (xa_peak_price a) = (x', y')"
    by (cases "trailing_stop a config profile (xa_peak_price a)")
  let ?t = "trail_exit a config profile (bar_r_multiple a)"
  have t: "xr_close_reason ?t \<in> {''trailing_stop'', ''signal_exit'', ''timeout'', []}"
    "xr_close_reason ?t = ''signal_exit'' \<Longrightarrow> 0 \<le> bar_r_multiple a \<and>
       check_signal_reversal (xa_action a) (xa_recent_signal_dirs a) (cc_signal_exit_confirmation_bars config)"
    "xr_close_reason ?t = ''timeout'' \<Longrightarrow> cc_timeout_bars config \<le> xa_bars_held a"
    "xr_should_close ?t \<longleftrightarrow> xr_close_reason ?t \<noteq> []"
    by (auto simp: trail_exit_def 1 2 Let_def check_timeout_def split: if_splits)
  have reversal: "\<exists>earlier. xa_recent_signal_dirs a = earlier @
        replicate (nat (cc_signal_exit_confirmation_bars config)) (if xa_action a = ''buy'' then ''sell'' else ''buy'')"
    if "xr_close_reason ?t = ''signal_exit''" "0 < cc_signal_exit_confirmation_bars config"
    using t(2) [OF that(1)] that(2) by (intro check_signal_reversal_suffix) auto
  show ?thesis
  proof (cases rule: chandelier_exit_cases [of a config profile])
    case stop
    with r assms(3) show ?thesis by auto
  next
    case target
    with r assms(3) show ?thesis by (auto simp: Let_def)
  next
    case trail
    with r t reversal assms(3) show ?thesis by (simp split: if_splits) auto
  qed
qed

theorem exit_reasons_sound_witness:
  "\<exists>r. evaluate_position_exit (\<lambda>s. None) ((exit_bar_example 99 102)\<lparr>xa_current_stop_loss := 99\<rparr>) = ok r \<and>
     xr_close_reason r = ''stop_loss''"
proof -
  let ?a = "(exit_bar_example 99 102)\<lparr>xa_current_stop_loss := 99\<rparr>"
  have a: "\<not> barrier_mode ?a" "xa_action ?a \<in> {''buy'', ''sell''}" "xa_action ?a = ''buy''"
    "xa_bar_low ?a \<le> xa_current_stop_loss ?a"
    by (simp_all add: exit_bar_example_def barrier_mode_def dget_def)
  obtain r where r: "evaluate_position_exit (\<lambda>s. None) ?a = ok r"
    by (simp add: exit_bar_example_def evaluate_position_exit_def select_profile_def dget_def Let_def)
  from exit_reasons_sound [OF r a(1,2) refl] a(3,4) r show ?thesis by auto
qed

text \<open>The fixed-barrier exit is conservative and complete: with positive barriers it closes
  exactly when the bar touches a barrier or the time is up, a bar that touches both counts as
  the loss, and nothing it reports depends on the Chandelier state.\<close>

theorem barrier_exit_conservative:
  assumes "0 < atr" and "0 < sl_atr" and "0 < tp_atr" and "1 \<le> time_bars"
  shows "let sl = (if action = ''buy'' then fl (entry - fl (sl_atr * atr)) else fl (entry + fl (sl_atr * atr)));
      tp = (if action = ''buy'' then fl (entry + fl (tp_atr * atr)) else fl (entry - fl (tp_atr * atr)));
      hit_sl = (if action = ''buy'' then low \<le> sl else sl \<le> high);
      hit_tp = (if action = ''buy'' then tp \<le> high else low \<le> tp);
      r = evaluate_barrier_exit action entry high low close_price atr sl_atr tp_atr time_bars held risk
    in (xr_close_reason r = ''stop_loss'' \<longleftrightarrow> hit_sl) \<and>
       (xr_close_reason r = ''take_profit'' \<longleftrightarrow> \<not> hit_sl \<and> hit_tp) \<and>
       (xr_should_close r \<longleftrightarrow> hit_sl \<or> hit_tp \<or> time_bars \<le> held) \<and>
       (hit_sl \<longrightarrow> xr_new_stop_loss r = Some sl) \<and> (hit_tp \<and> \<not> hit_sl \<longrightarrow> xr_new_stop_loss r = Some tp)"
  using assms by (cases "action = ''buy''") (simp_all add: evaluate_barrier_exit_def Let_def)

theorem barrier_exit_conservative_witness:
  "xr_close_reason (evaluate_barrier_exit ''buy'' 100 110 90 100 4 2 2 10 1 8) = ''stop_loss''"
proof -
  have "(0::rat) < 4" "(0::rat) < 2" "(1::int) \<le> 10" by simp_all
  from barrier_exit_conservative [OF this(1,2,2,3), of "''buy''" 100 90 110 100 1 8] show ?thesis by (simp add: Let_def)
qed

text \<open>Driving the end-of-day check: a close records the day of its time.\<close>

fun eod_run :: "int \<Rightarrow> int \<Rightarrow> datetime list \<Rightarrow> string option \<Rightarrow> datetime list res" where
  "eod_run h m [] last_date = ok []"
| "eod_run h m (t # ts) last_date =
    rbind (check_end_of_day t h m last_date) (\<lambda>fire.
    rbind (eod_run h m ts (if fire then Some (day_key (as_utc t)) else last_date)) (\<lambda>fired.
    ok (if fire then t # fired else fired)))"

lemma day_key_same_day: "utc_day s = utc_day t \<Longrightarrow> day_key (as_utc s) = day_key (as_utc t)"
proof -
  have "wall (as_utc u) = utc_us u" for u
    by (cases u) (auto simp: as_utc_def replace_tz_def astimezone_utc_def utc_us_def split: option.splits)
  then show "utc_day s = utc_day t \<Longrightarrow> ?thesis" by (simp add: day_key_def utc_day_def)
qed

lemma eod_fires_iff:
  assumes "0 \<le> h" "h < 24" "0 \<le> m" "m < 60"
  shows "check_end_of_day t h m last_date =
    ok ((h * 60 + m) * 60000000 \<le> utc_us t mod 86400000000 \<and> last_date \<noteq> Some (day_key (as_utc t)))"
proof -
  have w: "wall (as_utc t) = utc_us t" "utcoffset (as_utc t) = Some 0"
    by (cases t, auto simp: as_utc_def replace_tz_def astimezone_utc_def utc_us_def split: option.splits)
  have "utc_us t < utc_us t div 86400000000 * 86400000000 + x \<longleftrightarrow> utc_us t mod 86400000000 < x" for x
    using div_mult_mod_eq [of "utc_us t" 86400000000] by linarith
  then show ?thesis using assms w by (auto simp: check_end_of_day_def at_time_def Let_def not_less)
qed

lemma eod_run_days:
  assumes "0 \<le> h" "h < 24" "0 \<le> m" "m < 60" and "sorted (map utc_us ts)"
    and "last_date = map_option (\<lambda>u. day_key (as_utc u)) last_fired"
    and "\<forall>u. last_fired = Some u \<longrightarrow> (\<forall>t\<in>set ts. utc_us u \<le> utc_us t)"
  shows "\<exists>fired. eod_run h m ts last_date = ok fired \<and> sorted_wrt (<) (map utc_day fired) \<and>
    (\<forall>u. last_fired = Some u \<longrightarrow> (\<forall>t\<in>set fired. utc_day u < utc_day t)) \<and>
    (\<forall>t\<in>set fired. t \<in> set ts \<and> (h * 60 + m) * 60000000 \<le> utc_us t mod 86400000000)"
  using assms(5-7)
proof (induction ts arbitrary: last_date last_fired)
  case (Cons t ts)
  have day_mono: "utc_us a \<le> utc_us b \<Longrightarrow> utc_day a \<le> utc_day b" for a b
    by (simp add: utc_day_def zdiv_mono1)
  let ?fire = "(h * 60 + m) * 60000000 \<le> utc_us t mod 86400000000 \<and> last_date \<noteq> Some (day_key (as_utc t))"
  note c = eod_fires_iff [OF assms(1-4), of t last_date]
  show ?case
  proof (cases ?fire)
    case True
    obtain fired where f: "eod_run h m ts (Some (day_key (as_utc t))) = ok fired" "sorted_wrt (<) (map utc_day fired)"
      "\<forall>x\<in>set fired. utc_day t < utc_day x"
      "\<forall>x\<in>set fired. x \<in> set ts \<and> (h * 60 + m) * 60000000 \<le> utc_us x mod 86400000000"
      using Cons.IH [of "Some (day_key (as_utc t))" "Some t"] Cons.prems(1) by auto
    have "utc_day u < utc_day t" if "last_fired = Some u" for u
    proof -
      have "utc_day u \<le> utc_day t" using that Cons.prems(3) by (intro day_mono) simp
      moreover have "utc_day u \<noteq> utc_day t" 
        using True that Cons.prems(2) day_key_same_day [of u t] by (intro notI) simp
      ultimately show ?thesis by simp
    qed
    moreover have "eod_run h m (t # ts) last_date = ok (t # fired)" using f(1) True c by simp
    ultimately show ?thesis using f(2-4) True order.strict_trans by (intro exI [of _ "t # fired"]) auto
  next
    case False
    have "\<forall>u. last_fired = Some u \<longrightarrow> (\<forall>x\<in>set ts. utc_us u \<le> utc_us x)" "sorted (map utc_us ts)"
      using Cons.prems(1,3) by auto
    from Cons.IH [OF this(2) Cons.prems(2) this(1)] obtain fired where
      f: "eod_run h m ts last_date = ok fired" "sorted_wrt (<) (map utc_day fired)"
      "\<forall>u. last_fired = Some u \<longrightarrow> (\<forall>t\<in>set fired. utc_day u < utc_day t)"
      "\<forall>x\<in>set fired. x \<in> set ts \<and> (h * 60 + m) * 60000000 \<le> utc_us x mod 86400000000" by blast
    have "check_end_of_day t h m last_date = ok False" using c False by simp
    then have "eod_run h m (t # ts) last_date = ok fired" using f(1) by simp
    with f(2-4) show ?thesis by (intro exI [of _ fired]) simp
  qed
qed simp

text \<open>The end-of-day close fires at most once a day and never early: with a valid closing
  time and a clock that does not go back, the check never raises, the days it fires on are
  strictly increasing, and each time it fires is at or after the closing time of its UTC day.\<close>

theorem end_of_day_once_per_day:
  assumes "0 \<le> h" "h < 24" "0 \<le> m" "m < 60" and "sorted (map utc_us clock)"
  shows "\<exists>fired. eod_run h m clock None = ok fired \<and> sorted_wrt (<) (map utc_day fired) \<and>
    (\<forall>t\<in>set fired. t \<in> set clock \<and> (h * 60 + m) * 60000000 \<le> utc_us t mod 86400000000)"
  using eod_run_days [OF assms(1-5), of None None] by auto

theorem end_of_day_once_per_day_witness:
  "\<exists>fired. eod_run 21 30 [Datetime 0 None, Datetime 80000000000 None, Datetime 81000000000 None] None = ok fired \<and>
     sorted_wrt (<) (map utc_day fired)"
proof -
  have "(0::int) \<le> 21" "(21::int) < 24" "(0::int) \<le> 30" "(30::int) < 60"
    "sorted (map utc_us [Datetime 0 None, Datetime 80000000000 None, Datetime 81000000000 None])" by simp_all
  from end_of_day_once_per_day [OF this] show ?thesis by blast
qed

end
