(* ===== verification/Dependency_Graph.thy ===== *)
theory Dependency_Graph
  imports Py_Repr Interfaces "HOL-Library.Char_ord" "HOL-Library.List_Lexorder"
begin

text \<open>
  The indicator dependency manager (\<^verbatim>\<open>src/src/indicators/engine/dependency_manager.py\<close>): the
  forward and the reverse dependency graph, their updates, the closure of the dependencies of an
  indicator, the level-wise topological order the calculation pipeline runs, the validation,
  the export and import of the configuration and the two renderings. A dictionary is an
  association list in insertion order and a set a list without repetitions; the order in which
  Python iterates a set is not specified and is the argument \<open>it\<close> of every operation that
  iterates one. Indicator functions are opaque values of a type parameter. Logging is left out.
\<close>

section \<open>State\<close>

type_synonym dep_graph = "(string \<times> string list) list"

record 'f dep_manager =
  dm_graph :: dep_graph
  dm_reverse_graph :: dep_graph
  dm_indicator_params :: "(string \<times> pydict) list"
  dm_indicator_funcs :: "(string \<times> 'f) list"
  dm_indicator_cache_ttl :: "(string \<times> int) list"

definition DependencyManager :: "'f dep_manager" where
  "DependencyManager = \<lparr>dm_graph = [], dm_reverse_graph = [], dm_indicator_params = [],
     dm_indicator_funcs = [], dm_indicator_cache_ttl = []\<rparr>"

text \<open>\<open>s.add(x)\<close> and \<open>s.discard(x)\<close> of a set.\<close>

definition set_add :: "string \<Rightarrow> string list \<Rightarrow> string list" where
  "set_add x xs = (if x \<in> set xs then xs else xs @ [x])"

definition set_discard :: "string \<Rightarrow> string list \<Rightarrow> string list" where
  "set_discard x xs = filter (\<lambda>y. y \<noteq> x) xs"

text \<open>\<open>graph.get(n, set())\<close>; indexing the default dictionary reads the same value.\<close>

definition deps_of :: "dep_graph \<Rightarrow> string \<Rightarrow> string list" where
  "deps_of g n = (case map_of g n of None \<Rightarrow> [] | Some ds \<Rightarrow> ds)"

text \<open>\<open>graph[k].discard(x)\<close>, dropping the key when its set becomes empty.\<close>

definition discard_edge :: "string \<Rightarrow> string \<Rightarrow> dep_graph \<Rightarrow> dep_graph" where
  "discard_edge k x g =
    (let ds = set_discard x (deps_of g k)
     in if ds = [] then AList.delete k g else AList.update k ds g)"

section \<open>Updates\<close>

definition add_dependency :: "string \<Rightarrow> string \<Rightarrow> 'f dep_manager \<Rightarrow> 'f dep_manager" where
  "add_dependency indicator depends_on m =
    (if indicator = depends_on then m
     else m\<lparr>dm_graph := AList.update indicator (set_add depends_on (deps_of (dm_graph m) indicator)) (dm_graph m),
            dm_reverse_graph := AList.update depends_on
              (set_add indicator (deps_of (dm_reverse_graph m) depends_on)) (dm_reverse_graph m)\<rparr>)"

definition add_indicator :: "string \<Rightarrow> 'f \<Rightarrow> pydict \<Rightarrow> string list option \<Rightarrow> 'f dep_manager \<Rightarrow> 'f dep_manager" where
  "add_indicator name func params dependencies m =
    (let m1 = m\<lparr>dm_indicator_params := AList.update name params (dm_indicator_params m),
                dm_indicator_funcs := AList.update name func (dm_indicator_funcs m)\<rparr>
     in case dependencies of None \<Rightarrow> m1 | Some deps \<Rightarrow> fold (add_dependency name) deps m1)"

definition remove_dependency :: "string \<Rightarrow> string \<Rightarrow> 'f dep_manager \<Rightarrow> 'f dep_manager" where
  "remove_dependency indicator depends_on m =
    (let g = dm_graph m; r = dm_reverse_graph m
     in m\<lparr>dm_graph := (if map_of g indicator = None then g else discard_edge indicator depends_on g),
          dm_reverse_graph := (if map_of r depends_on = None then r else discard_edge depends_on indicator r)\<rparr>)"

definition dm_clear :: "'f dep_manager \<Rightarrow> 'f dep_manager" where
  "dm_clear m = m\<lparr>dm_graph := [], dm_reverse_graph := [], dm_indicator_params := [],
     dm_indicator_funcs := []\<rparr>"

text \<open>The loop over a snapshot of the reverse graph's keys.\<close>

definition discard_everywhere :: "string \<Rightarrow> dep_graph \<Rightarrow> dep_graph" where
  "discard_everywhere name r =
    fold (\<lambda>node r. if name \<in> set (deps_of r node) then discard_edge node name r else r) (map fst r) r"

definition remove_indicator :: "(string list \<Rightarrow> string list) \<Rightarrow> string \<Rightarrow> 'f dep_manager \<Rightarrow> bool \<times> 'f dep_manager" where
  "remove_indicator it name m =
    (if map_of (dm_indicator_funcs m) name = None then (False, m)
     else let g1 = AList.delete name (dm_graph m);
              (g2, r2) = (case map_of (dm_reverse_graph m) name of
                  None \<Rightarrow> (g1, dm_reverse_graph m)
                | Some dependents \<Rightarrow>
                    (fold (\<lambda>dependent g. discard_edge dependent name g) (it dependents) g1,
                     AList.delete name (dm_reverse_graph m)))
     in (True, m\<lparr>dm_graph := g2, dm_reverse_graph := discard_everywhere name r2,
                 dm_indicator_params := AList.delete name (dm_indicator_params m),
                 dm_indicator_funcs := AList.delete name (dm_indicator_funcs m)\<rparr>))"

section \<open>Queries\<close>

definition get_dependencies :: "'f dep_manager \<Rightarrow> string \<Rightarrow> string list" where
  "get_dependencies m indicator = deps_of (dm_graph m) indicator"

definition get_dependents :: "'f dep_manager \<Rightarrow> string \<Rightarrow> string list" where
  "get_dependents m indicator = deps_of (dm_reverse_graph m) indicator"

text \<open>\<open>for dep in graph.get(n, set())\<close>.\<close>

definition neighbours :: "(string list \<Rightarrow> string list) \<Rightarrow> dep_graph \<Rightarrow> string \<Rightarrow> string list" where
  "neighbours it g n = (case map_of g n of None \<Rightarrow> [] | Some ds \<Rightarrow> it ds)"

text \<open>The depth-first loop of \<open>get_all_dependencies\<close>; the head of the list is the top of the stack.\<close>

function all_deps_loop :: "(string list \<Rightarrow> string list) \<Rightarrow> dep_graph \<Rightarrow> string list \<Rightarrow> string list \<Rightarrow> string list" where
  "all_deps_loop it g visited [] = visited"
| "all_deps_loop it g visited (current # stack) =
    (if current \<in> set visited then all_deps_loop it g visited stack
     else let visited1 = visited @ [current]
     in all_deps_loop it g visited1
          (rev (filter (\<lambda>dep. dep \<notin> set visited1) (neighbours it g current)) @ stack))"
  by pat_completeness auto

lemma neighbours_key: "neighbours it g n \<noteq> [] \<Longrightarrow> n \<in> fst ` set g"
  by (auto simp: neighbours_def split: option.splits dest: map_of_SomeD intro: rev_image_eqI)

lemma card_unvisited_less:
  "n \<in> K \<Longrightarrow> n \<notin> V \<Longrightarrow> finite K \<Longrightarrow> V \<subseteq> V' \<Longrightarrow> n \<in> V' \<Longrightarrow> card (K - V') < card (K - V)"
  by (rule psubset_card_mono) auto

termination all_deps_loop
proof (relation "measures [\<lambda>(it, g, visited, stack). card (fst ` set g - set visited),
    \<lambda>(it, g, visited, stack). length stack]", goal_cases)
  case (3 it g visited current stack visited1)
  show ?case
  proof (cases "current \<in> fst ` set g")
    case True
    have "set visited \<subseteq> set visited1" "current \<in> set visited1" using 3 by auto
    from card_unvisited_less [OF True 3(1) _ this] show ?thesis by simp
  next
    case False
    then have "neighbours it g current = []" using neighbours_key by blast
    moreover have "fst ` set g - set visited1 = fst ` set g - set visited" using 3 False by auto
    ultimately show ?thesis by simp
  qed
qed auto

definition get_all_dependencies :: "(string list \<Rightarrow> string list) \<Rightarrow> 'f dep_manager \<Rightarrow> string \<Rightarrow> bool \<Rightarrow> string list" where
  "get_all_dependencies it m indicator include_self =
    (let visited = all_deps_loop it (dm_graph m) [] [indicator]
     in if include_self then visited else set_discard indicator visited)"

section \<open>The execution order\<close>

text \<open>The inner loop of the collection of relevant nodes: a new dependency is recorded and pushed.\<close>

fun discover :: "string list \<Rightarrow> string list \<Rightarrow> string list \<Rightarrow> string list \<times> string list" where
  "discover [] relevant stack = (relevant, stack)"
| "discover (d # ds) relevant stack =
    (if d \<in> set relevant then discover ds relevant stack
     else discover ds (relevant @ [d]) (d # stack))"

lemma set_discover: "set (fst (discover ds rel st)) = set rel \<union> set ds"
  by (induction ds rel st rule: discover.induct) auto

lemma discover_progress: "discover ds rel st = (rel, st) \<or> (\<exists>d\<in>set ds. d \<notin> set rel)"
  by (induction ds rel st rule: discover.induct) auto

function collect_relevant :: "(string list \<Rightarrow> string list) \<Rightarrow> dep_graph \<Rightarrow> string list \<Rightarrow> string list \<Rightarrow> string list" where
  "collect_relevant it g relevant [] = relevant"
| "collect_relevant it g relevant (current # stack) =
    (let (relevant1, stack1) = discover (neighbours it g current) relevant stack
     in collect_relevant it g relevant1 stack1)"
  by pat_completeness auto

definition targets_of :: "(string list \<Rightarrow> string list) \<Rightarrow> dep_graph \<Rightarrow> string set" where
  "targets_of it g = (\<Union>n\<in>fst ` set g. set (neighbours it g n))"

lemma neighbours_targets: "set (neighbours it g n) \<subseteq> targets_of it g"
  using neighbours_key [of it g n] by (cases "neighbours it g n = []") (auto simp: targets_of_def)

termination collect_relevant
proof (relation "measures [\<lambda>(it, g, relevant, stack). card (targets_of it g - set relevant),
    \<lambda>(it, g, relevant, stack). length stack]", goal_cases)
  case (2 it g relevant current stack x relevant1 stack1)
  have fin: "finite (targets_of it g)" by (simp add: targets_of_def)
  have r1: "set relevant1 = set relevant \<union> set (neighbours it g current)"
    using set_discover [of "neighbours it g current" relevant stack] 2 by (metis fst_conv)
  from discover_progress [of "neighbours it g current" relevant stack] show ?case
  proof
    assume "discover (neighbours it g current) relevant stack = (relevant, stack)"
    then show ?thesis using 2 by simp
  next
    assume "\<exists>d\<in>set (neighbours it g current). d \<notin> set relevant"
    then obtain d where "d \<in> set (neighbours it g current)" "d \<notin> set relevant" by blast
    then show ?thesis
      using card_unvisited_less [of d "targets_of it g" "set relevant" "set relevant1"] r1 fin
        neighbours_targets [of it g current] by auto
  qed
qed auto

definition relevant_nodes :: "(string list \<Rightarrow> string list) \<Rightarrow> dep_graph \<Rightarrow> string list \<Rightarrow> string list" where
  "relevant_nodes it g targets =
    fold (\<lambda>indicator relevant. collect_relevant it g (set_add indicator relevant) [indicator]) (it targets) []"

text \<open>The in-degrees of the relevant nodes: how many relevant nodes depend on each. The
  dictionary has exactly the relevant nodes as keys and is only read there.\<close>

definition in_degrees :: "(string list \<Rightarrow> string list) \<Rightarrow> dep_graph \<Rightarrow> string list \<Rightarrow> string \<Rightarrow> int" where
  "in_degrees it g relevant =
    fold (\<lambda>node d. fold (\<lambda>neighbour d. if neighbour \<in> set relevant then d(neighbour := d neighbour + 1) else d)
                     (neighbours it g node) d)
      (it relevant) (\<lambda>_. 0)"

text \<open>What the removal of one node does to the queue and the in-degrees.\<close>

fun relax :: "string list \<Rightarrow> string list \<Rightarrow> string list \<Rightarrow> (string \<Rightarrow> int) \<Rightarrow> string list \<times> (string \<Rightarrow> int)" where
  "relax relevant [] queue d = (queue, d)"
| "relax relevant (n # ns) queue d =
    (if n \<in> set relevant
     then relax relevant ns (if d n - 1 = 0 then queue @ [n] else queue) (d(n := d n - 1))
     else relax relevant ns queue d)"

text \<open>One level: the nodes that are in the queue when it starts are taken off one by one, the
  ones appended meanwhile stay for the next.\<close>

fun run_level :: "(string list \<Rightarrow> string list) \<Rightarrow> dep_graph \<Rightarrow> string list \<Rightarrow> string list \<Rightarrow> string list \<Rightarrow>
    (string \<Rightarrow> int) \<Rightarrow> string list \<times> (string \<Rightarrow> int)" where
  "run_level it g relevant [] queue d = (queue, d)"
| "run_level it g relevant (node # level) queue d =
    (let (queue1, d1) = relax relevant (neighbours it g node) queue d
     in run_level it g relevant level queue1 d1)"

function kahn :: "(string list \<Rightarrow> string list) \<Rightarrow> dep_graph \<Rightarrow> string list \<Rightarrow> string list \<Rightarrow> (string \<Rightarrow> int) \<Rightarrow>
    string list list \<Rightarrow> string list list \<times> (string \<Rightarrow> int)" where
  "kahn it g relevant queue d result =
    (if queue = [] then (result, d)
     else let (queue1, d1) = run_level it g relevant queue [] d
     in kahn it g relevant queue1 d1 (result @ [queue]))"
  by pat_completeness auto

lemma relax_descends:
  "relax rel ns q d = (q', d') \<Longrightarrow>
    (\<forall>n. d' n \<le> d n) \<and> (q' = q \<or> (\<exists>n\<in>set rel. 0 < d n \<and> d' n \<le> 0))"
proof (induction rel ns q d rule: relax.induct)
  case (2 rel n ns q d)
  show ?case
  proof (cases "n \<in> set rel")
    case True
    have "relax rel ns (if d n - 1 = 0 then q @ [n] else q) (d(n := d n - 1)) = (q', d')"
      using "2.prems" True by (simp only: relax.simps if_True)
    note ih = conjunct1 [OF "2.IH"(1) [OF True this]] conjunct2 [OF "2.IH"(1) [OF True this]]
    have le: "d' k \<le> d k" for k using spec [OF ih(1), of k] by (simp split: if_splits)
    have "d' n \<le> d n - 1" using spec [OF ih(1), of n] by simp
    then have "d n - 1 = 0 \<Longrightarrow> \<exists>k\<in>set rel. 0 < d k \<and> d' k \<le> 0"
      by (intro bexI [OF _ True]) simp
    then show ?thesis using ih(2) le by (auto split: if_splits)
  qed (use 2 in simp)
qed simp

lemma run_level_descends:
  "run_level it g rel level q d = (q', d') \<Longrightarrow>
    (\<forall>n. d' n \<le> d n) \<and> (q' = q \<or> (\<exists>n\<in>set rel. 0 < d n \<and> d' n \<le> 0))"
proof (induction it g rel level q d rule: run_level.induct)
  case (2 it g rel node level q d)
  obtain q1 d1 where r: "relax rel (neighbours it g node) q d = (q1, d1)" by (cases "relax rel (neighbours it g node) q d")
  have a: "(\<forall>n. d' n \<le> d1 n) \<and> (q' = q1 \<or> (\<exists>n\<in>set rel. 0 < d1 n \<and> d' n \<le> 0))"
    using "2.IH" [OF r [symmetric] refl] "2.prems" r by simp
  have b: "(\<forall>n. d1 n \<le> d n) \<and> (q1 = q \<or> (\<exists>n\<in>set rel. 0 < d n \<and> d1 n \<le> 0))"
    by (rule relax_descends [OF r])
  show ?case using a b by (meson le_less_trans less_le_trans order_trans)
qed simp

termination kahn
proof (relation "measures [\<lambda>(it, g, rel, queue, d, result). card {n \<in> set rel. 0 < d n},
    \<lambda>(it, g, rel, queue, d, result). length queue]", goal_cases)
  case (2 it g rel queue d result x queue1 d1)
  then have "run_level it g rel queue [] d = (queue1, d1)" by simp
  from run_level_descends [OF this]
  have le: "\<And>n. d1 n \<le> d n" and or: "queue1 = [] \<or> (\<exists>n\<in>set rel. 0 < d n \<and> d1 n \<le> 0)" by auto
  have sub: "{n \<in> set rel. 0 < d1 n} \<subseteq> {n \<in> set rel. 0 < d n}" using le by (auto intro: less_le_trans)
  from or show ?case
  proof
    assume "queue1 = []"
    then show ?thesis using 2 card_mono [OF _ sub] by (auto simp: le_less)
  next
    assume "\<exists>n\<in>set rel. 0 < d n \<and> d1 n \<le> 0"
    then have "{n \<in> set rel. 0 < d1 n} \<subset> {n \<in> set rel. 0 < d n}" using sub by force
    then show ?thesis by (simp add: psubset_card_mono)
  qed
qed simp

declare kahn.simps [simp del]

text \<open>The relevant nodes left with a positive in-degree lie on or behind a cycle.\<close>

definition circular_message :: "string list \<Rightarrow> string" where
  "circular_message ns = ''Circular dependency detected among: '' @ py_repr (VList (map VStr ns))"

definition target_indicators :: "'f dep_manager \<Rightarrow> string list option \<Rightarrow> string list" where
  "target_indicators m indicators =
    (case indicators of None \<Rightarrow> map fst (dm_indicator_funcs m) | Some inds \<Rightarrow> remdups inds)"

definition get_execution_order :: "(string list \<Rightarrow> string list) \<Rightarrow> 'f dep_manager \<Rightarrow> string list option \<Rightarrow>
    string list list res" where
  "get_execution_order it m indicators =
    (let targets = target_indicators m indicators;
         g = dm_graph m;
         relevant = relevant_nodes it g targets;
         d = in_degrees it g relevant;
         queue = filter (\<lambda>n. d n = 0) (it relevant);
         (result, d1) = kahn it g relevant queue d [];
         remaining = filter (\<lambda>n. 0 < d1 n) (it relevant)
     in if remaining \<noteq> [] then raise (ValueError (circular_message remaining)) else ok (rev result))"

definition get_parallelizable_groups :: "(string list \<Rightarrow> string list) \<Rightarrow> 'f dep_manager \<Rightarrow> string list option \<Rightarrow>
    string list list res" where
  "get_parallelizable_groups it m indicators = get_execution_order it m indicators"

section \<open>Validation, information and rendering\<close>

definition undefined_errors :: "(string list \<Rightarrow> string list) \<Rightarrow> 'f dep_manager \<Rightarrow> string \<Rightarrow> string list" where
  "undefined_errors it m node =
    (let defined = map fst (dm_indicator_funcs m); sq = [char_of (39 :: nat)]
     in (if node \<notin> set defined then [''Undefined indicator referenced: '' @ sq @ node @ sq] else []) @
        map (\<lambda>dep. ''Indicator '' @ sq @ node @ sq @ '' depends on undefined indicator '' @ sq @ dep @ sq)
          (filter (\<lambda>dep. dep \<notin> set defined) (neighbours it (dm_graph m) node)))"

definition error_text :: "py_error \<Rightarrow> string" where
  "error_text e = (case e of ValueError t \<Rightarrow> t | _ \<Rightarrow> [])"

definition validate_graph :: "(string list \<Rightarrow> string list) \<Rightarrow> 'f dep_manager \<Rightarrow> string list" where
  "validate_graph it m =
    (case get_execution_order it m None of Inl e \<Rightarrow> [error_text e] | Inr _ \<Rightarrow> []) @
    concat (map (undefined_errors it m)
      (it (remdups (map fst (dm_graph m) @ map fst (dm_reverse_graph m)))))"

record indicator_info =
  ii_name :: string
  ii_params :: pydict
  ii_dependencies :: "string list"
  ii_dependents :: "string list"
  ii_all_dependencies :: "string list"
  ii_has_func :: bool

definition get_indicator_info :: "(string list \<Rightarrow> string list) \<Rightarrow> 'f dep_manager \<Rightarrow> string \<Rightarrow> indicator_info option" where
  "get_indicator_info it m name =
    (if map_of (dm_indicator_funcs m) name = None then None
     else Some \<lparr>ii_name = name,
       ii_params = (case map_of (dm_indicator_params m) name of None \<Rightarrow> [] | Some p \<Rightarrow> p),
       ii_dependencies = it (get_dependencies m name), ii_dependents = it (get_dependents m name),
       ii_all_dependencies = it (get_all_dependencies it m name False),
       ii_has_func = (map_of (dm_indicator_funcs m) name \<noteq> None)\<rparr>)"

definition get_all_indicators :: "(string list \<Rightarrow> string list) \<Rightarrow> 'f dep_manager \<Rightarrow> indicator_info list" where
  "get_all_indicators it m = List.map_filter (get_indicator_info it m) (map fst (dm_indicator_funcs m))"

definition isolated :: "'f dep_manager \<Rightarrow> string \<Rightarrow> bool" where
  "isolated m node = (deps_of (dm_graph m) node = [] \<and> deps_of (dm_reverse_graph m) node = [])"

definition edge_lines :: "(string \<Rightarrow> string \<Rightarrow> string) \<Rightarrow> 'f dep_manager \<Rightarrow> string list" where
  "edge_lines fmt m =
    concat (map (\<lambda>node. map (\<lambda>dep. fmt dep node) (sort (deps_of (dm_graph m) node))) (sort (map fst (dm_graph m))))"

definition newline :: string where
  "newline = [char_of (10 :: nat)]"

definition visualize_mermaid :: "(string list \<Rightarrow> string list) \<Rightarrow> 'f dep_manager \<Rightarrow> string" where
  "visualize_mermaid it m =
    join newline ([''graph TD''] @ edge_lines (\<lambda>dep node. ''    '' @ dep @ '' --> '' @ node) m @
      map (\<lambda>node. ''    '' @ node) (filter (isolated m) (it (map fst (dm_indicator_funcs m)))))"

definition visualize_dot :: "(string list \<Rightarrow> string list) \<Rightarrow> 'f dep_manager \<Rightarrow> string" where
  "visualize_dot it m =
    (let dq = [char_of (34 :: nat)]
     in join newline ([''digraph DependencyGraph {'', ''    rankdir=LR;'',
         ''    node [shape=box, style=filled, fillcolor=lightblue];''] @
       edge_lines (\<lambda>dep node. ''    '' @ dq @ dep @ dq @ '' -> '' @ dq @ node @ dq @ '';'') m @
       map (\<lambda>node. ''    '' @ dq @ node @ dq @ '';'') (filter (isolated m) (it (map fst (dm_indicator_funcs m)))) @
       [''}'']))"

definition visualize :: "(string list \<Rightarrow> string list) \<Rightarrow> string \<Rightarrow> 'f dep_manager \<Rightarrow> string res" where
  "visualize it format m =
    (if format = ''mermaid'' then ok (visualize_mermaid it m)
     else if format = ''dot'' then ok (visualize_dot it m)
     else raise (ValueError (''Unsupported format: '' @ format)))"

section \<open>Configuration\<close>

text \<open>The configuration dictionaries have fixed keys and are records; \<open>params\<close> is read with a
  default and may be absent.\<close>

record config_info =
  ci_params :: "pydict option"
  ci_has_func :: bool

record config_dependency =
  cd_from :: string
  cd_to :: string

record dep_config =
  cf_indicators :: "(string \<times> config_info) list"
  cf_dependencies :: "config_dependency list"

definition export_config :: "(string list \<Rightarrow> string list) \<Rightarrow> 'f dep_manager \<Rightarrow> dep_config" where
  "export_config it m =
    \<lparr>cf_indicators = map (\<lambda>(name, params). (name,
        \<lparr>ci_params = Some params, ci_has_func = (map_of (dm_indicator_funcs m) name \<noteq> None)\<rparr>)) (dm_indicator_params m),
     cf_dependencies = concat (map (\<lambda>(indicator, deps).
        map (\<lambda>dep. \<lparr>cd_from = dep, cd_to = indicator\<rparr>) (it deps)) (dm_graph m))\<rparr>"

definition import_config :: "dep_config \<Rightarrow> 'f dep_manager \<Rightarrow> 'f dep_manager" where
  "import_config config m0 =
    (let m = dm_clear m0;
         m1 = m\<lparr>dm_indicator_params := fold (\<lambda>(name, info) ps.
                AList.update name (case ci_params info of None \<Rightarrow> [] | Some p \<Rightarrow> p) ps)
              (cf_indicators config) (dm_indicator_params m)\<rparr>
     in fold (\<lambda>e. add_dependency (cd_to e) (cd_from e)) (cf_dependencies config) m1)"

section \<open>The graph as a relation\<close>

text \<open>The law of set iteration: each element once.\<close>

definition iterates_sets :: "(string list \<Rightarrow> string list) \<Rightarrow> bool" where
  "iterates_sets it \<longleftrightarrow> (\<forall>xs. distinct xs \<longrightarrow> distinct (it xs) \<and> set (it xs) = set xs)"

definition dep_edges :: "dep_graph \<Rightarrow> (string \<times> string) set" where
  "dep_edges g = {(n, d). d \<in> set (deps_of g n)}"

definition graph_wf :: "dep_graph \<Rightarrow> bool" where
  "graph_wf g \<longleftrightarrow> distinct (map fst g) \<and> (\<forall>(k, ds)\<in>set g. distinct ds \<and> ds \<noteq> [])"

definition dm_wf :: "'f dep_manager \<Rightarrow> bool" where
  "dm_wf m \<longleftrightarrow> graph_wf (dm_graph m) \<and> graph_wf (dm_reverse_graph m) \<and>
    dep_edges (dm_reverse_graph m) = (dep_edges (dm_graph m))\<inverse> \<and> irrefl (dep_edges (dm_graph m)) \<and>
    distinct (map fst (dm_indicator_funcs m)) \<and> distinct (map fst (dm_indicator_params m))"

lemma iterates_setsD:
  "iterates_sets it \<Longrightarrow> distinct xs \<Longrightarrow> distinct (it xs)"
  "iterates_sets it \<Longrightarrow> distinct xs \<Longrightarrow> set (it xs) = set xs"
  by (auto simp: iterates_sets_def)

lemma deps_of_Nil [simp]: "deps_of [] n = []"
  by (simp add: deps_of_def)

lemma deps_of_None: "map_of g n = None \<Longrightarrow> deps_of g n = []"
  by (simp add: deps_of_def)

lemma deps_of_update [simp]: "deps_of (AList.update k ds g) n = (if n = k then ds else deps_of g n)"
  by (simp add: deps_of_def)

lemma deps_of_delete [simp]: "deps_of (AList.delete k g) n = (if n = k then [] else deps_of g n)"
  by (simp add: deps_of_def delete_conv')

lemma deps_of_discard_edge [simp]:
  "deps_of (discard_edge k x g) n = (if n = k then set_discard x (deps_of g k) else deps_of g n)"
  by (simp add: discard_edge_def Let_def)

lemma set_add_simps [simp]: "set (set_add x xs) = insert x (set xs)" "distinct xs \<Longrightarrow> distinct (set_add x xs)"
    "set_add x xs \<noteq> []"
  by (auto simp: set_add_def)

lemma set_discard_simps [simp]: "set (set_discard x xs) = set xs - {x}" "distinct xs \<Longrightarrow> distinct (set_discard x xs)"
  by (auto simp: set_discard_def)

lemma mem_dep_edges [simp]: "(n, d) \<in> dep_edges g \<longleftrightarrow> d \<in> set (deps_of g n)"
  by (simp add: dep_edges_def)

lemma graph_wf_Nil [simp]: "graph_wf []"
  by (simp add: graph_wf_def)

lemma graph_wf_update [intro]: "graph_wf g \<Longrightarrow> distinct ds \<Longrightarrow> ds \<noteq> [] \<Longrightarrow> graph_wf (AList.update k ds g)"
  using set_update_subset [of k ds g] by (fastforce simp: graph_wf_def intro: distinct_update)

lemma graph_wf_delete [intro]: "graph_wf g \<Longrightarrow> graph_wf (AList.delete k g)"
  by (auto simp: graph_wf_def AList.delete_eq distinct_map_filter)

lemma graph_wf_distinct: "graph_wf g \<Longrightarrow> distinct (deps_of g n)"
  by (auto simp: graph_wf_def deps_of_def split: option.splits dest: map_of_SomeD)

lemma graph_wf_discard [intro]: "graph_wf g \<Longrightarrow> graph_wf (discard_edge k x g)"
  using graph_wf_distinct [of g k] by (auto simp: discard_edge_def Let_def)

lemma deps_of_keys: "n \<notin> fst ` set g \<Longrightarrow> deps_of g n = []"
  by (auto simp: deps_of_def split: option.splits dest!: map_of_SomeD intro: rev_image_eqI)

lemma set_neighbours: "iterates_sets it \<Longrightarrow> graph_wf g \<Longrightarrow> set (neighbours it g n) = set (deps_of g n)"
  and distinct_neighbours: "iterates_sets it \<Longrightarrow> graph_wf g \<Longrightarrow> distinct (neighbours it g n)"
  using graph_wf_distinct [of g n] by (auto simp: neighbours_def deps_of_def iterates_setsD split: option.splits)

lemma graph_wf_discards: "graph_wf g \<Longrightarrow> graph_wf (fold (\<lambda>k. discard_edge k x) ks g)"
  by (induction ks arbitrary: g) auto

lemma deps_of_discards:
  "set (deps_of (fold (\<lambda>k. discard_edge k x) ks g) n) =
    (if n \<in> set ks then set (deps_of g n) - {x} else set (deps_of g n))"
  by (induction ks arbitrary: g) auto

lemma graph_wf_everywhere: "graph_wf r \<Longrightarrow> graph_wf (discard_everywhere name r)"
proof -
  have "graph_wf (fold (\<lambda>node r. if name \<in> set (deps_of r node) then discard_edge node name r else r) ks r)"
    if "graph_wf r" for ks r
    using that by (induction ks arbitrary: r) auto
  then show "graph_wf r \<Longrightarrow> ?thesis" by (simp add: discard_everywhere_def)
qed

lemma deps_of_everywhere: "set (deps_of (discard_everywhere name r) n) = set (deps_of r n) - {name}"
proof -
  have "set (deps_of (fold (\<lambda>node r. if name \<in> set (deps_of r node) then discard_edge node name r else r) ks r) n) =
      (if n \<in> set ks then set (deps_of r n) - {name} else set (deps_of r n))" for ks
    by (induction ks arbitrary: r) auto
  then show ?thesis using deps_of_keys [of n r] by (auto simp: discard_everywhere_def)
qed

section \<open>Operations on the relation\<close>

text \<open>What a client sees of the manager: the dependency relation and the defined indicators.\<close>

datatype 'f dep_op =
    AddIndicator string 'f pydict "string list option"
  | AddDependency string string
  | RemoveDependency string string
  | RemoveIndicator string
  | ImportConfig dep_config
  | ClearAll

fun dep_step :: "(string list \<Rightarrow> string list) \<Rightarrow> 'f dep_op \<Rightarrow> 'f dep_manager \<Rightarrow> 'f dep_manager" where
  "dep_step it (AddIndicator n f p ds) m = add_indicator n f p ds m"
| "dep_step it (AddDependency n d) m = add_dependency n d m"
| "dep_step it (RemoveDependency n d) m = remove_dependency n d m"
| "dep_step it (RemoveIndicator n) m = snd (remove_indicator it n m)"
| "dep_step it (ImportConfig c) m = import_config c m"
| "dep_step it ClearAll m = dm_clear m"

type_synonym dep_spec = "(string \<times> string) set \<times> string set"

fun spec_step :: "'f dep_op \<Rightarrow> dep_spec \<Rightarrow> dep_spec" where
  "spec_step (AddIndicator n f p ds) (E, D) =
     (E \<union> {(n, d) | d. d \<in> set (case ds of None \<Rightarrow> [] | Some xs \<Rightarrow> xs) \<and> d \<noteq> n}, insert n D)"
| "spec_step (AddDependency n d) (E, D) = (if n = d then E else insert (n, d) E, D)"
| "spec_step (RemoveDependency n d) (E, D) = (E - {(n, d)}, D)"
| "spec_step (RemoveIndicator n) (E, D) =
     (if n \<in> D then ({(a, b) \<in> E. a \<noteq> n \<and> b \<noteq> n}, D - {n}) else (E, D))"
| "spec_step (ImportConfig c) (E, D) =
     ({(cd_to e, cd_from e) | e. e \<in> set (cf_dependencies c) \<and> cd_to e \<noteq> cd_from e}, {})"
| "spec_step ClearAll (E, D) = ({}, {})"

definition dm_abs :: "'f dep_manager \<Rightarrow> dep_spec" where
  "dm_abs m = (dep_edges (dm_graph m), fst ` set (dm_indicator_funcs m))"

lemma add_dependency_fields [simp]:
  "dm_indicator_funcs (add_dependency n d m) = dm_indicator_funcs m"
  "dm_indicator_params (add_dependency n d m) = dm_indicator_params m"
  "dm_indicator_cache_ttl (add_dependency n d m) = dm_indicator_cache_ttl m"
  by (simp_all add: add_dependency_def)

lemma edges_add_dependency:
  "dep_edges (dm_graph (add_dependency n d m)) = dep_edges (dm_graph m) \<union> (if n = d then {} else {(n, d)})"
  by (auto simp: add_dependency_def dep_edges_def split: if_splits)

lemma dm_wf_add_dependency:
  assumes "dm_wf m"
  shows "dm_wf (add_dependency n d m)"
proof (cases "n = d")
  case False
  have conv: "y \<in> set (deps_of (dm_reverse_graph m) x) \<longleftrightarrow> x \<in> set (deps_of (dm_graph m) y)" for x y
    using assms by (auto simp: dm_wf_def set_eq_iff)
  have "dep_edges (dm_reverse_graph (add_dependency n d m)) = (dep_edges (dm_graph (add_dependency n d m)))\<inverse>"
    using False conv by (auto simp: add_dependency_def dep_edges_def split: if_splits)
  moreover have "irrefl (dep_edges (dm_graph (add_dependency n d m)))"
    using assms False by (auto simp: dm_wf_def edges_add_dependency irrefl_def)
  moreover have "graph_wf (dm_graph (add_dependency n d m))" "graph_wf (dm_reverse_graph (add_dependency n d m))"
    using assms False by (auto simp: dm_wf_def add_dependency_def graph_wf_distinct intro!: graph_wf_update)
  ultimately show ?thesis using assms by (simp add: dm_wf_def)
qed (use assms in \<open>simp add: add_dependency_def\<close>)

lemma add_dependencies:
  fixes f h :: "'a \<Rightarrow> string" and xs :: "'a list"
  assumes "dm_wf m"
  defines "m' \<equiv> fold (\<lambda>x. add_dependency (f x) (h x)) xs m"
  shows "dm_wf m'" "dm_indicator_funcs m' = dm_indicator_funcs m" "dm_indicator_params m' = dm_indicator_params m"
    "dm_indicator_cache_ttl m' = dm_indicator_cache_ttl m"
    "dep_edges (dm_graph m') = dep_edges (dm_graph m) \<union> {(f x, h x) | x. x \<in> set xs \<and> f x \<noteq> h x}"
  using assms(1) unfolding m'_def
  by (induction xs arbitrary: m) (auto simp: edges_add_dependency dm_wf_add_dependency)

lemma dm_wf_remove_dependency:
  assumes "dm_wf m"
  shows "dm_wf (remove_dependency n d m)"
    "dep_edges (dm_graph (remove_dependency n d m)) = dep_edges (dm_graph m) - {(n, d)}"
proof -
  have conv: "y \<in> set (deps_of (dm_reverse_graph m) x) \<longleftrightarrow> x \<in> set (deps_of (dm_graph m) y)" for x y
    using assms by (auto simp: dm_wf_def set_eq_iff)
  have g: "set (deps_of (dm_graph (remove_dependency n d m)) k) =
      (if k = n then set (deps_of (dm_graph m) k) - {d} else set (deps_of (dm_graph m) k))" for k
    by (simp add: remove_dependency_def Let_def deps_of_None)
  have r: "set (deps_of (dm_reverse_graph (remove_dependency n d m)) k) =
      (if k = d then set (deps_of (dm_reverse_graph m) k) - {n} else set (deps_of (dm_reverse_graph m) k))" for k
    by (simp add: remove_dependency_def Let_def deps_of_None)
  show "dep_edges (dm_graph (remove_dependency n d m)) = dep_edges (dm_graph m) - {(n, d)}"
    using g by (auto simp: dep_edges_def split: if_splits)
  have "graph_wf (dm_graph (remove_dependency n d m))" "graph_wf (dm_reverse_graph (remove_dependency n d m))"
    using assms by (auto simp: dm_wf_def remove_dependency_def Let_def)
  moreover have "dep_edges (dm_reverse_graph (remove_dependency n d m)) =
      (dep_edges (dm_graph (remove_dependency n d m)))\<inverse>"
    using g r conv by (auto simp: dep_edges_def split: if_splits)
  moreover have "irrefl (dep_edges (dm_graph (remove_dependency n d m)))"
    using assms g by (auto simp: dm_wf_def irrefl_def split: if_splits)
  ultimately show "dm_wf (remove_dependency n d m)"
    using assms by (simp add: dm_wf_def remove_dependency_def Let_def)
qed

lemma map_of_None_fst: "map_of xs k = None \<longleftrightarrow> k \<notin> fst ` set xs"
  by (rule map_of_eq_None_iff)

text \<open>Removing a defined indicator removes exactly the edges it takes part in.\<close>

lemma remove_indicator_eq:
  assumes "n \<in> fst ` set (dm_indicator_funcs m)"
  shows "snd (remove_indicator it n m) = m\<lparr>
    dm_graph := fold (\<lambda>k. discard_edge k n) (neighbours it (dm_reverse_graph m) n) (AList.delete n (dm_graph m)),
    dm_reverse_graph := discard_everywhere n (AList.delete n (dm_reverse_graph m)),
    dm_indicator_params := AList.delete n (dm_indicator_params m),
    dm_indicator_funcs := AList.delete n (dm_indicator_funcs m)\<rparr>"
proof -
  have defined: "map_of (dm_indicator_funcs m) n \<noteq> None" using assms by (metis map_of_None_fst)
  have del: "map_of (dm_reverse_graph m) n = None \<Longrightarrow> AList.delete n (dm_reverse_graph m) = dm_reverse_graph m"
    by (rule delete_id) (simp add: map_of_None_fst)
  show ?thesis
    by (cases "map_of (dm_reverse_graph m) n")
      (use defined del in \<open>auto simp: remove_indicator_def Let_def neighbours_def\<close>)
qed

lemma remove_indicator_wf:
  fixes n :: string
  assumes wfm: "dm_wf m" and it: "iterates_sets it"
  defines "m' \<equiv> snd (remove_indicator it n m)"
  shows "dm_wf m' \<and> dm_abs m' = spec_step (RemoveIndicator n) (dm_abs m)"
proof (cases "n \<in> fst ` set (dm_indicator_funcs m)")
  case False
  then have "m' = m" by (simp add: m'_def remove_indicator_def map_of_None_fst)
  then show ?thesis using False wfm by (simp add: dm_abs_def)
next
  case True
  let ?g = "dm_graph m" let ?r = "dm_reverse_graph m"
  have conv: "y \<in> set (deps_of ?r x) \<longleftrightarrow> x \<in> set (deps_of ?g y)" and irr: "x \<notin> set (deps_of ?g x)" for x y
    using wfm by (auto simp: dm_wf_def set_eq_iff irrefl_def)
  have wf: "graph_wf ?g" "graph_wf ?r" using wfm by (auto simp: dm_wf_def)
  define g2 where "g2 = fold (\<lambda>k. discard_edge k n) (neighbours it ?r n) (AList.delete n ?g)"
  define r2 where "r2 = discard_everywhere n (AList.delete n ?r)"
  note m' = remove_indicator_eq [OF True, of it, folded g2_def r2_def m'_def]
  have g2: "set (deps_of g2 k) = (if k = n then {} else set (deps_of ?g k) - {n})" for k
    unfolding g2_def deps_of_discards set_neighbours [OF it wf(2)] using conv by auto
  have r2: "set (deps_of r2 k) = (if k = n then {} else set (deps_of ?r k) - {n})" for k
    unfolding r2_def deps_of_everywhere by auto
  have "graph_wf g2" "graph_wf r2"
    unfolding g2_def r2_def using wf by (auto intro: graph_wf_discards graph_wf_everywhere)
  moreover have "dep_edges r2 = (dep_edges g2)\<inverse>" "irrefl (dep_edges g2)"
    using g2 r2 conv irr by (auto simp: dep_edges_def irrefl_def split: if_splits)
  ultimately have "dm_wf m'" using wfm by (simp add: dm_wf_def m' distinct_delete)
  moreover have "dep_edges g2 = {(a, b) \<in> dep_edges ?g. a \<noteq> n \<and> b \<noteq> n}"
    using g2 by (auto simp: dep_edges_def split: if_splits)
  ultimately show ?thesis using True by (auto simp: dm_abs_def m' AList.delete_eq)
qed

lemma dm_wf_init [simp]: "dm_wf DependencyManager" "dm_abs DependencyManager = ({}, {})"
  by (auto simp: DependencyManager_def dm_wf_def dm_abs_def irrefl_def dep_edges_def)

lemma dm_wf_clear [simp]: "dm_wf (dm_clear m)" "dm_abs (dm_clear m) = ({}, {})"
  by (auto simp: dm_clear_def dm_wf_def dm_abs_def irrefl_def dep_edges_def)

lemma distinct_updates:
  "distinct (map fst ps) \<Longrightarrow> distinct (map fst (fold (\<lambda>(k, v). AList.update k (f v)) xs ps))"
  by (induction xs arbitrary: ps) (auto simp: distinct_update)

lemma dep_step_correct:
  assumes "dm_wf m" "iterates_sets it"
  shows "dm_wf (dep_step it op m) \<and> dm_abs (dep_step it op m) = spec_step op (dm_abs m)"
proof (cases op)
  case (AddIndicator n f p ds)
  let ?m = "m\<lparr>dm_indicator_params := AList.update n p (dm_indicator_params m),
      dm_indicator_funcs := AList.update n f (dm_indicator_funcs m)\<rparr>"
  have wf: "dm_wf ?m" using assms(1) by (simp add: dm_wf_def distinct_update)
  have funcs: "fst ` set (AList.update n f (dm_indicator_funcs m)) = insert n (fst ` set (dm_indicator_funcs m))"
    by (simp add: dom_update flip: dom_map_of_conv_image_fst)
  show ?thesis
  proof (cases ds)
    case None
    then show ?thesis using wf funcs AddIndicator by (simp add: add_indicator_def dm_abs_def)
  next
    case (Some xs)
    then show ?thesis
      using add_dependencies [OF wf, of "\<lambda>_. n" "\<lambda>x. x" xs] funcs AddIndicator
      by (auto simp: add_indicator_def dm_abs_def)
  qed
next
  case (ImportConfig c)
  let ?m = "(dm_clear m)\<lparr>dm_indicator_params := fold (\<lambda>(name, info) ps.
      AList.update name (case ci_params info of None \<Rightarrow> [] | Some p \<Rightarrow> p) ps) (cf_indicators c) []\<rparr>"
  have "dm_wf ?m"
    using dm_wf_clear(1) [of m] distinct_updates [of "[]" "\<lambda>info. case ci_params info of None \<Rightarrow> [] | Some p \<Rightarrow> p"]
    by (simp add: dm_wf_def)
  from add_dependencies [OF this, of cd_to cd_from "cf_dependencies c"] show ?thesis
    using ImportConfig by (auto simp: import_config_def Let_def dm_abs_def dm_clear_def dep_edges_def)
next
  case (RemoveDependency n d)
  have "dm_indicator_funcs (remove_dependency n d m) = dm_indicator_funcs m"
    by (simp add: remove_dependency_def Let_def)
  then show ?thesis using RemoveDependency assms(1) by (simp add: dm_abs_def dm_wf_remove_dependency)
next
  case (RemoveIndicator n)
  then show ?thesis using remove_indicator_wf [OF assms, of n] by simp
next
  case ClearAll
  then show ?thesis using dm_wf_clear [of m] by (cases "dm_abs m") simp
qed (use assms in \<open>auto simp: dm_abs_def edges_add_dependency dm_wf_add_dependency\<close>)

interpretation deps: event_system "dep_step it" "\<lambda>m. iterates_sets it \<longrightarrow> dm_wf m" for it
  by unfold_locales (use dep_step_correct in blast)

lemma dm_wf_reachable: "iterates_sets it \<Longrightarrow> dm_wf (fold (dep_step it) ops DependencyManager)"
  using deps.inv_run [of it DependencyManager ops] by simp

section \<open>Reachability\<close>

lemma all_deps_loop_sound:
  "iterates_sets it \<Longrightarrow> graph_wf g \<Longrightarrow> x \<in> set (all_deps_loop it g visited stack) \<Longrightarrow>
    x \<in> set visited \<or> (\<exists>s\<in>set stack. (s, x) \<in> (dep_edges g)\<^sup>*)"
proof (induction it g visited stack rule: all_deps_loop.induct)
  case (2 it g visited current stack)
  have "(s, x) \<in> (dep_edges g)\<^sup>* \<Longrightarrow> (current, x) \<in> (dep_edges g)\<^sup>*"
    if "s \<in> set (neighbours it g current)" for s
    using that by (auto simp: set_neighbours [OF 2(3,4)] intro: converse_rtrancl_into_rtrancl)
  with 2 show ?case by (auto simp: Let_def split: if_splits)
qed simp

lemma all_deps_loop_complete:
  "iterates_sets it \<Longrightarrow> graph_wf g \<Longrightarrow>
    (\<forall>n\<in>set visited. set (deps_of g n) \<subseteq> set visited \<union> set stack) \<Longrightarrow>
    set visited \<union> set stack \<subseteq> set (all_deps_loop it g visited stack) \<and>
    (\<forall>n\<in>set (all_deps_loop it g visited stack). set (deps_of g n) \<subseteq> set (all_deps_loop it g visited stack))"
proof (induction it g visited stack rule: all_deps_loop.induct)
  case (2 it g visited current stack)
  show ?case
  proof (cases "current \<in> set visited")
    case True
    then show ?thesis using "2.IH"(1) "2.prems" by auto
  next
    case False
    let ?v = "visited @ [current]"
    let ?s = "rev (filter (\<lambda>dep. dep \<notin> set ?v) (neighbours it g current)) @ stack"
    have "\<forall>n\<in>set ?v. set (deps_of g n) \<subseteq> set ?v \<union> set ?s"
      using "2.prems" by (auto simp: set_neighbours)
    from "2.IH"(2) [OF False refl "2.prems"(1,2) this] show ?thesis using False by (auto simp: Let_def)
  qed
qed simp

lemma closed_rtrancl:
  "\<forall>n\<in>V. set (deps_of g n) \<subseteq> V \<Longrightarrow> (x, y) \<in> (dep_edges g)\<^sup>* \<Longrightarrow> x \<in> V \<Longrightarrow> y \<in> V"
  by (rotate_tac 1, induction rule: rtrancl_induct) auto

lemma all_deps_loop_closure:
  assumes "iterates_sets it" "graph_wf g"
  shows "set (all_deps_loop it g [] [n]) = (dep_edges g)\<^sup>* `` {n}"
  using all_deps_loop_sound [OF assms, of _ "[]" "[n]"] all_deps_loop_complete [OF assms, of "[]" "[n]"]
    closed_rtrancl [of "set (all_deps_loop it g [] [n])" g n] by auto

lemma distinct_all_deps_loop: "distinct visited \<Longrightarrow> distinct (all_deps_loop it g visited stack)"
  by (induction it g visited stack rule: all_deps_loop.induct) (auto simp: Let_def)

lemma rtrancl_Image_subset: "A \<subseteq> r\<^sup>* `` B \<Longrightarrow> r\<^sup>* `` A \<subseteq> r\<^sup>* `` B"
  by (blast intro: rtrancl_trans)

lemma discover_effect:
  "\<exists>new. discover ds rel st = (rel @ rev new, new @ st) \<and> set new = set ds - set rel \<and> distinct new"
proof (induction ds rel st rule: discover.induct)
  case (2 d ds rel st)
  show ?case
  proof (cases "d \<in> set rel")
    case False
    with 2 obtain new where "discover ds (rel @ [d]) (d # st) = ((rel @ [d]) @ rev new, new @ d # st)"
      "set new = set ds - set (rel @ [d])" "distinct new" by blast
    then show ?thesis using False by (intro exI [of _ "new @ [d]"]) auto
  qed (use 2 in auto)
qed auto

lemma collect_relevant_correct:
  "iterates_sets it \<Longrightarrow> graph_wf g \<Longrightarrow> set stack \<subseteq> set rel \<Longrightarrow> distinct rel \<Longrightarrow>
    (\<forall>n\<in>set rel - set stack. set (deps_of g n) \<subseteq> set rel) \<Longrightarrow>
    distinct (collect_relevant it g rel stack) \<and> set rel \<subseteq> set (collect_relevant it g rel stack) \<and>
    (\<forall>n\<in>set (collect_relevant it g rel stack). set (deps_of g n) \<subseteq> set (collect_relevant it g rel stack)) \<and>
    set (collect_relevant it g rel stack) \<subseteq> (dep_edges g)\<^sup>* `` set rel"
proof (induction it g rel stack rule: collect_relevant.induct)
  case (2 it g rel current stack)
  obtain new where new: "discover (neighbours it g current) rel stack = (rel @ rev new, new @ stack)"
    "set new = set (neighbours it g current) - set rel" "distinct new" using discover_effect by blast
  note nb = set_neighbours [OF 2(2,3)]
  let ?R = "collect_relevant it g (rel @ rev new) (new @ stack)"
  have prem: "set (new @ stack) \<subseteq> set (rel @ rev new)" "distinct (rel @ rev new)"
      "\<forall>n\<in>set (rel @ rev new) - set (new @ stack). set (deps_of g n) \<subseteq> set (rel @ rev new)"
    using 2(4,5,6) new(2,3) nb by auto
  from 2(1) [OF new(1) [symmetric] refl 2(2,3) prem]
  have ih: "distinct ?R" "set (rel @ rev new) \<subseteq> set ?R" "\<forall>n\<in>set ?R. set (deps_of g n) \<subseteq> set ?R"
      "set ?R \<subseteq> (dep_edges g)\<^sup>* `` set (rel @ rev new)" by blast+
  have R: "collect_relevant it g rel (current # stack) = ?R" by (simp add: new(1))
  have "set new \<subseteq> dep_edges g `` {current}" using new(2) nb by auto
  then have "set (rel @ rev new) \<subseteq> (dep_edges g)\<^sup>* `` set rel" using 2(4) by auto
  from rtrancl_Image_subset [OF this]
  have "set ?R \<subseteq> (dep_edges g)\<^sup>* `` set rel" by (rule order_trans [OF ih(4)])
  with ih(1,2,3) show ?case unfolding R by simp
qed (auto intro: rev_ImageI)

lemma relevant_nodes_correct:
  assumes it: "iterates_sets it" and g: "graph_wf g" and t: "distinct targets"
  shows "distinct (relevant_nodes it g targets)"
    "set (relevant_nodes it g targets) = (dep_edges g)\<^sup>* `` set targets"
proof -
  define F where "F = fold (\<lambda>indicator relevant. collect_relevant it g (set_add indicator relevant) [indicator])"
  have "distinct (F ts rel) \<and> set rel \<union> set ts \<subseteq> set (F ts rel) \<and>
      (\<forall>n\<in>set (F ts rel). set (deps_of g n) \<subseteq> set (F ts rel)) \<and>
      set (F ts rel) \<subseteq> (dep_edges g)\<^sup>* `` (set rel \<union> set ts)"
    if "distinct rel" "\<forall>n\<in>set rel. set (deps_of g n) \<subseteq> set rel" for ts rel
    using that
  proof (induction ts arbitrary: rel)
    case Nil
    then show ?case by (auto simp: F_def)
  next
    case (Cons t ts)
    define r where "r = collect_relevant it g (set_add t rel) [t]"
    have prem: "set [t] \<subseteq> set (set_add t rel)" "distinct (set_add t rel)"
        "\<forall>n\<in>set (set_add t rel) - set [t]. set (deps_of g n) \<subseteq> set (set_add t rel)"
      using Cons.prems by auto
    from collect_relevant_correct [OF it g prem, folded r_def]
    have c: "distinct r" "set (set_add t rel) \<subseteq> set r" "\<forall>n\<in>set r. set (deps_of g n) \<subseteq> set r"
        "set r \<subseteq> (dep_edges g)\<^sup>* `` set (set_add t rel)"
      by blast+
    have "F (t # ts) rel = F ts r" by (simp add: F_def r_def)
    moreover have "set r \<union> set ts \<subseteq> (dep_edges g)\<^sup>* `` (set rel \<union> set (t # ts))"
      using c(4) by auto
    note rtrancl_Image_subset [OF this]
    ultimately show ?case using Cons.IH [OF c(1,3)] c(2) by auto
  qed
  from this [of "[]" "it targets"] iterates_setsD [OF it t]
  have F: "distinct (F (it targets) [])" "set targets \<subseteq> set (F (it targets) [])"
      "\<forall>n\<in>set (F (it targets) []). set (deps_of g n) \<subseteq> set (F (it targets) [])"
      "set (F (it targets) []) \<subseteq> (dep_edges g)\<^sup>* `` set targets" by auto
  then show "distinct (relevant_nodes it g targets)" by (simp add: relevant_nodes_def F_def)
  have "(dep_edges g)\<^sup>* `` set targets \<subseteq> set (F (it targets) [])"
    using closed_rtrancl [OF F(3)] F(2) by auto
  with F(4) show "set (relevant_nodes it g targets) = (dep_edges g)\<^sup>* `` set targets"
    by (auto simp: relevant_nodes_def F_def)
qed

section \<open>Kahn's algorithm\<close>

text \<open>How many of the nodes \<open>M\<close> depend on \<open>n\<close>.\<close>

definition dependents_in :: "dep_graph \<Rightarrow> string set \<Rightarrow> string \<Rightarrow> int" where
  "dependents_in g M n = int (card {m \<in> M. n \<in> set (deps_of g m)})"

lemma dependents_in_simps [simp]: "dependents_in g {} n = 0" "0 \<le> dependents_in g M n"
  by (simp_all add: dependents_in_def)

lemma dependents_in_insert:
  assumes "finite M" "m \<notin> M"
  shows "dependents_in g (insert m M) n = dependents_in g M n + (if n \<in> set (deps_of g m) then 1 else 0)"
proof -
  have "{x \<in> insert m M. n \<in> set (deps_of g x)} =
      (if n \<in> set (deps_of g m) then insert m {x \<in> M. n \<in> set (deps_of g x)} else {x \<in> M. n \<in> set (deps_of g x)})"
    by auto
  then show ?thesis using assms by (simp add: dependents_in_def)
qed

lemma dependents_in_Diff:
  assumes "finite M" "L \<subseteq> M"
  shows "dependents_in g (M - L) n = dependents_in g M n - dependents_in g L n"
proof -
  have "{m \<in> M - L. n \<in> set (deps_of g m)} = {m \<in> M. n \<in> set (deps_of g m)} - {m \<in> L. n \<in> set (deps_of g m)}"
    by auto
  moreover have "{m \<in> L. n \<in> set (deps_of g m)} \<subseteq> {m \<in> M. n \<in> set (deps_of g m)}" using assms by auto
  ultimately show ?thesis using assms finite_subset [OF assms(2,1)]
    by (simp add: dependents_in_def card_Diff_subset card_mono of_nat_diff)
qed

lemma dependents_in_zero: "finite M \<Longrightarrow> dependents_in g M n = 0 \<longleftrightarrow> (\<forall>m\<in>M. n \<notin> set (deps_of g m))"
  by (auto simp: dependents_in_def)

lemma relax_effect:
  "distinct ns \<Longrightarrow> set ns \<subseteq> set rel \<Longrightarrow>
    relax rel ns q d = (q @ filter (\<lambda>n. d n = 1) ns, \<lambda>n. if n \<in> set ns then d n - 1 else d n)"
proof (induction ns arbitrary: q d)
  case (Cons n ns)
  let ?d = "d(n := d n - 1)"
  have d: "(\<lambda>k. if k \<in> set ns then ?d k - 1 else ?d k) = (\<lambda>k. if k \<in> set (n # ns) then d k - 1 else d k)"
    and q: "filter (\<lambda>k. ?d k = 1) ns = filter (\<lambda>k. d k = 1) ns"
    using Cons.prems by (auto simp: fun_eq_iff intro: filter_cong)
  have "n \<in> set rel" using Cons.prems by simp
  then have "relax rel (n # ns) q d = relax rel ns (if d n - 1 = 0 then q @ [n] else q) ?d"
    by (simp only: relax.simps if_True)
  also have "\<dots> = ((if d n - 1 = 0 then q @ [n] else q) @ filter (\<lambda>k. d k = 1) ns,
      \<lambda>k. if k \<in> set (n # ns) then d k - 1 else d k)"
    unfolding d [symmetric] q [symmetric] using Cons.prems by (intro Cons.IH) auto
  finally show ?case by simp
qed simp

text \<open>A graph whose closed part \<open>rel\<close> the algorithm runs on.\<close>

definition closed_part :: "(string list \<Rightarrow> string list) \<Rightarrow> dep_graph \<Rightarrow> string list \<Rightarrow> bool" where
  "closed_part it g rel \<longleftrightarrow> iterates_sets it \<and> graph_wf g \<and> distinct rel \<and>
    (\<forall>n\<in>set rel. set (deps_of g n) \<subseteq> set rel)"

lemma closed_partD:
  assumes "closed_part it g rel" "n \<in> set rel"
  shows "distinct (neighbours it g n)" "set (neighbours it g n) \<subseteq> set rel"
    "set (neighbours it g n) = set (deps_of g n)"
  using assms by (auto simp: closed_part_def distinct_neighbours set_neighbours)

lemma in_degrees_eq:
  assumes "closed_part it g rel"
  shows "in_degrees it g rel n = dependents_in g (set rel) n"
proof -
  have inner: "fold (\<lambda>k d. if k \<in> set rel then d(k := d k + 1) else d) ns d =
      (\<lambda>k. if k \<in> set ns then d k + 1 else d k)"
    if "distinct ns" "set ns \<subseteq> set rel" for ns and d :: "string \<Rightarrow> int"
    using that by (induction ns arbitrary: d) (auto simp: fun_eq_iff)
  have "fold (\<lambda>m d. fold (\<lambda>k d. if k \<in> set rel then d(k := d k + 1) else d) (neighbours it g m) d) ms d n =
      d n + dependents_in g (set ms) n" if "distinct ms" "set ms \<subseteq> set rel" for ms and d :: "string \<Rightarrow> int"
    using that
  proof (induction ms arbitrary: d)
    case (Cons m ms)
    note nb = closed_partD [OF assms, of m]
    from Cons show ?case using nb by (simp add: inner dependents_in_insert)
  qed simp
  moreover have "distinct (it rel)" "set (it rel) = set rel"
    using assms by (auto simp: closed_part_def iterates_setsD)
  ultimately show ?thesis by (simp add: in_degrees_def)
qed

lemma run_level_effect:
  "closed_part it g rel \<Longrightarrow> distinct level \<Longrightarrow> set level \<subseteq> set rel \<Longrightarrow>
    run_level it g rel level q d = (q', d') \<Longrightarrow>
    (\<forall>n. d' n = d n - dependents_in g (set level) n) \<and>
    (\<exists>new. q' = q @ new \<and> distinct new \<and> set new = {n. 0 < d n \<and> d' n \<le> 0})"
proof (induction it g rel level q d rule: run_level.induct)
  case (2 it g rel m level q d)
  note nb = closed_partD [OF 2(2), of m]
  let ?ns = "neighbours it g m"
  define d1 where "d1 n = (if n \<in> set ?ns then d n - 1 else d n)" for n
  have rx: "relax rel ?ns q d = (q @ filter (\<lambda>n. d n = 1) ?ns, d1)"
    using nb 2(4) by (simp add: relax_effect fun_eq_iff d1_def)
  have rl: "run_level it g rel level (q @ filter (\<lambda>n. d n = 1) ?ns) d1 = (q', d')"
    using 2(5) rx by simp
  from 2(1) [OF rx [symmetric] refl 2(2) _ _ rl] 2(3,4) obtain new
    where ih: "\<forall>n. d' n = d1 n - dependents_in g (set level) n"
      "q' = (q @ filter (\<lambda>n. d n = 1) ?ns) @ new" "distinct new" "set new = {n. 0 < d1 n \<and> d' n \<le> 0}"
    by auto
  have d': "d' n = d n - dependents_in g (set (m # level)) n" for n
    using ih(1) 2(3,4) nb by (simp add: dependents_in_insert d1_def)
  have le: "d' n \<le> d1 n" for n using ih(1) dependents_in_simps(2) [of g "set level" n] by simp
  have "set (filter (\<lambda>n. d n = 1) ?ns) \<union> set new = {n. 0 < d n \<and> d' n \<le> 0}" (is "?A = ?B")
  proof (rule set_eqI)
    fix n show "n \<in> ?A \<longleftrightarrow> n \<in> ?B"
      using le [of n] by (auto simp: ih(4) d1_def split: if_splits)
  qed
  moreover have "distinct (filter (\<lambda>n. d n = 1) ?ns @ new)"
    using ih(3,4) nb 2(4) by (auto simp: d1_def)
  ultimately show ?case using d' ih(2)
    by (intro conjI exI [of _ "filter (\<lambda>n. d n = 1) ?ns @ new"]) auto
qed auto

definition kahn_inv :: "dep_graph \<Rightarrow> string list \<Rightarrow> string list \<Rightarrow> (string \<Rightarrow> int) \<Rightarrow> string list list \<Rightarrow> bool" where
  "kahn_inv g rel queue d result \<longleftrightarrow>
    distinct (concat result @ queue) \<and> set (concat result @ queue) \<subseteq> set rel \<and>
    (\<forall>n. d n = dependents_in g (set rel - set (concat result)) n) \<and>
    (\<forall>n\<in>set rel. d n = 0 \<longrightarrow> n \<in> set (concat result @ queue)) \<and>
    (\<forall>n\<in>set (concat result @ queue). d n = 0) \<and>
    (\<forall>before level after. result = before @ level # after \<longrightarrow>
      (\<forall>n\<in>set level. \<forall>m\<in>set rel. n \<in> set (deps_of g m) \<longrightarrow> m \<in> set (concat before)))"

lemma snoc_split:
  "xs @ [x] = before @ level # after \<longleftrightarrow>
    (after = [] \<and> before = xs \<and> level = x) \<or> (\<exists>after'. after = after' @ [x] \<and> xs = before @ level # after')"
  by (cases after rule: rev_cases) auto

lemma kahn_inv_level:
  assumes part: "closed_part it g rel" and inv: "kahn_inv g rel queue d result"
    and run: "run_level it g rel queue [] d = (queue1, d1)"
  shows "kahn_inv g rel queue1 d1 (result @ [queue])"
proof -
  let ?done = "set (concat result)"
  note inv' = inv [unfolded kahn_inv_def]
  have dist: "distinct (concat result @ queue)" and sub: "set (concat result @ queue) \<subseteq> set rel"
    and deg: "\<And>n. d n = dependents_in g (set rel - ?done) n"
    and zero: "\<And>n. n \<in> set rel \<Longrightarrow> d n = 0 \<Longrightarrow> n \<in> set (concat result @ queue)"
    and zero': "\<And>n. n \<in> set (concat result @ queue) \<Longrightarrow> d n = 0" using inv' by blast+
  from run_level_effect [OF part _ _ run] dist sub
  have d1: "\<And>n. d1 n = d n - dependents_in g (set queue) n"
    and q1: "distinct queue1" "set queue1 = {n. 0 < d n \<and> d1 n \<le> 0}" by auto
  have "set queue \<subseteq> set rel - ?done" using dist sub by auto
  from dependents_in_Diff [OF _ this]
  have deg1: "d1 n = dependents_in g (set rel - set (concat (result @ [queue]))) n" for n
    by (simp add: d1 deg set_diff_eq Diff_Diff_Int)
  have nonneg: "0 \<le> d1 n" for n by (simp add: deg1)
  have pos: "n \<in> set rel" if "0 < d n" for n
  proof -
    have "\<not> (\<forall>m\<in>set rel - ?done. n \<notin> set (deps_of g m))"
      using that deg [of n] dependents_in_zero [of "set rel - ?done" g n] by auto
    then show ?thesis using part by (auto simp: closed_part_def)
  qed
  have "n \<notin> set (concat result @ queue)" if "n \<in> set queue1" for n
    using that q1(2) zero' [of n] by force
  then have c1: "distinct (concat (result @ [queue]) @ queue1)"
    using dist q1(1) by auto
  have c2: "set (concat (result @ [queue]) @ queue1) \<subseteq> set rel" using sub q1 pos by auto
  have c3: "\<forall>n\<in>set rel. d1 n = 0 \<longrightarrow> n \<in> set (concat (result @ [queue]) @ queue1)"
    using zero q1 deg by (auto simp: less_le)
  have c4: "d1 n = 0" if "n \<in> set (concat (result @ [queue]) @ queue1)" for n
  proof -
    have "d1 n \<le> d n" using d1 [of n] dependents_in_simps(2) [of g "set queue" n] by linarith
    moreover have "d n = 0 \<or> d1 n \<le> 0" using that zero' [of n] q1(2) by auto
    ultimately show ?thesis using nonneg [of n] by linarith
  qed
  have "m \<in> ?done" if "n \<in> set queue" "m \<in> set rel" "n \<in> set (deps_of g m)" for n m
    using zero' [of n] deg [of n] dependents_in_zero [of "set rel - ?done" g n] that by auto
  then have c5: "\<forall>before level after. result @ [queue] = before @ level # after \<longrightarrow>
      (\<forall>n\<in>set level. \<forall>m\<in>set rel. n \<in> set (deps_of g m) \<longrightarrow> m \<in> set (concat before))"
    using inv' by (simp only: snoc_split) blast
  show ?thesis unfolding kahn_inv_def using c1 c2 deg1 c3 c4 c5 by blast
qed

lemma kahn_final:
  "closed_part it g rel \<Longrightarrow> kahn_inv g rel queue d result \<Longrightarrow> kahn it g rel queue d result = (result', d') \<Longrightarrow>
    kahn_inv g rel [] d' result'"
proof (induction it g rel queue d result rule: kahn.induct)
  case (1 it g rel queue d result)
  show ?case
  proof (cases "queue = []")
    case True
    then show ?thesis using 1 by (simp add: kahn.simps)
  next
    case False
    obtain queue1 d1 where r: "run_level it g rel queue [] d = (queue1, d1)" by (cases "run_level it g rel queue [] d")
    with 1(4) False have "kahn it g rel queue1 d1 (result @ [queue]) = (result', d')"
      by (simp add: kahn.simps [of it g rel queue])
    from 1(1) [OF False r [symmetric] refl 1(2) kahn_inv_level [OF 1(2,3) r] this] show ?thesis .
  qed
qed

text \<open>Every node's dependencies are in strictly earlier levels.\<close>

definition dependencies_first :: "dep_graph \<Rightarrow> string list list \<Rightarrow> bool" where
  "dependencies_first g levels \<longleftrightarrow>
    (\<forall>before level after. levels = before @ level # after \<longrightarrow>
      (\<forall>n\<in>set level. set (deps_of g n) \<subseteq> set (concat before)))"

lemma dependencies_first_acyclic:
  assumes "dependencies_first g levels"
  shows "acyclic (Restr (dep_edges g) (set (concat levels)))"
proof (rule acyclicI_order)
  let ?f = "\<lambda>n. LEAST i. n \<in> set (concat (take i levels))"
  fix n d assume "(n, d) \<in> Restr (dep_edges g) (set (concat levels))"
  then have n: "n \<in> set (concat (take (length levels) levels))" and d: "d \<in> set (deps_of g n)" by auto
  define k where "k = ?f n"
  have k: "n \<in> set (concat (take k levels))" unfolding k_def
    using n by (rule LeastI [where P = "\<lambda>i. n \<in> set (concat (take i levels))"])
  obtain j where j: "k = Suc j" using k by (cases k) auto
  have "k \<le> length levels" unfolding k_def
    using n by (rule Least_le [where P = "\<lambda>i. n \<in> set (concat (take i levels))"])
  then have tk: "take k levels = take j levels @ [levels ! j]"
    using j by (simp add: take_Suc_conv_app_nth)
  have "n \<notin> set (concat (take j levels))"
    using not_less_Least [of j "\<lambda>i. n \<in> set (concat (take i levels))"] j by (simp add: k_def)
  then have "n \<in> set (levels ! j)" using k tk by auto
  moreover have "levels = take j levels @ levels ! j # drop (Suc j) levels"
    using \<open>k \<le> length levels\<close> j by (simp add: id_take_nth_drop)
  ultimately have "d \<in> set (concat (take j levels))"
    using assms d unfolding dependencies_first_def by blast
  then have "?f d \<le> j" by (rule Least_le [where P = "\<lambda>i. d \<in> set (concat (take i levels))"])
  then show "?f d < ?f n" using j by (simp add: k_def)
qed

lemma kahn_inv_dependencies_first:
  assumes part: "closed_part it g rel" and inv: "kahn_inv g rel [] d result"
    and all: "set (concat result) = set rel"
  shows "dependencies_first g (rev result)"
  unfolding dependencies_first_def
proof (intro allI impI ballI subsetI)
  fix before level after n x
  assume split: "rev result = before @ level # after" and n: "n \<in> set level" and x: "x \<in> set (deps_of g n)"
  have result: "result = rev after @ level # rev before"
    using arg_cong [OF split, of rev] by simp
  have n_rel: "n \<in> set rel" using result n all by auto
  then have x_rel: "x \<in> set rel" using part x by (auto simp: closed_part_def)
  have order: "m \<in> set (concat pre)" if "result = pre @ l # post" "y \<in> set l" "m \<in> set rel" "y \<in> set (deps_of g m)"
    for pre l post y m using inv that unfolding kahn_inv_def by blast
  have dist: "distinct (concat result)" using inv by (simp add: kahn_inv_def)
  show "x \<in> set (concat before)"
  proof (rule ccontr)
    assume "x \<notin> set (concat before)"
    then have "x \<in> set (concat (rev after @ [level]))" using x_rel all result by auto
    then obtain l where l_in: "l \<in> set (rev after @ [level])" and "x \<in> set l" by auto
    from split_list [OF l_in] obtain pre post where l: "rev after @ [level] = pre @ l # post" by blast
    have "result = (rev after @ [level]) @ rev before" using result by simp
    then have "result = pre @ l # (post @ rev before)" unfolding l by simp
    from order [OF this \<open>x \<in> set l\<close> n_rel x] have "n \<in> set (concat pre)" .
    moreover have "set pre \<subseteq> set (rev after)" using l unfolding snoc_split by (auto simp del: set_rev)
    ultimately have "n \<in> set (concat (rev after))" by auto
    then show False using dist n unfolding result by auto
  qed
qed

lemma kahn_inv_start:
  assumes "closed_part it g rel"
  shows "kahn_inv g rel (filter (\<lambda>n. in_degrees it g rel n = 0) (it rel)) (in_degrees it g rel) []"
proof -
  have "distinct (it rel)" "set (it rel) = set rel" using assms by (auto simp: closed_part_def iterates_setsD)
  then show ?thesis using in_degrees_eq [OF assms] by (auto simp: kahn_inv_def)
qed

text \<open>What the loop leaves behind: the nodes with a positive in-degree are those not in the result,
  and each of them is needed by another of them.\<close>

lemma kahn_outcome:
  assumes part: "closed_part it g rel" and inv: "kahn_inv g rel [] d result"
  defines "rest \<equiv> filter (\<lambda>n. 0 < d n) (it rel)"
  shows "set rest = set rel - set (concat result)" "n \<in> set rest \<Longrightarrow> \<exists>k\<in>set rest. (k, n) \<in> dep_edges g"
proof -
  have deg: "\<And>n. d n = dependents_in g (set rel - set (concat result)) n"
    and zero: "\<And>n. n \<in> set rel \<Longrightarrow> d n = 0 \<longleftrightarrow> n \<in> set (concat result)"
    using inv unfolding kahn_inv_def by auto
  have "set (it rel) = set rel" using part by (simp add: closed_part_def iterates_setsD)
  then show rest: "set rest = set rel - set (concat result)"
    using zero deg by (auto simp: rest_def less_le)
  assume "n \<in> set rest"
  then have "d n = dependents_in g (set rest) n" "0 < d n" using deg rest by (auto simp: rest_def)
  then show "\<exists>k\<in>set rest. (k, n) \<in> dep_edges g" using dependents_in_zero [of "set rest" g n] by auto
qed

lemma stuck_nodes_cyclic:
  assumes "finite R" "ns \<noteq> {}" "ns \<subseteq> R" "\<And>n. n \<in> ns \<Longrightarrow> \<exists>k\<in>ns. (k, n) \<in> E"
  shows "\<not> acyclic (Restr E R)"
proof
  assume "acyclic (Restr E R)"
  moreover have "finite (Restr E R)" using assms(1) by auto
  ultimately have "wf (Restr E R)" by (rule finite_acyclic_wf [rotated])
  then obtain z where "z \<in> ns" "\<And>y. (y, z) \<in> Restr E R \<Longrightarrow> y \<notin> ns"
    using assms(2) by (metis wf_eq_minimal ex_in_conv)
  then show False using assms(3,4) by blast
qed

lemma relevant_closed_part:
  fixes indicators :: "string list option"
  assumes it: "iterates_sets it" and m: "dm_wf m"
  defines "rel \<equiv> relevant_nodes it (dm_graph m) (target_indicators m indicators)"
  shows "closed_part it (dm_graph m) rel" "set rel = (dep_edges (dm_graph m))\<^sup>* `` set (target_indicators m indicators)"
proof -
  have g: "graph_wf (dm_graph m)" and t: "distinct (target_indicators m indicators)"
    using m by (auto simp: dm_wf_def target_indicators_def split: option.splits)
  note rel = relevant_nodes_correct [OF it g t, folded rel_def]
  show "set rel = (dep_edges (dm_graph m))\<^sup>* `` set (target_indicators m indicators)" by (rule rel(2))
  have "set (deps_of (dm_graph m) n) \<subseteq> set rel" if "n \<in> set rel" for n
    using that unfolding rel(2) by (auto simp: Image_iff) (meson mem_dep_edges rtrancl.rtrancl_into_rtrancl)
  then show "closed_part it (dm_graph m) rel" unfolding closed_part_def using it g rel(1) by simp
qed

lemma execution_order_wf:
  fixes indicators :: "string list option"
  assumes it: "iterates_sets it" and m: "dm_wf m"
  defines "E \<equiv> dep_edges (dm_graph m)" and "R \<equiv> (dep_edges (dm_graph m))\<^sup>* `` set (target_indicators m indicators)"
  shows "if acyclic (Restr E R)
    then \<exists>levels. get_execution_order it m indicators = ok levels \<and> distinct (concat levels) \<and>
      set (concat levels) = R \<and> dependencies_first (dm_graph m) levels
    else \<exists>ns. get_execution_order it m indicators = raise (ValueError (circular_message ns)) \<and> ns \<noteq> [] \<and>
      set ns \<subseteq> R \<and> (\<forall>n\<in>set ns. \<exists>k\<in>set ns. (k, n) \<in> E)"
proof -
  let ?g = "dm_graph m"
  define rel where "rel = relevant_nodes it ?g (target_indicators m indicators)"
  note part = relevant_closed_part(1) [OF it m, of indicators, folded rel_def]
  have R: "set rel = R" unfolding rel_def R_def by (rule relevant_closed_part(2) [OF it m])
  obtain result d1 where run: "kahn it ?g rel (filter (\<lambda>n. in_degrees it ?g rel n = 0) (it rel))
      (in_degrees it ?g rel) [] = (result, d1)" by fastforce
  have inv: "kahn_inv ?g rel [] d1 result" by (rule kahn_final [OF part kahn_inv_start [OF part] run])
  define rest where "rest = filter (\<lambda>n. 0 < d1 n) (it rel)"
  note rest = kahn_outcome [OF part inv, folded rest_def]
  have eq: "get_execution_order it m indicators =
      (if rest \<noteq> [] then raise (ValueError (circular_message rest)) else ok (rev result))"
    by (simp add: get_execution_order_def Let_def run rest_def flip: rel_def)
  have sub: "set (concat result) \<subseteq> set rel" and dist: "distinct (concat result)"
    using inv unfolding kahn_inv_def by auto
  show ?thesis
  proof (cases "rest = []")
    case True
    then have all: "set (concat result) = set rel" using rest(1) sub by auto
    have first: "dependencies_first ?g (rev result)" by (rule kahn_inv_dependencies_first [OF part inv all])
    have "set (concat (rev result)) = R" "distinct (concat (rev result))"
      using all R dist by (auto simp: distinct_concat_iff removeAll_filter_not_eq simp flip: rev_filter)
    then show ?thesis using dependencies_first_acyclic [OF first] first True eq by (auto simp: E_def)
  next
    case False
    have "set rest \<noteq> {}" using False by simp
    moreover have "finite R" "set rest \<subseteq> R" using rest(1) R by auto
    ultimately have "\<not> acyclic (Restr E R)"
      by (intro stuck_nodes_cyclic [of R "set rest"]) (simp_all add: E_def rest(2) del: mem_dep_edges)
    then show ?thesis using False eq rest R by (auto simp: E_def)
  qed
qed

lemma update_fresh: "k \<notin> fst ` set xs \<Longrightarrow> AList.update k v xs = xs @ [(k, v)]"
  by (induction xs) auto

lemma updates_fresh:
  "distinct (map fst (ps @ xs)) \<Longrightarrow> fold (\<lambda>e. AList.update (fst e) (snd e)) xs ps = ps @ xs"
  by (induction xs arbitrary: ps) (simp_all add: update_fresh)

lemma fold_export_params:
  "fold (\<lambda>(name, info). AList.update name (case ci_params info of None \<Rightarrow> [] | Some p \<Rightarrow> p))
     (cf_indicators (export_config it m)) ps =
    fold (\<lambda>e. AList.update (fst e) (snd e)) (dm_indicator_params m) ps"
  by (simp add: export_config_def fold_map comp_def case_prod_beta)

lemma export_edges:
  assumes "iterates_sets it" "graph_wf (dm_graph m)"
  shows "{(cd_to e, cd_from e) | e. e \<in> set (cf_dependencies (export_config it m))} = dep_edges (dm_graph m)"
proof -
  have ds: "set (it ds) = set (deps_of (dm_graph m) n)" if "(n, ds) \<in> set (dm_graph m)" for n ds
    using that assms by (auto simp: graph_wf_def deps_of_def iterates_setsD)
  have "(n, deps_of (dm_graph m) n) \<in> set (dm_graph m)" if "d \<in> set (deps_of (dm_graph m) n)" for n d
    using that by (auto simp: deps_of_def split: option.splits dest: map_of_SomeD)
  with ds have "dep_edges (dm_graph m) = {(n, d). \<exists>ds. (n, ds) \<in> set (dm_graph m) \<and> d \<in> set (it ds)}"
    by (auto simp: dep_edges_def) blast
  also have "\<dots> = {(cd_to e, cd_from e) | e. e \<in> set (cf_dependencies (export_config it m))}"
    by (force simp: export_config_def)
  finally show ?thesis by simp
qed

lemma iterates_sets_rev: "iterates_sets rev"
  by (simp add: iterates_sets_def)

section \<open>Properties\<close>

text \<open>C25: The dependency manager implements a binary relation with a set of defined indicators: after
  any sequence of additions, removals, imports and clearings, whatever the order in which sets
  are iterated, the forward graph and the defined names are what the same operations do to the
  relation, the reverse graph is its converse, no indicator depends on itself, and no key is
  left with an empty set.\<close>

theorem manager_refines_relation:
  assumes "iterates_sets it"
  shows "dm_abs (fold (dep_step it) ops DependencyManager) = fold spec_step ops ({}, {}) \<and>
    dm_wf (fold (dep_step it) ops DependencyManager)"
proof -
  have "dm_wf m \<Longrightarrow> dm_abs (fold (dep_step it) ops m) = fold spec_step ops (dm_abs m)" for m
    by (induction ops arbitrary: m) (simp_all add: dep_step_correct [OF _ assms])
  then show ?thesis using dm_wf_reachable [OF assms] by simp
qed

definition sample_ops :: "unit dep_op list" where
  "sample_ops = [AddIndicator ''rsi'' () [] None, AddIndicator ''macd'' () [] (Some [''ema'', ''macd'']),
     AddIndicator ''ema'' () [] None, AddDependency ''signal'' ''macd'', AddDependency ''ema'' ''sma'',
     RemoveDependency ''ema'' ''sma'']"

theorem manager_refines_relation_witness:
  "dm_abs (fold (dep_step rev) sample_ops DependencyManager) =
    ({(''macd'', ''ema''), (''signal'', ''macd'')}, {''rsi'', ''macd'', ''ema''})"
  using manager_refines_relation [OF iterates_sets_rev, of sample_ops]
  by (simp add: sample_ops_def) auto

text \<open>C3: The execution order: for the requested indicators and everything they depend on, directly
  or not, the loop returns levels that contain each of them once, with every dependency in a
  strictly earlier level, whenever the dependencies have no cycle; otherwise it raises, naming
  a non-empty set of those indicators in which each is needed by another. It returns or raises
  in every case, whatever the order in which sets are iterated.\<close>

theorem execution_order_correct:
  assumes "iterates_sets it"
  shows "let m = fold (dep_step it) ops DependencyManager; E = dep_edges (dm_graph m);
      R = E\<^sup>* `` set (target_indicators m indicators)
    in if acyclic (Restr E R)
       then \<exists>levels. get_execution_order it m indicators = ok levels \<and> distinct (concat levels) \<and>
         set (concat levels) = R \<and> dependencies_first (dm_graph m) levels
       else \<exists>ns. get_execution_order it m indicators = raise (ValueError (circular_message ns)) \<and> ns \<noteq> [] \<and>
         set ns \<subseteq> R \<and> (\<forall>n\<in>set ns. \<exists>k\<in>set ns. (k, n) \<in> E)"
  unfolding Let_def by (rule execution_order_wf [OF assms dm_wf_reachable [OF assms]])

theorem execution_order_correct_witness:
  "get_execution_order rev (fold (dep_step rev) sample_ops DependencyManager) (Some [''signal'', ''macd'']) =
      ok [[''ema''], [''macd''], [''signal'']] \<and>
    acyclic (Restr (dep_edges (dm_graph (fold (dep_step rev) sample_ops DependencyManager)))
      ((dep_edges (dm_graph (fold (dep_step rev) sample_ops DependencyManager)))\<^sup>* ``
        set (target_indicators (fold (dep_step rev) sample_ops DependencyManager) (Some [''signal'', ''macd'']))))"
proof -
  have "get_execution_order rev (fold (dep_step rev) sample_ops DependencyManager) (Some [''signal'', ''macd'']) =
      ok [[''ema''], [''macd''], [''signal'']]" by code_simp
  then show ?thesis
    using execution_order_correct [OF iterates_sets_rev, of sample_ops "Some [''signal'', ''macd'']"]
    by (simp add: Let_def split: if_splits)
qed

text \<open>The recursive dependencies of an indicator are exactly what the dependency relation
  reaches from it, each once; the indicator itself is included only on request, even when it
  lies on a cycle.\<close>

theorem all_dependencies_closure:
  assumes "iterates_sets it"
  shows "let m = fold (dep_step it) ops DependencyManager
    in set (get_all_dependencies it m n include_self) =
        (dep_edges (dm_graph m))\<^sup>* `` {n} - (if include_self then {} else {n}) \<and>
      distinct (get_all_dependencies it m n include_self)"
proof -
  let ?m = "fold (dep_step it) ops DependencyManager"
  have "graph_wf (dm_graph ?m)" using dm_wf_reachable [OF assms, of ops] by (simp add: dm_wf_def)
  from all_deps_loop_closure [OF assms this, of n] distinct_all_deps_loop [of "[]" it "dm_graph ?m" "[n]"]
  show ?thesis by (simp add: get_all_dependencies_def Let_def)
qed

theorem all_dependencies_closure_witness:
  "set (get_all_dependencies rev (fold (dep_step rev) sample_ops DependencyManager) ''signal'' False) = {''macd'', ''ema''} \<and>
    distinct (get_all_dependencies rev (fold (dep_step rev) sample_ops DependencyManager) ''signal'' False)"
proof -
  have "set (get_all_dependencies rev (fold (dep_step rev) sample_ops DependencyManager) ''signal'' False) = {''macd'', ''ema''}"
    by code_simp
  then show ?thesis
    using all_dependencies_closure [OF iterates_sets_rev, of sample_ops "''signal''" False] by (simp add: Let_def)
qed

text \<open>Exporting a manager's configuration and importing it into any other manager restores the
  dependency relation in both directions and the parameters in their order; the functions are
  not part of the configuration, and the importing manager has none afterwards.\<close>

theorem config_roundtrip:
  assumes "iterates_sets it"
  shows "let m = fold (dep_step it) ops DependencyManager; m' = import_config (export_config it m) m0
    in dep_edges (dm_graph m') = dep_edges (dm_graph m) \<and>
      dep_edges (dm_reverse_graph m') = dep_edges (dm_reverse_graph m) \<and>
      dm_indicator_params m' = dm_indicator_params m \<and> dm_indicator_funcs m' = []"
proof -
  let ?m = "fold (dep_step it) ops DependencyManager" let ?c = "export_config it ?m"
  have wf: "dm_wf ?m" by (rule dm_wf_reachable [OF assms])
  have params: "fold (\<lambda>(name, info). AList.update name (case ci_params info of None \<Rightarrow> [] | Some p \<Rightarrow> p))
      (cf_indicators ?c) [] = dm_indicator_params ?m"
    unfolding fold_export_params using wf updates_fresh [of "[]" "dm_indicator_params ?m"] by (simp add: dm_wf_def)
  let ?m1 = "(dm_clear m0)\<lparr>dm_indicator_params := dm_indicator_params ?m\<rparr>"
  have wf1: "dm_wf ?m1" using wf dm_wf_clear(1) [of m0] by (simp add: dm_wf_def)
  have imp: "import_config ?c m0 = fold (\<lambda>e. add_dependency (cd_to e) (cd_from e)) (cf_dependencies ?c) ?m1"
    using params by (simp add: import_config_def dm_clear_def)
  note add = add_dependencies [OF wf1, of cd_to cd_from "cf_dependencies ?c", folded imp]
  have edges: "{(cd_to e, cd_from e) | e. e \<in> set (cf_dependencies ?c)} = dep_edges (dm_graph ?m)"
    and irr: "irrefl (dep_edges (dm_graph ?m))"
    using export_edges [OF assms, of ?m] wf by (auto simp: dm_wf_def)
  have "cd_to e \<noteq> cd_from e" if "e \<in> set (cf_dependencies ?c)" for e
    using that edges irr unfolding irrefl_def by blast
  then have "{(cd_to e, cd_from e) | e. e \<in> set (cf_dependencies ?c) \<and> cd_to e \<noteq> cd_from e} = dep_edges (dm_graph ?m)"
    using edges by blast
  then have e: "dep_edges (dm_graph (import_config ?c m0)) = dep_edges (dm_graph ?m)"
    using add(5) by (simp add: dm_clear_def dep_edges_def)
  moreover have "dep_edges (dm_reverse_graph (import_config ?c m0)) = dep_edges (dm_reverse_graph ?m)"
    using add(1) wf e by (simp add: dm_wf_def)
  ultimately show ?thesis using add(2,3) by (simp add: Let_def dm_clear_def)
qed

theorem config_roundtrip_witness:
  "dep_edges (dm_graph (import_config (export_config rev (fold (dep_step rev) sample_ops DependencyManager))
      (DependencyManager :: unit dep_manager))) = {(''macd'', ''ema''), (''signal'', ''macd'')}"
proof -
  have "dm_graph (fold (dep_step rev) sample_ops DependencyManager) = [(''macd'', [''ema'']), (''signal'', [''macd''])]"
    by code_simp
  then have "dep_edges (dm_graph (fold (dep_step rev) sample_ops DependencyManager)) =
      {(''macd'', ''ema''), (''signal'', ''macd'')}"
    by (auto simp: dep_edges_def deps_of_def split: if_splits)
  then show ?thesis using config_roundtrip [OF iterates_sets_rev, of sample_ops "DependencyManager :: unit dep_manager"]
    by (simp add: Let_def)
qed

end
