(* ===== verification/Comment_Codec.thy ===== *)
theory Comment_Codec
  imports Py_Repr "HOL-Library.Char_ord" "HOL-Library.List_Lexorder"
begin

text \<open>
  The broker comment codec (\<^verbatim>\<open>src/src/trading/broker/comment_codec.py\<close>): every order carries a
  comment of at most 27 characters built from the timeframe, the strategy, the order side and
  kind and the request id, and positions found at the broker are matched back to requests and
  strategies by parsing it. The regular expressions are the functions that compute them on
  ASCII text.
\<close>

section \<open>Comment parts\<close>

definition max_mt5_comment_length :: int where
  "max_mt5_comment_length = 27"

definition strategy_alias :: "(string \<times> string) list" where
  "strategy_alias = [(''structured_price_action'', ''pa'')]"

definition legacy_restorable_prefixes :: "string list" where
  "legacy_restorable_prefixes = [''auto:'', ''agent:'', ''m1:'', ''m5:'', ''m15:'', ''m30:'', ''h1:'',
     ''h4:'', ''d1:'', ''w1:'', ''mn1:'']"

record parsed_trade_comment =
  tc_raw :: string
  tc_scope :: string
  tc_label :: string
  tc_action :: string
  tc_request_tag :: string

text \<open>\<open>xs[:n]\<close>.\<close>

definition slice_to :: "int \<Rightarrow> 'a list \<Rightarrow> 'a list" where
  "slice_to n xs = (if 0 \<le> n then take (nat n) xs else take (length xs - nat (- n)) xs)"

definition normalize_request_tag :: "string \<Rightarrow> int \<Rightarrow> string" where
  "normalize_request_tag request_id max_length =
    slice_to (max 1 max_length) (lower (filter is_alnum request_id))"

text \<open>The non-empty pieces of \<open>re.split("[^A-Za-z0-9]+", text)\<close>.\<close>

fun alnum_tokens :: "string \<Rightarrow> string \<Rightarrow> string list" where
  "alnum_tokens acc [] = (if acc = [] then [] else [acc])"
| "alnum_tokens acc (c # cs) =
    (if is_alnum c then alnum_tokens (acc @ [c]) cs
     else if acc = [] then alnum_tokens [] cs else acc # alnum_tokens [] cs)"

text \<open>The loop over the tokens: three characters of the first, two of each other, while the
  length allows.\<close>

fun pick_parts :: "bool \<Rightarrow> int \<Rightarrow> string list \<Rightarrow> string list" where
  "pick_parts is_first remaining [] = []"
| "pick_parts is_first remaining (token # tokens) =
    (if remaining \<le> 0 then []
     else let part = slice_to (min (if is_first then 3 else 2) remaining) token
     in if part = [] then pick_parts False remaining tokens
        else part # pick_parts False (remaining - int (length part)) tokens)"

definition legacy_compact_label :: "string \<Rightarrow> int \<Rightarrow> string" where
  "legacy_compact_label value max_length =
    (let tokens = alnum_tokens [] (lower value)
     in case tokens of
          [] \<Rightarrow> slice_to max_length ''trade''
        | [token] \<Rightarrow> slice_to max_length token
        | _ \<Rightarrow> let label = concat (pick_parts True max_length tokens);
                  label1 = (if label = [] then slice_to max_length (concat tokens) else label)
              in slice_to max_length label1)"

definition compact_comment_label :: "string \<Rightarrow> int \<Rightarrow> string" where
  "compact_comment_label value max_length =
    (case map_of strategy_alias value of Some alias \<Rightarrow> slice_to max_length alias
     | None \<Rightarrow> legacy_compact_label value max_length)"

definition normalize_scope :: "string \<Rightarrow> string" where
  "normalize_scope timeframe =
    (let cleaned = filter is_alnum (upper timeframe)
     in slice_to 3 (if cleaned = [] then ''TR'' else cleaned))"

definition replace_char :: "char \<Rightarrow> char \<Rightarrow> string \<Rightarrow> string" where
  "replace_char a b s = map (\<lambda>c. if c = a then b else c) s"

definition normalize_action :: "string \<Rightarrow> string \<Rightarrow> string" where
  "normalize_action side order_kind =
    (let normalized_side = lower (strip side);
         normalized_kind = replace_char (CHR ''-'') (CHR ''_'') (lower (strip order_kind));
         side_code = (if normalized_side = ''buy'' then ''b'' else if normalized_side = ''sell'' then ''s'' else ''t'');
         kind_code = (case map_of [(''market'', ''m''), (''limit'', ''l''), (''stop'', ''s''),
                         (''stop_limit'', ''p''), (''stoplimit'', ''p'')] normalized_kind of
             Some code \<Rightarrow> code
           | None \<Rightarrow> let cleaned = slice_to 1 (filter is_alnum normalized_kind)
                    in if cleaned = [] then ''m'' else cleaned)
     in side_code @ kind_code)"

section \<open>Building and parsing\<close>

definition str_or :: "string \<Rightarrow> string \<Rightarrow> string" where
  "str_or a b = (if a \<noteq> [] then a else b)"

definition comment_parts :: "string \<Rightarrow> string \<Rightarrow> string \<Rightarrow> string \<Rightarrow> string \<Rightarrow> string \<Rightarrow> string list" where
  "comment_parts request_id timeframe strategy side order_kind comment =
    [normalize_scope timeframe, compact_comment_label (str_or strategy (str_or comment ''trade'')) 8,
     normalize_action side order_kind, normalize_request_tag request_id 8]"

definition build_trade_comment :: "string \<Rightarrow> string \<Rightarrow> string \<Rightarrow> string \<Rightarrow> string \<Rightarrow> string \<Rightarrow> string" where
  "build_trade_comment request_id timeframe strategy side order_kind comment =
    slice_to max_mt5_comment_length
      (join ''_'' (filter (\<lambda>p. p \<noteq> []) (comment_parts request_id timeframe strategy side order_kind comment)))"

definition parse_trade_comment :: "string \<Rightarrow> parsed_trade_comment option" where
  "parse_trade_comment comment =
    (let raw = strip comment
     in if raw = [] then None
        else case split_char (CHR ''_'') [] raw of
          [scope, label, action, request_tag] \<Rightarrow>
            if 3 < length scope \<or> 8 < length label \<or> 8 < length request_tag then None
            else let normalized_tag = normalize_request_tag request_tag (int (length request_tag))
            in if scope = [] \<or> label = [] \<or> length action \<noteq> 2 \<or> normalized_tag = [] then None
               else if normalized_tag \<noteq> lower request_tag then None
               else Some \<lparr>tc_raw = raw, tc_scope = upper scope, tc_label = lower label,
                      tc_action = lower action, tc_request_tag = lower request_tag\<rparr>
        | _ \<Rightarrow> None)"

text \<open>\<open>_LEGACY_REQUEST_TAG_RE.search\<close> on a stripped lower-case text: the leftmost \<open>_r\<close> that is
  followed by one to eight letters or digits up to the end.\<close>

fun legacy_request_tag :: "string \<Rightarrow> string option" where
  "legacy_request_tag [] = None"
| "legacy_request_tag (c # cs) =
    (if starts_with (c # cs) ''_r'' \<and> 1 \<le> length (drop 1 cs) \<and> length (drop 1 cs) \<le> 8 \<and>
        list_all is_alnum (drop 1 cs)
     then Some (drop 1 cs) else legacy_request_tag cs)"

definition extract_comment_request_tag :: "string \<Rightarrow> string" where
  "extract_comment_request_tag comment =
    (case parse_trade_comment comment of Some parsed \<Rightarrow> tc_request_tag parsed
     | None \<Rightarrow> let raw = lower (strip comment)
              in if raw = [] then []
                 else case legacy_request_tag raw of Some tag \<Rightarrow> lower tag | None \<Rightarrow> [])"

definition comments_share_request_tag :: "string \<Rightarrow> string \<Rightarrow> bool" where
  "comments_share_request_tag left right =
    (let left_tag = extract_comment_request_tag left; right_tag = extract_comment_request_tag right
     in left_tag \<noteq> [] \<and> right_tag \<noteq> [] \<and> left_tag = right_tag)"

definition comment_matches_request_id :: "string \<Rightarrow> string \<Rightarrow> bool" where
  "comment_matches_request_id comment request_id =
    (let target_tag = normalize_request_tag request_id 8
     in if target_tag = [] then False else extract_comment_request_tag comment = target_tag)"

definition comment_matches_semantics :: "string \<Rightarrow> string \<Rightarrow> string \<Rightarrow> bool" where
  "comment_matches_semantics comment timeframe strategy =
    (case parse_trade_comment comment of
       Some parsed \<Rightarrow>
         if tc_scope parsed \<noteq> normalize_scope timeframe then False
         else let new_label = compact_comment_label strategy 8
         in if tc_label parsed = new_label then True
            else let legacy_label = legacy_compact_label strategy 8
            in legacy_label \<noteq> new_label \<and> tc_label parsed = legacy_label
     | None \<Rightarrow>
         let legacy_prefix = lower (strip timeframe) @ '':'' @ lower (strip strategy) @ '':''
         in legacy_prefix \<noteq> [] \<and> starts_with (lower (strip comment)) legacy_prefix)"

definition looks_like_system_trade_comment :: "string \<Rightarrow> bool" where
  "looks_like_system_trade_comment comment =
    (let raw = strip comment
     in if raw = [] then False
        else if parse_trade_comment raw \<noteq> None then True
        else list_ex (\<lambda>prefix. starts_with (lower raw) prefix) legacy_restorable_prefixes)"

section \<open>The start-up check of the alias table\<close>

text \<open>The scan for aliases used twice, with the names first seen.\<close>

fun duplicate_aliases :: "(string \<times> string) list \<Rightarrow> (string \<times> string) list \<Rightarrow> (string \<times> string \<times> string) list" where
  "duplicate_aliases seen [] = []"
| "duplicate_aliases seen ((name, alias) # table) =
    (case map_of seen alias of
       Some existing \<Rightarrow> (alias, existing, name) # duplicate_aliases seen table
     | None \<Rightarrow> duplicate_aliases (AList.update alias name seen) table)"

definition validate_strategy_aliases :: "string list \<Rightarrow> unit res" where
  "validate_strategy_aliases strategy_names =
    (let missing = sort (filter (\<lambda>name. strip name \<noteq> [] \<and> map_of strategy_alias (strip name) = None) strategy_names);
         duplicates = duplicate_aliases [] strategy_alias
     in if missing \<noteq> []
        then raise (ValueError (''Strategies missing broker comment alias: '' @ join '', '' missing @
          ''. Add entries to _STRATEGY_ALIAS in src/trading/broker/comment_codec.py.''))
        else if duplicates \<noteq> []
        then raise (ValueError (''Duplicate broker comment aliases detected: '' @
          join ''; '' (map (\<lambda>(a, n1, n2). ''alias='' @ repr_str a @ '' used by both '' @ repr_str n1 @
            '' and '' @ repr_str n2) duplicates)))
        else ok ())"

section \<open>Lemmas\<close>

lemma length_slice_to: "0 \<le> n \<Longrightarrow> int (length (slice_to n xs)) = min n (int (length xs))"
  by (simp add: slice_to_def)

lemma slice_to_Nil [simp]: "slice_to n [] = []"
  by (simp add: slice_to_def)

lemma slice_to_all: "int (length xs) \<le> n \<Longrightarrow> slice_to n xs = xs"
  by (simp add: slice_to_def)

lemma slice_to_eq_Nil: "0 < n \<Longrightarrow> slice_to n xs = [] \<longleftrightarrow> xs = []"
  by (simp add: slice_to_def)

lemma set_slice_to: "set (slice_to n xs) \<subseteq> set xs"
  by (simp add: slice_to_def set_take_subset)

text \<open>A word of the comment: letters and digits, lower case.\<close>

definition code_char :: "char \<Rightarrow> bool" where
  "code_char c \<longleftrightarrow> is_lower c \<or> is_digit c"

lemma lower_char_cases: "is_alnum c \<Longrightarrow> code_char (lower_char c)"
  by (auto simp: is_alnum_def code_char_def lower_char_def is_upper_def is_lower_def is_digit_def Let_def)

lemma lower_char_id: "code_char c \<Longrightarrow> lower_char c = c"
  by (auto simp: code_char_def lower_char_def is_upper_def is_lower_def is_digit_def Let_def)

lemma lower_id: "list_all code_char s \<Longrightarrow> lower s = s"
  by (induction s) (auto simp: lower_def lower_char_id)

lemma is_alnum_lower_char: "is_alnum (lower_char c) = is_alnum c"
  by (auto simp: is_alnum_def lower_char_def is_upper_def is_lower_def is_digit_def Let_def)

lemma code_char_alnum: "code_char c \<Longrightarrow> is_alnum c"
  by (auto simp: code_char_def is_alnum_def)

lemma alnum_not_sep: "is_alnum c \<Longrightarrow> c \<noteq> CHR ''_''" "is_alnum c \<Longrightarrow> \<not> is_space c"
  by (auto simp: is_alnum_def is_upper_def is_lower_def is_digit_def is_space_def Let_def)

lemma alnum_lower: "list_all is_alnum s \<Longrightarrow> list_all is_alnum (lower s)"
  by (induction s) (auto simp: lower_def is_alnum_lower_char)

lemma lower_append: "lower (s @ t) = lower s @ lower t"
  by (simp add: lower_def)

lemma filter_alnum_id: "list_all is_alnum s \<Longrightarrow> filter is_alnum s = s"
  by (induction s) auto

lemma list_all_slice: "list_all P s \<Longrightarrow> list_all P (slice_to n s)"
  using set_slice_to [of n s] by (auto simp: list_all_iff)

lemmas code_slice = list_all_slice [of code_char]

lemma code_lower_filter: "list_all code_char (lower (filter is_alnum s))"
  by (induction s) (auto simp: lower_def lower_char_cases)

definition word_ok :: "nat \<Rightarrow> string \<Rightarrow> bool" where
  "word_ok n w \<longleftrightarrow> w \<noteq> [] \<and> length w \<le> n \<and> list_all code_char w"

lemma alnum_tokens_code:
  "list_all code_char acc \<Longrightarrow> list_all (\<lambda>c. is_alnum c \<longrightarrow> code_char c) s \<Longrightarrow>
    list_all (\<lambda>t. t \<noteq> [] \<and> list_all code_char t) (alnum_tokens acc s)"
  by (induction acc s rule: alnum_tokens.induct) auto

lemma lower_alnum_code: "list_all (\<lambda>c. is_alnum c \<longrightarrow> code_char c) (lower s)"
  by (induction s) (auto simp: lower_def is_alnum_lower_char lower_char_cases)

lemma pick_parts_code:
  "list_all (\<lambda>t. t \<noteq> [] \<and> list_all code_char t) tokens \<Longrightarrow> 0 \<le> n \<Longrightarrow>
    list_all code_char (concat (pick_parts first n tokens)) \<and>
    int (length (concat (pick_parts first n tokens))) \<le> n"
proof (induction first n tokens rule: pick_parts.induct)
  case (2 first n t ts)
  let ?k = "min (if first then 3 else 2) n"
  show ?case
  proof (cases "n \<le> 0")
    case False
    then have k: "0 < ?k" "?k \<le> n" by auto
    have part: "slice_to ?k t \<noteq> []" "list_all code_char (slice_to ?k t)" "int (length (slice_to ?k t)) \<le> n"
      using "2.prems" k slice_to_eq_Nil [of ?k t] code_slice [of t ?k] length_slice_to [of ?k t] by auto
    with "2.IH"(2) [OF _ refl] "2.prems" False show ?thesis by (auto simp: Let_def)
  qed (use 2 in simp)
qed simp

lemma pick_parts_nonempty: "0 < n \<Longrightarrow> t \<noteq> [] \<Longrightarrow> concat (pick_parts first n (t # ts)) \<noteq> []"
  by (simp add: Let_def slice_to_eq_Nil)

lemma legacy_label_word: "word_ok 8 (legacy_compact_label value 8)"
proof -
  let ?ts = "alnum_tokens [] (lower value)"
  have ts: "list_all (\<lambda>t. t \<noteq> [] \<and> list_all code_char t) ?ts"
    using alnum_tokens_code [of "[]" "lower value"] lower_alnum_code by simp
  show ?thesis
  proof (cases ?ts)
    case Nil
    then show ?thesis by (simp add: legacy_compact_label_def slice_to_def word_ok_def) code_simp
  next
    case (Cons t us)
    show ?thesis
    proof (cases us)
      case Nil
      then show ?thesis using Cons ts code_slice [of t 8] length_slice_to [of 8 t]
        by (simp add: legacy_compact_label_def word_ok_def slice_to_eq_Nil)
    next
      case (Cons u vs)
      let ?l = "concat (pick_parts True 8 ?ts)"
      have "list_all code_char ?l" "length ?l \<le> 8" using pick_parts_code [OF ts, of 8 True] by auto
      moreover have "t \<noteq> []" using \<open>?ts = t # us\<close> ts by simp
      then have "?l \<noteq> []" unfolding \<open>?ts = t # us\<close> by (intro pick_parts_nonempty) simp
      moreover have "legacy_compact_label value 8 = slice_to 8 (if ?l = [] then slice_to 8 (concat ?ts) else ?l)"
        unfolding legacy_compact_label_def Let_def \<open>?ts = t # us\<close> Cons list.case by (rule refl)
      moreover have "slice_to 8 ?l = ?l" using \<open>length ?l \<le> 8\<close> by (intro slice_to_all) simp
      ultimately show ?thesis by (simp only: word_ok_def if_False simp_thms)
    qed
  qed
qed

lemma label_word: "word_ok 8 (compact_comment_label value 8)"
proof (cases "map_of strategy_alias value")
  case None
  then show ?thesis using legacy_label_word by (simp add: compact_comment_label_def)
next
  case (Some w)
  then have "w = ''pa''" by (auto simp: strategy_alias_def split: if_splits)
  moreover have "word_ok 8 (slice_to 8 ''pa'')" by code_simp
  ultimately show ?thesis using Some by (simp add: compact_comment_label_def)
qed

lemma tag_word:
  "list_all code_char (normalize_request_tag rid 8)" "length (normalize_request_tag rid 8) \<le> 8"
  using code_slice [OF code_lower_filter, of 8 rid] length_slice_to [of 8 "lower (filter is_alnum rid)"]
  by (auto simp: normalize_request_tag_def)

lemma tag_empty_iff: "normalize_request_tag rid 8 = [] \<longleftrightarrow> (\<forall>c\<in>set rid. \<not> is_alnum c)"
  by (simp add: normalize_request_tag_def slice_to_eq_Nil filter_empty_conv)

lemma upper_id: "list_all (\<lambda>c. upper_char c = c) s \<Longrightarrow> upper s = s"
  by (induction s) (auto simp: upper_def)

lemma scope_word:
  "normalize_scope tf \<noteq> []" "length (normalize_scope tf) \<le> 3" "list_all is_alnum (normalize_scope tf)"
  "upper (normalize_scope tf) = normalize_scope tf"
proof -
  let ?c = "filter is_alnum (upper tf)"
  let ?d = "if ?c = [] then ''TR'' else ?c"
  have TR: "list_all is_alnum ''TR''" "list_all (\<lambda>c. upper_char c = c) ''TR''" by code_simp+
  have d: "list_all is_alnum ?d" "list_all (\<lambda>c. upper_char c = c) ?d"
    using TR by (auto simp: list_all_iff upper_def upper_char_idem)
  have s: "normalize_scope tf = slice_to 3 ?d" by (simp add: normalize_scope_def Let_def)
  show "normalize_scope tf \<noteq> []" unfolding s by (simp add: slice_to_eq_Nil)
  show "length (normalize_scope tf) \<le> 3" unfolding s using length_slice_to [of 3 ?d] by linarith
  show "list_all is_alnum (normalize_scope tf)" unfolding s
    by (rule list_all_slice [OF d(1)])
  show "upper (normalize_scope tf) = normalize_scope tf" unfolding s
    by (rule upper_id [OF list_all_slice [OF d(2)]])
qed

lemma action_word: "\<exists>a b. normalize_action side kind = [a, b] \<and> a \<in> {CHR ''b'', CHR ''s'', CHR ''t''} \<and> code_char b"
proof -
  let ?k = "replace_char (CHR ''-'') (CHR ''_'') (lower (strip kind))"
  have code: "code_char (CHR ''m'')" "code_char (CHR ''l'')" "code_char (CHR ''s'')" "code_char (CHR ''p'')" by code_simp+
  have low: "code_char c" if "c \<in> set ?k" "is_alnum c" for c
  proof -
    from that(1) obtain x where "x \<in> set (lower (strip kind))" "c = (if x = CHR ''-'' then CHR ''_'' else x)"
      by (auto simp: replace_char_def)
    moreover have "c \<noteq> CHR ''_''" using that(2) alnum_not_sep by blast
    ultimately show ?thesis using lower_alnum_code [of "strip kind"] that(2) by (auto simp: list_all_iff split: if_splits)
  qed
  let ?K = "case map_of [(''market'', ''m''), (''limit'', ''l''), (''stop'', ''s''), (''stop_limit'', ''p''),
      (''stoplimit'', ''p'')] ?k of Some code \<Rightarrow> code
    | None \<Rightarrow> let cleaned = slice_to 1 (filter is_alnum ?k) in if cleaned = [] then ''m'' else cleaned"
  have "\<exists>b. ?K = [b] \<and> code_char b"
  proof (cases "filter is_alnum ?k")
    case Nil
    then show ?thesis using code by (auto simp: Let_def split: option.splits if_splits)
  next
    case (Cons c cs)
    then have "c \<in> set (filter is_alnum ?k)" by simp
    then have "c \<in> set ?k" "is_alnum c" by simp_all
    then show ?thesis using low [of c] code Cons by (auto simp: Let_def slice_to_def split: option.splits if_splits)
  qed
  then show ?thesis by (auto simp: normalize_action_def Let_def)
qed

lemma split_char_word: "list_all is_alnum w \<Longrightarrow> split_char (CHR ''_'') acc (w @ s) = split_char (CHR ''_'') (acc @ w) s"
  by (induction w arbitrary: acc) (auto simp: alnum_not_sep)

lemma split_char_join:
  "list_all (list_all is_alnum) ws \<Longrightarrow> ws \<noteq> [] \<Longrightarrow> split_char (CHR ''_'') [] (join ''_'' ws) = ws"
proof (induction ws)
  case (Cons w ws)
  show ?case
  proof (cases ws)
    case Nil
    then show ?thesis using Cons.prems split_char_word [of w "[]" "[]"] by (simp add: join_def)
  next
    case (Cons v vs)
    then have "join ''_'' (w # ws) = w @ CHR ''_'' # join ''_'' ws" by (simp add: join_def)
    then show ?thesis using Cons.IH Cons.prems Cons split_char_word [of w "[]"] by simp
  qed
qed simp

lemma join_no_space: "list_all (list_all is_alnum) ws \<Longrightarrow> list_all (\<lambda>c. \<not> is_space c) (join ''_'' ws)"
proof -
  have "\<not> is_space (CHR ''_'')" by code_simp
  then show "list_all (list_all is_alnum) ws \<Longrightarrow> ?thesis"
    by (cases ws) (auto simp: join_def list_all_iff alnum_not_sep)
qed

lemma word_alnum: "list_all code_char w \<Longrightarrow> list_all is_alnum w"
  by (auto simp: list_all_iff code_char_alnum)

lemma action_code: "list_all code_char (normalize_action side kind)" "length (normalize_action side kind) = 2"
proof -
  obtain a b where "normalize_action side kind = [a, b]" "a \<in> {CHR ''b'', CHR ''s'', CHR ''t''}" "code_char b"
    using action_word by blast
  moreover have "code_char (CHR ''b'')" "code_char (CHR ''s'')" "code_char (CHR ''t'')" by code_simp+
  ultimately show "list_all code_char (normalize_action side kind)" "length (normalize_action side kind) = 2" by auto
qed

text \<open>The comment is the joined parts: the length cap of 27 characters never cuts anything.\<close>

lemma build_joined:
  "build_trade_comment rid tf st side kind com =
    join ''_'' (filter (\<lambda>p. p \<noteq> []) (comment_parts rid tf st side kind com)) \<and>
   length (build_trade_comment rid tf st side kind com) \<le> 24"
proof -
  let ?j = "join ''_'' (filter (\<lambda>p. p \<noteq> []) (comment_parts rid tf st side kind com))"
  have "length ?j \<le> 24"
    using scope_word(2) [of tf] label_word [of "str_or st (str_or com ''trade'')"] action_code(2) [of side kind]
      tag_word(2) [of rid] by (auto simp: comment_parts_def join_def word_ok_def)
  then show ?thesis by (simp add: build_trade_comment_def max_mt5_comment_length_def slice_to_all)
qed

lemma tag_fixed: "normalize_request_tag (normalize_request_tag rid 8) (int (length (normalize_request_tag rid 8))) =
    normalize_request_tag rid 8"
proof -
  let ?t = "normalize_request_tag rid 8"
  have "lower (filter is_alnum ?t) = ?t"
    using tag_word(1) [of rid] by (simp add: filter_alnum_id word_alnum lower_id)
  then show ?thesis by (simp add: normalize_request_tag_def [of ?t] slice_to_all)
qed

lemma parse_build:
  assumes "normalize_request_tag rid 8 \<noteq> []"
  shows "parse_trade_comment (build_trade_comment rid tf st side kind com) =
    Some \<lparr>tc_raw = build_trade_comment rid tf st side kind com, tc_scope = normalize_scope tf,
      tc_label = compact_comment_label (str_or st (str_or com ''trade'')) 8,
      tc_action = normalize_action side kind, tc_request_tag = normalize_request_tag rid 8\<rparr>"
proof -
  let ?c = "build_trade_comment rid tf st side kind com"
  let ?l = "compact_comment_label (str_or st (str_or com ''trade'')) 8"
  let ?ws = "[normalize_scope tf, ?l, normalize_action side kind, normalize_request_tag rid 8]"
  note words = scope_word [of tf] label_word [of "str_or st (str_or com ''trade'')", unfolded word_ok_def]
    action_code [of side kind] tag_word [of rid]
  have nonempty: "normalize_action side kind \<noteq> []" using words(7) by auto
  have alnum: "list_all (list_all is_alnum) ?ws" using words by (simp add: word_alnum)
  have c: "?c = join ''_'' ?ws"
    using build_joined [of rid tf st side kind com] words nonempty assms by (simp add: comment_parts_def)
  have "strip ?c = ?c" unfolding c by (rule strip_no_space [OF join_no_space [OF alnum]])
  moreover have "split_char (CHR ''_'') [] ?c = ?ws" unfolding c using split_char_join [OF alnum] by simp
  moreover have "?c \<noteq> []" unfolding c using words(1) by (simp add: join_def)
  ultimately show ?thesis
    using words assms tag_fixed [of rid]
    by (simp add: parse_trade_comment_def Let_def lower_id)
qed

lemma legacy_tag_word: "list_all is_alnum v \<Longrightarrow> legacy_request_tag (v @ s) = legacy_request_tag s"
  by (induction v) (auto dest: alnum_not_sep)

lemma legacy_tag_blocked: "legacy_request_tag (CHR ''_'' # u @ CHR ''_'' # t) = legacy_request_tag (u @ CHR ''_'' # t)"
proof -
  have "\<not> is_alnum (CHR ''_'')" by code_simp
  then show ?thesis by (cases u) auto
qed

lemma legacy_tag_join:
  assumes "list_all is_alnum u" "list_all is_alnum v" "a \<in> {CHR ''b'', CHR ''s'', CHR ''t''}" "is_alnum a" "is_alnum b"
  shows "legacy_request_tag (u @ CHR ''_'' # v @ CHR ''_'' # [a, b]) = None"
proof -
  have "legacy_request_tag [a, b] = None" using legacy_tag_word [of "[a, b]" "[]"] assms by simp
  then have last: "legacy_request_tag (CHR ''_'' # [a, b]) = None" using assms(3) by auto
  have "legacy_request_tag (u @ CHR ''_'' # v @ CHR ''_'' # [a, b]) =
      legacy_request_tag (CHR ''_'' # v @ CHR ''_'' # [a, b])" by (rule legacy_tag_word [OF assms(1)])
  also have "\<dots> = legacy_request_tag (v @ CHR ''_'' # [a, b])" by (rule legacy_tag_blocked)
  also have "\<dots> = legacy_request_tag (CHR ''_'' # [a, b])" by (rule legacy_tag_word [OF assms(2)])
  finally show ?thesis using last by simp
qed

lemma extract_build_untagged:
  assumes "normalize_request_tag rid 8 = []"
  shows "extract_comment_request_tag (build_trade_comment rid tf st side kind com) = []"
proof -
  let ?c = "build_trade_comment rid tf st side kind com"
  let ?l = "compact_comment_label (str_or st (str_or com ''trade'')) 8"
  let ?s = "normalize_scope tf"
  obtain a b where ab: "normalize_action side kind = [a, b]" "a \<in> {CHR ''b'', CHR ''s'', CHR ''t''}" "code_char b"
    using action_word by blast
  let ?ws = "[?s, ?l, [a, b]]"
  note words = scope_word [of tf] label_word [of "str_or st (str_or com ''trade'')", unfolded word_ok_def]
    action_code [of side kind]
  have alnum: "list_all (list_all is_alnum) ?ws" using words ab(1) by (simp add: word_alnum code_char_alnum)
  have c: "?c = join ''_'' ?ws"
    using build_joined [of rid tf st side kind com] words ab assms by (simp add: comment_parts_def)
  have strip: "strip ?c = ?c" unfolding c by (rule strip_no_space [OF join_no_space [OF alnum]])
  have "split_char (CHR ''_'') [] ?c = ?ws" unfolding c using split_char_join [OF alnum] by simp
  with strip have "parse_trade_comment ?c = None" by (simp add: parse_trade_comment_def Let_def)
  moreover have "lower (CHR ''_'' # t) = CHR ''_'' # lower t" for t
    by (simp add: lower_def) code_simp
  then have "lower ?c = lower ?s @ CHR ''_'' # ?l @ CHR ''_'' # [a, b]"
    using words ab by (simp add: c join_def lower_id lower_append)
  ultimately show ?thesis
    using legacy_tag_join [of "lower ?s" ?l a b] strip words ab
    by (simp add: extract_comment_request_tag_def Let_def word_alnum code_char_alnum alnum_lower)
qed

section \<open>Properties\<close>

text \<open>C22: Round trip of the broker comment: for a request id with a letter or digit, parsing the
  comment built for an order gives back the normalised timeframe, strategy label, order side and
  kind and request tag; whatever the arguments, the comment has at most 24 characters, so the
  broker's limit of 27 never cuts it.\<close>

theorem trade_comment_roundtrip:
  assumes "\<exists>c\<in>set request_id. is_alnum c"
  shows "parse_trade_comment (build_trade_comment request_id timeframe strategy side order_kind comment) =
      Some \<lparr>tc_raw = build_trade_comment request_id timeframe strategy side order_kind comment,
        tc_scope = normalize_scope timeframe,
        tc_label = compact_comment_label (str_or strategy (str_or comment ''trade'')) 8,
        tc_action = normalize_action side order_kind, tc_request_tag = normalize_request_tag request_id 8\<rparr> \<and>
    int (length (build_trade_comment request_id timeframe strategy side order_kind comment)) \<le> 24"
proof (rule conjI [OF parse_build])
  show "normalize_request_tag request_id 8 \<noteq> []" using tag_empty_iff [of request_id] assms by simp
  show "int (length (build_trade_comment request_id timeframe strategy side order_kind comment)) \<le> 24"
    using conjunct2 [OF build_joined [of request_id timeframe strategy side order_kind comment]] by simp
qed

theorem trade_comment_roundtrip_witness:
  "parse_trade_comment (build_trade_comment ''req-00A7'' ''M15'' ''structured_price_action'' ''buy'' ''market'' []) =
    Some \<lparr>tc_raw = ''M15_pa_bm_req00a7'', tc_scope = ''M15'', tc_label = ''pa'', tc_action = ''bm'',
      tc_request_tag = ''req00a7''\<rparr>"
proof -
  have "\<exists>c\<in>set ''req-00A7''. is_alnum c" by code_simp
  from conjunct1 [OF trade_comment_roundtrip [OF this]] show ?thesis
    by (rule trans) code_simp
qed

text \<open>A comment built for one request is recognised as another's exactly when both have the same
  non-empty tag, the first eight letters and digits of the id in lower case: no comment matches a
  request id without letters or digits, and a comment built without a tag matches none, the
  older format included. A tagged comment is recognised for the timeframe and strategy it was
  built for.\<close>

theorem comment_identifies_request:
  "(comment_matches_request_id (build_trade_comment request_id timeframe strategy side order_kind comment) other \<longleftrightarrow>
      normalize_request_tag other 8 \<noteq> [] \<and> normalize_request_tag other 8 = normalize_request_tag request_id 8) \<and>
    (normalize_request_tag request_id 8 = [] \<or> strategy = [] \<or>
      comment_matches_semantics (build_trade_comment request_id timeframe strategy side order_kind comment)
        timeframe strategy)"
proof (cases "normalize_request_tag request_id 8 = []")
  case True
  then show ?thesis using extract_build_untagged [OF True]
    by (auto simp: comment_matches_request_id_def Let_def)
next
  case False
  note p = parse_build [OF False, of timeframe strategy side order_kind comment]
  show ?thesis
    by (auto simp: comment_matches_request_id_def comment_matches_semantics_def extract_comment_request_tag_def
        p Let_def str_or_def)
qed

end
