(* ===== verification/Runtime_Mode.thy ===== *)
theory Runtime_Mode
  imports Py_Repr Interfaces "HOL-Library.Char_ord" "HOL-Library.List_Lexorder"
begin

text \<open>
  The runtime mode: the policies (\<^verbatim>\<open>src/src/app_runtime/mode_policy.py\<close>), the controller
  (\<^verbatim>\<open>src/src/app_runtime/mode_controller.py\<close>) and the registry of the components that a mode
  starts and stops (\<^verbatim>\<open>src/src/app_runtime/lifecycle.py\<close>). The controller's attributes are a
  record; an operation returns its result or exception together with the state it leaves
  behind, because the code changes attributes before calls that may raise. What the trading
  module, the position manager, the clock and the components answer are arguments: the
  components act on a state of their own, the type parameter \<open>'w\<close>. The lock serialises the
  operations; the monitor thread is a sequence of calls of its loop body.
\<close>

section \<open>Modes and policies\<close>

datatype runtime_mode = FULL | OBSERVE | RISK_OFF | INGEST_ONLY

definition mode_value :: "runtime_mode \<Rightarrow> string" where
  "mode_value m = (case m of FULL \<Rightarrow> ''full'' | OBSERVE \<Rightarrow> ''observe'' | RISK_OFF \<Rightarrow> ''risk_off''
     | INGEST_ONLY \<Rightarrow> ''ingest_only'')"

text \<open>\<open>RuntimeMode(text)\<close>.\<close>

definition mode_of_value :: "string \<Rightarrow> runtime_mode res" where
  "mode_of_value s =
    (case map_of (map (\<lambda>m. (mode_value m, m)) [FULL, OBSERVE, RISK_OFF, INGEST_ONLY]) s of
       Some m \<Rightarrow> ok m | None \<Rightarrow> raise (ValueError (repr_str s @ '' is not a valid RuntimeMode'')))"

datatype eod_action = EOD_DISABLED | EOD_RISK_OFF | EOD_INGEST_ONLY

definition eod_value :: "eod_action \<Rightarrow> string" where
  "eod_value a = (case a of EOD_DISABLED \<Rightarrow> ''disabled'' | EOD_RISK_OFF \<Rightarrow> ''risk_off''
     | EOD_INGEST_ONLY \<Rightarrow> ''ingest_only'')"

record mode_policy =
  mp_initial_mode :: runtime_mode
  mp_after_eod_action :: eod_action
  mp_auto_check_interval_seconds :: rat

text \<open>What the trading module answers when it is asked: no module, or the open positions and the
  open orders, each a list or an exception.\<close>

type_synonym trading_view = "(string list res \<times> string list res) option"

definition can_enter_ingest_only :: "trading_view \<Rightarrow> bool" where
  "can_enter_ingest_only trading =
    (case trading of None \<Rightarrow> True
     | Some (positions, orders) \<Rightarrow>
        (case positions of Inl _ \<Rightarrow> False
         | Inr open_positions \<Rightarrow>
            (case orders of Inl _ \<Rightarrow> False
             | Inr open_orders \<Rightarrow> open_positions = [] \<and> open_orders = [])))"

definition can_enter :: "trading_view \<Rightarrow> runtime_mode \<Rightarrow> bool" where
  "can_enter trading mode = (if mode \<noteq> INGEST_ONLY then True else can_enter_ingest_only trading)"

definition ensure_can_enter :: "trading_view \<Rightarrow> runtime_mode \<Rightarrow> unit res" where
  "ensure_can_enter trading mode =
    (if \<not> can_enter trading mode
     then raise (RuntimeError ''ingest_only requires no open positions and no pending orders'')
     else ok ())"

definition auto_enabled :: "eod_action \<Rightarrow> bool" where
  "auto_enabled action = (action \<noteq> EOD_DISABLED)"

definition resolve_after_eod :: "eod_action \<Rightarrow> runtime_mode option \<Rightarrow> bool \<Rightarrow> bool \<Rightarrow> runtime_mode option" where
  "resolve_after_eod action current_mode after_eod_today can_enter_ingest =
    (if current_mode \<notin> {Some FULL, Some OBSERVE} then None
     else if \<not> after_eod_today then None
     else let target = (if action = EOD_RISK_OFF then RISK_OFF else INGEST_ONLY)
     in if target = INGEST_ONLY \<and> \<not> can_enter_ingest then Some RISK_OFF else Some target)"

definition resolve_session_start :: "runtime_mode option \<Rightarrow> bool \<Rightarrow> bool \<Rightarrow> runtime_mode \<Rightarrow> runtime_mode option" where
  "resolve_session_start current_mode after_eod_today was_auto_transitioned initial_mode =
    (if \<not> was_auto_transitioned then None
     else if after_eod_today then None
     else if current_mode = Some initial_mode then None
     else Some initial_mode)"

section \<open>Components\<close>

text \<open>Starting or stopping a component gives the text of the exception it raised, if any, and
  the new state of the components.\<close>

record 'w runtime_component =
  rc_name :: string
  rc_supported_modes :: "string list"
  rc_start :: "'w \<Rightarrow> string option \<times> 'w"
  rc_stop :: "'w \<Rightarrow> string option \<times> 'w"
  rc_is_running :: "'w \<Rightarrow> bool"
  rc_metadata :: pydict

type_synonym 'w registry = "(string \<times> 'w runtime_component) list"

definition register :: "'w runtime_component \<Rightarrow> 'w registry \<Rightarrow> 'w registry" where
  "register component registry = AList.update (rc_name component) component registry"

definition RuntimeComponentRegistry :: "'w runtime_component list \<Rightarrow> 'w registry" where
  "RuntimeComponentRegistry components = fold register components []"

text \<open>A pass over components that calls one method on some of them and collects the failures.\<close>

fun call_all :: "('w runtime_component \<Rightarrow> bool) \<Rightarrow> ('w runtime_component \<Rightarrow> 'w \<Rightarrow> string option \<times> 'w) \<Rightarrow> string \<Rightarrow>
    'w runtime_component list \<Rightarrow> 'w \<Rightarrow> string list \<times> 'w" where
  "call_all sel call what [] w = ([], w)"
| "call_all sel call what (c # cs) w =
    (if sel c
     then let (err, w1) = call c w; (errors, w2) = call_all sel call what cs w1
          in ((case err of None \<Rightarrow> errors | Some e \<Rightarrow> (rc_name c @ ''.'' @ what @ ''() failed: '' @ e) # errors), w2)
     else call_all sel call what cs w)"

definition registry_apply_mode :: "'w registry \<Rightarrow> string \<Rightarrow> 'w \<Rightarrow> unit res \<times> 'w" where
  "registry_apply_mode registry mode w =
    (let target_mode = lower (strip mode); components = map snd registry;
         (errors1, w1) = call_all (\<lambda>c. target_mode \<in> set (rc_supported_modes c)) rc_start ''start'' components w;
         (errors2, w2) = call_all (\<lambda>c. target_mode \<notin> set (rc_supported_modes c)) rc_stop ''stop'' (rev components) w1;
         errors = errors1 @ errors2; sq = [char_of (39 :: nat)]
     in (if errors \<noteq> []
         then raise (RuntimeError (''apply_mode('' @ sq @ target_mode @ sq @ '') partial failure ('' @
            int_str (int (length errors)) @ ''): '' @ join ''; '' errors))
         else ok (), w2))"

definition status_snapshot :: "'w registry \<Rightarrow> 'w \<Rightarrow> pydict" where
  "status_snapshot registry w = map (\<lambda>(name, c). (name, VBool (rc_is_running c w))) registry"

definition component_snapshot :: "'w \<Rightarrow> 'w runtime_component \<Rightarrow> pydict" where
  "component_snapshot w c =
    dmerge [(''running'', VBool (rc_is_running c w)), (''supported_modes'', VList (map VStr (sort (rc_supported_modes c))))]
      (rc_metadata c)"

definition detailed_snapshot :: "'w registry \<Rightarrow> 'w \<Rightarrow> (string \<times> pydict) list" where
  "detailed_snapshot registry w = map (\<lambda>(name, c). (name, component_snapshot w c)) registry"

section \<open>The controller\<close>

record mode_controller =
  mc_policy :: mode_policy
  mc_auto_action :: eod_action
  mc_current_mode :: "runtime_mode option"
  mc_is_auto_transitioned :: bool
  mc_last_transition_at :: "datetime option"
  mc_last_transition_reason :: "string option"
  mc_last_error :: "string option"
  mc_last_actor :: "string option"
  mc_last_action_id :: "string option"
  mc_last_audit_id :: "string option"
  mc_last_idempotency_key :: "string option"
  mc_last_request_context :: pydict
  mc_monitor_running :: bool

definition RuntimeModeController :: "mode_policy \<Rightarrow> eod_action \<Rightarrow> mode_controller" where
  "RuntimeModeController policy action =
    \<lparr>mc_policy = policy, mc_auto_action = action, mc_current_mode = None, mc_is_auto_transitioned = False,
     mc_last_transition_at = None, mc_last_transition_reason = None, mc_last_error = None, mc_last_actor = None,
     mc_last_action_id = None, mc_last_audit_id = None, mc_last_idempotency_key = None,
     mc_last_request_context = [], mc_monitor_running = False\<rparr>"

definition is_trading_active :: "mode_controller \<Rightarrow> bool" where
  "is_trading_active c = (mc_current_mode c = Some FULL)"

text \<open>Who asks for a transition.\<close>

record mode_request =
  mr_reason :: string
  mr_actor :: "string option"
  mr_action_id :: "string option"
  mr_audit_id :: "string option"
  mr_idempotency_key :: "string option"
  mr_request_context :: "pydict option"

definition automatic_request :: "string \<Rightarrow> mode_request" where
  "automatic_request reason = \<lparr>mr_reason = reason, mr_actor = None, mr_action_id = None, mr_audit_id = None,
     mr_idempotency_key = None, mr_request_context = None\<rparr>"

definition strip_or_none :: "string option \<Rightarrow> string option" where
  "strip_or_none x = (case x of None \<Rightarrow> None | Some s \<Rightarrow> let t = strip s in if t = [] then None else Some t)"

text \<open>The environment of a call: the trading module's answer to the guard, the registry if one is
  configured, and the clock.\<close>

record 'w mode_env =
  me_trading :: trading_view
  me_registry :: "'w registry option"
  me_now :: datetime

definition runtime_error_text :: "unit res \<Rightarrow> string option" where
  "runtime_error_text r = (case r of Inl (RuntimeError t) \<Rightarrow> Some t | _ \<Rightarrow> None)"

definition apply_mode_locked :: "'w mode_env \<Rightarrow> runtime_mode \<Rightarrow> mode_request \<Rightarrow> mode_controller \<Rightarrow> 'w \<Rightarrow>
    unit res \<times> mode_controller \<times> 'w" where
  "apply_mode_locked env target rq c w =
    (case ensure_can_enter (me_trading env) target of Inl e \<Rightarrow> (raise e, c, w)
     | Inr _ \<Rightarrow>
       (case me_registry env of
          None \<Rightarrow> (raise (RuntimeError ''runtime_component_registry is not configured''), c, w)
        | Some registry \<Rightarrow>
            let (r, w1) = registry_apply_mode registry (mode_value target) w
            in (ok (), c\<lparr>mc_current_mode := Some target, mc_last_transition_at := Some (me_now env),
                  mc_last_transition_reason := Some (mr_reason rq), mc_last_error := runtime_error_text r,
                  mc_last_actor := strip_or_none (mr_actor rq), mc_last_action_id := strip_or_none (mr_action_id rq),
                  mc_last_audit_id := strip_or_none (mr_audit_id rq),
                  mc_last_idempotency_key := strip_or_none (mr_idempotency_key rq),
                  mc_last_request_context := (case mr_request_context rq of None \<Rightarrow> [] | Some d \<Rightarrow> d)\<rparr>, w1)))"

definition mode_snapshot :: "'w registry option \<Rightarrow> mode_controller \<Rightarrow> 'w \<Rightarrow> pydict" where
  "mode_snapshot registry c w =
    [(''current_mode'', opt_str (map_option mode_value (mc_current_mode c))),
     (''configured_mode'', VStr (mode_value (mp_initial_mode (mc_policy c)))),
     (''monitor_running'', VBool (mc_monitor_running c)),
     (''after_eod_action'', VStr (eod_value (mp_after_eod_action (mc_policy c)))),
     (''auto_check_interval_seconds'', VFloat (mp_auto_check_interval_seconds (mc_policy c))),
     (''is_auto_transitioned'', VBool (mc_is_auto_transitioned c)),
     (''last_transition_at'', opt_str (map_option isoformat (mc_last_transition_at c))),
     (''last_transition_reason'', opt_str (mc_last_transition_reason c)),
     (''last_error'', opt_str (mc_last_error c)), (''last_actor'', opt_str (mc_last_actor c)),
     (''last_action_id'', opt_str (mc_last_action_id c)), (''last_audit_id'', opt_str (mc_last_audit_id c)),
     (''last_idempotency_key'', opt_str (mc_last_idempotency_key c)),
     (''last_request_context'', VDict (mc_last_request_context c)),
     (''components'', VDict (case registry of None \<Rightarrow> [] | Some r \<Rightarrow> status_snapshot r w))]"

text \<open>A request names its mode by value or by text.\<close>

definition apply_mode :: "'w mode_env \<Rightarrow> runtime_mode + string \<Rightarrow> mode_request \<Rightarrow> mode_controller \<Rightarrow> 'w \<Rightarrow>
    pydict res \<times> mode_controller \<times> 'w" where
  "apply_mode env mode rq c w =
    (case (case mode of Inl m \<Rightarrow> ok m | Inr s \<Rightarrow> mode_of_value (lower (strip s))) of
       Inl e \<Rightarrow> (raise e, c, w)
     | Inr target \<Rightarrow>
         let (r, c1, w1) = apply_mode_locked env target rq (c\<lparr>mc_is_auto_transitioned := False\<rparr>) w
         in (rbind r (\<lambda>_. ok (mode_snapshot (me_registry env) c1 w1)), c1, w1))"

text \<open>Starting applies the configured mode and then the monitor, when the automatic transition is
  enabled; stopping ends the monitor.\<close>

definition start_monitor :: "mode_controller \<Rightarrow> mode_controller" where
  "start_monitor c = (if \<not> auto_enabled (mc_auto_action c) then c
     else if mc_monitor_running c then c else c\<lparr>mc_monitor_running := True\<rparr>)"

definition mode_start :: "'w mode_env \<Rightarrow> mode_controller \<Rightarrow> 'w \<Rightarrow> pydict res \<times> mode_controller \<times> 'w" where
  "mode_start env c w =
    (let (r, c1, w1) = apply_mode env (Inl (mp_initial_mode (mc_policy c))) (automatic_request ''startup'') c w
     in (r, (case r of Inl _ \<Rightarrow> c1 | Inr _ \<Rightarrow> start_monitor c1), w1))"

definition mode_stop :: "mode_controller \<Rightarrow> mode_controller" where
  "mode_stop c = c\<lparr>mc_monitor_running := False\<rparr>"

text \<open>One evaluation of the automatic transition. The trading module is asked twice, here and by
  the guard, and may answer differently; the first answer is \<open>seen\<close>.\<close>

definition evaluate_auto_transition :: "bool \<Rightarrow> trading_view \<Rightarrow> 'w mode_env \<Rightarrow> mode_controller \<Rightarrow> 'w \<Rightarrow>
    unit res \<times> mode_controller \<times> 'w" where
  "evaluate_auto_transition after_eod_today seen env c w =
    (case resolve_session_start (mc_current_mode c) after_eod_today (mc_is_auto_transitioned c)
            (mp_initial_mode (mc_policy c)) of
       Some restore \<Rightarrow>
         apply_mode_locked env restore (automatic_request ''session_start'') (c\<lparr>mc_is_auto_transitioned := False\<rparr>) w
     | None \<Rightarrow>
         (case resolve_after_eod (mc_auto_action c) (mc_current_mode c) after_eod_today (can_enter_ingest_only seen) of
            None \<Rightarrow> (ok (), c, w)
          | Some target \<Rightarrow>
              apply_mode_locked env target (automatic_request ''after_eod'') (c\<lparr>mc_is_auto_transitioned := True\<rparr>) w))"

text \<open>The body of the monitor loop records an exception and goes on.\<close>

definition monitor_tick :: "bool \<Rightarrow> trading_view \<Rightarrow> 'w mode_env \<Rightarrow> mode_controller \<Rightarrow> 'w \<Rightarrow> mode_controller \<times> 'w" where
  "monitor_tick after_eod_today seen env c w =
    (let (r, c1, w1) = evaluate_auto_transition after_eod_today seen env c w
     in ((case r of Inl e \<Rightarrow> c1\<lparr>mc_last_error := Some (exc_text e)\<rparr> | Inr _ \<Rightarrow> c1), w1))"

section \<open>Runs\<close>

text \<open>What happens to the controller over its life. A tick of the monitor does nothing unless the
  monitor runs.\<close>

datatype mode_event =
    Start trading_view datetime
  | Request "runtime_mode + string" mode_request trading_view datetime
  | Tick bool trading_view trading_view datetime
  | Stop

definition env_of :: "'w registry option \<Rightarrow> trading_view \<Rightarrow> datetime \<Rightarrow> 'w mode_env" where
  "env_of registry view now = \<lparr>me_trading = view, me_registry = registry, me_now = now\<rparr>"

fun mode_step :: "'w registry option \<Rightarrow> mode_event \<Rightarrow> mode_controller \<times> 'w \<Rightarrow> mode_controller \<times> 'w" where
  "mode_step r (Start view now) (c, w) = snd (mode_start (env_of r view now) c w)"
| "mode_step r (Request mode rq view now) (c, w) = snd (apply_mode (env_of r view now) mode rq c w)"
| "mode_step r (Tick after seen view now) (c, w) =
    (if mc_monitor_running c then monitor_tick after seen (env_of r view now) c w else (c, w))"
| "mode_step r Stop (c, w) = (mode_stop c, w)"

text \<open>The contract of the components: starting and stopping succeed, and change whether the
  component itself runs and no other.\<close>

definition switches :: "'w registry \<Rightarrow> ('w runtime_component \<Rightarrow> 'w \<Rightarrow> string option \<times> 'w) \<Rightarrow> bool \<Rightarrow> bool" where
  "switches r call b \<longleftrightarrow>
    (\<forall>n c w. (n, c) \<in> set r \<longrightarrow> fst (call c w) = None \<and>
      (\<forall>n' c'. (n', c') \<in> set r \<longrightarrow>
        rc_is_running c' (snd (call c w)) = (if n' = n then b else rc_is_running c' w)))"

definition components_sound :: "'w registry \<Rightarrow> bool" where
  "components_sound r \<longleftrightarrow> distinct (map fst r) \<and> switches r rc_start True \<and> switches r rc_stop False"

definition running_matches :: "'w registry \<Rightarrow> mode_controller \<times> 'w \<Rightarrow> bool" where
  "running_matches r s \<longleftrightarrow> (\<forall>m. mc_current_mode (fst s) = Some m \<longrightarrow>
    (\<forall>n c. (n, c) \<in> set r \<longrightarrow> (rc_is_running c (snd s) \<longleftrightarrow> mode_value m \<in> set (rc_supported_modes c))))"

section \<open>Lemmas\<close>

lemma call_all_switches:
  assumes law: "switches r call b" and "set xs \<subseteq> set r"
  shows "\<exists>w'. call_all sel call what (map snd xs) w = ([], w') \<and>
    (\<forall>n c. (n, c) \<in> set r \<longrightarrow>
      rc_is_running c w' = (if \<exists>c0. (n, c0) \<in> set xs \<and> sel c0 then b else rc_is_running c w))"
  using assms(2)
proof (induction xs arbitrary: w)
  case (Cons x xs)
  obtain n0 c0 where x: "x = (n0, c0)" by (cases x)
  let ?w = "if sel c0 then snd (call c0 w) else w"
  have c0: "(n0, c0) \<in> set r" using Cons.prems x by simp
  have quiet: "fst (call c0 w) = None" using law c0 unfolding switches_def by blast
  have eff: "rc_is_running c (snd (call c0 w)) = (if n = n0 then b else rc_is_running c w)" if "(n, c) \<in> set r" for n c
    using law c0 that unfolding switches_def by blast
  obtain w' where ih: "call_all sel call what (map snd xs) ?w = ([], w')"
    "\<And>n c. (n, c) \<in> set r \<Longrightarrow> rc_is_running c w' = (if \<exists>c1. (n, c1) \<in> set xs \<and> sel c1 then b else rc_is_running c ?w)"
    using Cons.IH [of ?w] Cons.prems by auto
  have "call_all sel call what (map snd (x # xs)) w = ([], w')"
    using ih(1) quiet x by (cases "call c0 w") (auto simp: Let_def)
  moreover have "rc_is_running c w' = (if \<exists>c1. (n, c1) \<in> set (x # xs) \<and> sel c1 then b else rc_is_running c w)"
    if "(n, c) \<in> set r" for n c
    using ih(2) [OF that] eff [OF that] x by auto
  ultimately show ?case by blast
qed auto

lemma lower_strip_mode [simp]: "lower (strip (mode_value m)) = mode_value m"
  by (cases m) (simp_all add: mode_value_def str_eval)

lemma registry_apply_running:
  assumes "components_sound r"
  shows "\<exists>w'. registry_apply_mode r (mode_value m) w = (ok (), w') \<and>
    (\<forall>n c. (n, c) \<in> set r \<longrightarrow> (rc_is_running c w' \<longleftrightarrow> mode_value m \<in> set (rc_supported_modes c)))"
proof -
  let ?in = "\<lambda>c. mode_value m \<in> set (rc_supported_modes c)"
  have law: "switches r rc_start True" "switches r rc_stop False" and "distinct (map fst r)"
    using assms by (auto simp: components_sound_def)
  then have uniq: "c0 = c" if "(n, c) \<in> set r" "(n, c0) \<in> set r" for n c0 c
    using that by (metis map_of_is_SomeI option.inject)
  obtain w1 where w1: "call_all ?in rc_start ''start'' (map snd r) w = ([], w1)"
    "\<And>n c. (n, c) \<in> set r \<Longrightarrow> rc_is_running c w1 = (if \<exists>c0. (n, c0) \<in> set r \<and> ?in c0 then True else rc_is_running c w)"
    using call_all_switches [OF law(1), of r ?in "''start''" w] by auto
  obtain w2 where w2: "call_all (\<lambda>c. \<not> ?in c) rc_stop ''stop'' (map snd (rev r)) w1 = ([], w2)"
    "\<And>n c. (n, c) \<in> set r \<Longrightarrow> rc_is_running c w2 = (if \<exists>c0. (n, c0) \<in> set (rev r) \<and> \<not> ?in c0 then False else rc_is_running c w1)"
    using call_all_switches [OF law(2), of "rev r" "\<lambda>c. \<not> ?in c" "''stop''" w1] by auto
  have "rc_is_running c w2 \<longleftrightarrow> ?in c" if "(n, c) \<in> set r" for n c
  proof -
    have "(\<exists>c0. (n, c0) \<in> set r \<and> ?in c0) = ?in c" "(\<exists>c0. (n, c0) \<in> set (rev r) \<and> \<not> ?in c0) = (\<not> ?in c)"
      unfolding set_rev using that uniq [OF that] by metis+
    then show ?thesis unfolding w2(2) [OF that] w1(2) [OF that] by simp
  qed
  then show ?thesis using w1(1) w2(1) by (auto simp: registry_apply_mode_def rev_map)
qed

text \<open>A transition goes through exactly when the guard lets it in and there is a registry.\<close>

lemma apply_mode_locked_cases:
  "apply_mode_locked env target rq c w = (r, c', w') \<Longrightarrow>
    (c' = c \<and> w' = w \<and> (\<not> can_enter (me_trading env) target \<or> me_registry env = None) \<and> (\<exists>t. r = Inl (RuntimeError t))) \<or>
    (can_enter (me_trading env) target \<and> r = ok () \<and> mc_current_mode c' = Some target \<and>
      mc_policy c' = mc_policy c \<and> mc_auto_action c' = mc_auto_action c \<and>
      mc_is_auto_transitioned c' = mc_is_auto_transitioned c \<and> mc_monitor_running c' = mc_monitor_running c \<and>
      (\<exists>reg. me_registry env = Some reg \<and> w' = snd (registry_apply_mode reg (mode_value target) w)))"
  by (auto simp: apply_mode_locked_def ensure_can_enter_def split: if_splits option.splits prod.splits)

lemma apply_mode_locked_ok:
  assumes "can_enter (me_trading env) target" "me_registry env = Some reg"
  obtains c' w' where "apply_mode_locked env target rq c w = (ok (), c', w')" "mc_current_mode c' = Some target"
    "mc_policy c' = mc_policy c" "mc_auto_action c' = mc_auto_action c"
    "mc_is_auto_transitioned c' = mc_is_auto_transitioned c" "mc_monitor_running c' = mc_monitor_running c"
proof -
  obtain r c' w' where a: "apply_mode_locked env target rq c w = (r, c', w')" by (cases "apply_mode_locked env target rq c w")
  from apply_mode_locked_cases [OF a] assms a show ?thesis by (intro that [of c' w']) auto
qed

text \<open>What one event can do: stay, or enter a mode through the guard.\<close>

definition event_target :: "mode_event \<Rightarrow> runtime_mode res option" where
  "event_target ev = (case ev of Request mode rq view now \<Rightarrow>
      Some (case mode of Inl m \<Rightarrow> ok m | Inr s \<Rightarrow> mode_of_value (lower (strip s))) | _ \<Rightarrow> None)"

text \<open>What the trading module says at the moment the guard asks it in an event, and that this
  answer is flat: no trading module, or neither a position nor an order.\<close>

definition event_view :: "mode_event \<Rightarrow> trading_view option" where
  "event_view ev = (case ev of Start view now \<Rightarrow> Some view | Request mode rq view now \<Rightarrow> Some view
     | Tick after seen view now \<Rightarrow> Some view | Stop \<Rightarrow> None)"

definition event_flat :: "mode_event \<Rightarrow> bool" where
  "event_flat ev \<longleftrightarrow> event_view ev \<in> {Some None, Some (Some (ok [], ok []))}"

lemma can_enter_ingest_only_iff: "can_enter_ingest_only view \<longleftrightarrow> view = None \<or> view = Some (ok [], ok [])"
  by (auto simp: can_enter_ingest_only_def split: option.splits sum.splits prod.splits)

lemmas event_flat_simps = event_flat_def event_view_def can_enter_ingest_only_iff

lemma mode_step_cases:
  assumes "mode_step (Some reg) ev (c, w) = (c', w')"
  shows "mc_policy c' = mc_policy c \<and>
    (mc_current_mode c' = mc_current_mode c \<and> w' = w \<or>
     (\<exists>m. mc_current_mode c' = Some m \<and> (m = INGEST_ONLY \<longrightarrow> event_flat ev) \<and>
       w' = snd (registry_apply_mode reg (mode_value m) w) \<and>
       (m = mp_initial_mode (mc_policy c) \<or> event_target ev = Some (ok m) \<or> m = RISK_OFF \<or> m = INGEST_ONLY)))"
proof (cases ev)
  case (Start view now)
  let ?env = "env_of (Some reg) view now"
  obtain r c1 w1 where a: "apply_mode_locked ?env (mp_initial_mode (mc_policy c)) (automatic_request ''startup'')
      (c\<lparr>mc_is_auto_transitioned := False\<rparr>) w = (r, c1, w1)"
    by (metis prod.exhaust)
  from apply_mode_locked_cases [OF a] show ?thesis using assms Start a
    by (auto simp: mode_start_def apply_mode_def env_of_def event_flat_simps can_enter_def start_monitor_def split: sum.splits)
next
  case (Request mode rq view now)
  show ?thesis
  proof (cases "case mode of Inl m \<Rightarrow> ok m | Inr s \<Rightarrow> mode_of_value (lower (strip s))")
    case (Inl e)
    then show ?thesis using assms Request by (auto simp: apply_mode_def)
  next
    case (Inr m)
    let ?env = "env_of (Some reg) view now"
    obtain r c1 w1 where a: "apply_mode_locked ?env m rq (c\<lparr>mc_is_auto_transitioned := False\<rparr>) w = (r, c1, w1)"
      by (metis prod.exhaust)
    from apply_mode_locked_cases [OF a] show ?thesis using assms Request Inr a
      by (auto simp: apply_mode_def env_of_def event_flat_simps can_enter_def event_target_def)
  qed
next
  case (Tick after seen view now)
  let ?env = "env_of (Some reg) view now"
  have eval: "mc_policy c1 = mc_policy c \<and> (mc_current_mode c1 = mc_current_mode c \<and> w1 = w \<or>
      (\<exists>m. mc_current_mode c1 = Some m \<and> can_enter view m \<and> w1 = snd (registry_apply_mode reg (mode_value m) w) \<and>
        (m = mp_initial_mode (mc_policy c) \<or> m = RISK_OFF \<or> m = INGEST_ONLY)))"
    if "evaluate_auto_transition after seen ?env c w = (r, c1, w1)" for r c1 w1
    using that
    by (auto simp: evaluate_auto_transition_def resolve_session_start_def resolve_after_eod_def Let_def env_of_def
        split: if_splits option.splits dest!: apply_mode_locked_cases)
  obtain r c1 w1 where e: "evaluate_auto_transition after seen ?env c w = (r, c1, w1)" by (metis prod.exhaust)
  from eval [OF e] show ?thesis using assms Tick e
    by (auto simp: monitor_tick_def event_flat_simps can_enter_def split: if_splits sum.splits)
next
  case Stop
  then show ?thesis using assms by (auto simp: mode_stop_def)
qed

lemma running_matches_step: "components_sound reg \<Longrightarrow> running_matches reg s \<Longrightarrow> running_matches reg (mode_step (Some reg) ev s)"
proof -
  assume sound: "components_sound reg" and old: "running_matches reg s"
  obtain c w where s: "s = (c, w)" by (cases s)
  obtain c' w' where st: "mode_step (Some reg) ev (c, w) = (c', w')" by (metis prod.exhaust)
  from mode_step_cases [OF st] consider "mc_current_mode c' = mc_current_mode c" "w' = w"
    | m where "mc_current_mode c' = Some m" "w' = snd (registry_apply_mode reg (mode_value m) w)" by blast
  then show ?thesis
  proof cases
    assume "mc_current_mode c' = mc_current_mode c" "w' = w"
    then show ?thesis using old s st by (simp add: running_matches_def)
  next
    fix m assume m: "mc_current_mode c' = Some m" "w' = snd (registry_apply_mode reg (mode_value m) w)"
    obtain w2 where "registry_apply_mode reg (mode_value m) w = (ok (), w2)"
      "\<forall>n c. (n, c) \<in> set reg \<longrightarrow> (rc_is_running c w2 \<longleftrightarrow> mode_value m \<in> set (rc_supported_modes c))"
      using registry_apply_running [OF sound] by blast
    then show ?thesis using m s st by (simp add: running_matches_def)
  qed
qed

interpretation modes: event_system "mode_step (Some reg)" "\<lambda>s. components_sound reg \<longrightarrow> running_matches reg s" for reg
  by unfold_locales (use running_matches_step in blast)

lemma mode_run_policy: "mc_policy (fst (fold (mode_step (Some reg)) evs s)) = mc_policy (fst s)"
proof (induction evs arbitrary: s)
  case (Cons ev evs)
  obtain c w where s: "s = (c, w)" by (cases s)
  obtain c' w' where st: "mode_step (Some reg) ev (c, w) = (c', w')" by (metis prod.exhaust)
  show ?case using Cons.IH [of "(c', w')"] mode_step_cases [OF st] s st by simp
qed simp

text \<open>Every entry into a mode is justified by the very event that made it.\<close>

definition mode_after :: "'w registry \<Rightarrow> mode_event list \<Rightarrow> mode_controller \<times> 'w \<Rightarrow> nat \<Rightarrow> runtime_mode option" where
  "mode_after reg evs s n = mc_current_mode (fst (fold (mode_step (Some reg)) (take n evs) s))"

definition enters :: "'w registry \<Rightarrow> mode_event list \<Rightarrow> mode_controller \<times> 'w \<Rightarrow> nat \<Rightarrow> runtime_mode \<Rightarrow> bool" where
  "enters reg evs s n m \<longleftrightarrow> n < length evs \<and>
    mode_after reg evs s n \<noteq> Some m \<and> mode_after reg evs s (Suc n) = Some m"

lemma entry_justified:
  assumes "enters reg evs s n m"
  shows "(m = INGEST_ONLY \<longrightarrow> event_flat (evs ! n)) \<and>
    (m = mp_initial_mode (mc_policy (fst s)) \<or> event_target (evs ! n) = Some (ok m) \<or> m = RISK_OFF \<or> m = INGEST_ONLY)"
proof -
  obtain c w where before: "fold (mode_step (Some reg)) (take n evs) s = (c, w)" by (metis prod.exhaust)
  obtain c' w' where st: "mode_step (Some reg) (evs ! n) (c, w) = (c', w')" by (metis prod.exhaust)
  have "n < length evs" "mc_current_mode c \<noteq> Some m" "mc_current_mode c' = Some m"
    using assms before st by (auto simp: enters_def mode_after_def take_Suc_conv_app_nth)
  moreover have "mc_policy c = mc_policy (fst s)" using mode_run_policy [of reg "take n evs" s] before by simp
  ultimately show ?thesis using mode_step_cases [OF st] by auto
qed

lemma first_entry:
  assumes "mode_after reg evs s (length evs) = Some m" "mc_current_mode (fst s) = None"
  obtains n where "enters reg evs s n m"
proof -
  have none: "mode_after reg evs s 0 \<noteq> Some m" using assms(2) by (simp add: mode_after_def)
  obtain n where "n < length evs" "mode_after reg evs s n \<noteq> Some m" "mode_after reg evs s (Suc n) = Some m"
    using ex_least_nat_less [of "\<lambda>k. mode_after reg evs s k = Some m" "length evs"] assms(1) none by blast
  then show ?thesis using that by (simp add: enters_def)
qed

section \<open>The end-of-day cycle\<close>

text \<open>The two phases of a day, for a controller that started in its configured mode.\<close>

definition in_session :: "mode_policy \<Rightarrow> eod_action \<Rightarrow> mode_controller \<Rightarrow> bool" where
  "in_session policy action c \<longleftrightarrow> mc_policy c = policy \<and> mc_auto_action c = action \<and> mc_monitor_running c \<and>
    mc_current_mode c = Some (mp_initial_mode policy) \<and> \<not> mc_is_auto_transitioned c"

definition after_session :: "mode_policy \<Rightarrow> eod_action \<Rightarrow> mode_controller \<Rightarrow> bool" where
  "after_session policy action c \<longleftrightarrow> mc_policy c = policy \<and> mc_auto_action c = action \<and> mc_monitor_running c \<and>
    mc_current_mode c \<in> {Some RISK_OFF, Some INGEST_ONLY} \<and> mc_is_auto_transitioned c"

lemma start_in_session:
  assumes "mp_initial_mode policy \<in> {FULL, OBSERVE}" "auto_enabled action"
  shows "in_session policy action (fst (mode_step (Some reg) (Start view now) (RuntimeModeController policy action, w)))"
proof -
  let ?c = "RuntimeModeController policy action"
  have "can_enter (me_trading (env_of (Some reg) view now)) (mp_initial_mode policy)"
    using assms(1) by (auto simp: can_enter_def)
  moreover have "me_registry (env_of (Some reg) view now) = Some reg" by (simp add: env_of_def)
  ultimately obtain c' w' where "apply_mode_locked (env_of (Some reg) view now) (mp_initial_mode policy)
      (automatic_request ''startup'') (?c\<lparr>mc_is_auto_transitioned := False\<rparr>) w = (ok (), c', w')"
    "mc_current_mode c' = Some (mp_initial_mode policy)" "mc_policy c' = policy" "mc_auto_action c' = action"
    "\<not> mc_is_auto_transitioned c'" "\<not> mc_monitor_running c'"
    by (rule apply_mode_locked_ok [where rq = "automatic_request ''startup''" and w = w
          and c = "?c\<lparr>mc_is_auto_transitioned := False\<rparr>"]) (auto simp: RuntimeModeController_def)
  then show ?thesis using assms(2)
    by (simp add: in_session_def mode_start_def apply_mode_def RuntimeModeController_def start_monitor_def)
qed

lemma tick_after_eod:
  assumes "in_session policy action c \<or> after_session policy action c" "mp_initial_mode policy \<in> {FULL, OBSERVE}"
  shows "after_session policy action (fst (mode_step (Some reg) (Tick True view view now) (c, w)))"
  using assms(1)
proof
  assume c: "in_session policy action c"
  let ?env = "env_of (Some reg) view now"
  define target where "target = (if action = EOD_RISK_OFF \<or> \<not> can_enter_ingest_only view then RISK_OFF else INGEST_ONLY)"
  have res: "resolve_session_start (mc_current_mode c) True (mc_is_auto_transitioned c) (mp_initial_mode (mc_policy c)) = None"
    "resolve_after_eod (mc_auto_action c) (mc_current_mode c) True (can_enter_ingest_only view) = Some target"
    using c assms(2) by (auto simp: in_session_def resolve_session_start_def resolve_after_eod_def target_def)
  have "can_enter (me_trading ?env) target" "me_registry ?env = Some reg"
    by (auto simp: can_enter_def target_def env_of_def)
  then obtain c' w' where "apply_mode_locked ?env target (automatic_request ''after_eod'')
      (c\<lparr>mc_is_auto_transitioned := True\<rparr>) w = (ok (), c', w')"
    "mc_current_mode c' = Some target" "mc_policy c' = policy" "mc_auto_action c' = action"
    "mc_is_auto_transitioned c'" "mc_monitor_running c'"
    by (rule apply_mode_locked_ok [where rq = "automatic_request ''after_eod''" and w = w
          and c = "c\<lparr>mc_is_auto_transitioned := True\<rparr>"]) (use c in \<open>auto simp: in_session_def\<close>)
  then show ?thesis using c res
    by (auto simp: after_session_def in_session_def monitor_tick_def evaluate_auto_transition_def target_def)
next
  assume "after_session policy action c"
  then show ?thesis
    by (auto simp: after_session_def monitor_tick_def evaluate_auto_transition_def resolve_session_start_def
        resolve_after_eod_def)
qed

lemma tick_in_session:
  assumes "in_session policy action c \<or> after_session policy action c" "mp_initial_mode policy \<in> {FULL, OBSERVE}"
  shows "in_session policy action (fst (mode_step (Some reg) (Tick False seen view now) (c, w)))"
  using assms(1)
proof
  assume "in_session policy action c"
  then show ?thesis
    by (auto simp: in_session_def monitor_tick_def evaluate_auto_transition_def resolve_session_start_def
        resolve_after_eod_def)
next
  assume c: "after_session policy action c"
  let ?env = "env_of (Some reg) view now" and ?m = "mp_initial_mode policy"
  have res: "resolve_session_start (mc_current_mode c) False (mc_is_auto_transitioned c) (mp_initial_mode (mc_policy c)) = Some ?m"
    using c assms(2) by (auto simp: after_session_def resolve_session_start_def)
  have "can_enter (me_trading ?env) ?m" "me_registry ?env = Some reg"
    using assms(2) by (auto simp: can_enter_def env_of_def)
  then obtain c' w' where "apply_mode_locked ?env ?m (automatic_request ''session_start'')
      (c\<lparr>mc_is_auto_transitioned := False\<rparr>) w = (ok (), c', w')"
    "mc_current_mode c' = Some ?m" "mc_policy c' = policy" "mc_auto_action c' = action"
    "\<not> mc_is_auto_transitioned c'" "mc_monitor_running c'"
    by (rule apply_mode_locked_ok [where rq = "automatic_request ''session_start''" and w = w
          and c = "c\<lparr>mc_is_auto_transitioned := False\<rparr>"]) (use c in \<open>auto simp: after_session_def\<close>)
  then show ?thesis using c res
    by (simp add: in_session_def after_session_def monitor_tick_def evaluate_auto_transition_def)
qed

lemma ticks_after_eod:
  assumes "mp_initial_mode policy \<in> {FULL, OBSERVE}" "in_session policy action (fst s)" "ticks \<noteq> []"
  shows "after_session policy action (fst (fold (mode_step (Some reg)) (map (\<lambda>(view, now). Tick True view view now) ticks) s))"
proof -
  have run: "after_session policy action (fst s) \<Longrightarrow>
      after_session policy action (fst (fold (mode_step (Some reg)) (map (\<lambda>(view, now). Tick True view view now) ts) s))" for ts s
  proof (induction ts arbitrary: s)
    case (Cons t ts)
    then show ?case using tick_after_eod [OF disjI2 assms(1), of action "fst s" reg "fst t" "snd t" "snd s"]
      by (cases t) simp
  qed simp
  obtain t ts where "ticks = t # ts" using assms(3) by (cases ticks) auto
  then show ?thesis
    using tick_after_eod [OF disjI1 [OF assms(2)] assms(1), of reg "fst t" "snd t" "snd s"]
      run [of "mode_step (Some reg) (Tick True (fst t) (fst t) (snd t)) s" ts]
    by (cases t) simp
qed

lemma ticks_in_session:
  assumes "mp_initial_mode policy \<in> {FULL, OBSERVE}" "after_session policy action (fst s)" "ticks \<noteq> []"
  shows "in_session policy action (fst (fold (mode_step (Some reg)) (map (\<lambda>(seen, view, now). Tick False seen view now) ticks) s))"
proof -
  have run: "in_session policy action (fst s) \<Longrightarrow>
      in_session policy action (fst (fold (mode_step (Some reg)) (map (\<lambda>(seen, view, now). Tick False seen view now) ts) s))" for ts s
  proof (induction ts arbitrary: s)
    case (Cons t ts)
    then show ?case using tick_in_session [OF disjI1 assms(1), of action "fst s" reg "fst t" "fst (snd t)" "snd (snd t)" "snd s"]
      by (cases t) simp
  qed simp
  obtain t ts where "ticks = t # ts" using assms(3) by (cases ticks) auto
  then show ?thesis
    using tick_in_session [OF disjI2 [OF assms(2)] assms(1), of reg "fst t" "fst (snd t)" "snd (snd t)" "snd s"]
      run [of "mode_step (Some reg) (Tick False (fst t) (fst (snd t)) (snd (snd t))) s" ts]
    by (cases t) simp
qed

section \<open>Properties\<close>

text \<open>C4: Over any sequence of start-ups, operator requests, monitor ticks and stops, whatever the
  trading module answers: every event that enters \<open>ingest_only\<close> is itself one in which the trading
  module, asked by the guard at that moment, reports neither positions nor orders (or there is no
  trading module); every event that enters \<open>full\<close> is itself an operator's request for it, unless it
  is the configured mode, so trading is active only if it is the configured mode or an operator
  asked for it. The components are parameters: when they keep their contract (distinct names;
  starting and stopping a component never fail and change whether that component runs and no
  other), the running components are exactly those that support the current mode.\<close>

theorem mode_runs_are_safe:
  "let s0 = (RuntimeModeController policy action, w); s = fold (mode_step (Some reg)) evs s0
    in (\<forall>n. enters reg evs s0 n INGEST_ONLY \<longrightarrow> event_flat (evs ! n)) \<and>
      (\<forall>n. enters reg evs s0 n FULL \<longrightarrow> mp_initial_mode policy = FULL \<or> event_target (evs ! n) = Some (ok FULL)) \<and>
      (is_trading_active (fst s) \<longrightarrow>
        mp_initial_mode policy = FULL \<or> (\<exists>ev\<in>set evs. event_target ev = Some (ok FULL))) \<and>
      (components_sound reg \<longrightarrow> running_matches reg s)"
proof -
  define s0 where "s0 = (RuntimeModeController policy action, w)"
  define s where "s = fold (mode_step (Some reg)) evs s0"
  have c: "mc_current_mode (fst s0) = None" "mc_policy (fst s0) = policy"
    by (simp_all add: s0_def RuntimeModeController_def)
  have flat: "enters reg evs s0 n INGEST_ONLY \<Longrightarrow> event_flat (evs ! n)" for n using entry_justified by blast
  have full: "enters reg evs s0 n FULL \<Longrightarrow> mp_initial_mode policy = FULL \<or> event_target (evs ! n) = Some (ok FULL)" for n
    using entry_justified [of reg evs s0 n FULL] c(2) by auto
  have active: "mp_initial_mode policy = FULL \<or> (\<exists>ev\<in>set evs. event_target ev = Some (ok FULL))"
    if "is_trading_active (fst s)"
  proof -
    have "mode_after reg evs s0 (length evs) = Some FULL"
      using that by (simp add: is_trading_active_def mode_after_def s_def)
    then obtain n where "enters reg evs s0 n FULL" using first_entry c(1) by metis
    then show ?thesis using full [of n] by (auto simp: enters_def)
  qed
  have "running_matches reg s0" using c(1) by (simp add: running_matches_def)
  then have "components_sound reg \<longrightarrow> running_matches reg s"
    using modes.inv_run [of reg s0 evs] by (simp add: s_def)
  then show ?thesis using flat full active unfolding Let_def s0_def [symmetric] s_def [symmetric] by blast
qed

definition flag_component :: "string \<Rightarrow> string list \<Rightarrow> string list runtime_component" where
  "flag_component name modes = \<lparr>rc_name = name, rc_supported_modes = modes,
     rc_start = (\<lambda>w. (None, name # w)), rc_stop = (\<lambda>w. (None, filter (\<lambda>n. n \<noteq> name) w)),
     rc_is_running = (\<lambda>w. name \<in> set w), rc_metadata = []\<rparr>"

definition sample_registry :: "string list registry" where
  "sample_registry = RuntimeComponentRegistry [flag_component ''ingestion'' [''full'', ''observe'', ''risk_off'', ''ingest_only''],
     flag_component ''executor'' [''full'']]"

lemma sample_registry_sound: "components_sound sample_registry"
  by (auto simp: components_sound_def switches_def sample_registry_def RuntimeComponentRegistry_def register_def
      flag_component_def)

definition sample_policy :: mode_policy where
  "sample_policy = \<lparr>mp_initial_mode = FULL, mp_after_eod_action = EOD_RISK_OFF, mp_auto_check_interval_seconds = 15\<rparr>"

definition sample_events :: "mode_event list" where
  "sample_events = [Start None (Datetime 0 (Some 0)), Tick True None (Some (ok [], ok [])) (Datetime 1 (Some 0))]"

theorem mode_runs_are_safe_witness:
  "enters sample_registry sample_events (RuntimeModeController sample_policy EOD_INGEST_ONLY, []) 1 INGEST_ONLY \<and>
    event_flat (sample_events ! 1) \<and> components_sound sample_registry \<and>
    running_matches sample_registry (fold (mode_step (Some sample_registry)) sample_events
      (RuntimeModeController sample_policy EOD_INGEST_ONLY, []))"
proof -
  have "enters sample_registry sample_events (RuntimeModeController sample_policy EOD_INGEST_ONLY, []) 1 INGEST_ONLY"
    by code_simp
  then show ?thesis
    using mode_runs_are_safe [of sample_policy EOD_INGEST_ONLY "[]" sample_registry sample_events]
      sample_registry_sound unfolding Let_def by blast
qed

text \<open>C26: The end-of-day cycle completes: a controller configured for \<open>full\<close> or \<open>observe\<close> with an
  automatic end-of-day action leaves that mode at the first monitor tick after the close (the
  trading module answering both of its questions alike) and stays in \<open>risk_off\<close> or \<open>ingest_only\<close>
  for every further tick of the evening; the first tick of the next session restores the
  configured mode, and the later ones keep it, whatever the components report.\<close>

theorem eod_cycle_restores_mode:
  assumes "mp_initial_mode policy \<in> {FULL, OBSERVE}" "auto_enabled action" "evening \<noteq> []" "morning \<noteq> []"
  shows "let started = mode_step (Some reg) (Start view now) (RuntimeModeController policy action, w);
      closed = fold (mode_step (Some reg)) (map (\<lambda>(v, t). Tick True v v t) evening) started;
      reopened = fold (mode_step (Some reg)) (map (\<lambda>(v1, v2, t). Tick False v1 v2 t) morning) closed
    in mc_current_mode (fst started) = Some (mp_initial_mode policy) \<and>
      mc_current_mode (fst closed) \<in> {Some RISK_OFF, Some INGEST_ONLY} \<and>
      mc_current_mode (fst reopened) = Some (mp_initial_mode policy) \<and> \<not> mc_is_auto_transitioned (fst reopened)"
proof -
  let ?started = "mode_step (Some reg) (Start view now) (RuntimeModeController policy action, w)"
  note s0 = start_in_session [OF assms(1,2), of reg view now w]
  note s1 = ticks_after_eod [OF assms(1) s0 assms(3), of reg]
  note s2 = ticks_in_session [OF assms(1) s1 assms(4), of reg]
  show ?thesis using s0 s1 s2 by (auto simp: Let_def in_session_def after_session_def)
qed

theorem eod_cycle_restores_mode_witness:
  "mc_current_mode (fst (fold (mode_step (Some sample_registry))
     (map (\<lambda>(v1, v2, t). Tick False v1 v2 t) [(None, None, Datetime 2 (Some 0))])
     (fold (mode_step (Some sample_registry)) (map (\<lambda>(v, t). Tick True v v t) [(Some (ok [''pos''], ok []), Datetime 1 (Some 0))])
       (mode_step (Some sample_registry) (Start None (Datetime 0 (Some 0)))
         (RuntimeModeController sample_policy EOD_INGEST_ONLY, []))))) = Some FULL"
proof -
  have "mp_initial_mode sample_policy \<in> {FULL, OBSERVE}" "auto_enabled EOD_INGEST_ONLY" "mp_initial_mode sample_policy = FULL"
    by code_simp+
  then show ?thesis
    using eod_cycle_restores_mode [of sample_policy EOD_INGEST_ONLY "[(Some (ok [''pos''], ok []), Datetime 1 (Some 0))]"
        "[(None, None, Datetime 2 (Some 0))]" sample_registry None "Datetime 0 (Some 0)" "[]"]
    by (simp only: Let_def) simp
qed

section \<open>A rejected request cancels the restoration\<close>

text \<open>The request handler clears the automatic-transition mark before the guard is asked. A request
  for \<open>ingest_only\<close> that the guard rejects after the end-of-day transition therefore leaves the
  mode as it is and the mark cleared, and no later tick restores the configured mode.\<close>

lemma unmarked_ticks_stay:
  assumes "mc_current_mode (fst s) = Some RISK_OFF" "\<not> mc_is_auto_transitioned (fst s)"
  shows "mc_current_mode (fst (fold (mode_step (Some reg)) (map (\<lambda>(v1, v2, t). Tick False v1 v2 t) ticks) s)) = Some RISK_OFF"
  using assms
proof (induction ticks arbitrary: s)
  case (Cons t ticks)
  obtain v1 v2 now where t: "t = (v1, v2, now)" by (cases t)
  obtain c w where s: "s = (c, w)" by (cases s)
  have "mode_step (Some reg) (Tick False v1 v2 now) s = s"
    using Cons.prems s by (simp add: monitor_tick_def evaluate_auto_transition_def resolve_session_start_def resolve_after_eod_def)
  with Cons t show ?case by simp
qed simp

theorem rejected_request_cancels_restore:
  assumes "after_session policy action c" "mc_current_mode c = Some RISK_OFF" "\<not> can_enter_ingest_only view"
  shows "let rejected = apply_mode (env_of (Some reg) view now) (Inl INGEST_ONLY) rq c w
    in fst rejected = raise (RuntimeError ''ingest_only requires no open positions and no pending orders'') \<and>
      mc_current_mode (fst (fold (mode_step (Some reg)) (map (\<lambda>(v1, v2, t). Tick False v1 v2 t) morning) (snd rejected))) =
        Some RISK_OFF"
proof -
  let ?c = "c\<lparr>mc_is_auto_transitioned := False\<rparr>"
  have "apply_mode (env_of (Some reg) view now) (Inl INGEST_ONLY) rq c w =
      (raise (RuntimeError ''ingest_only requires no open positions and no pending orders''), ?c, w)"
    using assms(3) by (simp add: apply_mode_def apply_mode_locked_def ensure_can_enter_def can_enter_def env_of_def)
  then show ?thesis using unmarked_ticks_stay [of "(?c, w)" reg morning] assms(2) by (simp add: Let_def)
qed

end
