(* ===== verification/Trade_Sizing.thy ===== *)
theory Trade_Sizing
  imports Py_Repr
begin

text \<open>
  From a signal to order parameters: the ATR-based stop, target and volume
  (\<^verbatim>\<open>src/src/trading/execution/sizing.py\<close>), the resolution of their inputs from the signal event
  and the cost estimate (\<^verbatim>\<open>src/src/trading/execution/params.py\<close>), and the cap on the loss of one
  trade (\<^verbatim>\<open>src/src/trading/execution/risk_caps.py\<close>). Prices and volumes are binary64 values with
  the rounding of every operation; the account balance and the parser of \<open>float(text)\<close> are
  arguments.
\<close>

section \<open>Tables\<close>

definition timeframe_sl_tp :: "(string \<times> rat \<times> rat) list" where
  "timeframe_sl_tp =
    [(''M5'', fl (18/10), fl (25/10)), (''M15'', fl (18/10), fl (25/10)), (''M30'', 2, fl (25/10)),
     (''H1'', 2, fl (25/10)), (''H4'', fl (22/10), 3), (''D1'', fl (25/10), fl (35/10))]"

definition timeframe_risk_multiplier :: "(string \<times> rat) list" where
  "timeframe_risk_multiplier =
    [(''M5'', fl (50/100)), (''M15'', fl (75/100)), (''M30'', fl (90/100)), (''H1'', 1), (''H4'', fl (120/100)),
     (''D1'', fl (150/100))]"

record trade_parameters =
  tp_entry_price :: rat
  tp_stop_loss :: rat
  tp_take_profit :: rat
  tp_position_size :: rat
  tp_risk_reward_ratio :: rat
  tp_atr_value :: rat
  tp_sl_distance :: rat
  tp_tp_distance :: rat

record regime_sizing =
  rs_tp_trending :: rat
  rs_tp_ranging :: rat
  rs_tp_breakout :: rat
  rs_tp_uncertain :: rat
  rs_sl_trending :: rat
  rs_sl_ranging :: rat
  rs_sl_breakout :: rat
  rs_sl_uncertain :: rat

definition RegimeSizing :: regime_sizing where
  "RegimeSizing = \<lparr>rs_tp_trending = fl (120/100), rs_tp_ranging = fl (80/100), rs_tp_breakout = fl (110/100),
     rs_tp_uncertain = 1, rs_sl_trending = 1, rs_sl_ranging = fl (90/100), rs_sl_breakout = fl (110/100),
     rs_sl_uncertain = 1\<rparr>"

section \<open>Multipliers\<close>

text \<open>An optional string is absent or may be empty; both count as not given.\<close>

definition given :: "string option \<Rightarrow> string option" where
  "given s = (case s of None \<Rightarrow> None | Some t \<Rightarrow> if t = [] then None else Some t)"

definition resolve_timeframe_risk_multiplier :: "string option \<Rightarrow> (string \<times> rat) list option \<Rightarrow> rat" where
  "resolve_timeframe_risk_multiplier timeframe overrides =
    (case given timeframe of None \<Rightarrow> 1
     | Some t \<Rightarrow>
       let tf = upper (strip t); o_tf = (case overrides of None \<Rightarrow> None | Some d \<Rightarrow> map_of d tf)
       in case o_tf of Some x \<Rightarrow> x
          | None \<Rightarrow> (case map_of timeframe_risk_multiplier tf of None \<Rightarrow> 1 | Some x \<Rightarrow> x))"

definition resolve_timeframe_sl_tp :: "string option \<Rightarrow> rat \<Rightarrow> rat \<Rightarrow> rat \<times> rat" where
  "resolve_timeframe_sl_tp timeframe default_sl default_tp =
    (case given timeframe of None \<Rightarrow> (default_sl, default_tp)
     | Some t \<Rightarrow> (case map_of timeframe_sl_tp (upper (strip t)) of
         None \<Rightarrow> (default_sl, default_tp) | Some profile \<Rightarrow> profile))"

text \<open>The key of a regime: stripped, lower case, without the enumeration's prefix.\<close>

definition regime_key :: "string \<Rightarrow> string" where
  "regime_key regime =
    (let key = lower (strip regime)
     in if starts_with key ''regimetype.'' then drop (length ''regimetype.'') key else key)"

definition resolve_regime_sl_tp_multiplier :: "string option \<Rightarrow> regime_sizing option \<Rightarrow> rat \<times> rat" where
  "resolve_regime_sl_tp_multiplier regime sizing0 =
    (case given regime of None \<Rightarrow> (1, 1)
     | Some r \<Rightarrow>
       let sizing = (case sizing0 of None \<Rightarrow> RegimeSizing | Some s \<Rightarrow> s); key = regime_key r
       in if key = ''trending'' then (rs_sl_trending sizing, rs_tp_trending sizing)
          else if key = ''ranging'' then (rs_sl_ranging sizing, rs_tp_ranging sizing)
          else if key = ''breakout'' then (rs_sl_breakout sizing, rs_tp_breakout sizing)
          else if key = ''uncertain'' then (rs_sl_uncertain sizing, rs_tp_uncertain sizing)
          else (1, 1))"

section \<open>Order parameters\<close>

record sizing_request =
  sq_action :: string
  sq_current_price :: rat
  sq_atr_value :: rat
  sq_account_balance :: rat
  sq_timeframe :: "string option"
  sq_risk_percent :: rat
  sq_sl_atr_multiplier :: rat
  sq_tp_atr_multiplier :: rat
  sq_min_volume :: rat
  sq_max_volume :: rat
  sq_contract_size :: rat
  sq_timeframe_risk_overrides :: "(string \<times> rat) list option"
  sq_regime :: "string option"
  sq_regime_sizing :: "regime_sizing option"
  sq_digits :: nat
  sq_volume_step :: rat

text \<open>The text of \<open>f"{x:.nf}"\<close>.\<close>

definition fmt_fixed :: "nat \<Rightarrow> rat \<Rightarrow> string" where
  "fmt_fixed n x =
    (let t = dec_str (round_half_even (\<bar>x\<bar> * 10 ^ n)); padded = zeros (Suc n - length t) @ t; k = length padded - n
     in (if x < 0 then ''-'' else []) @ take k padded @ (if n = 0 then [] else ''.'' @ drop k padded))"

definition sl_multiplier :: "sizing_request \<Rightarrow> rat" where
  "sl_multiplier q =
    fl (fst (resolve_timeframe_sl_tp (sq_timeframe q) (sq_sl_atr_multiplier q) (sq_tp_atr_multiplier q)) *
        fst (resolve_regime_sl_tp_multiplier (sq_regime q) (sq_regime_sizing q)))"

definition tp_multiplier :: "sizing_request \<Rightarrow> rat" where
  "tp_multiplier q =
    fl (snd (resolve_timeframe_sl_tp (sq_timeframe q) (sq_sl_atr_multiplier q) (sq_tp_atr_multiplier q)) *
        snd (resolve_regime_sl_tp_multiplier (sq_regime q) (sq_regime_sizing q)))"

definition sl_distance :: "sizing_request \<Rightarrow> rat" where
  "sl_distance q = fl (sq_atr_value q * sl_multiplier q)"

definition tp_distance :: "sizing_request \<Rightarrow> rat" where
  "tp_distance q = fl (sq_atr_value q * tp_multiplier q)"

definition raw_volume :: "sizing_request \<Rightarrow> rat" where
  "raw_volume q =
    (let effective_risk_pct = fl (sq_risk_percent q *
           resolve_timeframe_risk_multiplier (sq_timeframe q) (sq_timeframe_risk_overrides q));
         risk_amount = fl (sq_account_balance q * fl (effective_risk_pct / 100));
         risk_per_lot = fl (sl_distance q * sq_contract_size q)
     in if 0 < risk_per_lot then fl (risk_amount / risk_per_lot) else sq_min_volume q)"

text \<open>The volume aligned to the step and kept within its bounds.\<close>

definition position_size :: "sizing_request \<Rightarrow> rat" where
  "position_size q =
    (let aligned = (if 0 < sq_volume_step q
           then fl (fl (of_int (round_half_even (fl (raw_volume q / sq_volume_step q)))) * sq_volume_step q)
           else pyround (raw_volume q) 2)
     in max (sq_min_volume q) (min (sq_max_volume q) (pyround aligned 8)))"

definition compute_trade_params :: "sizing_request \<Rightarrow> trade_parameters res" where
  "compute_trade_params q =
    (let price = sq_current_price q; sld = sl_distance q; tpd = tp_distance q in
     if sq_atr_value q \<le> 0 then raise (ValueError ''ATR value must be positive'')
     else if sq_account_balance q \<le> 0 then raise (ValueError ''Account balance must be positive'')
     else rbind
       (if sq_action q = ''buy'' then ok (fl (price - sld), fl (price + tpd))
        else if sq_action q = ''sell'' then ok (fl (price + sld), fl (price - tpd))
        else raise (ValueError (''action must be 'buy' or 'sell', got: '' @ sq_action q)))
       (\<lambda>(stop_loss, take_profit).
        if stop_loss \<le> 0 then raise (ValueError (''Computed stop_loss='' @ fmt_fixed 2 stop_loss @
            '' is non-positive (price='' @ repr_float price @ '', sl_distance='' @ repr_float sld @ '')''))
        else if take_profit \<le> 0 then raise (ValueError (''Computed take_profit='' @ fmt_fixed 2 take_profit @
            '' is non-positive (price='' @ repr_float price @ '', tp_distance='' @ repr_float tpd @ '')''))
        else let risk_reward = (if 0 < sld then fl (tpd / sld) else 0); n = sq_digits q
        in ok \<lparr>tp_entry_price = pyround price n, tp_stop_loss = pyround stop_loss n,
             tp_take_profit = pyround take_profit n, tp_position_size = position_size q,
             tp_risk_reward_ratio = pyround risk_reward 2, tp_atr_value = sq_atr_value q,
             tp_sl_distance = pyround sld n, tp_tp_distance = pyround tpd n\<rparr>))"

section \<open>Inputs from the event\<close>

text \<open>\<open>try: return float(value) except (TypeError, ValueError)\<close>; reading a number raises no other
  error.\<close>

definition float_or_none :: "(string \<Rightarrow> rat option) \<Rightarrow> pyval \<Rightarrow> rat option" where
  "float_or_none pf v = (if v = VNone then None else case py_float_of pf v of Inl _ \<Rightarrow> None | Inr x \<Rightarrow> Some x)"

fun first_some :: "('a \<Rightarrow> 'b option) \<Rightarrow> 'a list \<Rightarrow> 'b option" where
  "first_some f [] = None"
| "first_some f (x # xs) = (case f x of None \<Rightarrow> first_some f xs | Some y \<Rightarrow> Some y)"

definition scan_payloads :: "(string \<Rightarrow> rat option) \<Rightarrow> string list \<Rightarrow> string list \<Rightarrow> pydict \<Rightarrow> rat option" where
  "scan_payloads pf names keys indicators =
    first_some (\<lambda>name. case dget indicators name of
        VDict payload \<Rightarrow> first_some (\<lambda>f. float_or_none pf (dget payload f)) keys | _ \<Rightarrow> None) names"

definition extract_atr_from_indicators :: "(string \<Rightarrow> rat option) \<Rightarrow> pydict \<Rightarrow> rat option" where
  "extract_atr_from_indicators pf = scan_payloads pf [''atr14'', ''atr'', ''atr20''] [''atr'', ''value'']"

definition estimate_price :: "(string \<Rightarrow> rat option) \<Rightarrow> pydict \<Rightarrow> rat option" where
  "estimate_price pf = scan_payloads pf [''bollinger20'', ''sma20'', ''close'', ''price'']
     [''close'', ''value'', ''last'', ''bb_mid'', ''sma'']"

text \<open>The fields of the event and of the executor's configuration that are used; the values of an
  exit specification are numbers.\<close>

record sizing_event =
  se_symbol :: string
  se_timeframe :: string
  se_direction :: string
  se_indicators :: pydict
  se_metadata :: pydict
  se_exit_spec :: "(string \<times> rat) list"

record sizing_config =
  sc_contract_size_map :: "(string \<times> rat) list"
  sc_risk_percent :: rat
  sc_sl_atr_multiplier :: rat
  sc_tp_atr_multiplier :: rat
  sc_min_volume :: rat
  sc_max_volume :: rat
  sc_timeframe_risk_multipliers :: "(string \<times> rat) list"
  sc_regime_sizing :: "regime_sizing option"

definition get_contract_size :: "sizing_config \<Rightarrow> string \<Rightarrow> rat" where
  "get_contract_size cfg symbol =
    (case map_of (sc_contract_size_map cfg) symbol of Some x \<Rightarrow> x
     | None \<Rightarrow> (case map_of (sc_contract_size_map cfg) ''default'' of Some x \<Rightarrow> x | None \<Rightarrow> 100))"

definition get_symbol_precision :: "nat \<times> rat" where
  "get_symbol_precision = (2, fl (1/100))"

definition positive :: "rat option \<Rightarrow> rat option" where
  "positive x = (case x of Some v \<Rightarrow> if v \<le> 0 then None else Some v | None \<Rightarrow> None)"

definition close_price_of :: "(string \<Rightarrow> rat option) \<Rightarrow> sizing_event \<Rightarrow> rat option" where
  "close_price_of pf ev =
    (case positive (float_or_none pf (dget (se_metadata ev) ''close_price'')) of
       Some x \<Rightarrow> Some x | None \<Rightarrow> estimate_price pf (se_indicators ev))"

text \<open>\<open>spec.get(key) or default\<close>.\<close>

definition spec_or :: "(string \<times> rat) list \<Rightarrow> string \<Rightarrow> rat \<Rightarrow> rat" where
  "spec_or spec key d = (case map_of spec key of None \<Rightarrow> d | Some x \<Rightarrow> if x = 0 then d else x)"

definition regime_of :: "pydict \<Rightarrow> string" where
  "regime_of metadata = str_or_empty (py_or (dget metadata ''regime'') (dget metadata ''_regime''))"

definition request_of :: "sizing_config \<Rightarrow> sizing_event \<Rightarrow> rat \<Rightarrow> rat \<Rightarrow> rat \<Rightarrow> sizing_request" where
  "request_of cfg ev atr balance close_price =
    (let (digits, volume_step) = get_symbol_precision
     in \<lparr>sq_action = se_direction ev, sq_current_price = close_price, sq_atr_value = atr,
         sq_account_balance = balance, sq_timeframe = Some (se_timeframe ev), sq_risk_percent = sc_risk_percent cfg,
         sq_sl_atr_multiplier = spec_or (se_exit_spec ev) ''sl_atr'' (sc_sl_atr_multiplier cfg),
         sq_tp_atr_multiplier = spec_or (se_exit_spec ev) ''tp_atr'' (sc_tp_atr_multiplier cfg),
         sq_min_volume = sc_min_volume cfg, sq_max_volume = sc_max_volume cfg,
         sq_contract_size = get_contract_size cfg (se_symbol ev),
         sq_timeframe_risk_overrides = (if sc_timeframe_risk_multipliers cfg = [] then None
           else Some (sc_timeframe_risk_multipliers cfg)),
         sq_regime = Some (regime_of (se_metadata ev)), sq_regime_sizing = sc_regime_sizing cfg,
         sq_digits = digits, sq_volume_step = volume_step\<rparr>)"

definition compute_params :: "(string \<Rightarrow> rat option) \<Rightarrow> sizing_config \<Rightarrow> rat option \<Rightarrow> sizing_event \<Rightarrow>
    trade_parameters option res" where
  "compute_params pf cfg account_balance ev =
    (case positive (extract_atr_from_indicators pf (se_indicators ev)) of None \<Rightarrow> ok None
     | Some atr \<Rightarrow>
     (case positive account_balance of None \<Rightarrow> ok None
      | Some balance \<Rightarrow>
      (case positive (close_price_of pf ev) of None \<Rightarrow> ok None
       | Some close_price \<Rightarrow>
         rbind (compute_trade_params (request_of cfg ev atr balance close_price)) (\<lambda>p. ok (Some p)))))"

section \<open>Cost estimate\<close>

record cost_metrics =
  cm_estimated_cost_points :: "rat option"
  cm_estimated_cost_price :: "rat option"
  cm_symbol_point :: "rat option"
  cm_stop_distance :: "rat option"
  cm_stop_distance_points :: "rat option"
  cm_reward_distance :: "rat option"
  cm_reward_distance_points :: "rat option"
  cm_spread_to_stop_ratio :: "rat option"
  cm_reward_to_cost_ratio :: "rat option"

definition opt2 :: "(rat \<Rightarrow> rat \<Rightarrow> rat) \<Rightarrow> rat option \<Rightarrow> rat option \<Rightarrow> rat option" where
  "opt2 f a b = (case a of None \<Rightarrow> None | Some x \<Rightarrow> (case b of None \<Rightarrow> None | Some y \<Rightarrow> Some (f x y)))"

definition or_else :: "rat option \<Rightarrow> rat option \<Rightarrow> rat option" where
  "or_else a b = (case a of None \<Rightarrow> b | Some x \<Rightarrow> Some x)"

definition estimate_cost_metrics :: "(string \<Rightarrow> rat option) \<Rightarrow> sizing_event \<Rightarrow> trade_parameters \<Rightarrow> cost_metrics" where
  "estimate_cost_metrics pf ev params =
    (let spread_points0 = float_or_none pf (dget (se_metadata ev) ''spread_points'');
         symbol_point = positive (float_or_none pf (dget (se_metadata ev) ''symbol_point''));
         spread_price = or_else (float_or_none pf (dget (se_metadata ev) ''spread_price''))
           (opt2 (\<lambda>p s. fl (p * s)) spread_points0 symbol_point);
         spread_points = or_else spread_points0 (opt2 (\<lambda>p s. fl (p / s)) spread_price symbol_point);
         close_price = positive (close_price_of pf ev);
         stop_distance = map_option (\<lambda>c. \<bar>fl (c - tp_stop_loss params)\<bar>) close_price;
         reward_distance = map_option (\<lambda>c. \<bar>fl (tp_take_profit params - c)\<bar>) close_price;
         stop_distance_points = opt2 (\<lambda>d s. fl (d / s)) stop_distance symbol_point;
         reward_distance_points = opt2 (\<lambda>d s. fl (d / s)) reward_distance symbol_point;
         spread_to_stop_ratio = (case spread_points of None \<Rightarrow> None
           | Some sp \<Rightarrow> (case positive stop_distance_points of
               Some sd \<Rightarrow> Some (pyround (fl (sp / sd)) 4)
             | None \<Rightarrow> opt2 (\<lambda>p d. pyround (fl (p / d)) 4) spread_price (positive stop_distance)));
         reward_to_cost_ratio = (case positive spread_points of None \<Rightarrow> None
           | Some sp \<Rightarrow> (case reward_distance_points of
               Some rd \<Rightarrow> Some (pyround (fl (rd / sp)) 4)
             | None \<Rightarrow> opt2 (\<lambda>d p. pyround (fl (d / p)) 4) reward_distance (positive spread_price)))
     in \<lparr>cm_estimated_cost_points = spread_points, cm_estimated_cost_price = map_option (\<lambda>x. pyround x 6) spread_price,
         cm_symbol_point = symbol_point, cm_stop_distance = map_option (\<lambda>x. pyround x 4) stop_distance,
         cm_stop_distance_points = map_option (\<lambda>x. pyround x 2) stop_distance_points,
         cm_reward_distance = map_option (\<lambda>x. pyround x 4) reward_distance,
         cm_reward_distance_points = map_option (\<lambda>x. pyround x 2) reward_distance_points,
         cm_spread_to_stop_ratio = spread_to_stop_ratio, cm_reward_to_cost_ratio = reward_to_cost_ratio\<rparr>)"

section \<open>The loss cap of one trade\<close>

definition MaxSingleTradeLossPolicy :: "rat option \<Rightarrow> rat option res" where
  "MaxSingleTradeLossPolicy max_loss_usd =
    (case max_loss_usd of
       Some x \<Rightarrow> if x < 0 then raise (ValueError (''max_loss_usd must be None or >= 0, got '' @ repr_float x))
                else ok (Some x)
     | None \<Rightarrow> ok None)"

record loss_check =
  lc_allowed :: bool
  lc_estimated_loss_usd :: rat
  lc_max_allowed_usd :: "rat option"
  lc_reason :: "string option"

definition check_single_trade_loss_cap :: "rat option \<Rightarrow> rat \<Rightarrow> rat \<Rightarrow> rat \<Rightarrow> loss_check res" where
  "check_single_trade_loss_cap max_loss_usd lots stop_dist contract_size =
    (if lots < 0 then raise (ValueError (''position_size must be >= 0, got '' @ repr_float lots))
     else if stop_dist < 0 then raise (ValueError (''sl_distance must be >= 0, got '' @ repr_float stop_dist))
     else if contract_size < 0 then raise (ValueError (''contract_size must be >= 0, got '' @ repr_float contract_size))
     else let estimated = fl (fl (stop_dist * lots) * contract_size)
     in case max_loss_usd of
          None \<Rightarrow> ok \<lparr>lc_allowed = True, lc_estimated_loss_usd = estimated, lc_max_allowed_usd = None, lc_reason = None\<rparr>
        | Some cap \<Rightarrow>
            if cap < estimated
            then ok \<lparr>lc_allowed = False, lc_estimated_loss_usd = estimated, lc_max_allowed_usd = Some cap,
              lc_reason = Some (''estimated single-trade loss $'' @ fmt_fixed 2 estimated @ '' exceeds cap $'' @
                fmt_fixed 2 cap @ '' (size='' @ fmt_fixed 4 lots @ '', sl='' @ fmt_fixed 4 stop_dist @
                '', contract='' @ repr_float contract_size @ '')'')\<rparr>
            else ok \<lparr>lc_allowed = True, lc_estimated_loss_usd = estimated, lc_max_allowed_usd = Some cap, lc_reason = None\<rparr>)"

section \<open>Lemmas\<close>

definition regime_sizing_positive :: "regime_sizing \<Rightarrow> bool" where
  "regime_sizing_positive s \<longleftrightarrow> 0 < rs_tp_trending s \<and> 0 < rs_tp_ranging s \<and> 0 < rs_tp_breakout s \<and>
    0 < rs_tp_uncertain s \<and> 0 < rs_sl_trending s \<and> 0 < rs_sl_ranging s \<and> 0 < rs_sl_breakout s \<and> 0 < rs_sl_uncertain s"

definition multipliers_positive :: "sizing_request \<Rightarrow> bool" where
  "multipliers_positive q \<longleftrightarrow> 0 < sq_sl_atr_multiplier q \<and> 0 < sq_tp_atr_multiplier q \<and>
    (case sq_regime_sizing q of None \<Rightarrow> True | Some s \<Rightarrow> regime_sizing_positive s)"

lemma RegimeSizing_positive: "regime_sizing_positive RegimeSizing"
  by (simp add: regime_sizing_positive_def RegimeSizing_def fl_pos)

lemma timeframe_table_positive:
  "map_of timeframe_sl_tp k = Some (a, b) \<Longrightarrow> 0 < a \<and> 0 < b"
  by (auto simp: timeframe_sl_tp_def fl_pos split: if_splits)

lemma resolve_timeframe_positive:
  "0 < sl \<Longrightarrow> 0 < tp \<Longrightarrow> 0 < fst (resolve_timeframe_sl_tp tf sl tp) \<and> 0 < snd (resolve_timeframe_sl_tp tf sl tp)"
  by (auto simp: resolve_timeframe_sl_tp_def dest: timeframe_table_positive split: option.splits)

lemma resolve_regime_positive:
  assumes "case s of None \<Rightarrow> True | Some s \<Rightarrow> regime_sizing_positive s"
  shows "0 < fst (resolve_regime_sl_tp_multiplier r s) \<and> 0 < snd (resolve_regime_sl_tp_multiplier r s)"
proof -
  have "regime_sizing_positive (case s of None \<Rightarrow> RegimeSizing | Some s \<Rightarrow> s)"
    using assms RegimeSizing_positive by (cases s) simp_all
  then show ?thesis
    by (simp add: resolve_regime_sl_tp_multiplier_def Let_def regime_sizing_positive_def split: option.splits)
qed

lemma distances_positive:
  assumes "multipliers_positive q" "0 < sq_atr_value q"
  shows "0 < sl_distance q" "0 < tp_distance q"
  using assms resolve_timeframe_positive [of "sq_sl_atr_multiplier q" "sq_tp_atr_multiplier q" "sq_timeframe q"]
    resolve_regime_positive [of "sq_regime_sizing q" "sq_regime q"]
  by (simp_all add: multipliers_positive_def sl_distance_def tp_distance_def sl_multiplier_def tp_multiplier_def fl_pos)

lemma timeframe_risk_table_nonneg: "map_of timeframe_risk_multiplier k = Some x \<Longrightarrow> 0 \<le> x"
  by (auto simp: timeframe_risk_multiplier_def fl_nonneg split: if_splits)

lemma risk_multiplier_nonneg:
  assumes "list_all (\<lambda>e. 0 \<le> snd e) (case ov of None \<Rightarrow> [] | Some d \<Rightarrow> d)"
  shows "0 \<le> resolve_timeframe_risk_multiplier tf ov"
proof -
  have "0 \<le> x" if "ov = Some d" "map_of d k = Some x" for d k x
    using assms that map_of_SomeD [OF that(2)] by (auto simp: list_all_iff)
  then show ?thesis
    by (auto simp: resolve_timeframe_risk_multiplier_def Let_def dest: timeframe_risk_table_nonneg split: option.splits)
qed

text \<open>The price levels before they are rounded to the symbol's digits.\<close>

lemma levels_sides:
  assumes "fl price = price" "0 \<le> d"
  shows "fl (price - d) \<le> price" "price \<le> fl (price + d)"
  using fl_le_float [OF assms(1), of "price - d"] fl_ge_float [OF assms(1), of "price + d"] assms(2) by auto

lemma fl_le_0_iff: "fl x \<le> 0 \<longleftrightarrow> x \<le> 0"
  using fl_pos_iff [of x] by linarith

lemma compute_trade_params_error:
  assumes "multipliers_positive q"
  shows "(\<exists>e. compute_trade_params q = Inl e) \<longleftrightarrow>
    sq_atr_value q \<le> 0 \<or> sq_account_balance q \<le> 0 \<or> sq_action q \<notin> {''buy'', ''sell''} \<or>
    (sq_action q = ''buy'' \<and> sq_current_price q \<le> sl_distance q) \<or>
    (sq_action q = ''sell'' \<and> sq_current_price q \<le> tp_distance q)"
proof (cases "sq_atr_value q \<le> 0 \<or> sq_account_balance q \<le> 0 \<or> sq_action q \<notin> {''buy'', ''sell''}")
  case True
  then show ?thesis by (auto simp: compute_trade_params_def Let_def)
next
  case False
  then have pos: "0 < sl_distance q" "0 < tp_distance q" using distances_positive [OF assms] by auto
  have ok: "\<not> sq_atr_value q \<le> 0" "\<not> sq_account_balance q \<le> 0" using False by auto
  from False consider "sq_action q = ''buy''" | "sq_action q = ''sell''" by auto
  then show ?thesis
  proof cases
    case 1
    then show ?thesis using ok pos by (auto simp: compute_trade_params_def Let_def fl_le_0_iff)
  next
    case 2
    then show ?thesis using ok pos by (auto simp: compute_trade_params_def Let_def fl_le_0_iff)
  qed
qed

lemma compute_trade_params_value_error: "compute_trade_params q = Inl e \<Longrightarrow> \<exists>t. e = ValueError t"
  by (auto simp: compute_trade_params_def Let_def res_simps split: if_splits prod.splits)

lemma compute_trade_params_ok:
  assumes "compute_trade_params q = ok p"
  shows "0 < sq_atr_value q" "0 < sq_account_balance q" "tp_position_size p = position_size q"
    "tp_entry_price p = pyround (sq_current_price q) (sq_digits q)"
    "sq_action q = ''buy'' \<and> tp_stop_loss p = pyround (fl (sq_current_price q - sl_distance q)) (sq_digits q) \<and>
       tp_take_profit p = pyround (fl (sq_current_price q + tp_distance q)) (sq_digits q) \<or>
     sq_action q = ''sell'' \<and> tp_stop_loss p = pyround (fl (sq_current_price q + sl_distance q)) (sq_digits q) \<and>
       tp_take_profit p = pyround (fl (sq_current_price q - tp_distance q)) (sq_digits q)"
  using assms by (auto simp: compute_trade_params_def Let_def res_simps split: if_splits)

lemma raw_volume_mono:
  assumes pos: "multipliers_positive q" "0 < sq_contract_size q" "0 \<le> sq_risk_percent q"
      "list_all (\<lambda>e. 0 \<le> snd e) (case sq_timeframe_risk_overrides q of None \<Rightarrow> [] | Some d \<Rightarrow> d)"
    and atr: "0 < atr'" "atr' \<le> sq_atr_value q" and bal: "0 < sq_account_balance q" "sq_account_balance q \<le> bal'"
  shows "raw_volume q \<le> raw_volume (q\<lparr>sq_atr_value := atr', sq_account_balance := bal'\<rparr>)"
proof -
  let ?q = "q\<lparr>sq_atr_value := atr', sq_account_balance := bal'\<rparr>"
  let ?m = "resolve_timeframe_risk_multiplier (sq_timeframe q) (sq_timeframe_risk_overrides q)"
  let ?k = "fl (fl (sq_risk_percent q * ?m) / 100)"
  have mult: "sl_multiplier ?q = sl_multiplier q" by (simp add: sl_multiplier_def)
  have k: "0 \<le> ?k" using risk_multiplier_nonneg [OF pos(4)] pos(3) by (intro fl_nonneg) (simp add: fl_nonneg)
  have d: "0 < sl_distance q" "0 < sl_distance ?q"
    using distances_positive(1) [of q] distances_positive(1) [of ?q] pos(1) atr by (auto simp: multipliers_positive_def)
  have "0 < fl (sq_atr_value q * sl_multiplier q)" using d(1) by (simp add: sl_distance_def)
  then have "0 < sl_multiplier q" using fl_pos_iff atr zero_less_mult_pos by (metis less_le_trans)
  then have "sl_distance ?q \<le> sl_distance q"
    unfolding sl_distance_def mult using atr by (simp add: fl_mono mult_right_mono)
  then have lot: "fl (sl_distance ?q * sq_contract_size q) \<le> fl (sl_distance q * sq_contract_size q)"
    using pos(2) by (simp add: fl_mono mult_right_mono)
  have lot0: "0 < fl (sl_distance ?q * sq_contract_size q)" using d(2) pos(2) by (simp add: fl_pos)
  have amount: "fl (sq_account_balance q * ?k) \<le> fl (bal' * ?k)" using bal k by (simp add: fl_mono mult_right_mono)
  have amount0: "0 \<le> fl (sq_account_balance q * ?k)" using bal k by (simp add: fl_nonneg)
  have "fl (sq_account_balance q * ?k) / fl (sl_distance q * sq_contract_size q)
      \<le> fl (bal' * ?k) / fl (sl_distance ?q * sq_contract_size q)"
    using amount amount0 lot lot0 by (intro frac_le) auto
  from fl_mono [OF this] show ?thesis
    using lot lot0 by (simp add: raw_volume_def Let_def)
qed

lemma position_size_mono:
  assumes "raw_volume q \<le> raw_volume q'" "sq_volume_step q' = sq_volume_step q"
    "sq_min_volume q' = sq_min_volume q" "sq_max_volume q' = sq_max_volume q"
  shows "position_size q \<le> position_size q'"
proof -
  have "fl (fl (of_int (round_half_even (fl (raw_volume q / s)))) * s) \<le>
      fl (fl (of_int (round_half_even (fl (raw_volume q' / s)))) * s)" if "0 < s" for s
    using that assms(1) by (intro fl_mono mult_right_mono) (auto intro!: fl_mono rhe_mono divide_right_mono)
  then show ?thesis
    unfolding position_size_def Let_def assms(2,3,4)
    by (intro max.mono min.mono order_refl pyround_mono) (auto intro: pyround_mono assms(1))
qed

section \<open>Properties\<close>

text \<open>C28: Order parameters: with positive multipliers the computation fails, always with a
  \<open>ValueError\<close>, exactly for a non-positive ATR or balance, an unknown action, or a price that
  the stop (of a buy) or the target (of a sell) would leave at or below zero. Otherwise the
  volume is within its bounds and the stop and the target are on their sides of the entry price,
  float rounding and the rounding to the symbol's digits included.\<close>

theorem trade_params_safe:
  assumes "multipliers_positive q" "fl (sq_current_price q) = sq_current_price q" "sq_min_volume q \<le> sq_max_volume q"
  shows "((\<exists>t. compute_trade_params q = raise (ValueError t)) \<longleftrightarrow>
      sq_atr_value q \<le> 0 \<or> sq_account_balance q \<le> 0 \<or> sq_action q \<notin> {''buy'', ''sell''} \<or>
      (sq_action q = ''buy'' \<and> sq_current_price q \<le> sl_distance q) \<or>
      (sq_action q = ''sell'' \<and> sq_current_price q \<le> tp_distance q)) \<and>
    (case compute_trade_params q of Inl e \<Rightarrow> (\<exists>t. e = ValueError t)
     | Inr p \<Rightarrow> sq_min_volume q \<le> tp_position_size p \<and> tp_position_size p \<le> sq_max_volume q \<and>
        (if sq_action q = ''buy'' then tp_stop_loss p \<le> tp_entry_price p \<and> tp_entry_price p \<le> tp_take_profit p
         else tp_take_profit p \<le> tp_entry_price p \<and> tp_entry_price p \<le> tp_stop_loss p))"
proof (rule conjI)
  show "(\<exists>t. compute_trade_params q = raise (ValueError t)) \<longleftrightarrow>
      sq_atr_value q \<le> 0 \<or> sq_account_balance q \<le> 0 \<or> sq_action q \<notin> {''buy'', ''sell''} \<or>
      (sq_action q = ''buy'' \<and> sq_current_price q \<le> sl_distance q) \<or>
      (sq_action q = ''sell'' \<and> sq_current_price q \<le> tp_distance q)"
    unfolding compute_trade_params_error [OF assms(1), symmetric] using compute_trade_params_value_error by blast
next
  show "case compute_trade_params q of Inl e \<Rightarrow> (\<exists>t. e = ValueError t)
     | Inr p \<Rightarrow> sq_min_volume q \<le> tp_position_size p \<and> tp_position_size p \<le> sq_max_volume q \<and>
        (if sq_action q = ''buy'' then tp_stop_loss p \<le> tp_entry_price p \<and> tp_entry_price p \<le> tp_take_profit p
         else tp_take_profit p \<le> tp_entry_price p \<and> tp_entry_price p \<le> tp_stop_loss p)"
  proof (cases "compute_trade_params q")
    case (Inl e)
    then show ?thesis using compute_trade_params_value_error [of q e] by simp
  next
    case (Inr p)
    note p = compute_trade_params_ok [OF Inr]
    have d: "0 \<le> sl_distance q" "0 \<le> tp_distance q" using distances_positive [OF assms(1) p(1)] by auto
    have size: "sq_min_volume q \<le> position_size q" "position_size q \<le> sq_max_volume q"
      using assms(3) by (simp_all add: position_size_def Let_def)
    from p(5) show ?thesis
      using size levels_sides [OF assms(2) d(1)] levels_sides [OF assms(2) d(2)] Inr p(3,4)
      by (auto intro: pyround_mono)
  qed
qed

definition sample_request :: sizing_request where
  "sample_request = \<lparr>sq_action = ''buy'', sq_current_price = 2400, sq_atr_value = 5, sq_account_balance = 10000,
     sq_timeframe = Some ''H1'', sq_risk_percent = 1, sq_sl_atr_multiplier = 1, sq_tp_atr_multiplier = 3,
     sq_min_volume = fl (1/100), sq_max_volume = 1, sq_contract_size = 100, sq_timeframe_risk_overrides = None,
     sq_regime = None, sq_regime_sizing = None, sq_digits = 2, sq_volume_step = fl (1/100)\<rparr>"

theorem trade_params_safe_witness:
  "(case compute_trade_params sample_request of Inl e \<Rightarrow> False
    | Inr p \<Rightarrow> tp_stop_loss p = 2390 \<and> tp_position_size p = fl (1/10) \<and> tp_position_size p \<le> 1)"
proof -
  have "multipliers_positive sample_request" "fl (sq_current_price sample_request) = sq_current_price sample_request"
    "sq_min_volume sample_request \<le> sq_max_volume sample_request" "sq_max_volume sample_request = 1" by code_simp+
  note safe = trade_params_safe [OF this(1-3)] this(4)
  have "case compute_trade_params sample_request of Inl e \<Rightarrow> False
    | Inr p \<Rightarrow> tp_stop_loss p = 2390 \<and> tp_position_size p = fl (1/10)" by code_simp
  then show ?thesis using safe by (auto split: sum.splits)
qed

text \<open>A larger account and a smaller ATR never give a smaller volume: the position size is
  monotone in the balance and antitone in the volatility through every rounding, the alignment to
  the volume step and the bounds.\<close>

theorem position_size_monotone:
  assumes "multipliers_positive q" "0 < sq_contract_size q" "0 \<le> sq_risk_percent q"
    "list_all (\<lambda>e. 0 \<le> snd e) (case sq_timeframe_risk_overrides q of None \<Rightarrow> [] | Some d \<Rightarrow> d)"
    "atr' \<le> sq_atr_value q" "sq_account_balance q \<le> bal'"
    "compute_trade_params q = ok p" "compute_trade_params (q\<lparr>sq_atr_value := atr', sq_account_balance := bal'\<rparr>) = ok p'"
  shows "tp_position_size p \<le> tp_position_size p'"
proof -
  note p = compute_trade_params_ok [OF assms(7)] and p' = compute_trade_params_ok [OF assms(8)]
  have "raw_volume q \<le> raw_volume (q\<lparr>sq_atr_value := atr', sq_account_balance := bal'\<rparr>)"
    using assms(1-6) p(2) p'(1) by (intro raw_volume_mono) simp_all
  then show ?thesis unfolding p(3) p'(3) by (rule position_size_mono) simp_all
qed

theorem position_size_monotone_witness:
  "\<exists>p p'. compute_trade_params sample_request = ok p \<and>
    compute_trade_params (sample_request\<lparr>sq_atr_value := 4, sq_account_balance := 20000\<rparr>) = ok p' \<and>
    tp_position_size p \<le> tp_position_size p'"
proof -
  let ?q = "sample_request\<lparr>sq_atr_value := 4, sq_account_balance := 20000\<rparr>"
  have succeeds: "\<exists>p. compute_trade_params q = ok p" if "multipliers_positive q" "0 < sq_atr_value q" "0 < sq_account_balance q"
    "sq_action q = ''buy''" "sl_distance q < sq_current_price q" for q
    using that compute_trade_params_error [OF that(1)] by (cases "compute_trade_params q") auto
  have "multipliers_positive sample_request" "0 < sq_atr_value sample_request" "0 < sq_account_balance sample_request"
    "sq_action sample_request = ''buy''" "sl_distance sample_request < sq_current_price sample_request" by code_simp+
  from succeeds [OF this] obtain p where ok: "compute_trade_params sample_request = ok p" by blast
  have "multipliers_positive ?q" "0 < sq_atr_value ?q" "0 < sq_account_balance ?q"
    "sq_action ?q = ''buy''" "sl_distance ?q < sq_current_price ?q" by code_simp+
  from succeeds [OF this] obtain p' where ok': "compute_trade_params ?q = ok p'" by blast
  have "multipliers_positive sample_request" "0 < sq_contract_size sample_request" "0 \<le> sq_risk_percent sample_request"
    "list_all (\<lambda>e. 0 \<le> snd e) (case sq_timeframe_risk_overrides sample_request of None \<Rightarrow> [] | Some d \<Rightarrow> d)"
    "4 \<le> sq_atr_value sample_request" "sq_account_balance sample_request \<le> 20000" by code_simp+
  from position_size_monotone [OF this ok ok'] show ?thesis using ok ok' by blast
qed

section \<open>The exit specification does not reach the stop\<close>

text \<open>The event's exit specification is meant to override the configured multipliers, but the
  timeframe table takes precedence over both: on every timeframe of the table it has no effect.\<close>

lemma table_overrides_multipliers:
  assumes "\<And>x y. resolve_timeframe_sl_tp (sq_timeframe q) x y = ab"
  shows "compute_trade_params (q\<lparr>sq_sl_atr_multiplier := x, sq_tp_atr_multiplier := y\<rparr>) = compute_trade_params q"
proof -
  let ?q = "q\<lparr>sq_sl_atr_multiplier := x, sq_tp_atr_multiplier := y\<rparr>"
  have d: "sl_distance ?q = sl_distance q" "tp_distance ?q = tp_distance q"
    by (simp_all add: sl_distance_def tp_distance_def sl_multiplier_def tp_multiplier_def assms)
  then have "raw_volume ?q = raw_volume q" by (simp add: raw_volume_def Let_def)
  then have "position_size ?q = position_size q" by (simp add: position_size_def Let_def)
  with d show ?thesis by (simp add: compute_trade_params_def Let_def)
qed

theorem exit_spec_without_effect:
  assumes "upper (strip (se_timeframe ev)) \<in> {''M5'', ''M15'', ''M30'', ''H1'', ''H4'', ''D1''}"
  shows "compute_params pf cfg balance (ev\<lparr>se_exit_spec := spec\<rparr>) = compute_params pf cfg balance ev"
proof -
  obtain ab where ab: "map_of timeframe_sl_tp (upper (strip (se_timeframe ev))) = Some ab"
    using assms by (auto simp: timeframe_sl_tp_def)
  have "se_timeframe ev \<noteq> []" using assms by auto
  with ab have "resolve_timeframe_sl_tp (sq_timeframe (request_of cfg ev atr bal price)) x y = ab" for x y atr bal price
    by (simp add: resolve_timeframe_sl_tp_def given_def request_of_def get_symbol_precision_def)
  note same = table_overrides_multipliers [OF this]
  have "request_of cfg (ev\<lparr>se_exit_spec := spec\<rparr>) atr bal price = (request_of cfg ev atr bal price)
      \<lparr>sq_sl_atr_multiplier := spec_or spec ''sl_atr'' (sc_sl_atr_multiplier cfg),
       sq_tp_atr_multiplier := spec_or spec ''tp_atr'' (sc_tp_atr_multiplier cfg)\<rparr>" for atr bal price
    by (simp add: request_of_def get_symbol_precision_def)
  with same have "compute_trade_params (request_of cfg (ev\<lparr>se_exit_spec := spec\<rparr>) atr bal price) =
      compute_trade_params (request_of cfg ev atr bal price)" for atr bal price by simp
  moreover have "close_price_of pf (ev\<lparr>se_exit_spec := spec\<rparr>) = close_price_of pf ev"
    by (simp add: close_price_of_def split: option.split)
  ultimately show ?thesis by (simp add: compute_params_def split: option.split)
qed

end
