(* ===== verification/Risk_Rules.thy ===== *)
theory Risk_Rules
  imports Py_Repr "HOL-Library.Char_ord" "HOL-Library.List_Lexorder"
begin

text \<open>
  The pre-trade risk rules (\<open>risk/models.py\<close>, \<open>risk/rules.py\<close>) with the trading sessions they
  use (\<open>signals/contracts/sessions.py\<close>, \<open>SessionFilter.current_sessions\<close>) and the fields of the
  configuration they read (\<open>config/models/runtime.py\<close>). A rule maps a context to its check
  results or an exception. The account, the economic calendar and the frequency provider answer
  through the context, each answer a value or an exception; the clock and \<open>float(text)\<close> are
  fields of the context too.
\<close>

section \<open>Data\<close>

record trade_intent =
  ti_symbol :: string
  ti_volume :: rat
  ti_side :: string
  ti_order_kind :: string
  ti_price :: "rat option"
  ti_sl :: "rat option"
  ti_tp :: "rat option"
  ti_deviation :: int
  ti_comment :: string
  ti_magic :: int
  ti_at_time :: "datetime option"
  ti_metadata :: pydict

definition intent_to_dict :: "trade_intent \<Rightarrow> pydict" where
  "intent_to_dict t =
    [(''symbol'', VStr (ti_symbol t)), (''volume'', VFloat (ti_volume t)), (''side'', VStr (ti_side t)),
     (''order_kind'', VStr (ti_order_kind t)), (''price'', opt_float (ti_price t)), (''sl'', opt_float (ti_sl t)),
     (''tp'', opt_float (ti_tp t)), (''deviation'', VInt (ti_deviation t)), (''comment'', VStr (ti_comment t)),
     (''magic'', VInt (ti_magic t))] @
    (case ti_at_time t of None \<Rightarrow> [] | Some d \<Rightarrow> [(''at_time'', VStr (isoformat d))]) @
    (if ti_metadata t = [] then [] else [(''metadata'', VDict (ti_metadata t))])"

record risk_check =
  ck_name :: string
  ck_verdict :: string
  ck_reason :: "string option"
  ck_details :: pydict

definition check_to_dict :: "risk_check \<Rightarrow> pydict" where
  "check_to_dict c =
    [(''name'', VStr (ck_name c)), (''verdict'', VStr (ck_verdict c)), (''reason'', opt_str (ck_reason c)),
     (''details'', VDict (ck_details c))]"

definition mk_check :: "string \<Rightarrow> string \<Rightarrow> string \<Rightarrow> pydict \<Rightarrow> risk_check" where
  "mk_check name verdict reason details =
    \<lparr>ck_name = name, ck_verdict = verdict, ck_reason = Some reason, ck_details = details\<rparr>"

record risk_profile_config =
  pc_policy :: string
  pc_trade_frequency_enabled :: bool
  pc_pre_trade_rules :: "string list"
  pc_max_daily_recovery_loss_amount :: "rat option"
  pc_max_rolling_recovery_loss_amount :: "rat option"
  pc_rolling_loss_window_minutes :: int
  pc_max_consecutive_loss_cycles :: int
  pc_loss_lockout_minutes :: int

record risk_config =
  rs_enabled :: bool
  rs_allowed_sessions :: string
  rs_max_positions_per_symbol :: "int option"
  rs_max_open_positions_total :: "int option"
  rs_max_pending_orders_per_symbol :: "int option"
  rs_max_volume_per_order :: "rat option"
  rs_max_volume_per_symbol :: "rat option"
  rs_max_net_lots_per_symbol :: "rat option"
  rs_daily_loss_limit_pct :: "rat option"
  rs_market_order_protection :: string
  rs_margin_safety_factor :: "rat option"
  rs_data_unavailable_policy :: string
  rs_risk_profiles :: "(string \<times> risk_profile_config) list"
  rs_risk_profile_bindings :: "(string \<times> string) list"
  rs_max_trades_per_day :: "int option"
  rs_max_trades_per_hour :: "int option"

record economic_config =
  es_enabled :: bool
  es_trade_guard_enabled :: bool
  es_trade_guard_mode :: string
  es_trade_guard_calendar_health_mode :: string
  es_trade_guard_lookahead_minutes :: int
  es_trade_guard_lookback_minutes :: int
  es_trade_guard_importance_min :: "int option"
  es_trade_guard_provider_failure_threshold :: int

record position_snapshot =
  ps_type :: int
  ps_volume :: "rat option"

record account_snapshot =
  ac_balance :: pyval
  ac_equity :: pyval
  ac_margin_free :: pyval
  ac_day_start_balance :: pyval
  ac_daily_realized_pnl :: pyval
  ac_daily_pnl :: pyval

record account_provider =
  ap_account_info :: "account_snapshot res"
  ap_positions :: "string option \<Rightarrow> position_snapshot list res"
  ap_orders :: "string option \<Rightarrow> position_snapshot list res"

text \<open>What the calendar is asked about: symbol, time, look-ahead, look-back, minimal importance.\<close>

record guard_query =
  gq_symbol :: string
  gq_at_time :: "datetime option"
  gq_lookahead_minutes :: int
  gq_lookback_minutes :: int
  gq_importance_min :: "int option"

record economic_provider =
  ep_is_stale :: "bool res"
  ep_stats :: "pydict res"
  ep_get_trade_guard :: "guard_query \<Rightarrow> pydict res"

record rule_context =
  cx_intent :: trade_intent
  cx_economic_settings :: economic_config
  cx_risk_settings :: risk_config
  cx_economic_provider :: "economic_provider option"
  cx_account_provider :: "account_provider option"
  cx_count_trades_since :: "(datetime \<Rightarrow> string option \<Rightarrow> int res) option"
  cx_account_key :: "string option"
  cx_mode :: string
  cx_calendar_health_mode :: string
  cx_now :: datetime
  cx_parse_float :: "string \<Rightarrow> rat option"

section \<open>Unavailable data\<close>

definition risk_data_policy :: "rule_context \<Rightarrow> string" where
  "risk_data_policy cx =
    (let policy = lower (strip (rs_data_unavailable_policy (cx_risk_settings cx)))
     in if policy \<in> {''warn_only'', ''fail_closed''} then policy else ''warn_only'')"

definition fail_closed :: "rule_context \<Rightarrow> bool" where
  "fail_closed cx = (risk_data_policy cx = ''fail_closed'')"

definition risk_data_unavailable_check :: "rule_context \<Rightarrow> string \<Rightarrow> string \<Rightarrow> pydict \<Rightarrow> risk_check" where
  "risk_data_unavailable_check cx name reason details =
    mk_check name (if fail_closed cx then ''block'' else ''warn'')
      (if fail_closed cx then ''risk_data_unavailable'' else reason)
      (dmerge [(''data_unavailable_policy'', VStr (risk_data_policy cx)), (''source_reason'', VStr reason)] details)"

definition missing_provider :: "rule_context \<Rightarrow> string \<Rightarrow> string \<Rightarrow> risk_check list" where
  "missing_provider cx name reason = (if fail_closed cx then [risk_data_unavailable_check cx name reason []] else [])"

text \<open>\<open>_numeric\<close>.\<close>

definition numeric :: "(string \<Rightarrow> rat option) \<Rightarrow> pyval \<Rightarrow> rat option" where
  "numeric pf v = (if v = VNone then None else case py_float_of pf v of Inr x \<Rightarrow> Some x | Inl _ \<Rightarrow> None)"

section \<open>AccountSnapshotRule\<close>

definition exceeds :: "'a::linorder option \<Rightarrow> 'a \<Rightarrow> bool" where
  "exceeds limit x = (case limit of None \<Rightarrow> False | Some l \<Rightarrow> l < x)"

definition reaches :: "'a::linorder option \<Rightarrow> 'a \<Rightarrow> bool" where
  "reaches limit x = (case limit of None \<Rightarrow> False | Some l \<Rightarrow> l \<le> x)"

definition order_volume_checks :: "rule_context \<Rightarrow> risk_check list" where
  "order_volume_checks cx =
    (if exceeds (rs_max_volume_per_order (cx_risk_settings cx)) (ti_volume (cx_intent cx))
     then [mk_check ''max_volume_per_order'' ''block'' ''Requested volume exceeds per-order limit''
            [(''requested_volume'', VFloat (ti_volume (cx_intent cx))),
             (''limit'', opt_float (rs_max_volume_per_order (cx_risk_settings cx)))]]
     else [])"

definition needs_account_snapshot :: "risk_config \<Rightarrow> bool" where
  "needs_account_snapshot s =
    (rs_max_positions_per_symbol s \<noteq> None \<or> rs_max_open_positions_total s \<noteq> None \<or>
     rs_max_pending_orders_per_symbol s \<noteq> None \<or> rs_max_volume_per_symbol s \<noteq> None \<or>
     rs_max_net_lots_per_symbol s \<noteq> None)"

definition position_volume :: "position_snapshot \<Rightarrow> rat" where
  "position_volume p = (case ps_volume p of None \<Rightarrow> 0 | Some v \<Rightarrow> v)"

definition count_checks :: "rule_context \<Rightarrow> int \<Rightarrow> int \<Rightarrow> int \<Rightarrow> risk_check list" where
  "count_checks cx symbol_positions all_positions symbol_orders =
    (let s = cx_risk_settings cx; symbol = (''symbol'', VStr (ti_symbol (cx_intent cx))) in
     (if reaches (rs_max_positions_per_symbol s) symbol_positions
      then [mk_check ''max_positions_per_symbol'' ''block'' ''Open positions for symbol already at configured limit''
             [symbol, (''open_positions'', VInt symbol_positions), (''limit'', opt_int (rs_max_positions_per_symbol s))]]
      else []) @
     (if reaches (rs_max_open_positions_total s) all_positions
      then [mk_check ''max_open_positions_total'' ''block'' ''Total open positions already at configured limit''
             [(''open_positions'', VInt all_positions), (''limit'', opt_int (rs_max_open_positions_total s))]]
      else []) @
     (if reaches (rs_max_pending_orders_per_symbol s) symbol_orders
      then [mk_check ''max_pending_orders_per_symbol'' ''block'' ''Pending orders for symbol already at configured limit''
             [symbol, (''pending_orders'', VInt symbol_orders), (''limit'', opt_int (rs_max_pending_orders_per_symbol s))]]
      else []))"

definition projected_volume :: "trade_intent \<Rightarrow> position_snapshot list \<Rightarrow> rat" where
  "projected_volume t positions = fl (py_sum (map position_volume positions) + ti_volume t)"

definition symbol_volume_checks :: "rule_context \<Rightarrow> position_snapshot list \<Rightarrow> risk_check list" where
  "symbol_volume_checks cx positions =
    (let limit = rs_max_volume_per_symbol (cx_risk_settings cx); t = cx_intent cx
     in if exceeds limit (projected_volume t positions)
        then [mk_check ''max_volume_per_symbol'' ''block'' ''Projected symbol exposure exceeds configured limit''
               [(''symbol'', VStr (ti_symbol t)), (''current_volume'', VFloat (py_sum (map position_volume positions))),
                (''requested_volume'', VFloat (ti_volume t)), (''projected_volume'', VFloat (projected_volume t positions)),
                (''limit'', opt_float limit)]]
        else [])"

definition same_side :: "string \<Rightarrow> position_snapshot \<Rightarrow> bool" where
  "same_side side p = (side = ''buy'' \<and> ps_type p = 0 \<or> side = ''sell'' \<and> ps_type p = 1)"

definition same_side_volume :: "string \<Rightarrow> position_snapshot list \<Rightarrow> rat" where
  "same_side_volume side positions =
    fold (\<lambda>p volume. if same_side side p then fl (volume + position_volume p) else volume) positions 0"

definition projected_net_lots :: "trade_intent \<Rightarrow> position_snapshot list \<Rightarrow> rat" where
  "projected_net_lots t positions = fl (same_side_volume (lower (strip (ti_side t))) positions + ti_volume t)"

definition net_lots_checks :: "rule_context \<Rightarrow> position_snapshot list \<Rightarrow> risk_check list" where
  "net_lots_checks cx positions =
    (let limit = rs_max_net_lots_per_symbol (cx_risk_settings cx); t = cx_intent cx; side = lower (strip (ti_side t))
     in if side \<in> {''buy'', ''sell''} \<and> exceeds limit (projected_net_lots t positions)
        then [mk_check ''max_net_lots_per_symbol'' ''block'' ''Projected same-direction net lots exceed configured limit''
               [(''symbol'', VStr (ti_symbol t)), (''side'', VStr side),
                (''current_same_side_lots'', VFloat (pyround (same_side_volume side positions) 4)),
                (''requested_volume'', VFloat (ti_volume t)),
                (''projected_net_lots'', VFloat (pyround (projected_net_lots t positions) 4)),
                (''limit'', opt_float limit)]]
        else [])"

definition account_snapshot_rule :: "rule_context \<Rightarrow> risk_check list" where
  "account_snapshot_rule cx =
    (if \<not> rs_enabled (cx_risk_settings cx) then []
     else order_volume_checks cx @
      (if \<not> needs_account_snapshot (cx_risk_settings cx) then []
       else case cx_account_provider cx of
         None \<Rightarrow> missing_provider cx ''account_snapshot'' ''Account state provider unavailable for structural risk checks''
       | Some ap \<Rightarrow>
          (case rbind (ap_positions ap (Some (ti_symbol (cx_intent cx)))) (\<lambda>symbol_positions.
                rbind (ap_positions ap None) (\<lambda>all_positions.
                rbind (ap_orders ap (Some (ti_symbol (cx_intent cx)))) (\<lambda>symbol_orders.
                ok (symbol_positions, all_positions, symbol_orders)))) of
             Inl e \<Rightarrow> [risk_data_unavailable_check cx ''account_snapshot''
                        ''Account state unavailable for structural risk checks'' [(''error'', VStr (exc_text e))]]
           | Inr (symbol_positions, all_positions, symbol_orders) \<Rightarrow>
               count_checks cx (int (length symbol_positions)) (int (length all_positions)) (int (length symbol_orders)) @
               symbol_volume_checks cx symbol_positions @
               net_lots_checks cx symbol_positions)))"

section \<open>ProtectionRule\<close>

definition protection_rule :: "rule_context \<Rightarrow> risk_check list" where
  "protection_rule cx =
    (let t = cx_intent cx; mode = lower (strip (rs_market_order_protection (cx_risk_settings cx)));
         kind = (if ti_order_kind t = [] then ''market'' else ti_order_kind t);
         details = [(''symbol'', VStr (ti_symbol t)), (''mode'', VStr mode)]
     in if \<not> rs_enabled (cx_risk_settings cx) then []
        else if lower kind \<noteq> ''market'' then []
        else if mode = ''off'' then []
        else (if mode = ''sl'' \<and> ti_sl t = None
              then [mk_check ''market_order_protection'' ''block'' ''Stop loss is required for market orders'' details] else []) @
             (if mode = ''sl_or_tp'' \<and> ti_sl t = None \<and> ti_tp t = None
              then [mk_check ''market_order_protection'' ''block''
                     ''At least one protective exit is required for market orders'' details] else []))"

section \<open>DailyLossLimitRule\<close>

definition meta_or :: "pydict \<Rightarrow> string \<Rightarrow> pyval \<Rightarrow> pyval" where
  "meta_or metadata k fallback = (case map_of metadata k of Some v \<Rightarrow> v | None \<Rightarrow> fallback)"

definition loss_pct_of :: "rat \<Rightarrow> rat \<Rightarrow> rat" where
  "loss_pct_of loss base = max 0 (fl (fl (loss / base) * 100))"

definition resolve_loss_details :: "rule_context \<Rightarrow> account_snapshot \<Rightarrow> rat option \<times> pydict" where
  "resolve_loss_details cx info =
    (let pf = cx_parse_float cx; metadata = ti_metadata (cx_intent cx); num = numeric pf in
     case num (dget metadata ''daily_loss_pct'') of
       Some explicit \<Rightarrow> (Some (max explicit 0),
         [(''loss_pct'', VFloat (max explicit 0)), (''source'', VStr ''intent_metadata.daily_loss_pct'')])
     | None \<Rightarrow>
       (let balance = num (ac_balance info); equity = num (ac_equity info);
            start_balance = num (meta_or metadata ''day_start_balance'' (ac_day_start_balance info));
            realized = num (meta_or metadata ''daily_realized_pnl'' (ac_daily_realized_pnl info));
            daily_pnl = (case realized of Some x \<Rightarrow> Some x | None \<Rightarrow> num (meta_or metadata ''daily_pnl'' (ac_daily_pnl info)));
            start = (case start_balance of Some b \<Rightarrow> if 0 < b then Some b else None | None \<Rightarrow> None);
            pnl_loss = (case (start, daily_pnl) of (Some b, Some p) \<Rightarrow> Some (loss_pct_of (- p) b) | _ \<Rightarrow> None);
            equity_loss = (case (start, equity) of (Some b, Some e) \<Rightarrow> Some (loss_pct_of (fl (b - e)) b) | _ \<Rightarrow> None);
            base = [(''day_start_balance'', opt_float start_balance)]
        in case (pnl_loss, equity_loss) of
          (Some p, Some e) \<Rightarrow> (Some (pyround (max p e) 4),
             [(''loss_pct'', VFloat (pyround (max p e) 4)), (''source'', VStr ''cross_validated'')] @ base @
             [(''daily_pnl'', opt_float daily_pnl), (''equity'', opt_float equity),
              (''pnl_loss_pct'', VFloat (pyround p 4)), (''equity_loss_pct'', VFloat (pyround e 4))])
        | (Some p, None) \<Rightarrow> (Some (pyround p 4),
             [(''loss_pct'', VFloat (pyround p 4)), (''source'', VStr ''daily_pnl_vs_day_start_balance'')] @ base @
             [(''daily_pnl'', opt_float daily_pnl)])
        | (None, Some e) \<Rightarrow> (Some (pyround e 4),
             [(''loss_pct'', VFloat (pyround e 4)), (''source'', VStr ''equity_vs_day_start_balance'')] @ base @
             [(''equity'', opt_float equity)])
        | (None, None) \<Rightarrow>
           (case (balance, equity) of
              (Some b, Some e) \<Rightarrow>
                if 0 < b
                then (Some (pyround (loss_pct_of (fl (b - e)) b) 4),
                   [(''loss_pct'', VFloat (pyround (loss_pct_of (fl (b - e)) b) 4)),
                    (''source'', VStr ''equity_balance_drawdown_proxy''), (''balance'', VFloat b), (''equity'', VFloat e)])
                else (None, [(''loss_pct'', VNone), (''source'', VStr ''unavailable'')])
            | _ \<Rightarrow> (None, [(''loss_pct'', VNone), (''source'', VStr ''unavailable'')]))))"

definition daily_loss_limit_rule :: "rule_context \<Rightarrow> risk_check list" where
  "daily_loss_limit_rule cx =
    (if \<not> rs_enabled (cx_risk_settings cx) then []
     else case rs_daily_loss_limit_pct (cx_risk_settings cx) of
       None \<Rightarrow> []
     | Some limit \<Rightarrow>
        if limit \<le> 0 then []
        else case cx_account_provider cx of
          None \<Rightarrow> missing_provider cx ''daily_loss_limit''
                   ''Daily loss limit unavailable because account provider is not configured''
        | Some ap \<Rightarrow>
           (case ap_account_info ap of
              Inl e \<Rightarrow> [risk_data_unavailable_check cx ''daily_loss_limit''
                ''Daily loss limit unavailable because account info could not be loaded'' [(''error'', VStr (exc_text e))]]
            | Inr info \<Rightarrow>
               (let (loss_pct, details) = resolve_loss_details cx info
                in if loss_pct = None \<or> the loss_pct < limit then []
                   else [mk_check ''daily_loss_limit'' ''block'' ''daily_loss_limit_reached''
                          (dset ''limit_pct'' (VFloat limit) details)])))"

section \<open>MarginAvailabilityRule\<close>

definition margin_availability_rule :: "rule_context \<Rightarrow> risk_check list" where
  "margin_availability_rule cx =
    (let safety = (case rs_margin_safety_factor (cx_risk_settings cx) of None \<Rightarrow> 0 | Some f \<Rightarrow> f);
         num = numeric (cx_parse_float cx);
         estimated = num (dget (ti_metadata (cx_intent cx)) ''estimated_margin'')
     in if \<not> rs_enabled (cx_risk_settings cx) then []
        else if safety \<le> 0 then []
        else case cx_account_provider cx of
          None \<Rightarrow> missing_provider cx ''margin_availability''
                   ''Margin check unavailable because account provider is not configured''
        | Some ap \<Rightarrow>
           (case estimated of
              None \<Rightarrow> missing_provider cx ''margin_availability'' ''Margin estimate unavailable for trade''
            | Some margin \<Rightarrow>
               if margin \<le> 0 then missing_provider cx ''margin_availability'' ''Margin estimate unavailable for trade''
               else case ap_account_info ap of
                 Inl e \<Rightarrow> [risk_data_unavailable_check cx ''margin_availability''
                             ''Margin check unavailable: account info could not be loaded'' []]
               | Inr info \<Rightarrow>
                  (case num (ac_margin_free info) of
                     None \<Rightarrow> [risk_data_unavailable_check cx ''margin_availability''
                                ''Free margin data unavailable from account info'' [(''estimated_margin'', VFloat margin)]]
                   | Some free \<Rightarrow>
                      (let required = fl (margin * safety)
                       in if required \<le> free then []
                          else [mk_check ''margin_availability'' ''block'' ''Insufficient free margin for trade''
                                 [(''estimated_margin'', VFloat (pyround margin 2)), (''required_margin'', VFloat (pyround required 2)),
                                  (''free_margin'', VFloat (pyround free 2)), (''safety_factor'', VFloat safety),
                                  (''shortfall'', VFloat (pyround (fl (required - free)) 2))]]))))"

section \<open>TradeFrequencyRule\<close>

text \<open>\<open>record_trade\<close>: the new time stays in the list even when the comparison with a naive one
  raises.\<close>

fun keep_after :: "datetime \<Rightarrow> datetime list \<Rightarrow> datetime list res" where
  "keep_after cutoff [] = ok []"
| "keep_after cutoff (t # ts) =
    rbind (dt_ge cutoff t) (\<lambda>old. rbind (keep_after cutoff ts) (\<lambda>rest. ok (if old then rest else t # rest)))"

definition shift_us :: "int \<Rightarrow> datetime \<Rightarrow> datetime" where
  "shift_us d t = Datetime (wall t + d) (utcoffset t)"

definition record_trade :: "datetime \<Rightarrow> datetime option \<Rightarrow> datetime list \<Rightarrow> unit res \<times> datetime list" where
  "record_trade now recorded_at timestamps =
    (let ts = timestamps @ [case recorded_at of Some t \<Rightarrow> t | None \<Rightarrow> now]
     in case keep_after (shift_us (- 172800000000) now) ts of
          Inl e \<Rightarrow> (raise e, ts)
        | Inr kept \<Rightarrow> (ok (), kept))"

fun count_since :: "datetime \<Rightarrow> datetime list \<Rightarrow> int res" where
  "count_since since [] = ok 0"
| "count_since since (t # ts) =
    rbind (dt_ge t since) (\<lambda>recent. rbind (count_since since ts) (\<lambda>n. ok (if recent then n + 1 else n)))"

definition rule_count_trades_since :: "rule_context \<Rightarrow> datetime \<Rightarrow> datetime list \<Rightarrow> int res" where
  "rule_count_trades_since cx since fallback =
    (case cx_count_trades_since cx of
       Some count \<Rightarrow> rbind (count since (cx_account_key cx)) (\<lambda>n. ok (max 0 n))
     | None \<Rightarrow> count_since since fallback)"

definition evaluation_time :: "rule_context \<Rightarrow> datetime" where
  "evaluation_time cx = as_utc (case ti_at_time (cx_intent cx) of Some t \<Rightarrow> t | None \<Rightarrow> cx_now cx)"

definition window_check ::
  "rule_context \<Rightarrow> datetime list \<Rightarrow> int option \<Rightarrow> datetime \<Rightarrow> (int \<Rightarrow> int \<Rightarrow> risk_check) \<Rightarrow> risk_check list res" where
  "window_check cx timestamps limit since blocked =
    (case limit of None \<Rightarrow> ok []
     | Some m \<Rightarrow> if m \<le> 0 then ok []
                else rbind (rule_count_trades_since cx since timestamps) (\<lambda>n. ok (if m \<le> n then [blocked n m] else [])))"

definition daily_trades_check :: "int \<Rightarrow> int \<Rightarrow> risk_check" where
  "daily_trades_check n m = mk_check ''max_trades_per_day'' ''block'' ''Daily trade limit reached''
     [(''trades_today'', VInt n), (''limit'', VInt m)]"

definition hourly_trades_check :: "int \<Rightarrow> int \<Rightarrow> risk_check" where
  "hourly_trades_check n m = mk_check ''max_trades_per_hour'' ''block'' ''Hourly trade limit reached''
     [(''trades_last_hour'', VInt n), (''limit'', VInt m)]"

definition trade_frequency_rule :: "datetime list \<Rightarrow> rule_context \<Rightarrow> risk_check list" where
  "trade_frequency_rule timestamps cx =
    (let s = cx_risk_settings cx; now = evaluation_time cx
     in if \<not> rs_enabled s then []
        else case rbind (window_check cx timestamps (rs_max_trades_per_day s)
                     (Datetime (day_start (wall now)) (utcoffset now)) daily_trades_check) (\<lambda>day.
                  rbind (window_check cx timestamps (rs_max_trades_per_hour s)
                     (shift_us (- 3600000000) now) hourly_trades_check) (\<lambda>hour. ok (day @ hour))) of
             Inl e \<Rightarrow> [risk_data_unavailable_check cx ''trade_frequency'' ''Trade frequency history unavailable''
                         [(''error'', VStr (exc_text e))]]
           | Inr checks \<Rightarrow> checks)"

section \<open>SessionWindowRule\<close>

definition normalize_session_name :: "string \<Rightarrow> string" where
  "normalize_session_name name = lower (strip name)"

definition resolve_session_by_hour :: "int \<Rightarrow> string" where
  "resolve_session_by_hour hour =
    (if 0 \<le> hour \<and> hour < 7 then ''asia'' else if 7 \<le> hour \<and> hour < 13 then ''london''
     else if 13 \<le> hour \<and> hour < 21 then ''new_york'' else ''off_hours'')"

definition utc_hour :: "datetime \<Rightarrow> int" where
  "utc_hour t = utc_us t div 3600000000 mod 24"

definition current_sessions :: "datetime \<Rightarrow> string list" where
  "current_sessions now = [resolve_session_by_hour (utc_hour now)]"

definition allowed_session_names :: "string \<Rightarrow> string list" where
  "allowed_session_names raw = map normalize_session_name (filter (\<lambda>item. strip item \<noteq> []) (split_char (CHR '','') [] raw))"

definition session_window_rule :: "rule_context \<Rightarrow> risk_check list" where
  "session_window_rule cx =
    (let raw_allowed = strip (rs_allowed_sessions (cx_risk_settings cx));
         allowed = allowed_session_names raw_allowed;
         current = current_sessions (evaluation_time cx)
     in if \<not> rs_enabled (cx_risk_settings cx) then []
        else if raw_allowed = [] then []
        else if list_ex (\<lambda>name. name \<in> set allowed) current then []
        else [mk_check ''allowed_sessions'' ''block'' (''outside_allowed_sessions:'' @ join '','' current)
               [(''current_sessions'', VList (map VStr current)),
                (''allowed_sessions'', VList (map VStr (sort (remdups allowed))))]])"

section \<open>MarketStructureRule\<close>

definition market_structure :: "rule_context \<Rightarrow> pydict" where
  "market_structure cx = (case dget (ti_metadata (cx_intent cx)) ''market_structure'' of VDict d \<Rightarrow> d | _ \<Rightarrow> [])"

definition normalized_side :: "string \<Rightarrow> string" where
  "normalized_side side =
    (let v = lower (strip side)
     in if v \<in> {''buy'', ''long''} then ''buy'' else if v \<in> {''sell'', ''short''} then ''sell'' else v)"

text \<open>\<open>str(x or default).strip().lower()\<close>.\<close>

definition label_or :: "string \<Rightarrow> pyval \<Rightarrow> string" where
  "label_or fallback v = lower (strip (if truthy v then py_str v else fallback))"

definition has_directional_structure :: "pydict \<Rightarrow> string \<Rightarrow> bool" where
  "has_directional_structure structure direction =
    (list_ex (\<lambda>key. starts_with (label_or [] (dget structure key)) (direction @ ''_''))
       [''structure_bias'', ''reclaim_state'', ''first_pullback_state'', ''sweep_confirmation_state''] \<or>
     (let breakout = label_or [] (dget structure ''breakout_state'')
      in if direction = ''bullish'' then breakout \<in> {''above_previous_day_high'', ''above_asia_range_high'',
           ''above_london_open_high'', ''above_new_york_open_high''}
         else if direction = ''bearish'' then breakout \<in> {''below_previous_day_low'', ''below_asia_range_low'',
           ''below_london_open_low'', ''below_new_york_open_low''}
         else False))"

definition sweep_check :: "string \<Rightarrow> string \<Rightarrow> pydict \<Rightarrow> string \<Rightarrow> risk_check" where
  "sweep_check side state structure reason = mk_check ''market_structure'' ''block'' reason
    [(''side'', VStr side), (''sweep_confirmation_state'', VStr state),
     (''confirmation_reference'', dget structure ''confirmation_reference''),
     (''structure_bias'', dget structure ''structure_bias'')]"

definition new_york_check :: "string \<Rightarrow> string \<Rightarrow> string \<Rightarrow> pydict \<Rightarrow> string \<Rightarrow> string \<Rightarrow> risk_check" where
  "new_york_check side session breakout structure level reason = mk_check ''market_structure_new_york_open'' ''warn'' reason
    [(''side'', VStr side), (''current_session'', VStr session), (''breakout_state'', VStr breakout), (level, dget structure level)]"

definition market_structure_rule :: "rule_context \<Rightarrow> risk_check list" where
  "market_structure_rule cx =
    (let structure = market_structure cx; side = normalized_side (ti_side (cx_intent cx));
         sweep = label_or ''none'' (dget structure ''sweep_confirmation_state'');
         session = normalize_session_name (str_or_empty (dget structure ''current_session''));
         breakout = label_or ''none'' (dget structure ''breakout_state'')
     in if \<not> rs_enabled (cx_risk_settings cx) then []
        else if structure = [] then []
        else (if side = ''buy'' \<and> starts_with sweep ''bearish_''
              then [sweep_check side sweep structure ''buy_conflicts_with_bearish_sweep_confirmation'']
              else if side = ''sell'' \<and> starts_with sweep ''bullish_''
              then [sweep_check side sweep structure ''sell_conflicts_with_bullish_sweep_confirmation''] else []) @
             (if session \<noteq> ''new_york'' then []
              else if side = ''buy'' \<and> breakout = ''below_new_york_open_low'' \<and> \<not> has_directional_structure structure ''bullish''
              then [new_york_check side session breakout structure ''new_york_open_low'' ''buy_against_new_york_open_downside_expansion'']
              else if side = ''sell'' \<and> breakout = ''above_new_york_open_high'' \<and> \<not> has_directional_structure structure ''bearish''
              then [new_york_check side session breakout structure ''new_york_open_high'' ''sell_against_new_york_open_upside_expansion'']
              else []))"

section \<open>EconomicEventRule\<close>

definition economic_guard_on :: "rule_context \<Rightarrow> bool" where
  "economic_guard_on cx = (es_enabled (cx_economic_settings cx) \<and> es_trade_guard_enabled (cx_economic_settings cx))"

definition guard_query_of :: "economic_config \<Rightarrow> trade_intent \<Rightarrow> guard_query" where
  "guard_query_of s t = \<lparr>gq_symbol = ti_symbol t, gq_at_time = ti_at_time t,
     gq_lookahead_minutes = es_trade_guard_lookahead_minutes s, gq_lookback_minutes = es_trade_guard_lookback_minutes s,
     gq_importance_min = es_trade_guard_importance_min s\<rparr>"

definition event_reason :: "pydict \<Rightarrow> string res" where
  "event_reason assessment =
    (let windows = py_or (dget assessment ''active_windows'') (VList [])
     in if truthy windows
        then rbind (py_len windows) (\<lambda>n. ok (''High-impact economic event window active ('' @ int_str n @ '' window(s))''))
        else ok ''High-impact economic event risk detected'')"

definition economic_event_rule :: "rule_context \<Rightarrow> risk_check list res" where
  "economic_event_rule cx =
    (case cx_economic_provider cx of
       None \<Rightarrow> ok []
     | Some ep \<Rightarrow>
        if \<not> economic_guard_on cx then ok []
        else rbind (ep_get_trade_guard ep (guard_query_of (cx_economic_settings cx) (cx_intent cx))) (\<lambda>assessment.
          if \<not> truthy (dget assessment ''blocked'') then ok []
          else rbind (event_reason assessment) (\<lambda>reason.
            ok [mk_check ''economic_event'' (if cx_mode cx = ''block'' then ''block'' else ''warn'') reason
                 [(''assessment'', VDict assessment)]])))"

section \<open>CalendarHealthRule\<close>

fun failing_providers :: "int \<Rightarrow> (string \<times> pyval) list \<Rightarrow> pydict list res" where
  "failing_providers threshold [] = ok []"
| "failing_providers threshold ((name, VDict state) # rest) =
    (if \<not> truthy (case map_of state ''enabled'' of Some v \<Rightarrow> v | None \<Rightarrow> VBool True) then failing_providers threshold rest
     else rbind (py_int_of (py_or (dget state ''consecutive_failures'') (VInt 0))) (\<lambda>n.
       rbind (failing_providers threshold rest) (\<lambda>ps.
       ok (if threshold \<le> n
           then [(''provider'', VStr name), (''consecutive_failures'', VInt n), (''last_error'', dget state ''last_error'')] # ps
           else ps))))"
| "failing_providers threshold ((name, v) # rest) =
    raise (AttributeError (CHR 0x27 # py_type_name v @ CHR 0x27 # '' object has no attribute get''))"

definition provider_items :: "pyval \<Rightarrow> (string \<times> pyval) list res" where
  "provider_items v = (case v of VDict d \<Rightarrow> ok d
     | _ \<Rightarrow> raise (AttributeError (CHR 0x27 # py_type_name v @ CHR 0x27 # '' object has no attribute items'')))"

definition failure_threshold :: "economic_config \<Rightarrow> int" where
  "failure_threshold s = max 0 (es_trade_guard_provider_failure_threshold s)"

definition calendar_health_rule :: "rule_context \<Rightarrow> risk_check list res" where
  "calendar_health_rule cx =
    (case cx_economic_provider cx of
       None \<Rightarrow> ok []
     | Some ep \<Rightarrow>
        if \<not> economic_guard_on cx then ok []
        else rbind (ep_stats ep) (\<lambda>stats.
          let status = py_or (dget stats ''provider_status'') (VDict []); threshold = failure_threshold (cx_economic_settings cx)
          in rbind (ep_is_stale ep) (\<lambda>stale.
          rbind (if 0 < threshold then rbind (provider_items status) (failing_providers threshold) else ok []) (\<lambda>failing.
          if \<not> stale \<and> failing = [] then ok []
          else let reasons = (if stale then [''Economic calendar data is stale''] else []) @
                 (if failing = [] then []
                  else [''Economic calendar providers degraded: '' @ join '', '' (map (\<lambda>p. py_str (dget p ''provider'')) failing)])
          in ok [mk_check ''calendar_health'' (if cx_calendar_health_mode cx = ''fail_closed'' then ''block'' else ''warn'')
                  (join ''; '' reasons)
                  [(''stale'', VBool stale), (''failing_providers'', VList (map VDict failing)),
                   (''provider_failure_threshold'', VInt threshold), (''provider_status'', status),
                   (''last_refresh_at'', dget stats ''last_refresh_at''),
                   (''refresh_in_progress'', dget stats ''refresh_in_progress'')]]))))"

section \<open>Verdicts\<close>

definition has_verdict :: "string \<Rightarrow> risk_check list \<Rightarrow> bool" where
  "has_verdict v checks = list_ex (\<lambda>c. ck_verdict c = v) checks"

text \<open>The counts the frequency rule asks for.\<close>

definition day_count :: "datetime list \<Rightarrow> rule_context \<Rightarrow> int res" where
  "day_count timestamps cx = rule_count_trades_since cx
     (Datetime (day_start (wall (evaluation_time cx))) (utcoffset (evaluation_time cx))) timestamps"

definition hour_count :: "datetime list \<Rightarrow> rule_context \<Rightarrow> int res" where
  "hour_count timestamps cx = rule_count_trades_since cx (shift_us (- 3600000000) (evaluation_time cx)) timestamps"

lemma has_verdict_simps [simp]:
  "has_verdict v [] = False" "has_verdict v (c # cs) = (ck_verdict c = v \<or> has_verdict v cs)"
  "has_verdict v (xs @ ys) = (has_verdict v xs \<or> has_verdict v ys)"
  by (simp_all add: has_verdict_def)

lemma mk_check_verdict [simp]: "ck_verdict (mk_check n v r d) = v"
  by (simp add: mk_check_def)

lemma unavailable_verdict [simp]:
  "ck_verdict (risk_data_unavailable_check cx n r d) = (if fail_closed cx then ''block'' else ''warn'')"
  by (simp add: risk_data_unavailable_check_def)

lemma missing_provider_blocks [simp]: "has_verdict ''block'' (missing_provider cx n r) = fail_closed cx"
  by (simp add: missing_provider_def)

end
