(* ===== verification/Risk_Spec.thy ===== *)
theory Risk_Spec
  imports Risk_Rules
begin

text \<open>
  What each pre-trade rule promises, stated over the configuration, the intent, the clock and the
  answers of the providers. The definitions of this theory use the operations of the language
  (\<open>float()\<close>, \<open>int()\<close>, \<open>sum\<close>, \<open>round\<close>, \<open>strip\<close>, \<open>lower\<close>, \<open>split\<close>, dictionary access, float
  arithmetic) and none of the helper functions of \<^verbatim>\<open>rules.py\<close> that \<open>Risk_Rules\<close> models; the lemmas
  \<open>rule_blocks\<close>, \<open>economic_event_blocks\<close> and \<open>calendar_health_blocks\<close> prove that each rule blocks
  exactly when its condition fails.
\<close>

section \<open>Vocabulary\<close>

definition at_most :: "'a::linorder option \<Rightarrow> 'a \<Rightarrow> bool" where
  "at_most limit x = (case limit of None \<Rightarrow> True | Some l \<Rightarrow> x \<le> l)"

definition stays_below :: "'a::linorder option \<Rightarrow> 'a \<Rightarrow> bool" where
  "stays_below limit x = (case limit of None \<Rightarrow> True | Some l \<Rightarrow> x < l)"

definition option_list :: "'a option \<Rightarrow> 'a list" where
  "option_list x = (case x of None \<Rightarrow> [] | Some y \<Rightarrow> [y])"

text \<open>\<open>float(v)\<close>, where it does not raise.\<close>

definition as_number :: "(string \<Rightarrow> rat option) \<Rightarrow> pyval \<Rightarrow> rat option" where
  "as_number pf v = (case py_float_of pf v of Inr x \<Rightarrow> Some x | Inl _ \<Rightarrow> None)"

text \<open>Whether missing data blocks.\<close>

definition closed_policy :: "rule_context \<Rightarrow> bool" where
  "closed_policy cx \<longleftrightarrow> lower (strip (rs_data_unavailable_policy (cx_risk_settings cx))) = ''fail_closed''"

text \<open>The time of the trade in microseconds of UTC; a naive time is read as UTC.\<close>

definition instant :: "rule_context \<Rightarrow> int" where
  "instant cx = utc_us (case ti_at_time (cx_intent cx) of Some t \<Rightarrow> t | None \<Rightarrow> cx_now cx)"

section \<open>Conditions\<close>

text \<open>Order volume, position and order counts, exposure and same-side lots with the new order. The
  account is only asked when some limit on it is set.\<close>

definition account_answers ::
  "rule_context \<Rightarrow> (position_snapshot list \<times> position_snapshot list \<times> position_snapshot list) option" where
  "account_answers cx = (case cx_account_provider cx of None \<Rightarrow> None
     | Some ap \<Rightarrow> (case (ap_positions ap (Some (ti_symbol (cx_intent cx))), ap_positions ap None,
                      ap_orders ap (Some (ti_symbol (cx_intent cx)))) of
          (Inr sp, Inr ps, Inr os) \<Rightarrow> Some (sp, ps, os) | _ \<Rightarrow> None))"

definition lots :: "position_snapshot \<Rightarrow> rat" where
  "lots p = (case ps_volume p of None \<Rightarrow> 0 | Some v \<Rightarrow> v)"

definition exposure_with :: "trade_intent \<Rightarrow> position_snapshot list \<Rightarrow> rat" where
  "exposure_with t held = fl (py_sum [lots p. p \<leftarrow> held] + ti_volume t)"

definition side_lots_with :: "trade_intent \<Rightarrow> position_snapshot list \<Rightarrow> rat" where
  "side_lots_with t held =
    (let mt5_type = (if lower (strip (ti_side t)) = ''buy'' then 0 else 1)
     in fl (foldl (\<lambda>sum v. fl (sum + v)) 0 [lots p. p \<leftarrow> held, ps_type p = mt5_type] + ti_volume t))"

definition account_limits_set :: "risk_config \<Rightarrow> bool" where
  "account_limits_set s \<longleftrightarrow> \<not> (rs_max_positions_per_symbol s = None \<and> rs_max_open_positions_total s = None \<and>
     rs_max_pending_orders_per_symbol s = None \<and> rs_max_volume_per_symbol s = None \<and> rs_max_net_lots_per_symbol s = None)"

definition account_within_limits :: "rule_context \<Rightarrow> bool" where
  "account_within_limits cx =
    (let s = cx_risk_settings cx; t = cx_intent cx in
     at_most (rs_max_volume_per_order s) (ti_volume t) \<and>
     (account_limits_set s \<longrightarrow>
       (case account_answers cx of None \<Rightarrow> \<not> closed_policy cx
        | Some (held, all_open, orders) \<Rightarrow>
            stays_below (rs_max_positions_per_symbol s) (int (length held)) \<and>
            stays_below (rs_max_open_positions_total s) (int (length all_open)) \<and>
            stays_below (rs_max_pending_orders_per_symbol s) (int (length orders)) \<and>
            at_most (rs_max_volume_per_symbol s) (exposure_with t held) \<and>
            (lower (strip (ti_side t)) \<in> {''buy'', ''sell''} \<longrightarrow>
              at_most (rs_max_net_lots_per_symbol s) (side_lots_with t held)))))"

text \<open>A market order (the kind of an order that names none) carries the exits the mode asks for.\<close>

definition order_protected :: "rule_context \<Rightarrow> bool" where
  "order_protected cx =
    (let t = cx_intent cx; mode = lower (strip (rs_market_order_protection (cx_risk_settings cx))) in
     ti_order_kind t = [] \<or> lower (ti_order_kind t) = ''market'' \<longrightarrow>
     (mode = ''sl'' \<longrightarrow> ti_sl t \<noteq> None) \<and> (mode = ''sl_or_tp'' \<longrightarrow> ti_sl t \<noteq> None \<or> ti_tp t \<noteq> None))"

definition account_info_of :: "rule_context \<Rightarrow> account_snapshot option" where
  "account_info_of cx = (case cx_account_provider cx of None \<Rightarrow> None
     | Some ap \<Rightarrow> (case ap_account_info ap of Inr info \<Rightarrow> Some info | Inl _ \<Rightarrow> None))"

text \<open>Every estimate of the day's loss, in percent at four decimals: the one the intent states; or
  those of realised profit and of equity against the balance at the start of the day; or, with
  neither, equity against balance. The trade is refused when any of them reaches the limit.\<close>

definition loss_share :: "rat \<Rightarrow> rat \<Rightarrow> rat" where
  "loss_share lost base = pyround (max 0 (fl (fl (lost / base) * 100))) 4"

definition loss_estimates :: "rule_context \<Rightarrow> account_snapshot \<Rightarrow> rat list" where
  "loss_estimates cx info =
    (let number = as_number (cx_parse_float cx); meta = ti_metadata (cx_intent cx);
         stated = (\<lambda>k v. number (case map_of meta k of Some x \<Rightarrow> x | None \<Rightarrow> v));
         start = filter (\<lambda>b. 0 < b) (option_list (stated ''day_start_balance'' (ac_day_start_balance info)));
         pnl = take 1 (option_list (stated ''daily_realized_pnl'' (ac_daily_realized_pnl info)) @
                       option_list (stated ''daily_pnl'' (ac_daily_pnl info)));
         equity = option_list (number (ac_equity info));
         today = [loss_share (- p) b. b \<leftarrow> start, p \<leftarrow> pnl] @ [loss_share (fl (b - e)) b. b \<leftarrow> start, e \<leftarrow> equity]
     in case number (dget meta ''daily_loss_pct'') of
          Some pct \<Rightarrow> [max pct 0]
        | None \<Rightarrow> if today \<noteq> [] then today
                  else [loss_share (fl (b - e)) b. b \<leftarrow> option_list (number (ac_balance info)), e \<leftarrow> equity, 0 < b])"

definition daily_loss_within_limit :: "rule_context \<Rightarrow> bool" where
  "daily_loss_within_limit cx =
    (case rs_daily_loss_limit_pct (cx_risk_settings cx) of None \<Rightarrow> True
     | Some limit \<Rightarrow> 0 < limit \<longrightarrow>
        (case account_info_of cx of None \<Rightarrow> \<not> closed_policy cx
         | Some info \<Rightarrow> \<forall>loss \<in> set (loss_estimates cx info). loss < limit))"

text \<open>The margin the intent estimates, times the safety factor, is free.\<close>

definition margin_sufficient :: "rule_context \<Rightarrow> bool" where
  "margin_sufficient cx =
    (case rs_margin_safety_factor (cx_risk_settings cx) of None \<Rightarrow> True
     | Some safety \<Rightarrow> 0 < safety \<longrightarrow>
        (case (as_number (cx_parse_float cx) (dget (ti_metadata (cx_intent cx)) ''estimated_margin''),
               map_option (\<lambda>info. as_number (cx_parse_float cx) (ac_margin_free info)) (account_info_of cx)) of
           (Some margin, Some (Some free)) \<Rightarrow> if 0 < margin then fl (margin * safety) \<le> free else \<not> closed_policy cx
         | _ \<Rightarrow> \<not> closed_policy cx))"

text \<open>Trades at or after a time: what the provider counts, or the recorded times, which have to be
  aware. A count that is asked for and cannot be had decides alone.\<close>

definition trades_since :: "datetime list \<Rightarrow> rule_context \<Rightarrow> int \<Rightarrow> int option" where
  "trades_since timestamps cx us =
    (case cx_count_trades_since cx of
       Some count \<Rightarrow> (case count (Datetime us (Some 0)) (cx_account_key cx) of Inr n \<Rightarrow> Some (max 0 n) | Inl _ \<Rightarrow> None)
     | None \<Rightarrow> if \<exists>t \<in> set timestamps. utcoffset t = None then None
               else Some (int (length (filter (\<lambda>t. us \<le> utc_us t) timestamps))))"

definition active_limit :: "int option \<Rightarrow> int option" where
  "active_limit limit = (case limit of None \<Rightarrow> None | Some m \<Rightarrow> if 0 < m then Some m else None)"

definition trades_within_limits :: "datetime list \<Rightarrow> rule_context \<Rightarrow> bool" where
  "trades_within_limits timestamps cx =
    (let daily = active_limit (rs_max_trades_per_day (cx_risk_settings cx));
         hourly = active_limit (rs_max_trades_per_hour (cx_risk_settings cx));
         today = trades_since timestamps cx (instant cx div 86400000000 * 86400000000);
         last_hour = trades_since timestamps cx (instant cx - 3600000000)
     in if daily \<noteq> None \<and> today = None \<or> hourly \<noteq> None \<and> last_hour = None then \<not> closed_policy cx
        else (daily \<noteq> None \<longrightarrow> the today < the daily) \<and> (hourly \<noteq> None \<longrightarrow> the last_hour < the hourly))"

text \<open>The session of the hour is one of those listed.\<close>

definition session_at :: "int \<Rightarrow> string" where
  "session_at us = (let hour = us div 3600000000 mod 24
     in if hour < 7 then ''asia'' else if hour < 13 then ''london'' else if hour < 21 then ''new_york'' else ''off_hours'')"

definition session_allowed :: "rule_context \<Rightarrow> bool" where
  "session_allowed cx =
    (let raw = strip (rs_allowed_sessions (cx_risk_settings cx)) in
     raw = [] \<or> (\<exists>item \<in> set (split_char (CHR '','') [] raw). lower (strip item) = session_at (instant cx)))"

text \<open>The confirmed sweep of the market structure does not point against the side.\<close>

definition sweep_against :: "string list \<Rightarrow> string \<Rightarrow> rule_context \<Rightarrow> bool" where
  "sweep_against sides prefix cx \<longleftrightarrow> lower (strip (ti_side (cx_intent cx))) \<in> set sides \<and>
    (case dget (ti_metadata (cx_intent cx)) ''market_structure'' of
       VDict structure \<Rightarrow> (let state = dget structure ''sweep_confirmation_state''
         in truthy state \<and> starts_with (lower (strip (py_str state))) prefix)
     | _ \<Rightarrow> False)"

definition sweep_agrees :: "rule_context \<Rightarrow> bool" where
  "sweep_agrees cx \<longleftrightarrow> \<not> sweep_against [''buy'', ''long''] ''bearish_'' cx \<and> \<not> sweep_against [''sell'', ''short''] ''bullish_'' cx"

text \<open>The calendar's guard: asked for the symbol and time of the trade, it reports an event; its
  data are stale, or an enabled source has failed as often as the threshold.\<close>

definition guarded_calendar :: "rule_context \<Rightarrow> economic_provider option" where
  "guarded_calendar cx =
    (if es_enabled (cx_economic_settings cx) \<and> es_trade_guard_enabled (cx_economic_settings cx)
     then cx_economic_provider cx else None)"

definition event_active :: "rule_context \<Rightarrow> bool" where
  "event_active cx = (case guarded_calendar cx of None \<Rightarrow> False
     | Some ep \<Rightarrow>
        (case ep_get_trade_guard ep \<lparr>gq_symbol = ti_symbol (cx_intent cx), gq_at_time = ti_at_time (cx_intent cx),
            gq_lookahead_minutes = es_trade_guard_lookahead_minutes (cx_economic_settings cx),
            gq_lookback_minutes = es_trade_guard_lookback_minutes (cx_economic_settings cx),
            gq_importance_min = es_trade_guard_importance_min (cx_economic_settings cx)\<rparr> of
           Inr assessment \<Rightarrow> truthy (dget assessment ''blocked'') | Inl _ \<Rightarrow> False))"

definition source_failing :: "int \<Rightarrow> pyval \<Rightarrow> bool" where
  "source_failing threshold state = (case state of
     VDict d \<Rightarrow> (''enabled'' \<in> fst ` set d \<longrightarrow> truthy (dget d ''enabled'')) \<and>
       (case py_int_of (py_or (dget d ''consecutive_failures'') (VInt 0)) of Inr n \<Rightarrow> threshold \<le> n | Inl _ \<Rightarrow> False)
   | _ \<Rightarrow> False)"

definition calendar_degraded :: "rule_context \<Rightarrow> bool" where
  "calendar_degraded cx = (case guarded_calendar cx of None \<Rightarrow> False
     | Some ep \<Rightarrow> ep_is_stale ep = ok True \<or>
        (let threshold = es_trade_guard_provider_failure_threshold (cx_economic_settings cx) in
         0 < threshold \<and>
         (case ep_stats ep of
            Inr stats \<Rightarrow> (case dget stats ''provider_status'' of
               VDict sources \<Rightarrow> \<exists>(name, state) \<in> set sources. source_failing threshold state | _ \<Rightarrow> False)
          | Inl _ \<Rightarrow> False)))"

section \<open>The rules keep their promises\<close>

lemma exceeds_iff [simp]: "exceeds limit x \<longleftrightarrow> \<not> at_most limit x" "reaches limit n \<longleftrightarrow> \<not> stays_below limit n"
  by (auto simp: exceeds_def at_most_def reaches_def stays_below_def split: option.splits)

lemma fail_closed_iff [simp]: "fail_closed cx \<longleftrightarrow> closed_policy cx"
  by (auto simp: fail_closed_def risk_data_policy_def closed_policy_def Let_def)

lemma numeric_eq [simp]: "numeric pf v = as_number pf v"
  by (cases v) (auto simp: numeric_def as_number_def split: sum.splits)

lemma projected_volume_eq: "projected_volume t held = exposure_with t held"
  by (simp add: projected_volume_def exposure_with_def lots_def [abs_def] position_volume_def [abs_def])

lemma same_side_volume_foldl:
  assumes "side \<in> {''buy'', ''sell''}"
  shows "fold (\<lambda>p volume. if same_side side p then fl (volume + position_volume p) else volume) held acc =
    foldl (\<lambda>sum v. fl (sum + v)) acc [lots p. p \<leftarrow> held, ps_type p = (if side = ''buy'' then 0 else 1)]"
  using assms by (induction held arbitrary: acc) (auto simp: same_side_def lots_def position_volume_def)

lemma projected_net_lots_eq:
  "lower (strip (ti_side t)) \<in> {''buy'', ''sell''} \<Longrightarrow> projected_net_lots t held = side_lots_with t held"
  by (simp add: projected_net_lots_def same_side_volume_def side_lots_with_def same_side_volume_foldl Let_def)

lemma needs_account_iff: "needs_account_snapshot s \<longleftrightarrow> account_limits_set s"
  by (auto simp: needs_account_snapshot_def account_limits_set_def)

lemma account_snapshot_blocks:
  "has_verdict ''block'' (account_snapshot_rule cx) \<longleftrightarrow> rs_enabled (cx_risk_settings cx) \<and> \<not> account_within_limits cx"
  by (auto simp: account_snapshot_rule_def account_within_limits_def account_answers_def order_volume_checks_def
      count_checks_def symbol_volume_checks_def net_lots_checks_def Let_def rbind_def needs_account_iff
      projected_volume_eq projected_net_lots_eq split: option.splits sum.splits)

lemma protection_blocks:
  "has_verdict ''block'' (protection_rule cx) \<longleftrightarrow> rs_enabled (cx_risk_settings cx) \<and> \<not> order_protected cx"
  by (auto simp: protection_rule_def order_protected_def str_eval Let_def)

lemma loss_estimates_correct:
  "(case fst (resolve_loss_details cx info) of None \<Rightarrow> True | Some loss \<Rightarrow> loss < limit) \<longleftrightarrow>
    (\<forall>loss \<in> set (loss_estimates cx info). loss < limit)"
proof -
  have round_max: "pyround (max p e) 4 = max (pyround p 4) (pyround e 4)" for p e
    by (simp add: max_def pyround_mono) (metis nle_le pyround_mono)
  let ?meta = "ti_metadata (cx_intent cx)" and ?num = "as_number (cx_parse_float cx)"
  let ?stated = "\<lambda>k v. ?num (case map_of ?meta k of Some x \<Rightarrow> x | None \<Rightarrow> v)"
  define pct where "pct = ?num (dget ?meta ''daily_loss_pct'')"
  define start where "start = ?stated ''day_start_balance'' (ac_day_start_balance info)"
  define realized where "realized = ?stated ''daily_realized_pnl'' (ac_daily_realized_pnl info)"
  define pnl where "pnl = ?stated ''daily_pnl'' (ac_daily_pnl info)"
  define equity where "equity = ?num (ac_equity info)"
  define balance where "balance = ?num (ac_balance info)"
  note inputs = pct_def [symmetric] start_def [symmetric] realized_def [symmetric] pnl_def [symmetric]
    equity_def [symmetric] balance_def [symmetric]
  show ?thesis
    unfolding resolve_loss_details_def loss_estimates_def meta_or_def numeric_eq Let_def inputs loss_pct_of_def
      loss_share_def option_list_def
    by (cases pct; cases start; cases realized; cases pnl; cases equity; cases balance) (simp_all add: round_max, blast+)
qed

lemma daily_loss_blocks:
  "has_verdict ''block'' (daily_loss_limit_rule cx) \<longleftrightarrow> rs_enabled (cx_risk_settings cx) \<and> \<not> daily_loss_within_limit cx"
proof -
  have reached: "loss = None \<or> the loss < limit \<longleftrightarrow> (case loss of None \<Rightarrow> True | Some x \<Rightarrow> x < limit)" for loss :: "rat option" and limit
    by (simp split: option.splits)
  show ?thesis
    by (auto simp: daily_loss_limit_rule_def daily_loss_within_limit_def account_info_of_def split_beta reached
        loss_estimates_correct not_less split: option.splits sum.splits)
qed

lemma margin_blocks:
  "has_verdict ''block'' (margin_availability_rule cx) \<longleftrightarrow> rs_enabled (cx_risk_settings cx) \<and> \<not> margin_sufficient cx"
  by (auto simp: margin_availability_rule_def margin_sufficient_def account_info_of_def Let_def
      split: option.splits sum.splits)

lemma evaluation_time_eq: "evaluation_time cx = Datetime (instant cx) (Some 0)"
  by (auto simp: evaluation_time_def instant_def as_utc_def astimezone_utc_def replace_tz_def utc_us_def split: option.splits)

lemma count_since_eq:
  "count_since (Datetime us (Some 0)) ts =
    (if \<exists>t \<in> set ts. utcoffset t = None
     then raise (TypeError ''can't compare offset-naive and offset-aware datetimes'')
     else ok (int (length (filter (\<lambda>t. us \<le> utc_us t) ts))))"
  by (induction ts) (auto simp: dt_ge_def rbind_def utc_us_def split: option.splits)

lemma trades_since_eq:
  "trades_since timestamps cx us =
    (case rule_count_trades_since cx (Datetime us (Some 0)) timestamps of Inr n \<Rightarrow> Some n | Inl _ \<Rightarrow> None)"
  by (auto simp: trades_since_def rule_count_trades_since_def count_since_eq rbind_def split: option.splits sum.splits)

lemma day_start_div: "day_start us = us div 86400000000 * 86400000000"
  by (simp add: day_start_def minus_mod_eq_div_mult)

lemma trade_frequency_blocks:
  "has_verdict ''block'' (trade_frequency_rule timestamps cx) \<longleftrightarrow>
    rs_enabled (cx_risk_settings cx) \<and> \<not> trades_within_limits timestamps cx"
  by (auto simp: trade_frequency_rule_def trades_within_limits_def window_check_def active_limit_def trades_since_eq
      evaluation_time_eq day_start_div shift_us_def daily_trades_check_def hourly_trades_check_def Let_def rbind_def
      split: option.splits sum.splits)

lemma session_at_eq: "resolve_session_by_hour (utc_hour (Datetime us (Some 0))) = session_at us"
  by (simp add: resolve_session_by_hour_def utc_hour_def session_at_def utc_us_def Let_def)

lemma session_at_nonempty: "session_at us \<noteq> []"
  by (simp add: session_at_def Let_def)

lemma session_blocks:
  "has_verdict ''block'' (session_window_rule cx) \<longleftrightarrow> rs_enabled (cx_risk_settings cx) \<and> \<not> session_allowed cx"
proof -
  have "session_at us \<in> set (allowed_session_names raw) \<longleftrightarrow>
      (\<exists>item \<in> set (split_char (CHR '','') [] raw). lower (strip item) = session_at us)" for us raw
    using session_at_nonempty [of us]
    by (auto simp: allowed_session_names_def normalize_session_name_def image_iff lower_def)
  then show ?thesis
    by (simp add: session_window_rule_def session_allowed_def current_sessions_def evaluation_time_eq session_at_eq Let_def)
qed

lemma market_structure_blocks:
  "has_verdict ''block'' (market_structure_rule cx) \<longleftrightarrow> rs_enabled (cx_risk_settings cx) \<and> \<not> sweep_agrees cx"
proof -
  have "sweep_agrees cx \<longleftrightarrow>
    (let side = normalized_side (ti_side (cx_intent cx));
         sweep = label_or ''none'' (dget (market_structure cx) ''sweep_confirmation_state'') in
     \<not> (side = ''buy'' \<and> starts_with sweep ''bearish_'') \<and> \<not> (side = ''sell'' \<and> starts_with sweep ''bullish_''))"
    by (auto simp: sweep_agrees_def sweep_against_def normalized_side_def label_or_def market_structure_def Let_def str_eval
        dget_def split: pyval.splits)
  note agrees = this
  show ?thesis
  proof (cases "market_structure cx = []")
    case True
    then show ?thesis by (simp add: market_structure_rule_def agrees label_or_def dget_def Let_def str_eval)
  next
    case False
    then show ?thesis
      by (simp add: market_structure_rule_def agrees sweep_check_def new_york_check_def Let_def)
  qed
qed

lemmas rule_blocks = account_snapshot_blocks protection_blocks daily_loss_blocks margin_blocks
  trade_frequency_blocks session_blocks market_structure_blocks

lemma guarded_calendar_eq: "guarded_calendar cx = (if economic_guard_on cx then cx_economic_provider cx else None)"
  by (simp add: guarded_calendar_def economic_guard_on_def)

lemma economic_event_blocks:
  "economic_event_rule cx = ok checks \<Longrightarrow> has_verdict ''block'' checks \<longleftrightarrow> cx_mode cx = ''block'' \<and> event_active cx"
  by (auto simp: economic_event_rule_def event_active_def guarded_calendar_eq guard_query_of_def rbind_def
      split: option.splits sum.splits if_splits)

lemma failing_providers_iff:
  "failing_providers threshold sources = ok failing \<Longrightarrow>
    failing \<noteq> [] \<longleftrightarrow> (\<exists>(name, state) \<in> set sources. source_failing threshold state)"
proof (induction threshold sources arbitrary: failing rule: failing_providers.induct)
  case (2 threshold name state rest)
  have enabled: "truthy (case map_of state ''enabled'' of Some v \<Rightarrow> v | None \<Rightarrow> VBool True) \<longleftrightarrow>
      (''enabled'' \<in> fst ` set state \<longrightarrow> truthy (dget state ''enabled''))"
    by (auto simp: dget_def map_of_eq_None_iff split: option.splits) (metis domI dom_map_of_conv_image_fst image_eqI)+
  define on where "on = truthy (case map_of state ''enabled'' of Some v \<Rightarrow> v | None \<Rightarrow> VBool True)"
  show ?case
  proof (cases on)
    case False
    then have "failing_providers threshold rest = ok failing" "\<not> source_failing threshold (VDict state)"
      using 2(3) enabled by (simp_all add: on_def source_failing_def)
    then show ?thesis using 2(1) False by (simp add: on_def)
  next
    case True
    then obtain n ps where "py_int_of (py_or (dget state ''consecutive_failures'') (VInt 0)) = ok n"
      and ps: "failing_providers threshold rest = ok ps"
      and "failing \<noteq> [] \<longleftrightarrow> threshold \<le> n \<or> ps \<noteq> []"
      using 2(3) by (auto simp: on_def res_simps split: if_splits)
    then show ?thesis using 2(2) [OF _ ps] True enabled by (simp add: on_def source_failing_def)
  qed
qed (simp_all add: source_failing_def)

lemma calendar_health_blocks:
  assumes "calendar_health_rule cx = ok checks"
  shows "has_verdict ''block'' checks \<longleftrightarrow> cx_calendar_health_mode cx = ''fail_closed'' \<and> calendar_degraded cx"
proof (cases "guarded_calendar cx")
  case (Some ep)
  let ?threshold = "es_trade_guard_provider_failure_threshold (cx_economic_settings cx)"
  from Some have on: "economic_guard_on cx" "cx_economic_provider cx = Some ep" by (auto simp: guarded_calendar_eq split: if_splits)
  let ?sources = "\<lambda>stats. if 0 < ?threshold then rbind (provider_items (py_or (dget stats ''provider_status'') (VDict [])))
      (failing_providers ?threshold) else ok []"
  have threshold: "(if 0 < failure_threshold (cx_economic_settings cx)
      then rbind (provider_items (py_or (dget stats ''provider_status'') (VDict [])))
        (failing_providers (failure_threshold (cx_economic_settings cx))) else ok []) = ?sources stats" for stats
    by (simp add: failure_threshold_def)
  from assms on obtain stats stale where a: "ep_stats ep = ok stats" "ep_is_stale ep = ok stale"
    by (auto simp: calendar_health_rule_def Let_def res_simps)
  with assms on obtain failing where f: "?sources stats = ok failing"
    by (cases "?sources stats") (simp_all add: calendar_health_rule_def Let_def threshold res_simps)
  then have "failing \<noteq> [] \<longleftrightarrow> 0 < ?threshold \<and> (case dget stats ''provider_status'' of
      VDict sources \<Rightarrow> \<exists>(name, state) \<in> set sources. source_failing ?threshold state | _ \<Rightarrow> False)"
    using failing_providers_iff
    by (auto simp: provider_items_def py_or_def res_simps split: if_splits pyval.splits)
  moreover have "has_verdict ''block'' checks \<longleftrightarrow> cx_calendar_health_mode cx = ''fail_closed'' \<and> (stale \<or> failing \<noteq> [])"
    using assms on a f by (auto simp: calendar_health_rule_def Let_def threshold res_simps split: if_splits)
  ultimately show ?thesis using Some a by (simp add: calendar_degraded_def Let_def)
qed (use assms in \<open>auto simp: calendar_health_rule_def calendar_degraded_def guarded_calendar_eq split: if_splits option.splits\<close>)

end
