(* ===== verification/Trade_Frequency.thy ===== *)
theory Trade_Frequency
  imports Py_Repr Interfaces
begin

text \<open>
  The trade frequency quota: the reservations table and its SQL statements
  (\<open>persistence/repositories/trade_repo.py\<close>), and the account-scoped provider over it with its
  in-process fallback (\<open>trading/runtime/trade_frequency.py\<close>). Times are aware datetimes as
  their UTC microseconds, and \<open>now\<close> is the clock of one call. The repository takes its
  connection from \<open>connection()\<close>, which commits every statement by itself, so a reservation is
  modelled both as one call and as the sequence of its statements, which two processes may
  interleave. Identifiers drawn by \<open>uuid4\<close> are arguments.
\<close>

section \<open>Tables\<close>

record reservation_row =
  rr_id :: string
  rr_account_key :: string
  rr_account_alias :: "string option"
  rr_reserved_at :: int
  rr_expires_at :: int
  rr_status :: string
  rr_finalized_at :: "int option"

record audit_row =
  ar_recorded_at :: int
  ar_account_alias :: "string option"
  ar_account_key :: "string option"
  ar_command_type :: string
  ar_status :: string
  ar_request_payload :: pydict
  ar_response_payload :: pydict

record trade_db =
  td_audits :: "audit_row list"
  td_reservations :: "reservation_row list"

text \<open>\<open>payload->>'key'\<close>: NULL for a missing key or a JSON null, otherwise the text of the value.
  Only comparisons with four words follow, which no number with a fraction and no container
  prints as.\<close>

definition json_text :: "pydict \<Rightarrow> string \<Rightarrow> string option" where
  "json_text d k = (case dget d k of VNone \<Rightarrow> None
     | VBool b \<Rightarrow> Some (if b then ''true'' else ''false'') | v \<Rightarrow> Some (py_str v))"

definition real_trade :: "audit_row \<Rightarrow> bool" where
  "real_trade a =
    (let flag = (case json_text (ar_response_payload a) ''dry_run'' of Some s \<Rightarrow> s
                 | None \<Rightarrow> (case json_text (ar_request_payload a) ''dry_run'' of Some s \<Rightarrow> s | None \<Rightarrow> ''false''))
     in lower flag \<notin> {''true'', ''1'', ''yes'', ''on''})"

definition successful_trade :: "int \<Rightarrow> audit_row \<Rightarrow> bool" where
  "successful_trade since a =
    (since \<le> ar_recorded_at a \<and> ar_command_type a = ''execute_trade'' \<and> ar_status a = ''success'' \<and> real_trade a)"

definition count_successful_trade_commands_since ::
  "int \<Rightarrow> string option \<Rightarrow> string option \<Rightarrow> trade_db \<Rightarrow> int" where
  "count_successful_trade_commands_since since account_key account_alias db =
    int (length (filter (\<lambda>a. successful_trade since a \<and>
      (case account_key of Some k \<Rightarrow> ar_account_key a = Some k
       | None \<Rightarrow> (case account_alias of Some n \<Rightarrow> ar_account_alias a = Some n | None \<Rightarrow> True))) (td_audits db)))"

definition reservation_live :: "int \<Rightarrow> string \<Rightarrow> int \<Rightarrow> reservation_row \<Rightarrow> bool" where
  "reservation_live now account_key since r =
    (rr_account_key r = account_key \<and> since \<le> rr_reserved_at r \<and> now < rr_expires_at r \<and>
     rr_status r \<in> {''active'', ''committed''})"

definition count_trade_frequency_reservations_since :: "int \<Rightarrow> int \<Rightarrow> string \<Rightarrow> trade_db \<Rightarrow> int" where
  "count_trade_frequency_reservations_since now since account_key db =
    int (length (filter (reservation_live now account_key since) (td_reservations db)))"

definition count_frequency_window_locked :: "int \<Rightarrow> string \<Rightarrow> int \<Rightarrow> trade_db \<Rightarrow> int" where
  "count_frequency_window_locked now account_key since db =
    count_successful_trade_commands_since since (Some account_key) None db +
    count_trade_frequency_reservations_since now since account_key db"

section \<open>Reserving and finalizing in the database\<close>

definition expire_reservations :: "int \<Rightarrow> string \<Rightarrow> trade_db \<Rightarrow> trade_db" where
  "expire_reservations now account_key db = db\<lparr>td_reservations := map (\<lambda>r.
     if rr_account_key r = account_key \<and> rr_status r = ''active'' \<and> rr_expires_at r \<le> now
     then r\<lparr>rr_status := ''expired'', rr_finalized_at := Some now\<rparr> else r) (td_reservations db)\<rparr>"

definition minutes_us :: "int \<Rightarrow> int" where
  "minutes_us m = m * 60000000"

record reserve_args =
  ra_account_key :: string
  ra_account_alias :: "string option"
  ra_at_time :: int
  ra_max_trades_per_day :: "int option"
  ra_max_trades_per_hour :: "int option"
  ra_reservation_id :: string

definition insert_reservation :: "reserve_args \<Rightarrow> trade_db \<Rightarrow> trade_db" where
  "insert_reservation a db = db\<lparr>td_reservations := td_reservations db @
     [\<lparr>rr_id = ra_reservation_id a, rr_account_key = strip (ra_account_key a),
       rr_account_alias = ra_account_alias a, rr_reserved_at = ra_at_time a,
       rr_expires_at = ra_at_time a + minutes_us 5, rr_status = ''active'', rr_finalized_at = None\<rparr>]\<rparr>"

definition day_full :: "int \<Rightarrow> reserve_args \<Rightarrow> trade_db \<Rightarrow> bool" where
  "day_full now a db = (case ra_max_trades_per_day a of None \<Rightarrow> False
     | Some m \<Rightarrow> m \<le> count_frequency_window_locked now (strip (ra_account_key a)) (day_start (ra_at_time a)) db)"

definition hour_full :: "int \<Rightarrow> reserve_args \<Rightarrow> trade_db \<Rightarrow> bool" where
  "hour_full now a db = (case ra_max_trades_per_hour a of None \<Rightarrow> False
     | Some m \<Rightarrow> m \<le> count_frequency_window_locked now (strip (ra_account_key a)) (ra_at_time a - minutes_us 60) db)"

definition reserve_trade_frequency_quota :: "int \<Rightarrow> reserve_args \<Rightarrow> trade_db \<Rightarrow> string res \<times> trade_db" where
  "reserve_trade_frequency_quota now a db =
    (if strip (ra_account_key a) = []
     then (raise (ValueError ''account_key is required for trade frequency reservation''), db)
     else let db1 = expire_reservations now (strip (ra_account_key a)) db
     in if day_full now a db1 then (raise (RuntimeError ''Daily trade limit reached''), db1)
        else if hour_full now a db1 then (raise (RuntimeError ''Hourly trade limit reached''), db1)
        else (ok (ra_reservation_id a), insert_reservation a db1))"

definition finalize_trade_frequency_reservation :: "int \<Rightarrow> string \<Rightarrow> bool \<Rightarrow> trade_db \<Rightarrow> trade_db" where
  "finalize_trade_frequency_reservation now reservation_id committed db =
    (if strip reservation_id = [] then db
     else db\<lparr>td_reservations := map (\<lambda>r. if rr_id r = strip reservation_id
       then r\<lparr>rr_status := (if committed then ''committed'' else ''released''),
              rr_finalized_at := Some now,
              rr_expires_at := (if committed then min (rr_expires_at r) (now + 30000000) else now)\<rparr>
       else r) (td_reservations db)\<rparr>)"

text \<open>The statements of one reservation. The advisory lock is taken by a statement of its own and
  ends with that statement's transaction, so it never keeps another session waiting.\<close>

datatype reserve_pc = AtLock | AtExpire | AtDay | AtHour | AtInsert | Returned "string res"

fun reserve_statement :: "int \<Rightarrow> reserve_args \<Rightarrow> reserve_pc \<times> trade_db \<Rightarrow> reserve_pc \<times> trade_db" where
  "reserve_statement now a (AtLock, db) =
    (if strip (ra_account_key a) = []
     then (Returned (raise (ValueError ''account_key is required for trade frequency reservation'')), db)
     else (AtExpire, db))"
| "reserve_statement now a (AtExpire, db) = (AtDay, expire_reservations now (strip (ra_account_key a)) db)"
| "reserve_statement now a (AtDay, db) =
    (if day_full now a db then Returned (raise (RuntimeError ''Daily trade limit reached'')) else AtHour, db)"
| "reserve_statement now a (AtHour, db) =
    (if hour_full now a db then Returned (raise (RuntimeError ''Hourly trade limit reached'')) else AtInsert, db)"
| "reserve_statement now a (AtInsert, db) = (Returned (ok (ra_reservation_id a)), insert_reservation a db)"
| "reserve_statement now a (Returned r, db) = (Returned r, db)"

text \<open>Two sessions on one database: the schedule names the session that executes next.\<close>

fun two_sessions :: "int \<Rightarrow> reserve_args \<Rightarrow> reserve_args \<Rightarrow> bool list \<Rightarrow>
    reserve_pc \<times> reserve_pc \<times> trade_db \<Rightarrow> reserve_pc \<times> reserve_pc \<times> trade_db" where
  "two_sessions now a b [] s = s"
| "two_sessions now a b (x # xs) (p, q, db) =
    (if x then let (q', db') = reserve_statement now b (q, db) in two_sessions now a b xs (p, q', db')
     else let (p', db') = reserve_statement now a (p, db) in two_sessions now a b xs (p', q, db'))"

section \<open>TradeCommandAuditFrequencyProvider\<close>

text \<open>The methods the provider looks up on the writer it is given; None where there is none. The
  two counting methods receive the account key or the account alias as keyword argument.\<close>

record 'db writer_ports =
  wp_count :: "(int \<Rightarrow> string option \<Rightarrow> string option \<Rightarrow> 'db \<Rightarrow> int res) option"
  wp_count_reservations :: "(int \<Rightarrow> int \<Rightarrow> string option \<Rightarrow> string option \<Rightarrow> 'db \<Rightarrow> int res) option"
  wp_reserve :: "(int \<Rightarrow> reserve_args \<Rightarrow> 'db \<Rightarrow> string res \<times> 'db) option"
  wp_finalize :: "(int \<Rightarrow> string \<Rightarrow> bool \<Rightarrow> 'db \<Rightarrow> 'db) option"

record local_reservation =
  lr_account_key :: string
  lr_reserved_at :: int
  lr_expires_at :: int
  lr_status :: string

record frequency_provider =
  fp_account_key :: "string option"
  fp_account_alias :: "string option"
  fp_local_reservations :: "(string \<times> local_reservation) list"

definition TradeCommandAuditFrequencyProvider :: "string option \<Rightarrow> string option \<Rightarrow> frequency_provider" where
  "TradeCommandAuditFrequencyProvider account_key account_alias =
    \<lparr>fp_account_key = some_text (opt_text account_key), fp_account_alias = some_text (opt_text account_alias),
     fp_local_reservations = []\<rparr>"

text \<open>A quota refusal is an exception of its own, a kind of RuntimeError.\<close>

datatype slot_error = TradeFrequencyQuotaExceeded string | SlotError py_error

definition prune_local_reservations :: "int \<Rightarrow> frequency_provider \<Rightarrow> frequency_provider" where
  "prune_local_reservations now pv =
    pv\<lparr>fp_local_reservations := filter (\<lambda>(_, item). now < lr_expires_at item) (fp_local_reservations pv)\<rparr>"

definition count_local_reservations_since ::
  "int \<Rightarrow> int \<Rightarrow> string option \<Rightarrow> frequency_provider \<Rightarrow> int \<times> frequency_provider" where
  "count_local_reservations_since now since account_key pv =
    (let pv' = prune_local_reservations now pv
     in (int (length (filter (\<lambda>(_, item). lr_account_key item = opt_text account_key \<and>
           since \<le> lr_reserved_at item \<and> now < lr_expires_at item) (fp_local_reservations pv'))), pv'))"

definition resolve_account_scope :: "string option \<Rightarrow> frequency_provider \<Rightarrow> string" where
  "resolve_account_scope account_key pv = opt_text (text_or account_key (fp_account_key pv))"

definition count_trades_since ::
  "'db writer_ports \<Rightarrow> int \<Rightarrow> 'db \<Rightarrow> int \<Rightarrow> string option \<Rightarrow> frequency_provider \<Rightarrow> int res \<times> frequency_provider" where
  "count_trades_since w now db since account_key pv =
    (case wp_count w of
       None \<Rightarrow> (raise (RuntimeError ''trade command audit count port is unavailable''), pv)
     | Some count_fn \<Rightarrow>
        (let resolved = resolve_account_scope account_key pv;
             key = some_text resolved;
             alias = (if resolved = [] then text_or (fp_account_alias pv) None else None)
         in if key = None \<and> alias = None
            then (raise (ValueError ''trade frequency provider requires an account scope''), pv)
            else case count_fn since key alias db of
              Inl e \<Rightarrow> (raise e, pv)
            | Inr n \<Rightarrow>
               (case wp_count_reservations w of
                  Some reservation_count_fn \<Rightarrow>
                    (rbind (reservation_count_fn now since key alias db) (\<lambda>m. ok (max 0 n + max 0 m)), pv)
                | None \<Rightarrow>
                    (let (m, pv') = count_local_reservations_since now since
                       (if resolved = [] then fp_account_key pv else Some resolved) pv
                     in (ok (max 0 n + m), pv')))))"

definition window_full ::
  "'db writer_ports \<Rightarrow> int \<Rightarrow> 'db \<Rightarrow> int \<Rightarrow> string \<Rightarrow> int option \<Rightarrow> frequency_provider \<Rightarrow> bool res \<times> frequency_provider" where
  "window_full w now db since account_key limit pv =
    (case limit of None \<Rightarrow> (ok False, pv)
     | Some m \<Rightarrow> (let (n, pv') = count_trades_since w now db since (Some account_key) pv
                in (rbind n (\<lambda>n. ok (m \<le> n)), pv')))"

definition reserve_local_trade_slot ::
  "'db writer_ports \<Rightarrow> int \<Rightarrow> 'db \<Rightarrow> reserve_args \<Rightarrow> frequency_provider \<Rightarrow> (slot_error + string) \<times> frequency_provider" where
  "reserve_local_trade_slot w now db a pv =
    (case window_full w now db (day_start (ra_at_time a)) (ra_account_key a) (ra_max_trades_per_day a)
            (prune_local_reservations now pv) of
       (Inl e, pv1) \<Rightarrow> (Inl (SlotError e), pv1)
     | (Inr True, pv1) \<Rightarrow> (Inl (TradeFrequencyQuotaExceeded ''Daily trade limit reached''), pv1)
     | (Inr False, pv1) \<Rightarrow>
        (case window_full w now db (ra_at_time a - minutes_us 60) (ra_account_key a) (ra_max_trades_per_hour a) pv1 of
           (Inl e, pv2) \<Rightarrow> (Inl (SlotError e), pv2)
         | (Inr True, pv2) \<Rightarrow> (Inl (TradeFrequencyQuotaExceeded ''Hourly trade limit reached''), pv2)
         | (Inr False, pv2) \<Rightarrow>
            (Inr (ra_reservation_id a),
             pv2\<lparr>fp_local_reservations := AList.update (ra_reservation_id a)
               \<lparr>lr_account_key = ra_account_key a, lr_reserved_at = ra_at_time a,
                lr_expires_at = ra_at_time a + minutes_us 5, lr_status = ''active''\<rparr> (fp_local_reservations pv2)\<rparr>)))"

definition reserve_trade_slot ::
  "'db writer_ports \<Rightarrow> int \<Rightarrow> reserve_args \<Rightarrow> frequency_provider \<times> 'db \<Rightarrow> (slot_error + string) \<times> frequency_provider \<times> 'db" where
  "reserve_trade_slot w now a = (\<lambda>(pv, db).
    let resolved = resolve_account_scope (Some (ra_account_key a)) pv
    in if resolved = []
       then (Inl (SlotError (ValueError ''trade frequency reservation requires account_key'')), pv, db)
       else case wp_reserve w of
         Some reserve_fn \<Rightarrow>
           (let (r, db') = reserve_fn now (a\<lparr>ra_account_key := resolved, ra_account_alias := fp_account_alias pv\<rparr>) db
            in ((case r of Inr i \<Rightarrow> Inr i
                 | Inl (RuntimeError t) \<Rightarrow> Inl (if contains_str (lower t) ''trade limit reached''
                      then TradeFrequencyQuotaExceeded t else SlotError (RuntimeError t))
                 | Inl e \<Rightarrow> Inl (SlotError e)), pv, db'))
       | None \<Rightarrow>
           (let (r, pv') = reserve_local_trade_slot w now db (a\<lparr>ra_account_key := resolved\<rparr>) pv in (r, pv', db)))"

definition finalize_trade_slot ::
  "'db writer_ports \<Rightarrow> int \<Rightarrow> string \<Rightarrow> bool \<Rightarrow> frequency_provider \<times> 'db \<Rightarrow> frequency_provider \<times> 'db" where
  "finalize_trade_slot w now reservation_id committed = (\<lambda>(pv, db).
    if strip reservation_id = [] then (pv, db)
    else case wp_finalize w of
      Some finalize_fn \<Rightarrow> (pv, finalize_fn now (strip reservation_id) committed db)
    | None \<Rightarrow>
        (case map_of (fp_local_reservations pv) (strip reservation_id) of None \<Rightarrow> (pv, db)
         | Some item \<Rightarrow>
            (pv\<lparr>fp_local_reservations :=
               (if committed
                then AList.update (strip reservation_id)
                  (item\<lparr>lr_status := ''committed'', lr_expires_at := now + 30000000\<rparr>) (fp_local_reservations pv)
                else AList.delete (strip reservation_id) (fp_local_reservations pv))\<rparr>, db)))"

text \<open>The repository as the writer's methods. Its reservation count has no parameter
  \<open>account_alias\<close>, so that keyword raises.\<close>

definition repository_ports :: "trade_db writer_ports" where
  "repository_ports =
    \<lparr>wp_count = Some (\<lambda>since key alias db. ok (count_successful_trade_commands_since since key alias db)),
     wp_count_reservations = Some (\<lambda>now since key alias db.
       case key of Some k \<Rightarrow> ok (count_trade_frequency_reservations_since now since k db)
       | None \<Rightarrow> raise (TypeError ''count_trade_frequency_reservations_since() got an unexpected keyword argument account_alias'')),
     wp_reserve = Some reserve_trade_frequency_quota,
     wp_finalize = Some finalize_trade_frequency_reservation\<rparr>"

section \<open>Runs\<close>

text \<open>What happens to the quota over time: a slot is asked for, a reservation is finalized, an
  audit row is written. The limits are the service's configuration.\<close>

datatype quota_event =
    SlotReserve int string string
  | SlotFinalize int string bool
  | AuditWrite audit_row

fun event_time :: "quota_event \<Rightarrow> int" where
  "event_time (SlotReserve now account_key i) = now"
| "event_time (SlotFinalize now i committed) = now"
| "event_time (AuditWrite a) = ar_recorded_at a"

definition slot_args :: "int option \<Rightarrow> int option \<Rightarrow> int \<Rightarrow> string \<Rightarrow> string \<Rightarrow> reserve_args" where
  "slot_args max_day max_hour now account_key i =
    \<lparr>ra_account_key = account_key, ra_account_alias = None, ra_at_time = now,
     ra_max_trades_per_day = max_day, ra_max_trades_per_hour = max_hour, ra_reservation_id = i\<rparr>"

fun slot_step :: "trade_db writer_ports \<Rightarrow> int option \<Rightarrow> int option \<Rightarrow> quota_event \<Rightarrow>
    frequency_provider \<times> trade_db \<Rightarrow> frequency_provider \<times> trade_db" where
  "slot_step w max_day max_hour (SlotReserve now account_key i) s =
    snd (reserve_trade_slot w now (slot_args max_day max_hour now account_key i) s)"
| "slot_step w max_day max_hour (SlotFinalize now i committed) s = finalize_trade_slot w now i committed s"
| "slot_step w max_day max_hour (AuditWrite a) (pv, db) = (pv, db\<lparr>td_audits := td_audits db @ [a]\<rparr>)"

text \<open>The reservations of an account that count at a time, for a window that starts at \<open>window t\<close>.\<close>

definition db_usage :: "string \<Rightarrow> (int \<Rightarrow> int) \<Rightarrow> frequency_provider \<times> trade_db \<Rightarrow> int \<Rightarrow> int" where
  "db_usage account_key window s t = count_trade_frequency_reservations_since t (window t) account_key (snd s)"

definition local_usage :: "string \<Rightarrow> (int \<Rightarrow> int) \<Rightarrow> frequency_provider \<times> 'db \<Rightarrow> int \<Rightarrow> int" where
  "local_usage account_key window s t = int (length (filter (\<lambda>(_, item).
     lr_account_key item = account_key \<and> window t \<le> lr_reserved_at item) (fp_local_reservations (fst s))))"

abbreviation hour_window :: "int \<Rightarrow> int" where
  "hour_window t \<equiv> t - minutes_us 60"

text \<open>Closed reservations no longer count.\<close>

definition closed_over :: "frequency_provider \<times> trade_db \<Rightarrow> int \<Rightarrow> bool" where
  "closed_over s t = list_all (\<lambda>r. rr_status r \<in> {''active'', ''committed''} \<or> rr_expires_at r \<le> t) (td_reservations (snd s))"

section \<open>The database\<close>

lemma length_filter_map_le:
  "(\<And>x. x \<in> set xs \<Longrightarrow> P (f x) \<Longrightarrow> Q x) \<Longrightarrow> length (filter P (map f xs)) \<le> length (filter Q xs)"
  by (induction xs) auto

lemma count_reservations_nonneg [simp]: "0 \<le> count_trade_frequency_reservations_since now since k db"
  by (simp add: count_trade_frequency_reservations_since_def)

lemma count_successful_nonneg [simp]: "0 \<le> count_successful_trade_commands_since since k n db"
  by (simp add: count_successful_trade_commands_since_def)

lemma db_usage_antimono:
  assumes "t \<le> t'" and "window t \<le> window t'"
  shows "db_usage k window s t' \<le> db_usage k window s t"
proof -
  have "length (filter (reservation_live t' k (window t')) (map (\<lambda>x. x) (td_reservations (snd s))))
      \<le> length (filter (reservation_live t k (window t)) (td_reservations (snd s)))"
    using assms by (intro length_filter_map_le) (auto simp: reservation_live_def)
  then show ?thesis by (simp add: db_usage_def count_trade_frequency_reservations_since_def)
qed

lemma live_expire:
  "now \<le> t \<Longrightarrow> length (filter (reservation_live t k since) (td_reservations (expire_reservations now key db)))
     \<le> length (filter (reservation_live t k since) (td_reservations db))"
proof -
  assume t: "now \<le> t"
  let ?f = "\<lambda>r. if rr_account_key r = key \<and> rr_status r = ''active'' \<and> rr_expires_at r \<le> now
     then r\<lparr>rr_status := ''expired'', rr_finalized_at := Some now\<rparr> else r"
  have "length (filter (reservation_live t k since) (map ?f (td_reservations db)))
      \<le> length (filter (reservation_live t k since) (td_reservations db))"
    using t by (intro length_filter_map_le) (auto simp: reservation_live_def split: if_splits)
  then show ?thesis by (simp add: expire_reservations_def)
qed

lemma audits_expire [simp]: "td_audits (expire_reservations now key db) = td_audits db"
  by (simp add: expire_reservations_def)

lemma db_usage_finalize:
  assumes "closed_over (pv, db) now" and "now \<le> t"
  shows "db_usage k window (pv, finalize_trade_frequency_reservation now i committed db) t \<le> db_usage k window (pv, db) t"
proof (cases "strip i = []")
  case False
  let ?f = "\<lambda>r. if rr_id r = strip i
       then r\<lparr>rr_status := (if committed then ''committed'' else ''released''), rr_finalized_at := Some now,
              rr_expires_at := (if committed then min (rr_expires_at r) (now + 30000000) else now)\<rparr> else r"
  have "reservation_live t k since r" if "r \<in> set (td_reservations db)" "reservation_live t k since (?f r)" for r since
    using that assms by (auto simp: reservation_live_def closed_over_def list_all_iff split: if_splits)
  then have "length (filter (reservation_live t k since) (map ?f (td_reservations db)))
      \<le> length (filter (reservation_live t k since) (td_reservations db))" for since
    by (rule length_filter_map_le)
  with False show ?thesis
    by (simp add: db_usage_def count_trade_frequency_reservations_since_def finalize_trade_frequency_reservation_def)
qed (simp add: finalize_trade_frequency_reservation_def)

lemma db_usage_reserve:
  assumes "reserve_trade_frequency_quota now a db = (r, db')" and at: "ra_at_time a = now" and "now \<le> t"
  shows "(\<forall>window. db_usage k window (pv, db') t \<le> db_usage k window (pv, db) t) \<or>
    (\<exists>i. r = ok i) \<and> k = strip (ra_account_key a) \<and>
      (\<forall>m. ra_max_trades_per_hour a = Some m \<longrightarrow> count_frequency_window_locked now k (hour_window now) db' \<le> m) \<and>
      (\<forall>m. ra_max_trades_per_day a = Some m \<longrightarrow> count_frequency_window_locked now k (day_start now) db' \<le> m)"
proof -
  let ?key = "strip (ra_account_key a)"
  let ?db1 = "expire_reservations now ?key db"
  have expired: "db_usage k window (pv, ?db1) t \<le> db_usage k window (pv, db) t" for window
    using live_expire [OF assms(3)]
    by (simp add: db_usage_def count_trade_frequency_reservations_since_def)
  have inserted: "db_usage k window (pv, insert_reservation a ?db1) t = db_usage k window (pv, ?db1) t" if "k \<noteq> ?key" for window
    using that by (simp add: db_usage_def count_trade_frequency_reservations_since_def insert_reservation_def reservation_live_def)
  have more: "count_frequency_window_locked now ?key since (insert_reservation a ?db1) \<le>
      count_frequency_window_locked now ?key since ?db1 + 1" for since
    by (simp add: count_frequency_window_locked_def count_trade_frequency_reservations_since_def
        count_successful_trade_commands_since_def insert_reservation_def)
  consider "db' = db" | "db' = ?db1" | "r = ok (ra_reservation_id a)" "db' = insert_reservation a ?db1"
      "\<not> day_full now a ?db1" "\<not> hour_full now a ?db1"
    using assms(1) by (auto simp: reserve_trade_frequency_quota_def Let_def split: if_splits)
  then show ?thesis
  proof cases
    case 3
    show ?thesis
    proof (cases "k = ?key")
      case True
      then show ?thesis using 3 at more [of "hour_window now"] more [of "day_start now"]
        by (auto simp: day_full_def hour_full_def)
    next
      case False
      then show ?thesis using 3 inserted expired by simp
    qed
  qed (use expired in auto)
qed

lemma db_step_quota:
  assumes "closed_over s (event_time e)" and "event_time e \<le> t"
  shows "(\<forall>window. db_usage k window (slot_step repository_ports md mh e s) t \<le> db_usage k window s t) \<or>
    (\<forall>m. mh = Some m \<longrightarrow> db_usage k hour_window (slot_step repository_ports md mh e s) (event_time e) \<le> m) \<and>
    (\<forall>m. md = Some m \<longrightarrow> db_usage k day_start (slot_step repository_ports md mh e s) (event_time e) \<le> m)"
proof -
  obtain pv db where s: "s = (pv, db)" by (cases s)
  show ?thesis
  proof (cases e)
    case (SlotReserve now key i)
    let ?a = "slot_args md mh now key i"
    let ?a' = "?a\<lparr>ra_account_key := resolve_account_scope (Some key) pv, ra_account_alias := fp_account_alias pv\<rparr>"
    obtain r db' where r: "reserve_trade_frequency_quota now ?a' db = (r, db')" by (cases "reserve_trade_frequency_quota now ?a' db")
    have step: "slot_step repository_ports md mh e s =
        (pv, if resolve_account_scope (Some key) pv = [] then db else db')"
      using r by (simp add: s SlotReserve reserve_trade_slot_def repository_ports_def slot_args_def Let_def split: prod.splits)
    have le: "db_usage k window (pv, db') now \<le> count_frequency_window_locked now k (window now) db'" for window
      by (simp add: db_usage_def count_frequency_window_locked_def)
    show ?thesis
      unfolding step
      using db_usage_reserve [OF r, of t k pv] assms(2) le [of hour_window] le [of day_start]
      by (auto simp: SlotReserve s slot_args_def)
  next
    case (SlotFinalize now i c)
    then show ?thesis using db_usage_finalize [of pv db now t k _ "strip i" c] assms
      by (auto simp: s finalize_trade_slot_def repository_ports_def)
  next
    case (AuditWrite a)
    then show ?thesis by (simp add: s db_usage_def count_trade_frequency_reservations_since_def)
  qed
qed

lemma closed_over_mono: "closed_over s t \<Longrightarrow> t \<le> t' \<Longrightarrow> closed_over s t'"
  by (auto simp: closed_over_def list_all_iff)

lemma closed_over_reserve:
  "closed_over (pv, db) now \<Longrightarrow> closed_over (pv', snd (reserve_trade_frequency_quota now a db)) now"
  by (auto simp: reserve_trade_frequency_quota_def closed_over_def expire_reservations_def
      insert_reservation_def Let_def list_all_iff)

lemma closed_over_finalize:
  "closed_over (pv, db) now \<Longrightarrow> closed_over (pv', finalize_trade_frequency_reservation now i c db) now"
  by (auto simp: finalize_trade_frequency_reservation_def closed_over_def list_all_iff)

lemma closed_over_step:
  "closed_over s (event_time e) \<Longrightarrow> closed_over (slot_step repository_ports md mh e s) (event_time e)"
proof (cases s; cases e)
  fix pv db now key i
  assume "closed_over s (event_time e)" "s = (pv, db)" "e = SlotReserve now key i"
  then show ?thesis using closed_over_reserve [of pv db now pv]
    by (simp add: reserve_trade_slot_def repository_ports_def Let_def split: prod.splits) (metis snd_conv)
next
  fix pv db now i c
  assume "closed_over s (event_time e)" "s = (pv, db)" "e = SlotFinalize now i c"
  then show ?thesis by (simp add: finalize_trade_slot_def repository_ports_def closed_over_finalize)
qed (simp add: closed_over_def)

interpretation db_hour: windowed_quota "slot_step repository_ports md (Some m)" event_time
  "db_usage k hour_window" closed_over m for md m k
proof unfold_locales
  fix s e t
  assume "closed_over s (event_time e)" "event_time e \<le> t"
  from db_step_quota [OF this, of k md "Some m"]
  show "db_usage k hour_window (slot_step repository_ports md (Some m) e s) t \<le> db_usage k hour_window s t \<or>
    db_usage k hour_window (slot_step repository_ports md (Some m) e s) (event_time e) \<le> m" by blast
qed (auto simp: closed_over_step db_usage_antimono intro: closed_over_mono)

interpretation db_day: windowed_quota "slot_step repository_ports (Some m) mh" event_time
  "db_usage k day_start" closed_over m for mh m k
proof unfold_locales
  fix s e t
  assume "closed_over s (event_time e)" "event_time e \<le> t"
  from db_step_quota [OF this, of k "Some m" mh]
  show "db_usage k day_start (slot_step repository_ports (Some m) mh e s) t \<le> db_usage k day_start s t \<or>
    db_usage k day_start (slot_step repository_ports (Some m) mh e s) (event_time e) \<le> m" by blast
qed (auto simp: closed_over_step db_usage_antimono day_start_mono intro: closed_over_mono)

section \<open>The in-process fallback\<close>

text \<open>A writer that counts audited trades and has none of the reservation methods.\<close>

definition audit_only_ports :: "trade_db writer_ports" where
  "audit_only_ports = repository_ports\<lparr>wp_count_reservations := None, wp_reserve := None, wp_finalize := None\<rparr>"

lemma length_filter_update:
  "length (filter P (AList.update k v xs)) \<le> length (filter P xs) + (if P (k, v) then 1 else 0)"
  by (induction xs) auto

lemma length_filter_update_existing:
  "map_of xs k = Some v \<Longrightarrow> (P (k, v') \<Longrightarrow> P (k, v)) \<Longrightarrow>
    length (filter P (AList.update k v' xs)) \<le> length (filter P xs)"
  by (induction xs) (auto split: if_splits)

lemma length_filter_delete: "length (filter P (AList.delete k xs)) \<le> length (filter P xs)"
  by (induction xs) auto

lemma local_usage_antimono:
  assumes "window t \<le> window t'"
  shows "local_usage k window s t' \<le> local_usage k window s t"
proof -
  let ?xs = "fp_local_reservations (fst s)"
  have "length (filter (\<lambda>(_, item). lr_account_key item = k \<and> window t' \<le> lr_reserved_at item) (map (\<lambda>x. x) ?xs))
      \<le> length (filter (\<lambda>(_, item). lr_account_key item = k \<and> window t \<le> lr_reserved_at item) ?xs)"
    using assms by (intro length_filter_map_le) auto
  then show ?thesis by (simp add: local_usage_def)
qed

lemma prune_idem [simp]: "prune_local_reservations now (prune_local_reservations now pv) = prune_local_reservations now pv"
  by (simp add: prune_local_reservations_def)

lemma length_filter_filter_le: "length (filter P (filter Q xs)) \<le> length (filter P xs)"
  by (induction xs) auto

lemma local_usage_prune: "local_usage k window (prune_local_reservations now pv, db') t \<le> local_usage k window (pv, db) t"
  using length_filter_filter_le [of _ "\<lambda>(_, item). now < lr_expires_at item" "fp_local_reservations pv"]
  by (simp add: local_usage_def prune_local_reservations_def del: filter_filter)

lemma count_trades_local:
  assumes "strip key = key" "key \<noteq> []"
  shows "count_trades_since audit_only_ports now db since (Some key) pv =
    (ok (count_successful_trade_commands_since since (Some key) None db +
         local_usage key (\<lambda>_. since) (prune_local_reservations now pv, db) now), prune_local_reservations now pv)"
proof -
  have "filter (\<lambda>(_, item). lr_account_key item = key \<and> since \<le> lr_reserved_at item \<and> now < lr_expires_at item)
      (fp_local_reservations (prune_local_reservations now pv)) =
    filter (\<lambda>(_, item). lr_account_key item = key \<and> since \<le> lr_reserved_at item)
      (fp_local_reservations (prune_local_reservations now pv))"
    by (rule filter_cong) (auto simp: prune_local_reservations_def)
  then show ?thesis using assms
    by (simp add: count_trades_since_def audit_only_ports_def repository_ports_def resolve_account_scope_def
        text_or_def some_text_def count_local_reservations_since_def local_usage_def Let_def)
qed

lemma window_full_local:
  assumes "strip key = key" "key \<noteq> []"
  shows "window_full audit_only_ports now db since key limit pv =
    (ok (case limit of None \<Rightarrow> False | Some m \<Rightarrow> m \<le> count_successful_trade_commands_since since (Some key) None db +
         local_usage key (\<lambda>_. since) (prune_local_reservations now pv, db) now),
     case limit of None \<Rightarrow> pv | Some _ \<Rightarrow> prune_local_reservations now pv)"
  using count_trades_local [OF assms] by (simp add: window_full_def split: option.splits)

lemma local_usage_add:
  "local_usage k window (pv\<lparr>fp_local_reservations := AList.update i item (fp_local_reservations pv)\<rparr>, db) t \<le>
    local_usage k window (pv, db) t + (if lr_account_key item = k \<and> window t \<le> lr_reserved_at item then 1 else 0)"
  using length_filter_update [of "\<lambda>(_, item). lr_account_key item = k \<and> window t \<le> lr_reserved_at item" i item
      "fp_local_reservations pv"]
  by (auto simp: local_usage_def split: if_splits)

lemma local_usage_const: "local_usage k (\<lambda>_. window t) (pv, db) u = local_usage k window (pv, db') t"
  by (simp add: local_usage_def)

lemma local_reserve_cases:
  assumes "strip (ra_account_key a) = ra_account_key a" "ra_account_key a \<noteq> []" "ra_at_time a = now"
  obtains r where "reserve_local_trade_slot audit_only_ports now db a pv = (Inl r, prune_local_reservations now pv)"
  | item where "reserve_local_trade_slot audit_only_ports now db a pv = (Inr (ra_reservation_id a),
        (prune_local_reservations now pv)\<lparr>fp_local_reservations := AList.update (ra_reservation_id a) item
          (fp_local_reservations (prune_local_reservations now pv))\<rparr>)"
      "lr_account_key item = ra_account_key a"
      "\<And>m. ra_max_trades_per_day a = Some m \<Longrightarrow> local_usage (ra_account_key a) day_start (prune_local_reservations now pv, db) now < m"
      "\<And>m. ra_max_trades_per_hour a = Some m \<Longrightarrow> local_usage (ra_account_key a) hour_window (prune_local_reservations now pv, db) now < m"
proof -
  let ?pv = "prune_local_reservations now pv"
  let ?key = "ra_account_key a"
  let ?item = "\<lparr>lr_account_key = ?key, lr_reserved_at = ra_at_time a, lr_expires_at = ra_at_time a + minutes_us 5, lr_status = ''active''\<rparr>"
  let ?day = "case ra_max_trades_per_day a of None \<Rightarrow> False | Some m \<Rightarrow> m \<le> count_successful_trade_commands_since (day_start now) (Some ?key) None db +
         local_usage ?key (\<lambda>_. day_start now) (?pv, db) now"
  let ?hour = "case ra_max_trades_per_hour a of None \<Rightarrow> False | Some m \<Rightarrow> m \<le> count_successful_trade_commands_since (hour_window now) (Some ?key) None db +
         local_usage ?key (\<lambda>_. hour_window now) (?pv, db) now"
  have eq: "reserve_local_trade_slot audit_only_ports now db a pv =
      (if ?day then (Inl (TradeFrequencyQuotaExceeded ''Daily trade limit reached''), ?pv)
       else if ?hour then (Inl (TradeFrequencyQuotaExceeded ''Hourly trade limit reached''), ?pv)
       else (Inr (ra_reservation_id a), ?pv\<lparr>fp_local_reservations := AList.update (ra_reservation_id a) ?item (fp_local_reservations ?pv)\<rparr>))"
    unfolding reserve_local_trade_slot_def window_full_local [OF assms(1,2)] assms(3)
    by (cases "ra_max_trades_per_day a"; cases "ra_max_trades_per_hour a") simp_all
  show thesis
  proof (cases "?day \<or> ?hour")
    case True
    then show thesis using that(1) eq by fastforce
  next
    case False
    have w: "local_usage ?key (\<lambda>_. day_start now) (?pv, db) now = local_usage ?key day_start (?pv, db) now"
      "local_usage ?key (\<lambda>_. hour_window now) (?pv, db) now = local_usage ?key hour_window (?pv, db) now"
      by (rule local_usage_const)+
    have lt: "local_usage ?key day_start (?pv, db) now < m" if "ra_max_trades_per_day a = Some m" for m
    proof -
      have "\<not> m \<le> count_successful_trade_commands_since (day_start now) (Some ?key) None db + local_usage ?key day_start (?pv, db) now"
        using False that by (simp add: w)
      then show ?thesis using count_successful_nonneg [of "day_start now" "Some ?key" None db] by linarith
    qed
    have lt': "local_usage ?key hour_window (?pv, db) now < m" if "ra_max_trades_per_hour a = Some m" for m
    proof -
      have "\<not> m \<le> count_successful_trade_commands_since (hour_window now) (Some ?key) None db + local_usage ?key hour_window (?pv, db) now"
        using False that by (simp add: w)
      then show ?thesis using count_successful_nonneg [of "hour_window now" "Some ?key" None db] by linarith
    qed
    show thesis by (rule that(2) [OF _ _ lt lt', of ?item]) (use eq False in auto)
  qed
qed

lemma local_usage_reserve:
  assumes a: "strip (ra_account_key a) = ra_account_key a" "ra_account_key a \<noteq> []" "ra_at_time a = now"
    and r: "reserve_local_trade_slot audit_only_ports now db a pv = (r, pv')"
  shows "(\<forall>window. local_usage k window (pv', db) t \<le> local_usage k window (pv, db) t) \<or>
    (\<forall>m. ra_max_trades_per_hour a = Some m \<longrightarrow> local_usage k hour_window (pv', db) now \<le> m) \<and>
    (\<forall>m. ra_max_trades_per_day a = Some m \<longrightarrow> local_usage k day_start (pv', db) now \<le> m)"
proof (rule local_reserve_cases [OF a, of db pv])
  fix e assume "reserve_local_trade_slot audit_only_ports now db a pv = (Inl e, prune_local_reservations now pv)"
  then show ?thesis using r by (simp add: local_usage_prune)
next
  let ?pv = "prune_local_reservations now pv"
  fix item
  assume granted: "reserve_local_trade_slot audit_only_ports now db a pv = (Inr (ra_reservation_id a),
      ?pv\<lparr>fp_local_reservations := AList.update (ra_reservation_id a) item (fp_local_reservations ?pv)\<rparr>)"
    and item: "lr_account_key item = ra_account_key a"
    and day: "\<And>m. ra_max_trades_per_day a = Some m \<Longrightarrow> local_usage (ra_account_key a) day_start (?pv, db) now < m"
    and hour: "\<And>m. ra_max_trades_per_hour a = Some m \<Longrightarrow> local_usage (ra_account_key a) hour_window (?pv, db) now < m"
  have add: "local_usage k window (pv', db) u \<le> local_usage k window (?pv, db) u + (if k = ra_account_key a then 1 else 0)" for window u
    using local_usage_add [where pv = ?pv and i = "ra_reservation_id a" and item = item and k = k and window = window and db = db and t = u]
      item granted r by (auto split: if_splits)
  show ?thesis
  proof (cases "k = ra_account_key a")
    case True
    then show ?thesis using add [of hour_window now] add [of day_start now] day hour by force
  next
    case False
    have "local_usage k window (pv', db) t \<le> local_usage k window (pv, db) t" for window
      using add [of window t] local_usage_prune [of k window now pv db t db] False by simp
    then show ?thesis by blast
  qed
qed

lemma local_step_quota:
  "(\<forall>window. local_usage k window (slot_step audit_only_ports md mh e s) t \<le> local_usage k window s t) \<or>
    (\<forall>m. mh = Some m \<longrightarrow> local_usage k hour_window (slot_step audit_only_ports md mh e s) (event_time e) \<le> m) \<and>
    (\<forall>m. md = Some m \<longrightarrow> local_usage k day_start (slot_step audit_only_ports md mh e s) (event_time e) \<le> m)"
proof -
  obtain pv db where s: "s = (pv, db)" by (cases s)
  show ?thesis
  proof (cases e)
    case (SlotReserve now key i)
    let ?key = "resolve_account_scope (Some key) pv"
    let ?a = "(slot_args md mh now key i)\<lparr>ra_account_key := ?key\<rparr>"
    obtain r pv' where r: "reserve_local_trade_slot audit_only_ports now db ?a pv = (r, pv')"
      by (cases "reserve_local_trade_slot audit_only_ports now db ?a pv")
    have step: "slot_step audit_only_ports md mh e s = (if ?key = [] then (pv, db) else (pv', db))"
      using r by (simp add: s SlotReserve reserve_trade_slot_def audit_only_ports_def slot_args_def Let_def split: prod.splits)
    show ?thesis
    proof (cases "?key = []")
      case True
      then show ?thesis unfolding step by (simp add: s)
    next
      case False
      then have "strip (ra_account_key ?a) = ra_account_key ?a" "ra_account_key ?a \<noteq> []" "ra_at_time ?a = now"
        by (simp_all add: resolve_account_scope_def slot_args_def)
      from local_usage_reserve [OF this r, of k t] False show ?thesis
        unfolding step by (simp add: s SlotReserve slot_args_def)
    qed
  next
    case (SlotFinalize now i c)
    then show ?thesis
      by (auto simp: s finalize_trade_slot_def audit_only_ports_def local_usage_def
          intro!: length_filter_update_existing length_filter_delete split: option.splits)
  next
    case (AuditWrite a)
    then show ?thesis by (simp add: s local_usage_def)
  qed
qed

interpretation local_hour: windowed_quota "slot_step audit_only_ports md (Some m)" event_time
  "local_usage k hour_window" "\<lambda>_ _. True" m for md m k
proof unfold_locales
  fix s e t
  from local_step_quota [of k md "Some m" e s t]
  show "local_usage k hour_window (slot_step audit_only_ports md (Some m) e s) t \<le> local_usage k hour_window s t \<or>
    local_usage k hour_window (slot_step audit_only_ports md (Some m) e s) (event_time e) \<le> m" by blast
qed (auto simp: local_usage_antimono)

interpretation local_day: windowed_quota "slot_step audit_only_ports (Some m) mh" event_time
  "local_usage k day_start" "\<lambda>_ _. True" m for mh m k
proof unfold_locales
  fix s e t
  from local_step_quota [of k "Some m" mh e s t]
  show "local_usage k day_start (slot_step audit_only_ports (Some m) mh e s) t \<le> local_usage k day_start s t \<or>
    local_usage k day_start (slot_step audit_only_ports (Some m) mh e s) (event_time e) \<le> m" by blast
qed (auto simp: local_usage_antimono day_start_mono)

section \<open>Statements and sessions\<close>

lemma live_expire_now:
  "filter (reservation_live now k since) (td_reservations (expire_reservations now key db)) =
    filter (reservation_live now k since) (td_reservations db)"
proof -
  have "filter (reservation_live now k since) (map (\<lambda>r.
      if rr_account_key r = key \<and> rr_status r = ''active'' \<and> rr_expires_at r \<le> now
      then r\<lparr>rr_status := ''expired'', rr_finalized_at := Some now\<rparr> else r) rs) =
    filter (reservation_live now k since) rs" for rs
    by (induction rs) (auto simp: reservation_live_def)
  then show ?thesis by (simp add: expire_reservations_def del: filter_map)
qed

lemma window_expire [simp]:
  "count_frequency_window_locked now k since (expire_reservations now key db) = count_frequency_window_locked now k since db"
  by (simp add: count_frequency_window_locked_def count_successful_trade_commands_since_def
      count_trade_frequency_reservations_since_def live_expire_now)

lemma window_insert:
  "ra_at_time a = now \<Longrightarrow> since \<le> now \<Longrightarrow>
    count_frequency_window_locked now (strip (ra_account_key a)) since (insert_reservation a db) =
    count_frequency_window_locked now (strip (ra_account_key a)) since db + 1"
  by (simp add: count_frequency_window_locked_def count_successful_trade_commands_since_def
      count_trade_frequency_reservations_since_def insert_reservation_def reservation_live_def minutes_us_def)

lemma statements_alone:
  "(reserve_statement now a ^^ 5) (AtLock, db) =
    (Returned (fst (reserve_trade_frequency_quota now a db)), snd (reserve_trade_frequency_quota now a db))"
  by (simp add: eval_nat_numeral reserve_trade_frequency_quota_def Let_def)

section \<open>Properties\<close>

text \<open>The trade quota holds at all times when calls do not overlap. Whatever slots are asked
  for, by whatever accounts, whichever reservations are committed or released and whatever audits
  are written, in the order of their times: the reservations of an account that count at a later
  time are at most the configured number in the last hour and at most the configured number in
  the UTC day, both in the database and in the in-process fallback.\<close>

theorem frequency_quota_invariant:
  assumes "sorted (t0 # map event_time es)" and "\<forall>e \<in> set es. event_time e \<le> t" and "t0 \<le> t"
    and "td_reservations db = []" and "fp_local_reservations pv = []" and "0 \<le> per_day" and "0 \<le> per_hour"
  shows "db_usage k hour_window (fold (slot_step repository_ports (Some per_day) (Some per_hour)) es (pv, db)) t \<le> per_hour \<and>
    db_usage k day_start (fold (slot_step repository_ports (Some per_day) (Some per_hour)) es (pv, db)) t \<le> per_day \<and>
    local_usage k hour_window (fold (slot_step audit_only_ports (Some per_day) (Some per_hour)) es (pv, db)) t \<le> per_hour \<and>
    local_usage k day_start (fold (slot_step audit_only_ports (Some per_day) (Some per_hour)) es (pv, db)) t \<le> per_day"
proof -
  have db: "closed_over (pv, db) t0" "db_usage k window (pv, db) t0 = 0" for window
    using assms(4) by (simp_all add: closed_over_def db_usage_def count_trade_frequency_reservations_since_def)
  have loc: "local_usage k window (pv, db) t0 = 0" for window
    using assms(5) by (simp add: local_usage_def)
  show ?thesis
    using db_hour.quota_run [OF db(1) _ assms(1,2,3)] db_day.quota_run [OF db(1) _ assms(1,2,3)]
      local_hour.quota_run [OF _ _ assms(1,2,3)] local_day.quota_run [OF _ _ assms(1,2,3)]
      db(2) loc assms(6,7) by simp
qed

text \<open>C40: Overlapping reservations exceed the quota. With one slot left in the hour, two sessions
  that execute their statements in turn are both granted a reservation, and the window then holds
  one more than the limit; the same two calls one after the other are granted and refused. The
  advisory lock is taken on a connection that commits each statement, so it protects nothing.\<close>

theorem overlapping_reservations_exceed_limit:
  assumes "strip (ra_account_key a) \<noteq> []" and "ra_at_time a = now"
    and "ra_max_trades_per_day a = None" and "ra_max_trades_per_hour a = Some m"
    and "count_frequency_window_locked now (strip (ra_account_key a)) (hour_window now) db = m - 1"
  shows "(\<exists>db'. two_sessions now a (a\<lparr>ra_reservation_id := j\<rparr>)
      [False, True, False, True, False, True, False, True, False, True] (AtLock, AtLock, db) =
        (Returned (ok (ra_reservation_id a)), Returned (ok j), db') \<and>
      count_frequency_window_locked now (strip (ra_account_key a)) (hour_window now) db' = m + 1) \<and>
    fst (reserve_trade_frequency_quota now a db) = ok (ra_reservation_id a) \<and>
    fst (reserve_trade_frequency_quota now (a\<lparr>ra_reservation_id := j\<rparr>) (snd (reserve_trade_frequency_quota now a db))) =
      raise (RuntimeError ''Hourly trade limit reached'')"
proof -
  let ?b = "a\<lparr>ra_reservation_id := j\<rparr>"
  have h: "hour_window now \<le> now" by (simp add: minutes_us_def)
  note more = window_insert [OF assms(2) h] window_insert [of ?b, OF _ h]
  show ?thesis using assms more
    by (simp add: reserve_trade_frequency_quota_def day_full_def hour_full_def Let_def)
qed

text \<open>A provider that knows its account only by alias cannot count trades in the repository:
  every count raises, because the reservation count has no parameter for the alias, and every
  reservation is refused for want of an account key.\<close>

theorem alias_scope_cannot_count:
  assumes "pv = TradeCommandAuditFrequencyProvider None (Some alias)" and "strip alias \<noteq> []"
  shows "(\<exists>t. fst (count_trades_since repository_ports now db since None pv) = raise (TypeError t)) \<and>
    fst (reserve_trade_slot repository_ports now (slot_args md mh now [] i) (pv, db)) =
      Inl (SlotError (ValueError ''trade frequency reservation requires account_key''))"
  using assms
  by (simp add: TradeCommandAuditFrequencyProvider_def count_trades_since_def repository_ports_def reserve_trade_slot_def
      resolve_account_scope_def text_or_def some_text_def slot_args_def Let_def)

section \<open>Witnesses\<close>

definition slot_provider_example :: frequency_provider where
  "slot_provider_example = TradeCommandAuditFrequencyProvider (Some ''live:1'') None"

definition trade_db_empty :: trade_db where
  "trade_db_empty = \<lparr>td_audits = [], td_reservations = []\<rparr>"

theorem frequency_quota_invariant_witness:
  "db_usage ''live:1'' hour_window (fold (slot_step repository_ports (Some 5) (Some 1))
     [SlotReserve 7200000000 ''live:1'' ''r1'', SlotReserve 7200000001 ''live:1'' ''r2'', SlotFinalize 7200000002 ''r1'' True]
     (slot_provider_example, trade_db_empty)) 7200000003 \<le> 1"
  using frequency_quota_invariant [of 0 "[SlotReserve 7200000000 ''live:1'' ''r1'', SlotReserve 7200000001 ''live:1'' ''r2'',
      SlotFinalize 7200000002 ''r1'' True]" 7200000003 trade_db_empty slot_provider_example 5 1 "''live:1''"]
  by (simp add: trade_db_empty_def slot_provider_example_def TradeCommandAuditFrequencyProvider_def)

theorem overlapping_reservations_exceed_limit_witness:
  "fst (reserve_trade_frequency_quota 7200000000 (slot_args None (Some 1) 7200000000 ''live:1'' ''r1'') trade_db_empty) = ok ''r1''"
  using overlapping_reservations_exceed_limit
    [of "slot_args None (Some 1) 7200000000 ''live:1'' ''r1''" 7200000000 1 trade_db_empty "''r2''"]
  by (simp add: slot_args_def trade_db_empty_def count_frequency_window_locked_def str_eval
      count_successful_trade_commands_since_def count_trade_frequency_reservations_since_def)

theorem alias_scope_cannot_count_witness:
  "\<exists>t. fst (count_trades_since repository_ports 0 trade_db_empty 0 None
     (TradeCommandAuditFrequencyProvider None (Some ''demo''))) = raise (TypeError t)"
  using alias_scope_cannot_count [of _ "''demo''" 0 trade_db_empty 0 None None "[]"] by (simp add: str_eval)

end
