(* ===== verification/Risk_Service.thy ===== *)
theory Risk_Service
  imports Risk_Spec Trade_Frequency
begin

text \<open>
  Risk profiles (\<open>risk/profiles.py\<close>, the profile part of \<open>config/models/runtime.py\<close>) and the
  pre-trade risk service (\<open>risk/service.py\<close>), the last gate before an order: it builds the
  intent, resolves the profile, runs the rules the profile enables in their order, and, when
  nothing blocks, reserves a slot of the trade quota. The frequency provider is a state of its
  own with the methods the service calls; the service reads it through answers and changes it
  only by reserving and finalizing. Log messages are left out.
\<close>

section \<open>Profiles\<close>

definition standard_kline_pre_trade_rules :: "string list" where
  "standard_kline_pre_trade_rules = [''account_snapshot'', ''daily_loss_limit'', ''margin_availability'',
     ''trade_frequency'', ''protection'', ''session_window'', ''market_structure'', ''economic_event'', ''calendar_health'']"

definition recovery_budgeted_pre_trade_rules :: "string list" where
  "recovery_budgeted_pre_trade_rules = [''account_snapshot'', ''daily_loss_limit'', ''margin_availability'',
     ''protection'', ''session_window'', ''economic_event'', ''calendar_health'']"

text \<open>Construction of a profile: rules not given default by policy, and the frequency flag has to
  agree with them.\<close>

definition RiskProfileConfig :: "string \<Rightarrow> bool \<Rightarrow> string list option \<Rightarrow> risk_profile_config res" where
  "RiskProfileConfig policy frequency_enabled rules =
    (let rs = (case rules of Some rs \<Rightarrow> rs
               | None \<Rightarrow> if strip policy = ''recovery_budgeted'' then recovery_budgeted_pre_trade_rules
                         else standard_kline_pre_trade_rules)
     in if frequency_enabled \<noteq> (''trade_frequency'' \<in> set rs)
        then raise (ValueError ''trade_frequency_enabled must match pre_trade_rules'')
        else ok \<lparr>pc_policy = policy, pc_trade_frequency_enabled = frequency_enabled, pc_pre_trade_rules = rs,
          pc_max_daily_recovery_loss_amount = None, pc_max_rolling_recovery_loss_amount = None,
          pc_rolling_loss_window_minutes = 60, pc_max_consecutive_loss_cycles = 0, pc_loss_lockout_minutes = 0\<rparr>)"

definition default_risk_profiles :: "(string \<times> risk_profile_config) list res" where
  "default_risk_profiles =
    rbind (RiskProfileConfig ''standard_kline'' True (Some standard_kline_pre_trade_rules)) (\<lambda>s.
    rbind (RiskProfileConfig ''recovery_budgeted'' False (Some recovery_budgeted_pre_trade_rules)) (\<lambda>r.
    ok [(''standard_kline'', s), (''recovery_budgeted'', r)]))"

record profile_selection =
  sl_name :: string
  sl_config :: risk_profile_config
  sl_source :: string

definition trade_frequency_selected :: "profile_selection \<Rightarrow> bool" where
  "trade_frequency_selected p = (''trade_frequency'' \<in> set (pc_pre_trade_rules (sl_config p)))"

definition enables_rule :: "profile_selection \<Rightarrow> string \<Rightarrow> bool" where
  "enables_rule p rule_name = (strip rule_name \<in> set (pc_pre_trade_rules (sl_config p)))"

definition selection_to_dict :: "profile_selection \<Rightarrow> pydict" where
  "selection_to_dict p =
    [(''name'', VStr (sl_name p)), (''policy'', VStr (pc_policy (sl_config p))),
     (''trade_frequency_enabled'', VBool (trade_frequency_selected p)),
     (''pre_trade_rules'', VList (map VStr (pc_pre_trade_rules (sl_config p)))), (''source'', VStr (sl_source p))]"

text \<open>A resolution error carries its message.\<close>

definition select_risk_profile :: "risk_config \<Rightarrow> string \<Rightarrow> string \<Rightarrow> string + profile_selection" where
  "select_risk_profile s name source =
    (let normalized = strip name
     in if normalized = [] then Inl ''risk_profile_required''
        else case map_of (rs_risk_profiles s) normalized of
          None \<Rightarrow> Inl (''unknown_risk_profile:'' @ normalized)
        | Some config \<Rightarrow> Inr \<lparr>sl_name = normalized, sl_config = config, sl_source = source\<rparr>)"

definition meta_text :: "pydict \<Rightarrow> string \<Rightarrow> string" where
  "meta_text metadata k = strip (str_or_empty (dget metadata k))"

definition bound_profile :: "risk_config \<Rightarrow> string \<Rightarrow> string" where
  "bound_profile s strategy = (case map_of (rs_risk_profile_bindings s) strategy of None \<Rightarrow> [] | Some b \<Rightarrow> strip b)"

definition resolve_profile :: "risk_config \<Rightarrow> trade_intent \<Rightarrow> string + profile_selection" where
  "resolve_profile s t =
    (let explicit = meta_text (ti_metadata t) ''risk_profile''; strategy = meta_text (ti_metadata t) ''strategy''
     in if explicit \<noteq> [] then select_risk_profile s explicit ''intent_metadata''
        else if strategy \<noteq> [] \<and> bound_profile s strategy \<noteq> []
        then select_risk_profile s (bound_profile s strategy) ''strategy_binding''
        else select_risk_profile s ''standard_kline'' ''default'')"

definition recovery_selection :: "risk_config \<Rightarrow> string \<Rightarrow> string + profile_selection" where
  "recovery_selection s name =
    (case select_risk_profile s name ''recovery_runner'' of
       Inl e \<Rightarrow> Inl e
     | Inr p \<Rightarrow> if pc_policy (sl_config p) \<noteq> ''recovery_budgeted''
                then Inl (''risk_profile_policy_mismatch:'' @ sl_name p @ '':'' @ pc_policy (sl_config p)) else Inr p)"

definition resolve_recovery_budget_profile_settings :: "risk_config \<Rightarrow> string \<Rightarrow> string + pydict" where
  "resolve_recovery_budget_profile_settings s name =
    (case recovery_selection s name of
       Inl e \<Rightarrow> Inl e
     | Inr p \<Rightarrow>
        (let c = sl_config p; amount = (\<lambda>x. VFloat (case x of None \<Rightarrow> 0 | Some v \<Rightarrow> v))
         in Inr [(''risk_profile'', VStr (sl_name p)),
              (''max_daily_recovery_loss_amount'', amount (pc_max_daily_recovery_loss_amount c)),
              (''max_rolling_recovery_loss_amount'', amount (pc_max_rolling_recovery_loss_amount c)),
              (''rolling_loss_window_minutes'', VInt (pc_rolling_loss_window_minutes c)),
              (''max_consecutive_loss_cycles'', VInt (pc_max_consecutive_loss_cycles c)),
              (''loss_lockout_minutes'', VInt (pc_loss_lockout_minutes c))]))"

definition resolve_recovery_risk_profile_contract :: "risk_config \<Rightarrow> string \<Rightarrow> string + pydict" where
  "resolve_recovery_risk_profile_contract s name =
    (case recovery_selection s name of Inl e \<Rightarrow> Inl e | Inr p \<Rightarrow> Inr (selection_to_dict p))"

definition validate_strategy_risk_profile_binding :: "risk_config \<Rightarrow> string \<Rightarrow> string \<Rightarrow> string + unit" where
  "validate_strategy_risk_profile_binding s strategy name =
    (let strategy_name = strip strategy; expected = strip name; bound = bound_profile s strategy_name
     in if strategy_name = [] \<or> expected = [] then Inr ()
        else if bound = [] \<or> bound = expected then Inr ()
        else Inl (''risk_profile_binding_mismatch:'' @ strategy_name @ '':bound='' @ bound @ '':runner='' @ expected))"

section \<open>The service\<close>

record 'p frequency_port =
  fq_count_trades_since :: "'p \<Rightarrow> datetime \<Rightarrow> string option \<Rightarrow> int res"
  fq_reserve_trade_slot :: "('p \<Rightarrow> string \<Rightarrow> datetime \<Rightarrow> int option \<Rightarrow> int option \<Rightarrow> (slot_error + string) \<times> 'p) option"
  fq_finalize_trade_slot :: "('p \<Rightarrow> string \<Rightarrow> bool \<Rightarrow> 'p) option"

record 'p risk_service =
  sv_economic_calendar_service :: "economic_provider option"
  sv_account_service :: "account_provider option"
  sv_settings :: economic_config
  sv_risk_settings :: risk_config
  sv_trade_frequency_provider :: "'p frequency_port option"
  sv_account_key :: "string option"
  sv_trade_timestamps :: "datetime list"

text \<open>The clock and \<open>float(text)\<close>.\<close>

record py_env =
  env_now :: datetime
  env_parse_float :: "string \<Rightarrow> rat option"

definition PreTradeRiskService ::
  "economic_provider option \<Rightarrow> account_provider option \<Rightarrow> economic_config \<Rightarrow> risk_config \<Rightarrow> 'p frequency_port option \<Rightarrow>
    string option \<Rightarrow> 'p risk_service" where
  "PreTradeRiskService calendar account settings risk_settings frequency account_key =
    \<lparr>sv_economic_calendar_service = calendar, sv_account_service = account, sv_settings = settings,
     sv_risk_settings = risk_settings, sv_trade_frequency_provider = frequency,
     sv_account_key = some_text (opt_text account_key), sv_trade_timestamps = []\<rparr>"

definition risk_rules :: "'p risk_service \<Rightarrow> (string \<times> (rule_context \<Rightarrow> risk_check list res)) list" where
  "risk_rules sv =
    [(''account_snapshot'', \<lambda>cx. ok (account_snapshot_rule cx)),
     (''daily_loss_limit'', \<lambda>cx. ok (daily_loss_limit_rule cx)),
     (''margin_availability'', \<lambda>cx. ok (margin_availability_rule cx)),
     (''trade_frequency'', \<lambda>cx. ok (trade_frequency_rule (sv_trade_timestamps sv) cx)),
     (''protection'', \<lambda>cx. ok (protection_rule cx)),
     (''session_window'', \<lambda>cx. ok (session_window_rule cx)),
     (''market_structure'', \<lambda>cx. ok (market_structure_rule cx)),
     (''economic_event'', economic_event_rule),
     (''calendar_health'', calendar_health_rule)]"

definition economic_guard_enabled :: "'p risk_service \<Rightarrow> bool" where
  "economic_guard_enabled sv =
    (es_enabled (sv_settings sv) \<and> es_trade_guard_enabled (sv_settings sv) \<and> sv_economic_calendar_service sv \<noteq> None)"

definition is_enabled :: "'p risk_service \<Rightarrow> bool" where
  "is_enabled sv = (economic_guard_enabled sv \<or> rs_enabled (sv_risk_settings sv))"

definition one_of :: "string list \<Rightarrow> string \<Rightarrow> string" where
  "one_of modes raw =
    (let mode = lower (strip (if raw = [] then ''warn_only'' else raw)) in if mode \<in> set modes then mode else ''warn_only'')"

definition effective_mode :: "'p risk_service \<Rightarrow> string" where
  "effective_mode sv = one_of [''off'', ''warn_only'', ''block''] (es_trade_guard_mode (sv_settings sv))"

definition calendar_health_mode :: "'p risk_service \<Rightarrow> string" where
  "calendar_health_mode sv =
    one_of [''fail_open'', ''warn_only'', ''fail_closed''] (es_trade_guard_calendar_health_mode (sv_settings sv))"

definition context_of :: "py_env \<Rightarrow> 'p risk_service \<Rightarrow> 'p \<Rightarrow> trade_intent \<Rightarrow> string option \<Rightarrow> rule_context" where
  "context_of env sv p t account_key =
    \<lparr>cx_intent = t, cx_economic_settings = sv_settings sv, cx_risk_settings = sv_risk_settings sv,
     cx_economic_provider = sv_economic_calendar_service sv, cx_account_provider = sv_account_service sv,
     cx_count_trades_since = map_option (\<lambda>fq. fq_count_trades_since fq p) (sv_trade_frequency_provider sv),
     cx_account_key = account_key, cx_mode = effective_mode sv, cx_calendar_health_mode = calendar_health_mode sv,
     cx_now = env_now env, cx_parse_float = env_parse_float env\<rparr>"

definition blank_intent :: trade_intent where
  "blank_intent = \<lparr>ti_symbol = [], ti_volume = 0, ti_side = ''buy'', ti_order_kind = ''market'', ti_price = None,
     ti_sl = None, ti_tp = None, ti_deviation = 20, ti_comment = [], ti_magic = 0, ti_at_time = None, ti_metadata = []\<rparr>"

definition calendar_health_assessment :: "py_env \<Rightarrow> 'p risk_service \<Rightarrow> 'p \<Rightarrow> pydict res" where
  "calendar_health_assessment env sv p =
    rbind (calendar_health_rule (context_of env sv p blank_intent (sv_account_key sv))) (\<lambda>checks.
    ok (case checks of
          [] \<Rightarrow> [(''stale'', VBool False), (''provider_failure_threshold'', VInt (failure_threshold (sv_settings sv))),
                 (''degraded'', VBool False), (''failing_providers'', VList []), (''provider_status'', VDict [])]
        | c # _ \<Rightarrow>
           (let d = ck_details c; or_else = (\<lambda>k v. case map_of d k of Some x \<Rightarrow> x | None \<Rightarrow> v)
            in [(''stale'', VBool (truthy (dget d ''stale''))),
                (''provider_failure_threshold'', or_else ''provider_failure_threshold'' (VInt 0)), (''degraded'', VBool True),
                (''failing_providers'', or_else ''failing_providers'' (VList [])),
                (''provider_status'', or_else ''provider_status'' (VDict [])),
                (''last_refresh_at'', dget d ''last_refresh_at''), (''refresh_in_progress'', dget d ''refresh_in_progress'')])))"

section \<open>Intents and scopes\<close>

record intent_args =
  ia_symbol :: "string option"
  ia_volume :: "rat option"
  ia_side :: "string option"
  ia_order_kind :: string
  ia_price :: "rat option"
  ia_sl :: "rat option"
  ia_tp :: "rat option"
  ia_deviation :: int
  ia_comment :: string
  ia_magic :: int
  ia_at_time :: "datetime option"
  ia_metadata :: "pydict option"
  ia_lookahead_minutes :: "int option"
  ia_lookback_minutes :: "int option"
  ia_importance_min :: "int option"

definition text_default :: "string \<Rightarrow> string \<Rightarrow> string" where
  "text_default fallback s = (if s = [] then fallback else s)"

definition build_intent :: "trade_intent option \<Rightarrow> intent_args \<Rightarrow> trade_intent res" where
  "build_intent intent a =
    (case intent of Some t \<Rightarrow> ok t
     | None \<Rightarrow>
        (case text_or (ia_symbol a) None of
           None \<Rightarrow> raise (ValueError ''symbol is required for risk assessment'')
         | Some symbol \<Rightarrow>
            ok \<lparr>ti_symbol = symbol, ti_volume = (case ia_volume a of None \<Rightarrow> 0 | Some v \<Rightarrow> v),
                ti_side = text_default ''buy'' (case ia_side a of None \<Rightarrow> [] | Some s \<Rightarrow> s),
                ti_order_kind = text_default ''market'' (ia_order_kind a), ti_price = ia_price a, ti_sl = ia_sl a, ti_tp = ia_tp a,
                ti_deviation = ia_deviation a, ti_comment = ia_comment a, ti_magic = ia_magic a, ti_at_time = ia_at_time a,
                ti_metadata = (case ia_metadata a of None \<Rightarrow> [] | Some d \<Rightarrow> d)\<rparr>))"

definition account_key_in :: "pydict \<Rightarrow> string option \<Rightarrow> string option" where
  "account_key_in metadata fallback =
    (if meta_text metadata ''account_key'' \<noteq> [] then Some (meta_text metadata ''account_key'')
     else if meta_text metadata ''target_account_key'' \<noteq> [] then Some (meta_text metadata ''target_account_key'')
     else fallback)"

definition resolve_account_key :: "'p risk_service \<Rightarrow> trade_intent \<Rightarrow> string option" where
  "resolve_account_key sv t = account_key_in (ti_metadata t) (sv_account_key sv)"

definition resolve_account_key_from_assessment :: "'p risk_service \<Rightarrow> pydict \<Rightarrow> string option" where
  "resolve_account_key_from_assessment sv assessment =
    (case dget assessment ''intent'' of
       VDict intent \<Rightarrow> (case dget intent ''metadata'' of VDict m \<Rightarrow> account_key_in m (sv_account_key sv) | _ \<Rightarrow> sv_account_key sv)
     | _ \<Rightarrow> sv_account_key sv)"

definition optional_positive_int :: "int option \<Rightarrow> int option" where
  "optional_positive_int v = (case v of None \<Rightarrow> None | Some n \<Rightarrow> if 0 < n then Some n else None)"

definition frequency_limits :: "'p risk_service \<Rightarrow> int option \<times> int option" where
  "frequency_limits sv =
    (optional_positive_int (rs_max_trades_per_day (sv_risk_settings sv)),
     optional_positive_int (rs_max_trades_per_hour (sv_risk_settings sv)))"

text \<open>Of the profile payload of an assessment; nothing there means enabled.\<close>

definition trade_frequency_enabled :: "pyval \<Rightarrow> bool" where
  "trade_frequency_enabled profile =
    (case profile of VDict d \<Rightarrow> truthy (case map_of d ''trade_frequency_enabled'' of Some v \<Rightarrow> v | None \<Rightarrow> VBool True) | _ \<Rightarrow> True)"

section \<open>Assessment\<close>

fun run_rules :: "profile_selection \<Rightarrow> (string \<times> (rule_context \<Rightarrow> risk_check list res)) list \<Rightarrow> rule_context \<Rightarrow> risk_check list res" where
  "run_rules profile [] cx = ok []"
| "run_rules profile ((name, evaluate) # rules) cx =
    (if enables_rule profile name
     then rbind (evaluate cx) (\<lambda>checks. rbind (run_rules profile rules cx) (\<lambda>rest. ok (checks @ rest)))
     else run_rules profile rules cx)"

definition reasons_with :: "string \<Rightarrow> risk_check list \<Rightarrow> string list" where
  "reasons_with v checks = List.map_filter (\<lambda>c. if ck_verdict c = v then text_or (ck_reason c) None else None) checks"

definition overall_verdict :: "risk_check list \<Rightarrow> string" where
  "overall_verdict checks = (if has_verdict ''block'' checks then ''block'' else if has_verdict ''warn'' checks then ''warn'' else ''allow'')"

definition blocked_profile_assessment :: "py_env \<Rightarrow> 'p risk_service \<Rightarrow> 'p \<Rightarrow> trade_intent \<Rightarrow> string \<Rightarrow> pydict res" where
  "blocked_profile_assessment env sv p t message =
    rbind (calendar_health_assessment env sv p) (\<lambda>health.
    ok [(''enabled'', VBool (is_enabled sv)), (''mode'', VStr (effective_mode sv)), (''event_blocked'', VBool False),
        (''calendar_health_degraded'', VBool False), (''blocked'', VBool True), (''verdict'', VStr ''block''),
        (''reason'', VStr message), (''symbol'', VStr (ti_symbol t)), (''active_windows'', VList []),
        (''upcoming_windows'', VList []), (''warnings'', VList []), (''calendar_health'', VDict health),
        (''checks'', VList [VDict (check_to_dict (mk_check ''risk_profile'' ''block'' message []))]),
        (''intent'', VDict (intent_to_dict t)),
        (''risk_profile'', VDict [(''name'', VNone), (''policy'', VNone), (''trade_frequency_enabled'', VNone),
           (''source'', VStr ''resolution_error'')])])"

definition disabled_assessment :: "'p risk_service \<Rightarrow> trade_intent \<Rightarrow> profile_selection \<Rightarrow> pydict" where
  "disabled_assessment sv t profile =
    [(''enabled'', VBool False), (''mode'', VStr (effective_mode sv)), (''event_blocked'', VBool False),
     (''calendar_health_degraded'', VBool False), (''blocked'', VBool False), (''verdict'', VStr ''allow''),
     (''reason'', VNone), (''symbol'', VStr (ti_symbol t)), (''active_windows'', VList []), (''upcoming_windows'', VList []),
     (''warnings'', VList []),
     (''calendar_health'', VDict [(''stale'', VBool False), (''provider_failure_threshold'', VInt 0),
        (''degraded'', VBool False), (''failing_providers'', VList []), (''provider_status'', VDict [])]),
     (''checks'', VList []), (''intent'', VDict (intent_to_dict t)), (''risk_profile'', VDict (selection_to_dict profile))]"

definition base_assessment :: "'p risk_service \<Rightarrow> trade_intent \<Rightarrow> intent_args \<Rightarrow> pydict res" where
  "base_assessment sv t a =
    (let s = sv_settings sv; given = (\<lambda>x d. case x of Some v \<Rightarrow> v | None \<Rightarrow> d) in
     case (economic_guard_enabled sv, sv_economic_calendar_service sv) of
       (True, Some ep) \<Rightarrow> ep_get_trade_guard ep
         \<lparr>gq_symbol = ti_symbol t, gq_at_time = ti_at_time t,
          gq_lookahead_minutes = given (ia_lookahead_minutes a) (es_trade_guard_lookahead_minutes s),
          gq_lookback_minutes = given (ia_lookback_minutes a) (es_trade_guard_lookback_minutes s),
          gq_importance_min = (case ia_importance_min a of Some v \<Rightarrow> Some v | None \<Rightarrow> es_trade_guard_importance_min s)\<rparr>
     | _ \<Rightarrow> ok [(''symbol'', VStr (ti_symbol t)), (''blocked'', VBool False), (''active_windows'', VList []),
               (''upcoming_windows'', VList []), (''currencies'', VList []), (''countries'', VList [])])"

definition checks_assessment ::
  "'p risk_service \<Rightarrow> trade_intent \<Rightarrow> profile_selection \<Rightarrow> pydict \<Rightarrow> pydict \<Rightarrow> risk_check list \<Rightarrow> pydict" where
  "checks_assessment sv t profile base health checks =
    (let verdict = overall_verdict checks; reasons = reasons_with ''block'' checks
     in dmerge base
      [(''enabled'', VBool True), (''mode'', VStr (effective_mode sv)), (''event_blocked'', VBool (truthy (dget base ''blocked''))),
       (''calendar_health_degraded'', VBool (truthy (dget health ''degraded''))), (''verdict'', VStr verdict),
       (''blocked'', VBool (verdict = ''block'')),
       (''reason'', if reasons = [] then VNone else VStr (join ''; '' (from_keys reasons))),
       (''warnings'', VList (map VStr (from_keys (reasons_with ''warn'' checks)))),
       (''calendar_health_mode'', VStr (calendar_health_mode sv)), (''calendar_health'', VDict health),
       (''checks'', VList (map (\<lambda>c. VDict (check_to_dict c)) checks)), (''intent'', VDict (intent_to_dict t)),
       (''risk_profile'', VDict (selection_to_dict profile))])"

definition assess_trade :: "py_env \<Rightarrow> 'p risk_service \<Rightarrow> 'p \<Rightarrow> trade_intent option \<Rightarrow> intent_args \<Rightarrow> pydict res" where
  "assess_trade env sv p intent a =
    rbind (build_intent intent a) (\<lambda>t.
    case resolve_profile (sv_risk_settings sv) t of
      Inl message \<Rightarrow> blocked_profile_assessment env sv p t message
    | Inr profile \<Rightarrow>
       if \<not> is_enabled sv \<or> effective_mode sv = ''off'' then ok (disabled_assessment sv t profile)
       else rbind (base_assessment sv t a) (\<lambda>base.
         rbind (run_rules profile (risk_rules sv) (context_of env sv p t (resolve_account_key sv t))) (\<lambda>checks.
         rbind (calendar_health_assessment env sv p) (\<lambda>health.
         ok (checks_assessment sv t profile base health checks)))))"

section \<open>Reservation and enforcement\<close>

datatype enforce_error = PreTradeRiskBlockedError string pydict | EnforceError py_error

definition risk_data_fail_closed :: "'p risk_service \<Rightarrow> bool" where
  "risk_data_fail_closed sv =
    (lower (strip (text_default ''warn_only'' (rs_data_unavailable_policy (sv_risk_settings sv)))) = ''fail_closed'')"

definition reservation_check :: "string \<Rightarrow> string \<Rightarrow> pyval" where
  "reservation_check verdict reason = VDict (check_to_dict (mk_check ''trade_frequency_reservation'' verdict reason []))"

definition append_reservation_warning :: "pydict \<Rightarrow> string \<Rightarrow> pydict res" where
  "append_reservation_warning assessment reason =
    rbind (list_or_empty (dget assessment ''warnings'')) (\<lambda>warnings.
    rbind (list_or_empty (dget assessment ''checks'')) (\<lambda>checks.
    ok (dset ''checks'' (VList (checks @ [reservation_check ''warn'' reason]))
         (dset ''warnings'' (VList (from_keys (warnings @ [VStr reason]))) assessment))))"

definition reservation_blocked_assessment :: "pydict \<Rightarrow> string \<Rightarrow> pydict res" where
  "reservation_blocked_assessment assessment reason =
    rbind (list_or_empty (dget assessment ''checks'')) (\<lambda>checks.
    ok (dmerge assessment [(''verdict'', VStr ''block''), (''blocked'', VBool True), (''reason'', VStr reason),
         (''checks'', VList (checks @ [reservation_check ''block'' reason]))]))"

definition raise_blocked :: "pydict \<Rightarrow> string \<Rightarrow> enforce_error + 'a" where
  "raise_blocked assessment reason =
    (case reservation_blocked_assessment assessment reason of
       Inl e \<Rightarrow> Inl (EnforceError e) | Inr blocked \<Rightarrow> Inl (PreTradeRiskBlockedError reason blocked))"

definition reservation_unavailable :: "'p risk_service \<Rightarrow> pydict \<Rightarrow> string \<Rightarrow> enforce_error + pydict" where
  "reservation_unavailable sv assessment reason =
    (if risk_data_fail_closed sv then raise_blocked assessment reason
     else case append_reservation_warning assessment reason of Inl e \<Rightarrow> Inl (EnforceError e) | Inr d \<Rightarrow> Inr d)"

definition slot_error_text :: "slot_error \<Rightarrow> string" where
  "slot_error_text e = (case e of TradeFrequencyQuotaExceeded t \<Rightarrow> t | SlotError x \<Rightarrow> exc_text x)"

definition reserve_trade_frequency_slot ::
  "py_env \<Rightarrow> 'p risk_service \<Rightarrow> pydict \<Rightarrow> 'p \<Rightarrow> (enforce_error + pydict) \<times> 'p" where
  "reserve_trade_frequency_slot env sv assessment p =
    (if \<not> trade_frequency_enabled (dget assessment ''risk_profile'') then (Inr assessment, p)
     else case frequency_limits sv of (max_per_day, max_per_hour) \<Rightarrow>
     if max_per_day = None \<and> max_per_hour = None then (Inr assessment, p)
     else case sv_trade_frequency_provider sv of
       None \<Rightarrow> (Inr assessment, p)
     | Some fq \<Rightarrow>
        (case fq_reserve_trade_slot fq of
           None \<Rightarrow> (reservation_unavailable sv assessment ''Trade frequency reservation port unavailable'', p)
         | Some reserve \<Rightarrow>
            (case text_or (resolve_account_key_from_assessment sv assessment) None of
               None \<Rightarrow> (reservation_unavailable sv assessment ''Trade frequency reservation requires account_key'', p)
             | Some account_key \<Rightarrow>
                (case reserve p account_key (env_now env) max_per_day max_per_hour of
                   (Inl (TradeFrequencyQuotaExceeded t), p') \<Rightarrow>
                     (raise_blocked assessment (text_default ''Trade frequency limit reached'' t), p')
                 | (Inl e, p') \<Rightarrow>
                     (reservation_unavailable sv assessment (''Trade frequency reservation unavailable: '' @ slot_error_text e), p')
                 | (Inr i, p') \<Rightarrow>
                     (Inr (if i = [] then assessment else dset ''trade_frequency_reservation_id'' (VStr i) assessment), p')))))"

definition enforce_trade_allowed ::
  "py_env \<Rightarrow> 'p risk_service \<Rightarrow> trade_intent option \<Rightarrow> intent_args \<Rightarrow> 'p \<Rightarrow> (enforce_error + pydict) \<times> 'p" where
  "enforce_trade_allowed env sv intent a p =
    (case assess_trade env sv p intent a of
       Inl e \<Rightarrow> (Inl (EnforceError e), p)
     | Inr assessment \<Rightarrow>
        if dget assessment ''verdict'' = VStr ''block''
        then (Inl (PreTradeRiskBlockedError (py_str (py_or (dget assessment ''reason'')
                (VStr ''Trade blocked by pre-trade risk policy''))) assessment), p)
        else reserve_trade_frequency_slot env sv assessment p)"

definition record_trade_execution :: "py_env \<Rightarrow> datetime option \<Rightarrow> 'p risk_service \<Rightarrow> unit res \<times> 'p risk_service" where
  "record_trade_execution env recorded_at sv =
    (if sv_trade_frequency_provider sv \<noteq> None then (ok (), sv)
     else let (r, ts) = record_trade (env_now env) recorded_at (sv_trade_timestamps sv)
          in (r, sv\<lparr>sv_trade_timestamps := ts\<rparr>))"

definition finalize_reservation :: "'p risk_service \<Rightarrow> pydict \<Rightarrow> bool \<Rightarrow> 'p \<Rightarrow> 'p" where
  "finalize_reservation sv assessment committed p =
    (let reservation_id = meta_text assessment ''trade_frequency_reservation_id''
     in if assessment = [] \<or> reservation_id = [] then p
        else case sv_trade_frequency_provider sv of
          None \<Rightarrow> p
        | Some fq \<Rightarrow> (case fq_finalize_trade_slot fq of None \<Rightarrow> p | Some finalize \<Rightarrow> finalize p reservation_id committed))"

section \<open>What an assessment means\<close>

text \<open>Some enabled rule is violated.\<close>

definition violated :: "datetime list \<Rightarrow> profile_selection \<Rightarrow> rule_context \<Rightarrow> bool" where
  "violated timestamps profile cx =
    (rs_enabled (cx_risk_settings cx) \<and>
       (enables_rule profile ''account_snapshot'' \<and> \<not> account_within_limits cx \<or>
        enables_rule profile ''daily_loss_limit'' \<and> \<not> daily_loss_within_limit cx \<or>
        enables_rule profile ''margin_availability'' \<and> \<not> margin_sufficient cx \<or>
        enables_rule profile ''trade_frequency'' \<and> \<not> trades_within_limits timestamps cx \<or>
        enables_rule profile ''protection'' \<and> \<not> order_protected cx \<or>
        enables_rule profile ''session_window'' \<and> \<not> session_allowed cx \<or>
        enables_rule profile ''market_structure'' \<and> \<not> sweep_agrees cx) \<or>
     enables_rule profile ''economic_event'' \<and> cx_mode cx = ''block'' \<and> event_active cx \<or>
     enables_rule profile ''calendar_health'' \<and> cx_calendar_health_mode cx = ''fail_closed'' \<and> calendar_degraded cx)"

lemma run_rules_blocks:
  "run_rules profile rules cx = ok checks \<Longrightarrow>
    has_verdict ''block'' checks \<longleftrightarrow>
      (\<exists>(name, evaluate) \<in> set rules. enables_rule profile name \<and> (\<exists>cs. evaluate cx = ok cs \<and> has_verdict ''block'' cs))"
proof (induction rules arbitrary: checks)
  case (Cons r rules)
  obtain name evaluate where r: "r = (name, evaluate)" by (cases r)
  show ?case
  proof (cases "enables_rule profile name")
    case True
    with Cons.prems obtain cs rest where "evaluate cx = ok cs" "run_rules profile rules cx = ok rest" "checks = cs @ rest"
      by (auto simp: r res_simps)
    with Cons.IH True show ?thesis by (auto simp: r)
  next
    case False
    with Cons.prems Cons.IH show ?thesis by (auto simp: r)
  qed
qed simp

lemma run_rules_results:
  "run_rules profile rules cx = ok checks \<Longrightarrow> (name, evaluate) \<in> set rules \<Longrightarrow> enables_rule profile name \<Longrightarrow>
    \<exists>cs. evaluate cx = ok cs"
  by (induction rules arbitrary: checks) (auto simp: res_simps split: if_splits)

lemma run_risk_rules_blocks:
  assumes "run_rules profile (risk_rules sv) cx = ok checks"
  shows "has_verdict ''block'' checks \<longleftrightarrow> violated (sv_trade_timestamps sv) profile cx"
proof -
  have ev: "\<exists>cs. economic_event_rule cx = ok cs" if "enables_rule profile ''economic_event''"
    using run_rules_results [OF assms _ that] by (simp add: risk_rules_def)
  have ca: "\<exists>cs. calendar_health_rule cx = ok cs" if "enables_rule profile ''calendar_health''"
    using run_rules_results [OF assms _ that] by (simp add: risk_rules_def)
  have event: "enables_rule profile ''economic_event'' \<and> (\<exists>cs. economic_event_rule cx = ok cs \<and> has_verdict ''block'' cs) \<longleftrightarrow>
      enables_rule profile ''economic_event'' \<and> cx_mode cx = ''block'' \<and> event_active cx"
    using ev economic_event_blocks by blast
  have calendar: "enables_rule profile ''calendar_health'' \<and> (\<exists>cs. calendar_health_rule cx = ok cs \<and> has_verdict ''block'' cs) \<longleftrightarrow>
      enables_rule profile ''calendar_health'' \<and> cx_calendar_health_mode cx = ''fail_closed'' \<and> calendar_degraded cx"
    using ca calendar_health_blocks by blast
  show ?thesis
    unfolding run_rules_blocks [OF assms] violated_def risk_rules_def
    by (simp add: event calendar rule_blocks) argo
qed

lemma dget_dmerge:
  "dget (dmerge d e) k = (case map_of (rev e) k of Some v \<Rightarrow> v | None \<Rightarrow> dget d k)"
proof (induction e arbitrary: d)
  case (Cons kv e)
  obtain k' v where kv: "kv = (k', v)" by (cases kv)
  have "dmerge d (kv # e) = dmerge (dset k' v d) e" by (simp add: dmerge_def kv)
  then show ?case using Cons by (simp add: kv map_add_def split: option.splits)
qed (simp add: dmerge_def)

lemma checks_assessment_verdict: "dget (checks_assessment sv t profile base health checks) ''verdict'' = VStr (overall_verdict checks)"
  by (simp add: checks_assessment_def dget_dmerge Let_def)

lemma overall_block [simp]: "overall_verdict checks = ''block'' \<longleftrightarrow> has_verdict ''block'' checks"
  by (simp add: overall_verdict_def)

lemma assess_trade_cases:
  assumes "assess_trade env sv p intent a = ok d"
  obtains t message where "build_intent intent a = ok t" "resolve_profile (sv_risk_settings sv) t = Inl message"
      "dget d ''verdict'' = VStr ''block''"
  | t profile where "build_intent intent a = ok t" "resolve_profile (sv_risk_settings sv) t = Inr profile"
      "\<not> is_enabled sv \<or> effective_mode sv = ''off''" "d = disabled_assessment sv t profile"
  | t profile base health checks where "build_intent intent a = ok t" "resolve_profile (sv_risk_settings sv) t = Inr profile"
      "is_enabled sv" "effective_mode sv \<noteq> ''off''"
      "run_rules profile (risk_rules sv) (context_of env sv p t (resolve_account_key sv t)) = ok checks"
      "d = checks_assessment sv t profile base health checks"
proof -
  from assms obtain t where t: "build_intent intent a = ok t" by (auto simp: assess_trade_def res_simps)
  show thesis
  proof (cases "resolve_profile (sv_risk_settings sv) t")
    case (Inl message)
    with assms t have "dget d ''verdict'' = VStr ''block''"
      by (auto simp: assess_trade_def blocked_profile_assessment_def res_simps dget_def)
    then show thesis using that(1) t Inl by blast
  next
    case (Inr profile)
    show thesis
    proof (cases "\<not> is_enabled sv \<or> effective_mode sv = ''off''")
      case True
      with assms t Inr have "d = disabled_assessment sv t profile" by (simp add: assess_trade_def)
      then show thesis using that(2) t Inr True by blast
    next
      case False
      with assms t Inr obtain base checks health where
        "run_rules profile (risk_rules sv) (context_of env sv p t (resolve_account_key sv t)) = ok checks"
        "d = checks_assessment sv t profile base health checks"
        by (auto simp: assess_trade_def res_simps)
      then show thesis using that(3) t Inr False by blast
    qed
  qed
qed

lemma disabled_verdict: "dget (disabled_assessment sv t profile) ''verdict'' = VStr ''allow''"
  by (simp add: disabled_assessment_def dget_def)

lemma disabled_checks: "dget (disabled_assessment sv t profile) ''checks'' = VList []"
  by (simp add: disabled_assessment_def dget_def)

lemma assessment_profile:
  "dget (disabled_assessment sv t profile) ''risk_profile'' = VDict (selection_to_dict profile)"
  "dget (checks_assessment sv t profile base health checks) ''risk_profile'' = VDict (selection_to_dict profile)"
proof -
  show "dget (disabled_assessment sv t profile) ''risk_profile'' = VDict (selection_to_dict profile)"
    by (simp add: disabled_assessment_def dget_def)
qed (simp add: checks_assessment_def dget_dmerge Let_def)

lemma enforce_ok:
  assumes "enforce_trade_allowed env sv intent a p = (Inr d, p')"
  obtains d0 where "assess_trade env sv p intent a = ok d0" "dget d0 ''verdict'' \<noteq> VStr ''block''"
    "reserve_trade_frequency_slot env sv d0 p = (Inr d, p')"
  using assms by (auto simp: enforce_trade_allowed_def split: sum.splits if_splits)

lemma within_limits_spelled:
  assumes "account_within_limits cx" and "account_answers cx = Some (held, all_open, orders)"
  shows "(\<forall>n. rs_max_positions_per_symbol (cx_risk_settings cx) = Some n \<longrightarrow> int (length held) < n) \<and>
    (\<forall>n. rs_max_open_positions_total (cx_risk_settings cx) = Some n \<longrightarrow> int (length all_open) < n) \<and>
    (\<forall>n. rs_max_pending_orders_per_symbol (cx_risk_settings cx) = Some n \<longrightarrow> int (length orders) < n) \<and>
    (\<forall>v. rs_max_volume_per_symbol (cx_risk_settings cx) = Some v \<longrightarrow> exposure_with (cx_intent cx) held \<le> v) \<and>
    (\<forall>v. rs_max_net_lots_per_symbol (cx_risk_settings cx) = Some v \<longrightarrow>
      lower (strip (ti_side (cx_intent cx))) \<in> {''buy'', ''sell''} \<longrightarrow> side_lots_with (cx_intent cx) held \<le> v)"
  using assms
  by (intro conjI allI impI)
    (simp_all add: account_within_limits_def account_limits_set_def at_most_def stays_below_def Let_def, blast)

lemma fail_closed_answers:
  "account_within_limits cx \<Longrightarrow> account_limits_set (cx_risk_settings cx) \<Longrightarrow> closed_policy cx \<Longrightarrow> account_answers cx \<noteq> None"
  by (auto simp: account_within_limits_def Let_def split: option.splits)

text \<open>What a trade that passes satisfies, for the rules its profile enables.\<close>

lemma enforced_not_violated:
  assumes "enforce_trade_allowed env sv intent a p = (Inr d, p')" "build_intent intent a = ok t"
    and "rs_enabled (sv_risk_settings sv)" "effective_mode sv \<noteq> ''off''"
  obtains profile where "resolve_profile (sv_risk_settings sv) t = Inr profile"
    "\<not> violated (sv_trade_timestamps sv) profile (context_of env sv p t (resolve_account_key sv t))"
proof -
  from assms(1) obtain d0 where d0: "assess_trade env sv p intent a = ok d0" "dget d0 ''verdict'' \<noteq> VStr ''block''"
    by (rule enforce_ok)
  show thesis using d0(1)
  proof (rule assess_trade_cases)
    fix t' profile base health checks
    assume "build_intent intent a = ok t'" and profile: "resolve_profile (sv_risk_settings sv) t' = Inr profile"
      and run: "run_rules profile (risk_rules sv) (context_of env sv p t' (resolve_account_key sv t')) = ok checks"
      and d: "d0 = checks_assessment sv t' profile base health checks"
    then have t: "t' = t" using assms(2) by simp
    moreover have "\<not> has_verdict ''block'' checks" using d0(2) d by (simp add: checks_assessment_verdict)
    ultimately show thesis using that profile run_risk_rules_blocks [OF run] by simp
  qed (use assms d0 in \<open>auto simp: is_enabled_def\<close>)
qed

section \<open>The service on the stored quota\<close>

text \<open>The frequency provider of \<open>Trade_Frequency\<close> as the service's port, at one time: the state
  counts the identifiers drawn so far.\<close>

type_synonym quota_state = "nat \<times> frequency_provider \<times> trade_db"

definition provider_port :: "(nat \<Rightarrow> string) \<Rightarrow> int \<Rightarrow> quota_state frequency_port" where
  "provider_port ids now =
    \<lparr>fq_count_trades_since = (\<lambda>(n, pv, db) since key. fst (count_trades_since repository_ports now db (utc_us since) key pv)),
     fq_reserve_trade_slot = Some (\<lambda>(n, s) key at_time max_day max_hour.
       let (r, s') = reserve_trade_slot repository_ports now (slot_args max_day max_hour (utc_us at_time) key (ids n)) s
       in (r, Suc n, s')),
     fq_finalize_trade_slot = Some (\<lambda>(n, s) i committed. (n, finalize_trade_slot repository_ports now i committed s))\<rparr>"

datatype service_event =
    Enforce py_env "trade_intent option" intent_args
  | Finish py_env pydict bool
  | Audited audit_row

fun service_time :: "service_event \<Rightarrow> int" where
  "service_time (Enforce env intent a) = utc_us (env_now env)"
| "service_time (Finish env assessment committed) = utc_us (env_now env)"
| "service_time (Audited a) = ar_recorded_at a"

definition with_port :: "(nat \<Rightarrow> string) \<Rightarrow> int \<Rightarrow> quota_state risk_service \<Rightarrow> quota_state risk_service" where
  "with_port ids now sv = sv\<lparr>sv_trade_frequency_provider := Some (provider_port ids now)\<rparr>"

fun service_step :: "(nat \<Rightarrow> string) \<Rightarrow> quota_state risk_service \<Rightarrow> service_event \<Rightarrow> quota_state \<Rightarrow> quota_state" where
  "service_step ids sv (Enforce env intent a) s =
    snd (enforce_trade_allowed env (with_port ids (utc_us (env_now env)) sv) intent a s)"
| "service_step ids sv (Finish env assessment committed) s =
    finalize_reservation (with_port ids (utc_us (env_now env)) sv) assessment committed s"
| "service_step ids sv (Audited a) (n, pv, db) = (n, pv, db\<lparr>td_audits := td_audits db @ [a]\<rparr>)"

text \<open>Each step of the service is no step or one step of the quota, at the same time.\<close>

lemma reserve_slot_step:
  assumes "frequency_limits sv = (md, mh)" "sv_trade_frequency_provider sv = Some (provider_port ids (utc_us (env_now env)))"
  shows "snd (snd (reserve_trade_frequency_slot env sv d (n, s))) \<in>
    {s} \<union> {slot_step repository_ports md mh e s |e. event_time e = utc_us (env_now env)}"
proof (cases "text_or (resolve_account_key_from_assessment sv d) None")
  case (Some key)
  let ?e = "SlotReserve (utc_us (env_now env)) key (ids n)"
  have "snd (snd (reserve_trade_frequency_slot env sv d (n, s))) \<in> {s, slot_step repository_ports md mh ?e s}"
    using assms Some
    by (simp add: reserve_trade_frequency_slot_def provider_port_def Let_def split: prod.splits sum.splits slot_error.splits)
  moreover have "event_time ?e = utc_us (env_now env)" by simp
  ultimately show ?thesis by blast
next
  case None
  then show ?thesis using assms by (simp add: reserve_trade_frequency_slot_def provider_port_def Let_def)
qed

lemma service_step_refines:
  assumes "frequency_limits sv = (md, mh)"
  shows "snd (service_step ids sv e s) \<in>
    {snd s} \<union> {slot_step repository_ports md mh e' (snd s) |e'. event_time e' = service_time e}"
proof (cases e)
  case (Enforce env intent a)
  let ?sv = "with_port ids (utc_us (env_now env)) sv"
  obtain n q where s: "s = (n, q)" by (cases s)
  have sv: "frequency_limits ?sv = (md, mh)" "sv_trade_frequency_provider ?sv = Some (provider_port ids (utc_us (env_now env)))"
    using assms by (simp_all add: with_port_def frequency_limits_def)
  show ?thesis using reserve_slot_step [OF sv, of _ n q]
    by (auto simp: Enforce s enforce_trade_allowed_def split: sum.splits)
next
  case (Finish env d c)
  obtain n q where s: "s = (n, q)" by (cases s)
  let ?i = "meta_text d ''trade_frequency_reservation_id''"
  let ?e = "SlotFinalize (utc_us (env_now env)) ?i c"
  have "snd (service_step ids sv e s) = snd s \<or> snd (service_step ids sv e s) = slot_step repository_ports md mh ?e (snd s)"
    by (simp add: Finish s finalize_reservation_def with_port_def provider_port_def Let_def)
  moreover have "event_time ?e = service_time e" by (simp add: Finish)
  ultimately show ?thesis by blast
next
  case (Audited a)
  obtain n pv db where s: "s = (n, pv, db)" by (cases s)
  have "snd (service_step ids sv e s) = slot_step repository_ports md mh (AuditWrite a) (snd s)" by (simp add: Audited s)
  moreover have "event_time (AuditWrite a) = service_time e" by (simp add: Audited)
  ultimately show ?thesis by blast
qed

lemma service_quota_run:
  assumes lim: "frequency_limits sv = (md, mh)"
    and window: "windowed_quota (slot_step repository_ports md mh) event_time (db_usage k window) closed_over m"
    and "closed_over (snd s) t0" "db_usage k window (snd s) t0 \<le> m"
      "sorted (t0 # map service_time es)" "\<forall>e \<in> set es. service_time e \<le> t" "t0 \<le> t"
  shows "db_usage k window (snd (fold (service_step ids sv) es s)) t \<le> m"
  using assms(3-)
proof (induction es arbitrary: s t0)
  case Nil
  then show ?case using windowed_quota.usage_antimono [OF window, of t0 t "snd s"] by simp
next
  case (Cons e es)
  let ?s = "service_step ids sv e s"
  have le: "t0 \<le> service_time e" using Cons.prems by simp
  have "closed_over (snd ?s) (service_time e) \<and> db_usage k window (snd ?s) (service_time e) \<le> m"
  proof (cases "snd ?s = snd s")
    case True
    then show ?thesis using Cons.prems closed_over_mono [OF Cons.prems(1) le]
        windowed_quota.usage_antimono [OF window le, of "snd s"] by simp
  next
    case False
    then obtain e' where "snd ?s = slot_step repository_ports md mh e' (snd s)" "event_time e' = service_time e"
      using service_step_refines [OF lim, of ids e s] by auto
    then show ?thesis using windowed_quota.quota_step [OF window Cons.prems(1,2), of e'] le by simp
  qed
  then have "db_usage k window (snd (fold (service_step ids sv) es ?s)) t \<le> m"
    using Cons.prems by (intro Cons.IH [of _ "service_time e"]) auto
  then show ?case by simp
qed

text \<open>Without a calendar nothing in an assessment raises.\<close>

lemma no_calendar_rules:
  "cx_economic_provider cx = None \<Longrightarrow> (name, evaluate) \<in> set (risk_rules sv) \<Longrightarrow> \<exists>cs. evaluate cx = ok cs"
  by (auto simp: risk_rules_def economic_event_rule_def calendar_health_rule_def)

lemma run_rules_total: "(\<And>name evaluate. (name, evaluate) \<in> set rules \<Longrightarrow> \<exists>cs. evaluate cx = ok cs) \<Longrightarrow> \<exists>cs. run_rules profile rules cx = ok cs"
proof (induction rules)
  case (Cons r rules)
  obtain name evaluate where r: "r = (name, evaluate)" by (cases r)
  obtain cs rest where "evaluate cx = ok cs" "run_rules profile rules cx = ok rest"
    using Cons.IH Cons.prems [of name evaluate] Cons.prems unfolding r by (meson list.set_intros)
  then show ?case by (simp add: r)
qed simp

lemma assess_total:
  assumes "sv_economic_calendar_service sv = None"
  shows "\<exists>d. assess_trade env sv p (Some t) a = ok d"
proof -
  have ctx: "cx_economic_provider (context_of env sv p t' key) = None" for t' key using assms by (simp add: context_of_def)
  have "\<exists>cs. run_rules profile (risk_rules sv) (context_of env sv p t key) = ok cs" for profile key
    by (rule run_rules_total) (rule no_calendar_rules [OF ctx])
  moreover have "calendar_health_rule (context_of env sv p t' key) = ok []" for t' key
    by (simp add: calendar_health_rule_def ctx)
  moreover have "\<exists>base. base_assessment sv t a = ok base"
    using assms by (simp add: base_assessment_def economic_guard_enabled_def)
  ultimately show ?thesis
    by (fastforce simp: assess_trade_def build_intent_def blocked_profile_assessment_def calendar_health_assessment_def
        res_simps split: sum.splits)
qed

lemma fail_closed_reservation:
  assumes "reserve_trade_frequency_slot env sv d0 p = (Inr d, p')"
    and "trade_frequency_enabled (dget d0 ''risk_profile'')" and "frequency_limits sv = (md, mh)" and "md \<noteq> None \<or> mh \<noteq> None"
    and "sv_trade_frequency_provider sv = Some fq" and "fq_reserve_trade_slot fq = Some reserve" and "risk_data_fail_closed sv"
  shows "\<exists>key i. reserve p key (env_now env) md mh = (Inr i, p') \<and> (i \<noteq> [] \<longrightarrow> dget d ''trade_frequency_reservation_id'' = VStr i)"
proof -
  have no: "reservation_unavailable sv d0 t \<noteq> Inr d" "raise_blocked d0 t \<noteq> Inr d" for t
    using assms(7) by (auto simp: reservation_unavailable_def raise_blocked_def split: sum.splits)
  obtain key where key: "text_or (resolve_account_key_from_assessment sv d0) None = Some key"
    using assms no by (cases "text_or (resolve_account_key_from_assessment sv d0) None") (auto simp: reserve_trade_frequency_slot_def)
  obtain r q where rq: "reserve p key (env_now env) md mh = (r, q)" by (cases "reserve p key (env_now env) md mh")
  have "\<exists>i. r = Inr i \<and> q = p' \<and> d = (if i = [] then d0 else dset ''trade_frequency_reservation_id'' (VStr i) d0)"
  proof -
    have on: "\<not> (md = None \<and> mh = None)" using assms(4) by blast
    note eq = assms(1) [unfolded reserve_trade_frequency_slot_def assms(3), simplified assms(2,5,6) on key rq option.case prod.case if_False not_True_eq_False]
    show ?thesis
    proof (cases r)
      case (Inl x)
      then show ?thesis using eq no by (cases x) simp_all
    next
      case (Inr i)
      then show ?thesis using eq by simp
    qed
  qed
  then obtain i where "r = Inr i" "q = p'" "d = (if i = [] then d0 else dset ''trade_frequency_reservation_id'' (VStr i) d0)"
    by blast
  then show ?thesis using rq by (intro exI [of _ key] exI [of _ i]) simp
qed

section \<open>Properties\<close>

text \<open>C21: What blocks a trade. An assessment that the service returns has the verdict block
  exactly when the intent names an unknown risk profile, or the service is switched on and a rule
  its profile enables is violated: order volume, position and order counts, exposure and same-side
  lots with the order, an estimate of the day's loss at the limit, free margin, trade counts of the
  day and the hour, protection of market orders, trading session, a contradicting sweep, an active
  economic event in block mode, a degraded calendar in fail-closed mode. Account data that cannot
  be had violates a rule exactly under the fail-closed policy. The conditions are those of
  \<open>Risk_Spec\<close>, which uses none of the rules' helper functions.\<close>

theorem assess_blocks_iff:
  assumes "assess_trade env sv p intent a = ok d"
  shows "dget d ''verdict'' = VStr ''block'' \<longleftrightarrow>
    (\<exists>t. build_intent intent a = ok t \<and>
      (case resolve_profile (sv_risk_settings sv) t of
         Inl message \<Rightarrow> True
       | Inr profile \<Rightarrow> is_enabled sv \<and> effective_mode sv \<noteq> ''off'' \<and>
           violated (sv_trade_timestamps sv) profile (context_of env sv p t (resolve_account_key sv t))))"
  using assms
  by (rule assess_trade_cases) (auto simp: checks_assessment_verdict disabled_verdict run_risk_rules_blocks)

text \<open>C14: A trade the service lets through, with the rules on and under a profile that enables
  them, has a volume within the order limit, and a market order (also one that names no kind)
  carries the protection the configuration asks for: a stop loss in mode \<open>sl\<close>, a stop loss or a
  take profit in mode \<open>sl_or_tp\<close>. Whenever the account service answers the three queries, the
  positions of the symbol, all positions and the pending orders of the symbol are below their
  limits, and the exposure and the same-side lots including the trade are within theirs. Under the
  fail-closed policy a trade only passes when the account service does answer, if any of these
  limits is set; under the warn-only policy missing account data is no obstacle.\<close>

theorem enforced_trade_within_limits:
  assumes "enforce_trade_allowed env sv intent a p = (Inr d, p')"
    and "rs_enabled (sv_risk_settings sv)" and "effective_mode sv \<noteq> ''off''"
    and "\<forall>t profile. resolve_profile (sv_risk_settings sv) t = Inr profile \<longrightarrow>
      enables_rule profile ''account_snapshot'' \<and> enables_rule profile ''protection''"
    and "build_intent intent a = ok t"
  shows "(\<forall>v. rs_max_volume_per_order (sv_risk_settings sv) = Some v \<longrightarrow> ti_volume t \<le> v) \<and>
    (let mode = lower (strip (rs_market_order_protection (sv_risk_settings sv)))
     in ti_order_kind t = [] \<or> lower (ti_order_kind t) = ''market'' \<longrightarrow>
       (mode = ''sl'' \<longrightarrow> ti_sl t \<noteq> None) \<and> (mode = ''sl_or_tp'' \<longrightarrow> ti_sl t \<noteq> None \<or> ti_tp t \<noteq> None)) \<and>
    (lower (strip (rs_data_unavailable_policy (sv_risk_settings sv))) = ''fail_closed'' \<and> account_limits_set (sv_risk_settings sv) \<longrightarrow>
      (\<exists>ap held all_open orders. sv_account_service sv = Some ap \<and> ap_positions ap (Some (ti_symbol t)) = ok held \<and>
        ap_positions ap None = ok all_open \<and> ap_orders ap (Some (ti_symbol t)) = ok orders)) \<and>
    (\<forall>ap held all_open orders. sv_account_service sv = Some ap \<and> ap_positions ap (Some (ti_symbol t)) = ok held \<and>
        ap_positions ap None = ok all_open \<and> ap_orders ap (Some (ti_symbol t)) = ok orders \<longrightarrow>
      (\<forall>n. rs_max_positions_per_symbol (sv_risk_settings sv) = Some n \<longrightarrow> int (length held) < n) \<and>
      (\<forall>n. rs_max_open_positions_total (sv_risk_settings sv) = Some n \<longrightarrow> int (length all_open) < n) \<and>
      (\<forall>n. rs_max_pending_orders_per_symbol (sv_risk_settings sv) = Some n \<longrightarrow> int (length orders) < n) \<and>
      (\<forall>v. rs_max_volume_per_symbol (sv_risk_settings sv) = Some v \<longrightarrow> exposure_with t held \<le> v) \<and>
      (\<forall>v. rs_max_net_lots_per_symbol (sv_risk_settings sv) = Some v \<longrightarrow>
        lower (strip (ti_side t)) \<in> {''buy'', ''sell''} \<longrightarrow> side_lots_with t held \<le> v))"
    (is "?volume \<and> ?protected \<and> (?closed \<and> ?limits \<longrightarrow> ?answered) \<and> (\<forall>ap held all_open orders. ?asked ap held all_open orders \<longrightarrow> _)")
proof -
  let ?cx = "context_of env sv p t (resolve_account_key sv t)"
  have settings: "cx_risk_settings ?cx = sv_risk_settings sv" "cx_intent ?cx = t" "cx_account_provider ?cx = sv_account_service sv"
    by (simp_all add: context_of_def)
  obtain profile where "resolve_profile (sv_risk_settings sv) t = Inr profile" "\<not> violated (sv_trade_timestamps sv) profile ?cx"
    using enforced_not_violated [OF assms(1,5,2,3)] by blast
  then have inside: "account_within_limits ?cx" and "order_protected ?cx"
    using assms(2,4) by (auto simp: violated_def settings)
  then have protected: ?protected by (simp add: order_protected_def settings Let_def)
  have volume: ?volume using inside by (auto simp: account_within_limits_def settings at_most_def Let_def)
  have answered: ?answered if "?closed \<and> ?limits"
  proof -
    have "account_answers ?cx \<noteq> None"
      using fail_closed_answers [OF inside] that by (simp add: settings closed_policy_def)
    then show ?thesis by (auto simp: account_answers_def settings split: option.splits sum.splits)
  qed
  have "account_answers ?cx = Some (held, all_open, orders)" if "?asked ap held all_open orders" for ap held all_open orders
    using that by (simp add: account_answers_def settings)
  note limits = within_limits_spelled [OF inside this, unfolded settings]
  show ?thesis using volume protected answered limits by blast
qed

text \<open>The mode of the economic guard switches every risk rule off. With \<open>trade_guard_mode\<close> set
  to off, a service whose risk rules are enabled assesses every intent with a known profile as
  allowed and runs no check, whatever limits are configured.\<close>

theorem guard_mode_off_disables_risk:
  assumes "effective_mode sv = ''off''" and "build_intent intent a = ok t"
    and "resolve_profile (sv_risk_settings sv) t = Inr profile"
  shows "\<exists>d. assess_trade env sv p intent a = ok d \<and> dget d ''verdict'' = VStr ''allow'' \<and> dget d ''checks'' = VList []"
  using assms by (simp add: assess_trade_def disabled_verdict disabled_checks)

text \<open>C15: The service keeps the trade quota. Over any sequence of enforced trades, finished
  trades and audits in the order of their times, whatever the intents, the profiles and the
  answers of the account and the calendar, the reservations of every account that count at a
  later time are within the hourly and the daily limit of the service's configuration.\<close>

theorem enforced_trades_within_quota:
  assumes "frequency_limits sv = (Some per_day, Some per_hour)"
    and "sorted (t0 # map service_time es)" and "\<forall>e \<in> set es. service_time e \<le> t" and "t0 \<le> t"
    and "td_reservations db = []"
  shows "db_usage k hour_window (snd (fold (service_step ids sv) es (n, pv, db))) t \<le> per_hour \<and>
    db_usage k day_start (snd (fold (service_step ids sv) es (n, pv, db))) t \<le> per_day"
proof -
  have pos: "0 < per_day" "0 < per_hour"
    using assms(1) by (auto simp: frequency_limits_def optional_positive_int_def split: option.splits if_splits)
  have start: "closed_over (snd (n, pv, db)) t0" "db_usage k window (snd (n, pv, db)) t0 = 0" for window
    using assms(5) by (simp_all add: closed_over_def db_usage_def count_trade_frequency_reservations_since_def)
  show ?thesis
    using service_quota_run [OF assms(1) db_hour.windowed_quota_axioms start(1) _ assms(2-4)]
      service_quota_run [OF assms(1) db_day.windowed_quota_axioms start(1) _ assms(2-4)]
      start(2) pos by simp
qed

text \<open>Under the fail-closed policy, with a trade limit configured and a provider that can
  reserve, a trade the service lets through under a profile with frequency control holds a slot:
  the provider granted a reservation, and the assessment carries its identifier.\<close>

theorem admitted_trade_holds_slot:
  assumes "enforce_trade_allowed env sv intent a p = (Inr d, p')"
    and "\<forall>t profile. resolve_profile (sv_risk_settings sv) t = Inr profile \<longrightarrow> trade_frequency_selected profile"
    and "frequency_limits sv = (md, mh)" and "md \<noteq> None \<or> mh \<noteq> None"
    and "sv_trade_frequency_provider sv = Some fq" and "fq_reserve_trade_slot fq = Some reserve" and "risk_data_fail_closed sv"
  shows "\<exists>key i. reserve p key (env_now env) md mh = (Inr i, p') \<and> (i \<noteq> [] \<longrightarrow> dget d ''trade_frequency_reservation_id'' = VStr i)"
proof -
  from assms(1) obtain d0 where d0: "assess_trade env sv p intent a = ok d0" "dget d0 ''verdict'' \<noteq> VStr ''block''"
    "reserve_trade_frequency_slot env sv d0 p = (Inr d, p')" by (rule enforce_ok)
  have profile: "trade_frequency_enabled (VDict (selection_to_dict q))" if "resolve_profile (sv_risk_settings sv) t = Inr q" for t q
    using assms(2) that by (simp add: selection_to_dict_def trade_frequency_enabled_def)
  have "trade_frequency_enabled (dget d0 ''risk_profile'')"
    using d0(1)
    by (rule assess_trade_cases) (use d0(2) profile in \<open>auto simp: assessment_profile\<close>)
  from fail_closed_reservation [OF d0(3) this assms(3-7)] show ?thesis .
qed

text \<open>A failing count hides a reached limit. Under the warn-only policy, when the day's trades
  are already at their limit and the hourly count then fails, the frequency rule reports the
  failure as a warning only and drops the block it had found.\<close>

theorem count_failure_hides_daily_limit:
  assumes "rs_enabled (cx_risk_settings cx)" and "\<not> fail_closed cx"
    and "rs_max_trades_per_day (cx_risk_settings cx) = Some m" and "0 < m" and "day_count timestamps cx = ok n" and "m \<le> n"
    and "rs_max_trades_per_hour (cx_risk_settings cx) = Some h" and "0 < h" and "hour_count timestamps cx = raise e"
  shows "\<exists>c. trade_frequency_rule timestamps cx = [c] \<and> ck_verdict c = ''warn'' \<and>
    window_check cx timestamps (rs_max_trades_per_day (cx_risk_settings cx))
      (Datetime (day_start (wall (evaluation_time cx))) (utcoffset (evaluation_time cx))) daily_trades_check =
    ok [daily_trades_check n m]"
  using assms by (simp add: trade_frequency_rule_def window_check_def day_count_def hour_count_def Let_def)

section \<open>Witnesses\<close>

definition profile_example :: risk_profile_config where
  "profile_example = \<lparr>pc_policy = ''standard_kline'', pc_trade_frequency_enabled = True,
     pc_pre_trade_rules = standard_kline_pre_trade_rules, pc_max_daily_recovery_loss_amount = None,
     pc_max_rolling_recovery_loss_amount = None, pc_rolling_loss_window_minutes = 60,
     pc_max_consecutive_loss_cycles = 0, pc_loss_lockout_minutes = 0\<rparr>"

definition risk_config_example :: risk_config where
  "risk_config_example = \<lparr>rs_enabled = True, rs_allowed_sessions = [], rs_max_positions_per_symbol = Some 3,
     rs_max_open_positions_total = None, rs_max_pending_orders_per_symbol = None, rs_max_volume_per_order = Some 1,
     rs_max_volume_per_symbol = None, rs_max_net_lots_per_symbol = None, rs_daily_loss_limit_pct = None,
     rs_market_order_protection = ''sl'', rs_margin_safety_factor = None, rs_data_unavailable_policy = ''fail_closed'',
     rs_risk_profiles = [(''standard_kline'', profile_example)], rs_risk_profile_bindings = [],
     rs_max_trades_per_day = Some 5, rs_max_trades_per_hour = Some 2\<rparr>"

definition economic_config_example :: economic_config where
  "economic_config_example = \<lparr>es_enabled = False, es_trade_guard_enabled = False, es_trade_guard_mode = ''warn_only'',
     es_trade_guard_calendar_health_mode = ''warn_only'', es_trade_guard_lookahead_minutes = 180,
     es_trade_guard_lookback_minutes = 0, es_trade_guard_importance_min = None, es_trade_guard_provider_failure_threshold = 3\<rparr>"

definition account_example :: account_provider where
  "account_example = \<lparr>ap_account_info = raise AssertionError, ap_positions = (\<lambda>_. ok []), ap_orders = (\<lambda>_. ok [])\<rparr>"

definition risk_intent_example :: "rat \<Rightarrow> trade_intent" where
  "risk_intent_example v = blank_intent\<lparr>ti_symbol := ''XAUUSD'', ti_volume := v, ti_sl := Some 1900\<rparr>"

definition args_example :: intent_args where
  "args_example = \<lparr>ia_symbol = None, ia_volume = None, ia_side = None, ia_order_kind = [], ia_price = None, ia_sl = None,
     ia_tp = None, ia_deviation = 20, ia_comment = [], ia_magic = 0, ia_at_time = None, ia_metadata = None,
     ia_lookahead_minutes = None, ia_lookback_minutes = None, ia_importance_min = None\<rparr>"

definition env_example :: py_env where
  "env_example = \<lparr>env_now = Datetime 7200000000 (Some 0), env_parse_float = (\<lambda>_. None)\<rparr>"

text \<open>A provider that has seen no trade and grants the slot \<open>r1\<close>.\<close>

definition port_example :: "unit frequency_port" where
  "port_example = \<lparr>fq_count_trades_since = (\<lambda>_ _ _. ok 0),
     fq_reserve_trade_slot = Some (\<lambda>_ _ _ _ _. (Inr ''r1'', ())), fq_finalize_trade_slot = None\<rparr>"

definition service_example :: "unit risk_service" where
  "service_example = PreTradeRiskService None (Some account_example) economic_config_example risk_config_example
     (Some port_example) (Some ''live:1'')"

lemmas example_defs = profile_example_def risk_config_example_def economic_config_example_def account_example_def
  risk_intent_example_def args_example_def env_example_def port_example_def service_example_def PreTradeRiskService_def blank_intent_def

lemma example_settings [simp]:
  "sv_risk_settings service_example = risk_config_example" "sv_economic_calendar_service service_example = None"
  "rs_enabled risk_config_example" "effective_mode service_example = ''warn_only''" "is_enabled service_example"
  by (simp_all add: example_defs effective_mode_def one_of_def is_enabled_def str_eval)

lemma example_profile:
  "resolve_profile risk_config_example (risk_intent_example v) =
    Inr \<lparr>sl_name = ''standard_kline'', sl_config = profile_example, sl_source = ''default''\<rparr>"
  by (simp add: resolve_profile_def select_risk_profile_def meta_text_def bound_profile_def example_defs dget_def str_eval Let_def)

lemma example_profiles_standard:
  "resolve_profile risk_config_example t = Inr profile \<Longrightarrow> sl_config profile = profile_example"
  by (auto simp: resolve_profile_def select_risk_profile_def risk_config_example_def Let_def split: if_splits)

lemma example_enables:
  "sl_config profile = profile_example \<Longrightarrow>
    enables_rule profile ''account_snapshot'' \<and> enables_rule profile ''protection'' \<and> trade_frequency_selected profile"
  by (simp add: enables_rule_def trade_frequency_selected_def profile_example_def standard_kline_pre_trade_rules_def str_eval)

lemma example_not_violated:
  "\<not> violated (sv_trade_timestamps service_example) profile (context_of env_example service_example () (risk_intent_example 1) key)"
  by (simp add: violated_def context_of_def example_defs account_within_limits_def daily_loss_within_limit_def margin_sufficient_def
      trades_within_limits_def order_protected_def session_allowed_def sweep_agrees_def market_structure_def label_or_def
      event_active_def calendar_degraded_def guarded_calendar_def at_most_def stays_below_def account_limits_set_def account_answers_def
      active_limit_def trades_since_def sweep_against_def dget_def str_eval Let_def)

lemma example_enforced:
  "\<exists>d. enforce_trade_allowed env_example service_example (Some (risk_intent_example 1)) args_example () = (Inr d, ())"
proof -
  obtain d0 where d0: "assess_trade env_example service_example () (Some (risk_intent_example 1)) args_example = ok d0"
    using assess_total [of service_example] example_settings(2) by blast
  have "dget d0 ''verdict'' \<noteq> VStr ''block''"
    using d0
    by (rule assess_trade_cases)
      (auto simp: build_intent_def example_profile disabled_verdict checks_assessment_verdict run_risk_rules_blocks example_not_violated)
  moreover have "\<exists>d. reserve_trade_frequency_slot env_example service_example d0 () = (Inr d, ())"
  proof -
    have "text_or (resolve_account_key_from_assessment service_example d0) None \<noteq> None"
      by (auto simp: resolve_account_key_from_assessment_def account_key_in_def text_or_def example_defs str_eval some_text_def
          split: pyval.splits)
    then obtain k where "text_or (resolve_account_key_from_assessment service_example d0) None = Some k" by blast
    then show ?thesis by (simp add: reserve_trade_frequency_slot_def example_defs frequency_limits_def)
  qed
  ultimately show ?thesis using d0 by (simp add: enforce_trade_allowed_def)
qed

theorem assess_blocks_iff_witness:
  "\<exists>d. assess_trade env_example service_example () (Some (risk_intent_example 2)) args_example = ok d \<and>
    dget d ''verdict'' = VStr ''block''"
proof -
  obtain d where d: "assess_trade env_example service_example () (Some (risk_intent_example 2)) args_example = ok d"
    using assess_total [of service_example] example_settings(2) by blast
  have "\<not> account_within_limits (context_of env_example service_example () (risk_intent_example 2) key)" for key
    by (simp add: account_within_limits_def context_of_def example_defs at_most_def)
  then have "dget d ''verdict'' = VStr ''block''"
    using assess_blocks_iff [OF d] example_enables [of "\<lparr>sl_name = ''standard_kline'', sl_config = profile_example, sl_source = ''default''\<rparr>"]
    by (simp add: build_intent_def example_profile violated_def) (simp add: context_of_def)
  with d show ?thesis by blast
qed

theorem enforced_trade_within_limits_witness:
  "\<exists>d. enforce_trade_allowed env_example service_example (Some (risk_intent_example 1)) args_example () = (Inr d, ()) \<and>
    ti_sl (risk_intent_example 1) \<noteq> None \<and> (\<exists>ap. sv_account_service service_example = Some ap)"
proof -
  obtain d where d: "enforce_trade_allowed env_example service_example (Some (risk_intent_example 1)) args_example () = (Inr d, ())"
    using example_enforced by blast
  have config: "rs_market_order_protection risk_config_example = ''sl''" "ti_order_kind (risk_intent_example 1) = ''market''"
    "rs_data_unavailable_policy risk_config_example = ''fail_closed''" "account_limits_set risk_config_example"
    by (simp_all add: example_defs account_limits_set_def)
  have "ti_sl (risk_intent_example 1) \<noteq> None \<and> (\<exists>ap. sv_account_service service_example = Some ap)"
    using enforced_trade_within_limits [OF d, of "risk_intent_example 1"] example_profiles_standard example_enables
    by (simp add: build_intent_def config str_eval) blast
  with d show ?thesis by blast
qed

theorem guard_mode_off_disables_risk_witness:
  "\<exists>d. assess_trade env_example (service_example\<lparr>sv_settings := economic_config_example\<lparr>es_trade_guard_mode := ''off''\<rparr>\<rparr>)
      () (Some (risk_intent_example 1000)) args_example = ok d \<and> dget d ''verdict'' = VStr ''allow''"
  using guard_mode_off_disables_risk [of "service_example\<lparr>sv_settings := economic_config_example\<lparr>es_trade_guard_mode := ''off''\<rparr>\<rparr>"
      "Some (risk_intent_example 1000)" args_example "risk_intent_example 1000" _ env_example "()"] example_profile [of 1000]
  by (simp add: build_intent_def effective_mode_def one_of_def str_eval) blast

theorem enforced_trades_within_quota_witness:
  "db_usage ''live:1'' hour_window (snd (fold (service_step (\<lambda>n. CHR ''r'' # dec_str (int n))
      (PreTradeRiskService None None economic_config_example risk_config_example None (Some ''live:1'')))
     [Enforce env_example (Some (risk_intent_example 1)) args_example, Enforce env_example (Some (risk_intent_example 1)) args_example]
     (0, slot_provider_example, trade_db_empty))) 7200000000 \<le> 2"
  using enforced_trades_within_quota [of "PreTradeRiskService None None economic_config_example risk_config_example None (Some ''live:1'')"
      5 2 0 "[Enforce env_example (Some (risk_intent_example 1)) args_example, Enforce env_example (Some (risk_intent_example 1)) args_example]"
      7200000000 trade_db_empty "''live:1''" "\<lambda>n. CHR ''r'' # dec_str (int n)" 0 slot_provider_example]
  by (simp add: frequency_limits_def optional_positive_int_def trade_db_empty_def example_defs)

theorem admitted_trade_holds_slot_witness:
  "\<exists>d. enforce_trade_allowed env_example service_example (Some (risk_intent_example 1)) args_example () = (Inr d, ()) \<and>
    dget d ''trade_frequency_reservation_id'' = VStr ''r1''"
proof -
  obtain d where d: "enforce_trade_allowed env_example service_example (Some (risk_intent_example 1)) args_example () = (Inr d, ())"
    using example_enforced by blast
  have "dget d ''trade_frequency_reservation_id'' = VStr ''r1''"
    using admitted_trade_holds_slot [OF d, of "Some 5" "Some 2" port_example "\<lambda>_ _ _ _ _. (Inr ''r1'', ())"]
      example_profiles_standard example_enables
    by (simp add: frequency_limits_def) (simp add: example_defs optional_positive_int_def risk_data_fail_closed_def text_default_def str_eval)
  with d show ?thesis by blast
qed

theorem count_failure_hides_daily_limit_witness:
  "\<exists>c. trade_frequency_rule [] ((context_of env_example service_example () (risk_intent_example 1) None)
      \<lparr>cx_count_trades_since := Some (\<lambda>since _. if wall since = 0 then ok 9 else raise (RuntimeError ''down'')),
       cx_risk_settings := risk_config_example\<lparr>rs_data_unavailable_policy := ''warn_only''\<rparr>\<rparr>) = [c] \<and> ck_verdict c = ''warn''"
  using count_failure_hides_daily_limit [of "(context_of env_example service_example () (risk_intent_example 1) None)
      \<lparr>cx_count_trades_since := Some (\<lambda>since _. if wall since = 0 then ok 9 else raise (RuntimeError ''down'')),
       cx_risk_settings := risk_config_example\<lparr>rs_data_unavailable_policy := ''warn_only''\<rparr>\<rparr>" 5 "[]" 9 2 "RuntimeError ''down''"]
  by (simp add: context_of_def closed_policy_def day_count_def hour_count_def rule_count_trades_since_def
      evaluation_time_def as_utc_def astimezone_utc_def day_start_def shift_us_def example_defs str_eval) blast

end
