(* ===== verification/Margin_Guard.thy ===== *)
theory Margin_Guard
  imports Py_Repr Interfaces
begin

text \<open>
  The margin guard (\<open>risk/margin_guard.py\<close>), its wiring to the trading module
  (\<open>risk/runtime.py\<close>) and the reconcile step that drives it (\<open>PositionManager._run_margin_guard\<close>).
  The callbacks act on a world of their own, so what they do is a function of it; the monotonic
  clock is an argument. A margin level without margin is infinite, here None.
\<close>

section \<open>Configuration\<close>

record margin_guard_config =
  mg_enabled :: bool
  mg_warn_level :: rat
  mg_danger_level :: rat
  mg_critical_level :: rat
  mg_block_new_trades_level :: rat
  mg_tighten_stops_level :: rat
  mg_tighten_stops_factor :: rat
  mg_emergency_close_level :: rat
  mg_emergency_close_strategy :: string
  mg_emergency_close_cooldown :: rat

definition section_get :: "(string \<times> string) list \<Rightarrow> string \<Rightarrow> string \<Rightarrow> string" where
  "section_get s key fallback = (case map_of s key of Some v \<Rightarrow> v | None \<Rightarrow> fallback)"

definition section_float :: "(string \<Rightarrow> rat option) \<Rightarrow> (string \<times> string) list \<Rightarrow> string \<Rightarrow> rat \<Rightarrow> rat" where
  "section_float pf s key fallback =
    (let raw = section_get s key [] in if raw = [] then fallback else case pf raw of Some x \<Rightarrow> x | None \<Rightarrow> fallback)"

definition section_bool :: "(string \<times> string) list \<Rightarrow> string \<Rightarrow> bool \<Rightarrow> bool" where
  "section_bool s key fallback =
    (let raw = lower (strip (section_get s key []))
     in if raw \<in> {''true'', ''1'', ''yes''} then True
        else if raw \<in> {''false'', ''0'', ''no''} then False else fallback)"

definition load_margin_guard_config :: "(string \<Rightarrow> rat option) \<Rightarrow> (string \<times> string) list \<Rightarrow> margin_guard_config" where
  "load_margin_guard_config pf s =
    \<lparr>mg_enabled = section_bool s ''enabled'' True,
     mg_warn_level = section_float pf s ''warn_level'' 200,
     mg_danger_level = section_float pf s ''danger_level'' 150,
     mg_critical_level = section_float pf s ''critical_level'' 100,
     mg_block_new_trades_level = section_float pf s ''block_new_trades_level'' 200,
     mg_tighten_stops_level = section_float pf s ''tighten_stops_level'' 150,
     mg_tighten_stops_factor = section_float pf s ''tighten_stops_factor'' (fl (6 / 10)),
     mg_emergency_close_level = section_float pf s ''emergency_close_level'' 80,
     mg_emergency_close_strategy = strip (section_get s ''emergency_close_strategy'' ''worst_first''),
     mg_emergency_close_cooldown = section_float pf s ''emergency_close_cooldown'' 30\<rparr>"

section \<open>Guard\<close>

datatype margin_level = SAFE | WARN | DANGER | CRITICAL

record margin_snapshot =
  ms_margin_level :: "rat option"
  ms_state :: margin_level
  ms_equity :: rat
  ms_margin :: rat
  ms_free_margin :: rat
  ms_should_block_new_trades :: bool
  ms_should_tighten_stops :: bool
  ms_tighten_factor :: rat
  ms_should_emergency_close :: bool
  ms_emergency_strategy :: string
  ms_actions_taken :: "string list"

record 'w guard_callbacks =
  cb_close_worst :: "('w \<Rightarrow> pyval res \<times> 'w) option"
  cb_close_all :: "('w \<Rightarrow> pyval res \<times> 'w) option"
  cb_tighten_stops :: "(rat \<Rightarrow> 'w \<Rightarrow> int res \<times> 'w) option"

record margin_guard =
  gd_config :: margin_guard_config
  gd_last_emergency_close_at :: rat
  gd_last_snapshot :: "margin_snapshot option"
  gd_emergency_close_count :: int
  gd_tighten_count :: int
  gd_block_count :: int

definition MarginGuard :: "margin_guard_config \<Rightarrow> margin_guard" where
  "MarginGuard config = \<lparr>gd_config = config, gd_last_emergency_close_at = 0, gd_last_snapshot = None,
     gd_emergency_close_count = 0, gd_tighten_count = 0, gd_block_count = 0\<rparr>"

definition should_block_new_trades :: "margin_guard \<Rightarrow> bool" where
  "should_block_new_trades g =
    (case gd_last_snapshot g of None \<Rightarrow> False | Some s \<Rightarrow> mg_enabled (gd_config g) \<and> ms_should_block_new_trades s)"

definition margin_level_of :: "rat \<Rightarrow> rat \<Rightarrow> rat option" where
  "margin_level_of equity margin = (if 0 < margin then Some (fl (fl (equity / margin) * 100)) else None)"

definition below :: "rat option \<Rightarrow> rat \<Rightarrow> bool" where
  "below level threshold = (case level of None \<Rightarrow> False | Some l \<Rightarrow> l < threshold)"

definition margin_state :: "margin_guard_config \<Rightarrow> rat option \<Rightarrow> margin_level" where
  "margin_state cfg level =
    (if below level (mg_critical_level cfg) then CRITICAL
     else if below level (mg_danger_level cfg) then DANGER
     else if below level (mg_warn_level cfg) then WARN else SAFE)"

definition guard_evaluate :: "rat \<Rightarrow> rat \<Rightarrow> rat \<Rightarrow> margin_guard \<Rightarrow> margin_snapshot \<times> margin_guard" where
  "guard_evaluate equity margin free_margin g =
    (let cfg = gd_config g; level = margin_level_of equity margin;
         snap = \<lparr>ms_margin_level = map_option (\<lambda>l. pyround l 2) level, ms_state = margin_state cfg level,
                 ms_equity = pyround equity 2, ms_margin = pyround margin 2, ms_free_margin = pyround free_margin 2,
                 ms_should_block_new_trades = below level (mg_block_new_trades_level cfg),
                 ms_should_tighten_stops = below level (mg_tighten_stops_level cfg),
                 ms_tighten_factor = mg_tighten_stops_factor cfg,
                 ms_should_emergency_close = below level (mg_emergency_close_level cfg),
                 ms_emergency_strategy = mg_emergency_close_strategy cfg, ms_actions_taken = []\<rparr>
     in (snap, g\<lparr>gd_last_snapshot := Some snap\<rparr>))"

definition run_close :: "string \<Rightarrow> ('w \<Rightarrow> pyval res \<times> 'w) \<Rightarrow> margin_guard \<Rightarrow> 'w \<Rightarrow> string option \<times> margin_guard \<times> 'w" where
  "run_close label close g w =
    (case close w of
       (Inl e, w') \<Rightarrow> (None, g, w')
     | (Inr result, w') \<Rightarrow>
         (Some (label @ py_str result), g\<lparr>gd_emergency_close_count := gd_emergency_close_count g + 1\<rparr>, w'))"

definition do_emergency_close ::
  "'w guard_callbacks \<Rightarrow> string \<Rightarrow> margin_guard \<Rightarrow> 'w \<Rightarrow> string option \<times> margin_guard \<times> 'w" where
  "do_emergency_close cb strategy g w =
    (case (strategy = ''all'', cb_close_all cb) of
       (True, Some close) \<Rightarrow> run_close ''emergency_close_all:'' close g w
     | _ \<Rightarrow> (case cb_close_worst cb of
               Some close \<Rightarrow> run_close ''emergency_close_worst:'' close g w
             | None \<Rightarrow> (None, g, w)))"

definition emergency_due :: "rat \<Rightarrow> margin_guard \<Rightarrow> bool" where
  "emergency_due now g = (mg_emergency_close_cooldown (gd_config g) \<le> fl (now - gd_last_emergency_close_at g))"

definition act_emergency ::
  "'w guard_callbacks \<Rightarrow> rat \<Rightarrow> margin_snapshot \<Rightarrow> margin_guard \<Rightarrow> 'w \<Rightarrow> string list \<times> margin_guard \<times> 'w" where
  "act_emergency cb now snap g w =
    (if ms_should_emergency_close snap \<and> emergency_due now g
     then case do_emergency_close cb (ms_emergency_strategy snap) g w of
            (Some result, g', w') \<Rightarrow>
              if result = [] then ([], g', w') else ([result], g'\<lparr>gd_last_emergency_close_at := now\<rparr>, w')
          | (None, g', w') \<Rightarrow> ([], g', w')
     else ([], g, w))"

definition act_tighten ::
  "'w guard_callbacks \<Rightarrow> margin_snapshot \<Rightarrow> margin_guard \<Rightarrow> 'w \<Rightarrow> string list \<times> margin_guard \<times> 'w" where
  "act_tighten cb snap g w =
    (case cb_tighten_stops cb of
       None \<Rightarrow> ([], g, w)
     | Some tighten \<Rightarrow>
        if \<not> ms_should_tighten_stops snap then ([], g, w)
        else case tighten (ms_tighten_factor snap) w of
          (Inl e, w') \<Rightarrow> ([], g, w')
        | (Inr n, w') \<Rightarrow>
            if 0 < n then ([''tighten_stops:'' @ int_str n], g\<lparr>gd_tighten_count := gd_tighten_count g + n\<rparr>, w')
            else ([], g, w'))"

definition guard_act ::
  "'w guard_callbacks \<Rightarrow> rat \<Rightarrow> margin_snapshot \<Rightarrow> margin_guard \<Rightarrow> 'w \<Rightarrow> string list \<times> margin_guard \<times> 'w" where
  "guard_act cb now snap g w =
    (if \<not> mg_enabled (gd_config g) then ([], g, w)
     else case act_emergency cb now snap g w of (closes, g1, w1) \<Rightarrow>
       case act_tighten cb snap g1 w1 of (tightened, g2, w2) \<Rightarrow>
       let g3 = (if ms_should_block_new_trades snap then g2\<lparr>gd_block_count := gd_block_count g2 + 1\<rparr> else g2);
           actions = closes @ tightened
       in (actions,
           if actions = [] then g3 else g3\<lparr>gd_last_snapshot := Some (snap\<lparr>ms_actions_taken := actions\<rparr>)\<rparr>, w2))"

definition state_text :: "margin_level \<Rightarrow> string" where
  "state_text s = (case s of SAFE \<Rightarrow> ''safe'' | WARN \<Rightarrow> ''warn'' | DANGER \<Rightarrow> ''danger'' | CRITICAL \<Rightarrow> ''critical'')"

definition margin_status :: "margin_guard \<Rightarrow> pydict" where
  "margin_status g =
    (let snap = gd_last_snapshot g; cfg = gd_config g;
         num = (\<lambda>f. case snap of None \<Rightarrow> VNone | Some s \<Rightarrow> VFloat (f s));
         flag = (\<lambda>f. VBool (case snap of None \<Rightarrow> False | Some s \<Rightarrow> f s))
     in [(''enabled'', VBool (mg_enabled cfg)),
         (''margin_level'', case snap of None \<Rightarrow> VNone | Some s \<Rightarrow> (case ms_margin_level s of None \<Rightarrow> VStr ''inf'' | Some l \<Rightarrow> VFloat l)),
         (''state'', VStr (case snap of None \<Rightarrow> ''unknown'' | Some s \<Rightarrow> state_text (ms_state s))),
         (''equity'', num ms_equity), (''margin'', num ms_margin), (''free_margin'', num ms_free_margin),
         (''should_block_new_trades'', flag ms_should_block_new_trades), (''should_tighten_stops'', flag ms_should_tighten_stops),
         (''should_emergency_close'', flag ms_should_emergency_close),
         (''emergency_close_count'', VInt (gd_emergency_close_count g)), (''tighten_count'', VInt (gd_tighten_count g)),
         (''block_count'', VInt (gd_block_count g)),
         (''thresholds'', VDict [(''warn'', VFloat (mg_warn_level cfg)), (''danger'', VFloat (mg_danger_level cfg)),
            (''critical'', VFloat (mg_critical_level cfg)), (''block_trades'', VFloat (mg_block_new_trades_level cfg)),
            (''tighten_stops'', VFloat (mg_tighten_stops_level cfg)), (''emergency_close'', VFloat (mg_emergency_close_level cfg))])])"

section \<open>Wiring\<close>

record open_position =
  op_ticket :: int
  op_profit :: "rat option"

definition profit_of :: "open_position \<Rightarrow> rat" where
  "profit_of p = (case op_profit p of None \<Rightarrow> 0 | Some x \<Rightarrow> x)"

text \<open>\<open>min(positions, key=...)\<close>: the first of the least.\<close>

fun min_profit :: "open_position \<Rightarrow> open_position list \<Rightarrow> open_position" where
  "min_profit best [] = best"
| "min_profit best (p # ps) = min_profit (if profit_of p < profit_of best then p else best) ps"

record 'w trade_port =
  tp_get_positions :: "'w \<Rightarrow> open_position list res \<times> 'w"
  tp_close_position :: "int \<Rightarrow> string \<Rightarrow> 'w \<Rightarrow> pyval res \<times> 'w"
  tp_close_all_positions :: "string \<Rightarrow> 'w \<Rightarrow> pyval res \<times> 'w"

definition close_worst :: "'w trade_port \<Rightarrow> 'w \<Rightarrow> pyval res \<times> 'w" where
  "close_worst tp w =
    (case tp_get_positions tp w of
       (Inl e, w') \<Rightarrow> (raise e, w')
     | (Inr [], w') \<Rightarrow> (ok (VDict [(''closed'', VNone)]), w')
     | (Inr (p # ps), w') \<Rightarrow>
        (let ticket = op_ticket (min_profit p ps)
         in if ticket \<le> 0 then (ok (VDict [(''error'', VStr ''invalid ticket'')]), w')
            else case tp_close_position tp ticket ''margin_guard_emergency'' w' of
              (Inl e, w'') \<Rightarrow> (raise e, w'')
            | (Inr result, w'') \<Rightarrow> (ok (VDict [(''ticket'', VInt ticket), (''result'', result)]), w'')))"

definition wire_margin_guard ::
  "(string \<Rightarrow> rat option) \<Rightarrow> 'w trade_port \<Rightarrow> (rat \<Rightarrow> 'w \<Rightarrow> int res \<times> 'w) \<Rightarrow> (string \<times> string) list \<Rightarrow>
    (margin_guard \<times> 'w guard_callbacks) option" where
  "wire_margin_guard pf tp tighten s =
    (let config = load_margin_guard_config pf s
     in if \<not> mg_enabled config then None
        else Some (MarginGuard config,
          \<lparr>cb_close_worst = Some (close_worst tp),
           cb_close_all = Some (tp_close_all_positions tp ''margin_guard_emergency_all''),
           cb_tighten_stops = Some tighten\<rparr>))"

record account_margin =
  am_equity :: "rat option"
  am_margin :: "rat option"
  am_margin_free :: "rat option"
  am_free_margin :: "rat option"

definition or_zero :: "rat option \<Rightarrow> rat" where
  "or_zero x = (case x of None \<Rightarrow> 0 | Some v \<Rightarrow> v)"

definition run_margin_guard ::
  "'w guard_callbacks \<Rightarrow> rat \<Rightarrow> account_margin res \<Rightarrow> margin_guard \<Rightarrow> 'w \<Rightarrow> margin_guard \<times> 'w" where
  "run_margin_guard cb now info g w =
    (if \<not> mg_enabled (gd_config g) then (g, w)
     else case info of
       Inl e \<Rightarrow> (g, w)
     | Inr i \<Rightarrow>
        if or_zero (am_equity i) \<le> 0 then (g, w)
        else let free = (if or_zero (am_margin_free i) \<noteq> 0 then or_zero (am_margin_free i) else or_zero (am_free_margin i));
                 (snap, g1) = guard_evaluate (or_zero (am_equity i)) (or_zero (am_margin i)) free g
             in snd (guard_act cb now snap g1 w))"

text \<open>\<open>PositionManager.tighten_trailing_stops\<close>: the multiplier and the number of positions.\<close>

definition tighten_trailing_stops :: "rat \<Rightarrow> rat \<times> int \<Rightarrow> int \<times> rat \<times> int" where
  "tighten_trailing_stops factor = (\<lambda>(multiplier, positions).
    let tightened = fl (multiplier * factor)
    in if tightened \<le> 0 \<or> multiplier \<le> tightened then (0, multiplier, positions)
       else (positions, tightened, positions))"

section \<open>Severity\<close>

text \<open>Alert levels are ordered by severity.\<close>

fun severity :: "margin_level \<Rightarrow> nat" where
  "severity SAFE = 0"
| "severity WARN = 1"
| "severity DANGER = 2"
| "severity CRITICAL = 3"

lemma severity_inj: "severity a = severity b \<Longrightarrow> a = b"
  by (cases a; cases b) simp_all

instantiation margin_level :: linorder
begin

definition less_eq_margin_level :: "margin_level \<Rightarrow> margin_level \<Rightarrow> bool" where
  "less_eq_margin_level a b = (severity a \<le> severity b)"

definition less_margin_level :: "margin_level \<Rightarrow> margin_level \<Rightarrow> bool" where
  "less_margin_level a b = (severity a < severity b)"

instance
  by standard (auto simp: less_eq_margin_level_def less_margin_level_def severity_inj)

end

lemma below_mono: "below level' t \<Longrightarrow> level = Some l \<Longrightarrow> level' = Some l' \<Longrightarrow> l \<le> l' \<Longrightarrow> below level t"
  by (simp add: below_def)

lemma margin_level_mono:
  assumes "0 < margin" "equity \<le> equity'"
  obtains l l' where "margin_level_of equity margin = Some l" "margin_level_of equity' margin = Some l'" "l \<le> l'"
proof -
  have "fl (fl (equity / margin) * 100) \<le> fl (fl (equity' / margin) * 100)"
    using assms by (intro fl_mono mult_right_mono divide_right_mono) auto
  then show thesis using that assms(1) by (simp add: margin_level_of_def)
qed

lemma margin_state_antimono:
  assumes "\<And>t. below level' t \<Longrightarrow> below level t"
  shows "margin_state cfg level' \<le> margin_state cfg level"
  using assms by (auto simp: margin_state_def less_eq_margin_level_def)

section \<open>One tick\<close>

lemma act_tighten_keeps:
  "act_tighten cb snap g w = (as, g', w') \<Longrightarrow> gd_config g' = gd_config g \<and>
    gd_last_emergency_close_at g' = gd_last_emergency_close_at g \<and> gd_emergency_close_count g' = gd_emergency_close_count g"
  by (auto simp: act_tighten_def split: option.splits sum.splits prod.splits if_splits)

lemma run_close_cases:
  "run_close label close g w = (r, g', w') \<Longrightarrow>
    (r = None \<and> g' = g) \<or> (\<exists>v. r = Some (label @ py_str v) \<and> g' = g\<lparr>gd_emergency_close_count := gd_emergency_close_count g + 1\<rparr>)"
  by (auto simp: run_close_def split: sum.splits prod.splits)

lemma do_emergency_close_cases:
  assumes "do_emergency_close cb strategy g w = (r, g', w')"
  shows "(r = None \<and> g' = g) \<or> (\<exists>x. r = Some x \<and> x \<noteq> [] \<and> g' = g\<lparr>gd_emergency_close_count := gd_emergency_close_count g + 1\<rparr>)"
  using assms by (auto simp: do_emergency_close_def dest!: run_close_cases split: option.splits bool.splits)

lemma act_emergency_cases:
  assumes "act_emergency cb now snap g w = (as, g', w')"
  shows "(as = [] \<and> g' = g) \<or> (ms_should_emergency_close snap \<and> emergency_due now g \<and>
    g' = g\<lparr>gd_emergency_close_count := gd_emergency_close_count g + 1, gd_last_emergency_close_at := now\<rparr>)"
  using assms
  by (auto simp: act_emergency_def dest!: do_emergency_close_cases split: option.splits prod.splits if_splits)

lemma guard_act_cases:
  assumes "guard_act cb now snap g w = (as, g', w')"
  shows "gd_config g' = gd_config g \<and>
    ((gd_last_emergency_close_at g' = gd_last_emergency_close_at g \<and> gd_emergency_close_count g' = gd_emergency_close_count g) \<or>
     (ms_should_emergency_close snap \<and> emergency_due now g \<and> gd_last_emergency_close_at g' = now \<and>
      gd_emergency_close_count g' = gd_emergency_close_count g + 1))"
proof (cases "mg_enabled (gd_config g)")
  case True
  obtain closes g1 w1 where e: "act_emergency cb now snap g w = (closes, g1, w1)" by (cases "act_emergency cb now snap g w")
  obtain ts g2 w2 where t: "act_tighten cb snap g1 w1 = (ts, g2, w2)" by (cases "act_tighten cb snap g1 w1")
  show ?thesis using assms True e t act_emergency_cases [OF e] act_tighten_keeps [OF t]
    by (auto simp: guard_act_def Let_def split: if_splits)
qed (use assms in \<open>simp add: guard_act_def\<close>)

lemma evaluate_keeps:
  "guard_evaluate equity margin free g = (snap, g') \<Longrightarrow> gd_config g' = gd_config g \<and>
    gd_last_emergency_close_at g' = gd_last_emergency_close_at g \<and> gd_emergency_close_count g' = gd_emergency_close_count g \<and>
    (ms_should_emergency_close snap \<longleftrightarrow> below (margin_level_of equity margin) (mg_emergency_close_level (gd_config g)))"
  by (auto simp: guard_evaluate_def Let_def)

lemma tick_cases:
  assumes "run_margin_guard cb now info g w = (g', w')"
  shows "gd_config g' = gd_config g \<and>
    ((gd_last_emergency_close_at g' = gd_last_emergency_close_at g \<and> gd_emergency_close_count g' = gd_emergency_close_count g) \<or>
     (emergency_due now g \<and> gd_last_emergency_close_at g' = now \<and> gd_emergency_close_count g' = gd_emergency_close_count g + 1 \<and>
      (\<exists>i. info = ok i \<and> below (margin_level_of (or_zero (am_equity i)) (or_zero (am_margin i))) (mg_emergency_close_level (gd_config g)))))"
proof (cases "\<exists>i. info = ok i \<and> mg_enabled (gd_config g) \<and> 0 < or_zero (am_equity i)")
  case True
  then obtain i where i: "info = ok i" "mg_enabled (gd_config g)" "0 < or_zero (am_equity i)" by blast
  let ?free = "if or_zero (am_margin_free i) \<noteq> 0 then or_zero (am_margin_free i) else or_zero (am_free_margin i)"
  obtain snap g1 where e: "guard_evaluate (or_zero (am_equity i)) (or_zero (am_margin i)) ?free g = (snap, g1)"
    by (cases "guard_evaluate (or_zero (am_equity i)) (or_zero (am_margin i)) ?free g")
  obtain as where act: "guard_act cb now snap g1 w = (as, g', w')"
    using assms i e by (cases "guard_act cb now snap g1 w") (simp add: run_margin_guard_def Let_def)
  have "emergency_due now g1 = emergency_due now g" using evaluate_keeps [OF e] by (simp add: emergency_due_def)
  then show ?thesis using guard_act_cases [OF act] evaluate_keeps [OF e] i by simp argo
next
  case False
  then have "g' = g" using assms by (auto simp: run_margin_guard_def not_less split: sum.splits if_splits)
  then show ?thesis by simp
qed

section \<open>Runs\<close>

fun guard_run :: "'w guard_callbacks \<Rightarrow> (rat \<times> account_margin res) list \<Rightarrow> margin_guard \<Rightarrow> 'w \<Rightarrow> margin_guard \<times> 'w" where
  "guard_run cb [] g w = (g, w)"
| "guard_run cb ((now, info) # ticks) g w = (let (g', w') = run_margin_guard cb now info g w in guard_run cb ticks g' w')"

text \<open>The same run under observation: the callbacks write into a log next to the world, for every
  call of a closing callback, its time and whether it returned (a call that raises may have closed
  something before). The guard does not see the log.\<close>

type_synonym close_log = "(rat \<times> bool) list"

definition logged_close :: "rat \<Rightarrow> ('w \<Rightarrow> pyval res \<times> 'w) \<Rightarrow> 'w \<times> close_log \<Rightarrow> pyval res \<times> 'w \<times> close_log" where
  "logged_close now close = (\<lambda>(w, lg). case close w of
      (Inl e, w') \<Rightarrow> (raise e, w', lg @ [(now, False)])
    | (Inr v, w') \<Rightarrow> (ok v, w', lg @ [(now, True)]))"

definition logged_callbacks :: "rat \<Rightarrow> 'w guard_callbacks \<Rightarrow> ('w \<times> close_log) guard_callbacks" where
  "logged_callbacks now cb = \<lparr>cb_close_worst = map_option (logged_close now) (cb_close_worst cb),
     cb_close_all = map_option (logged_close now) (cb_close_all cb),
     cb_tighten_stops = map_option (\<lambda>tighten factor (w, lg). case tighten factor w of (r, w') \<Rightarrow> (r, w', lg)) (cb_tighten_stops cb)\<rparr>"

fun logged_run :: "'w guard_callbacks \<Rightarrow> (rat \<times> account_margin res) list \<Rightarrow> margin_guard \<Rightarrow> 'w \<times> close_log \<Rightarrow>
    margin_guard \<times> 'w \<times> close_log" where
  "logged_run cb [] g wl = (g, wl)"
| "logged_run cb ((now, info) # ticks) g wl =
    (let (g', wl') = run_margin_guard (logged_callbacks now cb) now info g wl in logged_run cb ticks g' wl')"

text \<open>Every call is at least the cooldown after the last one before it that returned.\<close>

fun spaced :: "rat \<Rightarrow> rat \<Rightarrow> close_log \<Rightarrow> bool" where
  "spaced cooldown last_at [] = True"
| "spaced cooldown last_at ((t, returned) # lg) =
    (cooldown \<le> fl (t - last_at) \<and> spaced cooldown (if returned then t else last_at) lg)"

lemma spaced_pair:
  assumes "spaced cooldown last_at lg" "i < j" "j < length lg" "snd (lg ! i)" "\<forall>k. i < k \<and> k < j \<longrightarrow> \<not> snd (lg ! k)"
  shows "cooldown \<le> fl (fst (lg ! j) - fst (lg ! i))"
proof -
  have first: "cooldown \<le> fl (fst (lg ! j) - last_at)"
    if "spaced cooldown last_at lg" "j < length lg" "\<forall>k < j. \<not> snd (lg ! k)" for last_at j and lg :: close_log
    using that
  proof (induction lg arbitrary: j last_at)
    case (Cons c lg)
    then show ?case by (cases c; cases j) fastforce+
  qed simp
  show ?thesis using assms
  proof (induction lg arbitrary: i j last_at)
    case (Cons c lg)
    obtain t returned where c: "c = (t, returned)" by (cases c)
    obtain j' where j: "j = Suc j'" using Cons.prems(2) by (cases j) auto
    show ?case
    proof (cases i)
      case 0
      then have "\<forall>k < j'. \<not> snd (lg ! k)" using Cons.prems(5) j by (metis Suc_less_eq nth_Cons_Suc zero_less_Suc)
      then show ?thesis using first [of t lg j'] Cons.prems 0 c j by simp
    next
      case (Suc i')
      have "\<forall>k. i' < k \<and> k < j' \<longrightarrow> \<not> snd (lg ! k)" using Cons.prems(5) Suc j by (metis Suc_less_eq nth_Cons_Suc)
      then show ?thesis using Cons.IH [of "if returned then t else last_at" i' j'] Cons.prems Suc c j by simp
    qed
  qed simp
qed

definition closed_once :: "rat \<Rightarrow> margin_guard \<Rightarrow> string option \<Rightarrow> margin_guard \<Rightarrow> close_log \<Rightarrow> close_log \<Rightarrow> bool" where
  "closed_once now g r g' lg lg' \<longleftrightarrow>
    r = None \<and> g' = g \<and> (lg' = lg \<or> lg' = lg @ [(now, False)]) \<or>
    (\<exists>x. r = Some x \<and> x \<noteq> []) \<and> g' = g\<lparr>gd_emergency_close_count := gd_emergency_close_count g + 1\<rparr> \<and> lg' = lg @ [(now, True)]"

lemma logged_close_run:
  assumes "run_close label (logged_close now close) g (w, lg) = (r, g', w', lg')" "label \<noteq> []"
  shows "run_close label close g w = (r, g', w') \<and> closed_once now g r g' lg lg'"
proof (cases "close w")
  case (Pair a b)
  then show ?thesis using assms by (cases a) (auto simp: run_close_def logged_close_def closed_once_def)
qed

lemma logged_emergency_close:
  assumes "do_emergency_close (logged_callbacks now cb) strategy g (w, lg) = (r, g', w', lg')"
  shows "do_emergency_close cb strategy g w = (r, g', w') \<and> closed_once now g r g' lg lg'"
proof -
  have worst: ?thesis if "strategy \<noteq> ''all'' \<or> cb_close_all cb = None"
  proof (cases "cb_close_worst cb")
    case None
    then show ?thesis using assms that
      by (auto simp: do_emergency_close_def logged_callbacks_def closed_once_def split: option.splits bool.splits)
  next
    case (Some close)
    then have "run_close ''emergency_close_worst:'' (logged_close now close) g (w, lg) = (r, g', w', lg')"
      "do_emergency_close cb strategy g w = run_close ''emergency_close_worst:'' close g w"
      using assms that by (auto simp: do_emergency_close_def logged_callbacks_def split: option.splits bool.splits)
    then show ?thesis using logged_close_run [of "''emergency_close_worst:''"] by simp
  qed
  show ?thesis
  proof (cases "strategy = ''all'' \<and> cb_close_all cb \<noteq> None")
    case True
    then obtain close where "cb_close_all cb = Some close" by blast
    then have "run_close ''emergency_close_all:'' (logged_close now close) g (w, lg) = (r, g', w', lg')"
      "do_emergency_close cb strategy g w = run_close ''emergency_close_all:'' close g w"
      using assms True by (simp_all add: do_emergency_close_def logged_callbacks_def)
    then show ?thesis using logged_close_run [of "''emergency_close_all:''"] by simp
  qed (use worst in blast)
qed

lemma act_emergency_idle:
  "\<not> (ms_should_emergency_close snap \<and> emergency_due now g) \<Longrightarrow> act_emergency cb now snap g w = ([], g, w)"
  unfolding act_emergency_def by (rule if_not_P)

lemma logged_emergency:
  assumes "act_emergency (logged_callbacks now cb) now snap g (w, lg) = (as, g', w', lg')"
  shows "act_emergency cb now snap g w = (as, g', w') \<and> (g' = g \<and> lg' = lg \<or>
    ms_should_emergency_close snap \<and> emergency_due now g \<and> (\<exists>returned. lg' = lg @ [(now, returned)] \<and>
      g' = (if returned then g\<lparr>gd_emergency_close_count := gd_emergency_close_count g + 1, gd_last_emergency_close_at := now\<rparr> else g)))"
proof (cases "ms_should_emergency_close snap \<and> emergency_due now g")
  case True
  obtain r g1 w1 lg1 where d: "do_emergency_close (logged_callbacks now cb) (ms_emergency_strategy snap) g (w, lg) = (r, g1, w1, lg1)"
    by (metis prod.exhaust)
  from logged_emergency_close [OF d] have plain: "do_emergency_close cb (ms_emergency_strategy snap) g w = (r, g1, w1)"
    and once: "closed_once now g r g1 lg lg1" by simp_all
  show ?thesis
  proof (cases r)
    case None
    then show ?thesis using assms True d plain once by (auto simp: act_emergency_def closed_once_def)
  next
    case (Some x)
    then show ?thesis using assms True d plain once by (auto simp: act_emergency_def closed_once_def)
  qed
qed (use assms act_emergency_idle in \<open>metis Pair_inject\<close>)

lemma logged_tighten:
  assumes "act_tighten (logged_callbacks now cb) snap g (w, lg) = (as, g', w', lg')"
  shows "act_tighten cb snap g w = (as, g', w') \<and> lg' = lg"
  using assms by (auto simp: act_tighten_def logged_callbacks_def split: option.splits sum.splits prod.splits if_splits)

text \<open>One observed tick is the tick, and logs at most one call, which was due.\<close>

definition close_logged :: "rat \<Rightarrow> bool \<Rightarrow> margin_guard \<Rightarrow> margin_guard \<Rightarrow> close_log \<Rightarrow> bool" where
  "close_logged now wanted g g' calls \<longleftrightarrow> gd_config g' = gd_config g \<and>
    ((calls = [] \<or> calls = [(now, False)] \<and> wanted \<and> emergency_due now g) \<and>
       gd_last_emergency_close_at g' = gd_last_emergency_close_at g \<and> gd_emergency_close_count g' = gd_emergency_close_count g \<or>
     calls = [(now, True)] \<and> wanted \<and> emergency_due now g \<and>
       gd_last_emergency_close_at g' = now \<and> gd_emergency_close_count g' = gd_emergency_close_count g + 1)"

lemma logged_act:
  assumes "guard_act (logged_callbacks now cb) now snap g (w, lg) = (as, g', w', lg')"
  obtains calls where "guard_act cb now snap g w = (as, g', w')" "lg' = lg @ calls"
    "close_logged now (ms_should_emergency_close snap) g g' calls"
proof (cases "mg_enabled (gd_config g)")
  case True
  obtain closes g1 w1 log1 where e: "act_emergency (logged_callbacks now cb) now snap g (w, lg) = (closes, g1, w1, log1)"
    by (metis prod.exhaust)
  obtain ts g2 w2 log2 where t: "act_tighten (logged_callbacks now cb) snap g1 (w1, log1) = (ts, g2, w2, log2)"
    by (metis prod.exhaust)
  have same: "guard_act cb now snap g w = (as, g', w')" "lg' = log1"
    "gd_config g' = gd_config g2" "gd_last_emergency_close_at g' = gd_last_emergency_close_at g2"
    "gd_emergency_close_count g' = gd_emergency_close_count g2"
    using assms True e t logged_emergency [OF e] logged_tighten [OF t] by (auto simp: guard_act_def Let_def split: if_splits)
  have g2: "gd_config g2 = gd_config g1 \<and> gd_last_emergency_close_at g2 = gd_last_emergency_close_at g1 \<and>
      gd_emergency_close_count g2 = gd_emergency_close_count g1"
    by (rule act_tighten_keeps [OF conjunct1 [OF logged_tighten [OF t]]])
  from logged_emergency [OF e] consider "g1 = g" "log1 = lg"
    | returned where "ms_should_emergency_close snap" "emergency_due now g" "log1 = lg @ [(now, returned)]"
        "g1 = (if returned then g\<lparr>gd_emergency_close_count := gd_emergency_close_count g + 1, gd_last_emergency_close_at := now\<rparr> else g)"
    by blast
  then show thesis
  proof cases
    case 1
    then show thesis using that [of "[]"] same g2 by (simp add: close_logged_def)
  next
    case 2
    then show thesis using that [of "[(now, returned)]"] same g2 by (cases returned) (simp_all add: close_logged_def)
  qed
qed (use assms that [of "[]"] in \<open>simp add: guard_act_def close_logged_def\<close>)

definition emergency_level :: "margin_guard_config \<Rightarrow> account_margin res \<Rightarrow> bool" where
  "emergency_level config info = (case info of Inl _ \<Rightarrow> False
     | Inr i \<Rightarrow> 0 < or_zero (am_equity i) \<and> 0 < or_zero (am_margin i) \<and>
         fl (fl (or_zero (am_equity i) / or_zero (am_margin i)) * 100) < mg_emergency_close_level config)"

lemma logged_tick:
  assumes "run_margin_guard (logged_callbacks now cb) now info g (w, lg) = (g', w', lg')"
  obtains calls where "run_margin_guard cb now info g w = (g', w')" "lg' = lg @ calls"
    "close_logged now (emergency_level (gd_config g) info) g g' calls"
proof (cases "\<exists>i. info = ok i \<and> mg_enabled (gd_config g) \<and> 0 < or_zero (am_equity i)")
  case True
  then obtain i where i: "info = ok i" "mg_enabled (gd_config g)" "0 < or_zero (am_equity i)" by blast
  let ?free = "if or_zero (am_margin_free i) \<noteq> 0 then or_zero (am_margin_free i) else or_zero (am_free_margin i)"
  obtain snap g1 where e: "guard_evaluate (or_zero (am_equity i)) (or_zero (am_margin i)) ?free g = (snap, g1)"
    by (cases "guard_evaluate (or_zero (am_equity i)) (or_zero (am_margin i)) ?free g")
  obtain as where act: "guard_act (logged_callbacks now cb) now snap g1 (w, lg) = (as, g', w', lg')"
    using assms i e by (cases "guard_act (logged_callbacks now cb) now snap g1 (w, lg)") (simp add: run_margin_guard_def Let_def)
  from logged_act [OF act] obtain calls where calls: "guard_act cb now snap g1 w = (as, g', w')" "lg' = lg @ calls"
    "close_logged now (ms_should_emergency_close snap) g1 g' calls" .
  have "ms_should_emergency_close snap = emergency_level (gd_config g) info"
    using evaluate_keeps [OF e] i by (auto simp: emergency_level_def below_def margin_level_of_def split: if_splits)
  then have "close_logged now (emergency_level (gd_config g) info) g g' calls"
    using calls(3) evaluate_keeps [OF e] unfolding close_logged_def emergency_due_def by simp
  moreover have "run_margin_guard cb now info g w = (g', w')" using i e calls(1) by (simp add: run_margin_guard_def Let_def)
  ultimately show thesis using that calls(2) by blast
next
  case False
  then have "g' = g" "w' = w" "lg' = lg" "run_margin_guard cb now info g w = (g', w')"
    using assms by (auto simp: run_margin_guard_def not_less split: sum.splits if_splits)
  then show thesis using that [of "[]"] by (simp add: close_logged_def)
qed

lemma logged_run_calls:
  assumes "logged_run cb ticks g (w, lg) = (g', w', lg')"
  shows "\<exists>calls. lg' = lg @ calls \<and> guard_run cb ticks g w = (g', w') \<and>
    spaced (mg_emergency_close_cooldown (gd_config g)) (gd_last_emergency_close_at g) calls \<and>
    gd_emergency_close_count g' = gd_emergency_close_count g + int (length (filter snd calls)) \<and>
    (\<exists>chosen. map fst calls = nths (map fst (filter (\<lambda>(now, info). emergency_level (gd_config g) info) ticks)) chosen)"
  using assms
proof (induction ticks arbitrary: g w lg)
  case (Cons tick ticks)
  obtain now info where tick: "tick = (now, info)" by (cases tick)
  obtain g1 w1 log1 where r: "run_margin_guard (logged_callbacks now cb) now info g (w, lg) = (g1, w1, log1)"
    by (metis prod.exhaust)
  from logged_tick [OF r] obtain c where c: "run_margin_guard cb now info g w = (g1, w1)" "log1 = lg @ c"
    "close_logged now (emergency_level (gd_config g) info) g g1 c" .
  obtain calls where calls: "lg' = log1 @ calls" "guard_run cb ticks g1 w1 = (g', w')"
    "spaced (mg_emergency_close_cooldown (gd_config g1)) (gd_last_emergency_close_at g1) calls"
    "gd_emergency_close_count g' = gd_emergency_close_count g1 + int (length (filter snd calls))"
    "\<exists>chosen. map fst calls = nths (map fst (filter (\<lambda>(now, info). emergency_level (gd_config g1) info) ticks)) chosen"
    using Cons.IH [of g1 w1 log1] Cons.prems r tick by auto
  have cfg: "gd_config g1 = gd_config g" using c(3) by (simp add: close_logged_def)
  let ?due = "\<lambda>ticks. map fst (filter (\<lambda>(now, info). emergency_level (gd_config g) info) ticks)"
  obtain chosen where chosen: "map fst calls = nths (?due ticks) chosen" using calls(5) cfg by auto
  have "\<exists>chosen. map fst (c @ calls) = nths (?due (tick # ticks)) chosen"
  proof (cases "emergency_level (gd_config g) info")
    case True
    let ?more = "Suc ` chosen \<union> (if c = [] then {} else {0})"
    have "{j. Suc j \<in> ?more} = chosen" by auto
    moreover have "map fst c = (if c = [] then [] else [now])" using c(3) by (auto simp: close_logged_def)
    ultimately have "map fst (c @ calls) = nths (?due (tick # ticks)) ?more"
      using True chosen by (simp add: tick nths_Cons)
    then show ?thesis ..
  next
    case False
    then have "c = []" using c(3) by (auto simp: close_logged_def)
    then show ?thesis using False chosen by (auto simp: tick)
  qed
  then show ?case using c calls(1-4) tick cfg
    by (intro exI [of _ "c @ calls"] conjI) (auto simp: close_logged_def emergency_due_def)
qed simp

section \<open>The worst position\<close>

lemma min_profit_least:
  "min_profit best ps \<in> set (best # ps) \<and> (\<forall>p \<in> set (best # ps). profit_of (min_profit best ps) \<le> profit_of p)"
proof (induction ps arbitrary: best)
  case (Cons p ps)
  show ?case using Cons [of "if profit_of p < profit_of best then p else best"] by (cases "profit_of p < profit_of best") auto
qed simp

section \<open>Tightening\<close>

text \<open>The stop-tightening callback of the wiring, on the position manager's multiplier and number of
  positions, with no closing callbacks.\<close>

definition tighten_callbacks :: "(rat \<times> int) guard_callbacks" where
  "tighten_callbacks = \<lparr>cb_close_worst = None, cb_close_all = None,
     cb_tighten_stops = Some (\<lambda>f w. let (n, w') = tighten_trailing_stops f w in (ok n, w'))\<rparr>"

lemma tightened_bounds:
  assumes "0 < f" "f \<le> 3 / 4" "0 < m"
  shows "0 < fl (m * f)" "fl (m * f) \<le> 7 / 8 * m"
proof -
  show "0 < fl (m * f)" using assms by (simp add: fl_pos_iff)
  have "\<bar>m * f\<bar> = m * f" using assms by simp
  then have "fl (m * f) \<le> m * f + m * f / 2 ^ 53"
    using abs_le_D1 [OF fl_error [of "m * f"]] by linarith
  also have "m * f + m * f / 2 ^ 53 \<le> m * (3 / 4) + m * (3 / 4) / 2 ^ 53"
    using assms by (intro add_mono divide_right_mono mult_left_mono) auto
  also have "\<dots> \<le> 7 / 8 * m" using assms by simp
  finally show "fl (m * f) \<le> 7 / 8 * m" .
qed

lemma tighten_step:
  assumes "0 < f" "f \<le> 3 / 4" "0 < m"
  shows "tighten_trailing_stops f (m, n) = (n, fl (m * f), n)"
proof -
  have "fl (m * f) < m" using tightened_bounds(2) [OF assms] assms(3) by simp
  then show ?thesis using tightened_bounds(1) [OF assms] by (simp add: tighten_trailing_stops_def Let_def)
qed

lemma tighten_tick:
  assumes cfg: "mg_enabled (gd_config g)" "mg_tighten_stops_factor (gd_config g) = f" "0 < f" "f \<le> 3 / 4" and "0 < m"
    and info: "0 < or_zero (am_equity i)" "below (margin_level_of (or_zero (am_equity i)) (or_zero (am_margin i))) (mg_tighten_stops_level (gd_config g))"
  shows "\<exists>g'. run_margin_guard tighten_callbacks now (ok i) g (m, n) = (g', fl (m * f), n) \<and> gd_config g' = gd_config g"
proof -
  have snd: "snd (snd (guard_act tighten_callbacks now snap g1 (m, n))) = (fl (m * f), n)"
    if "mg_enabled (gd_config g1)" "ms_should_tighten_stops snap" "ms_tighten_factor snap = f" for snap g1
    using that tighten_step [OF cfg(3,4) assms(5), of n]
    by (simp add: guard_act_def act_emergency_def do_emergency_close_def act_tighten_def tighten_callbacks_def Let_def
        split: prod.splits option.splits bool.splits if_splits)
  obtain g' w' where r: "run_margin_guard tighten_callbacks now (ok i) g (m, n) = (g', w')"
    by (cases "run_margin_guard tighten_callbacks now (ok i) g (m, n)")
  define free where "free = (if or_zero (am_margin_free i) \<noteq> 0 then or_zero (am_margin_free i) else or_zero (am_free_margin i))"
  let ?e = "guard_evaluate (or_zero (am_equity i)) (or_zero (am_margin i)) free g"
  have "ms_should_tighten_stops (fst ?e)" "ms_tighten_factor (fst ?e) = f" "mg_enabled (gd_config (snd ?e))"
    using cfg(1,2) info by (simp_all add: guard_evaluate_def Let_def)
  moreover have "w' = snd (snd (guard_act tighten_callbacks now (fst ?e) (snd ?e) (m, n)))"
    using r cfg(1) info(1) by (simp add: run_margin_guard_def Let_def case_prod_beta free_def [symmetric])
  ultimately have "w' = (fl (m * f), n)" using snd by simp
  then show ?thesis using r tick_cases [OF r] by simp
qed

section \<open>Properties\<close>

text \<open>C27: Emergency closings keep their distance. Over any run of reconcile ticks, whatever the
  account reports, whatever the callbacks do and whatever the clock shows, observe every call of a
  closing callback, whether it returns or raises: each call is made at a tick at which the margin
  level is below the emergency level, at most one per tick; it comes at least the cooldown after
  the last call before it that returned; and the guard's counter goes up by exactly the number of
  calls that returned. A call that raises starts no cooldown and is not counted. Observing the
  calls changes neither the guard nor what the callbacks do.\<close>

theorem emergency_closes_spaced:
  "let (g', w', lg) = logged_run cb ticks g (w, [])
   in guard_run cb ticks g w = (g', w') \<and>
     (\<exists>chosen. map fst lg = nths (map fst (filter (\<lambda>(now, info). emergency_level (gd_config g) info) ticks)) chosen) \<and>
     (\<forall>i j. i < j \<and> j < length lg \<and> snd (lg ! i) \<and> (\<forall>k. i < k \<and> k < j \<longrightarrow> \<not> snd (lg ! k)) \<longrightarrow>
       mg_emergency_close_cooldown (gd_config g) \<le> fl (fst (lg ! j) - fst (lg ! i))) \<and>
     gd_emergency_close_count g' = gd_emergency_close_count g + int (length (filter snd lg))"
proof -
  obtain g' w' lg where r: "logged_run cb ticks g (w, []) = (g', w', lg)" by (metis prod.exhaust)
  show ?thesis using logged_run_calls [OF r] spaced_pair by (simp add: r) blast
qed

text \<open>A better funded account is never treated worse: with the same margin and more equity the
  alert state is not more severe, and each of blocking, tightening and emergency closing is asked
  for only if it was with less; all roundings included, for any thresholds.\<close>

theorem margin_alert_monotone:
  assumes "0 < margin" and "equity \<le> equity'"
  shows "ms_state (fst (guard_evaluate equity' margin free' g)) \<le> ms_state (fst (guard_evaluate equity margin free g)) \<and>
    (ms_should_block_new_trades (fst (guard_evaluate equity' margin free' g)) \<longrightarrow> ms_should_block_new_trades (fst (guard_evaluate equity margin free g))) \<and>
    (ms_should_tighten_stops (fst (guard_evaluate equity' margin free' g)) \<longrightarrow> ms_should_tighten_stops (fst (guard_evaluate equity margin free g))) \<and>
    (ms_should_emergency_close (fst (guard_evaluate equity' margin free' g)) \<longrightarrow> ms_should_emergency_close (fst (guard_evaluate equity margin free g)))"
proof -
  obtain l l' where l: "margin_level_of equity margin = Some l" "margin_level_of equity' margin = Some l'" "l \<le> l'"
    using margin_level_mono [OF assms] .
  then have mono: "below (margin_level_of equity' margin) t \<Longrightarrow> below (margin_level_of equity margin) t" for t
    using below_mono by blast
  show ?thesis using margin_state_antimono [OF mono] mono by (simp add: guard_evaluate_def Let_def)
qed

text \<open>An emergency closes the worst position. With the guard wired to the trading module, when
  the margin level is below the emergency level, the cooldown is over and the strategy is not to
  close everything, the guard closes the open position with the lowest profit and with a valid
  ticket, and records the time.\<close>

theorem emergency_closes_worst:
  assumes "wire_margin_guard pf tp tighten section = Some (g0, cb)" and "gd_config g = gd_config g0"
    and "0 < margin" and "fl (fl (equity / margin) * 100) < mg_emergency_close_level (gd_config g)"
    and "emergency_due now g" and "mg_emergency_close_strategy (gd_config g) \<noteq> ''all''"
    and "tp_get_positions tp w = (ok (p # ps), wa)" and "\<forall>q \<in> set (p # ps). 0 < op_ticket q"
    and "\<And>q. q \<in> set (p # ps) \<Longrightarrow> tp_close_position tp (op_ticket q) ''margin_guard_emergency'' wa = (ok (res q), wb q)"
  shows "\<exists>q \<in> set (p # ps). (\<forall>r \<in> set (p # ps). profit_of q \<le> profit_of r) \<and>
    (let (snap, g1) = guard_evaluate equity margin free g; (actions, g2, w') = act_emergency cb now snap g1 w
     in w' = wb q \<and> gd_last_emergency_close_at g2 = now \<and> gd_emergency_close_count g2 = gd_emergency_close_count g + 1)"
proof -
  let ?q = "min_profit p ps"
  have q: "?q \<in> set (p # ps)" "\<forall>r \<in> set (p # ps). profit_of ?q \<le> profit_of r" using min_profit_least [of p ps] by auto
  have cb: "cb_close_worst cb = Some (close_worst tp)"
    using assms(1) by (auto simp: wire_margin_guard_def Let_def split: if_splits)
  have "0 < op_ticket ?q" using q(1) assms(8) by blast
  then have close: "close_worst tp w = (ok (VDict [(''ticket'', VInt (op_ticket ?q)), (''result'', res ?q)]), wb ?q)"
    using assms(7) assms(9) [OF q(1)] by (simp add: close_worst_def Let_def)
  show ?thesis
  proof (intro bexI [OF _ q(1)] conjI q(2))
    show "let (snap, g1) = guard_evaluate equity margin free g; (actions, g2, w') = act_emergency cb now snap g1 w
       in w' = wb ?q \<and> gd_last_emergency_close_at g2 = now \<and> gd_emergency_close_count g2 = gd_emergency_close_count g + 1"
      using assms(3-6) cb close
      by (simp add: guard_evaluate_def act_emergency_def do_emergency_close_def run_close_def emergency_due_def
          margin_level_of_def below_def Let_def)
  qed
qed

text \<open>Tightening compounds without bound. As long as the margin level stays below the
  tightening level, every reconcile tick multiplies the trailing multiplier by the factor again:
  after n ticks it is at most 7/8 to the n of what it was, for every factor up to three quarters,
  and nothing in the guard ever raises it.\<close>

theorem tightening_compounds:
  assumes "mg_enabled (gd_config g)" and "0 < mg_tighten_stops_factor (gd_config g)" and "mg_tighten_stops_factor (gd_config g) \<le> 3 / 4"
    and "0 < m" and "\<forall>(now, info) \<in> set ticks. \<exists>i. info = ok i \<and> 0 < or_zero (am_equity i) \<and>
      below (margin_level_of (or_zero (am_equity i)) (or_zero (am_margin i))) (mg_tighten_stops_level (gd_config g))"
  shows "\<exists>m'. snd (guard_run tighten_callbacks ticks g (m, n)) = (m', n) \<and> 0 < m' \<and> m' \<le> (7 / 8) ^ length ticks * m"
  using assms
proof (induction ticks arbitrary: g m)
  case (Cons tick ticks)
  obtain now info where tick: "tick = (now, info)" by (cases tick)
  obtain i where i: "info = ok i" "0 < or_zero (am_equity i)"
      "below (margin_level_of (or_zero (am_equity i)) (or_zero (am_margin i))) (mg_tighten_stops_level (gd_config g))"
    using Cons.prems(5) tick by auto
  let ?f = "mg_tighten_stops_factor (gd_config g)"
  obtain g' where g': "run_margin_guard tighten_callbacks now info g (m, n) = (g', fl (m * ?f), n)" "gd_config g' = gd_config g"
    using tighten_tick [OF Cons.prems(1) refl Cons.prems(2-4) i(2,3)] i(1) by blast
  note b = tightened_bounds [OF Cons.prems(2-4)]
  from Cons.IH [of g' "fl (m * ?f)"] Cons.prems b(1) g'(2)
  obtain m' where m': "snd (guard_run tighten_callbacks ticks g' (fl (m * ?f), n)) = (m', n)" "0 < m'"
      "m' \<le> (7 / 8) ^ length ticks * fl (m * ?f)" by auto
  have "(7 / 8) ^ length ticks * fl (m * ?f) \<le> (7 / 8) ^ length ticks * (7 / 8 * m)"
    using b(2) by (intro mult_left_mono) simp_all
  with m'(3) have le: "m' \<le> (7 / 8) ^ length ticks * (7 / 8 * m)" by (rule order_trans)
  have eq: "(7 / 8) ^ length (tick # ticks) * m = (7 / 8) ^ length ticks * (7 / 8 * m)" by simp
  show ?case unfolding eq using m'(1,2) g' le by (simp add: tick)
qed simp

section \<open>Witnesses\<close>

definition margin_config_example :: margin_guard_config where
  "margin_config_example = load_margin_guard_config (\<lambda>_. None) []"

lemma margin_config_example_simps [simp]:
  "mg_enabled margin_config_example" "mg_emergency_close_level margin_config_example = 80"
  "mg_tighten_stops_level margin_config_example = 150" "mg_tighten_stops_factor margin_config_example = fl (6 / 10)"
  "mg_emergency_close_cooldown margin_config_example = 30" "mg_emergency_close_strategy margin_config_example = ''worst_first''"
  by (simp_all add: margin_config_example_def load_margin_guard_config_def section_bool_def section_float_def section_get_def str_eval)

definition positions_port_example :: "int list trade_port" where
  "positions_port_example = \<lparr>tp_get_positions = (\<lambda>w. (ok [\<lparr>op_ticket = 7, op_profit = Some 5\<rparr>, \<lparr>op_ticket = 8, op_profit = Some (- 3)\<rparr>], w)),
     tp_close_position = (\<lambda>t c w. (ok (VBool True), t # w)), tp_close_all_positions = (\<lambda>c w. (ok VNone, w))\<rparr>"

text \<open>Two closings of a run, the second after a call that raised.\<close>

definition failing_callbacks :: "nat guard_callbacks" where
  "failing_callbacks = \<lparr>cb_close_worst = Some (\<lambda>n. (if n = 1 then raise (RuntimeError ''timeout'') else ok VNone, n + 1)),
     cb_close_all = None, cb_tighten_stops = None\<rparr>"

definition low_margin :: account_margin where
  "low_margin = \<lparr>am_equity = Some 50, am_margin = Some 100, am_margin_free = None, am_free_margin = None\<rparr>"

definition ticks_example :: "(rat \<times> account_margin res) list" where
  "ticks_example = [(40, ok low_margin), (50, ok low_margin), (70, ok low_margin), (75, ok low_margin)]"

theorem emergency_closes_spaced_witness:
  "snd (snd (logged_run failing_callbacks ticks_example (MarginGuard margin_config_example) (0, []))) = [(40, True), (70, False), (75, True)] \<and>
    mg_emergency_close_cooldown margin_config_example \<le> fl (75 - 40) \<and>
    gd_emergency_close_count (fst (guard_run failing_callbacks ticks_example (MarginGuard margin_config_example) 0)) = 2"
proof -
  let ?lg = "[(40, True), (70, False), (75, True)] :: close_log" and ?g = "MarginGuard margin_config_example"
  have lg: "snd (snd (logged_run failing_callbacks ticks_example ?g (0, []))) = ?lg" by code_simp
  obtain g' w' where r: "logged_run failing_callbacks ticks_example ?g (0, []) = (g', w', ?lg)"
    using lg by (metis prod.exhaust_sel)
  have between: "\<forall>k. 0 < k \<and> k < 2 \<longrightarrow> \<not> snd (?lg ! k)" by (auto simp: less_2_cases_iff)
  note p = emergency_closes_spaced [of failing_callbacks ticks_example ?g 0, unfolded r prod.case Let_def]
  have "mg_emergency_close_cooldown (gd_config ?g) \<le> fl (fst (?lg ! 2) - fst (?lg ! 0))"
    using between
    by (intro conjunct1 [OF conjunct2 [OF conjunct2 [OF p]], THEN spec [of _ 0], THEN spec [of _ 2], THEN mp]) simp
  then show ?thesis using p lg by (simp add: MarginGuard_def)
qed

theorem margin_alert_monotone_witness:
  "ms_state (fst (guard_evaluate 300 100 0 (MarginGuard margin_config_example))) \<le>
    ms_state (fst (guard_evaluate 90 100 0 (MarginGuard margin_config_example)))"
  using margin_alert_monotone [of 100 90 300 0 "MarginGuard margin_config_example" 0] by simp

definition guard_example :: margin_guard where
  "guard_example = MarginGuard margin_config_example"

definition callbacks_example :: "int list guard_callbacks" where
  "callbacks_example = \<lparr>cb_close_worst = Some (close_worst positions_port_example),
     cb_close_all = Some (tp_close_all_positions positions_port_example ''margin_guard_emergency_all''),
     cb_tighten_stops = Some (\<lambda>_ w. (ok 0, w))\<rparr>"

theorem emergency_closes_worst_witness:
  "snd (snd (act_emergency callbacks_example 40 (fst (guard_evaluate 50 100 0 guard_example))
     (snd (guard_evaluate 50 100 0 guard_example)) [])) = [8]"
proof -
  have half: "fl (1 / 2) = 1 / 2" by (rule fl_representable [of _ 1 "- 1"]) (simp_all add: pow2_def)
  have wire: "wire_margin_guard (\<lambda>_. None) positions_port_example (\<lambda>_ w. (ok 0, w)) [] = Some (guard_example, callbacks_example)"
    by (simp add: wire_margin_guard_def guard_example_def callbacks_example_def margin_config_example_def [symmetric])
  have "\<exists>q \<in> set [\<lparr>op_ticket = 7, op_profit = Some 5\<rparr>, \<lparr>op_ticket = 8, op_profit = Some (- 3)\<rparr>].
      (\<forall>r \<in> set [\<lparr>op_ticket = 7, op_profit = Some 5\<rparr>, \<lparr>op_ticket = 8, op_profit = Some (- 3)\<rparr>]. profit_of q \<le> profit_of r) \<and>
      (let (snap, g1) = guard_evaluate 50 100 0 guard_example; (actions, g2, w') = act_emergency callbacks_example 40 snap g1 []
       in w' = [op_ticket q] \<and> gd_last_emergency_close_at g2 = 40 \<and>
          gd_emergency_close_count g2 = gd_emergency_close_count guard_example + 1)"
    by (rule emergency_closes_worst [OF wire, where res = "\<lambda>_. VBool True" and wa = "[]"])
      (auto simp: half guard_example_def MarginGuard_def emergency_due_def positions_port_example_def)
  then show ?thesis by (auto simp: profit_of_def split: prod.splits)
qed

theorem tightening_compounds_witness:
  "\<exists>m'. snd (guard_run tighten_callbacks (replicate 10 (0, ok \<lparr>am_equity = Some 100, am_margin = Some 100,
      am_margin_free = Some 0, am_free_margin = None\<rparr>)) guard_example (3, 2)) = (m', 2) \<and> m' \<le> (7 / 8) ^ 10 * 3"
proof -
  have "0 < fl (6 / 10)" "fl (6 / 10) \<le> 3 / 4"
    using tightened_bounds(1) [of "6 / 10" 1] fl_le_float [of "3 / 4" "6 / 10"] fl_representable [of "3 / 4" 3 "- 2"]
    by (simp_all add: pow2_def)
  then show ?thesis
    using tightening_compounds [of guard_example 3 "replicate 10 (0, ok \<lparr>am_equity = Some 100, am_margin = Some 100,
      am_margin_free = Some 0, am_free_margin = None\<rparr>)" 2]
    by (auto simp: guard_example_def MarginGuard_def or_zero_def margin_level_of_def below_def)
qed

end
