(* ===== verification/Strategy_Deployment.thy ===== *)
theory Strategy_Deployment
  imports Risk_Rules
begin

text \<open>
  Strategy deployments (\<open>signals/contracts/deployment.py\<close>): the contract that says in which
  environment a strategy may trade and under which guards, its dictionary form, and the checks
  the configuration has to pass. A payload is a dictionary of dynamic values; \<open>pf\<close> is the parser
  of \<open>float(text)\<close>. A status inside a payload is text, as in the configuration file.
\<close>

section \<open>The contract\<close>

datatype deployment_status = CANDIDATE | DEMO_VALIDATION | ACTIVE_GUARDED | ACTIVE

fun status_value :: "deployment_status \<Rightarrow> string" where
  "status_value CANDIDATE = ''candidate''"
| "status_value DEMO_VALIDATION = ''demo_validation''"
| "status_value ACTIVE_GUARDED = ''active_guarded''"
| "status_value ACTIVE = ''active''"

record deployment =
  dp_name :: string
  dp_status :: deployment_status
  dp_locked_timeframes :: "string list"
  dp_locked_sessions :: "string list"
  dp_min_final_confidence :: "rat option"
  dp_max_live_positions :: "int option"
  dp_require_pending_entry :: bool
  dp_demo_validation_required :: bool
  dp_robustness_tier :: "string option"
  dp_research_provenance :: "string option"

definition deployment_to_dict :: "deployment \<Rightarrow> pydict" where
  "deployment_to_dict d =
    [(''name'', VStr (dp_name d)), (''status'', VStr (status_value (dp_status d))),
     (''locked_timeframes'', VList (map VStr (dp_locked_timeframes d))),
     (''locked_sessions'', VList (map VStr (dp_locked_sessions d))),
     (''min_final_confidence'', opt_float (dp_min_final_confidence d)),
     (''max_live_positions'', opt_int (dp_max_live_positions d)),
     (''require_pending_entry'', VBool (dp_require_pending_entry d)),
     (''demo_validation_required'', VBool (dp_demo_validation_required d)),
     (''robustness_tier'', opt_str (dp_robustness_tier d)),
     (''research_provenance'', opt_str (dp_research_provenance d))]"

section \<open>Reading a payload\<close>

text \<open>The items of a list-valued option: a text is split at commas, a single value is one item.\<close>

definition option_items :: "pyval \<Rightarrow> pyval list" where
  "option_items value = (case value of
      VNone \<Rightarrow> []
    | VStr s \<Rightarrow> map VStr (split_char (CHR '','') [] s)
    | VList xs \<Rightarrow> xs
    | _ \<Rightarrow> [value])"

fun clean_items :: "(string \<Rightarrow> string) \<Rightarrow> string list \<Rightarrow> pyval list \<Rightarrow> string list" where
  "clean_items canon seen [] = []"
| "clean_items canon seen (item # items) =
    (let t = canon (py_str item)
     in if t = [] \<or> t \<in> set seen then clean_items canon seen items
        else t # clean_items canon (t # seen) items)"

definition normalize_timeframe :: "string \<Rightarrow> string" where
  "normalize_timeframe s = upper (strip s)"

definition normalize_timeframes :: "pyval \<Rightarrow> string list" where
  "normalize_timeframes value = clean_items normalize_timeframe [] (option_items value)"

definition normalize_sessions :: "pyval \<Rightarrow> string list" where
  "normalize_sessions value = clean_items (\<lambda>s. normalize_session_name (strip s)) [] (option_items value)"

definition maybe_float :: "(string \<Rightarrow> rat option) \<Rightarrow> pyval \<Rightarrow> rat option" where
  "maybe_float pf value = (if value = VNone then None
     else let text = strip (py_str value) in if text = [] then None else pf text)"

definition maybe_int :: "pyval \<Rightarrow> int option" where
  "maybe_int value = (if value = VNone then None
     else let text = strip (py_str value) in if text = [] then None else parse_int text)"

definition maybe_text :: "pyval \<Rightarrow> string option" where
  "maybe_text value = (if value = VNone then None else some_text (strip (py_str value)))"

definition coerce_bool :: "pyval \<Rightarrow> bool \<Rightarrow> bool" where
  "coerce_bool value dflt = (case value of
      VNone \<Rightarrow> dflt
    | VBool b \<Rightarrow> b
    | _ \<Rightarrow> let text = lower (strip (py_str value))
          in if text = [] then dflt else text \<in> {''1'', ''true'', ''yes'', ''on''})"

definition status_of_value :: "string \<Rightarrow> deployment_status res" where
  "status_of_value v = (case List.find (\<lambda>s. status_value s = v) [CANDIDATE, DEMO_VALIDATION, ACTIVE_GUARDED, ACTIVE] of
      Some s \<Rightarrow> ok s
    | None \<Rightarrow> raise (ValueError (repr_str v @ '' is not a valid StrategyDeploymentStatus'')))"

definition deployment_from_dict :: "(string \<Rightarrow> rat option) \<Rightarrow> string \<Rightarrow> pydict \<Rightarrow> deployment res" where
  "deployment_from_dict pf name raw =
    (if map_of raw ''status'' = None
     then raise (ValueError (''strategy_deployment.'' @ name @
       ''.status is required; live eligibility must be declared explicitly''))
     else rbind (status_of_value (lower (strip (py_str (dget raw ''status''))))) (\<lambda>status.
       ok \<lparr>dp_name = strip name, dp_status = status,
         dp_locked_timeframes = normalize_timeframes (dget raw ''locked_timeframes''),
         dp_locked_sessions = normalize_sessions (dget raw ''locked_sessions''),
         dp_min_final_confidence = maybe_float pf (dget raw ''min_final_confidence''),
         dp_max_live_positions = maybe_int (dget raw ''max_live_positions''),
         dp_require_pending_entry = coerce_bool (dget raw ''require_pending_entry'') False,
         dp_demo_validation_required = coerce_bool (dget raw ''demo_validation_required'') False,
         dp_robustness_tier = maybe_text (dget raw ''robustness_tier''),
         dp_research_provenance = maybe_text (dget raw ''research_provenance'')\<rparr>))"

section \<open>Rights\<close>

definition allows_runtime_evaluation :: "deployment \<Rightarrow> bool" where
  "allows_runtime_evaluation d = (dp_status d \<noteq> CANDIDATE)"

definition allows_live_execution :: "deployment \<Rightarrow> bool" where
  "allows_live_execution d = (dp_status d \<in> {ACTIVE, ACTIVE_GUARDED})"

definition allows_demo_validation :: "deployment \<Rightarrow> bool" where
  "allows_demo_validation d = (dp_status d \<in> {ACTIVE, ACTIVE_GUARDED, DEMO_VALIDATION})"

definition is_executable_in :: "string \<Rightarrow> deployment \<Rightarrow> bool res" where
  "is_executable_in environment d =
    (let env = lower (strip environment)
     in if env = [] then raise (ValueError (''is_executable_in: environment is required (non-empty); '' @
          ''callers must pass runtime_identity.environment''))
        else if env = ''demo'' then ok (allows_demo_validation d)
        else ok (allows_live_execution d))"

definition is_guarded :: "deployment \<Rightarrow> bool" where
  "is_guarded d = (dp_status d = ACTIVE_GUARDED)"

definition effective_min_confidence :: "rat option \<Rightarrow> rat \<Rightarrow> deployment \<Rightarrow> rat option" where
  "effective_min_confidence timeframe_baseline global_min_confidence d =
    (case dp_min_final_confidence d of
       Some c \<Rightarrow> Some c
     | None \<Rightarrow> if \<not> is_guarded d then None
              else let baseline = (case timeframe_baseline of Some b \<Rightarrow> b | None \<Rightarrow> global_min_confidence)
                   in Some (max (fl (50 / 100)) (fl (baseline + fl (5 / 100)))))"

section \<open>Validation of the configuration\<close>

text \<open>A deployment is given as an object or as a payload.\<close>

datatype deployment_source = Ready deployment | Payload pydict

fun normalize_strategy_deployments :: "(string \<Rightarrow> rat option) \<Rightarrow> (string \<times> deployment_source) list \<Rightarrow>
    (string \<times> deployment) list \<Rightarrow> (string \<times> deployment) list res" where
  "normalize_strategy_deployments pf [] acc = ok acc"
| "normalize_strategy_deployments pf ((raw_name, source) # rest) acc =
    (let name = strip raw_name
     in if name = [] then normalize_strategy_deployments pf rest acc
        else rbind (case source of Ready d \<Rightarrow> ok d | Payload p \<Rightarrow> deployment_from_dict pf name p) (\<lambda>d.
          normalize_strategy_deployments pf rest (AList.update name d acc)))"

definition contract_prefix :: "string \<Rightarrow> string" where
  "contract_prefix name = ''strategy_deployment.'' @ name @ '': ''"

text \<open>The two contracts ask for the same fields and differ in the name of the kind.\<close>

definition validate_contract :: "string \<Rightarrow> string \<Rightarrow> deployment \<Rightarrow> unit res" where
  "validate_contract kind name d =
    (let must = \<lambda>what. raise (ValueError (contract_prefix name @ kind @ '' strategy must set '' @ what))
     in if dp_locked_timeframes d = [] then must ''locked_timeframes''
        else if dp_locked_sessions d = [] then must ''locked_sessions''
        else if dp_max_live_positions d \<noteq> Some 1 then must ''max_live_positions=1''
        else if \<not> dp_require_pending_entry d then must ''require_pending_entry=true''
        else if \<not> dp_demo_validation_required d then must ''demo_validation_required=true''
        else ok ())"

definition validate_tf_specific_contract :: "string \<Rightarrow> deployment \<Rightarrow> unit res" where
  "validate_tf_specific_contract = validate_contract ''tf_specific''"

definition validate_guarded_contract :: "string \<Rightarrow> deployment \<Rightarrow> unit res" where
  "validate_guarded_contract = validate_contract ''active_guarded''"

definition is_zero_affinity_freeze :: "(string \<Rightarrow> rat option) \<Rightarrow> pydict \<Rightarrow> bool" where
  "is_zero_affinity_freeze pf mapping =
    list_all (\<lambda>key. case map_of mapping key of None \<Rightarrow> False
        | Some v \<Rightarrow> (case py_float_of pf v of Inl _ \<Rightarrow> False | Inr x \<Rightarrow> x = 0))
      [''trending'', ''ranging'', ''breakout'', ''uncertain'']"

definition locked_mismatch :: "string \<Rightarrow> string \<Rightarrow> string \<Rightarrow> string list \<Rightarrow> string list \<Rightarrow> unit res" where
  "locked_mismatch field policy name locked configured =
    (if locked \<noteq> [] \<and> configured \<noteq> [] \<and> set configured \<noteq> set locked
     then raise (ValueError (''strategy_deployment.'' @ name @ ''.'' @ field @ ''='' @ py_repr (VList (map VStr locked)) @
       '' does not match '' @ policy @ ''['' @ name @ '']='' @ py_repr (VList (map VStr configured))))
     else ok ())"

definition validate_deployment :: "(string \<times> string list) list \<Rightarrow> (string \<times> string list) list \<Rightarrow> string \<Rightarrow> deployment \<Rightarrow>
    unit res" where
  "validate_deployment tf_policy session_policy name d =
    (let configured = (\<lambda>policy. case map_of policy name of None \<Rightarrow> [] | Some xs \<Rightarrow> xs)
     in rbind (locked_mismatch ''locked_timeframes'' ''strategy_timeframes'' name (dp_locked_timeframes d)
                 (configured tf_policy)) (\<lambda>_.
        rbind (locked_mismatch ''locked_sessions'' ''strategy_sessions'' name (dp_locked_sessions d)
                 (configured session_policy)) (\<lambda>_.
        rbind (if dp_robustness_tier d = Some ''tf_specific'' then validate_tf_specific_contract name d else ok ()) (\<lambda>_.
        if dp_status d = ACTIVE \<and> dp_robustness_tier d = Some ''tf_specific''
        then raise (ValueError (contract_prefix name @ ''tf_specific strategy cannot use status=active; use active_guarded instead''))
        else if dp_status d = ACTIVE_GUARDED then validate_guarded_contract name d
        else ok ()))))"

fun validate_each :: "(string \<times> string list) list \<Rightarrow> (string \<times> string list) list \<Rightarrow> (string \<times> deployment) list \<Rightarrow>
    unit res" where
  "validate_each tf_policy session_policy [] = ok ()"
| "validate_each tf_policy session_policy ((name, d) # rest) =
    rbind (validate_deployment tf_policy session_policy name d) (\<lambda>_. validate_each tf_policy session_policy rest)"

text \<open>The dictionary comprehension over a policy: later entries of the same stripped name win.\<close>

definition policy_table :: "(pyval \<Rightarrow> string list) \<Rightarrow> (string \<times> pyval) list \<Rightarrow> (string \<times> string list) list" where
  "policy_table canon policy = fold (\<lambda>(name, value). AList.update (strip name) (canon value)) policy []"

definition validate_strategy_deployments :: "(string \<Rightarrow> rat option) \<Rightarrow> (string \<times> deployment_source) list \<Rightarrow> string list \<Rightarrow>
    (string \<times> pyval) list \<Rightarrow> (string \<times> pyval) list \<Rightarrow> (string \<times> pydict) list \<Rightarrow> (string \<times> deployment) list res" where
  "validate_strategy_deployments pf deployments known_strategies timeframes_policy sessions_policy affinity =
    (let known = filter (\<lambda>n. n \<noteq> []) (map strip known_strategies);
         tf_policy = policy_table normalize_timeframes timeframes_policy;
         session_policy = policy_table normalize_sessions sessions_policy
     in rbind (normalize_strategy_deployments pf deployments []) (\<lambda>normalized.
        let unknown = sort (filter (\<lambda>n. n \<notin> set known) (map fst normalized));
            frozen = sort (map fst (filter (\<lambda>(name, mapping). is_zero_affinity_freeze pf mapping) affinity))
        in if unknown \<noteq> []
           then raise (ValueError (''strategy_deployment references unregistered strategies: '' @ join '', '' unknown))
           else if frozen \<noteq> []
           then raise (ValueError (''Regime-affinity freeze is no longer allowed; migrate these strategies '' @
             ''to [strategy_deployment.<name>] status instead: '' @ join '', '' frozen))
           else rbind (validate_each tf_policy session_policy normalized) (\<lambda>_. ok normalized)))"

section \<open>Normal forms\<close>

text \<open>What reading a payload leaves: no empty text, no duplicate, every item a fixed point of its
  normalisation.\<close>

definition items_normal :: "(string \<Rightarrow> string) \<Rightarrow> string list \<Rightarrow> bool" where
  "items_normal canon xs \<longleftrightarrow> distinct xs \<and> (\<forall>x \<in> set xs. x \<noteq> [] \<and> canon x = x)"

definition text_normal :: "string option \<Rightarrow> bool" where
  "text_normal t = (case t of None \<Rightarrow> True | Some s \<Rightarrow> s \<noteq> [] \<and> strip s = s)"

definition deployment_normal :: "deployment \<Rightarrow> bool" where
  "deployment_normal d \<longleftrightarrow> strip (dp_name d) = dp_name d \<and> items_normal normalize_timeframe (dp_locked_timeframes d) \<and>
    items_normal (\<lambda>s. normalize_session_name (strip s)) (dp_locked_sessions d) \<and>
    text_normal (dp_robustness_tier d) \<and> text_normal (dp_research_provenance d)"

text \<open>What a guarded strategy and a strategy bound to one timeframe have to declare.\<close>

definition contract_complete :: "deployment \<Rightarrow> bool" where
  "contract_complete d \<longleftrightarrow> dp_locked_timeframes d \<noteq> [] \<and> dp_locked_sessions d \<noteq> [] \<and> dp_max_live_positions d = Some 1 \<and>
    dp_require_pending_entry d \<and> dp_demo_validation_required d"

lemma normalize_timeframe_idem: "normalize_timeframe (normalize_timeframe s) = normalize_timeframe s"
  by (simp add: normalize_timeframe_def strip_upper)

lemma normalize_session_idem: "normalize_session_name (strip (normalize_session_name s)) = normalize_session_name s"
  by (simp add: normalize_session_name_def strip_lower)

lemma clean_items_normal:
  assumes "\<And>s. canon (canon s) = canon s"
  shows "items_normal canon (clean_items canon seen items) \<and> set (clean_items canon seen items) \<inter> set seen = {}"
  by (induction items arbitrary: seen) (use assms in \<open>force simp: items_normal_def Let_def\<close>)+

lemma clean_items_fixed:
  "items_normal canon xs \<Longrightarrow> set xs \<inter> set seen = {} \<Longrightarrow> clean_items canon seen (map VStr xs) = xs"
  by (induction xs arbitrary: seen) (auto simp: items_normal_def Let_def)

section \<open>Texts read back\<close>

lemma maybe_int_opt: "maybe_int (opt_int x) = x"
  using int_str_stripped by (cases x) (simp_all add: maybe_int_def opt_int_def py_str_def parse_int_str)

lemma maybe_text_opt: "text_normal t \<Longrightarrow> maybe_text (opt_str t) = t"
  by (cases t) (simp_all add: maybe_text_def opt_str_def text_normal_def some_text_def)

lemma maybe_text_normal: "text_normal (maybe_text v)"
  by (simp add: maybe_text_def some_text_def text_normal_def)

lemma maybe_float_opt:
  "pf [] = None \<Longrightarrow> \<forall>c. x = Some c \<longrightarrow> pf (strip (repr_float c)) = Some c \<Longrightarrow> maybe_float pf (opt_float x) = x"
  by (cases x) (auto simp: maybe_float_def opt_float_def py_str_def Let_def)

lemma status_of_value_status: "status_of_value (lower (strip (status_value s))) = ok s"
  by (cases s) (simp_all add: status_of_value_def str_eval)

lemma from_dict_to_dict:
  assumes "deployment_normal d" and "pf [] = None"
    and "\<forall>c. dp_min_final_confidence d = Some c \<longrightarrow> pf (strip (repr_float c)) = Some c"
  shows "deployment_from_dict pf (dp_name d) (deployment_to_dict d) = ok d"
  using assms maybe_float_opt [OF assms(2,3)]
  by (simp add: deployment_from_dict_def deployment_to_dict_def dget_def deployment_normal_def status_of_value_status
      normalize_timeframes_def normalize_sessions_def option_items_def clean_items_fixed maybe_int_opt maybe_text_opt
      coerce_bool_def)

lemma from_dict_normal: "deployment_from_dict pf name raw = ok d \<Longrightarrow> deployment_normal d \<and> dp_name d = strip name"
  using clean_items_normal [of normalize_timeframe "[]", OF normalize_timeframe_idem]
    clean_items_normal [of "\<lambda>s. normalize_session_name (strip s)" "[]"]
  by (auto simp: deployment_from_dict_def deployment_normal_def normalize_timeframes_def normalize_sessions_def
      maybe_text_normal normalize_session_idem normalize_session_name_def strip_lower res_simps split: if_splits)

section \<open>Validation\<close>

text \<open>What holds of the dictionary built so far, and of it with one more entry, holds of the result.\<close>

lemma normalize_deployments_inv:
  assumes "normalize_strategy_deployments pf sources acc = ok ds" and "P acc"
    and "\<And>name source d acc. P acc \<Longrightarrow> strip name \<noteq> [] \<Longrightarrow> (name, source) \<in> set sources \<Longrightarrow>
      (case source of Ready e \<Rightarrow> ok e | Payload p \<Rightarrow> deployment_from_dict pf (strip name) p) = ok d \<Longrightarrow>
      P (AList.update (strip name) d acc)"
  shows "P ds"
  using assms
proof (induction sources arbitrary: acc)
  case (Cons entry rest)
  obtain name source where entry: "entry = (name, source)" by (cases entry)
  show ?case
  proof (cases "strip name = []")
    case True
    then show ?thesis using Cons.prems entry by (intro Cons.IH [of acc]) auto
  next
    case False
    with Cons.prems(1) entry obtain d where
      d: "(case source of Ready e \<Rightarrow> ok e | Payload p \<Rightarrow> deployment_from_dict pf (strip name) p) = ok d"
      and rest: "normalize_strategy_deployments pf rest (AList.update (strip name) d acc) = ok ds"
      by (auto simp: rbind_eq_Inr Let_def)
    show ?thesis
      by (rule Cons.IH [OF rest]) (use Cons.prems(2,3) entry False d in auto)
  qed
qed simp

lemma normalize_deployments_names:
  assumes "normalize_strategy_deployments pf sources [] = ok ds"
  shows "distinct (map fst ds) \<and> (\<forall>(n, d) \<in> set ds. n \<noteq> [] \<and> strip n = n)"
proof (rule normalize_deployments_inv [OF assms])
  fix name d and acc :: "(string \<times> deployment) list"
  assume "distinct (map fst acc) \<and> (\<forall>(n, d) \<in> set acc. n \<noteq> [] \<and> strip n = n)" "strip name \<noteq> []"
  then show "distinct (map fst (AList.update (strip name) d acc)) \<and>
      (\<forall>(n, d) \<in> set (AList.update (strip name) d acc). n \<noteq> [] \<and> strip n = n)"
    using set_update_subset [of "strip name" d acc] by (auto simp: distinct_update)
qed simp

lemma normalize_deployments_payloads:
  assumes "normalize_strategy_deployments pf sources [] = ok ds" and "\<forall>(n, s) \<in> set sources. \<exists>p. s = Payload p"
  shows "\<forall>(n, d) \<in> set ds. deployment_normal d \<and> dp_name d = n"
proof (rule normalize_deployments_inv [OF assms(1)])
  fix name source d and acc :: "(string \<times> deployment) list"
  assume acc: "\<forall>(n, d) \<in> set acc. deployment_normal d \<and> dp_name d = n" and "(name, source) \<in> set sources"
    and d: "(case source of Ready e \<Rightarrow> ok e | Payload p \<Rightarrow> deployment_from_dict pf (strip name) p) = ok d"
  then obtain p where "source = Payload p" using assms(2) by auto
  with d have "deployment_normal d" "dp_name d = strip name" using from_dict_normal by auto
  with acc show "\<forall>(n, d) \<in> set (AList.update (strip name) d acc). deployment_normal d \<and> dp_name d = n"
    using set_update_subset [of "strip name" d acc] by blast
qed simp

lemma validate_contract_ok: "validate_contract kind name d = ok u \<longleftrightarrow> contract_complete d"
  by (auto simp: validate_contract_def contract_complete_def Let_def)

definition deployment_checked :: "(string \<times> string list) list \<Rightarrow> (string \<times> string list) list \<Rightarrow> string \<Rightarrow> deployment \<Rightarrow> bool" where
  "deployment_checked tf_policy session_policy name d \<longleftrightarrow>
    (dp_status d = ACTIVE_GUARDED \<or> dp_robustness_tier d = Some ''tf_specific'' \<longrightarrow> contract_complete d) \<and>
    (dp_robustness_tier d = Some ''tf_specific'' \<longrightarrow> dp_status d \<noteq> ACTIVE) \<and>
    (\<forall>xs. map_of tf_policy name = Some xs \<and> xs \<noteq> [] \<and> dp_locked_timeframes d \<noteq> [] \<longrightarrow> set xs = set (dp_locked_timeframes d)) \<and>
    (\<forall>xs. map_of session_policy name = Some xs \<and> xs \<noteq> [] \<and> dp_locked_sessions d \<noteq> [] \<longrightarrow> set xs = set (dp_locked_sessions d))"

lemma locked_mismatch_ok:
  "locked_mismatch field policy name locked configured = ok u \<longleftrightarrow> (locked \<noteq> [] \<and> configured \<noteq> [] \<longrightarrow> set configured = set locked)"
  by (auto simp: locked_mismatch_def)

lemma validate_deployment_ok:
  "validate_deployment tf_policy session_policy name d = ok u \<longleftrightarrow> deployment_checked tf_policy session_policy name d"
  by (cases "map_of tf_policy name"; cases "map_of session_policy name")
    (auto simp: validate_deployment_def deployment_checked_def res_simps locked_mismatch_ok validate_tf_specific_contract_def
      validate_guarded_contract_def validate_contract_ok Let_def)

lemma validate_each_ok:
  "validate_each tf_policy session_policy ds = ok u \<longleftrightarrow>
    (\<forall>(name, d) \<in> set ds. deployment_checked tf_policy session_policy name d)"
  by (induction ds) (auto simp: res_simps validate_deployment_ok)

lemma validated_deployments:
  assumes "validate_strategy_deployments pf sources known tfs sessions affinity = ok ds"
  shows "normalize_strategy_deployments pf sources [] = ok ds" and "\<forall>(name, d) \<in> set ds. name \<in> strip ` set known"
    and "\<forall>(name, d) \<in> set ds.
      deployment_checked (policy_table normalize_timeframes tfs) (policy_table normalize_sessions sessions) name d"
proof -
  from assms show n: "normalize_strategy_deployments pf sources [] = ok ds"
    by (auto simp: validate_strategy_deployments_def Let_def res_simps split: if_splits)
  from assms have known: "sort (filter (\<lambda>n. n \<notin> set (filter (\<lambda>n. n \<noteq> []) (map strip known))) (map fst ds)) = []"
    and each: "validate_each (policy_table normalize_timeframes tfs) (policy_table normalize_sessions sessions) ds = ok ()"
    by (auto simp: validate_strategy_deployments_def Let_def res_simps split: if_splits)
  have "set (filter (\<lambda>n. n \<notin> set (filter (\<lambda>n. n \<noteq> []) (map strip known))) (map fst ds)) = {}"
    using arg_cong [OF known, of set] by (simp only: set_sort) simp
  then show "\<forall>(name, d) \<in> set ds. name \<in> strip ` set known" by auto
  show "\<forall>(name, d) \<in> set ds.
      deployment_checked (policy_table normalize_timeframes tfs) (policy_table normalize_sessions sessions) name d"
    using each unfolding validate_each_ok .
qed

section \<open>Properties\<close>

text \<open>C34: A validated configuration is well formed. Every deployment has a distinct, trimmed name of
  a registered strategy; a guarded strategy and one bound to a timeframe declare timeframes,
  sessions, a single position, pending entry and demo validation; a strategy bound to a
  timeframe is never simply active; locked timeframes and sessions are those of the strategy's
  policy; and what was read from payloads is in normal form.\<close>

theorem validated_deployments_well_formed:
  assumes "validate_strategy_deployments pf sources known tfs sessions affinity = ok ds"
  shows "distinct (map fst ds) \<and>
    (\<forall>(name, d) \<in> set ds. name \<noteq> [] \<and> strip name = name \<and> name \<in> strip ` set known \<and>
      deployment_checked (policy_table normalize_timeframes tfs) (policy_table normalize_sessions sessions) name d) \<and>
    ((\<forall>(n, s) \<in> set sources. \<exists>p. s = Payload p) \<longrightarrow> (\<forall>(name, d) \<in> set ds. deployment_normal d \<and> dp_name d = name))"
  using validated_deployments [OF assms] normalize_deployments_names normalize_deployments_payloads by fast

text \<open>Reading is a fixed point. A deployment read from any payload, written to its dictionary form
  and read again, is the same deployment, provided that \<open>float\<close> reads back the printed form of
  its confidence and refuses the empty text.\<close>

theorem deployment_roundtrip:
  assumes "deployment_from_dict pf name raw = ok d" and "pf [] = None"
    and "\<forall>c. dp_min_final_confidence d = Some c \<longrightarrow> pf (strip (repr_float c)) = Some c"
  shows "deployment_from_dict pf (dp_name d) (deployment_to_dict d) = ok d"
  using from_dict_to_dict [OF _ assms(2,3)] from_dict_normal [OF assms(1)] by simp

section \<open>Witnesses\<close>

definition half_parser :: "string \<Rightarrow> rat option" where
  "half_parser s = (if s = ''0.5'' then Some (1 / 2) else None)"

definition guarded_payload :: pydict where
  "guarded_payload = [(''status'', VStr '' Active_Guarded''), (''locked_timeframes'', VStr ''m15, M30,m15''),
     (''locked_sessions'', VList [VStr ''London '']), (''max_live_positions'', VStr ''1''),
     (''require_pending_entry'', VStr ''true''), (''demo_validation_required'', VBool True),
     (''min_final_confidence'', VStr ''0.5'')]"

definition guarded_example :: deployment where
  "guarded_example = \<lparr>dp_name = ''trend'', dp_status = ACTIVE_GUARDED, dp_locked_timeframes = [''M15'', ''M30''],
     dp_locked_sessions = [''london''], dp_min_final_confidence = Some (1 / 2), dp_max_live_positions = Some 1,
     dp_require_pending_entry = True, dp_demo_validation_required = True, dp_robustness_tier = None,
     dp_research_provenance = None\<rparr>"

lemma guarded_example_read: "deployment_from_dict half_parser ''trend'' guarded_payload = ok guarded_example"
  by code_simp

lemma guarded_example_validated:
  "validate_strategy_deployments half_parser [('' trend'', Payload guarded_payload)] [''trend''] [] [] [] = ok [(''trend'', guarded_example)]"
  by code_simp

theorem validated_deployments_well_formed_witness:
  "validate_strategy_deployments half_parser [('' trend'', Payload guarded_payload)] [''trend''] [] [] [] = ok [(''trend'', guarded_example)] \<and>
    contract_complete guarded_example"
  using validated_deployments_well_formed [OF guarded_example_validated]
  by (simp add: guarded_example_validated deployment_checked_def guarded_example_def)

theorem deployment_roundtrip_witness:
  "deployment_from_dict half_parser ''trend'' (deployment_to_dict guarded_example) = ok guarded_example"
proof -
  have half: "half_parser (strip (repr_float (1 / 2))) = Some (1 / 2)" by code_simp
  have "deployment_from_dict half_parser (dp_name guarded_example) (deployment_to_dict guarded_example) = ok guarded_example"
  proof (rule deployment_roundtrip [OF guarded_example_read])
    have "dp_min_final_confidence guarded_example = Some (1 / 2)" by (simp add: guarded_example_def)
    then show "\<forall>c. dp_min_final_confidence guarded_example = Some c \<longrightarrow> half_parser (strip (repr_float c)) = Some c"
      by (auto simp only: option.inject half)
  qed (simp add: half_parser_def)
  then show ?thesis by (simp add: guarded_example_def)
qed

end
