(* ===== verification/Execution_Health.thy ===== *)
theory Execution_Health
  imports Risk_Rules
begin

text \<open>
  The health of the data an order rests on, as the executor sees it
  (\<open>quote_health.py\<close>, \<open>market_data_health.py\<close>, \<open>tick_feature_health.py\<close>, \<open>intrabar_health.py\<close> of
  \<open>trading/execution\<close>, and the probes of \<open>TradeExecutor\<close> around them). Snapshots are dictionaries
  of dynamic values. The services are ports: the market service, the ingestor and the health
  store answer with a value or an exception; the clock and \<open>datetime.fromisoformat\<close> are arguments.
\<close>

section \<open>Dictionaries\<close>

definition safe_dict :: "pyval \<Rightarrow> pydict" where
  "safe_dict v = (case v of VDict d \<Rightarrow> d | _ \<Rightarrow> [])"

text \<open>\<open>d.get(key, value)\<close>.\<close>

definition dget_default :: "pydict \<Rightarrow> string \<Rightarrow> pyval \<Rightarrow> pyval" where
  "dget_default d k v = (case map_of d k of None \<Rightarrow> v | Some x \<Rightarrow> x)"

text \<open>\<open>str(x or "unknown")\<close>.\<close>

definition text_or_unknown :: "pyval \<Rightarrow> string" where
  "text_or_unknown v = py_str (py_or v (VStr ''unknown''))"

definition empty_symbol :: "string option \<Rightarrow> bool" where
  "empty_symbol symbol = (symbol = None \<or> symbol = Some [])"

definition symbol_value :: "string option \<Rightarrow> pyval" where
  "symbol_value symbol = opt_str symbol"

section \<open>Quotes\<close>

record market_port =
  mk_get_quote :: "string \<Rightarrow> pyval option res"
  mk_quote_stale_seconds :: "rat option"
  mk_stream_interval_seconds :: "rat option"

definition quote_verdict :: "bool \<Rightarrow> pydict" where
  "quote_verdict stale = [(''stale'', VBool stale), (''age_seconds'', VNone), (''stale_threshold_seconds'', VNone)]"

text \<open>\<open>float(getattr(settings, name, default) or default)\<close>.\<close>

definition setting_or :: "rat option \<Rightarrow> rat \<Rightarrow> rat" where
  "setting_or x d = (case x of None \<Rightarrow> d | Some v \<Rightarrow> if v = 0 then d else v)"

definition execution_stale_seconds :: "market_port \<Rightarrow> rat" where
  "execution_stale_seconds mk =
    (let api_stale = setting_or (mk_quote_stale_seconds mk) 1;
         stream_interval = setting_or (mk_stream_interval_seconds mk) api_stale
     in max (max 3 (fl (api_stale * 3))) (fl (stream_interval * 3)))"

text \<open>The port returns the quote's \<open>time\<close>, None for no quote.\<close>

definition build_execution_quote_health :: "datetime \<Rightarrow> market_port option \<Rightarrow> string option \<Rightarrow> pydict" where
  "build_execution_quote_health now market_service symbol =
    (case (market_service, symbol) of
       (Some mk, Some s) \<Rightarrow>
         if s = [] then quote_verdict False
         else (case mk_get_quote mk s of
             Inl e \<Rightarrow> quote_verdict True
           | Inr None \<Rightarrow> quote_verdict True
           | Inr (Some VNone) \<Rightarrow> quote_verdict True
           | Inr (Some (VTime t)) \<Rightarrow>
               let age = max 0 (total_seconds (utc_us now - utc_us t)); limit = execution_stale_seconds mk
               in [(''stale'', VBool (limit < age)), (''age_seconds'', VFloat (pyround age 3)),
                   (''stale_threshold_seconds'', VFloat (pyround limit 3))]
           | Inr (Some _) \<Rightarrow> quote_verdict False)
     | _ \<Rightarrow> quote_verdict False)"

text \<open>The executor's probe: the function is any callable, so its answer is a dynamic value.\<close>

definition quote_health :: "(string \<Rightarrow> pyval res) option \<Rightarrow> string \<Rightarrow> pydict" where
  "quote_health quote_health_fn symbol =
    (case quote_health_fn of
       None \<Rightarrow> quote_verdict False
     | Some probe \<Rightarrow> (case probe symbol of
           Inl e \<Rightarrow> quote_verdict True
         | Inr (VDict snapshot) \<Rightarrow> [(''stale'', VBool (truthy (dget snapshot ''stale''))),
             (''age_seconds'', dget snapshot ''age_seconds''),
             (''stale_threshold_seconds'', dget snapshot ''stale_threshold_seconds'')]
         | Inr _ \<Rightarrow> quote_verdict False))"

section \<open>Market data lanes\<close>

definition lane_matches_symbol :: "string \<Rightarrow> string option \<Rightarrow> bool" where
  "lane_matches_symbol lane symbol =
    (if empty_symbol symbol then True
     else case split_char (CHR '':'') [] lane of
       _ # part # _ \<Rightarrow> upper (strip part) = upper (strip (the symbol))
     | _ \<Rightarrow> False)"

definition lane_blocking :: "pyval \<Rightarrow> bool" where
  "lane_blocking lane_payload =
    (let payload = safe_dict lane_payload; status = lower (strip (str_or_empty (dget payload ''status'')))
     in payload = [] \<or> truthy (dget payload ''stale'') \<or> status \<in> {''critical'', ''stale'', ''warming_up'', ''unavailable''})"

definition no_lanes :: "(string \<times> pyval) list" where
  "no_lanes = [(''blocked_lanes'', VList []), (''dependency_contract'', VDict [(''required_lanes'', VList [])])]"

definition data_unavailable :: pydict where
  "data_unavailable = (''status'', VStr ''unavailable'') # (''blocking'', VBool False) # no_lanes"

definition data_critical :: "string \<Rightarrow> pydict" where
  "data_critical source = (''status'', VStr ''critical'') # (''source_status'', VStr source) # (''blocking'', VBool True) # no_lanes"

text \<open>The texts of the non-blank items of a list-valued entry.\<close>

definition text_items :: "pyval \<Rightarrow> string list res" where
  "text_items v = rbind (list_or_empty v) (\<lambda>xs. ok (map py_str (filter (\<lambda>x. strip (str_or_empty x) \<noteq> []) xs)))"

definition required_lanes :: "pydict \<Rightarrow> string list res" where
  "required_lanes raw = text_items (dget (safe_dict (dget raw ''dependency_contract'')) ''required_lanes'')"

definition reported_lanes :: "pydict \<Rightarrow> pydict" where
  "reported_lanes raw =
    (let lanes = safe_dict (dget raw ''lanes'')
     in if lanes \<noteq> [] then lanes else safe_dict (dget (safe_dict (dget raw ''freshness'')) ''lanes''))"

definition blocked_lanes :: "pydict \<Rightarrow> string list \<Rightarrow> string list \<Rightarrow> string option \<Rightarrow> string list" where
  "blocked_lanes raw required explicit symbol =
    remdups (filter (\<lambda>lane. lane_matches_symbol lane symbol \<and> lane_blocking (dget (reported_lanes raw) lane)) required @
      filter (\<lambda>lane. lane_matches_symbol lane symbol) explicit)"

definition symbol_entry :: "pydict \<Rightarrow> string option \<Rightarrow> pydict" where
  "symbol_entry raw symbol =
    (if empty_symbol symbol then [] else safe_dict (dget (safe_dict (dget raw ''symbols'')) (the symbol)))"

definition data_blocking :: "pydict \<Rightarrow> string list \<Rightarrow> string list \<Rightarrow> string option \<Rightarrow> bool" where
  "data_blocking raw required explicit symbol =
    (let explicit_blocking = truthy (dget raw ''blocking'')
     in truthy (dget (safe_dict (dget raw ''mt5'')) ''circuit_open'') \<or>
        truthy (dget (symbol_entry raw symbol) ''backoff_active'') \<or>
        blocked_lanes raw required explicit symbol \<noteq> [] \<or>
        (explicit_blocking \<and> symbol = None) \<or>
        (explicit_blocking \<and> symbol \<noteq> None \<and> (explicit = [] \<or> list_ex (\<lambda>lane. lane_matches_symbol lane symbol) explicit)))"

definition normalize_market_data_health_snapshot :: "pydict \<Rightarrow> string option \<Rightarrow> pydict res" where
  "normalize_market_data_health_snapshot raw symbol =
    (if raw = [] then ok data_unavailable
     else rbind (required_lanes raw) (\<lambda>required.
       rbind (text_items (dget raw ''blocked_lanes'')) (\<lambda>explicit.
       let blocking = data_blocking raw required explicit symbol;
           source = text_or_unknown (dget raw ''status'');
           contract = dset ''required_lane_count'' (VInt (int (length required)))
             (dset ''required_lanes'' (VList (map VStr (sort required))) (safe_dict (dget raw ''dependency_contract'')));
           base = dset ''dependency_contract'' (VDict contract)
             (dset ''blocked_lanes'' (VList (map VStr (sort (blocked_lanes raw required explicit symbol))))
             (dset ''blocking'' (VBool blocking)
             (dset ''source_status'' (VStr source)
             (dset ''status'' (VStr (if blocking then ''critical'' else source)) raw))))
       in ok (if empty_symbol symbol then base
              else dset ''symbol_health'' (VDict (symbol_entry raw symbol)) (dset ''symbol'' (symbol_value symbol) base)))))"

text \<open>The ingestor's \<open>health_snapshot\<close>, absent where it is not callable.\<close>

definition build_execution_market_data_health :: "(unit \<Rightarrow> pyval res) option \<Rightarrow> string option \<Rightarrow> pydict res" where
  "build_execution_market_data_health health_snapshot symbol =
    (case health_snapshot of
       None \<Rightarrow> ok data_unavailable
     | Some snapshot \<Rightarrow> (case snapshot () of
           Inl e \<Rightarrow> ok (data_critical ''probe_failed'' @ [(''error'', VStr (exc_text e))])
         | Inr (VDict raw) \<Rightarrow> normalize_market_data_health_snapshot raw symbol
         | Inr _ \<Rightarrow> ok (data_critical ''invalid_snapshot'')))"

definition market_data_health :: "(string option \<Rightarrow> pyval res) option \<Rightarrow> string option \<Rightarrow> pydict res" where
  "market_data_health market_data_health_fn symbol =
    (case market_data_health_fn of
       None \<Rightarrow> ok data_unavailable
     | Some probe \<Rightarrow> (case probe symbol of
           Inl e \<Rightarrow> ok (data_critical ''probe_failed'' @ [(''error'', VStr (exc_text e))])
         | Inr (VDict raw) \<Rightarrow> normalize_market_data_health_snapshot raw symbol
         | Inr _ \<Rightarrow> ok (data_critical ''invalid_snapshot'')))"

section \<open>Tick features\<close>

definition blocking_status :: "string \<Rightarrow> bool" where
  "blocking_status status = (status \<in> {''missing'', ''unavailable'', ''stale'', ''blocked'', ''sparse'', ''critical''})"

definition feature_verdict :: "string \<Rightarrow> string option \<Rightarrow> string \<Rightarrow> pydict" where
  "feature_verdict status symbol reason =
    [(''status'', VStr status), (''blocking'', VBool True), (''symbol'', symbol_value symbol),
     (''last_reasons'', VList [VStr reason])]"

definition feature_payload :: "pydict \<Rightarrow> string option \<Rightarrow> pydict" where
  "feature_payload raw symbol =
    (let symbols = safe_dict (dget raw ''symbols'')
     in if \<not> empty_symbol symbol \<and> symbols \<noteq> [] then safe_dict (dget symbols (upper (strip (the symbol)))) else raw)"

definition normalize_tick_feature_health_snapshot :: "pydict \<Rightarrow> string option \<Rightarrow> pydict res" where
  "normalize_tick_feature_health_snapshot raw symbol =
    (if raw = [] then ok (feature_verdict ''unavailable'' symbol ''no_tick_feature_health'')
     else let payload = feature_payload raw symbol in
       if payload = [] then ok (feature_verdict ''missing'' symbol ''no_symbol_tick_feature_health'')
       else let source = text_or_unknown (py_or (dget payload ''status'') (dget raw ''status''));
                status = lower source;
                blocking = truthy (dget_default payload ''blocking'' (dget raw ''blocking'')) \<or> blocking_status status;
                base = dset ''blocking'' (VBool blocking) (dset ''source_status'' (VStr source) (dset ''status'' (VStr status) payload));
                result = (if empty_symbol symbol then base else dset ''symbol'' (symbol_value symbol) base)
            in if map_of result ''last_reasons'' = None
               then rbind (list_or_empty (dget raw ''last_reasons'')) (\<lambda>xs. ok (dset ''last_reasons'' (VList xs) result))
               else ok result)"

text \<open>The health store: \<open>health_payload\<close>, and \<open>health_for\<close> with its result in dictionary form; absent
  where not callable. The bus is its \<open>stats\<close>.\<close>

record health_port =
  hp_health_payload :: "(string \<Rightarrow> pyval \<Rightarrow> pyval res) option"
  hp_health_for :: "(string \<Rightarrow> pyval \<Rightarrow> pyval res) option"

definition probe_failed_features :: "string option \<Rightarrow> py_error \<Rightarrow> pydict" where
  "probe_failed_features symbol e = feature_verdict ''critical'' symbol ''probe_failed'' @ [(''error'', VStr (exc_text e))]"

definition build_execution_tick_feature_health ::
  "health_port option \<Rightarrow> (unit \<Rightarrow> pyval res) option \<Rightarrow> string option \<Rightarrow> pydict res" where
  "build_execution_tick_feature_health health_store feature_bus symbol =
    (case health_store of
       None \<Rightarrow> normalize_tick_feature_health_snapshot [] symbol
     | Some hp \<Rightarrow>
       if empty_symbol symbol then normalize_tick_feature_health_snapshot [] symbol
       else let bus_stats = (case feature_bus of None \<Rightarrow> VDict []
                  | Some stats \<Rightarrow> (case stats () of Inl _ \<Rightarrow> VDict [] | Inr v \<Rightarrow> v));
                probe = (case hp_health_payload hp of Some f \<Rightarrow> Some f | None \<Rightarrow> hp_health_for hp)
            in case probe of None \<Rightarrow> normalize_tick_feature_health_snapshot [] symbol
               | Some f \<Rightarrow> (case f (the symbol) bus_stats of
                   Inl e \<Rightarrow> ok (probe_failed_features symbol e)
                 | Inr payload \<Rightarrow> normalize_tick_feature_health_snapshot (safe_dict payload) symbol))"

definition tick_feature_health :: "(string option \<Rightarrow> pyval res) option \<Rightarrow> string option \<Rightarrow> pydict res" where
  "tick_feature_health tick_feature_health_fn symbol =
    (case tick_feature_health_fn of
       None \<Rightarrow> normalize_tick_feature_health_snapshot [] symbol
     | Some probe \<Rightarrow> (case probe symbol of
           Inl e \<Rightarrow> ok (probe_failed_features symbol e)
         | Inr v \<Rightarrow> normalize_tick_feature_health_snapshot (safe_dict v) symbol))"

section \<open>Intrabar synthesis\<close>

definition trigger_text :: "pyval \<Rightarrow> pyval" where
  "trigger_text v = opt_str (some_text (upper (strip (str_or_empty v))))"

definition parse_synthesized :: "(string \<Rightarrow> datetime option) \<Rightarrow> pyval \<Rightarrow> datetime option" where
  "parse_synthesized fromiso value =
    (if value = VNone \<or> value = VStr [] then None
     else case value of
       VTime t \<Rightarrow> Some (aware t)
     | _ \<Rightarrow> let text = strip (py_str value)
            in if text = [] then None else map_option aware (fromiso (replace_Z text)))"

definition synthesis_missing :: "string \<Rightarrow> pyval \<Rightarrow> pyval \<Rightarrow> pydict" where
  "synthesis_missing code threshold trigger =
    [(''applicable'', VBool True), (''configured'', VBool False), (''status'', VStr ''unavailable''), (''stale'', VBool True),
     (''age_seconds'', VNone), (''stale_threshold_seconds'', threshold), (''error_code'', VStr code), (''trigger_tf'', trigger)]"

definition build_execution_intrabar_health ::
  "(string \<Rightarrow> rat option) \<Rightarrow> (string \<Rightarrow> datetime option) \<Rightarrow> datetime \<Rightarrow> pydict \<Rightarrow> string \<Rightarrow> pydict" where
  "build_execution_intrabar_health pf fromiso now metadata scope =
    (if lower (strip scope) \<noteq> ''intrabar''
     then [(''applicable'', VBool False), (''configured'', VBool False), (''status'', VStr ''not_applicable''),
           (''stale'', VBool False), (''age_seconds'', VNone), (''stale_threshold_seconds'', VNone)]
     else case dget metadata ''intrabar_synthesis'' of
       VDict payload \<Rightarrow>
         (case parse_synthesized fromiso (dget payload ''synthesized_at'') of
            None \<Rightarrow> synthesis_missing ''intrabar_synthesis_timestamp_missing'' (dget payload ''stale_threshold_seconds'')
              (trigger_text (dget payload ''trigger_tf''))
          | Some synthesized_at \<Rightarrow>
            let threshold = numeric pf (dget payload ''stale_threshold_seconds'');
                age = max 0 (total_seconds (utc_us now - utc_us synthesized_at));
                stale = (case threshold of None \<Rightarrow> False | Some t \<Rightarrow> t < age)
            in [(''applicable'', VBool True), (''configured'', VBool True),
                (''status'', VStr (if stale then ''stale'' else ''healthy'')), (''stale'', VBool stale),
                (''age_seconds'', VFloat (pyround age 3)), (''stale_threshold_seconds'', opt_float threshold),
                (''expected_interval_seconds'', dget payload ''expected_interval_seconds''),
                (''synthesized_at'', VStr (isoformat synthesized_at)),
                (''trigger_tf'', trigger_text (dget payload ''trigger_tf'')),
                (''last_child_bar_time'', dget payload ''last_child_bar_time''),
                (''child_bar_count'', dget payload ''child_bar_count''), (''count'', dget payload ''count'')])
     | _ \<Rightarrow> synthesis_missing ''intrabar_synthesis_missing'' VNone (trigger_text (dget metadata ''intrabar_trigger_tf'')))"

section \<open>Properties\<close>

text \<open>A lane report that counts as fresh.\<close>

definition lane_fresh :: "pyval \<Rightarrow> bool" where
  "lane_fresh v \<longleftrightarrow> (\<exists>payload. v = VDict payload \<and> payload \<noteq> [] \<and> \<not> truthy (dget payload ''stale'') \<and>
    lower (strip (str_or_empty (dget payload ''status''))) \<notin> {''critical'', ''stale'', ''warming_up'', ''unavailable''})"

lemma lane_blocking_iff: "lane_blocking v \<longleftrightarrow> \<not> lane_fresh v"
  by (cases v) (auto simp: lane_blocking_def lane_fresh_def safe_dict_def Let_def)

lemma normalized_blocking:
  assumes "normalize_market_data_health_snapshot raw symbol = ok d" and "raw \<noteq> []"
  shows "\<exists>required explicit. required_lanes raw = ok required \<and> text_items (dget raw ''blocked_lanes'') = ok explicit \<and>
    truthy (dget d ''blocking'') = data_blocking raw required explicit symbol"
  using assms by (auto simp: normalize_market_data_health_snapshot_def res_simps Let_def split: if_splits)

lemma unblocked_lanes:
  assumes "\<not> data_blocking raw required explicit symbol" and "lane \<in> set required" and "lane_matches_symbol lane symbol"
  shows "lane_fresh (dget (reported_lanes raw) lane)"
proof -
  have "blocked_lanes raw required explicit symbol = []" using assms(1) by (simp add: data_blocking_def Let_def)
  then have "set (blocked_lanes raw required explicit symbol) = {}" by simp
  then show ?thesis using assms(2,3) by (auto simp: blocked_lanes_def lane_blocking_iff)
qed

text \<open>Data that does not block is fresh. When the executor's probe of a symbol's market data does not
  block, the ingestor answered with a snapshot, and, unless that is empty, every required lane of
  the symbol is reported and fresh, no lane of the symbol is listed as blocked, the terminal's
  circuit is closed and the symbol is not in backoff. In particular a probe that fails or answers
  with anything else blocks.\<close>

theorem unblocked_data_is_fresh:
  assumes "market_data_health (Some probe) (Some s) = ok d" and "\<not> truthy (dget d ''blocking'')" and "s \<noteq> []"
  shows "\<exists>raw. probe (Some s) = ok (VDict raw) \<and> (raw = [] \<or>
    (\<exists>required explicit. required_lanes raw = ok required \<and> text_items (dget raw ''blocked_lanes'') = ok explicit \<and>
      (\<forall>lane \<in> set required. lane_matches_symbol lane (Some s) \<longrightarrow> lane_fresh (dget (reported_lanes raw) lane)) \<and>
      (\<forall>lane \<in> set explicit. \<not> lane_matches_symbol lane (Some s)) \<and>
      \<not> truthy (dget (safe_dict (dget raw ''mt5'')) ''circuit_open'') \<and>
      \<not> truthy (dget (safe_dict (dget (safe_dict (dget raw ''symbols'')) s)) ''backoff_active'')))"
proof -
  from assms(1,2) obtain raw where raw: "probe (Some s) = ok (VDict raw)"
      and d: "normalize_market_data_health_snapshot raw (Some s) = ok d"
    by (auto simp: market_data_health_def data_critical_def dget_def split: sum.splits pyval.splits)
  show ?thesis
  proof (cases "raw = []")
    case False
    from normalized_blocking [OF d False] assms(2) obtain required explicit where
      r: "required_lanes raw = ok required" "text_items (dget raw ''blocked_lanes'') = ok explicit"
        and nb: "\<not> data_blocking raw required explicit (Some s)" by blast
    then have "blocked_lanes raw required explicit (Some s) = []" by (simp add: data_blocking_def Let_def)
    then have "\<forall>lane \<in> set explicit. \<not> lane_matches_symbol lane (Some s)"
      unfolding blocked_lanes_def remdups_eq_nil_iff append_is_Nil_conv filter_empty_conv by blast
    then show ?thesis using raw r nb unblocked_lanes [OF nb] assms(3)
      by (auto simp: data_blocking_def symbol_entry_def empty_symbol_def Let_def)
  qed (use raw in simp)
qed

section \<open>Witness\<close>

definition snapshot_example :: pydict where
  "snapshot_example = [(''dependency_contract'', VDict [(''required_lanes'', VList [VStr ''quote:XAUUSD''])]),
     (''lanes'', VDict [(''quote:XAUUSD'', VDict [(''status'', VStr ''ok'')])])]"

theorem unblocked_data_is_fresh_witness:
  "lane_fresh (dget (reported_lanes snapshot_example) ''quote:XAUUSD'')"
proof -
  let ?h = "market_data_health (Some (\<lambda>_. ok (VDict snapshot_example))) (Some ''XAUUSD'')"
  have "\<not> isl ?h \<and> \<not> truthy (dget (projr ?h) ''blocking'')" by code_simp
  then have d: "?h = ok (projr ?h)" "\<not> truthy (dget (projr ?h) ''blocking'')" by simp_all
  have req: "required_lanes snapshot_example = ok [''quote:XAUUSD'']" "lane_matches_symbol ''quote:XAUUSD'' (Some ''XAUUSD'')"
      "snapshot_example \<noteq> []"
    by code_simp+
  from unblocked_data_is_fresh [OF d] req show ?thesis by auto
qed

end
