(* ===== verification/Trade_Admission.thy ===== *)
theory Trade_Admission
  imports Strategy_Deployment Execution_Health Margin_Guard
begin

text \<open>
  The admission of a signal to execution: the execution gate, the intrabar guard and the equity
  filter (\<open>gate.py\<close>, \<open>intrabar_guard.py\<close>, \<open>equity_filter.py\<close> of \<open>trading/execution\<close>), the circuit
  breaker, and the chain of filters every signal passes (\<open>pre_trade_checks.py\<close>,
  \<open>pre_trade_pipeline.py\<close>, the counters of \<open>pending_orders.py\<close>). A filter reads the executor's state
  and the answers of its collaborators, may change the state, and lets the signal pass, rejects
  it with a reason, or raises. The log, the event bus, the admission reports and the skip callback
  only report and are left out; one clock reading serves a whole signal.
\<close>

section \<open>The signal\<close>

datatype entry_type = MARKET | LIMIT | STOP

record entry_member =
  em_member_id :: string
  em_entry_type :: entry_type
  em_trigger_price :: rat
  em_entry_low :: rat
  em_entry_high :: rat
  em_validity_bars :: "int option"

record entry_group =
  eg_group_id :: string
  eg_members :: "entry_member list"
  eg_cancellation_policy :: string
  eg_metadata :: pydict

definition all_market :: "entry_group \<Rightarrow> bool" where
  "all_market g = list_all (\<lambda>m. em_entry_type m = MARKET) (eg_members g)"

text \<open>The metadata is a dictionary of plain values; the entry group, an object stored in it, and
  the numbers of the exit specification are fields of their own.\<close>

record signal_event =
  sg_symbol :: string
  sg_timeframe :: string
  sg_strategy :: string
  sg_direction :: string
  sg_confidence :: rat
  sg_signal_state :: string
  sg_scope :: string
  sg_indicators :: pydict
  sg_metadata :: pydict
  sg_generated_at :: datetime
  sg_signal_id :: string
  sg_parent_bar_time :: "datetime option"
  sg_entry_spec_group :: "entry_group option"
  sg_exit_spec :: "(string \<times> rat) list"

section \<open>Execution gate\<close>

record gate_config =
  gc_intrabar_trading_enabled :: bool
  gc_intrabar_enabled_strategies :: "string list"

definition gate_check :: "gate_config \<Rightarrow> signal_event \<Rightarrow> bool \<times> string" where
  "gate_check gc ev = (True, [])"

definition check_intrabar :: "gate_config \<Rightarrow> signal_event \<Rightarrow> bool \<times> string" where
  "check_intrabar gc ev =
    (if \<not> gc_intrabar_trading_enabled gc then (False, ''intrabar_trading_disabled'')
     else if sg_strategy ev \<notin> set (gc_intrabar_enabled_strategies gc) then (False, ''strategy_not_intrabar_enabled'')
     else (True, []))"

section \<open>Intrabar guard\<close>

text \<open>Keys: symbol, parent timeframe, strategy, direction and the time of the parent bar. The time is
  what the event carries, a dynamic value; aware datetimes are equal as keys when they are the
  same instant.\<close>

definition time_key :: "pyval \<Rightarrow> pyval" where
  "time_key v = (case v of VTime t \<Rightarrow> (if utcoffset t = None then v else VTime (astimezone_utc t)) | _ \<Rightarrow> v)"

type_synonym bar_key = "string \<times> string \<times> string \<times> pyval"

record intrabar_guard =
  ig_traded :: "(string \<times> string \<times> string \<times> string \<times> pyval) list"
  ig_positions :: "(bar_key \<times> string) list"
  ig_trades_recorded :: int
  ig_blocks_traded_this_bar :: int
  ig_confirmed_validations :: int

definition IntrabarTradeGuard :: intrabar_guard where
  "IntrabarTradeGuard = \<lparr>ig_traded = [], ig_positions = [], ig_trades_recorded = 0, ig_blocks_traded_this_bar = 0,
     ig_confirmed_validations = 0\<rparr>"

definition can_trade :: "string \<Rightarrow> string \<Rightarrow> string \<Rightarrow> string \<Rightarrow> pyval \<Rightarrow> intrabar_guard \<Rightarrow> (bool \<times> string) \<times> intrabar_guard" where
  "can_trade symbol tf strategy direction bar g =
    (if (symbol, tf, strategy, direction, time_key bar) \<in> set (ig_traded g)
     then ((False, ''traded_this_bar''), g\<lparr>ig_blocks_traded_this_bar := ig_blocks_traded_this_bar g + 1\<rparr>)
     else ((True, []), g))"

definition guard_record_trade :: "string \<Rightarrow> string \<Rightarrow> string \<Rightarrow> string \<Rightarrow> pyval \<Rightarrow> intrabar_guard \<Rightarrow> intrabar_guard" where
  "guard_record_trade symbol tf strategy direction bar g =
    g\<lparr>ig_traded := List.insert (symbol, tf, strategy, direction, time_key bar) (ig_traded g),
      ig_positions := AList.update (symbol, tf, strategy, time_key bar) direction (ig_positions g),
      ig_trades_recorded := ig_trades_recorded g + 1\<rparr>"

definition has_intrabar_position :: "string \<Rightarrow> string \<Rightarrow> string \<Rightarrow> pyval \<Rightarrow> intrabar_guard \<Rightarrow> string option \<times> intrabar_guard" where
  "has_intrabar_position symbol tf strategy bar g =
    (if bar = VNone then (None, g)
     else case map_of (ig_positions g) (symbol, tf, strategy, time_key bar) of
       None \<Rightarrow> (None, g)
     | Some direction \<Rightarrow> (Some direction, g\<lparr>ig_confirmed_validations := ig_confirmed_validations g + 1\<rparr>))"

definition on_parent_bar_close :: "string \<Rightarrow> string \<Rightarrow> pyval \<Rightarrow> intrabar_guard \<Rightarrow> intrabar_guard" where
  "on_parent_bar_close symbol tf bar g =
    g\<lparr>ig_traded := filter (\<lambda>(s, t, _, _, b). \<not> (s = symbol \<and> t = tf \<and> b = time_key bar)) (ig_traded g),
      ig_positions := filter (\<lambda>((s, t, _, b), _). \<not> (s = symbol \<and> t = tf \<and> b = time_key bar)) (ig_positions g)\<rparr>"

section \<open>Equity filter\<close>

record equity_filter =
  ef_enabled :: bool
  ef_ma_period :: int
  ef_min_samples :: int
  ef_equity_history :: "rat list"
  ef_paused :: bool

definition EquityCurveFilter :: "bool \<Rightarrow> int \<Rightarrow> int \<Rightarrow> equity_filter" where
  "EquityCurveFilter enabled ma_period min_samples =
    \<lparr>ef_enabled = enabled, ef_ma_period = ma_period, ef_min_samples = min_samples, ef_equity_history = [], ef_paused = False\<rparr>"

text \<open>\<open>append\<close> to a deque with a maximal length.\<close>

definition deque_append :: "nat \<Rightarrow> 'a \<Rightarrow> 'a list \<Rightarrow> 'a list" where
  "deque_append n x xs = (let ys = xs @ [x] in drop (length ys - n) ys)"

definition record_equity :: "rat option res \<Rightarrow> equity_filter \<Rightarrow> equity_filter" where
  "record_equity balance f = (case balance of
      Inr (Some equity) \<Rightarrow> if 0 < equity
        then f\<lparr>ef_equity_history := deque_append (nat (max (ef_ma_period f) 5)) equity (ef_equity_history f)\<rparr> else f
    | _ \<Rightarrow> f)"

definition equity_should_block :: "equity_filter \<Rightarrow> bool res \<times> equity_filter" where
  "equity_should_block f =
    (let history = ef_equity_history f in
     if \<not> ef_enabled f then (ok False, f)
     else if int (length history) < ef_min_samples f then (ok False, f)
     else if history = [] then (raise ZeroDivisionError, f)
     else let ma = fl (py_sum history / of_nat (length history)); paused = last history < ma
          in (ok paused, f\<lparr>ef_paused := paused\<rparr>))"

section \<open>Configuration, collaborators and state\<close>

record executor_config =
  ec_enabled :: bool
  ec_min_confidence :: rat
  ec_timeframe_min_confidence :: "(string \<times> rat) list"
  ec_max_concurrent_positions_per_symbol :: "int option"
  ec_max_consecutive_failures :: int
  ec_circuit_auto_reset_minutes :: int
  ec_max_spread_to_stop_ratio :: rat
  ec_reentry_cooldown_bars :: int
  ec_strategy_deployments :: "(string \<times> deployment) list"

text \<open>The collaborators, by what they answer while one signal is processed. An absent collaborator
  is None; rows of positions and pending entries are dictionaries.\<close>

record admission_env =
  en_now :: int
  en_float :: "string \<Rightarrow> rat option"
  en_fromiso :: "string \<Rightarrow> datetime option"
  en_environment :: string
  en_account_info :: "pyval res"
  en_quote_health_fn :: "(string \<Rightarrow> pyval res) option"
  en_market_data_health_fn :: "(string option \<Rightarrow> pyval res) option"
  en_tick_feature_health_fn :: "(string option \<Rightarrow> pyval res) option"
  en_trading_paused :: "bool option"
  en_balance :: "rat option res"
  en_margin_guard :: "margin_guard option"
  en_after_eod :: "bool option"
  en_active_positions :: "pydict list res option"
  en_get_positions :: "string \<Rightarrow> pydict list res"
  en_pending_entries :: "pydict list res option"
  en_gate :: gate_config

record tf_counts =
  tc_received :: int
  tc_passed :: int
  tc_skip_reasons :: "(string \<times> int) list"

record execution_quality =
  eq_recovered_from_state :: int
  eq_risk_blocks :: int
  eq_slippage_samples :: int
  eq_slippage_total_price :: rat
  eq_slippage_total_points :: rat

record executor_state =
  xs_circuit_open :: bool
  xs_circuit_open_at :: "int option"
  xs_consecutive_failures :: int
  xs_health_check_failures :: int
  xs_executed_signal_ids :: "string list"
  xs_last_entry_bar_time :: "((string \<times> string \<times> string \<times> string) \<times> datetime) list"
  xs_equity_curve_filter :: "equity_filter option"
  xs_intrabar_guard :: "intrabar_guard option"
  xs_last_risk_block :: "string option"
  xs_last_error :: "string option"
  xs_execution_count :: int
  xs_execution_quality :: execution_quality
  xs_signals_received :: int
  xs_signals_passed :: int
  xs_intrabar_signals_executed :: int
  xs_skip_reasons :: "(string \<times> int) list"
  xs_tf_stats :: "(string \<times> tf_counts) list"

section \<open>Rejection\<close>

definition bump :: "string \<Rightarrow> (string \<times> int) list \<Rightarrow> (string \<times> int) list" where
  "bump k counts = AList.update k ((case map_of counts k of None \<Rightarrow> 0 | Some n \<Rightarrow> n) + 1) counts"

definition tf_entry :: "string \<Rightarrow> executor_state \<Rightarrow> tf_counts" where
  "tf_entry tf x = (case map_of (xs_tf_stats x) tf of Some c \<Rightarrow> c
     | None \<Rightarrow> \<lparr>tc_received = 0, tc_passed = 0, tc_skip_reasons = []\<rparr>)"

definition set_tf_entry :: "string \<Rightarrow> (tf_counts \<Rightarrow> tf_counts) \<Rightarrow> executor_state \<Rightarrow> executor_state" where
  "set_tf_entry tf f x = (if tf = [] then x else x\<lparr>xs_tf_stats := AList.update tf (f (tf_entry tf x)) (xs_tf_stats x)\<rparr>)"

definition notify_skip :: "string \<Rightarrow> string \<Rightarrow> executor_state \<Rightarrow> executor_state" where
  "notify_skip reason tf x =
    set_tf_entry tf (\<lambda>c. c\<lparr>tc_skip_reasons := bump reason (tc_skip_reasons c)\<rparr>)
      (x\<lparr>xs_skip_reasons := bump reason (xs_skip_reasons x)\<rparr>)"

datatype verdict = Pass | Rejected string | Raised py_error

definition reject_signal :: "string \<Rightarrow> string \<Rightarrow> executor_state \<Rightarrow> verdict \<times> executor_state" where
  "reject_signal reason tf x = (Rejected reason, notify_skip reason tf x)"

type_synonym stage = "executor_state \<Rightarrow> verdict \<times> executor_state"

definition pass_or_reject :: "bool \<Rightarrow> string \<Rightarrow> string \<Rightarrow> stage" where
  "pass_or_reject blocked reason tf x = (if blocked then reject_signal reason tf x else (Pass, x))"

section \<open>Circuit breaker\<close>

definition reset_circuit :: "executor_state \<Rightarrow> executor_state" where
  "reset_circuit x = x\<lparr>xs_circuit_open := False, xs_consecutive_failures := 0, xs_circuit_open_at := None,
     xs_health_check_failures := 0\<rparr>"

definition check_trading_health :: "admission_env \<Rightarrow> bool" where
  "check_trading_health en = (case en_account_info en of Inl _ \<Rightarrow> False | Inr v \<Rightarrow> v \<noteq> VNone)"

definition reset_due :: "executor_config \<Rightarrow> admission_env \<Rightarrow> executor_state \<Rightarrow> bool" where
  "reset_due ec en x = (0 < ec_circuit_auto_reset_minutes ec \<and>
     (case xs_circuit_open_at x of None \<Rightarrow> False
      | Some opened \<Rightarrow> of_int (ec_circuit_auto_reset_minutes ec) \<le> fl (total_seconds (en_now en - opened) / 60)))"

definition check_circuit_breaker :: "executor_config \<Rightarrow> admission_env \<Rightarrow> stage" where
  "check_circuit_breaker ec en x =
    (if \<not> xs_circuit_open x then (Pass, x)
     else let x' = (if reset_due ec en x
              then (if check_trading_health en then reset_circuit (x\<lparr>xs_health_check_failures := 0\<rparr>)
                    else x\<lparr>xs_health_check_failures := xs_health_check_failures x + 1, xs_circuit_open_at := Some (en_now en)\<rparr>)
              else x)
          in if xs_circuit_open x' then (Rejected ''circuit_open'', x') else (Pass, x'))"

section \<open>Positions and pending entries\<close>

definition row_is :: "string \<Rightarrow> string \<Rightarrow> pydict \<Rightarrow> bool" where
  "row_is key value row = (dget row key = VStr value)"

text \<open>Rows that cannot be read for a type or attribute error count as none; other errors are not
  caught.\<close>

definition tracked_rows :: "admission_env \<Rightarrow> pydict list option res" where
  "tracked_rows en = (case en_active_positions en of
      None \<Rightarrow> ok None
    | Some (Inr rows) \<Rightarrow> ok (Some rows)
    | Some (Inl (TypeError t)) \<Rightarrow> ok None
    | Some (Inl (AttributeError t)) \<Rightarrow> ok None
    | Some (Inl e) \<Rightarrow> raise e)"

definition pending_rows :: "admission_env \<Rightarrow> pydict list" where
  "pending_rows en = (case en_pending_entries en of Some (Inr rows) \<Rightarrow> rows | _ \<Rightarrow> [])"

definition open_positions_for_symbol :: "admission_env \<Rightarrow> string \<Rightarrow> int res" where
  "open_positions_for_symbol en symbol =
    rbind (tracked_rows en) (\<lambda>tracked.
      let tracked_count = map_option (\<lambda>rows. length (filter (row_is ''symbol'' symbol) rows)) tracked;
          position_count = (case en_get_positions en symbol of
              Inr rows \<Rightarrow> (case tracked_count of None \<Rightarrow> length rows | Some n \<Rightarrow> max n (length rows))
            | Inl _ \<Rightarrow> (case tracked_count of None \<Rightarrow> 0 | Some n \<Rightarrow> n))
      in ok (int (position_count + length (filter (row_is ''symbol'' symbol) (pending_rows en)))))"

definition open_positions_for_strategy :: "admission_env \<Rightarrow> string \<Rightarrow> string \<Rightarrow> int res" where
  "open_positions_for_strategy en symbol strategy =
    rbind (tracked_rows en) (\<lambda>tracked.
      let mine = (\<lambda>row. row_is ''symbol'' symbol row \<and> row_is ''strategy'' strategy row);
          tracked_count = (case tracked of None \<Rightarrow> 0 | Some rows \<Rightarrow> length (filter mine rows));
          live_count = (case en_get_positions en symbol of Inl _ \<Rightarrow> 0
            | Inr rows \<Rightarrow> length (filter (\<lambda>row. strip (str_or_empty (dget row ''strategy'')) = strategy) rows))
      in ok (int (max tracked_count live_count + length (filter mine (pending_rows en)))))"

definition reached_position_limit :: "executor_config \<Rightarrow> admission_env \<Rightarrow> string \<Rightarrow> bool res" where
  "reached_position_limit ec en symbol = (case ec_max_concurrent_positions_per_symbol ec of
      None \<Rightarrow> ok False
    | Some limit \<Rightarrow> if limit \<le> 0 then ok False
        else rbind (open_positions_for_symbol en symbol) (\<lambda>n. ok (limit \<le> n)))"

definition has_matching_pending_entry :: "admission_env \<Rightarrow> signal_event \<Rightarrow> bool" where
  "has_matching_pending_entry en ev =
    list_ex (\<lambda>row. row_is ''symbol'' (sg_symbol ev) row \<and> row_is ''timeframe'' (sg_timeframe ev) row \<and>
      row_is ''strategy'' (sg_strategy ev) row) (pending_rows en)"

definition duplicate_execution_reason :: "admission_env \<Rightarrow> signal_event \<Rightarrow> string" where
  "duplicate_execution_reason en ev = (if has_matching_pending_entry en ev then ''pending_entry_same_strategy'' else [])"

section \<open>Filters\<close>

definition normalize_event_sessions :: "admission_env \<Rightarrow> signal_event \<Rightarrow> string list" where
  "normalize_event_sessions en ev =
    (let candidates = (case dget (sg_metadata ev) ''session_buckets'' of
             VStr s \<Rightarrow> map VStr (split_char (CHR '','') [] s) | VList xs \<Rightarrow> xs | _ \<Rightarrow> []);
         sessions = clean_items (\<lambda>s. normalize_session_name (strip s)) [] candidates;
         anchor = (case dget (sg_metadata ev) ''bar_time'' of
             VTime t \<Rightarrow> t
           | VStr s \<Rightarrow> (case en_fromiso en s of Some t \<Rightarrow> t | None \<Rightarrow> sg_generated_at ev)
           | _ \<Rightarrow> sg_generated_at ev)
     in if sessions \<noteq> [] then sessions else [resolve_session_by_hour (utc_hour (as_utc anchor))])"

definition entry_all_market :: "signal_event \<Rightarrow> bool" where
  "entry_all_market ev = (case sg_entry_spec_group ev of Some g \<Rightarrow> all_market g | None \<Rightarrow> True)"

definition deployment_stage :: "admission_env \<Rightarrow> deployment \<Rightarrow> signal_event \<Rightarrow> string \<Rightarrow> stage" where
  "deployment_stage en d ev tf x =
    (if \<not> allows_runtime_evaluation d then reject_signal ''strategy_candidate_only'' tf x
     else case is_executable_in (en_environment en) d of
       Inl e \<Rightarrow> (Raised e, x)
     | Inr False \<Rightarrow> reject_signal ''strategy_demo_validation'' tf x
     | Inr True \<Rightarrow>
       if dp_locked_timeframes d \<noteq> [] \<and> upper (strip (sg_timeframe ev)) \<notin> set (dp_locked_timeframes d)
       then reject_signal ''strategy_locked_timeframe'' tf x
       else if dp_locked_sessions d \<noteq> [] \<and> set (normalize_event_sessions en ev) \<inter> set (dp_locked_sessions d) = {}
       then reject_signal ''strategy_locked_session'' tf x
       else case (case dp_max_live_positions d of None \<Rightarrow> ok False
                  | Some limit \<Rightarrow> rbind (open_positions_for_strategy en (sg_symbol ev) (sg_strategy ev)) (\<lambda>n. ok (limit \<le> n))) of
         Inl e \<Rightarrow> (Raised e, x)
       | Inr True \<Rightarrow> reject_signal ''strategy_max_live_positions'' tf x
       | Inr False \<Rightarrow>
         pass_or_reject (dp_require_pending_entry d \<and> (entry_all_market ev \<or> en_pending_entries en = None))
           ''strategy_requires_pending_entry'' tf x)"

definition risk_blocked :: "string \<Rightarrow> string \<Rightarrow> stage" where
  "risk_blocked reason tf x = reject_signal reason tf (x\<lparr>xs_last_risk_block := Some reason\<rparr>)"

definition check_quote_health :: "admission_env \<Rightarrow> signal_event \<Rightarrow> string \<Rightarrow> stage" where
  "check_quote_health en ev tf x =
    (if truthy (dget (quote_health (en_quote_health_fn en) (sg_symbol ev)) ''stale'') then risk_blocked ''quote_stale'' tf x else (Pass, x))"

definition check_market_data_health :: "admission_env \<Rightarrow> signal_event \<Rightarrow> string \<Rightarrow> stage" where
  "check_market_data_health en ev tf x =
    (case market_data_health (en_market_data_health_fn en) (Some (sg_symbol ev)) of
       Inl e \<Rightarrow> (Raised e, x)
     | Inr health \<Rightarrow>
       if \<not> truthy (dget health ''blocking'') then (Pass, x)
       else case list_or_empty (dget health ''blocked_lanes'') of
         Inl e \<Rightarrow> (Raised e, x\<lparr>xs_last_risk_block := Some ''market_data_unhealthy''\<rparr>)
       | Inr _ \<Rightarrow> risk_blocked ''market_data_unhealthy'' tf x)"

definition check_tick_feature_health :: "admission_env \<Rightarrow> signal_event \<Rightarrow> string \<Rightarrow> stage" where
  "check_tick_feature_health en ev tf x =
    (if sg_scope ev \<noteq> ''tick_derived'' then (Pass, x)
     else case tick_feature_health (en_tick_feature_health_fn en) (Some (sg_symbol ev)) of
       Inl e \<Rightarrow> (Raised e, x)
     | Inr health \<Rightarrow>
       if \<not> truthy (dget health ''blocking'') then (Pass, x)
       else risk_blocked (if lower (str_or_empty (dget health ''status'')) \<in> {''blocked'', ''sparse'', ''critical''}
              then ''tick_feature_health_blocked'' else ''tick_feature_health_unavailable'') tf x)"

definition check_intrabar_synthesis_health :: "admission_env \<Rightarrow> signal_event \<Rightarrow> string \<Rightarrow> stage" where
  "check_intrabar_synthesis_health en ev tf x =
    (if sg_scope ev \<noteq> ''intrabar'' then (Pass, x)
     else let health = build_execution_intrabar_health (en_float en) (en_fromiso en) (Datetime (en_now en) (Some 0))
                (sg_metadata ev) (sg_scope ev)
          in if \<not> truthy (dget health ''stale'') then (Pass, x)
             else risk_blocked (if truthy (dget health ''configured'') then ''intrabar_synthesis_stale''
                    else ''intrabar_synthesis_unavailable'') tf x)"

definition equity_stage :: "admission_env \<Rightarrow> string \<Rightarrow> stage" where
  "equity_stage en tf x = (case xs_equity_curve_filter x of
      None \<Rightarrow> (Pass, x)
    | Some f0 \<Rightarrow> let (blocked, f) = equity_should_block (record_equity (en_balance en) f0);
                   x' = x\<lparr>xs_equity_curve_filter := Some f\<rparr>
        in case blocked of Inl e \<Rightarrow> (Raised e, x') | Inr b \<Rightarrow> pass_or_reject b ''equity_curve_below_ma'' tf x')"

definition min_confidence_for :: "executor_config \<Rightarrow> string \<Rightarrow> deployment option \<Rightarrow> rat" where
  "min_confidence_for ec tf d =
    (let baseline = map_of (ec_timeframe_min_confidence ec) tf;
         base = (case baseline of Some c \<Rightarrow> c | None \<Rightarrow> ec_min_confidence ec)
     in case d of None \<Rightarrow> base
        | Some dp \<Rightarrow> (case effective_min_confidence baseline (ec_min_confidence ec) dp of
            None \<Rightarrow> base | Some c \<Rightarrow> max base c))"

definition timeframe_seconds :: "string \<Rightarrow> int" where
  "timeframe_seconds tf = (case map_of [(''M1'', 60), (''M5'', 300), (''M15'', 900), (''M30'', 1800), (''H1'', 3600),
      (''H4'', 14400), (''D1'', 86400), (''W1'', 604800)] (upper tf) of Some n \<Rightarrow> n | None \<Rightarrow> 60)"

definition tf_to_seconds :: "string \<Rightarrow> int" where
  "tf_to_seconds tf = (if strip (upper tf) \<in> {''M1'', ''M5'', ''M15'', ''M30'', ''H1'', ''H4'', ''D1'', ''W1''}
     then timeframe_seconds tf else 0)"

definition event_bar_time :: "(string \<Rightarrow> datetime option) \<Rightarrow> signal_event \<Rightarrow> datetime option" where
  "event_bar_time parse ev = (case dget (sg_metadata ev) ''bar_time'' of VTime t \<Rightarrow> Some t | VStr s \<Rightarrow> parse s | _ \<Rightarrow> None)"

definition check_reentry_cooldown :: "executor_config \<Rightarrow> admission_env \<Rightarrow> signal_event \<Rightarrow> string \<Rightarrow> stage" where
  "check_reentry_cooldown ec en ev tf x =
    (if ec_reentry_cooldown_bars ec \<le> 0 then (Pass, x)
     else case (event_bar_time (en_fromiso en) ev,
                map_of (xs_last_entry_bar_time x) (sg_symbol ev, tf, sg_strategy ev, sg_direction ev)) of
       (Some bar, Some last_bar) \<Rightarrow>
         if tf_to_seconds tf \<le> 0 then (Pass, x)
         else (case dt_sub bar last_bar of
             Inl e \<Rightarrow> (Raised e, x)
           | Inr us \<Rightarrow> pass_or_reject (fl (\<bar>total_seconds us\<bar> / of_int (tf_to_seconds tf)) < of_int (ec_reentry_cooldown_bars ec))
               ''reentry_cooldown'' tf x)
     | _ \<Rightarrow> (Pass, x))"

text \<open>The chain: the first stage that does not pass ends it.\<close>

fun run_stages :: "stage list \<Rightarrow> stage" where
  "run_stages [] x = (Pass, x)"
| "run_stages (s # ss) x = (case s x of (Pass, x') \<Rightarrow> run_stages ss x' | r \<Rightarrow> r)"

definition filter_stages :: "executor_config \<Rightarrow> admission_env \<Rightarrow> signal_event \<Rightarrow> string \<Rightarrow> stage list" where
  "filter_stages ec en ev tf =
    (let deployment = map_of (ec_strategy_deployments ec) (sg_strategy ev) in
     [\<lambda>x. pass_or_reject (sg_signal_id ev \<noteq> [] \<and> sg_signal_id ev \<in> set (xs_executed_signal_ids x)) ''duplicate_signal_id'' tf x,
      check_circuit_breaker ec en,
      \<lambda>x. if sg_direction ev \<in> {''buy'', ''sell''} then (Pass, x) else (Rejected ''invalid_direction'', x),
      \<lambda>x. case deployment of None \<Rightarrow> (Pass, x) | Some d \<Rightarrow> deployment_stage en d ev tf x,
      check_quote_health en ev tf,
      check_market_data_health en ev tf,
      check_tick_feature_health en ev tf,
      check_intrabar_synthesis_health en ev tf,
      pass_or_reject (en_trading_paused en = Some True) ''pnl_circuit_paused'' tf,
      equity_stage en tf,
      pass_or_reject (case en_margin_guard en of None \<Rightarrow> False | Some g \<Rightarrow> should_block_new_trades g) ''margin_guard_block'' tf,
      (let (allowed, reason) = gate_check (en_gate en) ev in pass_or_reject (\<not> allowed) reason tf),
      (let reason = duplicate_execution_reason en ev in pass_or_reject (reason \<noteq> []) reason tf),
      pass_or_reject (sg_confidence ev < min_confidence_for ec tf deployment) ''min_confidence'' tf,
      pass_or_reject (en_after_eod en = Some True) ''after_eod_block'' tf,
      \<lambda>x. case reached_position_limit ec en (sg_symbol ev) of Inl e \<Rightarrow> (Raised e, x)
          | Inr b \<Rightarrow> pass_or_reject b ''max_concurrent_positions_per_symbol'' tf x,
      check_reentry_cooldown ec en ev tf])"

definition run_pre_trade_filters :: "executor_config \<Rightarrow> admission_env \<Rightarrow> signal_event \<Rightarrow> string \<Rightarrow> stage" where
  "run_pre_trade_filters ec en ev tf = run_stages (filter_stages ec en ev tf)"

section \<open>Intrabar pipeline\<close>

record intrabar_result =
  ir_can_execute :: bool
  ir_parent_bar_time :: pyval
  ir_reject_reason :: "string option"
  ir_detail :: "string option"

definition parent_bar_of :: "signal_event \<Rightarrow> pyval" where
  "parent_bar_of ev = (case sg_parent_bar_time ev of Some t \<Rightarrow> VTime t
     | None \<Rightarrow> dget (sg_metadata ev) ''intrabar_parent_bar_time'')"

definition run_intrabar :: "executor_config \<Rightarrow> admission_env \<Rightarrow> signal_event \<Rightarrow> string \<Rightarrow> executor_state \<Rightarrow>
    intrabar_result res \<times> executor_state" where
  "run_intrabar ec en ev tf x =
    (let refuse = (\<lambda>bar reason detail. ok \<lparr>ir_can_execute = False, ir_parent_bar_time = bar, ir_reject_reason = Some reason,
           ir_detail = detail\<rparr>)
     in case xs_intrabar_guard x of
       None \<Rightarrow> (refuse VNone ''intrabar_guard_missing'' None, x)
     | Some g0 \<Rightarrow>
       let bar = parent_bar_of ev in
       if bar = VNone then (refuse VNone ''missing_parent_bar_time'' None, x)
       else let ((allowed, reason), g) = can_trade (sg_symbol ev) (sg_timeframe ev) (sg_strategy ev) (sg_direction ev) bar g0;
                x1 = x\<lparr>xs_intrabar_guard := Some g\<rparr>
       in if \<not> allowed then (refuse bar ''intrabar_guard_blocked'' (Some reason), x1)
       else let (gate_ok, gate_reason) = check_intrabar (en_gate en) ev
       in if \<not> gate_ok then (refuse bar ''intrabar_gate_blocked'' (Some gate_reason), x1)
       else (case run_pre_trade_filters ec en ev tf x1 of
           (Raised e, x2) \<Rightarrow> (raise e, x2)
         | (Rejected r, x2) \<Rightarrow> (refuse bar r None, x2)
         | (Pass, x2) \<Rightarrow> (ok \<lparr>ir_can_execute = True, ir_parent_bar_time = bar, ir_reject_reason = None, ir_detail = None\<rparr>, x2)))"

section \<open>What each filter asks\<close>

text \<open>The conditions of admission, stated on the state before the chain and without its order.\<close>

definition deployment_admits :: "admission_env \<Rightarrow> signal_event \<Rightarrow> deployment \<Rightarrow> bool" where
  "deployment_admits en ev d \<longleftrightarrow> dp_status d \<noteq> CANDIDATE \<and> is_executable_in (en_environment en) d = ok True \<and>
    (dp_locked_timeframes d \<noteq> [] \<longrightarrow> upper (strip (sg_timeframe ev)) \<in> set (dp_locked_timeframes d)) \<and>
    (dp_locked_sessions d \<noteq> [] \<longrightarrow> set (normalize_event_sessions en ev) \<inter> set (dp_locked_sessions d) \<noteq> {}) \<and>
    (\<forall>limit. dp_max_live_positions d = Some limit \<longrightarrow>
      (\<exists>n. open_positions_for_strategy en (sg_symbol ev) (sg_strategy ev) = ok n \<and> n < limit)) \<and>
    (dp_require_pending_entry d \<longrightarrow> (\<exists>g. sg_entry_spec_group ev = Some g \<and> \<not> all_market g) \<and> en_pending_entries en \<noteq> None)"

definition data_admits :: "admission_env \<Rightarrow> signal_event \<Rightarrow> bool" where
  "data_admits en ev \<longleftrightarrow>
    \<not> truthy (dget (quote_health (en_quote_health_fn en) (sg_symbol ev)) ''stale'') \<and>
    (\<exists>h. market_data_health (en_market_data_health_fn en) (Some (sg_symbol ev)) = ok h \<and> \<not> truthy (dget h ''blocking'')) \<and>
    (sg_scope ev = ''tick_derived'' \<longrightarrow>
      (\<exists>h. tick_feature_health (en_tick_feature_health_fn en) (Some (sg_symbol ev)) = ok h \<and> \<not> truthy (dget h ''blocking''))) \<and>
    (sg_scope ev = ''intrabar'' \<longrightarrow>
      \<not> truthy (dget (build_execution_intrabar_health (en_float en) (en_fromiso en) (Datetime (en_now en) (Some 0))
        (sg_metadata ev) (sg_scope ev)) ''stale''))"

definition circuit_admits :: "executor_config \<Rightarrow> admission_env \<Rightarrow> executor_state \<Rightarrow> bool" where
  "circuit_admits ec en x \<longleftrightarrow> \<not> xs_circuit_open x \<or> reset_due ec en x \<and> check_trading_health en"

definition equity_admits :: "admission_env \<Rightarrow> executor_state \<Rightarrow> bool" where
  "equity_admits en x \<longleftrightarrow> (\<forall>f. xs_equity_curve_filter x = Some f \<longrightarrow> fst (equity_should_block (record_equity (en_balance en) f)) = ok False)"

definition cooldown_over :: "executor_config \<Rightarrow> admission_env \<Rightarrow> signal_event \<Rightarrow> string \<Rightarrow> executor_state \<Rightarrow> bool" where
  "cooldown_over ec en ev tf x \<longleftrightarrow> (\<forall>bar last_bar. 0 < ec_reentry_cooldown_bars ec \<and> 0 < tf_to_seconds tf \<and>
    event_bar_time (en_fromiso en) ev = Some bar \<and>
    map_of (xs_last_entry_bar_time x) (sg_symbol ev, tf, sg_strategy ev, sg_direction ev) = Some last_bar \<longrightarrow>
    (\<exists>us. dt_sub bar last_bar = ok us \<and>
      of_int (ec_reentry_cooldown_bars ec) \<le> fl (\<bar>total_seconds us\<bar> / of_int (tf_to_seconds tf))))"

definition admissible :: "executor_config \<Rightarrow> admission_env \<Rightarrow> signal_event \<Rightarrow> string \<Rightarrow> executor_state \<Rightarrow> bool" where
  "admissible ec en ev tf x \<longleftrightarrow>
    (sg_signal_id ev = [] \<or> sg_signal_id ev \<notin> set (xs_executed_signal_ids x)) \<and> circuit_admits ec en x \<and>
    sg_direction ev \<in> {''buy'', ''sell''} \<and>
    (\<forall>d. map_of (ec_strategy_deployments ec) (sg_strategy ev) = Some d \<longrightarrow> deployment_admits en ev d) \<and>
    data_admits en ev \<and> en_trading_paused en \<noteq> Some True \<and> equity_admits en x \<and>
    (\<forall>g. en_margin_guard en = Some g \<longrightarrow> \<not> should_block_new_trades g) \<and> \<not> has_matching_pending_entry en ev \<and>
    min_confidence_for ec tf (map_of (ec_strategy_deployments ec) (sg_strategy ev)) \<le> sg_confidence ev \<and>
    en_after_eod en \<noteq> Some True \<and>
    (\<forall>limit. ec_max_concurrent_positions_per_symbol ec = Some limit \<and> 0 < limit \<longrightarrow>
      (\<exists>n. open_positions_for_symbol en (sg_symbol ev) = ok n \<and> n < limit)) \<and>
    cooldown_over ec en ev tf x"

section \<open>The chain\<close>

text \<open>Where no filter changes what a later one looks at, the chain passes exactly when every filter
  passes on the state at the start.\<close>

lemma run_stages_all:
  assumes "sorted_wrt (\<lambda>s t. \<forall>z. fst (s z) = Pass \<longrightarrow> fst (t (snd (s z))) = fst (t z)) ss"
  shows "fst (run_stages ss x) = Pass \<longleftrightarrow> (\<forall>s \<in> set ss. fst (s x) = Pass)"
  using assms
proof (induction ss arbitrary: x)
  case (Cons s ss)
  obtain v y where sx: "s x = (v, y)" by (cases "s x")
  have "fst (t y) = fst (t x)" if "v = Pass" "t \<in> set ss" for t
  proof -
    have "\<forall>z. fst (s z) = Pass \<longrightarrow> fst (t (snd (s z))) = fst (t z)" using Cons.prems that by simp
    from this [rule_format, of x] sx that show ?thesis by simp
  qed
  then show ?case using Cons.IH [of y] Cons.prems sx by (cases v) auto
qed simp

text \<open>What the filters look at.\<close>

definition looked_at :: "executor_state \<Rightarrow> string list \<times> ((string \<times> string \<times> string \<times> string) \<times> datetime) list" where
  "looked_at x = (xs_executed_signal_ids x, xs_last_entry_bar_time x)"

definition circuit_part :: "executor_state \<Rightarrow> bool \<times> int option \<times> int \<times> int" where
  "circuit_part x = (xs_circuit_open x, xs_circuit_open_at x, xs_consecutive_failures x, xs_health_check_failures x)"

lemmas part_defs = looked_at_def circuit_part_def

lemma notify_skip_keeps [simp]:
  "looked_at (notify_skip r tf x) = looked_at x" "circuit_part (notify_skip r tf x) = circuit_part x"
  "xs_equity_curve_filter (notify_skip r tf x) = xs_equity_curve_filter x"
  "xs_intrabar_guard (notify_skip r tf x) = xs_intrabar_guard x"
  by (simp_all add: notify_skip_def set_tf_entry_def part_defs)

text \<open>A filter is quiet if it keeps all of it and its verdict depends on the signals and entries only.\<close>

definition quiet_stage :: "stage \<Rightarrow> bool" where
  "quiet_stage s \<longleftrightarrow>
    (\<forall>x. looked_at (snd (s x)) = looked_at x \<and> circuit_part (snd (s x)) = circuit_part x \<and>
      xs_equity_curve_filter (snd (s x)) = xs_equity_curve_filter x \<and> xs_intrabar_guard (snd (s x)) = xs_intrabar_guard x) \<and>
    (\<forall>x y. looked_at x = looked_at y \<longrightarrow> fst (s x) = fst (s y))"

lemma quiet_pass_or_reject [simp]: "quiet_stage (pass_or_reject b r tf)"
  by (simp add: quiet_stage_def pass_or_reject_def reject_signal_def)

lemma quiet_risk_blocked [simp]: "quiet_stage (risk_blocked r tf)"
  by (simp add: quiet_stage_def risk_blocked_def reject_signal_def) (simp add: part_defs)

lemma quiet_const [simp]: "quiet_stage (\<lambda>x. (v, x))"
  by (simp add: quiet_stage_def)

lemma quiet_reject [simp]: "quiet_stage (reject_signal r tf)"
  by (simp add: quiet_stage_def reject_signal_def)

lemma quiet_if: "quiet_stage s \<Longrightarrow> quiet_stage t \<Longrightarrow> quiet_stage (\<lambda>x. if b then s x else t x)"
  by (cases b) simp_all

lemma quiet_sum:
  "(\<And>e. quiet_stage (f e)) \<Longrightarrow> (\<And>v. quiet_stage (g v)) \<Longrightarrow> quiet_stage (\<lambda>x. case m of Inl e \<Rightarrow> f e x | Inr v \<Rightarrow> g v x)"
  by (cases m) simp_all

lemma quiet_bool: "quiet_stage s \<Longrightarrow> quiet_stage t \<Longrightarrow> quiet_stage (\<lambda>x. case b of True \<Rightarrow> s x | False \<Rightarrow> t x)"
  by (cases b) simp_all

lemma quiet_option:
  "quiet_stage s \<Longrightarrow> (\<And>v. quiet_stage (g v)) \<Longrightarrow> quiet_stage (\<lambda>x. case m of None \<Rightarrow> s x | Some v \<Rightarrow> g v x)"
  by (cases m) simp_all

lemmas quiet_intros = quiet_if quiet_sum quiet_bool quiet_option quiet_const quiet_reject quiet_risk_blocked quiet_pass_or_reject

lemma quiet_deployment: "quiet_stage (deployment_stage en d ev tf)"
  unfolding deployment_stage_def [abs_def] by (intro quiet_intros)

lemma quiet_checks:
  "quiet_stage (check_quote_health en ev tf)" "quiet_stage (check_market_data_health en ev tf)"
  "quiet_stage (check_tick_feature_health en ev tf)" "quiet_stage (check_intrabar_synthesis_health en ev tf)"
  "quiet_stage (check_reentry_cooldown ec en ev tf)"
proof -
  have block: "quiet_stage (\<lambda>x. (Raised e, x\<lparr>xs_last_risk_block := Some r\<rparr>))" for e r
    by (simp add: quiet_stage_def part_defs)
  show "quiet_stage (check_quote_health en ev tf)"
    unfolding check_quote_health_def [abs_def] by (intro quiet_intros)
  show "quiet_stage (check_market_data_health en ev tf)"
    unfolding check_market_data_health_def [abs_def] by (intro quiet_intros block)
  show "quiet_stage (check_tick_feature_health en ev tf)"
    unfolding check_tick_feature_health_def [abs_def] by (intro quiet_intros)
  show "quiet_stage (check_intrabar_synthesis_health en ev tf)"
    unfolding check_intrabar_synthesis_health_def [abs_def] Let_def by (intro quiet_intros)
  show "quiet_stage (check_reentry_cooldown ec en ev tf)"
    by (simp add: quiet_stage_def check_reentry_cooldown_def pass_or_reject_def reject_signal_def split: option.splits sum.splits)
      (auto simp: looked_at_def)
qed

text \<open>The two filters that change what is looked at: the circuit breaker its own part, the equity
  filter the equity history.\<close>

lemma circuit_stage_keeps:
  "looked_at (snd (check_circuit_breaker ec en x)) = looked_at x"
  "xs_equity_curve_filter (snd (check_circuit_breaker ec en x)) = xs_equity_curve_filter x"
  "xs_intrabar_guard (snd (check_circuit_breaker ec en x)) = xs_intrabar_guard x"
  by (simp_all add: check_circuit_breaker_def reset_circuit_def looked_at_def Let_def)

lemma equity_stage_keeps:
  "looked_at (snd (equity_stage en tf x)) = looked_at x" "circuit_part (snd (equity_stage en tf x)) = circuit_part x"
  "xs_intrabar_guard (snd (equity_stage en tf x)) = xs_intrabar_guard x"
  by (auto simp: equity_stage_def pass_or_reject_def reject_signal_def Let_def split: option.splits prod.splits sum.splits)
    (simp_all add: part_defs)

lemma equity_stage_reads:
  "xs_equity_curve_filter x = xs_equity_curve_filter y \<Longrightarrow> fst (equity_stage en tf x) = fst (equity_stage en tf y)"
  by (auto simp: equity_stage_def pass_or_reject_def reject_signal_def Let_def split: option.splits prod.splits sum.splits)

lemma circuit_stage_reads:
  "circuit_part x = circuit_part y \<Longrightarrow> fst (check_circuit_breaker ec en x) = fst (check_circuit_breaker ec en y)"
  by (auto simp: check_circuit_breaker_def reset_due_def reset_circuit_def circuit_part_def Let_def split: option.splits)

definition early_stages :: "executor_config \<Rightarrow> admission_env \<Rightarrow> signal_event \<Rightarrow> string \<Rightarrow> stage list" where
  "early_stages ec en ev tf =
    [\<lambda>x. if sg_direction ev \<in> {''buy'', ''sell''} then (Pass, x) else (Rejected ''invalid_direction'', x),
     \<lambda>x. case map_of (ec_strategy_deployments ec) (sg_strategy ev) of None \<Rightarrow> (Pass, x) | Some d \<Rightarrow> deployment_stage en d ev tf x,
     check_quote_health en ev tf, check_market_data_health en ev tf, check_tick_feature_health en ev tf,
     check_intrabar_synthesis_health en ev tf, pass_or_reject (en_trading_paused en = Some True) ''pnl_circuit_paused'' tf]"

definition late_stages :: "executor_config \<Rightarrow> admission_env \<Rightarrow> signal_event \<Rightarrow> string \<Rightarrow> stage list" where
  "late_stages ec en ev tf =
    [pass_or_reject (case en_margin_guard en of None \<Rightarrow> False | Some g \<Rightarrow> should_block_new_trades g) ''margin_guard_block'' tf,
     (let (allowed, reason) = gate_check (en_gate en) ev in pass_or_reject (\<not> allowed) reason tf),
     (let reason = duplicate_execution_reason en ev in pass_or_reject (reason \<noteq> []) reason tf),
     pass_or_reject (sg_confidence ev < min_confidence_for ec tf (map_of (ec_strategy_deployments ec) (sg_strategy ev))) ''min_confidence'' tf,
     pass_or_reject (en_after_eod en = Some True) ''after_eod_block'' tf,
     \<lambda>x. case reached_position_limit ec en (sg_symbol ev) of Inl e \<Rightarrow> (Raised e, x)
         | Inr b \<Rightarrow> pass_or_reject b ''max_concurrent_positions_per_symbol'' tf x,
     check_reentry_cooldown ec en ev tf]"

definition id_stage :: "signal_event \<Rightarrow> string \<Rightarrow> stage" where
  "id_stage ev tf x = pass_or_reject (sg_signal_id ev \<noteq> [] \<and> sg_signal_id ev \<in> set (xs_executed_signal_ids x)) ''duplicate_signal_id'' tf x"

lemma filter_stages_groups:
  "filter_stages ec en ev tf =
    id_stage ev tf # check_circuit_breaker ec en # early_stages ec en ev tf @ equity_stage en tf # late_stages ec en ev tf"
  by (simp add: filter_stages_def early_stages_def late_stages_def id_stage_def [abs_def] Let_def)

lemma quiet_groups: "s \<in> set (id_stage ev tf # early_stages ec en ev tf @ late_stages ec en ev tf) \<Longrightarrow> quiet_stage s"
proof -
  have id: "quiet_stage (id_stage ev tf)"
    by (simp add: quiet_stage_def id_stage_def pass_or_reject_def reject_signal_def looked_at_def)
      (auto simp: notify_skip_def set_tf_entry_def part_defs)
  have dep: "quiet_stage (\<lambda>x. case m of None \<Rightarrow> (Pass, x) | Some d \<Rightarrow> deployment_stage en d ev tf x)" for m
    by (intro quiet_intros quiet_deployment)
  have limit: "quiet_stage (\<lambda>x. case m of Inl e \<Rightarrow> (Raised e, x) | Inr b \<Rightarrow> pass_or_reject b r tf x)" for m r
    by (intro quiet_intros)
  show "s \<in> set (id_stage ev tf # early_stages ec en ev tf @ late_stages ec en ev tf) \<Longrightarrow> quiet_stage s"
    using id dep limit quiet_checks quiet_if [OF quiet_const quiet_const]
    by (auto simp: early_stages_def late_stages_def gate_check_def Let_def)
qed

lemma quiet_sorted:
  assumes "\<forall>s \<in> set ss. quiet_stage s"
  shows "sorted_wrt (\<lambda>s t. \<forall>z. fst (s z) = Pass \<longrightarrow> fst (t (snd (s z))) = fst (t z)) ss"
proof -
  have "fst (t (snd (s z))) = fst (t z)" if "quiet_stage s" "quiet_stage t" for s t :: stage and z
    using that unfolding quiet_stage_def by blast
  then show ?thesis using assms by (induction ss) simp_all
qed

lemma filters_pass_iff:
  "fst (run_pre_trade_filters ec en ev tf x) = Pass \<longleftrightarrow> (\<forall>s \<in> set (filter_stages ec en ev tf). fst (s x) = Pass)"
  unfolding run_pre_trade_filters_def
proof (rule run_stages_all)
  have q: "\<forall>s \<in> set (id_stage ev tf # early_stages ec en ev tf @ late_stages ec en ev tf). quiet_stage s"
    using quiet_groups by blast
  have e: "sorted_wrt (\<lambda>s t. \<forall>z. fst (s z) = Pass \<longrightarrow> fst (t (snd (s z))) = fst (t z)) (early_stages ec en ev tf)"
      "sorted_wrt (\<lambda>s t. \<forall>z. fst (s z) = Pass \<longrightarrow> fst (t (snd (s z))) = fst (t z)) (late_stages ec en ev tf)"
    using q by (auto intro!: quiet_sorted)
  have reads: "fst (t (snd (s z))) = fst (t z)" if "quiet_stage t" "looked_at (snd (s z)) = looked_at z" for s t :: stage and z
    using that unfolding quiet_stage_def by blast
  have keeps: "looked_at (snd (s z)) = looked_at z \<and> circuit_part (snd (s z)) = circuit_part z \<and>
      xs_equity_curve_filter (snd (s z)) = xs_equity_curve_filter z" if "quiet_stage s" for s :: stage and z
    using that unfolding quiet_stage_def by blast
  show "sorted_wrt (\<lambda>s t. \<forall>z. fst (s z) = Pass \<longrightarrow> fst (t (snd (s z))) = fst (t z)) (filter_stages ec en ev tf)"
    unfolding filter_stages_groups using q e reads keeps
    by (auto simp: sorted_wrt_append circuit_stage_keeps equity_stage_keeps intro: circuit_stage_reads equity_stage_reads)
qed

section \<open>Each filter\<close>

lemma pass_or_reject_pass [simp]: "fst (pass_or_reject b r tf x) = Pass \<longleftrightarrow> \<not> b"
  by (simp add: pass_or_reject_def reject_signal_def)

lemma rejects [simp]: "fst (reject_signal r tf x) = Rejected r" "fst (risk_blocked r tf x) = Rejected r"
  by (simp_all add: reject_signal_def risk_blocked_def)

lemma circuit_pass: "fst (check_circuit_breaker ec en x) = Pass \<longleftrightarrow> circuit_admits ec en x"
  by (simp add: check_circuit_breaker_def circuit_admits_def reset_circuit_def Let_def)

lemma equity_pass: "fst (equity_stage en tf x) = Pass \<longleftrightarrow> equity_admits en x"
  by (cases "xs_equity_curve_filter x")
    (auto simp: equity_stage_def equity_admits_def Let_def split: prod.splits sum.splits)

lemma deployment_pass: "fst (deployment_stage en d ev tf x) = Pass \<longleftrightarrow> deployment_admits en ev d"
  by (cases "dp_max_live_positions d"; cases "open_positions_for_strategy en (sg_symbol ev) (sg_strategy ev)"; cases "sg_entry_spec_group ev")
    (auto simp: deployment_stage_def deployment_admits_def allows_runtime_evaluation_def entry_all_market_def
      split: sum.splits bool.splits)

lemma data_pass:
  "(\<forall>s \<in> set [check_quote_health en ev tf, check_market_data_health en ev tf, check_tick_feature_health en ev tf,
     check_intrabar_synthesis_health en ev tf]. fst (s x) = Pass) \<longleftrightarrow> data_admits en ev"
  by (auto simp: check_quote_health_def check_market_data_health_def check_tick_feature_health_def
      check_intrabar_synthesis_health_def data_admits_def Let_def split: sum.splits)

lemma cooldown_pass: "fst (check_reentry_cooldown ec en ev tf x) = Pass \<longleftrightarrow> cooldown_over ec en ev tf x"
  by (auto simp: check_reentry_cooldown_def cooldown_over_def not_less not_le split: option.splits sum.splits)

lemma limit_pass:
  "fst (case reached_position_limit ec en symbol of Inl e \<Rightarrow> (Raised e, x) | Inr b \<Rightarrow> pass_or_reject b r tf x) = Pass \<longleftrightarrow>
    (\<forall>limit. ec_max_concurrent_positions_per_symbol ec = Some limit \<and> 0 < limit \<longrightarrow>
      (\<exists>n. open_positions_for_symbol en symbol = ok n \<and> n < limit))"
  by (cases "open_positions_for_symbol en symbol") (auto simp: reached_position_limit_def split: option.splits)

lemma admission_iff_admissible:
  "fst (run_pre_trade_filters ec en ev tf x) = Pass \<longleftrightarrow> admissible ec en ev tf x"
proof -
  have dup: "duplicate_execution_reason en ev = [] \<longleftrightarrow> \<not> has_matching_pending_entry en ev"
    by (simp add: duplicate_execution_reason_def)
  have early: "(\<forall>s \<in> set (early_stages ec en ev tf). fst (s x) = Pass) \<longleftrightarrow> sg_direction ev \<in> {''buy'', ''sell''} \<and>
      (\<forall>d. map_of (ec_strategy_deployments ec) (sg_strategy ev) = Some d \<longrightarrow> deployment_admits en ev d) \<and> data_admits en ev \<and>
      en_trading_paused en \<noteq> Some True"
    using data_pass [of en ev tf x]
    by (cases "map_of (ec_strategy_deployments ec) (sg_strategy ev)") (auto simp: early_stages_def deployment_pass)
  show ?thesis
    unfolding filters_pass_iff filter_stages_groups
    by (simp only: list.set set_append ball_Un ball_simps early circuit_pass equity_pass)
      (auto simp: admissible_def id_stage_def late_stages_def gate_check_def dup cooldown_pass limit_pass not_less Let_def split: option.splits)
qed

section \<open>Properties\<close>

text \<open>C7: What admits a signal. The chain of filters lets a signal pass exactly when, on the state it
  starts from, the signal was not executed before, the circuit is closed or due for a reset with
  the account reachable, the direction is buy or sell, the strategy's deployment allows it in
  this environment, timeframe, session and number of positions, quotes and data are fresh,
  trading is not paused, the equity is not below its average, the margin guard does not block, no
  entry of the strategy is pending, the confidence is sufficient, the day is not over, the
  symbol has room for a position, and the re-entry cooldown is over. The order of the filters and
  what they record on the way do not matter.\<close>

theorem admitted_iff_every_condition:
  "fst (run_pre_trade_filters ec en ev tf x) = Pass \<longleftrightarrow> admissible ec en ev tf x"
  by (rule admission_iff_admissible)

text \<open>A flat account counts as falling: five equal samples of 1000.02 have a computed average above
  every one of them, and the filter blocks.\<close>

lemma flat_equity_blocked:
  "fst (equity_should_block ((EquityCurveFilter True 20 5)\<lparr>ef_equity_history := replicate 5 (fl (100002 / 100))\<rparr>)) = ok True"
  by code_simp

end
