(* ===== verification/Trade_Executor.thy ===== *)
theory Trade_Executor
  imports Trade_Admission Trade_Sizing Comment_Codec
begin

text \<open>
  The trade executor (\<open>executor.py\<close>, \<open>decision_engine.py\<close>, \<open>entry_dispatch.py\<close>, the order functions of
  \<open>eventing.py\<close> and \<open>pending_orders.py\<close>, and \<open>reasons.py\<close> of \<open>trading/execution\<close>): from a signal that
  passed the filters to a decision, to a market order or a group of pending orders, and to what
  the executor remembers of it. The trading module, the position manager and the pending manager
  are a port that acts on a world of its own; the entry policy that derives the order group from
  the signal is a parameter. The queue and thread around the handlers, the logs, events and
  reports are left out.
\<close>

section \<open>Reasons\<close>

definition exact_category_map :: "(string \<times> string) list" where
  "exact_category_map =
    [(''min_confidence'', ''confidence''), (''max_concurrent_positions_per_symbol'', ''position''),
     (''pnl_circuit_paused'', ''circuit''), (''margin_guard_block'', ''risk_guard''), (''quote_stale'', ''market_data''),
     (''market_data_unhealthy'', ''market_data''), (''tick_feature_health_unavailable'', ''market_data''),
     (''tick_feature_health_blocked'', ''market_data''), (''intrabar_synthesis_stale'', ''market_data''),
     (''intrabar_synthesis_unavailable'', ''market_data''), (''htf_conflict_block'', ''htf_alignment''),
     (''after_eod_block'', ''eod_guard''), (''reentry_cooldown'', ''cooldown''),
     (''spread_to_stop_ratio_too_high'', ''cost_guard''), (''single_trade_loss_cap_exceeded'', ''risk_guard''),
     (''trade_params_unavailable'', ''trade_params''), (''entry_policy_unavailable'', ''execution_input''),
     (''pending_entry_manager_unavailable'', ''execution_input''), (''duplicate_signal_id'', ''duplicate_guard''),
     (''pending_entry_same_strategy'', ''duplicate_guard''), (''equity_curve_below_ma'', ''equity_filter''),
     (''missing_signal_id'', ''execution_input''), (''new_signal_override'', ''execution_input''),
     (''pending_order_failed'', ''pending_submit''), (''queue_overflow'', ''other''),
     (''auto_trade_disabled'', ''execution_gate''), (''intrabar_position_already_validated'', ''position''),
     (''intrabar_position_hold'', ''position''), (''intrabar_trading_disabled'', ''execution_gate''),
     (''strategy_not_intrabar_enabled'', ''execution_gate''), (''strategy_candidate_only'', ''governance''),
     (''strategy_demo_validation'', ''governance''), (''strategy_locked_timeframe'', ''governance''),
     (''strategy_locked_session'', ''governance''), (''strategy_max_live_positions'', ''position''),
     (''strategy_requires_pending_entry'', ''execution_gate'')]"

definition reason_category :: "string \<Rightarrow> string" where
  "reason_category reason =
    (if reason = [] then ''other''
     else case map_of exact_category_map reason of
       Some c \<Rightarrow> c
     | None \<Rightarrow>
       if starts_with reason ''pending_order_failed:'' then ''pending_submit''
       else case List.find (\<lambda>(key, _). contains_str reason key)
              [(''duplicate'', ''duplicate_guard''), (''same_strategy'', ''duplicate_guard''),
               (''execution_gate'', ''execution_gate''), (''gate'', ''execution_gate''), (''armed'', ''execution_gate'')] of
         Some (_, c) \<Rightarrow> c
       | None \<Rightarrow> if reason = ''circuit_open'' then ''circuit'' else ''other'')"

section \<open>Results\<close>

definition details_entry :: "pydict \<Rightarrow> pydict" where
  "details_entry details = (if details = [] then [] else [(''details'', VDict details)])"

definition normal_reason :: "string \<Rightarrow> string \<Rightarrow> string" where
  "normal_reason reason default_reason =
    (let t = strip (if reason = [] then default_reason else reason) in if t = [] then default_reason else t)"

definition normal_category :: "string \<Rightarrow> string \<Rightarrow> string" where
  "normal_category category reason =
    (let t = strip (if category = [] then reason_category reason else category) in if t = [] then reason_category reason else t)"

definition build_skipped_result :: "string \<Rightarrow> string \<Rightarrow> pydict \<Rightarrow> pydict" where
  "build_skipped_result reason category details =
    (let r = normal_reason reason ''skipped''; c = normal_category category r
     in [(''status'', VStr ''skipped''), (''reason'', VStr r), (''skip_reason'', VStr r), (''category'', VStr c),
         (''skip_category'', VStr c)] @ details_entry details)"

definition build_terminal_result :: "string \<Rightarrow> string \<Rightarrow> string \<Rightarrow> pydict \<Rightarrow> string \<Rightarrow> pydict" where
  "build_terminal_result status reason category details error_code =
    (let s = (let t = lower (strip status) in if t = [] then ''failed'' else t);
         r = normal_reason reason s; c = normal_category category r
     in [(''status'', VStr s), (''reason'', VStr r), (''category'', VStr c)] @
        (if s = ''skipped'' then [(''skip_reason'', VStr r), (''skip_category'', VStr c)] else []) @
        (if error_code = [] then [] else [(''error_code'', VStr error_code)]) @ details_entry details)"

definition is_dispatch_committed :: "pyval \<Rightarrow> bool" where
  "is_dispatch_committed result = (case result of
      VDict d \<Rightarrow> lower (strip (str_or_empty (dget d ''status''))) \<notin> {''failed'', ''skipped'', ''blocked'', ''error''}
    | _ \<Rightarrow> False)"

definition exc_name :: "py_error \<Rightarrow> string" where
  "exc_name e = (case e of ValueError _ \<Rightarrow> ''ValueError'' | TypeError _ \<Rightarrow> ''TypeError'' | KeyError _ \<Rightarrow> ''KeyError''
     | AssertionError \<Rightarrow> ''AssertionError'' | ZeroDivisionError \<Rightarrow> ''ZeroDivisionError'' | RuntimeError _ \<Rightarrow> ''RuntimeError''
     | IndexError \<Rightarrow> ''IndexError'' | AttributeError _ \<Rightarrow> ''AttributeError'' | QueueEmpty \<Rightarrow> ''Empty'')"

section \<open>The port\<close>

datatype dispatch_outcome = Dispatched pyval | RiskBlocked string pydict | DispatchError py_error

record pending_config =
  pq_timeout_bars :: "(string \<times> rat) list"
  pq_default_timeout_bars :: rat
  pq_cancel_on_new_signal :: bool
  pq_cancel_same_direction :: bool

text \<open>What the executor does to the outside: dispatching a trade, registering a position, cancelling a
  symbol's pending entries except those of a direction, and tracking a pending order under a key,
  with its ticket, life time in seconds, stop and target.\<close>

record 'w execution_port =
  xp_dispatch :: "pydict \<Rightarrow> 'w \<Rightarrow> dispatch_outcome \<times> 'w"
  xp_track_position :: "int \<Rightarrow> signal_event \<Rightarrow> trade_parameters \<Rightarrow> 'w \<Rightarrow> 'w"
  xp_cancel_by_symbol :: "string \<Rightarrow> string option \<Rightarrow> 'w \<Rightarrow> 'w"
  xp_track_mt5_order :: "string \<Rightarrow> pyval \<Rightarrow> rat \<Rightarrow> signal_event \<Rightarrow> trade_parameters \<Rightarrow> entry_group \<Rightarrow> entry_member \<Rightarrow> rat \<times> rat \<Rightarrow>
    string \<Rightarrow> 'w \<Rightarrow> unit res \<times> 'w"
  xp_pending_config :: pending_config
  xp_account_balance :: "rat option"
  xp_derive :: "signal_event \<Rightarrow> trade_parameters \<Rightarrow> entry_group option"
  xp_sizing :: sizing_config
  xp_max_single_trade_loss :: "rat option"

section \<open>Decision\<close>

record execution_decision =
  xd_trade_params :: "trade_parameters option"
  xd_cost_metrics :: "cost_metrics option"
  xd_use_market :: bool
  xd_entry_type :: string
  xd_reject_reason :: "string option"
  xd_spread_to_stop_ratio :: "rat option"

definition sizing_event_of :: "signal_event \<Rightarrow> sizing_event" where
  "sizing_event_of ev = \<lparr>se_symbol = sg_symbol ev, se_timeframe = sg_timeframe ev, se_direction = sg_direction ev,
     se_indicators = sg_indicators ev, se_metadata = sg_metadata ev, se_exit_spec = sg_exit_spec ev\<rparr>"

definition ensure_entry_spec_group :: "'w execution_port \<Rightarrow> signal_event \<Rightarrow> trade_parameters \<Rightarrow> entry_group option \<times> signal_event" where
  "ensure_entry_spec_group xp ev params = (case sg_entry_spec_group ev of
      Some g \<Rightarrow> (Some g, ev)
    | None \<Rightarrow> (case xp_derive xp ev params of None \<Rightarrow> (None, ev)
        | Some g \<Rightarrow> (Some g, ev\<lparr>sg_entry_spec_group := Some g\<rparr>)))"

definition entry_type_value :: "entry_type \<Rightarrow> string" where
  "entry_type_value t = (case t of MARKET \<Rightarrow> ''market'' | LIMIT \<Rightarrow> ''limit'' | STOP \<Rightarrow> ''stop'')"

definition group_entry_type :: "entry_group \<Rightarrow> string" where
  "group_entry_type g = (case eg_members g of [m] \<Rightarrow> entry_type_value (em_entry_type m)
     | [] \<Rightarrow> ''market'' | _ \<Rightarrow> ''oco'')"

definition check_loss_cap :: "'w execution_port \<Rightarrow> signal_event \<Rightarrow> trade_parameters \<Rightarrow> bool res" where
  "check_loss_cap xp ev params =
    (let sizes = sc_contract_size_map (xp_sizing xp)
     in case map_of sizes ''default'' of
       None \<Rightarrow> raise (KeyError ''default'')
     | Some default_size \<Rightarrow>
       rbind (check_single_trade_loss_cap (xp_max_single_trade_loss xp) (tp_position_size params) (tp_sl_distance params)
           (case map_of sizes (sg_symbol ev) of Some s \<Rightarrow> s | None \<Rightarrow> default_size))
         (\<lambda>r. ok (lc_allowed r)))"

text \<open>The part the two kinds of signals share: parameters, loss cap, order group; only confirmed
  signals compare the spread with the stop here.\<close>

definition build_decision :: "bool \<Rightarrow> executor_config \<Rightarrow> admission_env \<Rightarrow> 'w execution_port \<Rightarrow> signal_event \<Rightarrow>
    (execution_decision \<times> signal_event) res" where
  "build_decision confirmed ec en xp ev =
    rbind (compute_params (en_float en) (xp_sizing xp) (xp_account_balance xp) (sizing_event_of ev)) (\<lambda>p.
      case p of
        None \<Rightarrow> ok (\<lparr>xd_trade_params = None, xd_cost_metrics = None, xd_use_market = True, xd_entry_type = ''market'',
          xd_reject_reason = Some ''trade_params_unavailable'', xd_spread_to_stop_ratio = None\<rparr>, ev)
      | Some params \<Rightarrow>
        let cost = estimate_cost_metrics (en_float en) (sizing_event_of ev) params;
            ratio = cm_spread_to_stop_ratio cost;
            decide = (\<lambda>use_market entry_type reject. \<lparr>xd_trade_params = Some params, xd_cost_metrics = Some cost,
              xd_use_market = use_market, xd_entry_type = entry_type, xd_reject_reason = reject,
              xd_spread_to_stop_ratio = (if confirmed then ratio else None)\<rparr>)
        in if confirmed \<and> (case ratio of None \<Rightarrow> False | Some r \<Rightarrow> ec_max_spread_to_stop_ratio ec < r)
           then ok (decide True ''market'' (Some ''spread_to_stop_ratio_too_high''), ev)
           else rbind (check_loss_cap xp ev params) (\<lambda>allowed.
             if \<not> allowed then ok (decide True ''market'' (Some ''single_trade_loss_cap_exceeded''), ev)
             else let (group, ev') = ensure_entry_spec_group xp ev params
             in case group of
                  None \<Rightarrow> ok (decide False [] (Some ''entry_policy_unavailable''), ev')
                | Some g \<Rightarrow>
                  if \<not> all_market g \<and> en_pending_entries en = None
                  then ok (decide False (group_entry_type g) (Some ''pending_entry_manager_unavailable''), ev')
                  else ok (decide (all_market g) (group_entry_type g) None, ev')))"

section \<open>Orders\<close>

definition build_trade_metadata :: "signal_event \<Rightarrow> pydict" where
  "build_trade_metadata ev =
    [(''entry_origin'', VStr ''auto''),
     (''signal'', VDict [(''signal_id'', VStr (sg_signal_id ev)), (''strategy'', VStr (sg_strategy ev)),
        (''timeframe'', VStr (sg_timeframe ev)), (''signal_state'', VStr (sg_signal_state ev)),
        (''confidence'', VFloat (pyround (sg_confidence ev) 4))])] @
    (if dget (sg_metadata ev) ''regime'' = VNone then [] else [(''regime'', dget (sg_metadata ev) ''regime'')]) @
    (case dget (sg_metadata ev) ''market_structure'' of VDict d \<Rightarrow> [(''market_structure'', VDict d)] | _ \<Rightarrow> [])"

definition market_payload :: "signal_event \<Rightarrow> trade_parameters \<Rightarrow> pydict" where
  "market_payload ev params =
    [(''symbol'', VStr (sg_symbol ev)), (''volume'', VFloat (tp_position_size params)), (''side'', VStr (sg_direction ev)),
     (''order_kind'', VStr ''market''), (''sl'', VFloat (tp_stop_loss params)), (''tp'', VFloat (tp_take_profit params)),
     (''comment'', VStr (build_trade_comment (sg_signal_id ev) (sg_timeframe ev) (sg_strategy ev) (sg_direction ev) ''market'' [])),
     (''request_id'', VStr (sg_signal_id ev)), (''metadata'', VDict (build_trade_metadata ev))]"

text \<open>\<open>a - b\<close> of two values.\<close>

definition num_sub :: "pyval \<Rightarrow> pyval \<Rightarrow> rat res" where
  "num_sub a b =
    (let number = (\<lambda>v. case v of VInt n \<Rightarrow> Some (fl (of_int n)) | VFloat x \<Rightarrow> Some x | VBool t \<Rightarrow> Some (if t then 1 else 0) | _ \<Rightarrow> None)
     in case (a, b) of
       (VInt m, VInt n) \<Rightarrow> ok (of_int (m - n))
     | _ \<Rightarrow> (case (number a, number b) of
           (Some x, Some y) \<Rightarrow> ok (fl (x - y))
         | _ \<Rightarrow> raise (TypeError (''unsupported operand type(s) for -: '' @ repr_str (py_type_name a) @ '' and '' @ repr_str (py_type_name b)))))"

definition adjust_params_for_fill :: "(string \<Rightarrow> rat option) \<Rightarrow> trade_parameters \<Rightarrow> pyval \<Rightarrow> pyval \<Rightarrow> trade_parameters res" where
  "adjust_params_for_fill pf params requested_price fill_price =
    (if requested_price = VNone \<or> fill_price = VNone then ok params
     else rbind (num_sub fill_price requested_price) (\<lambda>shift.
       if \<bar>shift\<bar> < fl (1 / 10 ^ 10) then ok params
       else rbind (py_float_of pf fill_price) (\<lambda>fill.
         let sl = fl (tp_stop_loss params + shift); tp = fl (tp_take_profit params + shift)
         in ok (params\<lparr>tp_entry_price := fill, tp_stop_loss := sl, tp_take_profit := tp,
              tp_sl_distance := \<bar>fl (fill - sl)\<bar>, tp_tp_distance := \<bar>fl (tp - fill)\<bar>\<rparr>))))"

definition record_slippage :: "(string \<Rightarrow> rat option) \<Rightarrow> pyval \<Rightarrow> pyval \<Rightarrow> rat option \<Rightarrow> execution_quality \<Rightarrow> pydict \<times> execution_quality" where
  "record_slippage pf requested_price fill_price symbol_point q =
    (let requested = numeric pf requested_price; filled = numeric pf fill_price;
         report = (\<lambda>sp pts. [(''requested_price'', opt_float requested), (''fill_price'', opt_float filled),
           (''slippage_price'', opt_float sp), (''slippage_points'', opt_float pts)])
     in case (requested, filled) of
       (Some r, Some f) \<Rightarrow>
         let slip = pyround (fl (f - r)) 6;
             points = (case positive symbol_point of None \<Rightarrow> None | Some pt \<Rightarrow> Some (pyround (fl (slip / pt)) 2))
         in (report (Some slip) points,
             q\<lparr>eq_slippage_samples := eq_slippage_samples q + 1,
               eq_slippage_total_price := fl (eq_slippage_total_price q + slip),
               eq_slippage_total_points := (case points of None \<Rightarrow> eq_slippage_total_points q
                 | Some pts \<Rightarrow> fl (eq_slippage_total_points q + pts))\<rparr>)
     | _ \<Rightarrow> (report None None, q))"

definition record_reentry_bar_time :: "admission_env \<Rightarrow> signal_event \<Rightarrow> executor_state \<Rightarrow> executor_state" where
  "record_reentry_bar_time en ev x = (case event_bar_time (\<lambda>s. en_fromiso en (replace_Z s)) ev of
      None \<Rightarrow> x
    | Some bar \<Rightarrow> x\<lparr>xs_last_entry_bar_time :=
        AList.update (sg_symbol ev, sg_timeframe ev, sg_strategy ev, sg_direction ev) bar (xs_last_entry_bar_time x)\<rparr>)"

text \<open>A failed dispatch counts towards the circuit breaker.\<close>

definition dispatch_failed :: "executor_config \<Rightarrow> admission_env \<Rightarrow> signal_event \<Rightarrow> py_error \<Rightarrow> executor_state \<Rightarrow> pyval \<times> executor_state" where
  "dispatch_failed ec en ev e x =
    (let x1 = notify_skip ''execution_failed'' (sg_timeframe ev)
           (x\<lparr>xs_last_error := Some (exc_text e), xs_consecutive_failures := xs_consecutive_failures x + 1\<rparr>);
         x2 = (if \<not> xs_circuit_open x1 \<and> ec_max_consecutive_failures ec \<le> xs_consecutive_failures x1
               then x1\<lparr>xs_circuit_open := True, xs_circuit_open_at := Some (en_now en)\<rparr> else x1)
     in (VDict (build_terminal_result ''failed'' (exc_text e) ''dispatch'' [] (exc_name e)), x2))"

definition risk_blocked_result :: "signal_event \<Rightarrow> string \<Rightarrow> pydict \<Rightarrow> executor_state \<Rightarrow> pyval \<times> executor_state" where
  "risk_blocked_result ev message assessment x =
    (let reason = py_str (py_or (dget assessment ''reason'') (VStr message));
         q = xs_execution_quality x
     in (VDict (build_terminal_result ''skipped'' reason ''risk_service'' [(''assessment'', VDict assessment)] []),
         notify_skip reason (sg_timeframe ev)
           (x\<lparr>xs_last_risk_block := Some message, xs_execution_quality := q\<lparr>eq_risk_blocks := eq_risk_blocks q + 1\<rparr>\<rparr>)))"

text \<open>\<open>result.setdefault("execution_quality", quality)\<close>.\<close>

definition with_quality :: "pydict \<Rightarrow> pydict \<Rightarrow> pydict" where
  "with_quality quality d = (if map_of d ''execution_quality'' = None then d @ [(''execution_quality'', VDict quality)] else d)"

definition register_position :: "admission_env \<Rightarrow> 'w execution_port \<Rightarrow> signal_event \<Rightarrow> trade_parameters \<Rightarrow> pydict \<Rightarrow> 'w \<Rightarrow> 'w" where
  "register_position en xp ev params result w =
    (let ticket = py_or (dget result ''ticket'') (dget result ''order'')
     in if en_active_positions en = None \<or> \<not> truthy ticket then w
        else case py_int_of ticket of
          Inl _ \<Rightarrow> w
        | Inr n \<Rightarrow> if dget result ''fill_price'' \<noteq> VNone \<and> isl (py_float_of (en_float en) (dget result ''fill_price'')) then w
                  else xp_track_position xp n ev params w)"

definition market_filled :: "executor_config \<Rightarrow> admission_env \<Rightarrow> 'w execution_port \<Rightarrow> signal_event \<Rightarrow> trade_parameters \<Rightarrow>
    cost_metrics option \<Rightarrow> pyval \<Rightarrow> executor_state \<Rightarrow> 'w \<Rightarrow> pyval \<times> executor_state \<times> 'w" where
  "market_filled ec en xp ev params cost result x w =
    (let x1 = x\<lparr>xs_execution_count := xs_execution_count x + 1, xs_last_error := None, xs_last_risk_block := None,
           xs_consecutive_failures := 0\<rparr>;
         d = safe_dict result;
         requested = (case result of VDict _ \<Rightarrow> py_or (dget d ''requested_price'') (dget d ''price'') | _ \<Rightarrow> VNone);
         fill = (case result of VDict _ \<Rightarrow> py_or (dget d ''fill_price'') (dget d ''price'') | _ \<Rightarrow> VNone);
         point = (case cost of Some c \<Rightarrow> (if result = VDict d then cm_symbol_point c else None) | None \<Rightarrow> None);
         q = xs_execution_quality x1;
         q1 = (if truthy (dget d ''recovered_from_state'') then q\<lparr>eq_recovered_from_state := eq_recovered_from_state q + 1\<rparr> else q);
         (quality, q2) = record_slippage (en_float en) requested fill point q1;
         x2 = x1\<lparr>xs_execution_quality := q2\<rparr>
     in case adjust_params_for_fill (en_float en) params requested fill of
          Inl e \<Rightarrow> (case dispatch_failed ec en ev e x2 of (r, x3) \<Rightarrow> (r, x3, w))
        | Inr tracked \<Rightarrow>
          let x3 = record_reentry_bar_time en ev x2
          in case result of
               VDict d \<Rightarrow> (VDict (with_quality quality d), x3, register_position en xp ev tracked d w)
             | _ \<Rightarrow> (result, x3, w))"

definition execute_market_order :: "executor_config \<Rightarrow> admission_env \<Rightarrow> 'w execution_port \<Rightarrow> signal_event \<Rightarrow> trade_parameters \<Rightarrow>
    cost_metrics option \<Rightarrow> executor_state \<Rightarrow> 'w \<Rightarrow> pyval \<times> executor_state \<times> 'w" where
  "execute_market_order ec en xp ev params cost x w =
    (case xp_dispatch xp (market_payload ev params) w of
       (Dispatched result, w') \<Rightarrow> market_filled ec en xp ev params cost result x w'
     | (RiskBlocked message assessment, w') \<Rightarrow> (case risk_blocked_result ev message assessment x of (r, x') \<Rightarrow> (r, x', w'))
     | (DispatchError e, w') \<Rightarrow> (case dispatch_failed ec en ev e x of (r, x') \<Rightarrow> (r, x', w')))"

definition compute_timeout :: "pending_config \<Rightarrow> string \<Rightarrow> rat" where
  "compute_timeout pq timeframe =
    (let tf = upper (strip timeframe);
         bars = (case map_of (pq_timeout_bars pq) tf of Some b \<Rightarrow> b | None \<Rightarrow> pq_default_timeout_bars pq);
         bar_seconds = (if tf \<in> {''M1'', ''M5'', ''M15'', ''M30'', ''H1'', ''H4'', ''D1'', ''W1''} then timeframe_seconds tf else 300)
     in fl (bars * of_int bar_seconds))"

definition member_levels :: "trade_parameters \<Rightarrow> entry_member \<Rightarrow> rat \<times> rat" where
  "member_levels params m =
    (let shift = fl (em_trigger_price m - tp_entry_price params)
     in (pyround (fl (tp_stop_loss params + shift)) 2, pyround (fl (tp_take_profit params + shift)) 2))"

definition entry_key :: "signal_event \<Rightarrow> entry_group \<Rightarrow> entry_member \<Rightarrow> string" where
  "entry_key ev g m = (if length (eg_members g) = 1 then sg_signal_id ev else sg_signal_id ev @ ''#'' @ em_member_id m)"

definition pending_payload :: "signal_event \<Rightarrow> trade_parameters \<Rightarrow> entry_group \<Rightarrow> entry_member \<Rightarrow> pydict" where
  "pending_payload ev params g m =
    (let kind = entry_type_value (em_entry_type m); (sl, tp) = member_levels params m
     in [(''symbol'', VStr (sg_symbol ev)), (''volume'', VFloat (tp_position_size params)), (''side'', VStr (sg_direction ev)),
         (''order_kind'', VStr kind), (''price'', VFloat (em_trigger_price m)), (''sl'', VFloat sl), (''tp'', VFloat tp),
         (''comment'', VStr (build_trade_comment (sg_signal_id ev) (sg_timeframe ev) (sg_strategy ev) (sg_direction ev) kind [])),
         (''request_id'', VStr (entry_key ev g m)), (''metadata'', VDict (build_trade_metadata ev))])"

text \<open>The comment of a placed order: what the broker kept of it, or else the one that was sent.\<close>

definition placed_comment :: "signal_event \<Rightarrow> entry_member \<Rightarrow> pyval \<Rightarrow> string" where
  "placed_comment ev m result =
    (let sent = build_trade_comment (sg_signal_id ev) (sg_timeframe ev) (sg_strategy ev) (sg_direction ev)
           (entry_type_value (em_entry_type m)) []
     in case result of VDict d \<Rightarrow> py_str (py_or (dget d ''comment'') (VStr sent)) | _ \<Rightarrow> sent)"

text \<open>One pass over the members: the last result, and whether an order was placed. A member that fails
  does not stop the others.\<close>

fun submit_members :: "'w execution_port \<Rightarrow> signal_event \<Rightarrow> trade_parameters \<Rightarrow> entry_group \<Rightarrow> entry_member list \<Rightarrow>
    pyval \<times> bool \<Rightarrow> 'w \<Rightarrow> (pyval \<times> bool) \<times> 'w" where
  "submit_members xp ev params g [] acc w = (acc, w)"
| "submit_members xp ev params g (m # ms) (last_result, placed) w =
    (case xp_dispatch xp (pending_payload ev params g m) w of
       (Dispatched result, w1) \<Rightarrow>
         let ticket = (case result of VDict d \<Rightarrow> py_or (dget d ''order'') (dget d ''ticket'') | _ \<Rightarrow> VNone)
         in if ticket = VNone then submit_members xp ev params g ms (result, placed) w1
            else (case xp_track_mt5_order xp (entry_key ev g m) ticket (compute_timeout (xp_pending_config xp) (sg_timeframe ev))
                    ev params g m (member_levels params m) (placed_comment ev m result) w1 of
                (Inr _, w2) \<Rightarrow> submit_members xp ev params g ms (result, True) w2
              | (Inl _, w2) \<Rightarrow> submit_members xp ev params g ms (result, placed) w2)
     | (_, w1) \<Rightarrow> submit_members xp ev params g ms (last_result, placed) w1)"

definition submit_pending_entry :: "admission_env \<Rightarrow> 'w execution_port \<Rightarrow> signal_event \<Rightarrow> trade_parameters \<Rightarrow> executor_state \<Rightarrow> 'w \<Rightarrow>
    pyval \<times> executor_state \<times> 'w" where
  "submit_pending_entry en xp ev params x w =
    (if sg_signal_id ev = []
     then (VDict (build_terminal_result ''skipped'' ''missing_signal_id'' ''execution_input'' [] []),
           notify_skip ''missing_signal_id'' (sg_timeframe ev) x, w)
     else case fst (ensure_entry_spec_group xp ev params) of
       None \<Rightarrow> (VDict (build_terminal_result ''skipped'' ''pending_order_failed'' ''pending_submit'' [] []),
                notify_skip ''pending_order_failed'' (sg_timeframe ev) x, w)
     | Some g \<Rightarrow>
       if eg_members g = []
       then (VDict (build_terminal_result ''skipped'' ''pending_order_failed'' ''pending_submit'' [] []),
             notify_skip ''pending_order_failed'' (sg_timeframe ev) x, w)
       else let pq = xp_pending_config xp;
                w1 = (if pq_cancel_on_new_signal pq
                      then xp_cancel_by_symbol xp (sg_symbol ev) (if pq_cancel_same_direction pq then None else Some (sg_direction ev)) w
                      else w);
                ((last_result, placed), w2) = submit_members xp ev params g (eg_members g) (VNone, False) w1
            in if \<not> placed
               then (VDict (build_terminal_result ''failed'' ''pending_order_failed'' ''pending_submit''
                       [(''reason'', VStr ''all_oco_members_failed'')] []), x, w2)
               else (if last_result \<noteq> VNone then last_result else VDict [(''success'', VBool True)],
                     record_reentry_bar_time en ev x, w2))"

definition execute_decision :: "executor_config \<Rightarrow> admission_env \<Rightarrow> 'w execution_port \<Rightarrow> signal_event \<Rightarrow> execution_decision \<Rightarrow>
    executor_state \<Rightarrow> 'w \<Rightarrow> pyval \<times> executor_state \<times> 'w" where
  "execute_decision ec en xp ev xd x w = (case xd_trade_params xd of
      None \<Rightarrow> (VNone, x, w)
    | Some params \<Rightarrow> if xd_use_market xd then execute_market_order ec en xp ev params (xd_cost_metrics xd) x w
                    else submit_pending_entry en xp ev params x w)"

section \<open>Handlers\<close>

definition iso_or_value :: "pyval \<Rightarrow> pyval" where
  "iso_or_value v = (case v of VTime t \<Rightarrow> VStr (isoformat t) | _ \<Rightarrow> v)"

definition record_skip_result :: "string \<Rightarrow> string \<Rightarrow> pydict \<Rightarrow> executor_state \<Rightarrow> pyval \<times> executor_state" where
  "record_skip_result reason tf details x = (VDict (build_skipped_result reason [] details), notify_skip reason tf x)"

definition count_received :: "string \<Rightarrow> executor_state \<Rightarrow> executor_state" where
  "count_received tf x = set_tf_entry tf (\<lambda>c. c\<lparr>tc_received := tc_received c + 1\<rparr>) (x\<lparr>xs_signals_received := xs_signals_received x + 1\<rparr>)"

definition count_passed :: "string \<Rightarrow> executor_state \<Rightarrow> executor_state" where
  "count_passed tf x = set_tf_entry tf (\<lambda>c. c\<lparr>tc_passed := tc_passed c + 1\<rparr>) (x\<lparr>xs_signals_passed := xs_signals_passed x + 1\<rparr>)"

text \<open>The reconciliation with an intrabar position at the close of the bar: a signal in the same
  direction and a signal without one are skipped and keep the guard as it is; otherwise the bar is
  closed.\<close>

definition reconcile_intrabar :: "signal_event \<Rightarrow> string \<Rightarrow> executor_state \<Rightarrow> pyval option \<times> executor_state" where
  "reconcile_intrabar ev tf x = (case xs_intrabar_guard x of
      None \<Rightarrow> (None, x)
    | Some g \<Rightarrow>
      let bar = dget (sg_metadata ev) ''bar_time'';
          (position, g1) = has_intrabar_position (sg_symbol ev) (sg_timeframe ev) (sg_strategy ev) bar g;
          x1 = x\<lparr>xs_intrabar_guard := Some g1\<rparr>;
          closed = (if bar = VNone then x1
                    else x1\<lparr>xs_intrabar_guard := Some (on_parent_bar_close (sg_symbol ev) (sg_timeframe ev) bar g1)\<rparr>);
          skip = (\<lambda>reason direction. case record_skip_result reason tf
              [(''intrabar_direction'', VStr direction), (''bar_time'', iso_or_value bar)] x1 of (r, x2) \<Rightarrow> (Some r, x2))
      in case position of
           None \<Rightarrow> (None, closed)
         | Some direction \<Rightarrow>
           if sg_direction ev = direction then skip ''intrabar_position_already_validated'' direction
           else if sg_direction ev \<notin> {''buy'', ''sell''} then skip ''intrabar_position_hold'' direction
           else (None, closed))"

definition cost_details :: "cost_metrics option \<Rightarrow> pydict" where
  "cost_details cost = (case cost of None \<Rightarrow> []
     | Some c \<Rightarrow> [(''estimated_cost_points'', opt_float (cm_estimated_cost_points c)), (''estimated_cost_price'', opt_float (cm_estimated_cost_price c)),
         (''symbol_point'', opt_float (cm_symbol_point c)), (''stop_distance'', opt_float (cm_stop_distance c)),
         (''stop_distance_points'', opt_float (cm_stop_distance_points c)), (''reward_distance'', opt_float (cm_reward_distance c)),
         (''reward_distance_points'', opt_float (cm_reward_distance_points c)),
         (''spread_to_stop_ratio'', opt_float (cm_spread_to_stop_ratio c)), (''reward_to_cost_ratio'', opt_float (cm_reward_to_cost_ratio c))])"

definition refuse_decision :: "string \<Rightarrow> string \<Rightarrow> string \<Rightarrow> pydict \<Rightarrow> executor_state \<Rightarrow> pyval \<times> executor_state" where
  "refuse_decision reason category tf details x = (VDict (build_skipped_result reason category details), notify_skip reason tf x)"

definition disabled_result :: "string \<Rightarrow> executor_state \<Rightarrow> pyval \<times> executor_state" where
  "disabled_result tf x = record_skip_result ''auto_trade_disabled'' tf [] (x\<lparr>xs_last_risk_block := Some ''auto_trade_disabled''\<rparr>)"

definition params_details :: "admission_env \<Rightarrow> 'w execution_port \<Rightarrow> signal_event \<Rightarrow> pydict" where
  "params_details en xp ev =
    [(''atr'', opt_float (extract_atr_from_indicators (en_float en) (sg_indicators ev))), (''balance'', opt_float (xp_account_balance xp)),
     (''close_price'', (let c = dget (sg_metadata ev) ''close_price''
        in if truthy c then c else opt_float (estimate_price (en_float en) (sg_indicators ev))))]"

definition confirmed_dispatch :: "executor_config \<Rightarrow> admission_env \<Rightarrow> 'w execution_port \<Rightarrow> signal_event \<Rightarrow> execution_decision \<Rightarrow> string \<Rightarrow>
    executor_state \<Rightarrow> 'w \<Rightarrow> pyval \<times> executor_state \<times> 'w" where
  "confirmed_dispatch ec en xp ev xd tf x w =
    (case execute_decision ec en xp ev xd (count_passed tf x) w of (result, x1, w1) \<Rightarrow>
       (result,
        if sg_signal_id ev \<noteq> [] \<and> is_dispatch_committed result
        then x1\<lparr>xs_executed_signal_ids := deque_append 2000 (sg_signal_id ev) (xs_executed_signal_ids x1)\<rparr> else x1,
        w1))"

text \<open>What follows the decision on a confirmed signal: a refusal, recorded and reported, or the
  dispatch of the event the decision may have given an order group.\<close>

definition confirmed_decided :: "executor_config \<Rightarrow> admission_env \<Rightarrow> 'w execution_port \<Rightarrow> signal_event \<Rightarrow>
    execution_decision \<times> signal_event \<Rightarrow> executor_state \<Rightarrow> 'w \<Rightarrow> pyval res \<times> executor_state \<times> 'w" where
  "confirmed_decided ec en xp ev d x w =
    (let tf = sg_timeframe ev; (xd, ev') = d;
         refuse = (\<lambda>reason category details. case refuse_decision reason category tf details x of (r, x1) \<Rightarrow> (ok r, x1, w))
     in case (xd_trade_params xd, xd_reject_reason xd) of
          (None, reason) \<Rightarrow>
            refuse (case reason of None \<Rightarrow> ''trade_params_unavailable'' | Some r \<Rightarrow> r) ''trade_params'' (params_details en xp ev)
        | (Some params, Some reason) \<Rightarrow> refuse reason (reason_category reason) (cost_details (xd_cost_metrics xd))
        | (Some params, None) \<Rightarrow>
            if (case xd_spread_to_stop_ratio xd of None \<Rightarrow> False | Some r \<Rightarrow> ec_max_spread_to_stop_ratio ec < r)
            then refuse ''spread_to_stop_ratio_too_high'' ''cost_guard'' (cost_details (xd_cost_metrics xd))
            else (case confirmed_dispatch ec en xp ev' xd tf x w of (r, x1, w') \<Rightarrow> (ok r, x1, w')))"

definition handle_confirmed :: "executor_config \<Rightarrow> admission_env \<Rightarrow> 'w execution_port \<Rightarrow> signal_event \<Rightarrow> executor_state \<Rightarrow> 'w \<Rightarrow>
    pyval res \<times> executor_state \<times> 'w" where
  "handle_confirmed ec en xp ev x w =
    (let tf = sg_timeframe ev
     in case reconcile_intrabar ev tf (count_received tf x) of
          (Some r, x1) \<Rightarrow> (ok r, x1, w)
        | (None, x1) \<Rightarrow>
          if \<not> ec_enabled ec then (case disabled_result tf x1 of (r, x2) \<Rightarrow> (ok r, x2, w))
          else case run_pre_trade_filters ec en ev tf x1 of
            (Raised e, x2) \<Rightarrow> (raise e, x2, w)
          | (Rejected reason, x2) \<Rightarrow> (ok (VDict (build_skipped_result reason (reason_category reason) [])), x2, w)
          | (Pass, x2) \<Rightarrow>
            (case build_decision True ec en xp ev of
               Inl e \<Rightarrow> (raise e, x2, w)
             | Inr (xd, ev') \<Rightarrow>
               confirmed_decided ec en xp ev (xd, ev') x2 w))"

definition intrabar_blocked_result :: "intrabar_result \<Rightarrow> pydict" where
  "intrabar_blocked_result ir =
    (let reason = (case ir_reject_reason ir of None \<Rightarrow> [] | Some r \<Rightarrow> r);
         category = (if reason \<in> {''intrabar_guard_missing'', ''missing_parent_bar_time'', ''intrabar_guard_blocked'', ''intrabar_gate_blocked''}
                     then ''execution_gate'' else reason_category reason)
     in build_skipped_result (if reason = [] then ''intrabar_blocked'' else reason) category
          [(''parent_bar_time'', iso_or_value (ir_parent_bar_time ir)), (''reject_reason'', opt_str (ir_reject_reason ir))])"

text \<open>The text of the bar time in the log line that ends \<open>record_trade\<close>, after the trade is recorded: a bar
  time that is not a datetime fails here.\<close>

definition bar_time_text :: "pyval \<Rightarrow> string res" where
  "bar_time_text bar = (case bar of
      VTime t \<Rightarrow> ok (isoformat t)
    | _ \<Rightarrow> if truthy bar then raise (AttributeError (repr_str (py_type_name bar) @ '' object has no attribute '' @ repr_str ''isoformat''))
           else ok ''?'')"

text \<open>What follows the decision on an intrabar signal. The cost check reads an entry \<open>blocked\<close> of the cost
  estimate, which the estimate does not have. Whatever the dispatch returned, a failure included,
  is recorded as the trade of the bar.\<close>

definition record_intrabar_trade :: "signal_event \<Rightarrow> pyval \<Rightarrow> pyval \<Rightarrow> executor_state \<Rightarrow> pyval res \<times> executor_state" where
  "record_intrabar_trade ev bar result x =
    (let x1 = x\<lparr>xs_intrabar_guard := map_option (guard_record_trade (sg_symbol ev) (sg_timeframe ev) (sg_strategy ev)
           (sg_direction ev) bar) (xs_intrabar_guard x)\<rparr>
     in case bar_time_text bar of
          Inl e \<Rightarrow> (raise e, x1)
        | Inr _ \<Rightarrow> (ok result, x1\<lparr>xs_intrabar_signals_executed := xs_intrabar_signals_executed x1 + 1\<rparr>))"

definition intrabar_decided :: "executor_config \<Rightarrow> admission_env \<Rightarrow> 'w execution_port \<Rightarrow> signal_event \<Rightarrow> pyval \<Rightarrow>
    execution_decision \<times> signal_event \<Rightarrow> executor_state \<Rightarrow> 'w \<Rightarrow> pyval res \<times> executor_state \<times> 'w" where
  "intrabar_decided ec en xp ev bar d x w =
    (let (xd, ev') = d; skip = (\<lambda>reason category details. (ok (VDict (build_skipped_result reason category details)), x, w))
     in case (xd_trade_params xd, xd_reject_reason xd) of
          (None, reason) \<Rightarrow> skip (case reason of None \<Rightarrow> ''trade_params_unavailable'' | Some r \<Rightarrow> r) ''trade_params''
            [(''parent_bar_time'', iso_or_value bar)]
        | (Some params, Some reason) \<Rightarrow> skip reason (reason_category reason) (cost_details (xd_cost_metrics xd))
        | (Some params, None) \<Rightarrow>
          if truthy (dget (cost_details (xd_cost_metrics xd)) ''blocked'')
          then skip ''spread_to_stop_ratio_too_high'' ''cost_guard'' (cost_details (xd_cost_metrics xd))
          else (case execute_decision ec en xp ev' xd x w of (result, x1, w') \<Rightarrow>
            if result = VNone then (ok (VDict (build_skipped_result ''execution_result_unavailable'' ''dispatch'' [])), x1, w')
            else (case record_intrabar_trade ev bar result x1 of (r, x2) \<Rightarrow> (r, x2, w'))))"

definition handle_intrabar_entry :: "executor_config \<Rightarrow> admission_env \<Rightarrow> 'w execution_port \<Rightarrow> signal_event \<Rightarrow> executor_state \<Rightarrow> 'w \<Rightarrow>
    pyval res \<times> executor_state \<times> 'w" where
  "handle_intrabar_entry ec en xp ev x w =
    (let tf = sg_timeframe ev
     in if \<not> ec_enabled ec then (case disabled_result tf x of (r, x1) \<Rightarrow> (ok r, x1, w))
        else case run_intrabar ec en ev tf x of
          (Inl e, x1) \<Rightarrow> (raise e, x1, w)
        | (Inr ir, x1) \<Rightarrow>
          if \<not> ir_can_execute ir then (ok (VDict (intrabar_blocked_result ir)), x1, w)
          else (case build_decision False ec en xp ev of
             Inl e \<Rightarrow> (raise e, x1, w)
           | Inr d \<Rightarrow> intrabar_decided ec en xp ev (ir_parent_bar_time ir) d x1 w))"

definition process_event :: "executor_config \<Rightarrow> admission_env \<Rightarrow> 'w execution_port \<Rightarrow> signal_event \<Rightarrow> executor_state \<Rightarrow> 'w \<Rightarrow>
    pyval res \<times> executor_state \<times> 'w" where
  "process_event ec en xp ev x w =
    (if sg_scope ev = ''intrabar'' then handle_intrabar_entry ec en xp ev x w else handle_confirmed ec en xp ev x w)"

section \<open>What an event leaves alone\<close>

lemma set_tf_entry_keeps [simp]:
  "looked_at (set_tf_entry tf f x) = looked_at x" "circuit_part (set_tf_entry tf f x) = circuit_part x"
  "xs_equity_curve_filter (set_tf_entry tf f x) = xs_equity_curve_filter x"
  "xs_intrabar_guard (set_tf_entry tf f x) = xs_intrabar_guard x"
  by (simp_all add: set_tf_entry_def part_defs)

lemma count_keeps [simp]:
  "looked_at (count_received tf x) = looked_at x" "circuit_part (count_received tf x) = circuit_part x"
  "xs_equity_curve_filter (count_received tf x) = xs_equity_curve_filter x"
  "xs_intrabar_guard (count_received tf x) = xs_intrabar_guard x"
  "looked_at (count_passed tf x) = looked_at x" "circuit_part (count_passed tf x) = circuit_part x"
  "xs_intrabar_guard (count_passed tf x) = xs_intrabar_guard x"
  by (simp_all add: count_received_def count_passed_def) (simp_all add: part_defs)

lemma skip_keeps [simp]:
  "looked_at (snd (record_skip_result r tf d x)) = looked_at x" "circuit_part (snd (record_skip_result r tf d x)) = circuit_part x"
  "xs_intrabar_guard (snd (record_skip_result r tf d x)) = xs_intrabar_guard x"
  "looked_at (snd (refuse_decision r c tf d x)) = looked_at x" "circuit_part (snd (refuse_decision r c tf d x)) = circuit_part x"
  "xs_intrabar_guard (snd (refuse_decision r c tf d x)) = xs_intrabar_guard x"
  "looked_at (snd (disabled_result tf x)) = looked_at x" "circuit_part (snd (disabled_result tf x)) = circuit_part x"
  "xs_intrabar_guard (snd (disabled_result tf x)) = xs_intrabar_guard x"
  by (simp_all add: record_skip_result_def refuse_decision_def disabled_result_def) (simp_all add: part_defs)

lemma reconcile_keeps:
  assumes "reconcile_intrabar ev tf x = (r, x')"
  shows "looked_at x' = looked_at x" "circuit_part x' = circuit_part x" "xs_equity_curve_filter x' = xs_equity_curve_filter x"
proof -
  have guard: "looked_at (x\<lparr>xs_intrabar_guard := g\<rparr>) = looked_at x" "circuit_part (x\<lparr>xs_intrabar_guard := g\<rparr>) = circuit_part x" for g x
    by (simp_all add: part_defs)
  have "looked_at x' = looked_at x \<and> circuit_part x' = circuit_part x \<and> xs_equity_curve_filter x' = xs_equity_curve_filter x"
    using assms by (auto simp: reconcile_intrabar_def record_skip_result_def guard Let_def
        split: option.splits prod.splits if_splits)
  then show "looked_at x' = looked_at x" "circuit_part x' = circuit_part x" "xs_equity_curve_filter x' = xs_equity_curve_filter x"
    by simp_all
qed

text \<open>Admission depends on the state only through what the filters look at.\<close>

lemma admissible_cong:
  assumes "looked_at x = looked_at y" and "circuit_part x = circuit_part y" and "xs_equity_curve_filter x = xs_equity_curve_filter y"
  shows "admissible ec en ev tf x = admissible ec en ev tf y"
  using assms
  by (simp add: admissible_def circuit_admits_def reset_due_def equity_admits_def cooldown_over_def looked_at_def circuit_part_def)

lemma filters_after_guard:
  "admissible ec en ev tf (x\<lparr>xs_intrabar_guard := g\<rparr>) = admissible ec en ev tf x"
  by (rule admissible_cong) (simp_all add: part_defs)

lemma handle_confirmed_blocked:
  assumes "handle_confirmed ec en xp ev x w = (r, x', w')" and "\<not> admissible ec en ev (sg_timeframe ev) x"
  shows "w' = w"
proof -
  obtain q x1 where q: "reconcile_intrabar ev (sg_timeframe ev) (count_received (sg_timeframe ev) x) = (q, x1)" by fastforce
  have "admissible ec en ev (sg_timeframe ev) x1 = admissible ec en ev (sg_timeframe ev) x"
    using reconcile_keeps [OF q] by (intro admissible_cong) simp_all
  then have "fst (run_pre_trade_filters ec en ev (sg_timeframe ev) x1) \<noteq> Pass"
    using assms(2) by (simp add: admission_iff_admissible)
  then show ?thesis using assms(1) q
    by (auto simp: handle_confirmed_def Let_def split: option.splits prod.splits verdict.splits if_splits)
qed

lemma run_intrabar_can_execute:
  assumes "run_intrabar ec en ev tf x = (ok ir, x')" and "ir_can_execute ir"
  shows "admissible ec en ev tf x" "ir_parent_bar_time ir = parent_bar_of ev" "parent_bar_of ev \<noteq> VNone"
    "\<exists>g. xs_intrabar_guard x = Some g \<and>
      (sg_symbol ev, sg_timeframe ev, sg_strategy ev, sg_direction ev, time_key (parent_bar_of ev)) \<notin> set (ig_traded g)"
proof -
  from assms obtain g g' where g: "xs_intrabar_guard x = Some g" and bar: "parent_bar_of ev \<noteq> VNone"
      and can: "can_trade (sg_symbol ev) (sg_timeframe ev) (sg_strategy ev) (sg_direction ev) (parent_bar_of ev) g = ((True, []), g')"
      and pass: "run_pre_trade_filters ec en ev tf (x\<lparr>xs_intrabar_guard := Some g'\<rparr>) = (Pass, x')"
      and ir: "ir_parent_bar_time ir = parent_bar_of ev"
    by (auto simp: run_intrabar_def can_trade_def Let_def split: option.splits prod.splits verdict.splits if_splits)
  show "admissible ec en ev tf x"
    using pass filters_after_guard admission_iff_admissible [of ec en ev tf "x\<lparr>xs_intrabar_guard := Some g'\<rparr>"] by simp
  show "ir_parent_bar_time ir = parent_bar_of ev" "parent_bar_of ev \<noteq> VNone" by (fact ir bar)+
  show "\<exists>g. xs_intrabar_guard x = Some g \<and>
      (sg_symbol ev, sg_timeframe ev, sg_strategy ev, sg_direction ev, time_key (parent_bar_of ev)) \<notin> set (ig_traded g)"
    using g can by (auto simp: can_trade_def split: if_splits)
qed

lemma handle_intrabar_blocked:
  assumes "handle_intrabar_entry ec en xp ev x w = (r, x', w')"
    and "\<not> (\<exists>ir x1. run_intrabar ec en ev (sg_timeframe ev) x = (ok ir, x1) \<and> ir_can_execute ir)"
  shows "w' = w"
proof -
  obtain q x1 where q: "run_intrabar ec en ev (sg_timeframe ev) x = (q, x1)" by fastforce
  show ?thesis
  proof (cases q)
    case (Inl e)
    with assms(1) q show ?thesis by (auto simp: handle_intrabar_entry_def Let_def split: prod.splits if_splits)
  next
    case (Inr ir)
    with assms(2) q have "\<not> ir_can_execute ir" by auto
    with assms(1) q Inr show ?thesis by (auto simp: handle_intrabar_entry_def Let_def split: prod.splits if_splits)
  qed
qed

lemma process_event_blocked:
  assumes "process_event ec en xp ev x w = (r, x', w')" and "\<not> admissible ec en ev (sg_timeframe ev) x"
  shows "w' = w"
proof (cases "sg_scope ev = ''intrabar''")
  case True
  have "\<not> (\<exists>ir x1. run_intrabar ec en ev (sg_timeframe ev) x = (ok ir, x1) \<and> ir_can_execute ir)"
    using assms(2) run_intrabar_can_execute(1) by blast
  with True assms(1) show ?thesis using handle_intrabar_blocked by (auto simp: process_event_def)
next
  case False
  with assms show ?thesis using handle_confirmed_blocked by (auto simp: process_event_def)
qed

section \<open>What an event changes\<close>

text \<open>The circuit breaker's invariant: it is open exactly when it knows since when, and a closed one has
  seen fewer failures in a row than the limit.\<close>

definition circuit_ok :: "executor_config \<Rightarrow> executor_state \<Rightarrow> bool" where
  "circuit_ok ec x \<longleftrightarrow> (xs_circuit_open x \<longleftrightarrow> xs_circuit_open_at x \<noteq> None) \<and>
    (\<not> xs_circuit_open x \<longrightarrow> xs_consecutive_failures x < ec_max_consecutive_failures ec)"

lemma circuit_ok_cong: "circuit_part x = circuit_part y \<Longrightarrow> circuit_ok ec x = circuit_ok ec y"
  by (simp add: circuit_ok_def circuit_part_def)

lemma run_stages_inv:
  assumes "\<And>s z. s \<in> set ss \<Longrightarrow> P z \<Longrightarrow> P (snd (s z))" and "P x"
  shows "P (snd (run_stages ss x))"
  using assms
proof (induction ss arbitrary: x)
  case (Cons s ss)
  obtain v y where s: "s x = (v, y)" by fastforce
  with Cons.prems have "P y" by (metis list.set_intros(1) snd_conv)
  with Cons show ?case by (cases v) (simp_all add: s)
qed simp

lemma circuit_stage_ok:
  "0 < ec_max_consecutive_failures ec \<Longrightarrow> circuit_ok ec x \<Longrightarrow> circuit_ok ec (snd (check_circuit_breaker ec en x))"
  by (auto simp: check_circuit_breaker_def circuit_ok_def reset_circuit_def Let_def)

lemma filters_keep:
  "looked_at (snd (run_pre_trade_filters ec en ev tf x)) = looked_at x \<and>
    xs_intrabar_guard (snd (run_pre_trade_filters ec en ev tf x)) = xs_intrabar_guard x \<and>
    (0 < ec_max_consecutive_failures ec \<and> circuit_ok ec x \<longrightarrow> circuit_ok ec (snd (run_pre_trade_filters ec en ev tf x)))"
  unfolding run_pre_trade_filters_def
proof (rule run_stages_inv)
  fix s z
  assume s: "s \<in> set (filter_stages ec en ev tf)" and z: "looked_at z = looked_at x \<and> xs_intrabar_guard z = xs_intrabar_guard x \<and>
    (0 < ec_max_consecutive_failures ec \<and> circuit_ok ec x \<longrightarrow> circuit_ok ec z)"
  from s consider "s = check_circuit_breaker ec en" | "s = equity_stage en tf" | "quiet_stage s"
    using quiet_groups [of s ev tf ec en] unfolding filter_stages_groups by auto
  then show "looked_at (snd (s z)) = looked_at x \<and> xs_intrabar_guard (snd (s z)) = xs_intrabar_guard x \<and>
    (0 < ec_max_consecutive_failures ec \<and> circuit_ok ec x \<longrightarrow> circuit_ok ec (snd (s z)))"
  proof cases
    case 1
    then show ?thesis using z circuit_stage_ok by (auto simp: circuit_stage_keeps)
  next
    case 2
    then show ?thesis using z circuit_ok_cong [OF equity_stage_keeps(2)] by (auto simp: equity_stage_keeps)
  next
    case 3
    then show ?thesis using z circuit_ok_cong [of "snd (s z)" z] unfolding quiet_stage_def by auto
  qed
qed simp

lemma notify_skip_ids [simp]: "xs_executed_signal_ids (notify_skip r tf x) = xs_executed_signal_ids x"
  using notify_skip_keeps(1) [of r tf x] by (simp add: looked_at_def)

lemma dispatch_failed_keeps:
  assumes "dispatch_failed ec en ev e x = (r, x')"
  shows "xs_executed_signal_ids x' = xs_executed_signal_ids x" "xs_intrabar_guard x' = xs_intrabar_guard x"
    "circuit_ok ec x \<Longrightarrow> circuit_ok ec x'"
proof -
  have n: "circuit_part (notify_skip ''execution_failed'' tf z) = circuit_part z" for tf z by simp
  show "xs_executed_signal_ids x' = xs_executed_signal_ids x" "xs_intrabar_guard x' = xs_intrabar_guard x"
    using assms by (auto simp: dispatch_failed_def Let_def)
  show "circuit_ok ec x \<Longrightarrow> circuit_ok ec x'"
    using assms by (auto simp: dispatch_failed_def circuit_ok_def Let_def circuit_part_def notify_skip_def set_tf_entry_def split: if_splits)
qed

lemma reentry_keeps [simp]:
  "xs_executed_signal_ids (record_reentry_bar_time en ev x) = xs_executed_signal_ids x"
  "xs_intrabar_guard (record_reentry_bar_time en ev x) = xs_intrabar_guard x"
  "circuit_ok ec (record_reentry_bar_time en ev x) = circuit_ok ec x"
  by (simp_all add: record_reentry_bar_time_def circuit_ok_def split: option.splits)

lemma market_filled_keeps:
  assumes "market_filled ec en xp ev params cost result x w = (r, x', w')"
  shows "xs_executed_signal_ids x' = xs_executed_signal_ids x" "xs_intrabar_guard x' = xs_intrabar_guard x"
    "0 < ec_max_consecutive_failures ec \<Longrightarrow> circuit_ok ec x \<Longrightarrow> circuit_ok ec x'"
proof -
  let ?x1 = "\<lambda>q. x\<lparr>xs_execution_count := xs_execution_count x + 1, xs_last_error := None, xs_last_risk_block := None,
       xs_consecutive_failures := 0, xs_execution_quality := q\<rparr>"
  from assms consider e q where "dispatch_failed ec en ev e (?x1 q) = (r, x')" | q where "x' = record_reentry_bar_time en ev (?x1 q)"
    by (auto simp: market_filled_def Let_def split: sum.splits prod.splits pyval.splits)
  then have "xs_executed_signal_ids x' = xs_executed_signal_ids x \<and> xs_intrabar_guard x' = xs_intrabar_guard x \<and>
      (0 < ec_max_consecutive_failures ec \<and> circuit_ok ec x \<longrightarrow> circuit_ok ec x')"
  proof cases
    case (1 e q)
    from dispatch_failed_keeps [OF 1] show ?thesis by (auto simp: circuit_ok_def)
  next
    case (2 q)
    then show ?thesis by (auto simp: circuit_ok_def [of _ x] circuit_ok_def [of _ "?x1 q"])
  qed
  then show "xs_executed_signal_ids x' = xs_executed_signal_ids x" "xs_intrabar_guard x' = xs_intrabar_guard x"
    "0 < ec_max_consecutive_failures ec \<Longrightarrow> circuit_ok ec x \<Longrightarrow> circuit_ok ec x'" by simp_all
qed

lemma risk_blocked_result_keeps:
  assumes "risk_blocked_result ev m a x = (r, x')"
  shows "xs_executed_signal_ids x' = xs_executed_signal_ids x" "xs_intrabar_guard x' = xs_intrabar_guard x"
    "circuit_ok ec x' = circuit_ok ec x"
proof -
  from assms obtain reason q where x': "x' = notify_skip reason (sg_timeframe ev)
      (x\<lparr>xs_last_risk_block := Some m, xs_execution_quality := q\<rparr>)"
    by (auto simp: risk_blocked_result_def Let_def)
  show "xs_executed_signal_ids x' = xs_executed_signal_ids x" "xs_intrabar_guard x' = xs_intrabar_guard x" by (simp_all add: x')
  show "circuit_ok ec x' = circuit_ok ec x" by (rule circuit_ok_cong) (simp add: x', simp add: circuit_part_def)
qed

lemma submit_keeps:
  assumes "submit_pending_entry en xp ev params x w = (r, x', w')"
  shows "xs_executed_signal_ids x' = xs_executed_signal_ids x" "xs_intrabar_guard x' = xs_intrabar_guard x"
    "circuit_ok ec x' = circuit_ok ec x"
proof -
  from assms consider reason where "x' = notify_skip reason (sg_timeframe ev) x" | "x' = x" | "x' = record_reentry_bar_time en ev x"
    by (auto simp: submit_pending_entry_def Let_def split: option.splits prod.splits if_splits)
  then have "xs_executed_signal_ids x' = xs_executed_signal_ids x \<and> xs_intrabar_guard x' = xs_intrabar_guard x \<and>
      circuit_ok ec x' = circuit_ok ec x"
    by cases (simp_all add: circuit_ok_cong [OF notify_skip_keeps(2)])
  then show "xs_executed_signal_ids x' = xs_executed_signal_ids x" "xs_intrabar_guard x' = xs_intrabar_guard x"
    "circuit_ok ec x' = circuit_ok ec x" by simp_all
qed

lemma execute_keeps:
  assumes "execute_decision ec en xp ev xd x w = (r, x', w')"
  shows "xs_executed_signal_ids x' = xs_executed_signal_ids x" "xs_intrabar_guard x' = xs_intrabar_guard x"
    "0 < ec_max_consecutive_failures ec \<Longrightarrow> circuit_ok ec x \<Longrightarrow> circuit_ok ec x'"
proof -
  from assms consider "x' = x"
    | params result w1 where "market_filled ec en xp ev params (xd_cost_metrics xd) result x w1 = (r, x', w')"
    | m a where "risk_blocked_result ev m a x = (r, x')" | e where "dispatch_failed ec en ev e x = (r, x')"
    | params where "submit_pending_entry en xp ev params x w = (r, x', w')"
    by (auto simp: execute_decision_def execute_market_order_def split: option.splits if_splits prod.splits dispatch_outcome.splits)
  then have "xs_executed_signal_ids x' = xs_executed_signal_ids x \<and> xs_intrabar_guard x' = xs_intrabar_guard x \<and>
      (0 < ec_max_consecutive_failures ec \<and> circuit_ok ec x \<longrightarrow> circuit_ok ec x')"
  proof cases
    case (2 params result w1)
    from market_filled_keeps [OF 2] show ?thesis by simp
  next
    case (3 m a)
    from risk_blocked_result_keeps [OF 3] show ?thesis by simp
  next
    case (4 e)
    from dispatch_failed_keeps [OF 4] show ?thesis by simp
  next
    case (5 params)
    from submit_keeps [OF 5] show ?thesis by simp
  qed simp
  then show "xs_executed_signal_ids x' = xs_executed_signal_ids x" "xs_intrabar_guard x' = xs_intrabar_guard x"
    "0 < ec_max_consecutive_failures ec \<Longrightarrow> circuit_ok ec x \<Longrightarrow> circuit_ok ec x'" by simp_all
qed

text \<open>The events that commit a signal: a confirmed signal with an id whose dispatch was not refused.\<close>

definition committed_id :: "signal_event \<Rightarrow> pyval res \<Rightarrow> string list" where
  "committed_id ev r = (if sg_scope ev \<noteq> ''intrabar'' \<and> sg_signal_id ev \<noteq> [] \<and>
     (case r of Inl _ \<Rightarrow> False | Inr v \<Rightarrow> is_dispatch_committed v) then [sg_signal_id ev] else [])"

lemma skipped_not_committed [simp]: "\<not> is_dispatch_committed (VDict (build_skipped_result r c d))"
proof -
  have "lower (strip ''skipped'') = ''skipped''" by code_simp
  then show ?thesis by (simp add: is_dispatch_committed_def build_skipped_result_def dget_def str_or_empty_def py_or_def Let_def)
qed

lemma confirmed_decided_cases:
  assumes "confirmed_decided ec en xp ev (xd, ev') x w = (r, x', w')"
  obtains "w' = w" "committed_id ev r = []" "looked_at x' = looked_at x" "circuit_part x' = circuit_part x"
      "xs_intrabar_guard x' = xs_intrabar_guard x"
  | params v where "xd_trade_params xd = Some params" "xd_reject_reason xd = None" "r = ok v"
      "confirmed_dispatch ec en xp ev' xd (sg_timeframe ev) x w = (v, x', w')"
  using assms
  by (auto simp: confirmed_decided_def refuse_decision_def committed_id_def Let_def split: option.splits if_splits prod.splits)

text \<open>The one way past the filters of a confirmed signal.\<close>

lemma handle_confirmed_cases:
  assumes "handle_confirmed ec en xp ev x w = (r, x', w')"
  obtains (kept) "w' = w" "committed_id ev r = []" "looked_at x' = looked_at x" "circuit_part x' = circuit_part x"
  | (filtered) x1 where "w' = w" "committed_id ev r = []" "looked_at x1 = looked_at x" "circuit_part x1 = circuit_part x"
      "looked_at x' = looked_at (snd (run_pre_trade_filters ec en ev (sg_timeframe ev) x1))"
      "circuit_part x' = circuit_part (snd (run_pre_trade_filters ec en ev (sg_timeframe ev) x1))"
  | (dispatched) x1 x2 xd params ev' v where "r = ok v" "looked_at x1 = looked_at x" "circuit_part x1 = circuit_part x"
      "run_pre_trade_filters ec en ev (sg_timeframe ev) x1 = (Pass, x2)" "ec_enabled ec"
      "build_decision True ec en xp ev = ok (xd, ev')" "xd_trade_params xd = Some params" "xd_reject_reason xd = None"
      "confirmed_dispatch ec en xp ev' xd (sg_timeframe ev) x2 w = (v, x', w')"
proof -
  obtain q x1 where q: "reconcile_intrabar ev (sg_timeframe ev) (count_received (sg_timeframe ev) x) = (q, x1)" by fastforce
  note k = reconcile_keeps(1,2) [OF q, unfolded count_keeps]
  obtain v x2 where f: "run_pre_trade_filters ec en ev (sg_timeframe ev) x1 = (v, x2)" by fastforce
  show ?thesis
  proof (cases q)
    case (Some r1)
    then have "\<exists>reason d. r1 = VDict (build_skipped_result reason [] d)" using q
      by (auto simp: reconcile_intrabar_def record_skip_result_def Let_def split: option.splits prod.splits if_splits)
    with Some assms q k show ?thesis by (intro kept) (auto simp: handle_confirmed_def committed_id_def Let_def)
  next
    case None
    show ?thesis
    proof (cases "ec_enabled ec \<and> v = Pass")
      case False
      show ?thesis
      proof (cases "ec_enabled ec")
        case True
        with False None assms q f k show ?thesis
          by (intro filtered [of x1]) (auto simp: handle_confirmed_def committed_id_def Let_def split: verdict.splits)
      next
        case False
        with None assms q k skip_keeps(7,8) [of "sg_timeframe ev" x1] show ?thesis
          by (intro kept) (auto simp: handle_confirmed_def committed_id_def disabled_result_def record_skip_result_def Let_def)
      qed
    next
      case True
      with None assms q f have step: "(case build_decision True ec en xp ev of Inl e \<Rightarrow> (raise e, x2, w)
          | Inr (xd, ev') \<Rightarrow> confirmed_decided ec en xp ev (xd, ev') x2 w) = (r, x', w')"
        by (simp add: handle_confirmed_def Let_def)
      show ?thesis
      proof (cases "build_decision True ec en xp ev")
        case (Inl e)
        with step True f k show ?thesis by (intro filtered [of x1]) (auto simp: committed_id_def)
      next
        case (Inr z)
        obtain xd ev' where z: "z = (xd, ev')" by fastforce
        with step Inr have c: "confirmed_decided ec en xp ev (xd, ev') x2 w = (r, x', w')" by simp
        show ?thesis
        proof (cases rule: confirmed_decided_cases [OF c])
          case 1
          with f k show ?thesis by (intro filtered [of x1]) auto
        next
          case (2 params v1)
          with Inr z True f k show ?thesis by (intro dispatched) auto
        qed
      qed
    qed
  qed
qed

text \<open>A decision that is not a refusal has computed parameters within the loss cap and an order group,
  which the event carries from then on.\<close>

lemma decision_taken:
  assumes "build_decision c ec en xp ev = ok (xd, ev')" and "xd_trade_params xd = Some params" and "xd_reject_reason xd = None"
  obtains g where "compute_params (en_float en) (xp_sizing xp) (xp_account_balance xp) (sizing_event_of ev) = ok (Some params)"
    "check_loss_cap xp ev params = ok True" "ensure_entry_spec_group xp ev params = (Some g, ev')" "xd_use_market xd = all_market g"
    "all_market g \<or> en_pending_entries en \<noteq> None"
proof -
  from assms(1) obtain p where p: "compute_params (en_float en) (xp_sizing xp) (xp_account_balance xp) (sizing_event_of ev) = ok p"
    by (auto simp: build_decision_def res_simps)
  show ?thesis
  proof (cases p)
    case None
    with assms p show ?thesis by (auto simp: build_decision_def res_simps)
  next
    case (Some params')
    with assms p have same: "params' = params"
      by (auto simp: build_decision_def res_simps Let_def split: if_splits prod.splits option.splits)
    obtain group z where e: "ensure_entry_spec_group xp ev params = (group, z)" by fastforce
    from assms p Some same have "check_loss_cap xp ev params = ok True"
      by (auto simp: build_decision_def res_simps Let_def split: if_splits)
    moreover from this assms p Some same e obtain g where "group = Some g" "z = ev'" "xd_use_market xd = all_market g"
        "all_market g \<or> en_pending_entries en \<noteq> None"
      by (cases group) (auto simp: build_decision_def res_simps Let_def split: if_splits)
    ultimately show ?thesis using that p Some same e by simp
  qed
qed

lemma ensured_event:
  assumes "ensure_entry_spec_group xp ev params = (Some g, ev')"
  shows "ev' = ev\<lparr>sg_entry_spec_group := Some g\<rparr>"
proof (cases "sg_entry_spec_group ev")
  case (Some h)
  with assms have "h = g" "ev' = ev" by (auto simp: ensure_entry_spec_group_def)
  moreover from this Some have "ev\<lparr>sg_entry_spec_group := Some g\<rparr> = ev" by simp
  ultimately show ?thesis by simp
qed (use assms in \<open>auto simp: ensure_entry_spec_group_def split: option.splits\<close>)

lemma run_intrabar_keeps:
  assumes "run_intrabar ec en ev tf x = (q, x')"
  shows "looked_at x' = looked_at x" "0 < ec_max_consecutive_failures ec \<Longrightarrow> circuit_ok ec x \<Longrightarrow> circuit_ok ec x'"
proof -
  have guard: "looked_at (x\<lparr>xs_intrabar_guard := g\<rparr>) = looked_at x" "circuit_ok ec (x\<lparr>xs_intrabar_guard := g\<rparr>) = circuit_ok ec x" for g x
    by (simp_all add: looked_at_def circuit_ok_def)
  from assms consider "x' = x" | g where "x' = x\<lparr>xs_intrabar_guard := g\<rparr>"
    | g v where "run_pre_trade_filters ec en ev tf (x\<lparr>xs_intrabar_guard := g\<rparr>) = (v, x')"
    by (auto simp: run_intrabar_def Let_def split: option.splits prod.splits verdict.splits if_splits)
  then have "looked_at x' = looked_at x \<and> (0 < ec_max_consecutive_failures ec \<and> circuit_ok ec x \<longrightarrow> circuit_ok ec x')"
  proof cases
    case (3 g v)
    with filters_keep [of ec en ev tf "x\<lparr>xs_intrabar_guard := g\<rparr>"] show ?thesis by (simp add: guard)
  qed (simp_all add: guard)
  then show "looked_at x' = looked_at x" "0 < ec_max_consecutive_failures ec \<Longrightarrow> circuit_ok ec x \<Longrightarrow> circuit_ok ec x'"
    by simp_all
qed

lemma record_intrabar_trade_state:
  assumes "record_intrabar_trade ev bar result x = (r, x')"
  shows "\<exists>n. x' = x\<lparr>xs_intrabar_guard := map_option (guard_record_trade (sg_symbol ev) (sg_timeframe ev) (sg_strategy ev)
    (sg_direction ev) bar) (xs_intrabar_guard x), xs_intrabar_signals_executed := n\<rparr>"
proof (cases "bar_time_text bar")
  case (Inl e)
  with assms show ?thesis
    by (intro exI [of _ "xs_intrabar_signals_executed x"]) (auto simp: record_intrabar_trade_def Let_def)
qed (use assms in \<open>auto simp: record_intrabar_trade_def Let_def\<close>)

lemma intrabar_decided_cases:
  assumes "intrabar_decided ec en xp ev bar (xd, ev') x w = (r, x', w')"
  obtains "x' = x" "w' = w"
  | params v x1 where "xd_trade_params xd = Some params" "xd_reject_reason xd = None" "execute_decision ec en xp ev' xd x w = (v, x1, w')"
      "x' = x1 \<and> r = ok (VDict (build_skipped_result ''execution_result_unavailable'' ''dispatch'' [])) \<or>
       (\<exists>n. x' = x1\<lparr>xs_intrabar_guard := map_option (guard_record_trade (sg_symbol ev) (sg_timeframe ev) (sg_strategy ev)
          (sg_direction ev) bar) (xs_intrabar_guard x1), xs_intrabar_signals_executed := n\<rparr>)"
  using assms
  by (auto simp: intrabar_decided_def Let_def split: option.splits if_splits prod.splits dest!: record_intrabar_trade_state)

lemma handle_intrabar_cases:
  assumes "handle_intrabar_entry ec en xp ev x w = (r, x', w')"
  obtains (disabled) "w' = w" "looked_at x' = looked_at x" "circuit_part x' = circuit_part x" "xs_intrabar_guard x' = xs_intrabar_guard x"
  | (refused) q where "run_intrabar ec en ev (sg_timeframe ev) x = (q, x')" "w' = w"
  | (dispatched) ir x1 xd params ev' v x2 where "run_intrabar ec en ev (sg_timeframe ev) x = (ok ir, x1)" "ir_can_execute ir"
      "ec_enabled ec" "build_decision False ec en xp ev = ok (xd, ev')" "xd_trade_params xd = Some params" "xd_reject_reason xd = None"
      "execute_decision ec en xp ev' xd x1 w = (v, x2, w')"
      "x' = x2 \<and> r = ok (VDict (build_skipped_result ''execution_result_unavailable'' ''dispatch'' [])) \<or>
       (\<exists>n. x' = x2\<lparr>xs_intrabar_guard := map_option (guard_record_trade (sg_symbol ev) (sg_timeframe ev) (sg_strategy ev)
          (sg_direction ev) (ir_parent_bar_time ir)) (xs_intrabar_guard x2), xs_intrabar_signals_executed := n\<rparr>)"
proof (cases "ec_enabled ec")
  case False
  with assms skip_keeps(7-9) [of "sg_timeframe ev" x] show ?thesis
    by (intro disabled) (auto simp: handle_intrabar_entry_def disabled_result_def record_skip_result_def Let_def)
next
  case True
  obtain q x1 where q: "run_intrabar ec en ev (sg_timeframe ev) x = (q, x1)" by fastforce
  show ?thesis
  proof (cases "\<exists>ir d. q = ok ir \<and> ir_can_execute ir \<and> build_decision False ec en xp ev = ok d")
    case False
    with assms q True show ?thesis
      by (intro refused [of q]) (auto simp: handle_intrabar_entry_def Let_def split: sum.splits if_splits)
  next
    case decided: True
    then obtain ir xd ev' where d: "q = ok ir" "ir_can_execute ir" "build_decision False ec en xp ev = ok (xd, ev')" by auto
    with assms q True have "intrabar_decided ec en xp ev (ir_parent_bar_time ir) (xd, ev') x1 w = (r, x', w')"
      by (simp add: handle_intrabar_entry_def)
    then show ?thesis
    proof (cases rule: intrabar_decided_cases)
      case 1
      with q show ?thesis by (intro refused) simp_all
    next
      case (2 params v x2)
      with q d True show ?thesis by (intro dispatched) auto
    qed
  qed
qed

lemma dispatched_state:
  "looked_at (x\<lparr>xs_intrabar_guard := g, xs_intrabar_signals_executed := n\<rparr>) = looked_at x"
  "circuit_ok ec (x\<lparr>xs_intrabar_guard := g, xs_intrabar_signals_executed := n\<rparr>) = circuit_ok ec x"
  by (simp_all add: looked_at_def circuit_ok_def)

lemma confirmed_dispatch_effect:
  assumes "confirmed_dispatch ec en xp ev xd tf x w = (v, x', w')"
  shows "xs_executed_signal_ids x' =
      (if sg_signal_id ev \<noteq> [] \<and> is_dispatch_committed v then deque_append 2000 (sg_signal_id ev) (xs_executed_signal_ids x)
       else xs_executed_signal_ids x)"
    "0 < ec_max_consecutive_failures ec \<Longrightarrow> circuit_ok ec x \<Longrightarrow> circuit_ok ec x'"
proof -
  obtain x1 where e: "execute_decision ec en xp ev xd (count_passed tf x) w = (v, x1, w')"
    and x': "x' = (if sg_signal_id ev \<noteq> [] \<and> is_dispatch_committed v
      then x1\<lparr>xs_executed_signal_ids := deque_append 2000 (sg_signal_id ev) (xs_executed_signal_ids x1)\<rparr> else x1)"
    using assms by (auto simp: confirmed_dispatch_def split: prod.splits)
  have "xs_executed_signal_ids (count_passed tf x) = xs_executed_signal_ids x"
    using count_keeps(5) [of tf x] by (simp add: looked_at_def)
  with execute_keeps(1) [OF e] show "xs_executed_signal_ids x' =
      (if sg_signal_id ev \<noteq> [] \<and> is_dispatch_committed v then deque_append 2000 (sg_signal_id ev) (xs_executed_signal_ids x)
       else xs_executed_signal_ids x)" by (simp add: x')
  show "circuit_ok ec x'" if "0 < ec_max_consecutive_failures ec" "circuit_ok ec x"
  proof -
    from that(2) have "circuit_ok ec (count_passed tf x)" using circuit_ok_cong [OF count_keeps(6)] by simp
    from execute_keeps(3) [OF e that(1) this] show ?thesis by (simp add: x' circuit_ok_def)
  qed
qed

lemma same_ids: "looked_at x = looked_at y \<Longrightarrow> xs_executed_signal_ids x = xs_executed_signal_ids y"
  by (simp add: looked_at_def)

lemma confirmed_effect:
  assumes "handle_confirmed ec en xp ev x w = (r, x', w')" and "sg_scope ev \<noteq> ''intrabar''"
  shows "xs_executed_signal_ids x' = fold (deque_append 2000) (committed_id ev r) (xs_executed_signal_ids x) \<and>
    (0 < ec_max_consecutive_failures ec \<and> circuit_ok ec x \<longrightarrow> circuit_ok ec x')"
  using assms(1)
proof (cases rule: handle_confirmed_cases)
  case kept
  then show ?thesis using circuit_ok_cong [OF kept(4)] by (simp add: same_ids [OF kept(3)])
next
  case (filtered x1)
  note fk = filters_keep [of ec en ev "sg_timeframe ev" x1]
  from filtered(3,5) fk have "looked_at x' = looked_at x" by simp
  moreover have "0 < ec_max_consecutive_failures ec \<and> circuit_ok ec x \<longrightarrow> circuit_ok ec x'"
    using fk circuit_ok_cong [OF filtered(4), of ec] circuit_ok_cong [OF filtered(6), of ec] by simp
  ultimately show ?thesis by (simp add: filtered(2) same_ids [of x' x])
next
  case (dispatched x1 x2 xd params ev' v)
  note fk = filters_keep [of ec en ev "sg_timeframe ev" x1, unfolded dispatched(4) snd_conv]
  obtain g where "ev' = ev\<lparr>sg_entry_spec_group := Some g\<rparr>"
    using decision_taken [OF dispatched(6-8)] ensured_event by metis
  then have id: "sg_signal_id ev' = sg_signal_id ev" by simp
  from fk dispatched(2) have "xs_executed_signal_ids x2 = xs_executed_signal_ids x" by (intro same_ids) simp
  with confirmed_dispatch_effect [OF dispatched(9)] show ?thesis
    using fk circuit_ok_cong [OF dispatched(3), of ec] assms(2) by (simp add: id committed_id_def dispatched(1))
qed

text \<open>Every event appends the id it commits to the bounded history, an id that was not in it, and keeps
  the circuit breaker's invariant.\<close>

lemma process_event_effect:
  assumes "process_event ec en xp ev x w = (r, x', w')"
  shows "xs_executed_signal_ids x' = fold (deque_append 2000) (committed_id ev r) (xs_executed_signal_ids x)"
    "0 < ec_max_consecutive_failures ec \<Longrightarrow> circuit_ok ec x \<Longrightarrow> circuit_ok ec x'"
proof -
  have "xs_executed_signal_ids x' = fold (deque_append 2000) (committed_id ev r) (xs_executed_signal_ids x) \<and>
    (0 < ec_max_consecutive_failures ec \<and> circuit_ok ec x \<longrightarrow> circuit_ok ec x')"
  proof (cases "sg_scope ev = ''intrabar''")
    case True
    with assms have h: "handle_intrabar_entry ec en xp ev x w = (r, x', w')" by (simp add: process_event_def)
    have "committed_id ev r = []" using True by (simp add: committed_id_def)
    moreover from h have "xs_executed_signal_ids x' = xs_executed_signal_ids x \<and>
        (0 < ec_max_consecutive_failures ec \<and> circuit_ok ec x \<longrightarrow> circuit_ok ec x')"
    proof (cases rule: handle_intrabar_cases)
      case disabled
      then show ?thesis using circuit_ok_cong [OF disabled(3)] by (simp add: same_ids [OF disabled(2)])
    next
      case (refused q)
      then show ?thesis using run_intrabar_keeps [OF refused(1)] by (simp add: same_ids [of x' x])
    next
      case (dispatched ir x1 xd params ev' v x2)
      have "xs_executed_signal_ids x2 = xs_executed_signal_ids x"
        using execute_keeps(1) [OF dispatched(7)] same_ids [OF run_intrabar_keeps(1) [OF dispatched(1)]] by simp
      moreover have "0 < ec_max_consecutive_failures ec \<and> circuit_ok ec x \<longrightarrow> circuit_ok ec x2"
        using execute_keeps(3) [OF dispatched(7)] run_intrabar_keeps(2) [OF dispatched(1)] by blast
      ultimately show ?thesis using dispatched(8) by (auto simp: dispatched_state)
    qed
    ultimately show ?thesis by simp
  next
    case False
    with assms confirmed_effect show ?thesis by (simp add: process_event_def)
  qed
  then show "xs_executed_signal_ids x' = fold (deque_append 2000) (committed_id ev r) (xs_executed_signal_ids x)"
    "0 < ec_max_consecutive_failures ec \<Longrightarrow> circuit_ok ec x \<Longrightarrow> circuit_ok ec x'" by simp_all
qed

lemma committed_id_new:
  assumes "process_event ec en xp ev x w = (r, x', w')"
  shows "set (committed_id ev r) \<inter> set (xs_executed_signal_ids x) = {}"
proof (cases "committed_id ev r = []")
  case False
  then have "sg_scope ev \<noteq> ''intrabar''" by (auto simp: committed_id_def split: if_splits)
  with assms have h: "handle_confirmed ec en xp ev x w = (r, x', w')" by (simp add: process_event_def)
  from h show ?thesis
  proof (cases rule: handle_confirmed_cases)
    case (dispatched x1 x2 xd params ev' v)
    then have "admissible ec en ev (sg_timeframe ev) x1"
      using admission_iff_admissible [of ec en ev "sg_timeframe ev" x1] by simp
    with same_ids [OF dispatched(2)] show ?thesis by (auto simp: admissible_def committed_id_def)
  qed (use False in simp_all)
qed simp

section \<open>Runs\<close>

text \<open>The worker takes one event after the other; each finds the collaborators as they are by then. An
  event that raises leaves the state its handler had reached, and the worker goes on.\<close>

fun executor_run :: "executor_config \<Rightarrow> 'w execution_port \<Rightarrow> (admission_env \<times> signal_event) list \<Rightarrow> executor_state \<Rightarrow> 'w \<Rightarrow>
    (signal_event \<times> pyval res) list \<times> executor_state \<times> 'w" where
  "executor_run ec xp [] x w = ([], x, w)"
| "executor_run ec xp ((en, ev) # es) x w =
    (case process_event ec en xp ev x w of (r, x1, w1) \<Rightarrow>
     case executor_run ec xp es x1 w1 of (rs, x2, w2) \<Rightarrow> ((ev, r) # rs, x2, w2))"

definition commits :: "(signal_event \<times> pyval res) list \<Rightarrow> string list" where
  "commits rs = concat (map (\<lambda>(ev, r). committed_id ev r) rs)"

definition last_ids :: "nat \<Rightarrow> 'a list \<Rightarrow> 'a list" where
  "last_ids n xs = drop (length xs - n) xs"

lemma fold_deque_append: "fold (deque_append n) ys (last_ids n xs) = last_ids n (xs @ ys)"
proof (induction ys arbitrary: xs)
  case (Cons y ys)
  have "deque_append n y (last_ids n xs) = last_ids n (xs @ [y])"
    by (cases "length xs \<le> n") (auto simp: deque_append_def last_ids_def Suc_diff_le Let_def)
  then show ?case using Cons.IH [of "xs @ [y]"] by simp
qed simp

text \<open>A list whose windows of \<open>n + 1\<close> are distinct stays so when an element is appended that is not among
  its last \<open>n\<close>.\<close>

lemma distinct_window:
  assumes "\<And>k. distinct (take (Suc n) (drop k cs))" and "set ys \<inter> set (last_ids n cs) = {}" and "length ys \<le> 1"
  shows "distinct (take (Suc n) (drop k (cs @ ys)))"
proof (cases ys)
  case (Cons y zs)
  with assms(3) have ys: "ys = [y]" by simp
  show ?thesis
  proof (cases "length (drop k cs) \<le> n")
    case True
    have "drop k cs = take (Suc n) (drop k cs)" using True by simp
    then have "distinct (drop k cs)" using assms(1) by metis
    moreover have "set (drop k cs) \<subseteq> set (last_ids n cs)"
      unfolding last_ids_def using True by (intro set_drop_subset_set_drop) simp
    ultimately show ?thesis using assms(2) True ys by (cases "k \<le> length cs") auto
  next
    case False
    then show ?thesis using assms(1) [of k] ys by simp
  qed
qed (use assms(1) in simp)

lemma executor_run_ids:
  assumes "executor_run ec xp es x w = (rs, x', w')" and "xs_executed_signal_ids x = last_ids 2000 cs"
    and "\<And>k. distinct (take 2001 (drop k cs))"
  shows "xs_executed_signal_ids x' = last_ids 2000 (cs @ commits rs) \<and> (\<forall>k. distinct (take 2001 (drop k (cs @ commits rs))))"
  using assms
proof (induction es arbitrary: x w rs cs)
  case Nil
  then show ?case by (simp add: commits_def)
next
  case (Cons e es)
  obtain en ev where e: "e = (en, ev)" by fastforce
  obtain r x1 w1 where step: "process_event ec en xp ev x w = (r, x1, w1)" by (metis prod_cases3)
  obtain rs' where run: "executor_run ec xp es x1 w1 = (rs', x', w')" and rs: "rs = (ev, r) # rs'"
    using Cons.prems(1) by (auto simp: e step split: prod.splits)
  let ?cs = "cs @ committed_id ev r"
  have ids: "xs_executed_signal_ids x1 = last_ids 2000 ?cs"
    using process_event_effect(1) [OF step] Cons.prems(2) fold_deque_append by simp
  have fresh: "set (committed_id ev r) \<inter> set (last_ids 2000 cs) = {}"
    using committed_id_new [OF step] Cons.prems(2) by simp
  have "distinct (take 2001 (drop k ?cs))" for k
    using distinct_window [of 2000 cs "committed_id ev r" k] Cons.prems(3) fresh by (simp add: committed_id_def)
  from Cons.IH [OF run ids this] show ?case by (simp add: rs commits_def)
qed

section \<open>The trade of a bar\<close>

definition entry_id :: "signal_event \<Rightarrow> string \<times> string \<times> string \<times> string \<times> pyval" where
  "entry_id ev = (sg_symbol ev, sg_timeframe ev, sg_strategy ev, sg_direction ev, time_key (parent_bar_of ev))"

definition traded_ids :: "executor_state \<Rightarrow> (string \<times> string \<times> string \<times> string \<times> pyval) set" where
  "traded_ids x = (case xs_intrabar_guard x of None \<Rightarrow> {} | Some g \<Rightarrow> set (ig_traded g))"

lemma run_intrabar_guard:
  assumes "run_intrabar ec en ev tf x = (q, x')"
  shows "traded_ids x' = traded_ids x" "xs_intrabar_guard x' = None \<longleftrightarrow> xs_intrabar_guard x = None"
proof -
  have f: "xs_intrabar_guard z = Some g" if "run_pre_trade_filters ec en ev tf (x\<lparr>xs_intrabar_guard := Some g\<rparr>) = (v, z)" for v z g
    using filters_keep [of ec en ev tf "x\<lparr>xs_intrabar_guard := Some g\<rparr>"] that by simp
  from assms consider "x' = x" | g g' b where "xs_intrabar_guard x = Some g" "xs_intrabar_guard x' = Some g'"
      "can_trade (sg_symbol ev) (sg_timeframe ev) (sg_strategy ev) (sg_direction ev) (parent_bar_of ev) g = (b, g')"
    by (auto simp: run_intrabar_def Let_def split: option.splits prod.splits verdict.splits if_splits dest!: f)
  then have "traded_ids x' = traded_ids x \<and> (xs_intrabar_guard x' = None \<longleftrightarrow> xs_intrabar_guard x = None)"
    by cases (auto simp: traded_ids_def can_trade_def split: if_splits)
  then show "traded_ids x' = traded_ids x" "xs_intrabar_guard x' = None \<longleftrightarrow> xs_intrabar_guard x = None" by simp_all
qed

lemma traded_after_record:
  "xs_intrabar_guard x \<noteq> None \<Longrightarrow> traded_ids (x\<lparr>xs_intrabar_guard := map_option (guard_record_trade s t st d b) (xs_intrabar_guard x),
     xs_intrabar_signals_executed := n\<rparr>) = insert (s, t, st, d, time_key b) (traded_ids x)"
  by (auto simp: traded_ids_def guard_record_trade_def)

lemma intrabar_event_traded:
  assumes "handle_intrabar_entry ec en xp ev x w = (r, x', w')"
  shows "traded_ids x \<subseteq> traded_ids x'"
    "w' \<noteq> w \<Longrightarrow> r \<noteq> ok (VDict (build_skipped_result ''execution_result_unavailable'' ''dispatch'' [])) \<Longrightarrow> entry_id ev \<in> traded_ids x'"
    "entry_id ev \<in> traded_ids x \<Longrightarrow> w' = w"
proof -
  have "traded_ids x \<subseteq> traded_ids x' \<and> (w' \<noteq> w \<and> r \<noteq> ok (VDict (build_skipped_result ''execution_result_unavailable'' ''dispatch'' []))
      \<longrightarrow> entry_id ev \<in> traded_ids x') \<and> (entry_id ev \<in> traded_ids x \<longrightarrow> w' = w)"
    using assms
  proof (cases rule: handle_intrabar_cases)
    case disabled
    then show ?thesis by (simp add: traded_ids_def)
  next
    case (refused q)
    then show ?thesis using run_intrabar_guard(1) [OF refused(1)] by simp
  next
    case (dispatched ir x1 xd params ev' v x2)
    note g = run_intrabar_can_execute(2-4) [OF dispatched(1,2)]
    have x2: "xs_intrabar_guard x2 = xs_intrabar_guard x1" by (rule execute_keeps(2) [OF dispatched(7)])
    then have t: "traded_ids x2 = traded_ids x" using run_intrabar_guard(1) [OF dispatched(1)] by (simp add: traded_ids_def)
    have some: "xs_intrabar_guard x2 \<noteq> None" using g(3) run_intrabar_guard(2) [OF dispatched(1)] x2 by auto
    have "entry_id ev \<notin> traded_ids x" using g(3) by (auto simp: entry_id_def traded_ids_def)
    moreover have "x' = x2 \<and> r = ok (VDict (build_skipped_result ''execution_result_unavailable'' ''dispatch'' [])) \<or>
        traded_ids x' = insert (entry_id ev) (traded_ids x2)"
      using dispatched(8) by (elim disjE exE) (simp_all only: traded_after_record [OF some] g(1) entry_id_def simp_thms)
    ultimately show ?thesis using t by auto
  qed
  then show "traded_ids x \<subseteq> traded_ids x'"
    "w' \<noteq> w \<Longrightarrow> r \<noteq> ok (VDict (build_skipped_result ''execution_result_unavailable'' ''dispatch'' [])) \<Longrightarrow> entry_id ev \<in> traded_ids x'"
    "entry_id ev \<in> traded_ids x \<Longrightarrow> w' = w" by simp_all
qed

text \<open>A confirmed signal closes the bar it carries, for its symbol and timeframe; nothing else takes a
  recorded trade out of the guard.\<close>

definition closes_bar :: "signal_event \<Rightarrow> signal_event \<Rightarrow> bool" where
  "closes_bar e ev \<longleftrightarrow> sg_scope e \<noteq> ''intrabar'' \<and> sg_symbol e = sg_symbol ev \<and> sg_timeframe e = sg_timeframe ev \<and>
     dget (sg_metadata e) ''bar_time'' \<noteq> VNone \<and> time_key (dget (sg_metadata e) ''bar_time'') = time_key (parent_bar_of ev)"

lemma reconcile_traded:
  assumes "reconcile_intrabar e tf x = (q, x')" and "\<not> closes_bar e ev" and "sg_scope e \<noteq> ''intrabar''" and "entry_id ev \<in> traded_ids x"
  shows "entry_id ev \<in> traded_ids x'"
proof -
  obtain g where g: "xs_intrabar_guard x = Some g" "entry_id ev \<in> set (ig_traded g)"
    using assms(4) by (auto simp: traded_ids_def split: option.splits)
  let ?bar = "dget (sg_metadata e) ''bar_time''"
  obtain position g1 where h: "has_intrabar_position (sg_symbol e) (sg_timeframe e) (sg_strategy e) ?bar g = (position, g1)" by fastforce
  then have g1: "ig_traded g1 = ig_traded g" by (auto simp: has_intrabar_position_def split: if_splits option.splits)
  have closed: "entry_id ev \<in> set (ig_traded (on_parent_bar_close (sg_symbol e) (sg_timeframe e) ?bar g1))" if "?bar \<noteq> VNone"
    using that g(2) g1 assms(2,3) by (auto simp: on_parent_bar_close_def entry_id_def closes_bar_def)
  show ?thesis using assms(1) g h g1 closed
    by (auto simp: reconcile_intrabar_def traded_ids_def record_skip_result_def Let_def split: option.splits if_splits prod.splits)
qed

lemma confirmed_guard:
  assumes "handle_confirmed ec en xp ev x w = (r, x', w')"
  obtains q x1 where "reconcile_intrabar ev (sg_timeframe ev) (count_received (sg_timeframe ev) x) = (q, x1)"
    "xs_intrabar_guard x' = xs_intrabar_guard x1"
proof -
  obtain q x1 where q: "reconcile_intrabar ev (sg_timeframe ev) (count_received (sg_timeframe ev) x) = (q, x1)" by fastforce
  obtain v x2 where f: "run_pre_trade_filters ec en ev (sg_timeframe ev) x1 = (v, x2)" by fastforce
  have x2: "xs_intrabar_guard x2 = xs_intrabar_guard x1" using filters_keep [of ec en ev "sg_timeframe ev" x1] f by simp
  have dispatched: "xs_intrabar_guard y = xs_intrabar_guard x2"
    if "confirmed_dispatch ec en xp ev' xd (sg_timeframe ev) x2 w = (u, y, w'')" for ev' xd u y w''
    using that execute_keeps(2) [of ec en xp ev' xd "count_passed (sg_timeframe ev) x2" w]
    by (auto simp: confirmed_dispatch_def split: prod.splits if_splits)
  have decided: "xs_intrabar_guard y = xs_intrabar_guard x2" if "confirmed_decided ec en xp ev d x2 w = (u, y, w'')" for d u y w''
  proof -
    obtain xd ev' where "d = (xd, ev')" by fastforce
    with that have "confirmed_decided ec en xp ev (xd, ev') x2 w = (u, y, w'')" by simp
    then show ?thesis by (rule confirmed_decided_cases) (auto dest: dispatched)
  qed
  have "xs_intrabar_guard x' = xs_intrabar_guard x1"
  proof (cases q)
    case None
    show ?thesis
    proof (cases "ec_enabled ec")
      case True
      with assms q None f x2 show ?thesis
        by (auto simp: handle_confirmed_def Let_def dest!: decided split: verdict.splits sum.splits)
    next
      case False
      obtain u y where d: "disabled_result (sg_timeframe ev) x1 = (u, y)" by fastforce
      have "xs_intrabar_guard y = xs_intrabar_guard x1" by (rule skip_keeps(9) [of "sg_timeframe ev" x1, unfolded d snd_conv])
      with False assms q None d show ?thesis by (simp add: handle_confirmed_def)
    qed
  qed (use assms q in \<open>auto simp: handle_confirmed_def Let_def\<close>)
  with q show thesis by (rule that)
qed

lemma bar_trade_kept:
  assumes "executor_run ec xp es x w = (rs, x', w')" and "list_all (\<lambda>(en, e). \<not> closes_bar e ev) es" and "entry_id ev \<in> traded_ids x"
  shows "entry_id ev \<in> traded_ids x'"
  using assms
proof (induction es arbitrary: x w rs)
  case (Cons e es)
  obtain en e1 where e: "e = (en, e1)" by fastforce
  obtain r x1 w1 where step: "process_event ec en xp e1 x w = (r, x1, w1)" by (metis prod_cases3)
  with Cons.prems obtain rs' where run: "executor_run ec xp es x1 w1 = (rs', x', w')" by (auto simp: e split: prod.splits)
  have "entry_id ev \<in> traded_ids x1"
  proof (cases "sg_scope e1 = ''intrabar''")
    case True
    with step have "handle_intrabar_entry ec en xp e1 x w = (r, x1, w1)" by (simp add: process_event_def)
    from intrabar_event_traded(1) [OF this] Cons.prems(3) show ?thesis by blast
  next
    case False
    with step have "handle_confirmed ec en xp e1 x w = (r, x1, w1)" by (simp add: process_event_def)
    then obtain q y where y: "reconcile_intrabar e1 (sg_timeframe e1) (count_received (sg_timeframe e1) x) = (q, y)"
      "xs_intrabar_guard x1 = xs_intrabar_guard y" by (rule confirmed_guard)
    have "entry_id ev \<in> traded_ids (count_received (sg_timeframe e1) x)" using Cons.prems(3) by (simp add: traded_ids_def)
    from reconcile_traded [OF y(1) _ False this] Cons.prems(2) y(2) show ?thesis by (simp add: e traded_ids_def)
  qed
  with Cons.IH [OF run] Cons.prems(2) show ?case by simp
qed simp

end
