(* ===== verification/Executor_Safety.thy ===== *)
theory Executor_Safety
  imports Trade_Executor
begin

text \<open>
  What the executor guarantees over runs of events: which orders reach the port, how often a signal
  or a bar is traded, when the circuit breaker stops trading, and where the coordination of
  intrabar and confirmed signals and of guarded strategies fails.
\<close>

section \<open>The port as an interface\<close>

text \<open>A port with an invariant on its world that every call keeps, the dispatch of allowed payloads
  included.\<close>

locale guarded_port =
  fixes xp :: "'w execution_port"
    and I :: "'w \<Rightarrow> bool"
    and allowed :: "pydict \<Rightarrow> bool"
  assumes dispatch_keeps: "allowed p \<Longrightarrow> I w \<Longrightarrow> I (snd (xp_dispatch xp p w))"
    and position_keeps: "I w \<Longrightarrow> I (xp_track_position xp n ev params w)"
    and cancel_keeps: "I w \<Longrightarrow> I (xp_cancel_by_symbol xp s d w)"
    and order_keeps: "I w \<Longrightarrow> I (snd (xp_track_mt5_order xp k t l ev params g m lv c w))"
begin

lemma register_keeps: "I w \<Longrightarrow> I (register_position en xp ev params result w)"
  by (auto simp: register_position_def position_keeps Let_def split: sum.splits)

lemma market_keeps:
  assumes "execute_market_order ec en xp ev params cost x w = (r, x', w')" and "I w" and "allowed (market_payload ev params)"
  shows "I w'"
proof -
  obtain out w1 where out: "xp_dispatch xp (market_payload ev params) w = (out, w1)" by fastforce
  with dispatch_keeps [OF assms(3,2)] have w1: "I w1" by simp
  show ?thesis
  proof (cases out)
    case (Dispatched result)
    then have "market_filled ec en xp ev params cost result x w1 = (r, x', w')" using assms(1) out by (simp add: execute_market_order_def)
    then show ?thesis using w1 register_keeps by (auto simp: market_filled_def Let_def split: sum.splits prod.splits pyval.splits)
  qed (use assms(1) out w1 in \<open>auto simp: execute_market_order_def split: prod.splits\<close>)
qed

lemma members_keep:
  "I w \<Longrightarrow> (\<And>m. m \<in> set ms \<Longrightarrow> allowed (pending_payload ev params g m)) \<Longrightarrow> I (snd (submit_members xp ev params g ms acc w))"
proof (induction ms arbitrary: acc w)
  case (Cons m ms)
  obtain last_result placed where acc: "acc = (last_result, placed)" by fastforce
  obtain out w1 where out: "xp_dispatch xp (pending_payload ev params g m) w = (out, w1)" by fastforce
  with dispatch_keeps [of "pending_payload ev params g m" w] Cons.prems have w1: "I w1" by simp
  note rest = Cons.IH [OF _ Cons.prems(2)]
  show ?case
  proof (cases out)
    case (Dispatched result)
    define ticket where "ticket = (case result of VDict d \<Rightarrow> py_or (dget d ''order'') (dget d ''ticket'') | _ \<Rightarrow> VNone)"
    obtain q w2 where q: "xp_track_mt5_order xp (entry_key ev g m) ticket (compute_timeout (xp_pending_config xp) (sg_timeframe ev))
        ev params g m (member_levels params m) (placed_comment ev m result) w1 = (q, w2)" by fastforce
    have "I w2" using order_keeps [OF w1] q by (metis snd_conv)
    then show ?thesis using w1 rest by (cases q) (simp_all add: acc out Dispatched Let_def ticket_def [symmetric] q)
  qed (use rest w1 in \<open>simp_all add: acc out\<close>)
qed simp

lemma pending_keeps:
  assumes "submit_pending_entry en xp ev params x w = (r, x', w')" and "I w"
    and "\<And>g m. fst (ensure_entry_spec_group xp ev params) = Some g \<Longrightarrow> m \<in> set (eg_members g) \<Longrightarrow> allowed (pending_payload ev params g m)"
  shows "I w'"
proof (cases "w' = w")
  case False
  then obtain g where g: "fst (ensure_entry_spec_group xp ev params) = Some g"
    using assms(1) by (auto simp: submit_pending_entry_def split: if_splits option.splits)
  define w1 where "w1 = (if pq_cancel_on_new_signal (xp_pending_config xp)
     then xp_cancel_by_symbol xp (sg_symbol ev) (if pq_cancel_same_direction (xp_pending_config xp) then None else Some (sg_direction ev)) w else w)"
  from False assms(1) g have "w' = snd (submit_members xp ev params g (eg_members g) (VNone, False) w1)"
    by (auto simp: submit_pending_entry_def w1_def Let_def split: if_splits prod.splits)
  moreover have "I w1" using assms(2) cancel_keeps by (simp add: w1_def)
  ultimately show ?thesis using members_keep assms(3) [OF g] by simp
qed (use assms(2) in simp)

end

section \<open>Recording the orders\<close>

text \<open>A port that also keeps a list of the payloads it was given.\<close>

definition logged_port :: "'w execution_port \<Rightarrow> (pydict list \<times> 'w) execution_port" where
  "logged_port xp =
    \<lparr>xp_dispatch = \<lambda>p (ps, w). (case xp_dispatch xp p w of (r, w') \<Rightarrow> (r, (ps @ [p], w'))),
     xp_track_position = \<lambda>n ev params (ps, w). (ps, xp_track_position xp n ev params w),
     xp_cancel_by_symbol = \<lambda>s d (ps, w). (ps, xp_cancel_by_symbol xp s d w),
     xp_track_mt5_order = \<lambda>k t l ev params g m lv c (ps, w). (case xp_track_mt5_order xp k t l ev params g m lv c w of (r, w') \<Rightarrow> (r, (ps, w'))),
     xp_pending_config = xp_pending_config xp, xp_account_balance = xp_account_balance xp, xp_derive = xp_derive xp,
     xp_sizing = xp_sizing xp, xp_max_single_trade_loss = xp_max_single_trade_loss xp\<rparr>"

interpretation lp: guarded_port "logged_port xp" "\<lambda>(ps, w). list_all A ps" A for xp :: "'w execution_port" and A
  by unfold_locales (auto simp: logged_port_def split: prod.splits)

lemma logged_port_reads [simp]:
  "xp_sizing (logged_port xp) = xp_sizing xp" "xp_account_balance (logged_port xp) = xp_account_balance xp"
  "xp_max_single_trade_loss (logged_port xp) = xp_max_single_trade_loss xp" "xp_derive (logged_port xp) = xp_derive xp"
  by (simp_all add: logged_port_def)

lemma logged_port_decides [simp]:
  "check_loss_cap (logged_port xp) ev params = check_loss_cap xp ev params"
  "ensure_entry_spec_group (logged_port xp) ev params = ensure_entry_spec_group xp ev params"
  unfolding check_loss_cap_def ensure_entry_spec_group_def logged_port_reads by (rule refl)+

text \<open>The orders a decision gives rise to.\<close>

definition decided_order :: "'w execution_port \<Rightarrow> signal_event \<Rightarrow> trade_parameters \<Rightarrow> pydict \<Rightarrow> bool" where
  "decided_order xp ev params p \<longleftrightarrow> p = market_payload ev params \<or>
    (\<exists>g m. fst (ensure_entry_spec_group xp ev params) = Some g \<and> m \<in> set (eg_members g) \<and> p = pending_payload ev params g m)"

lemma execute_logs:
  assumes "execute_decision ec en (logged_port xp) ev xd x ([], w) = (r, x', (ps, w'))" and "xd_trade_params xd = Some params"
  shows "list_all (decided_order xp ev params) ps"
proof (cases "xd_use_market xd")
  case True
  with assms have "execute_market_order ec en (logged_port xp) ev params (xd_cost_metrics xd) x ([], w) = (r, x', (ps, w'))"
    by (simp add: execute_decision_def)
  from lp.market_keeps [OF this, of "decided_order xp ev params"] show ?thesis by (simp add: decided_order_def)
next
  case False
  with assms have "submit_pending_entry en (logged_port xp) ev params x ([], w) = (r, x', (ps, w'))"
    by (simp add: execute_decision_def)
  from lp.pending_keeps [OF this, of "decided_order xp ev params"] show ?thesis by (auto simp: decided_order_def)
qed

text \<open>What the payload of an order says.\<close>

lemma decided_order_fields:
  assumes "decided_order xp ev params p"
  shows "dget p ''symbol'' = VStr (sg_symbol ev)" "dget p ''side'' = VStr (sg_direction ev)"
    "dget p ''volume'' = VFloat (tp_position_size params)"
  using assms by (auto simp: decided_order_def market_payload_def pending_payload_def dget_def split_beta Let_def)

lemma decided_order_group: "decided_order xp (ev\<lparr>sg_entry_spec_group := Some g\<rparr>) params p \<Longrightarrow>
    ensure_entry_spec_group xp ev params = (Some g, ev') \<Longrightarrow> decided_order xp ev params p"
  by (auto simp: decided_order_def market_payload_def pending_payload_def ensure_entry_spec_group_def build_trade_metadata_def
      entry_key_def)

lemma params_volume:
  assumes "compute_params pf cfg balance ev = ok (Some params)" and "sc_min_volume cfg \<le> sc_max_volume cfg"
  shows "sc_min_volume cfg \<le> tp_position_size params \<and> tp_position_size params \<le> sc_max_volume cfg"
proof -
  obtain q where q: "compute_trade_params q = ok params" "sq_min_volume q = sc_min_volume cfg" "sq_max_volume q = sc_max_volume cfg"
    using assms(1) by (auto simp: compute_params_def res_simps request_of_def Let_def split: option.splits prod.splits)
  show ?thesis using assms(2) q(2,3) by (simp add: compute_trade_params_ok(3) [OF q(1)] position_size_def Let_def)
qed

lemma loss_cap_bound:
  assumes "check_loss_cap xp ev params = ok True"
  shows "case xp_max_single_trade_loss xp of None \<Rightarrow> True | Some cap \<Rightarrow>
    fl (fl (tp_sl_distance params * tp_position_size params) * get_contract_size (xp_sizing xp) (sg_symbol ev)) \<le> cap"
  using assms
  by (auto simp: check_loss_cap_def check_single_trade_loss_cap_def get_contract_size_def res_simps not_less Let_def
      split: option.splits if_splits)

text \<open>Everything an event dispatches comes from one decision on an admitted signal.\<close>

lemma dispatched_from_decision:
  assumes "process_event ec en (logged_port xp) ev x ([], w) = (r, x', (ps, w'))" and "ps \<noteq> []"
  obtains params where "ec_enabled ec" "admissible ec en ev (sg_timeframe ev) x"
    "compute_params (en_float en) (xp_sizing xp) (xp_account_balance xp) (sizing_event_of ev) = ok (Some params)"
    "check_loss_cap xp ev params = ok True" "list_all (decided_order xp ev params) ps"
proof -
  have adm: "admissible ec en ev (sg_timeframe ev) x" using process_event_blocked [OF assms(1)] assms(2) by auto
  have "\<exists>c xd ev' params x1 x2 v. ec_enabled ec \<and> build_decision c ec en (logged_port xp) ev = ok (xd, ev') \<and>
      xd_trade_params xd = Some params \<and> xd_reject_reason xd = None \<and>
      execute_decision ec en (logged_port xp) ev' xd x1 ([], w) = (v, x2, (ps, w'))"
  proof (cases "sg_scope ev = ''intrabar''")
    case True
    with assms(1) have "handle_intrabar_entry ec en (logged_port xp) ev x ([], w) = (r, x', (ps, w'))" by (simp add: process_event_def)
    then show ?thesis
    proof (cases rule: handle_intrabar_cases)
      case (dispatched ir x1 xd params ev' v x2)
      then show ?thesis by blast
    qed (use assms(2) in auto)
  next
    case False
    with assms(1) have "handle_confirmed ec en (logged_port xp) ev x ([], w) = (r, x', (ps, w'))" by (simp add: process_event_def)
    then show ?thesis
    proof (cases rule: handle_confirmed_cases)
      case (dispatched x1 x2 xd params ev' v)
      then obtain x3 where "execute_decision ec en (logged_port xp) ev' xd (count_passed (sg_timeframe ev) x2) ([], w) = (v, x3, (ps, w'))"
        by (auto simp: confirmed_dispatch_def split: prod.splits)
      with dispatched(5-8) show ?thesis by blast
    qed (use assms(2) in auto)
  qed
  then obtain c xd ev' params x1 x2 v where d: "ec_enabled ec" "build_decision c ec en (logged_port xp) ev = ok (xd, ev')"
      "xd_trade_params xd = Some params" "xd_reject_reason xd = None"
      "execute_decision ec en (logged_port xp) ev' xd x1 ([], w) = (v, x2, (ps, w'))" by blast
  from decision_taken [OF d(2-4)] obtain g where
      t: "compute_params (en_float en) (xp_sizing xp) (xp_account_balance xp) (sizing_event_of ev) = ok (Some params)"
        "check_loss_cap xp ev params = ok True" "ensure_entry_spec_group xp ev params = (Some g, ev')" by auto
  have "list_all (decided_order xp ev' params) ps" by (rule execute_logs [OF d(5,3)])
  then have "list_all (decided_order xp ev params) ps"
    using decided_order_group [OF _ t(3)] ensured_event [OF t(3)] by (auto simp: list_all_iff)
  with d(1) adm t(1,2) show ?thesis using that by blast
qed

section \<open>A desk\<close>

text \<open>A demo desk without optional collaborators, whose port fills every order at once under ticket 7
  and forgets it, and a signal to buy gold.\<close>

definition desk_config :: executor_config where
  "desk_config = \<lparr>ec_enabled = True, ec_min_confidence = 1 / 2, ec_timeframe_min_confidence = [],
     ec_max_concurrent_positions_per_symbol = None, ec_max_consecutive_failures = 3, ec_circuit_auto_reset_minutes = 30,
     ec_max_spread_to_stop_ratio = 1 / 4, ec_reentry_cooldown_bars = 0, ec_strategy_deployments = []\<rparr>"

definition desk_env :: admission_env where
  "desk_env = \<lparr>en_now = 1700000000000000, en_float = \<lambda>_. None, en_fromiso = \<lambda>_. None, en_environment = ''demo'',
     en_account_info = ok (VDict []), en_quote_health_fn = None, en_market_data_health_fn = None, en_tick_feature_health_fn = None,
     en_trading_paused = None, en_balance = ok (Some 10000), en_margin_guard = None, en_after_eod = None,
     en_active_positions = None, en_get_positions = \<lambda>_. ok [], en_pending_entries = None,
     en_gate = \<lparr>gc_intrabar_trading_enabled = True, gc_intrabar_enabled_strategies = [''trend'']\<rparr>\<rparr>"

definition desk_state :: executor_state where
  "desk_state = \<lparr>xs_circuit_open = False, xs_circuit_open_at = None, xs_consecutive_failures = 0, xs_health_check_failures = 0,
     xs_executed_signal_ids = [], xs_last_entry_bar_time = [], xs_equity_curve_filter = None, xs_intrabar_guard = Some IntrabarTradeGuard,
     xs_last_risk_block = None, xs_last_error = None, xs_execution_count = 0,
     xs_execution_quality = \<lparr>eq_recovered_from_state = 0, eq_risk_blocks = 0, eq_slippage_samples = 0, eq_slippage_total_price = 0,
       eq_slippage_total_points = 0\<rparr>,
     xs_signals_received = 0, xs_signals_passed = 0, xs_intrabar_signals_executed = 0, xs_skip_reasons = [], xs_tf_stats = []\<rparr>"

definition desk_group :: entry_group where
  "desk_group = \<lparr>eg_group_id = ''g'', eg_members = [\<lparr>em_member_id = ''m'', em_entry_type = MARKET, em_trigger_price = 2400,
     em_entry_low = 2400, em_entry_high = 2400, em_validity_bars = None\<rparr>], eg_cancellation_policy = ''any_fill'', eg_metadata = []\<rparr>"

definition desk_port :: "dispatch_outcome \<Rightarrow> nat execution_port" where
  "desk_port out = \<lparr>xp_dispatch = \<lambda>p w. (out, Suc w), xp_track_position = \<lambda>n ev params w. w, xp_cancel_by_symbol = \<lambda>s d w. w,
     xp_track_mt5_order = \<lambda>k t l ev params g m lv c w. (ok (), w),
     xp_pending_config = \<lparr>pq_timeout_bars = [], pq_default_timeout_bars = 2, pq_cancel_on_new_signal = False,
       pq_cancel_same_direction = False\<rparr>,
     xp_account_balance = Some 10000, xp_derive = \<lambda>ev params. Some desk_group,
     xp_sizing = \<lparr>sc_contract_size_map = [(''default'', 100)], sc_risk_percent = 1, sc_sl_atr_multiplier = 1, sc_tp_atr_multiplier = 2,
       sc_min_volume = fl (1 / 100), sc_max_volume = 1, sc_timeframe_risk_multipliers = [], sc_regime_sizing = None\<rparr>,
     xp_max_single_trade_loss = Some 200\<rparr>"

definition filled :: dispatch_outcome where
  "filled = Dispatched (VDict [(''ticket'', VInt 7), (''price'', VFloat 2400)])"

definition desk_signal :: "string \<Rightarrow> signal_event" where
  "desk_signal scope = \<lparr>sg_symbol = ''XAUUSD'', sg_timeframe = ''M15'', sg_strategy = ''trend'', sg_direction = ''buy'', sg_confidence = 3 / 4,
     sg_signal_state = ''confirmed_buy'', sg_scope = scope, sg_indicators = [(''atr14'', VDict [(''atr'', VFloat 5)])],
     
     sg_metadata = [(''close_price'', VFloat 2400), (''bar_time'', VStr ''2023-11-14T22:00:00+00:00''),
       (''intrabar_synthesis'', VDict [(''synthesized_at'', VTime (Datetime 1700000000000000 (Some 0)))])],
     sg_generated_at = Datetime 1700000000000000 (Some 0), sg_signal_id = ''s1'',
     sg_parent_bar_time = Some (Datetime 1699999200000000 (Some 0)), sg_entry_spec_group = None, sg_exit_spec = []\<rparr>"

definition signal :: "string \<Rightarrow> string \<Rightarrow> signal_event" where
  "signal scope sid = (desk_signal scope)\<lparr>sg_signal_id := sid\<rparr>"

definition failing :: dispatch_outcome where
  "failing = DispatchError (RuntimeError ''no connection'')"

definition desk_params :: trade_parameters where
  "desk_params = \<lparr>tp_entry_price = 2400, tp_stop_loss = 2391, tp_take_profit = 4825 / 2,
     tp_position_size = 5764607523034235 / 72057594037927936, tp_risk_reward_ratio = 6260003482044989 / 4503599627370496,
     tp_atr_value = 5, tp_sl_distance = 9, tp_tp_distance = 25 / 2\<rparr>"

text \<open>The ports of the desk: the same numbers, any outcome.\<close>

definition desk_like :: "'w execution_port \<Rightarrow> bool" where
  "desk_like xp \<longleftrightarrow> xp_sizing xp = xp_sizing (desk_port filled) \<and> xp_account_balance xp = Some 10000 \<and>
    xp_derive xp = (\<lambda>ev params. Some desk_group) \<and> xp_max_single_trade_loss xp = Some 200"

lemma desk_ports: "desk_like (desk_port out)" "desk_like (logged_port (desk_port out))"
  by (simp_all add: desk_like_def) (simp_all add: desk_port_def)

lemma sizing_signal: "sizing_event_of (signal scope sid) = sizing_event_of (desk_signal [])"
  by (simp add: sizing_event_of_def signal_def desk_signal_def)

lemma desk_sized: "compute_params (en_float desk_env) (xp_sizing (desk_port filled)) (Some 10000) (sizing_event_of (desk_signal [])) = ok (Some desk_params)"
  by code_simp

lemma desk_cost: "cm_spread_to_stop_ratio (estimate_cost_metrics (en_float desk_env) (sizing_event_of (desk_signal [])) desk_params) = None"
  by code_simp

lemma desk_capped: "check_single_trade_loss_cap (Some 200) (tp_position_size desk_params) (tp_sl_distance desk_params) 100 =
    ok \<lparr>lc_allowed = True, lc_estimated_loss_usd = fl (fl (tp_sl_distance desk_params * tp_position_size desk_params) * 100),
      lc_max_allowed_usd = Some 200, lc_reason = None\<rparr>"
  by code_simp

lemma desk_data: "data_admits desk_env (desk_signal ''confirmed'')" "data_admits desk_env (desk_signal ''intrabar'')"
  unfolding data_pass [where tf = "''M15''" and x = desk_state, symmetric] by code_simp+

lemma desk_decided:
  assumes "desk_like xp"
  obtains xd where "build_decision c desk_config desk_env xp (signal scope sid) =
      ok (xd, (signal scope sid)\<lparr>sg_entry_spec_group := Some desk_group\<rparr>)"
    "xd_trade_params xd = Some desk_params" "xd_reject_reason xd = None" "xd_use_market xd" "xd_spread_to_stop_ratio xd = None"
    "xd_cost_metrics xd = Some (estimate_cost_metrics (en_float desk_env) (sizing_event_of (desk_signal [])) desk_params)"
proof -
  have sized: "compute_params (en_float desk_env) (xp_sizing xp) (xp_account_balance xp) (sizing_event_of (signal scope sid)) = ok (Some desk_params)"
    using assms desk_sized by (simp add: desk_like_def sizing_signal)
  have "check_loss_cap xp (signal scope sid) desk_params = ok True"
    using assms desk_capped by (simp add: desk_like_def check_loss_cap_def desk_port_def signal_def desk_signal_def res_simps)
  moreover have "ensure_entry_spec_group xp (signal scope sid) desk_params = (Some desk_group, (signal scope sid)\<lparr>sg_entry_spec_group := Some desk_group\<rparr>)"
    using assms by (simp add: desk_like_def ensure_entry_spec_group_def) (simp add: signal_def desk_signal_def)
  moreover have "all_market desk_group" by (simp add: all_market_def desk_group_def)
  ultimately show ?thesis using sized desk_cost that
    by (simp add: build_decision_def res_simps sizing_signal)
qed

definition ready :: "string \<Rightarrow> executor_state \<Rightarrow> bool" where
  "ready sid x \<longleftrightarrow> sid \<notin> set (xs_executed_signal_ids x) \<and> \<not> xs_circuit_open x \<and> xs_equity_curve_filter x = None"

lemma desk_admits:
  assumes "ready sid x" and "scope \<in> {''confirmed'', ''intrabar''}"
  shows "admissible desk_config desk_env (signal scope sid) (sg_timeframe (signal scope sid)) x"
proof -
  have "data_admits desk_env (signal scope sid) = data_admits desk_env (desk_signal scope)"
    by (simp add: data_admits_def signal_def)
  moreover have "data_admits desk_env (desk_signal scope)" using assms(2) desk_data by auto
  moreover have "pending_rows desk_env = []" "en_trading_paused desk_env = None" "en_margin_guard desk_env = None" "en_after_eod desk_env = None"
    by (simp_all add: desk_env_def pending_rows_def)
  moreover have "sg_signal_id (signal scope sid) = sid" "sg_direction (signal scope sid) = ''buy''" "sg_confidence (signal scope sid) = 3 / 4"
    by (simp_all add: signal_def desk_signal_def)
  moreover have "ec_strategy_deployments desk_config = []" "ec_max_concurrent_positions_per_symbol desk_config = None"
      "ec_reentry_cooldown_bars desk_config = 0" "ec_timeframe_min_confidence desk_config = []" "ec_min_confidence desk_config = 1 / 2"
    by (simp_all add: desk_config_def)
  ultimately show ?thesis using assms(1)
    by (simp add: admissible_def ready_def circuit_admits_def equity_admits_def has_matching_pending_entry_def min_confidence_for_def
        cooldown_over_def)
qed

text \<open>The order of a ready desk is filled, and the signal counts as executed.\<close>

lemma desk_filled:
  "\<exists>r x'. market_filled desk_config desk_env xp ev desk_params cost (VDict [(''ticket'', VInt 7), (''price'', VFloat 2400)]) x w = (r, x', w) \<and>
    is_dispatch_committed r \<and> r \<noteq> VNone"
proof -
  let ?d = "[(''ticket'', VInt 7), (''price'', VFloat 2400)] :: pydict"
  have price: "py_or (dget ?d ''requested_price'') (dget ?d ''price'') = VFloat 2400"
    "py_or (dget ?d ''fill_price'') (dget ?d ''price'') = VFloat 2400" by code_simp+
  have "0 < fl (1 / 10 ^ 10 :: rat)" by code_simp
  then have adj: "adjust_params_for_fill (en_float desk_env) desk_params (VFloat 2400) (VFloat 2400) = ok desk_params"
    by (simp add: adjust_params_for_fill_def num_sub_def res_simps)
  have reg: "register_position desk_env xp ev desk_params ?d w = w" by (simp add: register_position_def desk_env_def)
  have committed: "is_dispatch_committed (VDict (with_quality q ?d))" for q
  proof -
    have "lower (strip (str_or_empty VNone)) = []" by code_simp
    moreover have "dget (with_quality q ?d) ''status'' = VNone" by (simp add: with_quality_def dget_def)
    ultimately show ?thesis by (simp add: is_dispatch_committed_def)
  qed
  show ?thesis
    unfolding market_filled_def Let_def pyval.case price adj sum.case reg safe_dict_def
    by (simp only: split_beta prod.inject simp_thms ex_simps price adj sum.case reg pyval.distinct) (simp add: committed)
qed

lemma desk_payload: "market_payload (ev\<lparr>sg_entry_spec_group := g\<rparr>) params = market_payload ev params"
  by (simp add: market_payload_def build_trade_metadata_def)

lemma desk_executed:
  assumes "xd_trade_params xd = Some desk_params" and "xd_use_market xd"
    and "xp_dispatch xp (market_payload ev desk_params) w = (filled, w')"
  shows "\<exists>r x'. execute_decision desk_config desk_env xp (ev\<lparr>sg_entry_spec_group := g\<rparr>) xd x w = (r, x', w') \<and> is_dispatch_committed r \<and> r \<noteq> VNone"
  using assms desk_filled [of xp "ev\<lparr>sg_entry_spec_group := g\<rparr>" "xd_cost_metrics xd" x w']
  by (simp add: execute_decision_def execute_market_order_def desk_payload filled_def)

lemma desk_passes:
  assumes "ready sid x" and "scope \<in> {''confirmed'', ''intrabar''}"
  obtains x' where "run_pre_trade_filters desk_config desk_env (signal scope sid) (sg_timeframe (signal scope sid)) x = (Pass, x')"
  using desk_admits [OF assms] unfolding admission_iff_admissible [symmetric] by (metis prod.collapse)

lemma signal_reads [simp]: "sg_scope (signal scope sid) = scope" "sg_signal_id (signal scope sid) = sid" "ec_enabled desk_config"
  by (simp_all add: signal_def desk_signal_def desk_config_def)

lemma desk_confirmed:
  assumes "desk_like xp" and "ready sid x" and "sid \<noteq> []"
    and "reconcile_intrabar (signal ''confirmed'' sid) (sg_timeframe (signal ''confirmed'' sid))
      (count_received (sg_timeframe (signal ''confirmed'' sid)) x) = (None, x1)"
    and "xp_dispatch xp (market_payload (signal ''confirmed'' sid) desk_params) w = (filled, w')"
  shows "\<exists>r x'. process_event desk_config desk_env xp (signal ''confirmed'' sid) x w = (r, x', w') \<and>
    committed_id (signal ''confirmed'' sid) r = [sid]"
proof -
  let ?ev = "signal ''confirmed'' sid"
  have "ready sid x1"
    using assms(2) reconcile_keeps [OF assms(4)] by (auto simp: ready_def looked_at_def circuit_part_def count_received_def set_tf_entry_def split: if_splits)
  from desk_passes [OF this, of "''confirmed''"] obtain x2 where
    f: "run_pre_trade_filters desk_config desk_env ?ev (sg_timeframe ?ev) x1 = (Pass, x2)" by auto
  obtain xd where d: "build_decision True desk_config desk_env xp ?ev = ok (xd, ?ev\<lparr>sg_entry_spec_group := Some desk_group\<rparr>)"
    "xd_trade_params xd = Some desk_params" "xd_reject_reason xd = None" "xd_use_market xd" "xd_spread_to_stop_ratio xd = None"
    using desk_decided [OF assms(1), of True "''confirmed''" sid] by metis
  obtain r x3 where e: "execute_decision desk_config desk_env xp (?ev\<lparr>sg_entry_spec_group := Some desk_group\<rparr>) xd
      (count_passed (sg_timeframe ?ev) x2) w = (r, x3, w')" "is_dispatch_committed r"
    using desk_executed [OF d(2,4) assms(5)] by metis
  then show ?thesis using assms(3,4) f d
    by (simp add: process_event_def handle_confirmed_def confirmed_decided_def confirmed_dispatch_def committed_id_def Let_def)
qed

lemma desk_intrabar:
  assumes "desk_like xp" and "ready sid x" and "xs_intrabar_guard x = Some IntrabarTradeGuard"
    and "xp_dispatch xp (market_payload (signal ''intrabar'' sid) desk_params) w = (filled, w')"
  shows "\<exists>r x'. process_event desk_config desk_env xp (signal ''intrabar'' sid) x w = (ok r, x', w') \<and> is_dispatch_committed r"
proof -
  let ?ev = "signal ''intrabar'' sid"
  have bar: "parent_bar_of ?ev = VTime (Datetime 1699999200000000 (Some 0))" by (simp add: parent_bar_of_def signal_def desk_signal_def)
  have gate: "check_intrabar (en_gate desk_env) ?ev = (True, [])" by (simp add: check_intrabar_def desk_env_def signal_def desk_signal_def)
  have can: "can_trade s t st d b IntrabarTradeGuard = ((True, []), IntrabarTradeGuard)" for s t st d b
    by (simp add: can_trade_def IntrabarTradeGuard_def)
  have same: "x\<lparr>xs_intrabar_guard := Some IntrabarTradeGuard\<rparr> = x" using assms(3) by simp
  from desk_passes [OF assms(2), of "''intrabar''"] obtain x2 where
    "run_pre_trade_filters desk_config desk_env ?ev (sg_timeframe ?ev) x = (Pass, x2)" by auto
  then have f: "run_intrabar desk_config desk_env ?ev (sg_timeframe ?ev) x =
      (ok \<lparr>ir_can_execute = True, ir_parent_bar_time = parent_bar_of ?ev, ir_reject_reason = None, ir_detail = None\<rparr>, x2)"
    unfolding run_intrabar_def Let_def assms(3) option.case can prod.case same gate by (simp add: bar)
  obtain xd where d: "build_decision False desk_config desk_env xp ?ev = ok (xd, ?ev\<lparr>sg_entry_spec_group := Some desk_group\<rparr>)"
    "xd_trade_params xd = Some desk_params" "xd_reject_reason xd = None" "xd_use_market xd"
    using desk_decided [OF assms(1), of False "''intrabar''" sid] by metis
  obtain r x3 where e: "execute_decision desk_config desk_env xp (?ev\<lparr>sg_entry_spec_group := Some desk_group\<rparr>) xd x2 w = (r, x3, w')"
      "is_dispatch_committed r" "r \<noteq> VNone"
    using desk_executed [OF d(2,4) assms(4)] by metis
  have "\<not> truthy (dget (cost_details c) ''blocked'')" for c by (auto simp: cost_details_def dget_def split: option.splits)
  then show ?thesis using f d e
    by (simp add: process_event_def handle_intrabar_entry_def intrabar_decided_def record_intrabar_trade_def bar_time_text_def bar Let_def)
qed

text \<open>A bar time that is text is the key of no trade recorded under a datetime.\<close>

lemma text_bar_reconcile:
  assumes "xs_intrabar_guard x = Some g" and "dget (sg_metadata ev) ''bar_time'' = VStr s"
    and "list_all (\<lambda>(_, _, _, _, b). \<exists>t. b = VTime t) (ig_traded g)" and "list_all (\<lambda>((_, _, _, b), _). \<exists>t. b = VTime t) (ig_positions g)"
  shows "reconcile_intrabar ev tf x = (None, x)"
proof -
  have key: "time_key (VStr s) = VStr s" by (simp add: time_key_def)
  have "map_of (ig_positions g) (sg_symbol ev, sg_timeframe ev, sg_strategy ev, VStr s) = None"
    using assms(4) by (auto simp: map_of_eq_None_iff list_all_iff)
  moreover have "on_parent_bar_close (sg_symbol ev) (sg_timeframe ev) (VStr s) g = g"
    using assms(3,4) by (auto simp: on_parent_bar_close_def key list_all_iff intro!: filter_True intrabar_guard.equality)
  ultimately show ?thesis using assms(1,2) by (simp add: reconcile_intrabar_def has_intrabar_position_def key)
qed

lemma executor_run_circuit:
  assumes "executor_run ec xp es x w = (rs, x', w')" and "0 < ec_max_consecutive_failures ec" and "circuit_ok ec x"
  shows "circuit_ok ec x'"
  using assms
proof (induction es arbitrary: x w rs)
  case (Cons e es)
  obtain en ev where e: "e = (en, ev)" by fastforce
  obtain r x1 w1 where step: "process_event ec en xp ev x w = (r, x1, w1)" by (metis prod_cases3)
  with Cons.prems obtain rs' where "executor_run ec xp es x1 w1 = (rs', x', w')" by (auto simp: e split: prod.splits)
  from Cons.IH [OF this Cons.prems(2) process_event_effect(2) [OF step Cons.prems(2,3)]] show ?case .
qed simp

section \<open>Properties\<close>

text \<open>C5: What reaches the broker. Every order that processing one event dispatches, market or pending,
  is for a signal that satisfies every condition of admission while automatic trading is enabled,
  carries the symbol and side of the signal, a volume within the configured bounds, and a loss at
  the stop, as estimated from that volume, within the cap for one trade.\<close>

theorem dispatched_orders_admitted_and_capped:
  assumes "process_event ec en (logged_port xp) ev x ([], w) = (r, x', (ps, w'))" and "p \<in> set ps"
    and "sc_min_volume (xp_sizing xp) \<le> sc_max_volume (xp_sizing xp)"
  shows "ec_enabled ec \<and> admissible ec en ev (sg_timeframe ev) x \<and> dget p ''symbol'' = VStr (sg_symbol ev) \<and>
    dget p ''side'' = VStr (sg_direction ev) \<and> sg_direction ev \<in> {''buy'', ''sell''} \<and>
    (\<exists>params. compute_params (en_float en) (xp_sizing xp) (xp_account_balance xp) (sizing_event_of ev) = ok (Some params) \<and>
      dget p ''volume'' = VFloat (tp_position_size params) \<and>
      sc_min_volume (xp_sizing xp) \<le> tp_position_size params \<and> tp_position_size params \<le> sc_max_volume (xp_sizing xp) \<and>
      (case xp_max_single_trade_loss xp of None \<Rightarrow> True
       | Some cap \<Rightarrow> fl (fl (tp_sl_distance params * tp_position_size params) * get_contract_size (xp_sizing xp) (sg_symbol ev)) \<le> cap))"
proof -
  from assms(2) have "ps \<noteq> []" by auto
  from dispatched_from_decision [OF assms(1) this] obtain params where d: "ec_enabled ec" "admissible ec en ev (sg_timeframe ev) x"
    "compute_params (en_float en) (xp_sizing xp) (xp_account_balance xp) (sizing_event_of ev) = ok (Some params)"
    "check_loss_cap xp ev params = ok True" "list_all (decided_order xp ev params) ps" .
  with assms(2) have "decided_order xp ev params p" by (simp add: list_all_iff)
  note f = decided_order_fields [OF this]
  have "sg_direction ev \<in> {''buy'', ''sell''}" using d(2) by (simp add: admissible_def)
  then show ?thesis using d f params_volume [OF d(3) assms(3)] loss_cap_bound [OF d(4)] by simp
qed

text \<open>C6: No signal is executed twice. In a run from an empty history, any 2001 consecutive commits are
  of different signals, and a signal among the last 2000 commits dispatches nothing.\<close>

theorem executed_signal_never_repeated:
  assumes "executor_run ec xp es x w = (rs, x', w')" and "xs_executed_signal_ids x = []"
  shows "distinct (take 2001 (drop k (commits rs))) \<and>
    (sg_signal_id ev \<in> set (last_ids 2000 (commits rs)) \<longrightarrow> snd (snd (process_event ec en xp ev x' w')) = w')"
proof -
  have ids: "xs_executed_signal_ids x' = last_ids 2000 (commits rs)" "\<And>k. distinct (take 2001 (drop k (commits rs)))"
    using executor_run_ids [OF assms(1), of "[]"] assms(2) by (simp_all add: last_ids_def)
  obtain r y v where step: "process_event ec en xp ev x' w' = (r, y, v)" by (metis prod_cases3)
  have "v = w'" if "sg_signal_id ev \<in> set (last_ids 2000 (commits rs))"
  proof (rule process_event_blocked [OF step])
    have "[] \<notin> set (commits rs)" by (auto simp: commits_def committed_id_def split: if_splits)
    then have "sg_signal_id ev \<noteq> []" using that by (auto simp: last_ids_def dest: in_set_dropD)
    with that ids(1) show "\<not> admissible ec en ev (sg_timeframe ev) x'" by (simp add: admissible_def)
  qed
  with ids(2) step show ?thesis by simp
qed

text \<open>C13: The circuit breaker. Over every run the breaker is open exactly when it has a time since when,
  and a closed one has seen fewer failures in a row than the limit. While it is open and not both
  due for a reset and the account reachable, no event dispatches anything.\<close>

theorem open_circuit_stops_trading:
  assumes "executor_run ec xp es x w = (rs, x', w')" and "0 < ec_max_consecutive_failures ec" and "circuit_ok ec x"
  shows "circuit_ok ec x' \<and> (xs_circuit_open x' \<and> \<not> (reset_due ec en x' \<and> check_trading_health en) \<longrightarrow>
    snd (snd (process_event ec en xp ev x' w')) = w')"
proof -
  obtain r y v where step: "process_event ec en xp ev x' w' = (r, y, v)" by (metis prod_cases3)
  have "v = w'" if "xs_circuit_open x'" "\<not> (reset_due ec en x' \<and> check_trading_health en)"
    using that process_event_blocked [OF step] unfolding admissible_def circuit_admits_def by blast
  with step executor_run_circuit [OF assms] show ?thesis by simp
qed

text \<open>C29: One intrabar entry per bar. Once an intrabar signal has acted on the port and got a result
  (a failed dispatch is such a result), no intrabar signal of the same symbol, timeframe, strategy
  and direction in the same parent bar acts again, whatever intrabar and confirmed signals, of any
  strategy, come between, as long as none of them is a confirmed signal of the same symbol and
  timeframe that carries that very bar as its bar time: only such a signal closes the bar and
  forgets its trades.\<close>

theorem one_intrabar_entry_per_bar:
  assumes "process_event ec en xp ev x w = (r, x1, w1)" and "sg_scope ev = ''intrabar''" and "w1 \<noteq> w"
    and "r \<noteq> ok (VDict (build_skipped_result ''execution_result_unavailable'' ''dispatch'' []))"
    and "executor_run ec xp es x1 w1 = (rs, x2, w2)" and "list_all (\<lambda>(en, e). \<not> closes_bar e ev) es"
    and "sg_scope ev' = ''intrabar''" and "entry_id ev' = entry_id ev"
  shows "snd (snd (process_event ec en' xp ev' x2 w2)) = w2"
proof -
  from assms(1,2) have "handle_intrabar_entry ec en xp ev x w = (r, x1, w1)" by (simp add: process_event_def)
  from bar_trade_kept [OF assms(5,6) intrabar_event_traded(2) [OF this assms(3,4)]] assms(8)
  have traded: "entry_id ev' \<in> traded_ids x2" by simp
  obtain r' x3 w3 where step: "handle_intrabar_entry ec en' xp ev' x2 w2 = (r', x3, w3)" by (metis prod_cases3)
  from intrabar_event_traded(3) [OF step traded] step assms(7) show ?thesis by (simp add: process_event_def)
qed

text \<open>C35: Guarded strategies do not trade. A validated deployment in the state active-guarded requires a
  pending entry, and the filter that checks it reads the order group of the event, which is
  derived only after the filters: an event that arrives without one dispatches nothing.\<close>

theorem guarded_strategies_never_trade:
  assumes "validate_strategy_deployments pf sources known tfs sessions affinity = ok (ec_strategy_deployments ec)"
    and "map_of (ec_strategy_deployments ec) (sg_strategy ev) = Some d" and "dp_status d = ACTIVE_GUARDED"
    and "sg_entry_spec_group ev = None"
  shows "snd (snd (process_event ec en xp ev x w)) = w"
proof -
  obtain r x' w' where step: "process_event ec en xp ev x w = (r, x', w')" by (metis prod_cases3)
  have "dp_require_pending_entry d"
    using validated_deployments(3) [OF assms(1)] map_of_SomeD [OF assms(2)] assms(3)
    by (auto simp: deployment_checked_def contract_complete_def)
  with assms(2,4) have "\<not> admissible ec en ev (sg_timeframe ev) x" by (auto simp: admissible_def deployment_admits_def)
  from process_event_blocked [OF step this] step show ?thesis by simp
qed

text \<open>A bar time in text form is never reconciled. The guard keys intrabar trades by datetime, and the
  confirmed signals of the runtime carry the bar time as ISO text: such a signal finds no intrabar
  position of its bar and leaves the guard as it is.\<close>

theorem text_bar_time_never_reconciled:
  assumes "xs_intrabar_guard x = Some g" and "dget (sg_metadata ev) ''bar_time'' = VStr s"
    and "list_all (\<lambda>(_, _, _, _, b). \<exists>t. b = VTime t) (ig_traded g)" and "list_all (\<lambda>((_, _, _, b), _). \<exists>t. b = VTime t) (ig_positions g)"
  shows "reconcile_intrabar ev tf x = (None, x)"
  using assms by (rule text_bar_reconcile)

section \<open>Witnesses\<close>

lemma desk_ready: "ready sid desk_state" "xs_executed_signal_ids desk_state = []" "circuit_ok desk_config desk_state"
    "xs_intrabar_guard desk_state = Some IntrabarTradeGuard"
  by (simp_all add: ready_def circuit_ok_def desk_state_def desk_config_def)

lemma desk_dispatch: "xp_dispatch (desk_port filled) p w = (filled, Suc w)"
    "xp_dispatch (logged_port (desk_port filled)) p (ps, w) = (filled, (ps @ [p], Suc w))"
  by (simp_all add: desk_port_def logged_port_def)

text \<open>The confirmed signals of the desk carry the bar time as text, and the guard may know of an
  intrabar trade of their bar.\<close>

definition bar_guard :: intrabar_guard where
  "bar_guard = guard_record_trade ''XAUUSD'' ''M15'' ''trend'' ''buy'' (VTime (Datetime 1699999200000000 (Some 0))) IntrabarTradeGuard"

lemma desk_reconcile:
  assumes "g \<in> {IntrabarTradeGuard, bar_guard}" and "xs_intrabar_guard x = Some g"
  shows "reconcile_intrabar (signal ''confirmed'' sid) tf x = (None, x)"
proof (rule text_bar_reconcile [OF assms(2)])
  show "dget (sg_metadata (signal ''confirmed'' sid)) ''bar_time'' = VStr ''2023-11-14T22:00:00+00:00''"
    by (simp add: signal_def desk_signal_def dget_def)
qed (use assms(1) in \<open>auto simp: bar_guard_def IntrabarTradeGuard_def guard_record_trade_def time_key_def utcoffset_def\<close>)

lemma desk_confirmed_from:
  assumes "desk_like xp" and "g \<in> {IntrabarTradeGuard, bar_guard}" and "sid \<noteq> []"
    and "xp_dispatch xp (market_payload (signal ''confirmed'' sid) desk_params) w = (filled, w')"
  shows "\<exists>r x'. process_event desk_config desk_env xp (signal ''confirmed'' sid) (desk_state\<lparr>xs_intrabar_guard := Some g\<rparr>) w = (r, x', w') \<and>
    committed_id (signal ''confirmed'' sid) r = [sid]"
  by (rule desk_confirmed [OF assms(1) _ assms(3) desk_reconcile [OF assms(2)] assms(4)])
    (use desk_ready(1) [of sid] in \<open>simp_all add: ready_def\<close>)

theorem dispatched_orders_admitted_and_capped_witness:
  "\<exists>r x' p w'. process_event desk_config desk_env (logged_port (desk_port filled)) (signal ''confirmed'' ''s1'')
      (desk_state\<lparr>xs_intrabar_guard := Some IntrabarTradeGuard\<rparr>) ([], 0) = (r, x', ([p], w')) \<and>
    dget p ''symbol'' = VStr (sg_symbol (signal ''confirmed'' ''s1'')) \<and>
    sg_direction (signal ''confirmed'' ''s1'') \<in> {''buy'', ''sell''}"
proof -
  obtain r x' p where step: "process_event desk_config desk_env (logged_port (desk_port filled)) (signal ''confirmed'' ''s1'')
      (desk_state\<lparr>xs_intrabar_guard := Some IntrabarTradeGuard\<rparr>) ([], 0) = (r, x', ([p], Suc 0))"
    using desk_confirmed_from [OF desk_ports(2), of IntrabarTradeGuard "''s1''" filled "([], 0)"] by (auto simp: desk_dispatch)
  have "sc_min_volume (xp_sizing (desk_port filled)) \<le> sc_max_volume (xp_sizing (desk_port filled))" by code_simp
  from dispatched_orders_admitted_and_capped [OF step _ this, of p] step show ?thesis by auto
qed

theorem executed_signal_never_repeated_witness:
  "\<exists>rs x'. executor_run desk_config (desk_port filled) [(desk_env, signal ''confirmed'' ''s1'')]
      (desk_state\<lparr>xs_intrabar_guard := Some IntrabarTradeGuard\<rparr>) 0 = (rs, x', 1) \<and> commits rs = [''s1''] \<and>
    snd (snd (process_event desk_config desk_env (desk_port filled) (signal ''confirmed'' ''s1'') x' 1)) = 1"
proof -
  obtain r x' where step: "process_event desk_config desk_env (desk_port filled) (signal ''confirmed'' ''s1'')
      (desk_state\<lparr>xs_intrabar_guard := Some IntrabarTradeGuard\<rparr>) 0 = (r, x', 1)" "committed_id (signal ''confirmed'' ''s1'') r = [''s1'']"
    using desk_confirmed_from [OF desk_ports(1), of IntrabarTradeGuard "''s1''" filled 0] by (auto simp: desk_dispatch)
  then have run: "executor_run desk_config (desk_port filled) [(desk_env, signal ''confirmed'' ''s1'')]
      (desk_state\<lparr>xs_intrabar_guard := Some IntrabarTradeGuard\<rparr>) 0 = ([(signal ''confirmed'' ''s1'', r)], x', 1)" by simp
  have ids: "commits [(signal ''confirmed'' ''s1'', r)] = [''s1'']" using step(2) by (simp add: commits_def)
  from executed_signal_never_repeated [OF run, of 0 "signal ''confirmed'' ''s1''" desk_env] run ids desk_ready(2)
  show ?thesis by (simp add: last_ids_def)
qed

theorem open_circuit_stops_trading_witness:
  "snd (snd (process_event desk_config desk_env (desk_port filled) (signal ''confirmed'' ''s1'')
    (desk_state\<lparr>xs_circuit_open := True, xs_circuit_open_at := Some (en_now desk_env), xs_consecutive_failures := 3\<rparr>) 5)) = 5"
proof -
  let ?x = "desk_state\<lparr>xs_circuit_open := True, xs_circuit_open_at := Some (en_now desk_env), xs_consecutive_failures := 3\<rparr>"
  have "circuit_ok desk_config ?x" by (simp add: circuit_ok_def)
  moreover have "0 < ec_max_consecutive_failures desk_config" by (simp add: desk_config_def)
  moreover have "\<not> reset_due desk_config desk_env ?x" by code_simp
  ultimately show ?thesis
    using open_circuit_stops_trading [of desk_config "desk_port filled" "[]" ?x 5 "[]" ?x 5 desk_env "signal ''confirmed'' ''s1''"] by simp
qed

theorem one_intrabar_entry_per_bar_witness:
  "\<exists>r x1 rs x2 w2. process_event desk_config desk_env (desk_port filled) (signal ''intrabar'' ''s1'') desk_state 0 = (r, x1, 1) \<and>
    executor_run desk_config (desk_port filled) [(desk_env, signal ''confirmed'' ''s2'')] x1 1 = (rs, x2, w2) \<and>
    snd (snd (process_event desk_config desk_env (desk_port filled) (signal ''intrabar'' ''s3'') x2 w2)) = w2"
proof -
  obtain r x1 where step: "process_event desk_config desk_env (desk_port filled) (signal ''intrabar'' ''s1'') desk_state 0 = (ok r, x1, 1)"
      "is_dispatch_committed r"
    using desk_intrabar [OF desk_ports(1) desk_ready(1,4), of filled "''s1''" 0 1] by (auto simp: desk_dispatch)
  obtain rs x2 w2 where run: "executor_run desk_config (desk_port filled) [(desk_env, signal ''confirmed'' ''s2'')] x1 1 = (rs, x2, w2)"
    by (metis prod_cases3)
  have "entry_id (signal ''intrabar'' ''s3'') = entry_id (signal ''intrabar'' ''s1'')" by (simp add: entry_id_def parent_bar_of_def signal_def desk_signal_def)
  moreover have "ok r \<noteq> ok (VDict (build_skipped_result ''execution_result_unavailable'' ''dispatch'' []))" using step(2) by auto
  moreover have "\<not> closes_bar (signal ''confirmed'' ''s2'') (signal ''intrabar'' ''s1'')"
    by (simp add: closes_bar_def signal_def desk_signal_def parent_bar_of_def time_key_def dget_def)
  ultimately have "snd (snd (process_event desk_config desk_env (desk_port filled) (signal ''intrabar'' ''s3'') x2 w2)) = w2"
    using one_intrabar_entry_per_bar [OF step(1) _ _ _ run] by simp
  then show ?thesis using step(1) run by blast
qed

theorem guarded_strategies_never_trade_witness:
  "snd (snd (process_event (desk_config\<lparr>ec_strategy_deployments := [(''trend'', guarded_example)]\<rparr>) desk_env (desk_port filled)
    (signal ''confirmed'' ''s1'') desk_state 0)) = 0"
  by (rule guarded_strategies_never_trade [of half_parser "[('' trend'', Payload guarded_payload)]" "[''trend'']" "[]" "[]" "[]" _ _ guarded_example])
    (simp_all add: guarded_example_validated, simp_all add: guarded_example_def signal_def desk_signal_def)

text \<open>After an intrabar trade, the confirmed signal of the same bar and direction trades again.\<close>

theorem text_bar_time_never_reconciled_witness:
  "reconcile_intrabar (signal ''confirmed'' ''s2'') ''M15'' (desk_state\<lparr>xs_intrabar_guard := Some bar_guard\<rparr>) =
      (None, desk_state\<lparr>xs_intrabar_guard := Some bar_guard\<rparr>) \<and>
    (\<exists>r x'. process_event desk_config desk_env (desk_port filled) (signal ''confirmed'' ''s2'')
      (desk_state\<lparr>xs_intrabar_guard := Some bar_guard\<rparr>) 1 = (r, x', 2) \<and> committed_id (signal ''confirmed'' ''s2'') r = [''s2''])"
proof -
  have "dget (sg_metadata (signal ''confirmed'' ''s2'')) ''bar_time'' = VStr ''2023-11-14T22:00:00+00:00''"
    by (simp add: signal_def desk_signal_def dget_def)
  then have "reconcile_intrabar (signal ''confirmed'' ''s2'') ''M15'' (desk_state\<lparr>xs_intrabar_guard := Some bar_guard\<rparr>) =
      (None, desk_state\<lparr>xs_intrabar_guard := Some bar_guard\<rparr>)"
    by (intro text_bar_time_never_reconciled [where g = bar_guard])
      (auto simp: bar_guard_def IntrabarTradeGuard_def guard_record_trade_def time_key_def utcoffset_def)
  moreover have "\<exists>r x'. process_event desk_config desk_env (desk_port filled) (signal ''confirmed'' ''s2'')
      (desk_state\<lparr>xs_intrabar_guard := Some bar_guard\<rparr>) 1 = (r, x', 2) \<and> committed_id (signal ''confirmed'' ''s2'') r = [''s2'']"
    by (rule desk_confirmed_from [OF desk_ports(1)]) (simp_all add: desk_dispatch)
  ultimately show ?thesis by simp
qed

end
