(* ===== verification/Pending_Manager.thy ===== *)
theory Pending_Manager
  imports Trade_Executor Interfaces
begin

text \<open>
  The pending entry manager (\<open>manager.py\<close>, \<open>monitoring.py\<close>, \<open>lifecycle.py\<close> and \<open>snapshot.py\<close> of
  \<open>trading/pending\<close>): entries that wait for a price, the index of their groups, the queue of fills
  and its worker, and the pending orders tracked at the broker. Each operation is one step; a
  pass of the monitor takes its snapshot and treats its entries in one step. An entry object lives
  in the table under its own key and nowhere else, so that a change of the object is a change of
  the table while the key is there. The calls of the expiry callback and of the lifecycle hooks are
  traces in the state; they are taken to return. Instants are microseconds, tickets are integers,
  and the threads, locks and logs are left out. A wait for room in the fill queue that the worker
  ends in time is the worker's step before the pass, so a full queue is one that stays full.
\<close>

section \<open>Data\<close>

record pending_entry =
  pe_signal :: signal_event
  pe_params :: trade_parameters
  pe_cost :: pydict
  pe_entry_low :: rat
  pe_entry_high :: rat
  pe_reference_price :: rat
  pe_created_at :: int
  pe_expires_at :: int
  pe_status :: string
  pe_zone_mode :: string
  pe_entry_key :: string
  pe_group_id :: string
  pe_member_id :: string
  pe_group_role :: string
  pe_best_price_seen :: "rat option"
  pe_checks_count :: int
  pe_fill_price :: "rat option"
  pe_cancel_reason :: string

abbreviation pe_signal_id :: "pending_entry \<Rightarrow> string" where
  "pe_signal_id e \<equiv> sg_signal_id (pe_signal e)"

definition effective_key :: "pending_entry \<Rightarrow> string" where
  "effective_key e = (if pe_entry_key e = [] then pe_signal_id e else pe_entry_key e)"

record fill_result =
  fr_signal :: signal_event
  fr_params :: trade_parameters
  fr_cost :: pydict
  fr_entry_key :: string
  fr_group_id :: string

text \<open>A tracked order. One restored from the store may have no expiry, has no order kind, and carries the
  columns of its group, which a freshly tracked one has in its metadata only; an empty text stands
  for a missing one.\<close>

record mt5_order =
  mo_ticket :: int
  mo_signal_id :: string
  mo_expires_at :: "int option"
  mo_direction :: string
  mo_symbol :: string
  mo_strategy :: string
  mo_timeframe :: string
  mo_confidence :: "rat option"
  mo_regime :: pyval
  mo_comment :: string
  mo_params :: "trade_parameters option"
  mo_order_kind :: string
  mo_entry_low :: "rat option"
  mo_entry_high :: "rat option"
  mo_trigger_price :: "rat option"
  mo_entry_price_requested :: "rat option"
  mo_stop_loss :: "rat option"
  mo_take_profit :: "rat option"
  mo_volume :: "rat option"
  mo_created_at :: "int option"
  mo_metadata :: pydict
  mo_exit_spec :: "pydict option"
  mo_strategy_category :: string
  mo_order_group_id :: string
  mo_group_member_id :: string
  mo_group_role :: string

record pending_stats =
  ps_total_submitted :: int
  ps_total_filled :: int
  ps_total_expired :: int
  ps_total_cancelled :: int
  ps_total_price_improvement :: rat
  ps_mt5_orders_placed :: int
  ps_mt5_orders_filled :: int
  ps_mt5_orders_expired :: int
  ps_mt5_orders_missing :: int

datatype lifecycle_hook =
    OnTracked mt5_order
  | OnFilled mt5_order pydict
  | OnExpired mt5_order string
  | OnCancelled mt5_order string
  | OnMissing mt5_order string

record pending_manager =
  pm_pending :: "(string \<times> pending_entry) list"
  pm_mt5_orders :: "(string \<times> mt5_order) list"
  pm_groups :: "(string \<times> string list) list"
  pm_fill_queue :: "fill_result list"
  pm_stats :: pending_stats
  pm_expired_calls :: "(string \<times> string) list"
  pm_hooks :: "lifecycle_hook list"

definition PendingEntryManager :: pending_manager where
  "PendingEntryManager = \<lparr>pm_pending = [], pm_mt5_orders = [], pm_groups = [], pm_fill_queue = [],
     pm_stats = \<lparr>ps_total_submitted = 0, ps_total_filled = 0, ps_total_expired = 0, ps_total_cancelled = 0,
       ps_total_price_improvement = 0, ps_mt5_orders_placed = 0, ps_mt5_orders_filled = 0, ps_mt5_orders_expired = 0,
       ps_mt5_orders_missing = 0\<rparr>, pm_expired_calls = [], pm_hooks = []\<rparr>"

definition fill_queue_maxsize :: nat where
  "fill_queue_maxsize = 128"

section \<open>The index of groups\<close>

definition group_keys :: "(string \<times> string list) list \<Rightarrow> string \<Rightarrow> string list" where
  "group_keys groups gid = (case map_of groups gid of None \<Rightarrow> [] | Some ks \<Rightarrow> ks)"

definition groups_add :: "string \<Rightarrow> string list \<Rightarrow> (string \<times> string list) list \<Rightarrow> (string \<times> string list) list" where
  "groups_add gid keys groups = AList.update gid (fold List.insert keys (group_keys groups gid)) groups"

definition groups_discard :: "string \<Rightarrow> string \<Rightarrow> (string \<times> string list) list \<Rightarrow> (string \<times> string list) list" where
  "groups_discard gid key groups =
    (if gid = [] then groups
     else case map_of groups gid of
       None \<Rightarrow> groups
     | Some ks \<Rightarrow> let ks' = removeAll key ks in if ks' = [] then AList.delete gid groups else AList.update gid ks' groups)"

section \<open>Submission and cancellation\<close>

definition update_stats :: "(pending_stats \<Rightarrow> pending_stats) \<Rightarrow> pending_manager \<Rightarrow> pending_manager" where
  "update_stats f m = m\<lparr>pm_stats := f (pm_stats m)\<rparr>"

definition call_expired :: "string \<Rightarrow> string \<Rightarrow> pending_manager \<Rightarrow> pending_manager" where
  "call_expired sid reason m = m\<lparr>pm_expired_calls := pm_expired_calls m @ [(sid, reason)]\<rparr>"

text \<open>What cancelling does to an entry that was found under a key: out of the table and of the index,
  counted.\<close>

definition drop_cancelled :: "string \<Rightarrow> pending_entry \<Rightarrow> pending_manager \<Rightarrow> pending_manager" where
  "drop_cancelled k e m =
    update_stats (\<lambda>s. s\<lparr>ps_total_cancelled := ps_total_cancelled s + 1\<rparr>)
      (m\<lparr>pm_pending := AList.delete k (pm_pending m),
         pm_groups := groups_discard (pe_group_id e) (pe_entry_key e) (pm_groups m)\<rparr>)"

text \<open>The entry \<open>cancel\<close> finds: under the key, or else the first of the signal with this id.\<close>

definition find_entry :: "string \<Rightarrow> (string \<times> pending_entry) list \<Rightarrow> (string \<times> pending_entry) option" where
  "find_entry key pending = (case map_of pending key of
      Some e \<Rightarrow> Some (key, e)
    | None \<Rightarrow> List.find (\<lambda>(_, e). pe_signal_id e = key) pending)"

definition cancel :: "string \<Rightarrow> string \<Rightarrow> pending_manager \<Rightarrow> bool \<times> pending_manager" where
  "cancel key reason m = (case find_entry key (pm_pending m) of
      None \<Rightarrow> (False, m)
    | Some (k, e) \<Rightarrow> (True, call_expired (pe_signal_id e) (''pending_cancelled:'' @ reason) (drop_cancelled k e m)))"

definition submit :: "pending_entry \<Rightarrow> pending_manager \<Rightarrow> pending_manager" where
  "submit e0 m =
    (let e = e0\<lparr>pe_entry_key := effective_key e0\<rparr>; key = pe_entry_key e;
         m1 = (if map_of (pm_pending m) key = None then m else snd (cancel key ''replaced_by_new_submit'' m))
     in update_stats (\<lambda>s. s\<lparr>ps_total_submitted := ps_total_submitted s + 1\<rparr>)
          (m1\<lparr>pm_pending := AList.update key e (pm_pending m1),
              pm_groups := (if pe_group_id e = [] then pm_groups m1 else groups_add (pe_group_id e) [key] (pm_groups m1))\<rparr>))"

definition submit_oco_group :: "pending_entry list \<Rightarrow> string \<Rightarrow> pending_manager \<Rightarrow> unit res \<times> pending_manager" where
  "submit_oco_group members gid m =
    (let keys = map effective_key members
     in if members = [] then (raise (ValueError ''OCO group must have at least 1 member''), m)
        else if \<not> distinct keys
        then (raise (ValueError (''OCO group has duplicate entry_keys: '' @ py_repr (VList (map VStr keys)))), m)
        else (ok (), fold (\<lambda>e. submit (e\<lparr>pe_group_id := (if pe_group_id e = [] then gid else pe_group_id e)\<rparr>)) members m))"

definition cancel_member :: "string \<Rightarrow> string option \<Rightarrow> string \<Rightarrow> int \<times> pending_manager \<Rightarrow> int \<times> pending_manager" where
  "cancel_member reason exclude_key k nm =
    (if exclude_key = Some k then nm
     else (fst nm + (if fst (cancel k reason (snd nm)) then 1 else 0), snd (cancel k reason (snd nm))))"

definition cancel_by_group :: "string \<Rightarrow> string \<Rightarrow> string option \<Rightarrow> pending_manager \<Rightarrow> int \<times> pending_manager" where
  "cancel_by_group gid reason exclude_key m = fold (cancel_member reason exclude_key) (group_keys (pm_groups m) gid) (0, m)"

definition restore_group_index :: "string \<Rightarrow> string list \<Rightarrow> pending_manager \<Rightarrow> pending_manager" where
  "restore_group_index gid entry_keys m =
    (let keys = filter (\<lambda>k. k \<noteq> []) entry_keys
     in if gid = [] \<or> keys = [] then m else m\<lparr>pm_groups := groups_add gid keys (pm_groups m)\<rparr>)"

section \<open>Orders at the broker\<close>

text \<open>\<open>for item in list(items or [])\<close>: the tickets of plain numbers and of rows.\<close>

definition ticket_of_item :: "pyval \<Rightarrow> int option" where
  "ticket_of_item item =
    (let candidate = (case item of VDict d \<Rightarrow> py_or (py_or (dget d ''ticket'') (dget d ''order'')) (dget d ''order_id'') | _ \<Rightarrow> item)
     in case py_int_of candidate of Inr n \<Rightarrow> if 0 < n then Some n else None | Inl _ \<Rightarrow> None)"

definition extract_tickets :: "pyval \<Rightarrow> int list res" where
  "extract_tickets items = rbind (list_or_empty items) (\<lambda>xs. ok (List.map_filter ticket_of_item xs))"

definition ticket_in_result :: "pyval \<Rightarrow> int \<Rightarrow> bool res" where
  "ticket_in_result result ticket = (case result of
      VDict d \<Rightarrow>
        rbind (extract_tickets (dget d ''canceled'')) (\<lambda>s1.
          rbind (extract_tickets (dget d ''cancelled'')) (\<lambda>s2.
            rbind (extract_tickets (dget d ''failed'')) (\<lambda>failed.
              if ticket \<in> set (s1 @ s2) then ok True
              else if failed \<noteq> [] then ok (ticket \<notin> set failed)
              else ok (truthy result))))
    | _ \<Rightarrow> ok (truthy result))"

text \<open>The broker cancels orders by ticket; it answers with a value or raises, and acts on a world of
  its own.\<close>

type_synonym 'b cancel_port = "int list \<Rightarrow> 'b \<Rightarrow> pyval res \<times> 'b"

definition try_cancel :: "'b cancel_port \<Rightarrow> int \<Rightarrow> 'b \<Rightarrow> bool \<times> 'b" where
  "try_cancel port ticket b = (case port [ticket] b of
      (Inl _, b') \<Rightarrow> (False, b')
    | (Inr result, b') \<Rightarrow> (ticket_in_result result ticket = ok True, b'))"

definition call_hook :: "lifecycle_hook \<Rightarrow> pending_manager \<Rightarrow> pending_manager" where
  "call_hook h m = m\<lparr>pm_hooks := pm_hooks m @ [h]\<rparr>"

definition restore_mt5_order :: "mt5_order \<Rightarrow> pending_manager \<Rightarrow> pending_manager" where
  "restore_mt5_order info m = (if strip (mo_signal_id info) = [] then m
     else m\<lparr>pm_mt5_orders := AList.update (strip (mo_signal_id info)) info (pm_mt5_orders m)\<rparr>)"

definition track_mt5_order :: "mt5_order \<Rightarrow> pending_manager \<Rightarrow> pending_manager" where
  "track_mt5_order info m =
    (if map_of (pm_mt5_orders m) (mo_signal_id info) \<noteq> None then m
     else call_hook (OnTracked info)
       (update_stats (\<lambda>s. s\<lparr>ps_mt5_orders_placed := ps_mt5_orders_placed s + 1\<rparr>)
         (m\<lparr>pm_mt5_orders := AList.update (mo_signal_id info) info (pm_mt5_orders m)\<rparr>)))"

text \<open>Is the order under the key still the one that was looked at?\<close>

definition same_order :: "string \<Rightarrow> mt5_order \<Rightarrow> pending_manager \<Rightarrow> bool" where
  "same_order sid info m = (case map_of (pm_mt5_orders m) sid of None \<Rightarrow> False | Some current \<Rightarrow> mo_ticket current = mo_ticket info)"

definition forget_order :: "string \<Rightarrow> pending_manager \<Rightarrow> pending_manager" where
  "forget_order sid m = m\<lparr>pm_mt5_orders := AList.delete sid (pm_mt5_orders m)\<rparr>"

text \<open>The inspector's answer for an order; what it cannot tell is pending.\<close>

definition inspected_status :: "pydict \<Rightarrow> string" where
  "inspected_status state = lower (strip (py_str (py_or (dget state ''status'') (VStr ''pending''))))"

definition check_order_state :: "(mt5_order \<Rightarrow> pydict res) \<Rightarrow> string \<times> mt5_order \<Rightarrow> pending_manager \<Rightarrow> pending_manager" where
  "check_order_state inspect so m = (case so of (sid, info) \<Rightarrow>
    (case inspect info of
       Inl _ \<Rightarrow> m
     | Inr state0 \<Rightarrow>
       let state = (if state0 = [] then [(''status'', VStr ''pending'')] else state0); status = inspected_status state
       in if status \<notin> {''filled'', ''missing''} \<or> \<not> same_order sid info m then m
          else if status = ''filled''
          then call_hook (OnFilled info state)
            (update_stats (\<lambda>s. s\<lparr>ps_mt5_orders_filled := ps_mt5_orders_filled s + 1\<rparr>) (forget_order sid m))
          else call_hook (OnMissing info (py_str (py_or (dget state ''reason'') (VStr ''missing_without_fill''))))
            (update_stats (\<lambda>s. s\<lparr>ps_mt5_orders_missing := ps_mt5_orders_missing s + 1\<rparr>) (forget_order sid m))))"

definition check_mt5_order_state :: "(mt5_order \<Rightarrow> pydict res) option \<Rightarrow> pending_manager \<Rightarrow> pending_manager" where
  "check_mt5_order_state inspect m = (case inspect of
      None \<Rightarrow> m
    | Some f \<Rightarrow> fold (check_order_state f) (pm_mt5_orders m) m)"

definition order_expired :: "int \<Rightarrow> mt5_order \<Rightarrow> bool" where
  "order_expired now info = (case mo_expires_at info of None \<Rightarrow> False | Some t \<Rightarrow> t \<le> now)"

definition expire_order :: "'b cancel_port \<Rightarrow> string \<times> mt5_order \<Rightarrow> pending_manager \<times> 'b \<Rightarrow> pending_manager \<times> 'b" where
  "expire_order port so mb = (case (so, mb) of ((sid, info), (m, b)) \<Rightarrow>
    (case try_cancel port (mo_ticket info) b of
       (False, b') \<Rightarrow> (m, b')
     | (True, b') \<Rightarrow>
       let m1 = (if same_order sid info m
             then update_stats (\<lambda>s. s\<lparr>ps_mt5_orders_expired := ps_mt5_orders_expired s + 1\<rparr>) (forget_order sid m) else m)
       in (call_expired sid ''mt5_order_expired'' (call_hook (OnExpired info ''mt5_order_expired'') m1), b')))"

text \<open>The expiry check compares every order with the clock first: one without expiry ends the check
  with a type error.\<close>

definition check_mt5_order_expiry :: "'b cancel_port \<Rightarrow> int \<Rightarrow> pending_manager \<times> 'b \<Rightarrow> unit res \<times> pending_manager \<times> 'b" where
  "check_mt5_order_expiry port now mb =
    (let orders = pm_mt5_orders (fst mb)
     in if list_ex (\<lambda>(_, info). mo_expires_at info = None) orders
        then (raise (TypeError ''>= not supported between instances of datetime and NoneType''), mb)
        else (ok (), fold (expire_order port) (filter (\<lambda>(_, info). order_expired now info) orders) mb))"

definition hits :: "string \<Rightarrow> string option \<Rightarrow> string \<Rightarrow> string \<Rightarrow> bool" where
  "hits symbol exclude_direction s direction = (s = symbol \<and> exclude_direction \<noteq> Some direction)"

definition cancel_order :: "'b cancel_port \<Rightarrow> string \<Rightarrow> string \<times> mt5_order \<Rightarrow> int \<times> pending_manager \<times> 'b \<Rightarrow> int \<times> pending_manager \<times> 'b" where
  "cancel_order port reason so nmb = (case (so, nmb) of ((sid, info), (n, m, b)) \<Rightarrow>
    (case try_cancel port (mo_ticket info) b of
       (False, b') \<Rightarrow> (n, m, b')
     | (True, b') \<Rightarrow> (n + 1, call_hook (OnCancelled info reason) (if same_order sid info m then forget_order sid m else m), b')))"

definition cancel_mt5_orders_by_symbol :: "'b cancel_port \<Rightarrow> string \<Rightarrow> string \<Rightarrow> string option \<Rightarrow> pending_manager \<times> 'b \<Rightarrow>
    int \<times> pending_manager \<times> 'b" where
  "cancel_mt5_orders_by_symbol port symbol reason exclude_direction mb =
    fold (cancel_order port reason)
      (filter (\<lambda>(_, info). hits symbol exclude_direction (mo_symbol info) (mo_direction info)) (pm_mt5_orders (fst mb))) (0, mb)"

section \<open>Cancellation by symbol\<close>

text \<open>The entries that match, then the whole groups of those.\<close>

definition primary_keys :: "string \<Rightarrow> string option \<Rightarrow> pending_manager \<Rightarrow> string list" where
  "primary_keys symbol exclude_direction m =
    map fst (filter (\<lambda>(_, e). hits symbol exclude_direction (sg_symbol (pe_signal e)) (sg_direction (pe_signal e)) \<and> pe_status e = ''pending'')
      (pm_pending m))"

definition keys_to_cancel :: "string list \<Rightarrow> pending_manager \<Rightarrow> string list" where
  "keys_to_cancel primary m =
    fold (\<lambda>k acc. case map_of (pm_pending m) k of
        None \<Rightarrow> acc
      | Some e \<Rightarrow> if pe_group_id e = [] then acc else fold List.insert (group_keys (pm_groups m) (pe_group_id e)) acc)
      primary primary"

definition cancel_pending_key :: "string \<Rightarrow> string list \<times> pending_manager \<Rightarrow> string list \<times> pending_manager" where
  "cancel_pending_key k sm = (case sm of (sids, m) \<Rightarrow> (case map_of (pm_pending m) k of
      None \<Rightarrow> (sids, m)
    | Some e \<Rightarrow> (sids @ [pe_signal_id e], drop_cancelled k e m)))"

definition cancel_by_symbol :: "'b cancel_port \<Rightarrow> string \<Rightarrow> string \<Rightarrow> string option \<Rightarrow> pending_manager \<times> 'b \<Rightarrow> int \<times> pending_manager \<times> 'b" where
  "cancel_by_symbol port symbol reason exclude_direction mb = (case mb of (m, b) \<Rightarrow>
    (let (sids, m1) = fold cancel_pending_key (keys_to_cancel (primary_keys symbol exclude_direction m) m) ([], m);
         m2 = fold (\<lambda>sid. call_expired sid (''pending_cancelled:'' @ reason)) sids m1;
         (n, mb') = cancel_mt5_orders_by_symbol port symbol reason exclude_direction (m2, b)
     in (int (length sids) + n, mb')))"

section \<open>Monitoring\<close>

record monitor_config =
  mc_max_spread_points :: rat
  mc_timeout_fill_tolerance_atr :: rat

text \<open>The market: quotes as the dictionary of their fields, and the point of a symbol.\<close>

record quote_source =
  qs_float :: "string \<Rightarrow> rat option"
  qs_get_quote :: "string \<Rightarrow> pydict option"
  qs_symbol_point :: "string \<Rightarrow> rat option res"

definition extract_quote_prices :: "(string \<Rightarrow> rat option) \<Rightarrow> pydict \<Rightarrow> (rat \<times> rat) option" where
  "extract_quote_prices pf q = (case (py_float_of pf (dget q ''bid''), py_float_of pf (dget q ''ask'')) of
      (Inr bid, Inr ask) \<Rightarrow> Some (bid, ask) | _ \<Rightarrow> None)"

definition check_side :: "pending_entry \<Rightarrow> rat \<times> rat \<Rightarrow> rat" where
  "check_side e prices = (if sg_direction (pe_signal e) = ''buy'' then snd prices else fst prices)"

definition get_spread_points :: "quote_source \<Rightarrow> rat \<times> rat \<Rightarrow> string \<Rightarrow> rat option" where
  "get_spread_points qs prices symbol = (case qs_symbol_point qs symbol of
      Inr (Some point) \<Rightarrow> if point \<le> 0 then None else Some (fl (\<bar>fl (snd prices - fst prices)\<bar> / point))
    | _ \<Rightarrow> None)"

text \<open>A change of the entry object shows in the table while its key is there.\<close>

definition write_back :: "pending_entry \<Rightarrow> pending_manager \<Rightarrow> pending_manager" where
  "write_back e m = (if map_of (pm_pending m) (effective_key e) = None then m
     else m\<lparr>pm_pending := AList.update (effective_key e) e (pm_pending m)\<rparr>)"

definition shifted_params :: "trade_parameters \<Rightarrow> rat \<Rightarrow> trade_parameters" where
  "shifted_params p fill_price =
    (let shift = fl (fill_price - tp_entry_price p)
     in p\<lparr>tp_entry_price := fill_price, tp_stop_loss := pyround (fl (tp_stop_loss p + shift)) 2,
          tp_take_profit := pyround (fl (tp_take_profit p + shift)) 2\<rparr>)"

definition fill_result_of :: "pending_entry \<Rightarrow> rat \<Rightarrow> fill_result" where
  "fill_result_of e fill_price = \<lparr>fr_signal = pe_signal e, fr_params = shifted_params (pe_params e) fill_price,
     fr_cost = pe_cost e, fr_entry_key = effective_key e, fr_group_id = pe_group_id e\<rparr>"

definition price_improvement :: "pending_entry \<Rightarrow> rat \<Rightarrow> rat" where
  "price_improvement e fill_price = (if sg_direction (pe_signal e) = ''buy''
     then fl (pe_reference_price e - fill_price) else fl (fill_price - pe_reference_price e))"

definition fill_entry :: "pending_entry \<Rightarrow> rat \<Rightarrow> pending_manager \<Rightarrow> pending_manager" where
  "fill_entry e fill_price m =
    (let key = effective_key e
     in if map_of (pm_pending m) key = None then m
        else let m1 = update_stats (\<lambda>s. s\<lparr>ps_total_filled := ps_total_filled s + 1,
                 ps_total_price_improvement := fl (ps_total_price_improvement s + price_improvement e fill_price)\<rparr>)
               (m\<lparr>pm_pending := AList.delete key (pm_pending m),
                  pm_groups := groups_discard (pe_group_id e) key (pm_groups m)\<rparr>)
             in if length (pm_fill_queue m1) < fill_queue_maxsize
                then m1\<lparr>pm_fill_queue := pm_fill_queue m1 @ [fill_result_of e fill_price]\<rparr>
                else update_stats (\<lambda>s. s\<lparr>ps_total_expired := ps_total_expired s + 1\<rparr>)
                  (m1\<lparr>pm_pending := AList.delete (pe_signal_id e) (pm_pending m1)\<rparr>))"

definition check_price :: "monitor_config \<Rightarrow> quote_source \<Rightarrow> pending_entry \<Rightarrow> pydict \<Rightarrow> pending_manager \<Rightarrow> pending_manager" where
  "check_price mc qs e q m = (case extract_quote_prices (qs_float qs) q of
      None \<Rightarrow> m
    | Some prices \<Rightarrow>
      let price = check_side e prices;
          best = (case pe_best_price_seen e of None \<Rightarrow> price
            | Some p \<Rightarrow> if sg_direction (pe_signal e) = ''buy'' then min p price else max p price);
          e1 = e\<lparr>pe_checks_count := pe_checks_count e + 1, pe_best_price_seen := Some best\<rparr>
      in if map_of (pm_pending m) (pe_signal_id e) = None \<or> pe_status e \<noteq> ''pending'' then m
         else if \<not> (pe_entry_low e \<le> price \<and> price \<le> pe_entry_high e) then write_back e1 m
         else if 0 < mc_max_spread_points mc \<and> (case get_spread_points qs prices (sg_symbol (pe_signal e)) of
             None \<Rightarrow> False | Some pts \<Rightarrow> mc_max_spread_points mc < pts) then write_back e1 m
         else fill_entry e1 price (write_back e1 m))"

text \<open>The price at which an entry that ran out of time is filled after all: close enough to its
  reference price.\<close>

definition tolerated_price :: "monitor_config \<Rightarrow> quote_source \<Rightarrow> pending_entry \<Rightarrow> rat option" where
  "tolerated_price mc qs e =
    (let ratio = mc_timeout_fill_tolerance_atr mc
     in if \<not> (0 < ratio \<and> 0 < tp_atr_value (pe_params e)) then None
        else case qs_get_quote qs (sg_symbol (pe_signal e)) of
          None \<Rightarrow> None
        | Some q \<Rightarrow> (case extract_quote_prices (qs_float qs) q of
            None \<Rightarrow> None
          | Some prices \<Rightarrow> let price = check_side e prices
              in if \<bar>fl (price - pe_reference_price e)\<bar> \<le> fl (tp_atr_value (pe_params e) * ratio) then Some price else None))"

definition expire_entry :: "monitor_config \<Rightarrow> quote_source \<Rightarrow> pending_entry \<Rightarrow> pending_manager \<Rightarrow> pending_manager" where
  "expire_entry mc qs e m = (case tolerated_price mc qs e of
      Some price \<Rightarrow> fill_entry e price m
    | None \<Rightarrow>
      if map_of (pm_pending m) (pe_signal_id e) = None then m
      else call_expired (pe_signal_id e) ''pending_expired''
        (update_stats (\<lambda>s. s\<lparr>ps_total_expired := ps_total_expired s + 1\<rparr>)
          (write_back (e\<lparr>pe_status := ''expired'', pe_cancel_reason := ''timeout''\<rparr>)
            (m\<lparr>pm_pending := AList.delete (pe_signal_id e) (pm_pending m)\<rparr>))))"

definition check_entry :: "int \<Rightarrow> monitor_config \<Rightarrow> quote_source \<Rightarrow> pending_entry \<Rightarrow> pending_manager \<Rightarrow> pending_manager" where
  "check_entry now mc qs e m =
    (if pe_expires_at e \<le> now then expire_entry mc qs e m
     else case qs_get_quote qs (sg_symbol (pe_signal e)) of None \<Rightarrow> m | Some q \<Rightarrow> check_price mc qs e q m)"

definition check_all_entries :: "int \<Rightarrow> monitor_config \<Rightarrow> quote_source \<Rightarrow> pending_manager \<Rightarrow> pending_manager" where
  "check_all_entries now mc qs m =
    fold (check_entry now mc qs) (filter (\<lambda>e. pe_status e = ''pending'') (map snd (pm_pending m))) m"

section \<open>The fill worker\<close>

text \<open>The port of the broker has no cancellation by group, and the call of it that fails is passed
  over: what is left of the handler is the cancellation in the table.\<close>

definition on_member_filled_handler :: "string \<Rightarrow> string \<Rightarrow> pending_manager \<Rightarrow> pending_manager" where
  "on_member_filled_handler gid key m = snd (cancel_by_group gid ''oco_sibling_filled'' (Some key) m)"

text \<open>One turn of the worker: the execution acts on the world and succeeds or raises.\<close>

definition fill_worker_step :: "(fill_result \<Rightarrow> 'b \<Rightarrow> bool \<times> 'b) \<Rightarrow> pending_manager \<times> 'b \<Rightarrow> pending_manager \<times> 'b" where
  "fill_worker_step execute mb = (case mb of (m, b) \<Rightarrow> (case pm_fill_queue m of
      [] \<Rightarrow> (m, b)
    | r # rest \<Rightarrow>
      let (success, b') = execute r b; m1 = m\<lparr>pm_fill_queue := rest\<rparr>
      in (if success \<and> fr_group_id r \<noteq> [] then on_member_filled_handler (fr_group_id r) (fr_entry_key r) m1 else m1, b')))"

definition clear_fill_queue :: "pending_manager \<Rightarrow> pending_manager" where
  "clear_fill_queue m = m\<lparr>pm_fill_queue := []\<rparr>"

definition shutdown :: "pending_manager \<Rightarrow> pending_manager" where
  "shutdown m = (clear_fill_queue m)\<lparr>pm_pending := []\<rparr>"

text \<open>One turn of the monitor: an error ends the turn, with what was done before it.\<close>

definition monitor_turn :: "'b cancel_port \<Rightarrow> (mt5_order \<Rightarrow> pydict res) option \<Rightarrow> int \<Rightarrow> monitor_config \<Rightarrow> quote_source \<Rightarrow>
    pending_manager \<times> 'b \<Rightarrow> pending_manager \<times> 'b" where
  "monitor_turn port inspect now mc qs mb = (case mb of (m, b) \<Rightarrow>
    snd (check_mt5_order_expiry port now (check_mt5_order_state inspect (check_all_entries now mc qs m), b)))"

section \<open>Snapshots\<close>

definition active_count :: "pending_manager \<Rightarrow> int" where
  "active_count m = int (length (filter (\<lambda>(_, e). pe_status e = ''pending'') (pm_pending m)))"

definition pending_context :: "pending_entry \<Rightarrow> pydict" where
  "pending_context e = (let s = pe_signal e in
    [(''signal_id'', VStr (sg_signal_id s)), (''symbol'', VStr (sg_symbol s)), (''timeframe'', VStr (sg_timeframe s)),
     (''strategy'', VStr (sg_strategy s)), (''direction'', VStr (sg_direction s)), (''source'', VStr ''pending_entry''),
     (''status'', VStr (pe_status e))])"

definition mt5_context :: "mt5_order \<Rightarrow> pydict" where
  "mt5_context o1 =
    [(''signal_id'', VStr (mo_signal_id o1)), (''symbol'', VStr (mo_symbol o1)), (''timeframe'', VStr (mo_timeframe o1)),
     (''strategy'', VStr (mo_strategy o1)), (''direction'', VStr (mo_direction o1)), (''source'', VStr ''mt5_order''),
     (''status'', VStr ''pending''), (''ticket'', VInt (mo_ticket o1))]"

definition active_execution_contexts :: "pending_manager \<Rightarrow> pydict list" where
  "active_execution_contexts m =
    map pending_context (filter (\<lambda>e. pe_status e = ''pending'') (map snd (pm_pending m))) @
    map (\<lambda>(_, info). mt5_context info) (pm_mt5_orders m)"

section \<open>The operations of a run\<close>

record 'b pending_env =
  pn_port :: "'b cancel_port"
  pn_inspect :: "(mt5_order \<Rightarrow> pydict res) option"
  pn_execute :: "fill_result \<Rightarrow> 'b \<Rightarrow> bool \<times> 'b"
  pn_monitor :: monitor_config

datatype pending_event =
    Submit pending_entry
  | SubmitGroup "pending_entry list" string
  | Cancel string string
  | CancelGroup string string "string option"
  | CancelSymbol string string "string option"
  | RestoreIndex string "string list"
  | RestoreOrder mt5_order
  | TrackOrder mt5_order
  | MonitorTurn int quote_source
  | WorkerTurn
  | Shutdown

fun pending_step :: "'b pending_env \<Rightarrow> pending_event \<Rightarrow> pending_manager \<times> 'b \<Rightarrow> pending_manager \<times> 'b" where
  "pending_step pn (Submit e) (m, b) = (submit e m, b)"
| "pending_step pn (SubmitGroup es gid) (m, b) = (snd (submit_oco_group es gid m), b)"
| "pending_step pn (Cancel key reason) (m, b) = (snd (cancel key reason m), b)"
| "pending_step pn (CancelGroup gid reason exclude) (m, b) = (snd (cancel_by_group gid reason exclude m), b)"
| "pending_step pn (CancelSymbol symbol reason exclude) (m, b) = snd (cancel_by_symbol (pn_port pn) symbol reason exclude (m, b))"
| "pending_step pn (RestoreIndex gid keys) (m, b) = (restore_group_index gid keys m, b)"
| "pending_step pn (RestoreOrder info) (m, b) = (restore_mt5_order info m, b)"
| "pending_step pn (TrackOrder info) (m, b) = (track_mt5_order info m, b)"
| "pending_step pn (MonitorTurn now qs) (m, b) = monitor_turn (pn_port pn) (pn_inspect pn) now (pn_monitor pn) qs (m, b)"
| "pending_step pn WorkerTurn (m, b) = fill_worker_step (pn_execute pn) (m, b)"
| "pending_step pn Shutdown (m, b) = (shutdown m, b)"

section \<open>What the small steps leave alone\<close>

lemma update_stats_fields [simp]:
  "pm_pending (update_stats f m) = pm_pending m" "pm_groups (update_stats f m) = pm_groups m"
  "pm_mt5_orders (update_stats f m) = pm_mt5_orders m" "pm_fill_queue (update_stats f m) = pm_fill_queue m"
  "pm_hooks (update_stats f m) = pm_hooks m" "pm_stats (update_stats f m) = f (pm_stats m)"
  by (simp_all add: update_stats_def)

lemma call_expired_fields [simp]:
  "pm_pending (call_expired s r m) = pm_pending m" "pm_groups (call_expired s r m) = pm_groups m"
  "pm_mt5_orders (call_expired s r m) = pm_mt5_orders m" "pm_fill_queue (call_expired s r m) = pm_fill_queue m"
  "pm_hooks (call_expired s r m) = pm_hooks m" "pm_stats (call_expired s r m) = pm_stats m"
  by (simp_all add: call_expired_def)

lemma call_hook_fields [simp]:
  "pm_pending (call_hook h m) = pm_pending m" "pm_groups (call_hook h m) = pm_groups m"
  "pm_mt5_orders (call_hook h m) = pm_mt5_orders m" "pm_fill_queue (call_hook h m) = pm_fill_queue m"
  "pm_hooks (call_hook h m) = pm_hooks m @ [h]" "pm_stats (call_hook h m) = pm_stats m"
  by (simp_all add: call_hook_def)

lemma forget_order_fields [simp]:
  "pm_pending (forget_order sid m) = pm_pending m" "pm_groups (forget_order sid m) = pm_groups m"
  "pm_mt5_orders (forget_order sid m) = AList.delete sid (pm_mt5_orders m)"
  "pm_fill_queue (forget_order sid m) = pm_fill_queue m" "pm_hooks (forget_order sid m) = pm_hooks m"
  "pm_stats (forget_order sid m) = pm_stats m"
  by (simp_all add: forget_order_def)

lemma drop_cancelled_fields [simp]:
  "pm_pending (drop_cancelled k e m) = AList.delete k (pm_pending m)"
  "pm_groups (drop_cancelled k e m) = groups_discard (pe_group_id e) (pe_entry_key e) (pm_groups m)"
  "pm_mt5_orders (drop_cancelled k e m) = pm_mt5_orders m" "pm_fill_queue (drop_cancelled k e m) = pm_fill_queue m"
  "pm_hooks (drop_cancelled k e m) = pm_hooks m"
  by (simp_all add: drop_cancelled_def)

end
