(* ===== verification/Pending_Safety.thy ===== *)
theory Pending_Safety
  imports Pending_Manager
begin

text \<open>
  What the pending entry manager guarantees: the table and the index of groups agree in every
  run, one filled member of a group takes its siblings out, a cancellation by symbol leaves
  nothing behind, no tracked order disappears without a report, and what the manager and the
  executor do together.
\<close>

section \<open>The table and its index\<close>

lemma set_alist_update:
  "distinct (map fst al) \<Longrightarrow> set (AList.update k v al) = insert (k, v) {p \<in> set al. fst p \<noteq> k}"
  by (induction al) (auto simp: image_iff)

lemma set_fold_insert [simp]: "set (fold List.insert ks xs) = set ks \<union> set xs"
  by (induction ks arbitrary: xs) auto

lemma set_group_keys_add [simp]:
  "set (group_keys (groups_add g ks gs) g') = (if g' = g then set ks \<union> set (group_keys gs g) else set (group_keys gs g'))"
  by (auto simp: groups_add_def group_keys_def update_conv' split: option.splits)

lemma set_group_keys_discard [simp]:
  "set (group_keys (groups_discard g k gs) g') =
    (if g \<noteq> [] \<and> g' = g then set (group_keys gs g) - {k} else set (group_keys gs g'))"
proof -
  have "removeAll k ks = [] \<longleftrightarrow> set ks - {k} = {}" for ks :: "string list" by (metis set_empty set_removeAll)
  then show ?thesis
    by (auto simp: groups_discard_def group_keys_def update_conv' delete_conv' Let_def split: option.splits)
qed

lemma set_delete: "set (AList.delete k xs) = {p \<in> set xs. fst p \<noteq> k}"
  by (auto simp: AList.delete_eq)

text \<open>Every entry is in the table under its own key and, when it has a group, in the index of the
  group. The second form names the group of each key, which a pass over a snapshot does not
  change.\<close>

definition pending_ok :: "pending_manager \<Rightarrow> bool" where
  "pending_ok m \<longleftrightarrow> distinct (map fst (pm_pending m)) \<and>
    (\<forall>(k, e) \<in> set (pm_pending m). pe_entry_key e = k \<and> effective_key e = k \<and>
      (pe_group_id e \<noteq> [] \<longrightarrow> k \<in> set (group_keys (pm_groups m) (pe_group_id e))))"

definition table_ok :: "(string \<Rightarrow> string) \<Rightarrow> pending_manager \<Rightarrow> bool" where
  "table_ok G m \<longleftrightarrow> distinct (map fst (pm_pending m)) \<and>
    (\<forall>(k, e) \<in> set (pm_pending m). pe_entry_key e = k \<and> effective_key e = k \<and> pe_group_id e = G k \<and>
      (G k \<noteq> [] \<longrightarrow> k \<in> set (group_keys (pm_groups m) (G k))))"

lemma pending_ok_iff: "pending_ok m \<longleftrightarrow> (\<exists>G. table_ok G m)"
proof
  assume ok: "pending_ok m"
  have "map_of (pm_pending m) k = Some e" if "(k, e) \<in> set (pm_pending m)" for k e
    using ok that by (auto simp: pending_ok_def)
  then have "table_ok (\<lambda>k. case map_of (pm_pending m) k of None \<Rightarrow> [] | Some e \<Rightarrow> pe_group_id e) m"
    using ok by (fastforce simp: pending_ok_def table_ok_def)
  then show "\<exists>G. table_ok G m" by blast
next
  assume "\<exists>G. table_ok G m"
  then show "pending_ok m" by (fastforce simp: pending_ok_def table_ok_def)
qed

lemma table_ok_entry:
  assumes "table_ok G m" and "map_of (pm_pending m) k = Some e"
  shows "pe_entry_key e = k" "effective_key e = k" "pe_group_id e = G k"
  using assms map_of_SomeD [OF assms(2)] by (auto simp: table_ok_def)

lemma table_ok_same: "table_ok G m \<Longrightarrow> pm_pending m' = pm_pending m \<Longrightarrow> pm_groups m' = pm_groups m \<Longrightarrow> table_ok G m'"
  by (simp add: table_ok_def)

lemma table_ok_restrict:
  assumes "table_ok G m" and "pm_pending m' = AList.delete k (pm_pending m)"
    and "pm_groups m' = groups_discard g k (pm_groups m) \<or> pm_groups m' = pm_groups m"
  shows "table_ok G m'"
  using assms by (auto simp: table_ok_def set_delete distinct_delete split: prod.splits)

lemma drop_cancelled_ok:
  assumes "table_ok G m" and "map_of (pm_pending m) k = Some e"
  shows "table_ok G (drop_cancelled k e m)"
proof (rule table_ok_restrict [OF assms(1)])
  show "pm_groups (drop_cancelled k e m) = groups_discard (pe_group_id e) k (pm_groups m) \<or> pm_groups (drop_cancelled k e m) = pm_groups m"
    using table_ok_entry(1) [OF assms] by simp
qed simp

lemma find_entry_SomeD:
  assumes "table_ok G m" and "find_entry key (pm_pending m) = Some (k, e)"
  shows "map_of (pm_pending m) k = Some e"
proof (cases "map_of (pm_pending m) key")
  case None
  with assms(2) have "(k, e) \<in> set (pm_pending m)"
    by (auto simp: find_entry_def find_Some_iff dest!: nth_mem)
  with assms(1) show ?thesis by (simp add: table_ok_def)
qed (use assms(2) in \<open>auto simp: find_entry_def\<close>)

lemma cancel_ok:
  assumes "table_ok G m"
  shows "table_ok G (snd (cancel key reason m))"
proof (cases "find_entry key (pm_pending m)")
  case (Some p)
  obtain k e where p: "p = (k, e)" by fastforce
  have "map_of (pm_pending m) k = Some e" by (rule find_entry_SomeD [OF assms Some [unfolded p]])
  then have "table_ok G (drop_cancelled k e m)" by (rule drop_cancelled_ok [OF assms])
  then show ?thesis by (rule table_ok_same) (simp_all add: cancel_def Some p)
qed (use assms in \<open>simp add: cancel_def\<close>)

text \<open>Cancelling takes its key out of the table, and only takes entries out.\<close>

lemma cancel_shrinks:
  "set (pm_pending (snd (cancel key reason m))) \<subseteq> set (pm_pending m)"
  "key \<notin> fst ` set (pm_pending (snd (cancel key reason m)))"
  by (auto simp: cancel_def set_delete find_entry_def split: option.splits prod.splits dest!: map_of_SomeD)
    (metis fst_conv image_eqI map_of_eq_None_iff)+

lemma submit_ok:
  assumes "pending_ok m"
  shows "pending_ok (submit e0 m)"
proof -
  define e where "e = e0\<lparr>pe_entry_key := effective_key e0\<rparr>"
  define m1 where "m1 = (if map_of (pm_pending m) (pe_entry_key e) = None then m
    else snd (cancel (pe_entry_key e) ''replaced_by_new_submit'' m))"
  from assms obtain G where "table_ok G m" by (auto simp: pending_ok_iff)
  then have m1: "table_ok G m1" by (simp add: m1_def cancel_ok)
  have key: "pe_entry_key e = effective_key e" by (simp add: e_def effective_key_def)
  have "pm_pending (submit e0 m) = AList.update (pe_entry_key e) e (pm_pending m1)"
    and "pm_groups (submit e0 m) = (if pe_group_id e = [] then pm_groups m1 else groups_add (pe_group_id e) [pe_entry_key e] (pm_groups m1))"
    by (simp_all add: submit_def Let_def e_def m1_def)
  then show ?thesis using m1 key
    by (fastforce simp: pending_ok_def table_ok_def set_alist_update distinct_update)
qed

lemma fold_invariant:
  assumes "P s" and "\<And>x s. x \<in> set xs \<Longrightarrow> P s \<Longrightarrow> P (f x s)"
  shows "P (fold f xs s)"
  using assms by (induction xs arbitrary: s) simp_all

lemma submit_oco_group_ok:
  assumes "pending_ok m"
  shows "pending_ok (snd (submit_oco_group es gid m))"
proof -
  have "pending_ok (fold (\<lambda>e. submit (e\<lparr>pe_group_id := (if pe_group_id e = [] then gid else pe_group_id e)\<rparr>)) es m)"
    by (rule fold_invariant) (rule assms submit_ok | assumption)+
  with assms show ?thesis unfolding submit_oco_group_def Let_def by simp
qed

lemma snd_cancel_member:
  "snd (cancel_member reason exclude k nm) = (if exclude = Some k then snd nm else snd (cancel k reason (snd nm)))"
  by (simp add: cancel_member_def)

lemma cancel_members_ok: "table_ok G (snd nm) \<Longrightarrow> table_ok G (snd (fold (cancel_member reason exclude) keys nm))"
  by (rule fold_invariant) (simp_all add: snd_cancel_member cancel_ok)

lemma cancel_members_shrinks:
  "set (pm_pending (snd (fold (cancel_member reason exclude) keys nm))) \<subseteq> set (pm_pending (snd nm))"
  by (rule fold_invariant [where P = "\<lambda>nm'. set (pm_pending (snd nm')) \<subseteq> set (pm_pending (snd nm))"])
    (auto simp: snd_cancel_member dest: subsetD [OF cancel_shrinks(1)])

lemma cancel_members_gone:
  assumes "k \<in> set keys" and "exclude \<noteq> Some k"
  shows "k \<notin> fst ` set (pm_pending (snd (fold (cancel_member reason exclude) keys nm)))"
  using assms(1)
proof (induction keys arbitrary: nm)
  case (Cons k' keys)
  show ?case
  proof (cases "k = k'")
    case True
    with assms(2) have "k \<notin> fst ` set (pm_pending (snd (cancel_member reason exclude k' nm)))"
      by (simp add: snd_cancel_member cancel_shrinks(2))
    then show ?thesis using cancel_members_shrinks [of reason exclude keys "cancel_member reason exclude k' nm"]
      by (metis fold_simps(2) image_mono subsetD)
  next
    case False
    with Cons show ?thesis by simp
  qed
qed simp

lemma drop_key_ok: "table_ok G (snd sm) \<Longrightarrow> table_ok G (snd (cancel_pending_key k sm))"
  by (auto simp: cancel_pending_key_def split: prod.splits option.splits intro: drop_cancelled_ok)

lemma call_expired_ok: "table_ok G m \<Longrightarrow> table_ok G (fold (\<lambda>sid. call_expired sid reason) sids m)"
  by (rule fold_invariant) (auto intro: table_ok_same)

lemma fold_call_expired [simp]:
  "pm_pending (fold (\<lambda>sid. call_expired sid reason) sids m) = pm_pending m"
  "pm_groups (fold (\<lambda>sid. call_expired sid reason) sids m) = pm_groups m"
  "pm_mt5_orders (fold (\<lambda>sid. call_expired sid reason) sids m) = pm_mt5_orders m"
  "pm_hooks (fold (\<lambda>sid. call_expired sid reason) sids m) = pm_hooks m"
  "pm_stats (fold (\<lambda>sid. call_expired sid reason) sids m) = pm_stats m"
  "pm_fill_queue (fold (\<lambda>sid. call_expired sid reason) sids m) = pm_fill_queue m"
  by (induction sids arbitrary: m) simp_all

text \<open>What the work on the broker's orders does not touch.\<close>

definition local_part :: "pending_manager \<Rightarrow> (string \<times> pending_entry) list \<times> (string \<times> string list) list \<times> fill_result list" where
  "local_part m = (pm_pending m, pm_groups m, pm_fill_queue m)"

lemma check_order_state_local [simp]: "local_part (check_order_state f so m) = local_part m"
  by (auto simp: check_order_state_def local_part_def Let_def split: prod.splits sum.splits)

lemma expire_order_local [simp]: "local_part (fst (expire_order port so mb)) = local_part (fst mb)"
  by (auto simp: expire_order_def local_part_def Let_def split: prod.splits bool.splits)

lemma cancel_order_local [simp]: "local_part (fst (snd (cancel_order port reason so nmb))) = local_part (fst (snd nmb))"
  by (auto simp: cancel_order_def local_part_def split: prod.splits bool.splits)

lemma orders_local [simp]:
  "local_part (check_mt5_order_state inspect m) = local_part m"
  "local_part (fst (snd (check_mt5_order_expiry port now mb))) = local_part (fst mb)"
  "local_part (fst (snd (cancel_mt5_orders_by_symbol port symbol reason exclude mb))) = local_part (fst mb)"
proof -
  show "local_part (check_mt5_order_state inspect m) = local_part m"
    by (auto simp: check_mt5_order_state_def split: option.splits intro: fold_invariant [where P = "\<lambda>s. local_part s = local_part m"])
  show "local_part (fst (snd (check_mt5_order_expiry port now mb))) = local_part (fst mb)"
    by (auto simp: check_mt5_order_expiry_def Let_def intro: fold_invariant [where P = "\<lambda>s. local_part (fst s) = local_part (fst mb)"])
  show "local_part (fst (snd (cancel_mt5_orders_by_symbol port symbol reason exclude mb))) = local_part (fst mb)"
    unfolding cancel_mt5_orders_by_symbol_def
    by (rule fold_invariant [where P = "\<lambda>s. local_part (fst (snd s)) = local_part (fst mb)"]) auto
qed

lemma table_ok_local: "local_part m' = local_part m \<Longrightarrow> table_ok G m' = table_ok G m"
  by (simp add: local_part_def table_ok_def)

text \<open>An entry of a snapshot: its key is its own, and its group is the one of the key.\<close>

definition listed :: "(string \<Rightarrow> string) \<Rightarrow> pending_entry \<Rightarrow> bool" where
  "listed G e \<longleftrightarrow> pe_entry_key e = effective_key e \<and> pe_group_id e = G (effective_key e)"

lemma effective_key_updates [simp]:
  "effective_key (e\<lparr>pe_checks_count := n\<rparr>) = effective_key e" "effective_key (e\<lparr>pe_best_price_seen := p\<rparr>) = effective_key e"
  "effective_key (e\<lparr>pe_status := s\<rparr>) = effective_key e" "effective_key (e\<lparr>pe_cancel_reason := s\<rparr>) = effective_key e"
  by (simp_all add: effective_key_def)

lemma write_back_ok:
  assumes "table_ok G m" and "listed G e"
  shows "table_ok G (write_back e m)"
proof (cases "map_of (pm_pending m) (effective_key e)")
  case (Some e')
  with assms(1) have "(effective_key e, e') \<in> set (pm_pending m)" and "pe_group_id e' = G (effective_key e)"
    by (auto dest: map_of_SomeD table_ok_entry(3))
  with assms Some show ?thesis
    by (fastforce simp: table_ok_def listed_def write_back_def set_alist_update distinct_update)
qed (use assms in \<open>simp add: write_back_def\<close>)

lemma fill_entry_ok:
  assumes "table_ok G m"
  shows "table_ok G (fill_entry e price m)"
proof -
  let ?m1 = "m\<lparr>pm_pending := AList.delete (effective_key e) (pm_pending m),
    pm_groups := groups_discard (pe_group_id e) (effective_key e) (pm_groups m)\<rparr>"
  have m1: "table_ok G ?m1" by (rule table_ok_restrict [OF assms _ disjI1]) simp_all
  have "table_ok G (?m1\<lparr>pm_pending := AList.delete (pe_signal_id e) (pm_pending ?m1)\<rparr>)"
    by (rule table_ok_restrict [OF m1]) simp_all
  then show ?thesis using m1 assms by (simp add: fill_entry_def Let_def table_ok_def)
qed

lemma check_price_ok: "table_ok G m \<Longrightarrow> listed G e \<Longrightarrow> table_ok G (check_price mc qs e q m)"
proof -
  assume "table_ok G m" and "listed G e"
  then have "table_ok G (write_back (e\<lparr>pe_checks_count := n, pe_best_price_seen := p\<rparr>) m)" for n p
    by (intro write_back_ok) (simp_all add: listed_def)
  then show ?thesis using \<open>table_ok G m\<close>
    unfolding check_price_def Let_def by (simp add: fill_entry_ok split: option.split)
qed

lemma expire_entry_ok: "table_ok G m \<Longrightarrow> listed G e \<Longrightarrow> table_ok G (expire_entry mc qs e m)"
proof -
  assume ok: "table_ok G m" and e: "listed G e"
  let ?m1 = "m\<lparr>pm_pending := AList.delete (pe_signal_id e) (pm_pending m)\<rparr>"
  let ?m2 = "write_back (e\<lparr>pe_status := ''expired'', pe_cancel_reason := ''timeout''\<rparr>) ?m1"
  have "table_ok G ?m1" by (rule table_ok_restrict [OF ok]) simp_all
  then have "table_ok G ?m2" using e by (intro write_back_ok) (simp_all add: listed_def)
  then have "table_ok G (call_expired s r (update_stats f ?m2))" for s r f by (rule table_ok_same) simp_all
  then show ?thesis using ok fill_entry_ok [OF ok] unfolding expire_entry_def by (simp split: option.split)
qed

lemma check_entry_ok: "table_ok G m \<Longrightarrow> listed G e \<Longrightarrow> table_ok G (check_entry now mc qs e m)"
  unfolding check_entry_def by (simp add: expire_entry_ok check_price_ok split: option.split)

lemma table_ok_listed: "table_ok G m \<Longrightarrow> (k, e) \<in> set (pm_pending m) \<Longrightarrow> listed G e"
  by (auto simp: table_ok_def listed_def)

lemma check_all_entries_ok: "table_ok G m \<Longrightarrow> table_ok G (check_all_entries now mc qs m)"
  unfolding check_all_entries_def by (rule fold_invariant) (use table_ok_listed check_entry_ok in fastforce)+

lemma local_part_expired [simp]: "local_part (fold (\<lambda>sid. call_expired sid reason) sids m) = local_part m"
  by (simp add: local_part_def)

lemma cancel_by_symbol_local:
  "local_part (fst (snd (cancel_by_symbol port symbol reason exclude (m, b)))) =
    local_part (snd (fold cancel_pending_key (keys_to_cancel (primary_keys symbol exclude m) m) ([], m)))"
  by (simp add: cancel_by_symbol_def Let_def split_beta)

lemma cancel_by_symbol_ok:
  assumes "table_ok G m"
  shows "table_ok G (fst (snd (cancel_by_symbol port symbol reason exclude (m, b))))"
  unfolding table_ok_local [OF cancel_by_symbol_local]
  by (rule fold_invariant) (use assms in \<open>simp_all add: drop_key_ok\<close>)

lemma groups_grow_ok:
  "table_ok G m \<Longrightarrow> (\<And>g. set (group_keys (pm_groups m) g) \<subseteq> set (group_keys gs g)) \<Longrightarrow> table_ok G (m\<lparr>pm_groups := gs\<rparr>)"
  by (fastforce simp: table_ok_def)

lemma restore_group_index_ok: "table_ok G m \<Longrightarrow> table_ok G (restore_group_index gid keys m)"
  unfolding restore_group_index_def Let_def by (auto intro!: groups_grow_ok)

lemma fill_worker_step_ok: "table_ok G (fst mb) \<Longrightarrow> table_ok G (fst (fill_worker_step execute mb))"
proof -
  assume ok: "table_ok G (fst mb)"
  then have "table_ok G ((fst mb)\<lparr>pm_fill_queue := q\<rparr>)" for q by (rule table_ok_same) simp_all
  then show ?thesis using ok
    by (auto simp: fill_worker_step_def on_member_filled_handler_def cancel_by_group_def cancel_members_ok Let_def
        split: prod.splits list.splits)
qed

lemma monitor_turn_ok: "table_ok G (fst mb) \<Longrightarrow> table_ok G (fst (monitor_turn port inspect now mc qs mb))"
  by (auto simp: monitor_turn_def table_ok_local [OF orders_local(2)] table_ok_local [OF orders_local(1)] check_all_entries_ok
      split: prod.splits)

lemma pending_step_ok:
  assumes "pending_ok (fst mb)"
  shows "pending_ok (fst (pending_step pn ev mb))"
proof -
  obtain m b where mb: "mb = (m, b)" by fastforce
  from assms obtain G where G: "table_ok G m" by (auto simp: pending_ok_iff mb)
  have order: "table_ok G (restore_mt5_order info m)" "table_ok G (track_mt5_order info m)" for info
    using G by (auto simp: restore_mt5_order_def track_mt5_order_def table_ok_def)
  have shut: "pending_ok (shutdown m)" by (simp add: shutdown_def clear_fill_queue_def pending_ok_def)
  have group: "table_ok G (snd (cancel_by_group gid r ex m))" for gid r ex using G by (simp add: cancel_by_group_def cancel_members_ok)
  have okI: "table_ok G m' \<Longrightarrow> pending_ok m'" for m' by (auto simp: pending_ok_iff)
  show ?thesis
  proof (cases ev)
    case (CancelSymbol symbol reason exclude)
    then show ?thesis using G by (simp add: mb okI cancel_by_symbol_ok)
  next
    case (MonitorTurn now qs)
    then show ?thesis using G by (simp add: mb okI monitor_turn_ok)
  next
    case WorkerTurn
    then show ?thesis using G by (simp add: mb okI fill_worker_step_ok)
  qed (use assms G in \<open>simp_all add: mb okI order shut group submit_ok submit_oco_group_ok cancel_ok restore_group_index_ok\<close>)
qed

interpretation pending_run: event_system "pending_step pn" "\<lambda>mb. pending_ok (fst mb)"
  by unfold_locales (rule pending_step_ok)

lemma initial_pending_ok: "pending_ok PendingEntryManager"
  by (simp add: pending_ok_def PendingEntryManager_def)

abbreviation pending_after :: "'b pending_env \<Rightarrow> pending_event list \<Rightarrow> 'b \<Rightarrow> pending_manager \<times> 'b" where
  "pending_after pn evs b \<equiv> fold (pending_step pn) evs (PendingEntryManager, b)"

lemma pending_after_ok: "pending_ok (fst (pending_after pn evs b))"
  by (rule pending_run.inv_run) (simp add: initial_pending_ok)

section \<open>A small desk\<close>

text \<open>Two entries of one group and one of another symbol, and a broker that cancels what it is asked to.\<close>

definition wait_signal :: "string \<Rightarrow> string \<Rightarrow> signal_event" where
  "wait_signal sid symbol = \<lparr>sg_symbol = symbol, sg_timeframe = ''M15'', sg_strategy = ''trend'', sg_direction = ''buy'',
     sg_confidence = 3/4, sg_signal_state = ''confirmed'', sg_scope = ''confirmed'', sg_indicators = [], sg_metadata = [],
     sg_generated_at = Datetime 0 (Some 0), sg_signal_id = sid, sg_parent_bar_time = None, sg_entry_spec_group = None,
     sg_exit_spec = []\<rparr>"

definition wait_params :: "rat \<Rightarrow> trade_parameters" where
  "wait_params price = \<lparr>tp_entry_price = price, tp_stop_loss = price - 4, tp_take_profit = price + 8, tp_position_size = 1/4,
     tp_risk_reward_ratio = 2, tp_atr_value = 2, tp_sl_distance = 4, tp_tp_distance = 8\<rparr>"

definition wait_entry :: "string \<Rightarrow> string \<Rightarrow> string \<Rightarrow> string \<Rightarrow> rat \<Rightarrow> pending_entry" where
  "wait_entry sid symbol key gid price = \<lparr>pe_signal = wait_signal sid symbol,
     pe_params = wait_params price, pe_cost = [], pe_entry_low = price - 1, pe_entry_high = price + 1, pe_reference_price = price, pe_created_at = 0,
     pe_expires_at = 100, pe_status = ''pending'', pe_zone_mode = ''pullback'', pe_entry_key = key, pe_group_id = gid,
     pe_member_id = [], pe_group_role = [], pe_best_price_seen = None, pe_checks_count = 0, pe_fill_price = None,
     pe_cancel_reason = []\<rparr>"

definition wait_order :: "int \<Rightarrow> string \<Rightarrow> mt5_order" where
  "wait_order ticket key = \<lparr>mo_ticket = ticket, mo_signal_id = key, mo_expires_at = Some 100, mo_direction = ''buy'',
     mo_symbol = ''XAUUSD'', mo_strategy = ''trend'', mo_timeframe = ''M15'', mo_confidence = Some (3/4), mo_regime = VStr ''trending'',
     mo_comment = ''M15:trend:limit'', mo_params = Some (wait_params 64), mo_order_kind = ''limit'', mo_entry_low = Some 63,
     mo_entry_high = Some 65, mo_trigger_price = Some 64, mo_entry_price_requested = Some 64, mo_stop_loss = Some 60,
     mo_take_profit = Some 72, mo_volume = Some (1/4), mo_created_at = Some 0,
     mo_metadata = [(''order_kind'', VStr ''limit''), (''order_group_id'', VStr ''g1'')], mo_exit_spec = None,
     mo_strategy_category = [], mo_order_group_id = [], mo_group_member_id = [], mo_group_role = []\<rparr>"

definition wait_quotes :: quote_source where
  "wait_quotes = \<lparr>qs_float = (\<lambda>_. None), qs_get_quote = (\<lambda>_. Some [(''bid'', VFloat 64), (''ask'', VFloat 65)]),
     qs_symbol_point = (\<lambda>_. ok None)\<rparr>"

definition wait_inspect :: "mt5_order \<Rightarrow> pydict res" where
  "wait_inspect info = ok (if mo_ticket info = 7 then [(''status'', VStr ''filled'')] else [])"

definition wait_env :: "unit pending_env" where
  "wait_env = \<lparr>pn_port = (\<lambda>tickets b. (ok (VDict [(''canceled'', VList (map VInt tickets))]), b)), pn_inspect = Some wait_inspect,
     pn_execute = (\<lambda>r b. (True, b)), pn_monitor = \<lparr>mc_max_spread_points = 0, mc_timeout_fill_tolerance_atr = 1/2\<rparr>\<rparr>"

lemma wait_execute: "pn_execute wait_env r b = (True, b)"
  by (simp add: wait_env_def)

definition wait_group :: "pending_event list" where
  "wait_group = [SubmitGroup [wait_entry ''s1'' ''XAUUSD'' ''s1#limit'' [] 64, wait_entry ''s1'' ''XAUUSD'' ''s1#stop'' [] 80] ''g1'',
     Submit (wait_entry ''s2'' ''EURUSD'' [] [] 90)]"

section \<open>Groups\<close>

lemma no_sibling_kept:
  "\<forall>(k, e) \<in> set ps. pe_group_id e = g \<longrightarrow> k = key \<Longrightarrow> filter (\<lambda>(k, e). pe_group_id e = g \<and> k \<noteq> key) ps = []"
  by (auto simp: filter_empty_conv)

text \<open>C9: one filled member takes its siblings out. After any run, when the worker has executed a fill
  that belongs to a group, no entry of the group is left waiting, except one that has been
  submitted again under the key of the fill itself.\<close>

theorem any_fill_cancels_siblings:
  assumes "pending_after pn evs b0 = (m, b)" and "pm_fill_queue m = r # rest" and "pn_execute pn r b = (True, b')"
    and "fr_group_id r \<noteq> []"
  shows "\<forall>(k, e) \<in> set (pm_pending (fst (pending_step pn WorkerTurn (m, b)))).
    pe_group_id e = fr_group_id r \<longrightarrow> k = fr_entry_key r"
proof (clarify, rule ccontr)
  fix k e
  let ?m1 = "m\<lparr>pm_fill_queue := rest\<rparr>"
  let ?keys = "group_keys (pm_groups m) (fr_group_id r)"
  assume member: "(k, e) \<in> set (pm_pending (fst (pending_step pn WorkerTurn (m, b))))"
    and group: "pe_group_id e = fr_group_id r" and k: "k \<noteq> fr_entry_key r"
  have left: "(k, e) \<in> set (pm_pending (snd (fold (cancel_member ''oco_sibling_filled'' (Some (fr_entry_key r))) ?keys (0, ?m1))))"
    using assms(2-4) member by (simp add: fill_worker_step_def on_member_filled_handler_def cancel_by_group_def)
  then have "(k, e) \<in> set (pm_pending m)" using cancel_members_shrinks by fastforce
  moreover have "pending_ok m" using pending_after_ok [of pn evs b0] assms(1) by simp
  ultimately have "k \<in> set ?keys" using group assms(4) by (auto simp: pending_ok_def)
  then have "k \<notin> fst ` set (pm_pending (snd (fold (cancel_member ''oco_sibling_filled'' (Some (fr_entry_key r))) ?keys (0, ?m1))))"
    using k by (intro cancel_members_gone) auto
  with left show False by force
qed

theorem any_fill_cancels_siblings_witness:
  "filter (\<lambda>(k, e). pe_group_id e = ''g1'' \<and> k \<noteq> ''s1#limit'') (pm_pending (fst (pending_step wait_env WorkerTurn
      (pending_after wait_env (wait_group @ [MonitorTurn 100 wait_quotes]) ())))) = []"
proof -
  let ?mb = "pending_after wait_env (wait_group @ [MonitorTurn 100 wait_quotes]) ()"
  let ?r = "fill_result_of ((wait_entry ''s1'' ''XAUUSD'' ''s1#limit'' [] 64)\<lparr>pe_group_id := ''g1''\<rparr>) 65"
  have queue: "pm_fill_queue (fst ?mb) = [?r]" by code_simp
  have r: "fr_group_id ?r = ''g1''" "fr_entry_key ?r = ''s1#limit''"
    by (simp_all add: fill_result_of_def effective_key_def wait_entry_def)
  have "\<forall>(k, e) \<in> set (pm_pending (fst (pending_step wait_env WorkerTurn (fst ?mb, snd ?mb)))).
      pe_group_id e = fr_group_id ?r \<longrightarrow> k = fr_entry_key ?r"
    by (rule any_fill_cancels_siblings [OF prod.collapse [symmetric] queue wait_execute]) (simp add: r)
  then show ?thesis unfolding r prod.collapse by (rule no_sibling_kept)
qed

section \<open>Cancellation by symbol\<close>

lemma cancel_keys_exact:
  "pm_pending (snd (fold cancel_pending_key keys (sids, m))) = filter (\<lambda>(k, _). k \<notin> set keys) (pm_pending m)"
proof (induction keys arbitrary: sids m)
  case Nil
  then show ?case by (simp add: case_prod_unfold)
next
  case (Cons k keys)
  have "pm_pending (snd (cancel_pending_key k (sids, m))) = AList.delete k (pm_pending m)"
    by (auto simp: cancel_pending_key_def delete_id map_of_eq_None_iff split: option.splits)
  then show ?case using Cons.IH [of "fst (cancel_pending_key k (sids, m))" "snd (cancel_pending_key k (sids, m))"]
    by (simp add: AList.delete_eq case_prod_unfold) (rule filter_cong; auto)
qed

lemma set_keys_to_cancel:
  "set (keys_to_cancel primary m) = set primary \<union>
    (\<Union>k \<in> set primary. case map_of (pm_pending m) k of None \<Rightarrow> {}
      | Some e \<Rightarrow> if pe_group_id e = [] then {} else set (group_keys (pm_groups m) (pe_group_id e)))"
proof -
  define f where "f = (\<lambda>k acc. case map_of (pm_pending m) k of None \<Rightarrow> acc
    | Some e \<Rightarrow> if pe_group_id e = [] then acc else fold List.insert (group_keys (pm_groups m) (pe_group_id e)) acc)"
  define g where "g k = (case map_of (pm_pending m) k of None \<Rightarrow> {}
    | Some e \<Rightarrow> if pe_group_id e = [] then {} else set (group_keys (pm_groups m) (pe_group_id e)))" for k
  have "set (f k acc) = set acc \<union> g k" for k acc by (auto simp: f_def g_def split: option.splits)
  then have "set (fold f ks acc) = set acc \<union> (\<Union>k \<in> set ks. g k)" for ks acc
    by (induction ks arbitrary: acc) auto
  then show ?thesis by (simp add: keys_to_cancel_def f_def g_def)
qed

text \<open>C17: a cancellation by symbol is complete. After any run, when the pending entries of a symbol are
  cancelled, with or without the exception of a direction, no matching entry is left, and for every
  entry that matched, no member of its group is left either, whatever its direction.\<close>

theorem cancel_by_symbol_complete:
  assumes "pending_after pn evs b0 = (m, b)" and "(k, e) \<in> set (pm_pending m)"
    and "hits symbol exclude (sg_symbol (pe_signal e)) (sg_direction (pe_signal e))" and "pe_status e = ''pending''"
    and "pending_step pn (CancelSymbol symbol reason exclude) (m, b) = (m', b')"
  shows "map_of (pm_pending m') k = None \<and>
    (pe_group_id e \<noteq> [] \<longrightarrow> pe_group_id e \<notin> (pe_group_id \<circ> snd) ` set (pm_pending m'))"
proof -
  let ?keys = "keys_to_cancel (primary_keys symbol exclude m) m"
  have ok: "pending_ok m" using pending_after_ok [of pn evs b0] assms(1) by simp
  have left: "pm_pending m' = filter (\<lambda>(k, _). k \<notin> set ?keys) (pm_pending m)"
    using cancel_by_symbol_local [of "pn_port pn" symbol reason exclude m b] assms(5)
    by (simp add: local_part_def cancel_keys_exact)
  have "k \<in> set (primary_keys symbol exclude m)" using assms(2-4) by (force simp: primary_keys_def)
  moreover have "map_of (pm_pending m) k = Some e" using ok assms(2) by (simp add: pending_ok_def)
  ultimately have k: "k \<in> set ?keys" and "pe_group_id e \<noteq> [] \<Longrightarrow> set (group_keys (pm_groups m) (pe_group_id e)) \<subseteq> set ?keys"
    by (force simp: set_keys_to_cancel)+
  then show ?thesis using ok unfolding left
    by (force simp: map_of_eq_None_iff pending_ok_def)
qed

theorem cancel_by_symbol_complete_witness:
  "map fst (pm_pending (fst (pending_after wait_env wait_group ()))) = [''s1#limit'', ''s1#stop'', ''s2''] \<and>
    map_of (pm_pending (fst (pending_step wait_env (CancelSymbol ''XAUUSD'' ''new_signal_override'' (Some ''sell''))
      (pending_after wait_env wait_group ())))) ''s1#limit'' = None"
proof -
  let ?mb = "pending_after wait_env wait_group ()"
  let ?e = "(wait_entry ''s1'' ''XAUUSD'' ''s1#limit'' [] 64)\<lparr>pe_group_id := ''g1''\<rparr>"
  have keys: "map fst (pm_pending (fst ?mb)) = [''s1#limit'', ''s1#stop'', ''s2'']"
    and e: "(''s1#limit'', ?e) \<in> set (pm_pending (fst ?mb))"
    and hit: "hits ''XAUUSD'' (Some ''sell'') (sg_symbol (pe_signal ?e)) (sg_direction (pe_signal ?e))"
    and status: "pe_status ?e = ''pending''" by code_simp+
  have "map_of (pm_pending (fst (pending_step wait_env (CancelSymbol ''XAUUSD'' ''new_signal_override'' (Some ''sell'')) (fst ?mb, snd ?mb))))
      ''s1#limit'' = None"
    using cancel_by_symbol_complete [OF prod.collapse [symmetric] e hit status prod.collapse [symmetric]] by (rule conjunct1)
  with keys show ?thesis by (simp only: prod.collapse)
qed

section \<open>Accounts\<close>

text \<open>Every submitted entry waits, was filled, expired or was cancelled.\<close>

definition accounted :: "pending_manager \<Rightarrow> bool" where
  "accounted m \<longleftrightarrow> ps_total_submitted (pm_stats m) =
    ps_total_filled (pm_stats m) + ps_total_expired (pm_stats m) + ps_total_cancelled (pm_stats m) + int (length (pm_pending m))"

lemma length_delete: "distinct (map fst al) \<Longrightarrow> map_of al k = Some v \<Longrightarrow> Suc (length (AList.delete k al)) = length al"
proof (induction al)
  case (Cons p al)
  obtain k' v' where "p = (k', v')" by fastforce
  with Cons show ?case by (cases "k' = k") simp_all
qed simp

lemma length_alist_update: "length (AList.update k v al) = (if map_of al k = None then Suc (length al) else length al)"
  by (induction al) auto

lemma drop_cancelled_accounted:
  "table_ok G m \<Longrightarrow> map_of (pm_pending m) k = Some e \<Longrightarrow> accounted (drop_cancelled k e m) = accounted m"
  using length_delete [of "pm_pending m" k e] by (auto simp: accounted_def table_ok_def drop_cancelled_def)

lemma cancel_accounted:
  assumes "table_ok G m"
  shows "accounted (snd (cancel key reason m)) = accounted m"
proof (cases "find_entry key (pm_pending m)")
  case (Some p)
  obtain k e where p: "p = (k, e)" by fastforce
  have "accounted (drop_cancelled k e m) = accounted m"
    using find_entry_SomeD [OF assms Some [unfolded p]] by (rule drop_cancelled_accounted [OF assms])
  then show ?thesis by (simp add: cancel_def Some p) (simp add: accounted_def)
qed (simp add: cancel_def)

lemma submit_accounted:
  assumes "pending_ok m"
  shows "accounted (submit e0 m) = accounted m"
proof -
  from assms obtain G where G: "table_ok G m" by (auto simp: pending_ok_iff)
  define key where "key = effective_key e0"
  define m1 where "m1 = (if map_of (pm_pending m) key = None then m else snd (cancel key ''replaced_by_new_submit'' m))"
  have m1: "accounted m1 = accounted m" by (simp add: m1_def cancel_accounted [OF G])
  have "map_of (pm_pending m1) key = None"
    using cancel_shrinks(2) [of key] by (auto simp: m1_def map_of_eq_None_iff)
  then have "accounted (submit e0 m) = accounted m1"
    by (auto simp: submit_def Let_def accounted_def length_alist_update m1_def key_def)
  with m1 show ?thesis by simp
qed

lemma fold_accounted:
  assumes "pending_ok s" and "accounted s" and "\<And>x s. x \<in> set xs \<Longrightarrow> pending_ok s \<Longrightarrow> pending_ok (f x s)"
    and "\<And>x s. x \<in> set xs \<Longrightarrow> pending_ok s \<Longrightarrow> accounted s \<Longrightarrow> accounted (f x s)"
  shows "accounted (fold f xs s)"
  by (rule conjunct2 [OF fold_invariant [where P = "\<lambda>s. pending_ok s \<and> accounted s"]]) (use assms in auto)

lemma submit_oco_group_accounted:
  assumes "pending_ok m" and "accounted m"
  shows "accounted (snd (submit_oco_group es gid m))"
proof -
  have "accounted (fold (\<lambda>e. submit (e\<lparr>pe_group_id := (if pe_group_id e = [] then gid else pe_group_id e)\<rparr>)) es m)"
    by (rule fold_accounted [OF assms]) (simp_all add: submit_ok submit_accounted)
  with assms show ?thesis unfolding submit_oco_group_def Let_def by simp
qed

lemma cancel_members_accounted:
  assumes "table_ok G (snd nm)" and "accounted (snd nm)"
  shows "accounted (snd (fold (cancel_member reason exclude) keys nm))"
  by (rule conjunct2 [OF fold_invariant [where P = "\<lambda>nm. table_ok G (snd nm) \<and> accounted (snd nm)"]])
    (use assms in \<open>auto simp: snd_cancel_member cancel_ok cancel_accounted\<close>)

text \<open>What the accounts are about, which the work on the broker's orders leaves alone.\<close>

definition account_part :: "pending_manager \<Rightarrow> int \<times> int \<times> int \<times> int" where
  "account_part m = (let s = pm_stats m in (ps_total_submitted s, ps_total_filled s, ps_total_expired s, ps_total_cancelled s))"

lemma accounted_same: "local_part m' = local_part m \<Longrightarrow> account_part m' = account_part m \<Longrightarrow> accounted m' = accounted m"
  by (simp add: accounted_def local_part_def account_part_def Let_def)

lemma orders_account [simp]:
  "account_part (check_mt5_order_state inspect m) = account_part m"
  "account_part (fst (snd (check_mt5_order_expiry port now mb))) = account_part (fst mb)"
  "account_part (fst (snd (cancel_mt5_orders_by_symbol port symbol reason exclude mb))) = account_part (fst mb)"
proof -
  have "account_part (check_order_state f so s) = account_part s" for f so s
    by (auto simp: check_order_state_def account_part_def Let_def split: prod.splits sum.splits)
  then show "account_part (check_mt5_order_state inspect m) = account_part m"
    by (auto simp: check_mt5_order_state_def split: option.splits intro: fold_invariant [where P = "\<lambda>s. account_part s = account_part m"])
  have "account_part (fst (expire_order port so s)) = account_part (fst s)" for so s
    by (auto simp: expire_order_def account_part_def Let_def split: prod.splits bool.splits)
  then show "account_part (fst (snd (check_mt5_order_expiry port now mb))) = account_part (fst mb)"
    by (auto simp: check_mt5_order_expiry_def Let_def intro: fold_invariant [where P = "\<lambda>s. account_part (fst s) = account_part (fst mb)"])
  have "account_part (fst (snd (cancel_order port reason so s))) = account_part (fst (snd s))" for so s
    by (auto simp: cancel_order_def account_part_def Let_def split: prod.splits bool.splits)
  then show "account_part (fst (snd (cancel_mt5_orders_by_symbol port symbol reason exclude mb))) = account_part (fst mb)"
    unfolding cancel_mt5_orders_by_symbol_def
    by (auto intro!: fold_invariant [where P = "\<lambda>s. account_part (fst (snd s)) = account_part (fst mb)"])
qed

lemma account_part_expired [simp]: "account_part (fold (\<lambda>sid. call_expired sid reason) sids m) = account_part m"
  by (simp add: account_part_def)

text \<open>A pass of the monitor that the queue has room for.\<close>

definition roomy :: "pending_manager \<Rightarrow> bool" where
  "roomy m \<longleftrightarrow> length (pm_fill_queue m) + length (pm_pending m) \<le> fill_queue_maxsize"

lemma fill_entry_accounted:
  assumes "table_ok G m" and "roomy m" and "accounted m"
  shows "accounted (fill_entry e price m) \<and> roomy (fill_entry e price m)"
proof (cases "map_of (pm_pending m) (effective_key e)")
  case (Some e')
  with assms(1) have "Suc (length (AList.delete (effective_key e) (pm_pending m))) = length (pm_pending m)"
    by (simp add: table_ok_def length_delete)
  with assms Some show ?thesis by (auto simp: fill_entry_def Let_def accounted_def roomy_def)
qed (use assms in \<open>simp add: fill_entry_def\<close>)

lemma write_back_accounted: "accounted (write_back e m) = accounted m" "roomy (write_back e m) = roomy m"
  by (auto simp: write_back_def accounted_def roomy_def length_alist_update)

lemma expire_entry_accounted:
  assumes "table_ok G m" and "roomy m" and "accounted m"
  shows "accounted (expire_entry mc qs e m) \<and> roomy (expire_entry mc qs e m)"
proof (cases "tolerated_price mc qs e")
  case None
  let ?m1 = "m\<lparr>pm_pending := AList.delete (pe_signal_id e) (pm_pending m)\<rparr>"
  have len: "length (pm_pending (write_back e1 ?m1)) = length (AList.delete (pe_signal_id e) (pm_pending m))"
    and stats: "pm_stats (write_back e1 ?m1) = pm_stats m" and queue: "pm_fill_queue (write_back e1 ?m1) = pm_fill_queue m" for e1
    by (simp_all add: write_back_def length_alist_update)
  show ?thesis
  proof (cases "map_of (pm_pending m) (pe_signal_id e)")
    case (Some e')
    with assms(1) have "Suc (length (AList.delete (pe_signal_id e) (pm_pending m))) = length (pm_pending m)"
      by (simp add: table_ok_def length_delete)
    with assms None Some show ?thesis by (simp add: expire_entry_def accounted_def roomy_def len stats queue)
  qed (use assms None in \<open>simp add: expire_entry_def\<close>)
qed (use assms fill_entry_accounted in \<open>simp add: expire_entry_def\<close>)

lemma check_entry_accounted:
  assumes "table_ok G m" and "listed G e" and "roomy m" and "accounted m"
  shows "accounted (check_entry now mc qs e m) \<and> roomy (check_entry now mc qs e m)"
proof -
  have "accounted (fill_entry e2 p (write_back (e\<lparr>pe_checks_count := n, pe_best_price_seen := q\<rparr>) m)) \<and>
      roomy (fill_entry e2 p (write_back (e\<lparr>pe_checks_count := n, pe_best_price_seen := q\<rparr>) m))" for e2 p n q
    using assms by (intro fill_entry_accounted [of G]) (auto simp: write_back_accounted listed_def intro!: write_back_ok)
  then have "accounted (check_price mc qs e q m) \<and> roomy (check_price mc qs e q m)" for q
    using assms(3,4) unfolding check_price_def Let_def by (simp add: write_back_accounted split: option.split)
  then show ?thesis using assms expire_entry_accounted [OF assms(1,3,4)]
    unfolding check_entry_def by (simp split: option.split)
qed

lemma check_all_entries_accounted:
  assumes "table_ok G m" and "roomy m" and "accounted m"
  shows "accounted (check_all_entries now mc qs m)"
proof -
  have "table_ok G (check_all_entries now mc qs m) \<and> accounted (check_all_entries now mc qs m) \<and> roomy (check_all_entries now mc qs m)"
    unfolding check_all_entries_def
  proof (rule fold_invariant)
    fix e s
    assume "e \<in> set (filter (\<lambda>e. pe_status e = ''pending'') (map snd (pm_pending m)))"
      and s: "table_ok G s \<and> accounted s \<and> roomy s"
    then have "listed G e" using table_ok_listed [OF assms(1)] by force
    then show "table_ok G (check_entry now mc qs e s) \<and> accounted (check_entry now mc qs e s) \<and> roomy (check_entry now mc qs e s)"
      using s check_entry_ok check_entry_accounted by blast
  qed (use assms in simp)
  then show ?thesis by simp
qed

lemma cancel_by_symbol_accounted:
  assumes "table_ok G m" and "accounted m"
  shows "accounted (fst (snd (cancel_by_symbol port symbol reason exclude (m, b))))"
proof -
  let ?keys = "keys_to_cancel (primary_keys symbol exclude m) m"
  have drop: "accounted (snd (cancel_pending_key k sm)) = accounted (snd sm)" if "table_ok G (snd sm)" for k sm
    using that drop_cancelled_accounted [OF that] by (auto simp: cancel_pending_key_def split: prod.splits option.splits)
  have "table_ok G (snd (fold cancel_pending_key ?keys ([], m))) \<and> accounted (snd (fold cancel_pending_key ?keys ([], m)))"
    by (rule fold_invariant) (use assms in \<open>simp_all add: drop_key_ok drop\<close>)
  moreover have "account_part (fst (snd (cancel_by_symbol port symbol reason exclude (m, b)))) =
      account_part (snd (fold cancel_pending_key ?keys ([], m)))"
    by (simp add: cancel_by_symbol_def Let_def split_beta)
  ultimately show ?thesis using accounted_same [OF cancel_by_symbol_local [of port symbol reason exclude m b]] by simp
qed

lemma worker_accounted:
  assumes "table_ok G m" and "accounted m"
  shows "accounted (fst (fill_worker_step execute (m, b)))"
proof -
  have "table_ok G (m\<lparr>pm_fill_queue := q\<rparr>)" for q using assms(1) by (rule table_ok_same) simp_all
  moreover have "accounted (m\<lparr>pm_fill_queue := q\<rparr>)" for q using assms(2) by (simp add: accounted_def)
  ultimately have "accounted (on_member_filled_handler gid key (m\<lparr>pm_fill_queue := q\<rparr>))" for gid key q
    by (simp add: on_member_filled_handler_def cancel_by_group_def cancel_members_accounted [of G])
  then show ?thesis using assms \<open>\<And>q. accounted (m\<lparr>pm_fill_queue := q\<rparr>)\<close>
    by (simp add: fill_worker_step_def Let_def split_beta split: list.split)
qed

lemma monitor_turn_accounted:
  assumes "table_ok G m" and "roomy m" and "accounted m"
  shows "accounted (fst (monitor_turn port inspect now mc qs (m, b)))"
proof -
  let ?m1 = "check_all_entries now mc qs m"
  have "local_part (fst (monitor_turn port inspect now mc qs (m, b))) = local_part ?m1"
    and "account_part (fst (monitor_turn port inspect now mc qs (m, b))) = account_part ?m1"
    by (simp_all add: monitor_turn_def)
  then show ?thesis using check_all_entries_accounted [OF assms] accounted_same by blast
qed

lemma pending_step_accounted:
  assumes "pending_ok m" and "accounted m" and "roomy m" and "ev \<noteq> Shutdown"
  shows "accounted (fst (pending_step pn ev (m, b)))"
proof -
  from assms obtain G where G: "table_ok G m" by (auto simp: pending_ok_iff)
  show ?thesis
  proof (cases ev)
    case (RestoreIndex gid keys)
    then show ?thesis using assms(2) by (simp add: restore_group_index_def Let_def accounted_def)
  next
    case (RestoreOrder info)
    then show ?thesis using assms(2) by (simp add: restore_mt5_order_def accounted_def)
  next
    case (TrackOrder info)
    then show ?thesis using assms(2) by (simp add: track_mt5_order_def accounted_def)
  next
    case (MonitorTurn now qs)
    then show ?thesis using monitor_turn_accounted [OF G assms(3,2)] by simp
  next
    case (CancelGroup gid reason exclude)
    then show ?thesis using G assms(2) by (simp add: cancel_by_group_def cancel_members_accounted [of G])
  qed (use assms G in \<open>simp_all add: submit_accounted submit_oco_group_accounted cancel_accounted cancel_by_symbol_accounted worker_accounted\<close>)
qed

text \<open>The states of runs in which the fill queue always has room for the entries that wait, before a
  shutdown.\<close>

inductive calm :: "'b pending_env \<Rightarrow> 'b \<Rightarrow> pending_manager \<times> 'b \<Rightarrow> bool" for pn b0 where
  calm_start: "calm pn b0 (PendingEntryManager, b0)"
| calm_step: "calm pn b0 (m, b) \<Longrightarrow> roomy m \<Longrightarrow> ev \<noteq> Shutdown \<Longrightarrow> calm pn b0 (pending_step pn ev (m, b))"

lemma calm_run:
  "(\<And>n. n < length evs \<Longrightarrow> roomy (fst (pending_after pn (take n evs) b0))) \<Longrightarrow> Shutdown \<notin> set evs \<Longrightarrow>
    calm pn b0 (pending_after pn evs b0)"
proof (induction evs rule: rev_induct)
  case (snoc ev evs)
  have "roomy (fst (pending_after pn (take n evs) b0))" if "n < length evs" for n
    using snoc.prems(1) [of n] that by simp
  with snoc have "calm pn b0 (pending_after pn evs b0)" by simp
  moreover have "roomy (fst (pending_after pn evs b0))" using snoc.prems(1) [of "length evs"] by simp
  ultimately show ?case
    using calm_step [of pn b0 "fst (pending_after pn evs b0)" "snd (pending_after pn evs b0)" ev] snoc.prems(2) by auto
qed (simp add: calm_start)

text \<open>C16: the accounts of the manager balance. In every state before a shutdown of a run in which
  the waiting entries and the queued fills together never exceed the 128 places of the fill queue,
  whatever was submitted, cancelled, checked, filled, tracked or restored: the number of submitted entries is the sum of the filled, expired, cancelled and waiting ones.\<close>

theorem pending_accounts_balance:
  assumes "calm pn b0 mb"
  shows "accounted (fst mb)"
proof -
  have "pending_ok (fst mb) \<and> accounted (fst mb)" using assms
  proof induction
    case calm_start
    show ?case using initial_pending_ok by (simp add: accounted_def PendingEntryManager_def)
  next
    case (calm_step m b ev)
    then show ?case using pending_step_ok [of "(m, b)" pn ev] pending_step_accounted [of m ev pn b] by simp
  qed
  then show ?thesis by simp
qed

theorem pending_accounts_balance_witness:
  "accounted (fst (pending_after wait_env (wait_group @ [MonitorTurn 100 wait_quotes, WorkerTurn]) ())) \<and>
    pm_stats (fst (pending_after wait_env (wait_group @ [MonitorTurn 100 wait_quotes, WorkerTurn]) ())) =
      \<lparr>ps_total_submitted = 3, ps_total_filled = 1, ps_total_expired = 1, ps_total_cancelled = 1, ps_total_price_improvement = -1,
       ps_mt5_orders_placed = 0, ps_mt5_orders_filled = 0, ps_mt5_orders_expired = 0, ps_mt5_orders_missing = 0\<rparr>"
proof -
  have "list_all (\<lambda>n. roomy (fst (pending_after wait_env (take n (wait_group @ [MonitorTurn 100 wait_quotes, WorkerTurn])) ()))) [0..<4]"
    by code_simp
  moreover have "Shutdown \<notin> set (wait_group @ [MonitorTurn 100 wait_quotes, WorkerTurn])"
    and "length (wait_group @ [MonitorTurn 100 wait_quotes, WorkerTurn]) = 4" by (simp_all add: wait_group_def)
  ultimately have "calm wait_env () (pending_after wait_env (wait_group @ [MonitorTurn 100 wait_quotes, WorkerTurn]) ())"
    by (intro calm_run) (auto simp only: list_all_iff set_upt atLeastLessThan_iff)
  then have "accounted (fst (pending_after wait_env (wait_group @ [MonitorTurn 100 wait_quotes, WorkerTurn]) ()))"
    by (rule pending_accounts_balance)
  moreover have "pm_stats (fst (pending_after wait_env (wait_group @ [MonitorTurn 100 wait_quotes, WorkerTurn]) ())) =
      \<lparr>ps_total_submitted = 3, ps_total_filled = 1, ps_total_expired = 1, ps_total_cancelled = 1, ps_total_price_improvement = -1,
       ps_mt5_orders_placed = 0, ps_mt5_orders_filled = 0, ps_mt5_orders_expired = 0, ps_mt5_orders_missing = 0\<rparr>" by code_simp
  ultimately show ?thesis by (rule conjI)
qed

section \<open>Entries nobody watches\<close>

text \<open>C32: members of a group are not watched. The monitor looks entries up by signal id, while the
  members of a group of several are kept under other keys: when no entry is kept under its signal
  id, a pass changes nothing at all, whatever the quotes, so none is filled in its zone or taken out
  when its time is over, except one within the tolerance of its reference price when its time is over.\<close>

theorem group_members_not_watched:
  assumes "\<And>k e. (k, e) \<in> set (pm_pending m) \<Longrightarrow> map_of (pm_pending m) (pe_signal_id e) = None"
    and "\<And>k e. (k, e) \<in> set (pm_pending m) \<Longrightarrow> pe_expires_at e \<le> now \<Longrightarrow> tolerated_price mc qs e = None"
  shows "check_all_entries now mc qs m = m"
  unfolding check_all_entries_def
  by (rule fold_invariant [where P = "\<lambda>s. s = m"])
    (use assms in \<open>auto simp: check_entry_def check_price_def expire_entry_def Let_def split: option.splits\<close>)

theorem group_members_not_watched_witness:
  "let m = fst (pending_after wait_env (take 1 wait_group) ())
   in map fst (pm_pending m) = [''s1#limit'', ''s1#stop''] \<and>
     check_all_entries 99 \<lparr>mc_max_spread_points = 0, mc_timeout_fill_tolerance_atr = 1/2\<rparr> wait_quotes m = m"
proof -
  let ?m = "fst (pending_after wait_env (take 1 wait_group) ())"
  have table: "map fst (pm_pending ?m) = [''s1#limit'', ''s1#stop'']"
    "list_all (\<lambda>(k, e). map_of (pm_pending ?m) (pe_signal_id e) = None \<and> \<not> pe_expires_at e \<le> 99) (pm_pending ?m)"
    by code_simp+
  then have "check_all_entries 99 \<lparr>mc_max_spread_points = 0, mc_timeout_fill_tolerance_atr = 1/2\<rparr> wait_quotes ?m = ?m"
    by (intro group_members_not_watched) (auto simp only: list_all_iff split: prod.splits)
  with table(1) show ?thesis by (simp only: Let_def)
qed

section \<open>Orders at the broker\<close>

text \<open>The report that ends the life of an order.\<close>

definition ends :: "mt5_order \<Rightarrow> lifecycle_hook \<Rightarrow> bool" where
  "ends info h = (case h of OnTracked _ \<Rightarrow> False | OnFilled i _ \<Rightarrow> i = info | OnExpired i _ \<Rightarrow> i = info
     | OnCancelled i _ \<Rightarrow> i = info | OnMissing i _ \<Rightarrow> i = info)"

lemma ends_simps [simp]:
  "ends info (OnFilled info d)" "ends info (OnExpired info r)" "ends info (OnCancelled info r)" "ends info (OnMissing info r)"
  by (simp_all add: ends_def)

definition orders_ok :: "pending_manager \<Rightarrow> bool" where
  "orders_ok m = distinct (map fst (pm_mt5_orders m))"

text \<open>From one state to the other orders only leave, and each one that leaves is reported; where tickets
  tell the orders apart, none that is reported stays.\<close>

fun hook_order :: "lifecycle_hook \<Rightarrow> mt5_order" where
  "hook_order (OnTracked i) = i"
| "hook_order (OnFilled i _) = i"
| "hook_order (OnExpired i _) = i"
| "hook_order (OnCancelled i _) = i"
| "hook_order (OnMissing i _) = i"

lemma ends_order: "ends info h \<Longrightarrow> hook_order h = info"
  by (cases h) (simp_all add: ends_def)

definition tickets :: "pending_manager \<Rightarrow> int set" where
  "tickets m = (\<lambda>(_, i). mo_ticket i) ` set (pm_mt5_orders m)"

definition tickets_ok :: "pending_manager \<Rightarrow> bool" where
  "tickets_ok m \<longleftrightarrow> inj_on (\<lambda>(_, i). mo_ticket i) (set (pm_mt5_orders m))"

definition exits :: "pending_manager \<Rightarrow> pending_manager \<Rightarrow> bool" where
  "exits m m' \<longleftrightarrow> orders_ok m' \<and> set (pm_mt5_orders m') \<subseteq> set (pm_mt5_orders m) \<and>
    (\<exists>hs. pm_hooks m' = pm_hooks m @ hs \<and>
      (\<forall>(k, info) \<in> set (pm_mt5_orders m) - set (pm_mt5_orders m'). list_ex (ends info) hs) \<and>
      (\<forall>h \<in> set hs. ends (hook_order h) h \<and> (tickets_ok m \<longrightarrow> mo_ticket (hook_order h) \<notin> tickets m')))"

lemma exits_refl: "orders_ok m \<Longrightarrow> exits m m"
  by (simp add: exits_def)

lemma exits_trans:
  assumes "exits m1 m2" and "exits m2 m3"
  shows "exits m1 m3"
proof -
  from assms(1) obtain h1 where h1: "pm_hooks m2 = pm_hooks m1 @ h1"
      "\<And>k info. (k, info) \<in> set (pm_mt5_orders m1) - set (pm_mt5_orders m2) \<Longrightarrow> list_ex (ends info) h1"
      "\<And>h. h \<in> set h1 \<Longrightarrow> ends (hook_order h) h \<and> (tickets_ok m1 \<longrightarrow> mo_ticket (hook_order h) \<notin> tickets m2)"
    unfolding exits_def by blast
  from assms(2) obtain h2 where h2: "pm_hooks m3 = pm_hooks m2 @ h2"
      "\<And>k info. (k, info) \<in> set (pm_mt5_orders m2) - set (pm_mt5_orders m3) \<Longrightarrow> list_ex (ends info) h2"
      "\<And>h. h \<in> set h2 \<Longrightarrow> ends (hook_order h) h \<and> (tickets_ok m2 \<longrightarrow> mo_ticket (hook_order h) \<notin> tickets m3)"
    unfolding exits_def by blast
  have sub: "set (pm_mt5_orders m3) \<subseteq> set (pm_mt5_orders m2)" "set (pm_mt5_orders m2) \<subseteq> set (pm_mt5_orders m1)"
    using assms unfolding exits_def by blast+
  then have "tickets m3 \<subseteq> tickets m2" and "tickets_ok m1 \<Longrightarrow> tickets_ok m2"
    by (auto simp: tickets_def tickets_ok_def intro: inj_on_subset)
  then have "\<forall>h \<in> set (h1 @ h2). ends (hook_order h) h \<and> (tickets_ok m1 \<longrightarrow> mo_ticket (hook_order h) \<notin> tickets m3)"
    using h1(3) h2(3) by auto
  moreover have "list_ex (ends info) (h1 @ h2)" if "(k, info) \<in> set (pm_mt5_orders m1) - set (pm_mt5_orders m3)" for k info
    using h1(2) [of k info] h2(2) [of k info] that by (cases "(k, info) \<in> set (pm_mt5_orders m2)") simp_all
  moreover have "pm_hooks m3 = pm_hooks m1 @ (h1 @ h2)" using h1(1) h2(1) by simp
  moreover have "orders_ok m3" using assms(2) by (simp add: exits_def)
  ultimately show ?thesis using sub unfolding exits_def by blast
qed

text \<open>In a pass over a snapshot, what is under the key of a snapshot order is that order or nothing, so
  that a report with its deletion is an exit either way.\<close>

lemma other_order_gone:
  assumes "orders_ok m0" and "exits m0 m" and "(sid, info) \<in> set (pm_mt5_orders m0)" and "\<not> same_order sid info m"
  shows "AList.delete sid (pm_mt5_orders m) = pm_mt5_orders m"
proof -
  have "sid \<notin> fst ` set (pm_mt5_orders m)"
  proof
    assume "sid \<in> fst ` set (pm_mt5_orders m)"
    then obtain current where c: "map_of (pm_mt5_orders m) sid = Some current" by (auto simp: map_of_eq_None_iff dest!: weak_map_of_SomeI)
    then have "(sid, current) \<in> set (pm_mt5_orders m0)" using assms(2) by (auto simp: exits_def dest: map_of_SomeD)
    with assms(1,3) have "current = info" by (metis eq_key_imp_eq_value orders_ok_def)
    with c assms(4) show False by (simp add: same_order_def)
  qed
  then show ?thesis by (simp add: delete_id)
qed

lemma report_exits:
  assumes "orders_ok m0" and "exits m0 m" and "(sid, info) \<in> set (pm_mt5_orders m0)" and "ends info h"
    and "pm_mt5_orders m' = AList.delete sid (pm_mt5_orders m)" and "pm_hooks m' = pm_hooks m @ [h]"
  shows "exits m0 m'"
proof -
  from assms(2) obtain hs where hs: "pm_hooks m = pm_hooks m0 @ hs" "set (pm_mt5_orders m) \<subseteq> set (pm_mt5_orders m0)" "orders_ok m"
      "\<And>k i. (k, i) \<in> set (pm_mt5_orders m0) - set (pm_mt5_orders m) \<Longrightarrow> list_ex (ends i) hs"
      "\<And>h. h \<in> set hs \<Longrightarrow> ends (hook_order h) h \<and> (tickets_ok m0 \<longrightarrow> mo_ticket (hook_order h) \<notin> tickets m)"
    unfolding exits_def by blast
  have sub: "set (pm_mt5_orders m') = {x \<in> set (pm_mt5_orders m). fst x \<noteq> sid}" using assms(5) by (auto simp: set_delete)
  have "i = info" if "(sid, i) \<in> set (pm_mt5_orders m0)" for i
    using that assms(1,3) by (metis eq_key_imp_eq_value orders_ok_def)
  then have left: "list_ex (ends i) (hs @ [h])" if "(k, i) \<in> set (pm_mt5_orders m0) - set (pm_mt5_orders m')" for k i
    using that hs(4) [of k i] assms(4) by (cases "k = sid") (auto simp: sub)
  have "mo_ticket info \<notin> tickets m'" if inj: "tickets_ok m0"
  proof
    assume "mo_ticket info \<in> tickets m'"
    then obtain k i where ki: "(k, i) \<in> set (pm_mt5_orders m)" "k \<noteq> sid" "mo_ticket i = mo_ticket info" by (auto simp: tickets_def sub)
    then have "(k, i) \<in> set (pm_mt5_orders m0)" using hs(2) by blast
    with inj_onD [OF inj [unfolded tickets_ok_def] _ this assms(3)] ki show False by simp
  qed
  moreover have "tickets m' \<subseteq> tickets m" by (auto simp: tickets_def sub)
  ultimately have "\<forall>g \<in> set (hs @ [h]). ends (hook_order g) g \<and> (tickets_ok m0 \<longrightarrow> mo_ticket (hook_order g) \<notin> tickets m')"
    using hs(5) assms(4) ends_order [OF assms(4)] by auto
  moreover have "orders_ok m'" using hs(3) assms(5) by (simp add: orders_ok_def distinct_delete)
  moreover have "pm_hooks m' = pm_hooks m0 @ (hs @ [h])" and "set (pm_mt5_orders m') \<subseteq> set (pm_mt5_orders m0)"
    using hs(1,2) sub assms(6) by auto
  ultimately show ?thesis using left unfolding exits_def by blast
qed

lemma check_order_state_exits:
  assumes "orders_ok m0" and "exits m0 m" and "so \<in> set (pm_mt5_orders m0)"
  shows "exits m0 (check_order_state f so m)"
proof -
  obtain sid info where so: "so = (sid, info)" by fastforce
  note leave = report_exits [OF assms(1,2) assms(3) [unfolded so]]
  show ?thesis
    by (auto simp: check_order_state_def so ends_def Let_def assms(2) intro!: leave split: sum.splits)
qed

lemma expire_order_exits:
  assumes "orders_ok m0" and "exits m0 (fst mb)" and "so \<in> set (pm_mt5_orders m0)"
  shows "exits m0 (fst (expire_order port so mb))"
proof -
  obtain sid info m b where so: "so = (sid, info)" and mb: "mb = (m, b)" by (metis surj_pair)
  note here = assms(1) assms(2) [unfolded mb fst_conv] assms(3) [unfolded so]
  show ?thesis using here(2) report_exits [OF here, of "OnExpired info ''mt5_order_expired''"] other_order_gone [OF here]
    by (cases "same_order sid info m") (auto simp: expire_order_def so mb Let_def split: prod.splits bool.splits)
qed

lemma cancel_order_exits:
  assumes "orders_ok m0" and "exits m0 (fst (snd nmb))" and "so \<in> set (pm_mt5_orders m0)"
  shows "exits m0 (fst (snd (cancel_order port reason so nmb)))"
proof -
  obtain sid info n m b where so: "so = (sid, info)" and nmb: "nmb = (n, m, b)" by (metis surj_pair)
  note here = assms(1) assms(2) [unfolded nmb fst_conv snd_conv] assms(3) [unfolded so]
  show ?thesis using here(2) report_exits [OF here, of "OnCancelled info reason"] other_order_gone [OF here]
    by (cases "same_order sid info m") (auto simp: cancel_order_def so nmb split: prod.splits bool.splits)
qed

lemma fold_exits:
  assumes "orders_ok (st s)" and "\<And>x t. x \<in> set xs \<Longrightarrow> exits (st s) (st t) \<Longrightarrow> exits (st s) (st (f x t))"
  shows "exits (st s) (st (fold f xs s))"
  by (rule fold_invariant [where P = "\<lambda>t. exits (st s) (st t)"]) (auto intro: exits_refl assms)

lemma orders_exit:
  assumes "orders_ok (fst mb)"
  shows "exits (fst mb) (check_mt5_order_state inspect (fst mb))"
    and "exits (fst mb) (fst (snd (check_mt5_order_expiry port now mb)))"
    and "exits (fst mb) (fst (snd (cancel_mt5_orders_by_symbol port symbol reason exclude mb)))"
proof -
  have "exits (fst mb) (fold (check_order_state f) (pm_mt5_orders (fst mb)) (fst mb))" for f
    by (rule fold_exits [of "\<lambda>m. m", OF assms]) (rule check_order_state_exits [OF assms])
  then show "exits (fst mb) (check_mt5_order_state inspect (fst mb))"
    using assms by (simp add: check_mt5_order_state_def exits_refl split: option.split)
  show "exits (fst mb) (fst (snd (check_mt5_order_expiry port now mb)))"
  proof -
    have "exits (fst mb) (fst (fold (expire_order port) (filter (\<lambda>(_, info). order_expired now info) (pm_mt5_orders (fst mb))) mb))"
      by (rule fold_exits [of fst, OF assms]) (auto intro!: expire_order_exits [OF assms])
    with assms show ?thesis by (simp add: check_mt5_order_expiry_def Let_def exits_refl)
  qed
  show "exits (fst mb) (fst (snd (cancel_mt5_orders_by_symbol port symbol reason exclude mb)))"
  proof -
    have "exits (fst (snd (0 :: int, mb))) (fst (snd (fold (cancel_order port reason)
        (filter (\<lambda>(_, info). hits symbol exclude (mo_symbol info) (mo_direction info)) (pm_mt5_orders (fst mb))) (0, mb))))"
      by (rule fold_exits [of "\<lambda>nmb. fst (snd nmb)"]) (auto simp: assms intro!: cancel_order_exits [OF assms])
    then show ?thesis by (simp add: cancel_mt5_orders_by_symbol_def)
  qed
qed

text \<open>What the work on the entries does not touch.\<close>

definition broker_part :: "pending_manager \<Rightarrow> (string \<times> mt5_order) list \<times> lifecycle_hook list" where
  "broker_part m = (pm_mt5_orders m, pm_hooks m)"

lemma broker_parts [simp]:
  "broker_part (update_stats f m) = broker_part m" "broker_part (call_expired sid r m) = broker_part m"
  "broker_part (m\<lparr>pm_pending := p\<rparr>) = broker_part m" "broker_part (m\<lparr>pm_groups := g\<rparr>) = broker_part m"
  "broker_part (m\<lparr>pm_fill_queue := q\<rparr>) = broker_part m" "broker_part (drop_cancelled k e m) = broker_part m"
  by (simp_all add: broker_part_def)

lemma cancel_broker [simp]: "broker_part (snd (cancel key reason m)) = broker_part m"
  by (simp add: cancel_def split: option.split prod.split)

lemma submit_broker [simp]: "broker_part (submit e m) = broker_part m"
  by (simp add: submit_def Let_def)

lemma fold_broker: "(\<And>x s. broker_part (st (f x s)) = broker_part (st s)) \<Longrightarrow> broker_part (st (fold f xs s0)) = broker_part (st s0)"
  by (induction xs arbitrary: s0) simp_all

lemma submit_oco_group_broker [simp]: "broker_part (snd (submit_oco_group es gid m)) = broker_part m"
proof -
  have "broker_part (fold (\<lambda>e. submit (e\<lparr>pe_group_id := (if pe_group_id e = [] then gid else pe_group_id e)\<rparr>)) es m) = broker_part m"
    by (rule fold_broker [where st = "\<lambda>m. m"]) (rule submit_broker)
  then show ?thesis by (simp add: submit_oco_group_def Let_def)
qed

lemma cancel_members_broker [simp]: "broker_part (snd (fold (cancel_member reason exclude) keys nm)) = broker_part (snd nm)"
  by (rule fold_broker) (simp add: snd_cancel_member)

lemma fill_entry_broker [simp]: "broker_part (fill_entry e p m) = broker_part m"
  by (simp add: fill_entry_def Let_def)

lemma write_back_broker [simp]: "broker_part (write_back e m) = broker_part m"
  by (simp add: write_back_def)

lemma check_entry_broker: "broker_part (check_entry now mc qs e m) = broker_part m"
  unfolding check_entry_def expire_entry_def check_price_def Let_def by (simp split: option.split)

lemma check_all_entries_broker [simp]: "broker_part (check_all_entries now mc qs m) = broker_part m"
  unfolding check_all_entries_def by (rule fold_broker [where st = "\<lambda>m. m"]) (rule check_entry_broker)

lemma exits_broker: "exits m1 m2 \<Longrightarrow> broker_part m = broker_part m1 \<Longrightarrow> exits m m2"
  by (simp add: exits_def broker_part_def tickets_ok_def)

lemma exits_same: "orders_ok m \<Longrightarrow> broker_part m' = broker_part m \<Longrightarrow> exits m m'"
  by (simp add: exits_def broker_part_def orders_ok_def)

lemma monitor_turn_exits:
  assumes "orders_ok m"
  shows "exits m (fst (monitor_turn port inspect now mc qs (m, b)))"
proof -
  let ?m1 = "check_all_entries now mc qs m" and ?m2 = "check_mt5_order_state inspect (check_all_entries now mc qs m)"
  have m1: "exits m ?m1" by (rule exits_same [OF assms]) simp
  then have "orders_ok ?m1" by (simp add: exits_def)
  then have m2: "exits ?m1 ?m2" using orders_exit(1) [of "(?m1, b)"] by simp
  then have "orders_ok ?m2" by (simp add: exits_def)
  then have "exits ?m2 (fst (snd (check_mt5_order_expiry port now (?m2, b))))" using orders_exit(2) [of "(?m2, b)"] by simp
  then have "exits m (fst (snd (check_mt5_order_expiry port now (?m2, b))))" by (rule exits_trans [OF exits_trans [OF m1 m2]])
  then show ?thesis by (simp add: monitor_turn_def)
qed

lemma cancel_by_symbol_exits:
  assumes "orders_ok m"
  shows "exits m (fst (snd (cancel_by_symbol port symbol reason exclude (m, b))))"
proof -
  let ?keys = "keys_to_cancel (primary_keys symbol exclude m) m"
  let ?m1 = "snd (fold cancel_pending_key ?keys ([], m))"
  let ?m2 = "fold (\<lambda>sid. call_expired sid (''pending_cancelled:'' @ reason)) (fst (fold cancel_pending_key ?keys ([], m))) ?m1"
  have "broker_part ?m1 = broker_part m"
    by (rule fold_broker [where st = snd, THEN trans]) (simp_all add: cancel_pending_key_def split: prod.split option.split)
  then have "broker_part ?m2 = broker_part m" by (simp add: broker_part_def)
  moreover from exits_same [OF assms this] have "orders_ok ?m2" by (simp add: exits_def)
  then have "exits ?m2 (fst (snd (cancel_mt5_orders_by_symbol port symbol reason exclude (?m2, b))))"
    using orders_exit(3) [of "(?m2, b)"] by simp
  then have "exits m (fst (snd (cancel_mt5_orders_by_symbol port symbol reason exclude (?m2, b))))"
    by (rule exits_broker) (rule calculation [symmetric])
  then show ?thesis by (simp add: cancel_by_symbol_def Let_def split_beta)
qed

lemma step_exits:
  assumes "orders_ok m" and "\<And>info. ev \<noteq> RestoreOrder info" and "\<And>info. ev \<noteq> TrackOrder info"
  shows "exits m (fst (pending_step pn ev (m, b)))"
proof (cases ev)
  case (CancelSymbol symbol reason exclude)
  then show ?thesis using cancel_by_symbol_exits [OF assms(1)] by simp
next
  case (MonitorTurn now qs)
  then show ?thesis using monitor_turn_exits [OF assms(1)] by simp
next
  case WorkerTurn
  then show ?thesis
    by (auto simp: fill_worker_step_def on_member_filled_handler_def cancel_by_group_def Let_def
        intro!: exits_same [OF assms(1)] split: list.splits prod.splits)
qed (use assms in \<open>auto simp: cancel_by_group_def restore_group_index_def shutdown_def clear_fill_queue_def Let_def intro!: exits_same\<close>)

lemma orders_ok_step:
  assumes "orders_ok (fst mb)"
  shows "orders_ok (fst (pending_step pn ev mb))"
proof -
  obtain m b where mb: "mb = (m, b)" by fastforce
  consider (restore) info where "ev = RestoreOrder info" | (track) info where "ev = TrackOrder info"
    | (other) "\<And>info. ev \<noteq> RestoreOrder info" "\<And>info. ev \<noteq> TrackOrder info" by blast
  then show ?thesis
  proof cases
    case other
    then show ?thesis using step_exits [of m ev pn b] assms by (simp add: mb exits_def)
  qed (use assms in \<open>auto simp: mb orders_ok_def restore_mt5_order_def track_mt5_order_def distinct_update\<close>)
qed

interpretation order_run: event_system "pending_step pn" "\<lambda>mb. orders_ok (fst mb)"
  by unfold_locales (rule orders_ok_step)

lemma orders_ok_after: "orders_ok (fst (pending_after pn evs b))"
  by (rule order_run.inv_run) (simp add: orders_ok_def PendingEntryManager_def)

text \<open>C10: no order disappears in silence. After any run, whatever the manager does next short of
  restoring an order from the store: an order that is tracked stays tracked under its key, or its
  end, filled, missing, expired or cancelled, is reported to the lifecycle hooks in this very step.\<close>

theorem no_order_lost:
  assumes "pending_after pn evs b0 = (m, b)" and "(k, info) \<in> set (pm_mt5_orders m)" and "\<And>i. ev \<noteq> RestoreOrder i"
    and "pending_step pn ev (m, b) = (m', b')"
  shows "(k, info) \<in> set (pm_mt5_orders m') \<or> (\<exists>hs. pm_hooks m' = pm_hooks m @ hs \<and> list_ex (ends info) hs)"
proof -
  have ok: "orders_ok m" using orders_ok_after [of pn evs b0] assms(1) by simp
  show ?thesis
  proof (cases "\<exists>i. ev = TrackOrder i")
    case True
    then show ?thesis using assms(2,4) ok
      by (auto simp: track_mt5_order_def orders_ok_def set_alist_update dest: weak_map_of_SomeI split: if_splits)
  next
    case False
    then have "exits m m'" using step_exits [OF ok, of ev pn b] assms(3,4) by simp
    then show ?thesis using assms(2) unfolding exits_def by fastforce
  qed
qed

text \<open>The answer the manager makes of what the inspector says.\<close>

definition order_status :: "(mt5_order \<Rightarrow> pydict res) \<Rightarrow> mt5_order \<Rightarrow> string" where
  "order_status inspect info = (case inspect info of Inl _ \<Rightarrow> ''pending''
     | Inr state \<Rightarrow> if state = [] then ''pending'' else inspected_status state)"

lemma inspected_pending: "inspected_status [(''status'', VStr ''pending'')] = ''pending''"
  by code_simp

lemma check_states_filter:
  assumes "distinct (map fst (ys @ xs))" and "pm_mt5_orders m = ys @ xs"
  shows "pm_mt5_orders (fold (check_order_state f) xs m) = ys @ filter (\<lambda>(_, i). order_status f i \<notin> {''filled'', ''missing''}) xs"
  using assms
proof (induction xs arbitrary: ys m)
  case (Cons x xs)
  obtain sid info where x: "x = (sid, info)" by fastforce
  have "map_of (pm_mt5_orders m) sid = Some info"
    using Cons.prems map_of_is_SomeI [of "pm_mt5_orders m" sid info] by (simp add: x)
  have keep: "sid \<notin> fst ` set zs \<Longrightarrow> filter (\<lambda>(k, _). sid \<noteq> k) zs = zs" for zs :: "(string \<times> mt5_order) list"
    by (rule filter_True) force
  have same: "same_order sid info m" using \<open>map_of (pm_mt5_orders m) sid = Some info\<close> by (simp add: same_order_def)
  have del: "AList.delete sid (pm_mt5_orders m) = ys @ xs" using Cons.prems by (simp add: x AList.delete_eq keep)
  show ?case
  proof (cases "order_status f info \<in> {''filled'', ''missing''}")
    case True
    then have "pm_mt5_orders (check_order_state f x m) = ys @ xs"
      using same del by (auto simp: check_order_state_def x order_status_def inspected_pending Let_def split: sum.splits if_splits)
    then show ?thesis using Cons.IH [of ys "check_order_state f x m"] Cons.prems(1) True by (simp add: x)
  next
    case False
    then have "check_order_state f x m = m"
      by (auto simp: check_order_state_def x order_status_def inspected_pending Let_def split: sum.splits if_splits)
    then show ?thesis using Cons.IH [of "ys @ [x]" m] Cons.prems False by (simp add: x)
  qed
qed simp

text \<open>C31: tracked orders are judged one by one. After any run, the state check keeps exactly the orders
  that the inspector does not report as filled or missing: the fill of one member of a group leaves
  its sibling working at the broker, and the check asks the broker to cancel nothing.\<close>

theorem order_check_ignores_siblings:
  assumes "pending_after pn evs b0 = (m, b)"
  shows "pm_mt5_orders (check_mt5_order_state (Some inspect) m) =
    filter (\<lambda>(_, i). order_status inspect i \<notin> {''filled'', ''missing''}) (pm_mt5_orders m)"
  using orders_ok_after [of pn evs b0] assms check_states_filter [of "[]" "pm_mt5_orders m" m inspect]
  by (simp add: check_mt5_order_state_def orders_ok_def)

theorem order_check_ignores_siblings_witness:
  "let m = fst (pending_after wait_env [TrackOrder (wait_order 7 ''s1#limit''), TrackOrder (wait_order 8 ''s1#stop'')] ())
   in pm_mt5_orders (check_mt5_order_state (Some wait_inspect) m) = [(''s1#stop'', wait_order 8 ''s1#stop'')]"
proof -
  let ?mb = "pending_after wait_env [TrackOrder (wait_order 7 ''s1#limit''), TrackOrder (wait_order 8 ''s1#stop'')] ()"
  have "filter (\<lambda>(_, i). order_status wait_inspect i \<notin> {''filled'', ''missing''}) (pm_mt5_orders (fst ?mb)) = [(''s1#stop'', wait_order 8 ''s1#stop'')]"
    by code_simp
  then show ?thesis
    using order_check_ignores_siblings [OF prod.collapse [symmetric], of wait_inspect wait_env _ "()"] by (simp only: Let_def)
qed

theorem no_order_lost_witness:
  "\<exists>hs. pm_hooks (fst (pending_step wait_env (MonitorTurn 50 wait_quotes)
      (pending_after wait_env [TrackOrder (wait_order 7 ''s1#limit''), TrackOrder (wait_order 8 ''s1#stop'')] ()))) =
    [OnTracked (wait_order 7 ''s1#limit''), OnTracked (wait_order 8 ''s1#stop'')] @ hs \<and> list_ex (ends (wait_order 7 ''s1#limit'')) hs"
proof -
  let ?mb = "pending_after wait_env [TrackOrder (wait_order 7 ''s1#limit''), TrackOrder (wait_order 8 ''s1#stop'')] ()"
  have tracked: "(''s1#limit'', wait_order 7 ''s1#limit'') \<in> set (pm_mt5_orders (fst ?mb))"
    and gone: "(''s1#limit'', wait_order 7 ''s1#limit'') \<notin> set (pm_mt5_orders (fst (pending_step wait_env (MonitorTurn 50 wait_quotes) ?mb)))"
    and hooks: "pm_hooks (fst ?mb) = [OnTracked (wait_order 7 ''s1#limit''), OnTracked (wait_order 8 ''s1#stop'')]" by code_simp+
  have "(''s1#limit'', wait_order 7 ''s1#limit'') \<in> set (pm_mt5_orders (fst (pending_step wait_env (MonitorTurn 50 wait_quotes) (fst ?mb, snd ?mb)))) \<or>
      (\<exists>hs. pm_hooks (fst (pending_step wait_env (MonitorTurn 50 wait_quotes) (fst ?mb, snd ?mb))) = pm_hooks (fst ?mb) @ hs \<and>
        list_ex (ends (wait_order 7 ''s1#limit'')) hs)"
    by (rule no_order_lost [OF prod.collapse [symmetric] tracked _ prod.collapse [symmetric]]) simp
  with gone show ?thesis by (simp only: prod.collapse hooks) blast
qed

end
