(* ===== verification/Entry_Policy.thy ===== *)
theory Entry_Policy
  imports Trade_Executor
begin

text \<open>
  Entry policies (\<open>trading/entry_policy\<close>, \<open>config/models/entry_policy.py\<close>, the factory
  \<open>app_runtime/factories/entry_policies.py\<close> and the part of \<open>trading/execution/entry_dispatch.py\<close> that
  calls them): from the intent of a signal and a snapshot of the market to the group of orders to
  place. The identifier of a group, a random UUID, is an argument; the audit record of a decision and
  the descriptions for the API are left out, and error messages are abridged.
\<close>

section \<open>Patterns\<close>

datatype pattern_type =
    P_NONE | PIN_BULL | PIN_BEAR | HAMMER | SHOOTING_STAR | ENGULFING_BULL | ENGULFING_BEAR | BIG_BAR_BULL | BIG_BAR_BEAR
  | THREE_SOLDIERS | THREE_CROWS | REJECTION_BULL | REJECTION_BEAR | SWEEP_REVERSAL | BREAKOUT_BULL | BREAKOUT_BEAR
  | TRENDLINE_TOUCH_BULL | TRENDLINE_TOUCH_BEAR

definition pattern_values :: "(pattern_type \<times> string) list" where
  "pattern_values =
    [(P_NONE, ''none''), (PIN_BULL, ''pin_bull''), (PIN_BEAR, ''pin_bear''), (HAMMER, ''hammer''), (SHOOTING_STAR, ''shooting_star''),
     (ENGULFING_BULL, ''engulfing_bull''), (ENGULFING_BEAR, ''engulfing_bear''), (BIG_BAR_BULL, ''big_bar_bull''),
     (BIG_BAR_BEAR, ''big_bar_bear''), (THREE_SOLDIERS, ''three_soldiers''), (THREE_CROWS, ''three_crows''),
     (REJECTION_BULL, ''rejection_bull''), (REJECTION_BEAR, ''rejection_bear''), (SWEEP_REVERSAL, ''sweep_reversal''),
     (BREAKOUT_BULL, ''breakout_bull''), (BREAKOUT_BEAR, ''breakout_bear''), (TRENDLINE_TOUCH_BULL, ''trendline_touch_bull''),
     (TRENDLINE_TOUCH_BEAR, ''trendline_touch_bear'')]"

definition pattern_value :: "pattern_type \<Rightarrow> string" where
  "pattern_value p = (case map_of pattern_values p of Some v \<Rightarrow> v | None \<Rightarrow> [])"

text \<open>\<open>PatternType(value)\<close>, with no pattern where it raises.\<close>

definition pattern_of :: "pyval \<Rightarrow> pattern_type" where
  "pattern_of v = (case List.find (\<lambda>(_, s). v = VStr s) pattern_values of Some (p, _) \<Rightarrow> p | None \<Rightarrow> P_NONE)"

section \<open>Intent and market\<close>

record bar_snapshot =
  bs_open :: rat
  bs_high :: rat
  bs_low :: rat
  bs_close :: rat
  bs_volume :: rat
  bs_time :: pyval

definition dict_index :: "pydict \<Rightarrow> string \<Rightarrow> pyval res" where
  "dict_index d k = (case map_of d k of Some v \<Rightarrow> ok v | None \<Rightarrow> raise (KeyError k))"

definition from_mapping :: "(string \<Rightarrow> rat option) \<Rightarrow> pydict \<Rightarrow> bar_snapshot res" where
  "from_mapping pf raw =
    (let field = (\<lambda>k. rbind (dict_index raw k) (py_float_of pf))
     in rbind (field ''open'') (\<lambda>op. rbind (field ''high'') (\<lambda>hi. rbind (field ''low'') (\<lambda>lo. rbind (field ''close'') (\<lambda>cl.
        rbind (py_float_of pf (py_or (dget raw ''volume'') (VFloat 0))) (\<lambda>vol.
          ok \<lparr>bs_open = op, bs_high = hi, bs_low = lo, bs_close = cl, bs_volume = vol, bs_time = dget raw ''time''\<rparr>))))))"

definition body_low :: "bar_snapshot \<Rightarrow> rat" where
  "body_low b = min (bs_open b) (bs_close b)"

definition body_high :: "bar_snapshot \<Rightarrow> rat" where
  "body_high b = max (bs_open b) (bs_close b)"

definition bar_mid :: "bar_snapshot \<Rightarrow> rat" where
  "bar_mid b = fl (fl (bs_high b + bs_low b) / 2)"

record entry_intent =
  ei_strategy_name :: string
  ei_timeframe :: string
  ei_direction :: string
  ei_confidence :: rat
  ei_bar_time :: datetime
  ei_pattern_type :: pattern_type
  ei_signal_metadata :: pydict

record market_snapshot =
  ms_recent_bars :: "bar_snapshot list"
  ms_atr_value :: rat
  ms_current_close :: rat
  ms_current_atr_source :: string
  ms_market_structure :: pydict

definition MarketSnapshot :: "bar_snapshot list \<Rightarrow> rat \<Rightarrow> rat \<Rightarrow> string \<Rightarrow> pydict \<Rightarrow> market_snapshot res" where
  "MarketSnapshot bars atr close source structure =
    (if atr \<le> 0 then raise (ValueError ''MarketSnapshot.atr_value must be > 0'')
     else if bars = [] then raise (ValueError ''MarketSnapshot.recent_bars must contain at least 1 bar'')
     else ok \<lparr>ms_recent_bars = bars, ms_atr_value = atr, ms_current_close = close, ms_current_atr_source = source,
            ms_market_structure = structure\<rparr>)"

definition signal_bar :: "market_snapshot \<Rightarrow> bar_snapshot" where
  "signal_bar ms = last (ms_recent_bars ms)"

definition prev_bar :: "market_snapshot \<Rightarrow> bar_snapshot option" where
  "prev_bar ms = (if length (ms_recent_bars ms) < 2 then None else Some (ms_recent_bars ms ! (length (ms_recent_bars ms) - 2)))"

section \<open>Groups\<close>

definition EntrySpecGroup :: "string \<Rightarrow> entry_member list \<Rightarrow> string \<Rightarrow> pydict \<Rightarrow> entry_group res" where
  "EntrySpecGroup gid members cancellation metadata =
    (if members = [] then raise (ValueError ''EntrySpecGroup.members must contain at least 1 member'')
     else if \<not> distinct (map em_member_id members) then raise (ValueError ''EntrySpecGroup.members has duplicate member_id'')
     else ok \<lparr>eg_group_id = gid, eg_members = members, eg_cancellation_policy = cancellation, eg_metadata = metadata\<rparr>)"

section \<open>Parameters\<close>

definition params_get_float :: "(string \<Rightarrow> rat option) \<Rightarrow> pydict \<Rightarrow> string \<Rightarrow> rat \<Rightarrow> rat" where
  "params_get_float pf params key dflt = (case map_of params key of None \<Rightarrow> dflt
     | Some v \<Rightarrow> (case py_float_of pf v of Inr x \<Rightarrow> x | Inl _ \<Rightarrow> dflt))"

definition params_get_int :: "pydict \<Rightarrow> string \<Rightarrow> int \<Rightarrow> int" where
  "params_get_int params key dflt = (case map_of params key of None \<Rightarrow> dflt
     | Some v \<Rightarrow> (case py_int_of v of Inr n \<Rightarrow> n | Inl _ \<Rightarrow> dflt))"

definition params_get_validity :: "pydict \<Rightarrow> string \<Rightarrow> int option" where
  "params_get_validity params tf = (case map_of params (''validity_bars_'' @ tf) of None \<Rightarrow> None
     | Some v \<Rightarrow> (case py_int_of v of Inr n \<Rightarrow> Some n | Inl _ \<Rightarrow> None))"

text \<open>\<open>xs[-n:]\<close> for a positive \<open>n\<close>.\<close>

definition last_n :: "int \<Rightarrow> 'a list \<Rightarrow> 'a list" where
  "last_n n xs = drop (length xs - nat n) xs"

text \<open>A member of a policy that sets a zone around its trigger price.\<close>

definition zone_member :: "string \<Rightarrow> entry_type \<Rightarrow> rat \<Rightarrow> rat \<Rightarrow> int option \<Rightarrow> entry_member" where
  "zone_member member_id kind trigger zone_half validity =
    \<lparr>em_member_id = member_id, em_entry_type = kind, em_trigger_price = pyround trigger 6,
     em_entry_low = pyround (fl (trigger - zone_half)) 6, em_entry_high = pyround (fl (trigger + zone_half)) 6,
     em_validity_bars = validity\<rparr>"

section \<open>Market policy\<close>

definition market_derive :: "string \<Rightarrow> entry_intent \<Rightarrow> market_snapshot \<Rightarrow> entry_group res" where
  "market_derive gid intent market =
    (let price = ms_current_close market
     in EntrySpecGroup gid [\<lparr>em_member_id = ''market'', em_entry_type = MARKET, em_trigger_price = price, em_entry_low = price,
            em_entry_high = price, em_validity_bars = None\<rparr>] ''any_fill''
          [(''policy_name'', VStr ''market''), (''branch'', VStr ''market''),
           (''pattern_type'', VStr (pattern_value (ei_pattern_type intent)))])"

section \<open>Pullback policy\<close>

definition default_offsets :: "(pattern_type \<times> rat) list" where
  "default_offsets = [(PIN_BULL, fl (5/100)), (PIN_BEAR, fl (5/100)), (HAMMER, fl (5/100)), (SHOOTING_STAR, fl (5/100)),
     (ENGULFING_BULL, fl (1/10)), (ENGULFING_BEAR, fl (1/10)), (BIG_BAR_BULL, fl (1/10)), (BIG_BAR_BEAR, fl (1/10)),
     (THREE_SOLDIERS, fl (15/100)), (THREE_CROWS, fl (15/100)), (REJECTION_BULL, fl (2/10)), (REJECTION_BEAR, fl (2/10)),
     (SWEEP_REVERSAL, fl (15/100)), (TRENDLINE_TOUCH_BULL, fl (1/10)), (TRENDLINE_TOUCH_BEAR, fl (1/10))]"

definition resolve_branch_offset :: "(string \<Rightarrow> rat option) \<Rightarrow> pydict \<Rightarrow> pattern_type \<Rightarrow> rat" where
  "resolve_branch_offset pf params p =
    params_get_float pf params (''branch_'' @ pattern_value p @ ''_offset'')
      (case map_of default_offsets p of Some x \<Rightarrow> x | None \<Rightarrow> fl (3/10))"

definition anchor_pin_or_hammer_bull :: "bar_snapshot \<Rightarrow> rat \<Rightarrow> rat" where
  "anchor_pin_or_hammer_bull b wick_pct = fl (bs_low b + fl (fl (body_low b - bs_low b) * wick_pct))"

definition anchor_pin_or_shooting_bear :: "bar_snapshot \<Rightarrow> rat \<Rightarrow> rat" where
  "anchor_pin_or_shooting_bear b wick_pct = fl (bs_high b - fl (fl (bs_high b - body_high b) * wick_pct))"

definition anchor_engulfing :: "bar_snapshot option \<Rightarrow> rat \<Rightarrow> bool \<Rightarrow> rat" where
  "anchor_engulfing prev fallback is_bull = (case prev of None \<Rightarrow> fallback | Some b \<Rightarrow> if is_bull then bs_high b else bs_low b)"

definition anchor_body_50pct :: "bar_snapshot \<Rightarrow> rat" where
  "anchor_body_50pct b = fl (fl (body_low b + body_high b) / 2)"

definition anchor_three_method :: "bar_snapshot list \<Rightarrow> rat \<Rightarrow> rat" where
  "anchor_three_method bars fallback = (if length bars < 3 then fallback else bs_close (bars ! (length bars - 3)))"

definition anchor_rejection :: "bar_snapshot \<Rightarrow> rat \<Rightarrow> rat \<Rightarrow> bool \<Rightarrow> rat" where
  "anchor_rejection b atr buffer_atr is_bull =
    (if is_bull then fl (bs_low b + fl (buffer_atr * atr)) else fl (bs_high b - fl (buffer_atr * atr)))"

definition anchor_trendline :: "(string \<Rightarrow> rat option) \<Rightarrow> entry_intent \<Rightarrow> rat \<Rightarrow> rat" where
  "anchor_trendline pf intent fallback =
    (case float_or_none pf (dget (ei_signal_metadata intent) ''trendline_price'') of None \<Rightarrow> fallback | Some x \<Rightarrow> x)"

definition compute_anchor :: "(string \<Rightarrow> rat option) \<Rightarrow> entry_intent \<Rightarrow> market_snapshot \<Rightarrow> rat \<Rightarrow> rat \<times> string" where
  "compute_anchor pf intent market wick_pct =
    (let pattern = ei_pattern_type intent; b = signal_bar market; fallback = ms_current_close market; label = pattern_value pattern
     in if pattern \<in> {PIN_BULL, HAMMER} then (anchor_pin_or_hammer_bull b wick_pct, label)
        else if pattern \<in> {PIN_BEAR, SHOOTING_STAR} then (anchor_pin_or_shooting_bear b wick_pct, label)
        else if pattern = ENGULFING_BULL then (anchor_engulfing (prev_bar market) fallback True, label)
        else if pattern = ENGULFING_BEAR then (anchor_engulfing (prev_bar market) fallback False, label)
        else if pattern \<in> {BIG_BAR_BULL, BIG_BAR_BEAR} then (anchor_body_50pct b, label)
        else if pattern \<in> {THREE_SOLDIERS, THREE_CROWS} then (anchor_three_method (ms_recent_bars market) fallback, label)
        else if pattern = REJECTION_BULL then (anchor_rejection b (ms_atr_value market) (fl (2/10)) True, label)
        else if pattern = REJECTION_BEAR then (anchor_rejection b (ms_atr_value market) (fl (2/10)) False, label)
        else if pattern = SWEEP_REVERSAL then (bar_mid b, label)
        else if pattern \<in> {TRENDLINE_TOUCH_BULL, TRENDLINE_TOUCH_BEAR} then (anchor_trendline pf intent fallback, label)
        else (fallback, ''fallback''))"

definition pullback_trigger :: "(string \<Rightarrow> rat option) \<Rightarrow> entry_intent \<Rightarrow> market_snapshot \<Rightarrow> pydict \<Rightarrow> rat" where
  "pullback_trigger pf intent market params =
    (let offset = fl (resolve_branch_offset pf params (ei_pattern_type intent) * ms_atr_value market);
         anchor = fst (compute_anchor pf intent market (params_get_float pf params ''wick_pct'' (fl (5/10))))
     in if ei_direction intent = ''buy'' then fl (anchor + offset) else fl (anchor - offset))"

definition pullback_derive :: "(string \<Rightarrow> rat option) \<Rightarrow> string \<Rightarrow> entry_intent \<Rightarrow> market_snapshot \<Rightarrow> pydict \<Rightarrow> entry_group res" where
  "pullback_derive pf gid intent market params =
    (let zone_atr = params_get_float pf params ''zone_atr'' (fl (1/10));
         (anchor, branch) = compute_anchor pf intent market (params_get_float pf params ''wick_pct'' (fl (5/10)));
         m = zone_member ''limit_pullback'' LIMIT (pullback_trigger pf intent market params) (fl (zone_atr * ms_atr_value market))
               (params_get_validity params (ei_timeframe intent))
     in EntrySpecGroup gid [m] ''any_fill''
          [(''policy_name'', VStr ''pullback''), (''branch'', VStr branch),
           (''pattern_type'', VStr (pattern_value (ei_pattern_type intent))), (''anchor'', VFloat (pyround anchor 6)),
           (''offset_atr'', VFloat (resolve_branch_offset pf params (ei_pattern_type intent))), (''zone_atr'', VFloat zone_atr)])"

section \<open>Breakout policy\<close>

text \<open>\<open>max(xs)\<close> and \<open>min(xs)\<close> of a list that is not empty.\<close>

definition py_max :: "rat list \<Rightarrow> rat" where
  "py_max xs = fold max (tl xs) (hd xs)"

definition py_min :: "rat list \<Rightarrow> rat" where
  "py_min xs = fold min (tl xs) (hd xs)"

definition breakout_lookback :: "pydict \<Rightarrow> int" where
  "breakout_lookback params = max 1 (params_get_int params ''lookback_bars'' 1)"

definition breakout_bars :: "market_snapshot \<Rightarrow> pydict \<Rightarrow> bar_snapshot list" where
  "breakout_bars market params =
    (let recent = last_n (breakout_lookback params) (ms_recent_bars market) in if recent = [] then [signal_bar market] else recent)"

definition breakout_extreme :: "entry_intent \<Rightarrow> market_snapshot \<Rightarrow> pydict \<Rightarrow> rat" where
  "breakout_extreme intent market params =
    (let recent = breakout_bars market params
     in if ei_direction intent = ''buy'' then py_max (map bs_high recent) else py_min (map bs_low recent))"

definition breakout_trigger :: "(string \<Rightarrow> rat option) \<Rightarrow> entry_intent \<Rightarrow> market_snapshot \<Rightarrow> pydict \<Rightarrow> rat" where
  "breakout_trigger pf intent market params =
    (let buffer = fl (params_get_float pf params ''buffer_atr'' (fl (5/100)) * ms_atr_value market);
         extreme = breakout_extreme intent market params
     in if ei_direction intent = ''buy'' then fl (extreme + buffer) else fl (extreme - buffer))"

definition breakout_derive :: "(string \<Rightarrow> rat option) \<Rightarrow> string \<Rightarrow> entry_intent \<Rightarrow> market_snapshot \<Rightarrow> pydict \<Rightarrow> entry_group res" where
  "breakout_derive pf gid intent market params =
    (let zone_atr = params_get_float pf params ''zone_atr'' (fl (5/100)); lookback = breakout_lookback params;
         m = zone_member ''stop_breakout'' STOP (breakout_trigger pf intent market params) (fl (zone_atr * ms_atr_value market))
               (params_get_validity params (ei_timeframe intent))
     in EntrySpecGroup gid [m] ''any_fill''
          [(''policy_name'', VStr ''breakout''), (''branch'', VStr (''breakout_lookback_'' @ int_str lookback)),
           (''pattern_type'', VStr (pattern_value (ei_pattern_type intent))),
           (''extreme'', VFloat (pyround (breakout_extreme intent market params) 6)),
           (''buffer_atr'', VFloat (params_get_float pf params ''buffer_atr'' (fl (5/100)))), (''zone_atr'', VFloat zone_atr),
           (''lookback_bars'', VInt lookback)])"

section \<open>Fibonacci policy\<close>

definition default_fib_levels :: "rat list" where
  "default_fib_levels = [fl (382/1000), fl (5/10), fl (618/1000)]"

fun floats_of :: "(string \<Rightarrow> rat option) \<Rightarrow> pyval list \<Rightarrow> rat list option" where
  "floats_of pf [] = Some []"
| "floats_of pf (v # vs) = (case (py_float_of pf v, floats_of pf vs) of (Inr x, Some xs) \<Rightarrow> Some (x # xs) | _ \<Rightarrow> None)"

definition params_get_fib_levels :: "(string \<Rightarrow> rat option) \<Rightarrow> pydict \<Rightarrow> rat list" where
  "params_get_fib_levels pf params = (case dget params ''fib_levels'' of
      VList raw \<Rightarrow> (case floats_of pf raw of
          None \<Rightarrow> default_fib_levels
        | Some cleaned \<Rightarrow> let valid = filter (\<lambda>l. 0 < l \<and> l < 1) cleaned in if valid = [] then default_fib_levels else valid)
    | _ \<Rightarrow> default_fib_levels)"

definition fib_candidate :: "string \<Rightarrow> rat \<Rightarrow> rat \<Rightarrow> rat \<Rightarrow> rat" where
  "fib_candidate direction swing_high swing_low level =
    (let swing_range = fl (swing_high - swing_low)
     in if direction = ''buy'' then fl (swing_high - fl (level * swing_range)) else fl (swing_low + fl (level * swing_range)))"

definition fib_untouched :: "string \<Rightarrow> rat \<Rightarrow> rat \<Rightarrow> bool" where
  "fib_untouched direction current candidate = (if direction = ''buy'' then candidate < current else current < candidate)"

text \<open>The loop over the levels: the last level the price has not passed.\<close>

definition fib_choose :: "string \<Rightarrow> rat \<Rightarrow> rat \<Rightarrow> rat \<Rightarrow> rat list \<Rightarrow> rat option" where
  "fib_choose direction swing_high swing_low current levels =
    fold (\<lambda>level chosen. if fib_untouched direction current (fib_candidate direction swing_high swing_low level)
      then Some level else chosen) levels None"

definition fib_recent :: "market_snapshot \<Rightarrow> pydict \<Rightarrow> bar_snapshot list" where
  "fib_recent market params =
    (if 2 \<le> length (ms_recent_bars market) then last_n (max 2 (params_get_int params ''swing_lookback'' 20)) (ms_recent_bars market)
     else ms_recent_bars market)"

text \<open>Trigger price and level.\<close>

definition fib_trigger :: "(string \<Rightarrow> rat option) \<Rightarrow> entry_intent \<Rightarrow> market_snapshot \<Rightarrow> pydict \<Rightarrow> rat \<times> rat" where
  "fib_trigger pf intent market params =
    (let levels = params_get_fib_levels pf params; recent = fib_recent market params;
         swing_high = py_max (map bs_high recent); swing_low = py_min (map bs_low recent);
         candidate = fib_candidate (ei_direction intent) swing_high swing_low
     in if fl (swing_high - swing_low) \<le> 0 \<or> length recent < 2 then (ms_current_close market, 0)
        else case fib_choose (ei_direction intent) swing_high swing_low (ms_current_close market) levels of
          Some level \<Rightarrow> (candidate level, level)
        | None \<Rightarrow> (candidate (last levels), last levels))"

definition fib_derive :: "(string \<Rightarrow> rat option) \<Rightarrow> string \<Rightarrow> entry_intent \<Rightarrow> market_snapshot \<Rightarrow> pydict \<Rightarrow> entry_group res" where
  "fib_derive pf gid intent market params =
    (let zone_atr = params_get_float pf params ''zone_atr'' (fl (1/10)); (trigger, level) = fib_trigger pf intent market params;
         recent = fib_recent market params;
         m = zone_member ''limit_fib_pullback'' LIMIT trigger (fl (zone_atr * ms_atr_value market))
               (params_get_validity params (ei_timeframe intent))
     in EntrySpecGroup gid [m] ''any_fill''
          [(''policy_name'', VStr ''fib_pullback''), (''branch'', VStr (''fib_'' @ repr_float level)),
           (''pattern_type'', VStr (pattern_value (ei_pattern_type intent))),
           (''swing_high'', VFloat (pyround (py_max (map bs_high recent)) 6)),
           (''swing_low'', VFloat (pyround (py_min (map bs_low recent)) 6)),
           (''fib_level'', VFloat level), (''lookback_bars'', VInt (max 2 (params_get_int params ''swing_lookback'' 20)))])"

section \<open>Either-or policy\<close>

definition resolve_cancellation_policy :: "pydict \<Rightarrow> string" where
  "resolve_cancellation_policy params =
    (let raw = lower (strip (py_str (case map_of params ''cancellation_policy'' of None \<Rightarrow> VStr ''any_fill'' | Some v \<Rightarrow> v)))
     in if raw = ''all_or_none'' then ''all_or_none'' else ''any_fill'')"

definition filter_prefix :: "pydict \<Rightarrow> string \<Rightarrow> pydict" where
  "filter_prefix params prefix =
    map (\<lambda>(k, v). (drop (length prefix) k, v)) (filter (\<lambda>(k, _). starts_with k prefix \<and> drop (length prefix) k \<noteq> []) params)"

definition oco_derive :: "(string \<Rightarrow> rat option) \<Rightarrow> string \<Rightarrow> entry_intent \<Rightarrow> market_snapshot \<Rightarrow> pydict \<Rightarrow> entry_group res" where
  "oco_derive pf gid intent market params =
    rbind (pullback_derive pf gid intent market (filter_prefix params ''pullback_'')) (\<lambda>pullback_group.
      rbind (breakout_derive pf gid intent market (filter_prefix params ''breakout_'')) (\<lambda>breakout_group.
        case (eg_members pullback_group, eg_members breakout_group) of
          ([pullback_member], [breakout_member]) \<Rightarrow>
            EntrySpecGroup gid [pullback_member, breakout_member] (resolve_cancellation_policy params)
              [(''policy_name'', VStr ''oco_pullback_breakout''), (''branch'', VStr ''oco_a_plus_b''),
               (''pattern_type'', VStr (pattern_value (ei_pattern_type intent))),
               (''pullback_meta'', VDict (eg_metadata pullback_group)), (''breakout_meta'', VDict (eg_metadata breakout_group))]
        | _ \<Rightarrow> raise (RuntimeError ''OcoEntryPolicy expects sub-policies to return single-member groups'')))"

section \<open>Configuration and registry\<close>

record entry_policy_config =
  pc_enabled_policies :: "string list"
  pc_default_policy :: string
  pc_strategy_mapping :: "(string \<times> string) list"
  pc_strategy_tf_mapping :: "((string \<times> string) \<times> string) list"
  pc_policy_params :: "(string \<times> pydict) list"
  pc_policy_tf_params :: "((string \<times> string) \<times> pydict) list"
  pc_fill_semantics_tie_break :: string

definition known_timeframes :: "string list" where
  "known_timeframes = [''M1'', ''M5'', ''M15'', ''M30'', ''H1'', ''H4'', ''D1'', ''W1'', ''MN1'']"

definition validate_entry_config :: "entry_policy_config \<Rightarrow> unit res" where
  "validate_entry_config pc =
    (let enabled = pc_enabled_policies pc
     in if enabled = [] then raise (ValueError ''enabled_policies cannot be empty'')
        else if \<not> distinct enabled then raise (ValueError ''enabled_policies has duplicates'')
        else if strip (pc_default_policy pc) = [] then raise (ValueError ''default_policy cannot be empty'')
        else if pc_default_policy pc \<notin> set enabled then raise (ValueError ''default_policy not in enabled_policies'')
        else if \<not> list_all (\<lambda>(_, name). name \<in> set enabled) (pc_strategy_mapping pc)
        then raise (ValueError ''strategy_mapping not in enabled_policies'')
        else if \<not> list_all (\<lambda>((_, tf), name). tf \<in> set known_timeframes \<and> name \<in> set enabled) (pc_strategy_tf_mapping pc)
        then raise (ValueError ''strategy_tf_mapping'')
        else if \<not> list_all (\<lambda>((_, tf), _). tf \<in> set known_timeframes) (pc_policy_tf_params pc)
        then raise (ValueError ''policy_tf_params: unknown timeframe'')
        else ok ())"

datatype entry_policy = MarketEntryPolicy | PullbackEntryPolicy | BreakoutEntryPolicy | OcoEntryPolicy | FibPullbackEntryPolicy

definition policy_name :: "entry_policy \<Rightarrow> string" where
  "policy_name p = (case p of MarketEntryPolicy \<Rightarrow> ''market'' | PullbackEntryPolicy \<Rightarrow> ''pullback'' | BreakoutEntryPolicy \<Rightarrow> ''breakout''
     | OcoEntryPolicy \<Rightarrow> ''oco_pullback_breakout'' | FibPullbackEntryPolicy \<Rightarrow> ''fib_pullback'')"

definition derive :: "(string \<Rightarrow> rat option) \<Rightarrow> string \<Rightarrow> entry_policy \<Rightarrow> entry_intent \<Rightarrow> market_snapshot \<Rightarrow> pydict \<Rightarrow> entry_group res" where
  "derive pf gid p intent market params = (case p of
      MarketEntryPolicy \<Rightarrow> market_derive gid intent market
    | PullbackEntryPolicy \<Rightarrow> pullback_derive pf gid intent market params
    | BreakoutEntryPolicy \<Rightarrow> breakout_derive pf gid intent market params
    | OcoEntryPolicy \<Rightarrow> oco_derive pf gid intent market params
    | FibPullbackEntryPolicy \<Rightarrow> fib_derive pf gid intent market params)"

record entry_registry =
  er_policies :: "(string \<times> entry_policy) list"
  er_config :: entry_policy_config

definition validate_invariants :: "entry_registry \<Rightarrow> unit res" where
  "validate_invariants er =
    (let registered = map fst (er_policies er); pc = er_config er
     in if pc_default_policy pc \<notin> set registered then raise (KeyError ''default_policy'')
        else if \<not> list_all (\<lambda>(_, name). name \<in> set registered) (pc_strategy_mapping pc) then raise (KeyError ''strategy_mapping'')
        else if \<not> list_all (\<lambda>(_, name). name \<in> set registered) (pc_strategy_tf_mapping pc) then raise (KeyError ''strategy_tf_mapping'')
        else ok ())"

definition EntryPolicyRegistry :: "(string \<times> entry_policy) list \<Rightarrow> entry_policy_config \<Rightarrow> entry_registry res" where
  "EntryPolicyRegistry policies pc =
    (let er = \<lparr>er_policies = policies, er_config = pc\<rparr> in rbind (validate_invariants er) (\<lambda>_. ok er))"

definition built_in_policy_factories :: "(string \<times> entry_policy) list" where
  "built_in_policy_factories = [(''market'', MarketEntryPolicy), (''pullback'', PullbackEntryPolicy), (''breakout'', BreakoutEntryPolicy),
     (''oco_pullback_breakout'', OcoEntryPolicy), (''fib_pullback'', FibPullbackEntryPolicy)]"

fun assemble_policies :: "string list \<Rightarrow> (string \<times> entry_policy) list \<Rightarrow> (string \<times> entry_policy) list res" where
  "assemble_policies [] policies = ok policies"
| "assemble_policies (name # names) policies = (case map_of built_in_policy_factories name of
      None \<Rightarrow> raise (KeyError ''enabled policy has no built-in factory'')
    | Some p \<Rightarrow> assemble_policies names (AList.update name p policies))"

definition build_entry_policy_registry :: "entry_policy_config \<Rightarrow> entry_registry res" where
  "build_entry_policy_registry pc =
    rbind (assemble_policies (pc_enabled_policies pc) []) (\<lambda>policies. EntryPolicyRegistry policies pc)"

definition resolve_policy_name :: "entry_registry \<Rightarrow> string \<Rightarrow> string \<Rightarrow> string res" where
  "resolve_policy_name er strategy tf = (case map_of (pc_strategy_tf_mapping (er_config er)) (strategy, tf) of
      Some name \<Rightarrow> ok name
    | None \<Rightarrow> (case map_of (pc_strategy_mapping (er_config er)) strategy of
        Some name \<Rightarrow> ok name
      | None \<Rightarrow> raise (KeyError ''no entry policy mapping declared'')))"

definition resolve :: "entry_registry \<Rightarrow> string \<Rightarrow> string \<Rightarrow> entry_policy res" where
  "resolve er strategy tf = rbind (resolve_policy_name er strategy tf) (\<lambda>name.
     case map_of (er_policies er) name of Some p \<Rightarrow> ok p | None \<Rightarrow> raise (KeyError ''policy requested by mapping but not registered''))"

definition resolve_params :: "entry_registry \<Rightarrow> string \<Rightarrow> string \<Rightarrow> pydict" where
  "resolve_params er name tf =
    dmerge (case map_of (pc_policy_params (er_config er)) name of None \<Rightarrow> [] | Some d \<Rightarrow> d)
      (case map_of (pc_policy_tf_params (er_config er)) (name, tf) of None \<Rightarrow> [] | Some d \<Rightarrow> d)"

section \<open>Dispatch\<close>

definition build_entry_intent :: "int \<Rightarrow> signal_event \<Rightarrow> entry_intent option" where
  "build_entry_intent now ev = (case dget (sg_metadata ev) ''entry_intent'' of
      VDict raw \<Rightarrow>
        let direction = py_or (dget raw ''direction'') (VStr (sg_direction ev));
            bar_time = py_or (dget (sg_metadata ev) ''bar_time'') (VTime (sg_generated_at ev))
        in if direction \<notin> {VStr ''buy'', VStr ''sell''} then None
           else Some \<lparr>ei_strategy_name = py_str (py_or (dget raw ''strategy_name'') (VStr (sg_strategy ev))),
             ei_timeframe = py_str (py_or (dget raw ''timeframe'') (VStr (sg_timeframe ev))),
             ei_direction = (if direction = VStr ''buy'' then ''buy'' else ''sell''), ei_confidence = sg_confidence ev,
             ei_bar_time = (case bar_time of VTime t \<Rightarrow> t | _ \<Rightarrow> Datetime now (Some 0)),
             ei_pattern_type = pattern_of (py_or (dget raw ''pattern_type'') (VStr ''none'')), ei_signal_metadata = raw\<rparr>
    | _ \<Rightarrow> None)"

definition bars_of :: "(string \<Rightarrow> rat option) \<Rightarrow> pyval list \<Rightarrow> bar_snapshot list" where
  "bars_of pf raw_bars = List.map_filter (\<lambda>raw. case raw of
      VDict d \<Rightarrow> (case from_mapping pf d of Inr b \<Rightarrow> Some b | Inl _ \<Rightarrow> None) | _ \<Rightarrow> None) raw_bars"

definition build_market_snapshot :: "(string \<Rightarrow> rat option) \<Rightarrow> signal_event \<Rightarrow> trade_parameters \<Rightarrow> market_snapshot option res" where
  "build_market_snapshot pf ev params =
    (if tp_atr_value params \<le> 0 then ok None
     else case dget (sg_metadata ev) ''recent_bars'' of
       VList raw_bars \<Rightarrow>
         let bars = bars_of pf raw_bars
         in if bars = [] then ok None
            else rbind (py_float_of pf (py_or (dget (sg_metadata ev) ''close_price'') (VFloat (bs_close (last bars))))) (\<lambda>close.
              rbind (MarketSnapshot bars (tp_atr_value params) close
                  (py_str (py_or (dget (sg_metadata ev) ''intrabar_atr_source'') (VStr ''confirmed'')))
                  (case dget (sg_metadata ev) ''market_structure'' of VDict d \<Rightarrow> d | _ \<Rightarrow> [])) (\<lambda>ms. ok (Some ms)))
     | _ \<Rightarrow> ok None)"

text \<open>What \<open>ensure_entry_spec_group\<close> derives for a signal that carries no group yet. Without a pending
  manager there is no registry.\<close>

definition derive_entry_group :: "(string \<Rightarrow> rat option) \<Rightarrow> int \<Rightarrow> string \<Rightarrow> entry_registry option \<Rightarrow> signal_event \<Rightarrow> trade_parameters \<Rightarrow>
    entry_group option res" where
  "derive_entry_group pf now gid registry ev params = (case registry of
      None \<Rightarrow> ok None
    | Some er \<Rightarrow> (case build_entry_intent now ev of
        None \<Rightarrow> ok None
      | Some intent \<Rightarrow> rbind (build_market_snapshot pf ev params) (\<lambda>ms. case ms of
          None \<Rightarrow> ok None
        | Some market \<Rightarrow> (case resolve er (ei_strategy_name intent) (ei_timeframe intent) of
            Inl _ \<Rightarrow> ok None
          | Inr p \<Rightarrow> rbind (derive pf gid p intent market (resolve_params er (policy_name p) (ei_timeframe intent))) (\<lambda>g. ok (Some g))))))"

section \<open>Lists and floats\<close>

lemma py_max_ge: "x \<in> set xs \<Longrightarrow> x \<le> py_max xs"
  using fold_max_ge [of x "hd xs" "tl xs"] by (cases xs) (auto simp: py_max_def)

lemma py_min_le: "x \<in> set xs \<Longrightarrow> py_min xs \<le> x"
  using fold_min_le [of x "hd xs" "tl xs"] by (cases xs) (auto simp: py_min_def)

lemma fold_select_mem: "(\<And>a b. f a b = a \<or> f a b = b) \<Longrightarrow> fold f xs m \<in> insert m (set xs)"
proof (induction xs arbitrary: m)
  case (Cons x xs)
  then have "fold f xs (f x m) \<in> insert (f x m) (set xs)" by blast
  with Cons.prems [of x m] show ?case by auto
qed simp

lemma extreme_mem: "xs \<noteq> [] \<Longrightarrow> py_max xs \<in> set xs" "xs \<noteq> [] \<Longrightarrow> py_min xs \<in> set xs"
  using fold_select_mem [of max "tl xs" "hd xs"] fold_select_mem [of min "tl xs" "hd xs"]
  by (cases xs; auto simp: py_max_def py_min_def max_def min_def)+

lemma zone_around:
  assumes "0 \<le> zone_half" and "fl trigger = trigger"
  shows "em_entry_low (zone_member n kind trigger zone_half v) \<le> em_trigger_price (zone_member n kind trigger zone_half v) \<and>
    em_trigger_price (zone_member n kind trigger zone_half v) \<le> em_entry_high (zone_member n kind trigger zone_half v)"
  using assms by (auto simp: zone_member_def intro!: pyround_mono fl_le_float fl_ge_float)

section \<open>Derived groups\<close>

text \<open>The kinds of the orders of a policy, and the widths of its zones in multiples of the ATR.\<close>

definition policy_kinds :: "entry_policy \<Rightarrow> entry_type list" where
  "policy_kinds p = (case p of MarketEntryPolicy \<Rightarrow> [MARKET] | PullbackEntryPolicy \<Rightarrow> [LIMIT] | BreakoutEntryPolicy \<Rightarrow> [STOP]
     | OcoEntryPolicy \<Rightarrow> [LIMIT, STOP] | FibPullbackEntryPolicy \<Rightarrow> [LIMIT])"

definition policy_zones :: "(string \<Rightarrow> rat option) \<Rightarrow> entry_policy \<Rightarrow> pydict \<Rightarrow> rat list" where
  "policy_zones pf p params = (case p of
      MarketEntryPolicy \<Rightarrow> []
    | BreakoutEntryPolicy \<Rightarrow> [params_get_float pf params ''zone_atr'' (fl (5/100))]
    | OcoEntryPolicy \<Rightarrow> [params_get_float pf (filter_prefix params ''pullback_'') ''zone_atr'' (fl (1/10)),
        params_get_float pf (filter_prefix params ''breakout_'') ''zone_atr'' (fl (5/100))]
    | _ \<Rightarrow> [params_get_float pf params ''zone_atr'' (fl (1/10))])"

definition zoned :: "entry_member \<Rightarrow> bool" where
  "zoned m \<longleftrightarrow> em_entry_low m \<le> em_trigger_price m \<and> em_trigger_price m \<le> em_entry_high m"

lemma zone_member_fields [simp]:
  "em_member_id (zone_member n kind trigger zone v) = n" "em_entry_type (zone_member n kind trigger zone v) = kind"
  by (simp_all add: zone_member_def)

lemma zoned_member: "0 \<le> zone \<Longrightarrow> 0 < atr \<Longrightarrow> fl trigger = trigger \<Longrightarrow> zoned (zone_member n kind trigger (fl (zone * atr)) v)"
  unfolding zoned_def by (rule zone_around) (simp_all add: fl_nonneg)

lemma trigger_floats:
  "fl (pullback_trigger pf intent market params) = pullback_trigger pf intent market params"
  "fl (breakout_trigger pf intent market params) = breakout_trigger pf intent market params"
  "fl (ms_current_close market) = ms_current_close market \<Longrightarrow> fl (fst (fib_trigger pf intent market params)) = fst (fib_trigger pf intent market params)"
  by (auto simp: pullback_trigger_def breakout_trigger_def fib_trigger_def fib_candidate_def Let_def split: option.splits)

lemma single_group: "EntrySpecGroup gid [m] c meta = ok \<lparr>eg_group_id = gid, eg_members = [m], eg_cancellation_policy = c, eg_metadata = meta\<rparr>"
  by (simp add: EntrySpecGroup_def)

lemmas derive_defs = market_derive_def pullback_derive_def breakout_derive_def fib_derive_def oco_derive_def

text \<open>C30: every policy yields a group that can be placed. Whatever the intent, the market with a positive
  ATR and the parameters with zones that are not negative: the derivation returns a group under the
  given identifier, with the orders of the policy's kinds under different names, and the trigger price
  of each lies within its zone.\<close>

theorem derived_group_wellformed:
  assumes "0 < ms_atr_value market" and "fl (ms_current_close market) = ms_current_close market"
    and "list_all (\<lambda>z. 0 \<le> z) (policy_zones pf p params)"
  shows "\<exists>g. derive pf gid p intent market params = ok g \<and> eg_group_id g = gid \<and>
    map em_entry_type (eg_members g) = policy_kinds p \<and> distinct (map em_member_id (eg_members g)) \<and> list_all zoned (eg_members g)"
proof (cases p)
  case MarketEntryPolicy
  then show ?thesis by (simp add: derive_def derive_defs single_group policy_kinds_def zoned_def Let_def)
next
  case OcoEntryPolicy
  with assms show ?thesis
    by (simp add: derive_def derive_defs single_group policy_kinds_def policy_zones_def zoned_member trigger_floats Let_def split_beta
        rbind_def EntrySpecGroup_def)
qed (use assms in \<open>simp add: derive_def derive_defs single_group policy_kinds_def policy_zones_def zoned_member trigger_floats Let_def split_beta\<close>)+

text \<open>A market of two bars and an intent for the examples.\<close>

definition sample_market :: market_snapshot where
  "sample_market = \<lparr>ms_recent_bars = [\<lparr>bs_open = 100, bs_high = 104, bs_low = 96, bs_close = 102, bs_volume = 0, bs_time = VNone\<rparr>,
      \<lparr>bs_open = 102, bs_high = 103, bs_low = 100, bs_close = 101, bs_volume = 0, bs_time = VNone\<rparr>],
     ms_atr_value = 2, ms_current_close = 101, ms_current_atr_source = ''confirmed'', ms_market_structure = []\<rparr>"

definition sample_intent :: "pattern_type \<Rightarrow> entry_intent" where
  "sample_intent pattern = \<lparr>ei_strategy_name = ''trend'', ei_timeframe = ''M15'', ei_direction = ''buy'', ei_confidence = 3/4,
     ei_bar_time = Datetime 0 (Some 0), ei_pattern_type = pattern, ei_signal_metadata = []\<rparr>"

theorem derived_group_wellformed_witness:
  "\<exists>g. derive (\<lambda>_. None) ''g1'' OcoEntryPolicy (sample_intent PIN_BULL) sample_market [(''pullback_zone_atr'', VInt 1), (''breakout_zone_atr'', VInt 2)] = ok g \<and>
    eg_group_id g = ''g1'' \<and> map em_entry_type (eg_members g) = policy_kinds OcoEntryPolicy \<and>
    distinct (map em_member_id (eg_members g)) \<and> list_all zoned (eg_members g)"
proof (rule derived_group_wellformed)
  show "list_all (\<lambda>z. 0 \<le> z) (policy_zones (\<lambda>_. None) OcoEntryPolicy [(''pullback_zone_atr'', VInt 1), (''breakout_zone_atr'', VInt 2)])" by code_simp
qed (simp_all add: sample_market_def)

text \<open>C33: a breakout is beyond what it breaks. With a buffer that is not negative, the stop order of a buy
  triggers at or above the high of every bar it looks back on, and that of a sell at or below every
  low, up to the rounding of prices to six digits; the bars are the last ones, as many as asked for.\<close>

theorem breakout_trigger_beyond_bars:
  assumes "derive pf gid BreakoutEntryPolicy intent market params = ok g"
    and "0 < ms_atr_value market" and "0 \<le> params_get_float pf params ''buffer_atr'' (fl (5/100))"
    and "b \<in> set (last_n (breakout_lookback params) (ms_recent_bars market))"
    and "\<And>b. b \<in> set (ms_recent_bars market) \<Longrightarrow> fl (bs_high b) = bs_high b \<and> fl (bs_low b) = bs_low b"
  shows "\<exists>m. eg_members g = [m] \<and> em_entry_type m = STOP \<and>
    (if ei_direction intent = ''buy'' then pyround (bs_high b) 6 \<le> em_trigger_price m else em_trigger_price m \<le> pyround (bs_low b) 6)"
proof -
  let ?recent = "last_n (breakout_lookback params) (ms_recent_bars market)"
  let ?buffer = "fl (params_get_float pf params ''buffer_atr'' (fl (5/100)) * ms_atr_value market)"
  have bars: "breakout_bars market params = ?recent" "?recent \<noteq> []" using assms(4) by (auto simp: breakout_bars_def Let_def)
  have buffer: "0 \<le> ?buffer" using assms(2,3) by (simp add: fl_nonneg)
  have sub: "set ?recent \<subseteq> set (ms_recent_bars market)" by (auto simp: last_n_def dest: in_set_dropD)
  have "py_max (map bs_high ?recent) \<in> bs_high ` set ?recent" "py_min (map bs_low ?recent) \<in> bs_low ` set ?recent"
    using extreme_mem [of "map bs_high ?recent"] extreme_mem [of "map bs_low ?recent"] bars(2) by auto
  then have "fl (py_max (map bs_high ?recent)) = py_max (map bs_high ?recent)"
      "fl (py_min (map bs_low ?recent)) = py_min (map bs_low ?recent)"
    using assms(5) sub by auto
  then have "py_max (map bs_high ?recent) \<le> fl (py_max (map bs_high ?recent) + ?buffer)"
      "fl (py_min (map bs_low ?recent) - ?buffer) \<le> py_min (map bs_low ?recent)"
    using buffer by (auto intro: fl_ge_float fl_le_float)
  moreover have "bs_high b \<le> py_max (map bs_high ?recent)" "py_min (map bs_low ?recent) \<le> bs_low b"
    using assms(4) by (auto intro: py_max_ge py_min_le)
  ultimately have "if ei_direction intent = ''buy'' then bs_high b \<le> breakout_trigger pf intent market params
      else breakout_trigger pf intent market params \<le> bs_low b"
    by (auto simp: breakout_trigger_def breakout_extreme_def bars Let_def)
  then show ?thesis using assms(1)
    by (auto simp: derive_def breakout_derive_def single_group Let_def zone_member_def intro: pyround_mono split: if_splits)
qed

theorem breakout_trigger_beyond_bars_witness:
  "\<exists>g m. derive (\<lambda>_. None) ''g1'' BreakoutEntryPolicy (sample_intent P_NONE) sample_market [(''lookback_bars'', VInt 5), (''buffer_atr'', VFloat (1/4))] = ok g \<and>
    eg_members g = [m] \<and> em_entry_type m = STOP \<and> pyround (bs_high (hd (ms_recent_bars sample_market))) 6 \<le> em_trigger_price m"
proof -
  obtain g where g: "derive (\<lambda>_. None) ''g1'' BreakoutEntryPolicy (sample_intent P_NONE) sample_market [(''lookback_bars'', VInt 5), (''buffer_atr'', VFloat (1/4))] = ok g"
    by (simp add: derive_def breakout_derive_def single_group Let_def)
  have buffer: "0 \<le> params_get_float (\<lambda>_. None) [(''lookback_bars'', VInt 5), (''buffer_atr'', VFloat (1/4))] ''buffer_atr'' (fl (5/100))" by code_simp
  have bar: "hd (ms_recent_bars sample_market) \<in>
      set (last_n (breakout_lookback [(''lookback_bars'', VInt 5), (''buffer_atr'', VFloat (1/4))]) (ms_recent_bars sample_market))" by code_simp
  have atr: "0 < ms_atr_value sample_market" by (simp add: sample_market_def)
  have "\<exists>m. eg_members g = [m] \<and> em_entry_type m = STOP \<and> (if ei_direction (sample_intent P_NONE) = ''buy''
      then pyround (bs_high (hd (ms_recent_bars sample_market))) 6 \<le> em_trigger_price m
      else em_trigger_price m \<le> pyround (bs_low (hd (ms_recent_bars sample_market))) 6)"
    by (rule breakout_trigger_beyond_bars [OF g atr buffer bar]) (auto simp: sample_market_def)
  with g show ?thesis by (auto simp: sample_intent_def)
qed

text \<open>The loop over the Fibonacci levels, as the last of the levels the price has not passed.\<close>

lemma fib_choose_last:
  "fib_choose d hi lo cur levels =
    (let open_levels = filter (\<lambda>l. fib_untouched d cur (fib_candidate d hi lo l)) levels
     in if open_levels = [] then None else Some (last open_levels))"
proof -
  have "fold (\<lambda>level chosen. if P level then Some level else chosen) levels acc =
      (if filter P levels = [] then acc else Some (last (filter P levels)))" for P :: "rat \<Rightarrow> bool" and acc
    by (induction levels arbitrary: acc) auto
  then show ?thesis by (simp add: fib_choose_def Let_def)
qed

text \<open>The Fibonacci policy takes the last open level. When the bars span a range and the price has
  not passed all the levels, the limit order is placed at the last level of the list that the price
  has not passed, the deepest one for levels in ascending order, and not at the first.\<close>

theorem fib_takes_last_open_level:
  fixes pf gid intent market params
  defines "hi \<equiv> py_max (map bs_high (fib_recent market params))" and "lo \<equiv> py_min (map bs_low (fib_recent market params))"
  defines "open_levels \<equiv> filter (\<lambda>l. fib_untouched (ei_direction intent) (ms_current_close market) (fib_candidate (ei_direction intent) hi lo l))
    (params_get_fib_levels pf params)"
  assumes "derive pf gid FibPullbackEntryPolicy intent market params = ok g"
    and "0 < fl (hi - lo)" and "2 \<le> length (fib_recent market params)" and "open_levels \<noteq> []"
  shows "\<exists>m. eg_members g = [m] \<and> em_entry_type m = LIMIT \<and>
    em_trigger_price m = pyround (fib_candidate (ei_direction intent) hi lo (last open_levels)) 6 \<and>
    fib_untouched (ei_direction intent) (ms_current_close market) (fib_candidate (ei_direction intent) hi lo (last open_levels))"
proof -
  have "fst (fib_trigger pf intent market params) = fib_candidate (ei_direction intent) hi lo (last open_levels)"
    using assms(5-7) by (simp add: fib_trigger_def Let_def fib_choose_last flip: hi_def lo_def open_levels_def)
  moreover have "last open_levels \<in> set open_levels" using assms(7) by simp
  then have "fib_untouched (ei_direction intent) (ms_current_close market) (fib_candidate (ei_direction intent) hi lo (last open_levels))"
    by (simp add: open_levels_def)
  ultimately show ?thesis using assms(4)
    by (auto simp: derive_def fib_derive_def single_group Let_def split_beta zone_member_def)
qed

theorem fib_takes_last_open_level_witness:
  "\<exists>g m. derive (\<lambda>_. None) ''g1'' FibPullbackEntryPolicy (sample_intent P_NONE) sample_market [(''fib_levels'', VList [VFloat (1/2), VFloat (3/4)])] = ok g \<and> eg_members g = [m] \<and>
    em_trigger_price m = pyround (fib_candidate ''buy'' 104 96 (3/4)) 6"
proof -
  obtain g where g: "derive (\<lambda>_. None) ''g1'' FibPullbackEntryPolicy (sample_intent P_NONE) sample_market [(''fib_levels'', VList [VFloat (1/2), VFloat (3/4)])] = ok g"
    by (simp add: derive_def fib_derive_def single_group Let_def split_beta)
  let ?hi = "py_max (map bs_high (fib_recent sample_market [(''fib_levels'', VList [VFloat (1/2), VFloat (3/4)])]))" and ?lo = "py_min (map bs_low (fib_recent sample_market [(''fib_levels'', VList [VFloat (1/2), VFloat (3/4)])]))"
  let ?open = "filter (\<lambda>l. fib_untouched (ei_direction (sample_intent P_NONE)) (ms_current_close sample_market)
    (fib_candidate (ei_direction (sample_intent P_NONE)) ?hi ?lo l)) (params_get_fib_levels (\<lambda>_. None) [(''fib_levels'', VList [VFloat (1/2), VFloat (3/4)])])"
  have range: "0 < fl (?hi - ?lo)" and len: "2 \<le> length (fib_recent sample_market [(''fib_levels'', VList [VFloat (1/2), VFloat (3/4)])])" and some: "?open \<noteq> []"
    and at_last: "(ei_direction (sample_intent P_NONE), ?hi, ?lo, last ?open) = (''buy'', 104, 96, 3/4)" by code_simp+
  from fib_takes_last_open_level [OF g range len some] obtain m where m: "eg_members g = [m]"
    "em_trigger_price m = pyround (fib_candidate (ei_direction (sample_intent P_NONE)) ?hi ?lo (last ?open)) 6" by blast
  have "fib_candidate (ei_direction (sample_intent P_NONE)) ?hi ?lo (last ?open) = fib_candidate ''buy'' 104 96 (3/4)"
    using arg_cong [OF at_last, of "\<lambda>(d, h, l, v). fib_candidate d h l v"] by (simp only: prod.case)
  with g m show ?thesis by metis
qed

text \<open>A pullback without a pattern does not wait for one. For a buy with no pattern, or with a
  breakout pattern, the anchor is the close and the offset is added to it: the limit order to buy is
  placed at or above the price at which the market is.\<close>

theorem pullback_fallback_not_below_close:
  assumes "derive pf gid PullbackEntryPolicy intent market params = ok g"
    and "ei_pattern_type intent \<in> {P_NONE, BREAKOUT_BULL, BREAKOUT_BEAR}" and "ei_direction intent = ''buy''"
    and "0 < ms_atr_value market" and "0 \<le> resolve_branch_offset pf params (ei_pattern_type intent)"
    and "fl (ms_current_close market) = ms_current_close market"
  shows "\<exists>m. eg_members g = [m] \<and> em_entry_type m = LIMIT \<and> pyround (ms_current_close market) 6 \<le> em_trigger_price m"
proof -
  let ?offset = "fl (resolve_branch_offset pf params (ei_pattern_type intent) * ms_atr_value market)"
  have "pullback_trigger pf intent market params = fl (ms_current_close market + ?offset)"
    using assms(2,3) by (auto simp: pullback_trigger_def compute_anchor_def Let_def)
  moreover have "0 \<le> ?offset" using assms(4,5) by (simp add: fl_nonneg)
  ultimately have "ms_current_close market \<le> pullback_trigger pf intent market params"
    using assms(6) by (simp add: fl_ge_float)
  then show ?thesis using assms(1)
    by (auto simp: derive_def pullback_derive_def single_group Let_def split_beta zone_member_def intro: pyround_mono)
qed

theorem pullback_fallback_not_below_close_witness:
  "\<exists>g m. derive (\<lambda>_. None) ''g1'' PullbackEntryPolicy (sample_intent P_NONE) sample_market [(''branch_none_offset'', VFloat (1/4))] = ok g \<and> eg_members g = [m] \<and>
    em_entry_type m = LIMIT \<and> pyround (ms_current_close sample_market) 6 \<le> em_trigger_price m"
proof -
  obtain g where g: "derive (\<lambda>_. None) ''g1'' PullbackEntryPolicy (sample_intent P_NONE) sample_market [(''branch_none_offset'', VFloat (1/4))] = ok g"
    by (simp add: derive_def pullback_derive_def single_group Let_def split_beta)
  have offset: "0 \<le> resolve_branch_offset (\<lambda>_. None) [(''branch_none_offset'', VFloat (1/4))] (ei_pattern_type (sample_intent P_NONE))" by code_simp
  from pullback_fallback_not_below_close [OF g _ _ _ offset] g show ?thesis by (simp add: sample_intent_def sample_market_def)
qed

section \<open>The registry\<close>

lemma factories_named: "map_of built_in_policy_factories name = Some p \<Longrightarrow> policy_name p = name"
  by (auto simp: built_in_policy_factories_def policy_name_def split: if_splits)

lemma assemble_policies_ok:
  assumes "assemble_policies names policies = ok result"
    and "\<And>name p. map_of policies name = Some p \<Longrightarrow> policy_name p = name"
  shows "(\<forall>name p. map_of result name = Some p \<longrightarrow> policy_name p = name) \<and> dom (map_of result) = dom (map_of policies) \<union> set names"
  using assms
proof (induction names policies arbitrary: result rule: assemble_policies.induct)
  case (2 name names policies)
  from "2.prems"(1) obtain p where p: "map_of built_in_policy_factories name = Some p"
    and rest: "assemble_policies names (AList.update name p policies) = ok result" by (auto split: option.splits)
  have "policy_name q = n" if "map_of (AList.update name p policies) n = Some q" for n q
    using that "2.prems"(2) factories_named [OF p] by (auto simp: update_conv' split: if_splits)
  from "2.IH" [OF p rest this] show ?case by (auto simp: update_conv')
qed auto

text \<open>A strategy trades by the policy it is mapped to and by no other. In a registry that was built,
  a strategy resolves to the policy named by its mapping for the timeframe, or else by its mapping;
  a strategy with neither is refused with a key error: the default policy is never a fallback.\<close>

theorem registry_resolves_declared_only:
  assumes "build_entry_policy_registry pc = ok er"
  shows "case (case map_of (pc_strategy_tf_mapping pc) (strategy, tf) of Some n \<Rightarrow> Some n | None \<Rightarrow> map_of (pc_strategy_mapping pc) strategy) of
      Some name \<Rightarrow> \<exists>p. resolve er strategy tf = ok p \<and> policy_name p = name
    | None \<Rightarrow> \<exists>t. resolve er strategy tf = raise (KeyError t)"
proof -
  from assms obtain policies where policies: "assemble_policies (pc_enabled_policies pc) [] = ok policies"
      and registry: "EntryPolicyRegistry policies pc = ok er"
    by (cases "assemble_policies (pc_enabled_policies pc) []") (simp_all add: build_entry_policy_registry_def rbind_def)
  from registry have "er = \<lparr>er_policies = policies, er_config = pc\<rparr>" and ok: "validate_invariants er = ok ()"
    by (cases "validate_invariants \<lparr>er_policies = policies, er_config = pc\<rparr>"; simp add: EntryPolicyRegistry_def rbind_def Let_def)+
  with policies have er: "er_config er = pc" and pols: "assemble_policies (pc_enabled_policies pc) [] = ok (er_policies er)" by simp_all
  have named: "map_of (er_policies er) n = Some p \<Longrightarrow> policy_name p = n" for n p
    using assemble_policies_ok [OF pols] by simp
  have reg: "\<exists>p. map_of (er_policies er) n = Some p" if "n \<in> set (map fst (er_policies er))" for n
    using that by (metis map_of_eq_None_iff not_None_eq list.set_map)
  have all: "list_all (\<lambda>(_, n). n \<in> set (map fst (er_policies er))) (pc_strategy_mapping pc)"
      "list_all (\<lambda>(_, n). n \<in> set (map fst (er_policies er))) (pc_strategy_tf_mapping pc)"
    using ok by (auto simp: validate_invariants_def er Let_def split: if_splits)
  have "\<exists>p. map_of (er_policies er) n = Some p"
    if "map_of (pc_strategy_tf_mapping pc) (strategy, tf) = Some n \<or> map_of (pc_strategy_mapping pc) strategy = Some n" for n
    using that all reg by (fastforce simp: list_all_iff dest: map_of_SomeD)
  then show ?thesis using named
    by (fastforce simp: resolve_def resolve_policy_name_def rbind_def er split: option.splits)
qed

definition sample_config :: entry_policy_config where
  "sample_config = \<lparr>pc_enabled_policies = [''market'', ''pullback'', ''oco_pullback_breakout''], pc_default_policy = ''market'',
     pc_strategy_mapping = [(''trend'', ''pullback'')], pc_strategy_tf_mapping = [((''trend'', ''H1''), ''oco_pullback_breakout'')],
     pc_policy_params = [], pc_policy_tf_params = [], pc_fill_semantics_tie_break = ''limit_first''\<rparr>"

theorem registry_resolves_declared_only_witness:
  "\<exists>er. build_entry_policy_registry sample_config = ok er \<and> (\<exists>t. resolve er ''scalp'' ''M5'' = raise (KeyError t))"
proof -
  have "case build_entry_policy_registry sample_config of Inl _ \<Rightarrow> False | Inr _ \<Rightarrow> True" by code_simp
  then obtain er where er: "build_entry_policy_registry sample_config = ok er" by (cases "build_entry_policy_registry sample_config") auto
  from registry_resolves_declared_only [OF er, of "''scalp''" "''M5''"] have "\<exists>t. resolve er ''scalp'' ''M5'' = raise (KeyError t)"
    by (simp add: sample_config_def)
  with er show ?thesis by blast
qed

end
