(* ===== verification/Trading_Desk.thy ===== *)
theory Trading_Desk
  imports Pending_Safety Entry_Policy Executor_Safety
begin

text \<open>
  The executor, the entry policies and the pending entry manager together: the executor's port is
  filled in by the manager's operations and the registry's derivation, on top of a broker that is left
  open. An error while a group is derived ends the signal in the code and counts as no group here;
  either way nothing is sent.
\<close>

section \<open>The executor's port on the manager\<close>

text \<open>\<open>timedelta(seconds=s)\<close> in microseconds.\<close>

definition timedelta_us :: "rat \<Rightarrow> int" where
  "timedelta_us s = round_half_even (s * 1000000)"

text \<open>The order the executor has tracked: the group of the member goes into the metadata, its lifetime in
  bars does not count.\<close>

definition tracked_order :: "int \<Rightarrow> string \<Rightarrow> int \<Rightarrow> rat \<Rightarrow> signal_event \<Rightarrow> trade_parameters \<Rightarrow> entry_group \<Rightarrow> entry_member \<Rightarrow> rat \<times> rat \<Rightarrow>
    string \<Rightarrow> mt5_order" where
  "tracked_order now key ticket seconds ev params g m levels comment =
    (let kind = entry_type_value (em_entry_type m)
     in \<lparr>mo_ticket = ticket, mo_signal_id = key, mo_expires_at = Some (now + timedelta_us seconds), mo_direction = sg_direction ev,
       mo_symbol = sg_symbol ev, mo_strategy = sg_strategy ev, mo_timeframe = sg_timeframe ev,
       mo_confidence = Some (sg_confidence ev), mo_regime = dget (sg_metadata ev) ''regime'', mo_comment = comment,
       mo_params = Some params, mo_order_kind = kind, mo_entry_low = Some (em_entry_low m), mo_entry_high = Some (em_entry_high m),
       mo_trigger_price = Some (em_trigger_price m), mo_entry_price_requested = Some (tp_entry_price params),
       mo_stop_loss = Some (fst levels), mo_take_profit = Some (snd levels), mo_volume = Some (tp_position_size params),
       mo_created_at = Some now,
       mo_metadata = [(''entry_type'', VStr kind), (''order_kind'', VStr kind), (''order_group_id'', VStr (eg_group_id g)),
         (''group_member_id'', VStr (em_member_id m)), (''group_role'', VStr kind)],
       mo_exit_spec = (if sg_exit_spec ev = [] then None else Some (map (\<lambda>(k, v). (k, VFloat v)) (sg_exit_spec ev))),
       mo_strategy_category = str_or_empty (dget (sg_metadata ev) ''strategy_category''),
       mo_order_group_id = [], mo_group_member_id = [], mo_group_role = []\<rparr>)"

text \<open>A ticket that is no integer is refused; the broker returns integers.\<close>

definition manager_port :: "'b execution_port \<Rightarrow> 'b cancel_port \<Rightarrow> (string \<Rightarrow> rat option) \<Rightarrow> int \<Rightarrow> string \<Rightarrow> entry_registry option \<Rightarrow>
    (pending_manager \<times> 'b) execution_port" where
  "manager_port xp port pf now gid registry =
    \<lparr>xp_dispatch = \<lambda>p (m, b). (case xp_dispatch xp p b of (out, b') \<Rightarrow> (out, (m, b'))),
     xp_track_position = \<lambda>n ev params (m, b). (m, xp_track_position xp n ev params b),
     xp_cancel_by_symbol = \<lambda>symbol exclude mb. snd (cancel_by_symbol port symbol ''new_signal_override'' exclude mb),
     xp_track_mt5_order = \<lambda>key ticket seconds ev params g member levels comment (m, b). (case py_int_of ticket of
         Inl e \<Rightarrow> (raise e, (m, b))
       | Inr n \<Rightarrow> (ok (), (track_mt5_order (tracked_order now key n seconds ev params g member levels comment) m, b))),
     xp_pending_config = xp_pending_config xp, xp_account_balance = xp_account_balance xp,
     xp_derive = \<lambda>ev params. (case derive_entry_group pf now gid registry ev params of Inr g \<Rightarrow> g | Inl _ \<Rightarrow> None),
     xp_sizing = xp_sizing xp, xp_max_single_trade_loss = xp_max_single_trade_loss xp\<rparr>"

definition manager_ok :: "pending_manager \<times> 'b \<Rightarrow> bool" where
  "manager_ok mb \<longleftrightarrow> pending_ok (fst mb) \<and> orders_ok (fst mb)"

lemma manager_ok_step: "manager_ok mb \<Longrightarrow> manager_ok (pending_step pn ev mb)"
  by (simp add: manager_ok_def pending_step_ok orders_ok_step)

lemma manager_ok_cancel: "manager_ok mb \<Longrightarrow> manager_ok (snd (cancel_by_symbol port symbol reason exclude mb))"
  using manager_ok_step [of mb "\<lparr>pn_port = port, pn_inspect = None, pn_execute = \<lambda>r b. (True, b),
    pn_monitor = \<lparr>mc_max_spread_points = 0, mc_timeout_fill_tolerance_atr = 0\<rparr>\<rparr>" "CancelSymbol symbol reason exclude"]
  by (cases mb) simp

lemma manager_ok_track: "manager_ok (m, b) \<Longrightarrow> manager_ok (track_mt5_order info m, b)"
  using manager_ok_step [of "(m, b)" "\<lparr>pn_port = \<lambda>t b. (ok VNone, b), pn_inspect = None, pn_execute = \<lambda>r b. (True, b),
    pn_monitor = \<lparr>mc_max_spread_points = 0, mc_timeout_fill_tolerance_atr = 0\<rparr>\<rparr>" "TrackOrder info"] by simp

interpretation mp: guarded_port "manager_port xp port pf now gid registry" manager_ok "\<lambda>_. True"
  for xp :: "'b execution_port" and port pf now gid registry
  by unfold_locales
    (auto simp: manager_port_def manager_ok_cancel manager_ok_track split: prod.splits sum.splits, simp_all add: manager_ok_def)

lemma execute_keeps_manager:
  assumes "execute_decision ec en (manager_port xp port pf now gid registry) ev xd x mb = (r, x', mb')" and "manager_ok mb"
  shows "manager_ok mb'"
  using assms mp.market_keeps [of ec en xp port pf now gid registry ev _ _ x mb r x' mb']
    mp.pending_keeps [of en xp port pf now gid registry ev _ x mb r x' mb']
  by (auto simp: execute_decision_def split: option.splits if_splits)

lemma world_by_decision:
  assumes "process_event ec en xp ev x w = (r, x', w')"
  shows "w' = w \<or> (\<exists>ev' xd x1 r1 x2. execute_decision ec en xp ev' xd x1 w = (r1, x2, w'))"
proof (cases "sg_scope ev = ''intrabar''")
  case True
  with assms show ?thesis
    by (auto simp: process_event_def handle_intrabar_entry_def intrabar_decided_def Let_def
        split: if_splits prod.splits sum.splits option.splits)
next
  case False
  have "snd (snd (confirmed_dispatch ec en xp ev' xd tf x1 w)) = snd (snd (execute_decision ec en xp ev' xd (count_passed tf x1) w))" for ev' xd tf x1
    by (auto simp: confirmed_dispatch_def Let_def split: prod.splits)
  then have "\<exists>ev' xd x1 r1 x2. execute_decision ec en xp ev' xd x1 w = (r1, x2, v)"
    if "confirmed_dispatch ec en xp ev' xd tf x1 w = (q, y, v)" for ev' xd tf x1 q y v
    using that by (metis prod.collapse snd_conv)
  with False assms show ?thesis
    by (auto simp: process_event_def handle_confirmed_def confirmed_decided_def Let_def
        split: if_splits prod.splits sum.splits option.splits verdict.splits)
qed

text \<open>The executor keeps the manager in order. Whatever signal it processes and however it ends,
  the pending entries stay under their keys and in the index of their groups, and no two tracked
  orders share a key.\<close>

theorem executor_keeps_manager_ok:
  assumes "manager_ok mb" and "process_event ec en (manager_port xp port pf now gid registry) ev x mb = (r, x', mb')"
  shows "manager_ok mb'"
  using world_by_decision [OF assms(2)] assms(1) execute_keeps_manager by metis

theorem executor_keeps_manager_ok_witness:
  "manager_ok (PendingEntryManager, 0 :: nat) \<and> manager_ok (snd (snd (process_event desk_config desk_env
    (manager_port (desk_port filled) (\<lambda>t b. (ok VNone, b)) (\<lambda>_. None) 0 ''g1'' None) (signal ''confirmed'' ''s1'') desk_state
    (PendingEntryManager, 0))))"
proof -
  have start: "manager_ok (PendingEntryManager, 0 :: nat)"
    by (simp add: manager_ok_def pending_ok_def orders_ok_def PendingEntryManager_def)
  then show ?thesis using executor_keeps_manager_ok [OF start] by (metis prod.collapse)
qed

section \<open>Signals without a policy\<close>

lemma no_group_no_decision:
  assumes "sg_entry_spec_group ev = None" and "\<And>params. xp_derive xp ev params = None"
    and "build_decision confirmed ec en xp ev = ok (xd, ev')"
  shows "xd_reject_reason xd \<noteq> None"
  using assms by (auto simp: build_decision_def ensure_entry_spec_group_def rbind_def Let_def split: sum.splits option.splits if_splits)

lemma no_group_no_dispatch:
  assumes "process_event ec en xp ev x w = (r, x', w')" and "sg_entry_spec_group ev = None" and "\<And>params. xp_derive xp ev params = None"
  shows "w' = w"
proof -
  note none = no_group_no_decision [OF assms(2,3)]
  show ?thesis
  proof (cases "sg_scope ev = ''intrabar''")
    case True
    with assms(1) show ?thesis
      by (auto simp: process_event_def handle_intrabar_entry_def intrabar_decided_def Let_def
          split: if_splits prod.splits sum.splits option.splits dest: none)
  next
    case False
    with assms(1) show ?thesis
      by (auto simp: process_event_def handle_confirmed_def confirmed_decided_def Let_def
          split: if_splits prod.splits sum.splits option.splits verdict.splits dest: none)
  qed
qed

lemma registry_config: "build_entry_policy_registry pc = ok er \<Longrightarrow> er_config er = pc"
  by (auto simp: build_entry_policy_registry_def EntryPolicyRegistry_def rbind_def Let_def split: sum.splits)

text \<open>C18: a strategy without a declared entry policy is never traded. When the registry that was built
  has no mapping for the strategy and timeframe a signal names, the executor sends no order, market
  orders included, cancels nothing and tracks nothing for it.\<close>

theorem unmapped_strategy_never_traded:
  assumes "build_entry_policy_registry pc = ok er" and "sg_entry_spec_group ev = None"
    and "\<And>intent. build_entry_intent now ev = Some intent \<Longrightarrow>
      map_of (pc_strategy_tf_mapping pc) (ei_strategy_name intent, ei_timeframe intent) = None \<and>
      map_of (pc_strategy_mapping pc) (ei_strategy_name intent) = None"
    and "process_event ec en (manager_port xp port pf now gid (Some er)) ev x mb = (r, x', mb')"
  shows "mb' = mb"
proof (rule no_group_no_dispatch [OF assms(4,2)])
  fix params
  have "resolve er (ei_strategy_name intent) (ei_timeframe intent) = raise (KeyError ''no entry policy mapping declared'')"
    if "build_entry_intent now ev = Some intent" for intent
    using assms(3) [OF that] registry_config [OF assms(1)] by (simp add: resolve_def resolve_policy_name_def rbind_def)
  then show "xp_derive (manager_port xp port pf now gid (Some er)) ev params = None"
    by (auto simp: manager_port_def derive_entry_group_def rbind_def split: option.splits sum.splits)
qed

definition scalp_signal :: signal_event where
  "scalp_signal = (signal ''confirmed'' ''s1'')\<lparr>sg_metadata := [(''entry_intent'', VDict [(''strategy_name'', VStr ''scalp'')])]\<rparr>"

theorem unmapped_strategy_never_traded_witness:
  "\<exists>er intent. build_entry_policy_registry sample_config = ok er \<and> build_entry_intent 0 scalp_signal = Some intent \<and>
    snd (snd (process_event desk_config desk_env (manager_port (desk_port filled) (\<lambda>t b. (ok VNone, b)) (\<lambda>_. None) 0 ''g1'' (Some er))
      scalp_signal desk_state (PendingEntryManager, 0))) = (PendingEntryManager, 0)"
proof -
  have "case build_entry_policy_registry sample_config of Inl _ \<Rightarrow> False | Inr _ \<Rightarrow> True" by code_simp
  then obtain er where er: "build_entry_policy_registry sample_config = ok er" by (cases "build_entry_policy_registry sample_config") auto
  let ?xp = "manager_port (desk_port filled) (\<lambda>t b. (ok VNone, b)) (\<lambda>_. None) 0 ''g1'' (Some er)"
  obtain r x' mb' where run: "process_event desk_config desk_env ?xp scalp_signal desk_state (PendingEntryManager, 0) = (r, x', mb')"
    by (metis surj_pair)
  have intent: "map_option ei_strategy_name (build_entry_intent 0 scalp_signal) = Some ''scalp''" and group: "sg_entry_spec_group scalp_signal = None"
    by code_simp+
  have "mb' = (PendingEntryManager, 0)"
    by (rule unmapped_strategy_never_traded [OF er group _ run]) (use intent in \<open>auto simp: sample_config_def\<close>)
  with er run intent show ?thesis by (cases "build_entry_intent 0 scalp_signal") auto
qed

text \<open>Without a pending manager nothing is traded, not even at market: there is no registry then, and
  a signal that does not carry an order group of its own gets none.\<close>

theorem no_pending_manager_no_trade:
  assumes "sg_entry_spec_group ev = None"
    and "process_event ec en (manager_port xp port pf now gid None) ev x mb = (r, x', mb')"
  shows "mb' = mb"
  by (rule no_group_no_dispatch [OF assms(2,1)]) (simp add: manager_port_def derive_entry_group_def)

theorem no_pending_manager_no_trade_witness:
  "snd (snd (process_event desk_config desk_env (manager_port (desk_port filled) (\<lambda>t b. (ok VNone, b)) (\<lambda>_. None) 0 ''g1'' None)
    scalp_signal desk_state (PendingEntryManager, 0))) = (PendingEntryManager, 0)"
proof -
  let ?xp = "manager_port (desk_port filled) (\<lambda>t b. (ok VNone, b)) (\<lambda>_. None) 0 ''g1'' None"
  obtain r x' mb' where run: "process_event desk_config desk_env ?xp scalp_signal desk_state (PendingEntryManager, 0) = (r, x', mb')"
    by (metis surj_pair)
  have "sg_entry_spec_group scalp_signal = None" by code_simp
  from no_pending_manager_no_trade [OF this run] show ?thesis by (simp add: run)
qed

section \<open>Pending orders\<close>

text \<open>The broker after it was sent a list of orders.\<close>

definition broker_after :: "'b execution_port \<Rightarrow> pydict list \<Rightarrow> 'b \<Rightarrow> 'b" where
  "broker_after xp ps b = fold (\<lambda>p b. snd (xp_dispatch xp p b)) ps b"

abbreviation order_for :: "'b execution_port \<Rightarrow> int \<Rightarrow> signal_event \<Rightarrow> trade_parameters \<Rightarrow> entry_group \<Rightarrow> entry_member \<Rightarrow> int \<Rightarrow> string \<Rightarrow> mt5_order" where
  "order_for xp now ev params g mem n c \<equiv> tracked_order now (entry_key ev g mem) n
    (compute_timeout (xp_pending_config xp) (sg_timeframe ev)) ev params g mem (member_levels params mem) c"

lemma track_mt5_order_lookup:
  "map_of (pm_mt5_orders (track_mt5_order info m)) k =
    (if map_of (pm_mt5_orders m) (mo_signal_id info) = None \<and> k = mo_signal_id info then Some info else map_of (pm_mt5_orders m) k)"
  by (auto simp: track_mt5_order_def update_conv')

lemma tracked_order_key [simp]: "mo_signal_id (tracked_order now key n secs ev params g mem lv c) = key"
  by (simp add: tracked_order_def Let_def)

text \<open>What one member does to the manager, by what the broker answers to its order.\<close>

definition answered :: "'b execution_port \<Rightarrow> int \<Rightarrow> signal_event \<Rightarrow> trade_parameters \<Rightarrow> entry_group \<Rightarrow> entry_member \<Rightarrow> dispatch_outcome \<Rightarrow>
    pending_manager \<Rightarrow> pending_manager" where
  "answered xp now ev params g mem answer m = (case answer of
      Dispatched (VDict d) \<Rightarrow> (let ticket = py_or (dget d ''order'') (dget d ''ticket'') in
        if ticket = VNone then m else case py_int_of ticket of
          Inl _ \<Rightarrow> m | Inr n \<Rightarrow> track_mt5_order (order_for xp now ev params g mem n (placed_comment ev mem (VDict d))) m)
    | _ \<Rightarrow> m)"

lemma member_step:
  assumes "xp_dispatch xp (pending_payload ev params g mem) b = (answer, b1)"
  shows "\<exists>acc1. submit_members (manager_port xp port pf now gid registry) ev params g (mem # ms) acc (m, b) =
    submit_members (manager_port xp port pf now gid registry) ev params g ms acc1 (answered xp now ev params g mem answer m, b1)"
proof -
  obtain last_result placed where acc: "acc = (last_result, placed)" by fastforce
  show ?thesis
  proof (cases answer)
    case (Dispatched result)
    then show ?thesis using assms
      by (cases result) (auto simp: acc manager_port_def answered_def Let_def split: sum.splits)
  qed (use assms in \<open>auto simp: acc manager_port_def answered_def\<close>)
qed

lemma answered_lookup:
  "k \<noteq> entry_key ev g mem \<Longrightarrow> map_of (pm_mt5_orders (answered xp now ev params g mem answer m)) k = map_of (pm_mt5_orders m) k"
  "map_of (pm_mt5_orders m) k = Some info \<Longrightarrow> map_of (pm_mt5_orders (answered xp now ev params g mem answer m)) k = Some info"
  by (auto simp: answered_def track_mt5_order_lookup Let_def split: dispatch_outcome.splits pyval.splits sum.splits)

lemma answered_tracked:
  assumes "map_of (pm_mt5_orders m) (entry_key ev g mem) = None" "dget d ''order'' = VInt n" "n \<noteq> 0"
  shows "map_of (pm_mt5_orders (answered xp now ev params g mem (Dispatched (VDict d)) m)) (entry_key ev g mem) =
    Some (order_for xp now ev params g mem n (placed_comment ev mem (VDict d)))"
  using assms by (simp add: answered_def py_or_def track_mt5_order_lookup)

lemma answered_refused: "\<forall>v. answer \<noteq> Dispatched v \<Longrightarrow> answered xp now ev params g mem answer m = m"
  by (auto simp: answered_def split: dispatch_outcome.splits)

lemma members_answered:
  assumes "distinct (map (entry_key ev g) (ms1 @ mem # ms2))"
    and "xp_dispatch xp (pending_payload ev params g mem) (broker_after xp (map (pending_payload ev params g) ms1) b) = (answer, b1)"
    and "submit_members (manager_port xp port pf now gid registry) ev params g (ms1 @ mem # ms2) acc (m, b) = (acc', (m', b'))"
  shows "\<exists>ma. map_of (pm_mt5_orders ma) (entry_key ev g mem) = map_of (pm_mt5_orders m) (entry_key ev g mem) \<and>
    map_of (pm_mt5_orders m') (entry_key ev g mem) = map_of (pm_mt5_orders (answered xp now ev params g mem answer ma)) (entry_key ev g mem)"
proof -
  let ?mp = "manager_port xp port pf now gid registry"
  have rest: "map_of (pm_mt5_orders m') k = map_of (pm_mt5_orders m) k"
    if "submit_members ?mp ev params g ms acc (m, b) = (acc', (m', b'))" "k \<notin> entry_key ev g ` set ms" for ms acc m b k
    using that
  proof (induction ms arbitrary: acc m b)
    case (Cons x ms)
    obtain a c where a: "xp_dispatch xp (pending_payload ev params g x) b = (a, c)" by fastforce
    from member_step [OF a, of port pf now gid registry ms acc m] Cons show ?case by (auto simp: answered_lookup(1))
  qed simp
  show ?thesis using assms
  proof (induction ms1 arbitrary: acc m b)
    case Nil
    from member_step [OF Nil(2) [unfolded broker_after_def list.map fold.simps id_apply], of port pf now gid registry ms2 acc m] Nil(3)
    obtain acc1 where "submit_members ?mp ev params g ms2 acc1 (answered xp now ev params g mem answer m, b1) = (acc', (m', b'))" by auto
    from rest [OF this, of "entry_key ev g mem"] Nil(1) show ?case by auto
  next
    case (Cons x ms1)
    obtain a c where a: "xp_dispatch xp (pending_payload ev params g x) b = (a, c)" by fastforce
    from member_step [OF a, of port pf now gid registry "ms1 @ mem # ms2" acc m] Cons.prems(3) obtain acc1
      where "submit_members ?mp ev params g (ms1 @ mem # ms2) acc1 (answered xp now ev params g x a m, c) = (acc', (m', b'))" by auto
    moreover have "entry_key ev g mem \<noteq> entry_key ev g x" using Cons.prems(1) by auto
    ultimately show ?case using Cons.IH [of c acc1 "answered xp now ev params g x a m"] Cons.prems(1,2) a
      by (auto simp: broker_after_def answered_lookup(1))
  qed
qed

lemma cancel_keeps_fresh:
  assumes "orders_ok m" and "map_of (pm_mt5_orders m) k = None"
  shows "map_of (pm_mt5_orders (fst (snd (cancel_by_symbol port symbol reason exclude (m, b))))) k = None"
proof -
  have "set (pm_mt5_orders (fst (snd (cancel_by_symbol port symbol reason exclude (m, b))))) \<subseteq> set (pm_mt5_orders m)"
    using cancel_by_symbol_exits [OF assms(1), of port symbol reason exclude b] by (simp add: exits_def)
  then show ?thesis using assms(2) by (auto simp: map_of_eq_None_iff)
qed

lemma working_order_matches:
  assumes "(k, info) \<in> set (pm_mt5_orders m)" and "en_pending_entries en = Some (ok (active_execution_contexts m))"
    and "mo_symbol info = sg_symbol ev" and "mo_timeframe info = sg_timeframe ev" and "mo_strategy info = sg_strategy ev"
  shows "has_matching_pending_entry en ev"
proof -
  have "mt5_context info \<in> set (active_execution_contexts m)" using assms(1) by (force simp: active_execution_contexts_def)
  moreover have "row_is ''symbol'' (sg_symbol ev) (mt5_context info) \<and> row_is ''timeframe'' (sg_timeframe ev) (mt5_context info) \<and>
      row_is ''strategy'' (sg_strategy ev) (mt5_context info)"
    using assms(3-5) by (simp add: row_is_def mt5_context_def dget_def)
  ultimately show ?thesis using assms(2) by (auto simp: has_matching_pending_entry_def pending_rows_def list_ex_iff)
qed

text \<open>C8: placed orders are tracked, and while they work the strategy waits. The executor sends the orders
  of a group to the broker one after the other. For a member whose key is free: when the broker,
  in the state the orders before it left, takes the member's order and answers with an order
  number, the manager tracks under the member's key an order with exactly that number as its
  ticket, the member's levels and its group, until the timeout of its timeframe, whatever lifetime
  the policy gave it; when the broker refuses it, nothing is tracked under the key. And at any later
  time, as long as the manager still tracks that order and shows it to the executor, further signals
  of the strategy on the symbol and timeframe change nothing outside the executor.\<close>

theorem placed_orders_tracked_and_block:
  assumes "orders_ok m" and "sg_signal_id ev \<noteq> []"
    and "fst (ensure_entry_spec_group (manager_port xp port pf now gid registry) ev params) = Some g"
    and "distinct (map (entry_key ev g) (eg_members g))" and "eg_members g = ms1 @ mem # ms2"
    and "map_of (pm_mt5_orders m) (entry_key ev g mem) = None"
    and "submit_pending_entry en (manager_port xp port pf now gid registry) ev params x (m, b) = (r, x', (m', b'))"
    and "b0 = (if pq_cancel_on_new_signal (xp_pending_config xp) then snd (snd (cancel_by_symbol port (sg_symbol ev) ''new_signal_override''
      (if pq_cancel_same_direction (xp_pending_config xp) then None else Some (sg_direction ev)) (m, b))) else b)"
    and "xp_dispatch xp (pending_payload ev params g mem) (broker_after xp (map (pending_payload ev params g) ms1) b0) = (answer, b1)"
  shows "(\<forall>d n. answer = Dispatched (VDict d) \<and> dget d ''order'' = VInt n \<and> n \<noteq> 0 \<longrightarrow>
      map_of (pm_mt5_orders m') (entry_key ev g mem) = Some (order_for xp now ev params g mem n (placed_comment ev mem (VDict d))) \<and>
      mo_ticket (order_for xp now ev params g mem n (placed_comment ev mem (VDict d))) = n \<and>
      mo_expires_at (order_for xp now ev params g mem n (placed_comment ev mem (VDict d))) =
        Some (now + timedelta_us (compute_timeout (xp_pending_config xp) (sg_timeframe ev)))) \<and>
    ((\<forall>v. answer \<noteq> Dispatched v) \<longrightarrow> map_of (pm_mt5_orders m') (entry_key ev g mem) = None) \<and>
    (\<forall>n c m2 ec en' xq ev' y w s y' w'. map_of (pm_mt5_orders m2) (entry_key ev g mem) = Some (order_for xp now ev params g mem n c) \<and>
      en_pending_entries en' = Some (ok (active_execution_contexts m2)) \<and> sg_symbol ev' = sg_symbol ev \<and>
      sg_timeframe ev' = sg_timeframe ev \<and> sg_strategy ev' = sg_strategy ev \<and>
      process_event ec en' (xq :: 'c execution_port) ev' y w = (s, y', w') \<longrightarrow> w' = w)"
proof -
  let ?xp = "manager_port xp port pf now gid registry" and ?key = "entry_key ev g mem"
  let ?exclude = "if pq_cancel_same_direction (xp_pending_config xp) then None else Some (sg_direction ev)"
  define mb1 where "mb1 = (if pq_cancel_on_new_signal (xp_pending_config xp)
    then snd (cancel_by_symbol port (sg_symbol ev) ''new_signal_override'' ?exclude (m, b)) else (m, b))"
  have b0: "b0 = snd mb1" by (simp add: assms(8) mb1_def)
  have "snd (submit_members ?xp ev params g (eg_members g) (VNone, False) mb1) = (m', b')"
    using assms(2,3,5,7) by (auto simp: submit_pending_entry_def mb1_def Let_def manager_port_def split: prod.splits if_splits)
  then have run: "submit_members ?xp ev params g (ms1 @ mem # ms2) (VNone, False) (fst mb1, b0) =
      (fst (submit_members ?xp ev params g (eg_members g) (VNone, False) mb1), (m', b'))" unfolding b0 assms(5) by (metis prod.collapse)
  have free: "map_of (pm_mt5_orders (fst mb1)) ?key = None"
    using cancel_keeps_fresh [OF assms(1,6), of port "sg_symbol ev" "''new_signal_override''" ?exclude b] assms(6) by (simp add: mb1_def)
  from members_answered [OF assms(4) [unfolded assms(5)] assms(9) run] free obtain ma where ma: "map_of (pm_mt5_orders ma) ?key = None"
    "map_of (pm_mt5_orders m') ?key = map_of (pm_mt5_orders (answered xp now ev params g mem answer ma)) ?key" by auto
  have tracked: "map_of (pm_mt5_orders m') ?key = Some (order_for xp now ev params g mem n (placed_comment ev mem (VDict d)))"
    if "answer = Dispatched (VDict d)" "dget d ''order'' = VInt n" "n \<noteq> 0" for d n
    using ma(2) answered_tracked [OF ma(1) that(2,3)] that(1) by simp
  have refused: "map_of (pm_mt5_orders m') ?key = None" if "\<forall>v. answer \<noteq> Dispatched v"
    using ma answered_refused [OF that, of xp now ev params g mem ma] by simp
  have blocked: "w' = w" if "map_of (pm_mt5_orders m2) ?key = Some (order_for xp now ev params g mem n c)"
    "en_pending_entries en' = Some (ok (active_execution_contexts m2))" "sg_symbol ev' = sg_symbol ev"
    "sg_timeframe ev' = sg_timeframe ev" "sg_strategy ev' = sg_strategy ev" "process_event ec en' (xq :: 'c execution_port) ev' y w = (s, y', w')"
    for n c m2 ec en' xq ev' y w s y' w'
  proof -
    have "has_matching_pending_entry en' ev'"
      by (rule working_order_matches [OF map_of_SomeD [OF that(1)] that(2)]) (simp_all add: that(3-5) tracked_order_def Let_def)
    then have "\<not> admissible ec en' ev' (sg_timeframe ev') y" by (simp add: admissible_def)
    with that(6) show ?thesis by (rule process_event_blocked)
  qed
  have fields: "mo_ticket (order_for xp now ev params g mem n c) = n \<and> mo_expires_at (order_for xp now ev params g mem n c) =
      Some (now + timedelta_us (compute_timeout (xp_pending_config xp) (sg_timeframe ev)))" for n c
    by (simp add: tracked_order_def Let_def)
  show ?thesis
    by (rule conjI [OF _ conjI]) (use tracked fields in blast, use refused in blast, intro allI impI, elim conjE, rule blocked)
qed

definition wait_member :: "string \<Rightarrow> entry_type \<Rightarrow> rat \<Rightarrow> entry_member" where
  "wait_member name kind price = \<lparr>em_member_id = name, em_entry_type = kind, em_trigger_price = price, em_entry_low = price - 1,
     em_entry_high = price + 1, em_validity_bars = Some 3\<rparr>"

definition either_or_signal :: signal_event where
  "either_or_signal = (signal ''confirmed'' ''s1'')\<lparr>sg_entry_spec_group := Some \<lparr>eg_group_id = ''g1'',
     eg_members = [wait_member ''limit'' LIMIT 64, wait_member ''stop'' STOP 80], eg_cancellation_policy = ''any_fill'', eg_metadata = []\<rparr>\<rparr>"

definition taking_port :: "nat execution_port" where
  "taking_port = (desk_port filled)\<lparr>xp_dispatch := \<lambda>p b. (Dispatched (VDict [(''order'', VInt (7 + int b))]), Suc b)\<rparr>"

theorem placed_orders_tracked_and_block_witness:
  "\<exists>info. mo_ticket info = 8 \<and> map_of (pm_mt5_orders (fst (snd (snd (submit_pending_entry desk_env
      (manager_port taking_port (\<lambda>t b. (ok VNone, b)) (\<lambda>_. None) 0 ''g1'' None) either_or_signal desk_params desk_state
      (PendingEntryManager, 0)))))) ''s1#stop'' = Some info"
proof -
  let ?xp = "manager_port taking_port (\<lambda>t b. (ok VNone, b)) (\<lambda>_. None) 0 ''g1'' None" and ?stop = "wait_member ''stop'' STOP 80"
  obtain r x' m' b' where run: "submit_pending_entry desk_env ?xp either_or_signal desk_params desk_state (PendingEntryManager, 0) = (r, x', (m', b'))"
    by (metis surj_pair)
  obtain g where g: "sg_entry_spec_group either_or_signal = Some g" and members: "eg_members g = [wait_member ''limit'' LIMIT 64] @ ?stop # []"
    by (simp add: either_or_signal_def)
  have sid: "sg_signal_id either_or_signal = ''s1''" by (simp add: either_or_signal_def)
  then have keys: "entry_key either_or_signal g (wait_member name kind price) = ''s1#'' @ name" for name kind price
    by (simp add: entry_key_def members wait_member_def)
  have derived: "fst (ensure_entry_spec_group ?xp either_or_signal desk_params) = Some g" by (simp add: ensure_entry_spec_group_def g)
  have b0: "0 = (if pq_cancel_on_new_signal (xp_pending_config taking_port) then snd (snd (cancel_by_symbol (\<lambda>t b. (ok VNone, b))
      (sg_symbol either_or_signal) ''new_signal_override'' (if pq_cancel_same_direction (xp_pending_config taking_port) then None
      else Some (sg_direction either_or_signal)) (PendingEntryManager, 0))) else 0)"
    by (simp add: taking_port_def desk_port_def)
  have answer: "xp_dispatch taking_port (pending_payload either_or_signal desk_params g ?stop)
      (broker_after taking_port (map (pending_payload either_or_signal desk_params g) [wait_member ''limit'' LIMIT 64]) 0) =
      (Dispatched (VDict [(''order'', VInt 8)]), 2)" by (simp add: taking_port_def broker_after_def)
  have start: "orders_ok PendingEntryManager" "distinct (map (entry_key either_or_signal g) (eg_members g))"
    "map_of (pm_mt5_orders PendingEntryManager) (entry_key either_or_signal g ?stop) = None"
    by (simp_all add: members keys orders_ok_def PendingEntryManager_def)
  have "map_of (pm_mt5_orders m') (entry_key either_or_signal g ?stop) =
      Some (order_for taking_port 0 either_or_signal desk_params g ?stop 8 (placed_comment either_or_signal ?stop (VDict [(''order'', VInt 8)])))"
    using conjunct1 [OF placed_orders_tracked_and_block [OF start(1) _ derived start(2) members start(3) run b0 answer],
        THEN spec [of _ "[(''order'', VInt 8)]"], THEN spec [of _ 8]] sid by (simp add: dget_def)
  then show ?thesis by (simp add: run keys tracked_order_def Let_def)
qed

end
