(* ===== verification/Trading_State.thy ===== *)
theory Trading_State
  imports Pending_Safety
begin

text \<open>
  The pending orders in the database (\<open>trading/state/store.py\<close>, \<open>models.py\<close> and the two queries of
  \<open>persistence/repositories/trading_state_repo.py\<close>) and their restoration at start-up
  (\<open>recovery.py\<close>, \<open>recovery_policy.py\<close>). The lifecycle hooks of the pending manager write the table; a
  new process reads it, compares it with the orders at the broker and tracks again what is still
  there. The table holds what was written to it (metadata are JSON values), instants are
  microseconds in UTC, and rows with equal times keep their order in a query. The writes are taken to
  succeed. The store's memory cache, which only the position records read, is left out.
\<close>

section \<open>The table\<close>

record pending_row =
  pr_account_alias :: string
  pr_account_key :: string
  pr_order_ticket :: int
  pr_signal_id :: "string option"
  pr_request_id :: "string option"
  pr_symbol :: string
  pr_direction :: string
  pr_strategy :: string
  pr_timeframe :: string
  pr_category :: string
  pr_order_kind :: string
  pr_comment :: string
  pr_entry_low :: "rat option"
  pr_entry_high :: "rat option"
  pr_trigger_price :: "rat option"
  pr_entry_price_requested :: "rat option"
  pr_stop_loss :: "rat option"
  pr_take_profit :: "rat option"
  pr_volume :: "rat option"
  pr_atr_at_entry :: "rat option"
  pr_confidence :: "rat option"
  pr_regime :: "string option"
  pr_created_at :: "int option"
  pr_expires_at :: "int option"
  pr_filled_at :: "int option"
  pr_cancelled_at :: "int option"
  pr_position_ticket :: "int option"
  pr_deal_id :: "int option"
  pr_fill_price :: "rat option"
  pr_status :: string
  pr_status_reason :: "string option"
  pr_last_seen_at :: "int option"
  pr_metadata :: pydict
  pr_updated_at :: int
  pr_order_group_id :: "string option"
  pr_group_member_id :: "string option"
  pr_group_role :: "string option"

type_synonym pending_table = "pending_row list"

text \<open>The primary key, and the insertion that replaces the row under the same key.\<close>

definition row_key :: "pending_row \<Rightarrow> string \<times> int" where
  "row_key r = (pr_account_key r, pr_order_ticket r)"

definition write_pending_order_state :: "pending_row \<Rightarrow> pending_table \<Rightarrow> pending_table" where
  "write_pending_order_state r t =
    (if row_key r \<in> set (map row_key t) then map (\<lambda>q. if row_key q = row_key r then r else q) t else t @ [r])"

text \<open>The account of the process, and the parsers of \<open>float(text)\<close> and \<open>datetime.fromisoformat\<close>.\<close>

record store_env =
  tv_account_alias :: string
  tv_account_key :: string
  tv_float :: "string \<Rightarrow> rat option"
  tv_fromisoformat :: "string \<Rightarrow> datetime option"

definition fetch_pending_order_states :: "store_env \<Rightarrow> string list \<Rightarrow> string list \<Rightarrow> nat \<Rightarrow> pending_table \<Rightarrow> pending_row list" where
  "fetch_pending_order_states sv statuses group_ids limit t =
    take limit (sort_key (\<lambda>r. - pr_updated_at r)
      (filter (\<lambda>r. pr_account_key r = tv_account_key sv \<and> (statuses = [] \<or> pr_status r \<in> set statuses) \<and>
         (group_ids = [] \<or> pr_order_group_id r \<in> Some ` set group_ids)) t))"

definition list_active_pending_orders :: "store_env \<Rightarrow> pending_table \<Rightarrow> pending_row list" where
  "list_active_pending_orders sv t = fetch_pending_order_states sv [''placed''] [] 5000 t"

definition list_pending_orders_by_groups :: "store_env \<Rightarrow> string list \<Rightarrow> pending_table \<Rightarrow> pending_row list" where
  "list_pending_orders_by_groups sv group_ids t =
    (let ids = filter (\<lambda>g. g \<noteq> []) group_ids in if ids = [] then [] else fetch_pending_order_states sv [] ids 5000 t)"

section \<open>Reading values\<close>

definition str_or_none :: "pyval \<Rightarrow> string option" where
  "str_or_none v = (if v = VNone then None else some_text (strip (py_str v)))"

definition metadata_value :: "pydict \<Rightarrow> string \<Rightarrow> string" where
  "metadata_value md f = (if dget md f = VNone then [] else py_str (dget md f))"

definition metadata_optional :: "pydict \<Rightarrow> string \<Rightarrow> string option" where
  "metadata_optional md f = (if dget md f = VNone then None else some_text (py_str (dget md f)))"

text \<open>\<open>x or y\<close> of optional floats, and the readings of a field of a live order.\<close>

definition float_or :: "rat option \<Rightarrow> rat option \<Rightarrow> rat option" where
  "float_or x y = (if x = None \<or> x = Some 0 then y else x)"

definition read_float :: "store_env \<Rightarrow> pyval \<Rightarrow> rat option" where
  "read_float sv v = (if v = VNone \<or> v = VStr [] then None else case py_float_of (tv_float sv) v of Inr x \<Rightarrow> Some x | Inl _ \<Rightarrow> None)"

definition read_int :: "pyval \<Rightarrow> int option" where
  "read_int v = (if v = VNone then None else case py_int_of v of Inr n \<Rightarrow> Some n | Inl _ \<Rightarrow> None)"

definition datetime_or_none :: "store_env \<Rightarrow> pyval \<Rightarrow> int option" where
  "datetime_or_none sv v = (case v of
      VTime d \<Rightarrow> Some (utc_us (aware d))
    | VStr s \<Rightarrow> map_option (\<lambda>d. utc_us (aware d)) (tv_fromisoformat sv (replace_Z s))
    | _ \<Rightarrow> None)"

definition pending_metadata :: "mt5_order \<Rightarrow> pydict" where
  "pending_metadata info =
    (let md1 = (case mo_params info of
           None \<Rightarrow> mo_metadata info
         | Some p \<Rightarrow> dset ''params'' (VDict [(''entry_price'', VFloat (tp_entry_price p)), (''stop_loss'', VFloat (tp_stop_loss p)),
             (''take_profit'', VFloat (tp_take_profit p)), (''position_size'', VFloat (tp_position_size p)),
             (''atr_value'', VFloat (tp_atr_value p))]) (mo_metadata info));
         md2 = (case mo_exit_spec info of None \<Rightarrow> md1 | Some d \<Rightarrow> dset ''exit_spec'' (VDict d) md1)
     in if mo_strategy_category info = [] then md2 else dset ''strategy_category'' (VStr (mo_strategy_category info)) md2)"

section \<open>Writing the table\<close>

definition pending_state_from_info :: "store_env \<Rightarrow> mt5_order \<Rightarrow> string \<Rightarrow> string \<Rightarrow> int \<Rightarrow> pending_row" where
  "pending_state_from_info sv info status reason updated_at =
    (let md = mo_metadata info
     in \<lparr>pr_account_alias = tv_account_alias sv, pr_account_key = tv_account_key sv, pr_order_ticket = mo_ticket info,
       pr_signal_id = some_text (strip (mo_signal_id info)), pr_request_id = some_text (strip (mo_signal_id info)),
       pr_symbol = mo_symbol info, pr_direction = mo_direction info, pr_strategy = mo_strategy info,
       pr_timeframe = mo_timeframe info, pr_category = metadata_value md ''category'',
       pr_order_kind = metadata_value md ''order_kind'', pr_comment = mo_comment info,
       pr_entry_low = mo_entry_low info, pr_entry_high = mo_entry_high info, pr_trigger_price = mo_trigger_price info,
       pr_entry_price_requested = mo_entry_price_requested info, pr_stop_loss = mo_stop_loss info,
       pr_take_profit = mo_take_profit info, pr_volume = mo_volume info,
       pr_atr_at_entry = map_option tp_atr_value (mo_params info), pr_confidence = mo_confidence info,
       pr_regime = str_or_none (mo_regime info), pr_created_at = mo_created_at info, pr_expires_at = mo_expires_at info,
       pr_filled_at = None, pr_cancelled_at = None, pr_position_ticket = None, pr_deal_id = None, pr_fill_price = None,
       pr_status = status, pr_status_reason = Some reason, pr_last_seen_at = None, pr_metadata = pending_metadata info,
       pr_updated_at = updated_at, pr_order_group_id = metadata_optional md ''order_group_id'',
       pr_group_member_id = metadata_optional md ''group_member_id'', pr_group_role = metadata_optional md ''group_role''\<rparr>)"

text \<open>The placed row: as above, but an ATR of zero is no ATR, and the time of creation is filled in.\<close>

definition placed_row :: "store_env \<Rightarrow> int \<Rightarrow> mt5_order \<Rightarrow> pending_row" where
  "placed_row sv now info =
    (pending_state_from_info sv info ''placed'' ''placed_by_executor'' now)
      \<lparr>pr_atr_at_entry := float_or (map_option tp_atr_value (mo_params info)) None,
       pr_created_at := Some (case mo_created_at info of None \<Rightarrow> now | Some c \<Rightarrow> c), pr_last_seen_at := Some now\<rparr>"

definition record_pending_order_placed :: "store_env \<Rightarrow> int \<Rightarrow> mt5_order \<Rightarrow> pending_table \<Rightarrow> pending_table" where
  "record_pending_order_placed sv now info t = write_pending_order_state (placed_row sv now info) t"

definition mark_pending_order_filled :: "store_env \<Rightarrow> int \<Rightarrow> mt5_order \<Rightarrow> pydict \<Rightarrow> pending_table \<Rightarrow> pending_table" where
  "mark_pending_order_filled sv now info state t =
    write_pending_order_state
      ((pending_state_from_info sv info ''filled'' (py_str (py_or (dget state ''reason'') (VStr ''matched_live_position''))) now)
         \<lparr>pr_filled_at := Some now, pr_position_ticket := read_int (dget state ''ticket''),
          pr_fill_price := read_float sv (dget state ''fill_price''), pr_last_seen_at := Some now\<rparr>) t"

definition mark_pending_order_expired :: "store_env \<Rightarrow> int \<Rightarrow> mt5_order \<Rightarrow> string \<Rightarrow> pending_table \<Rightarrow> pending_table" where
  "mark_pending_order_expired sv now info reason t =
    write_pending_order_state ((pending_state_from_info sv info ''expired'' reason now)
      \<lparr>pr_cancelled_at := Some now, pr_last_seen_at := Some now\<rparr>) t"

definition mark_pending_order_cancelled :: "store_env \<Rightarrow> int \<Rightarrow> mt5_order \<Rightarrow> string \<Rightarrow> pending_table \<Rightarrow> pending_table" where
  "mark_pending_order_cancelled sv now info reason t =
    write_pending_order_state ((pending_state_from_info sv info ''cancelled'' reason now)
      \<lparr>pr_cancelled_at := Some now, pr_last_seen_at := Some now\<rparr>) t"

definition mark_pending_order_missing :: "store_env \<Rightarrow> int \<Rightarrow> mt5_order \<Rightarrow> string \<Rightarrow> pending_table \<Rightarrow> pending_table" where
  "mark_pending_order_missing sv now info reason t =
    write_pending_order_state ((pending_state_from_info sv info ''missing'' reason now)\<lparr>pr_last_seen_at := Some now\<rparr>) t"

text \<open>A live order without a row; its direction is read from the type number of the terminal.\<close>

definition store_direction_from_order :: "pydict \<Rightarrow> string" where
  "store_direction_from_order row = (case py_int_of (py_or (dget row ''type'') (VInt 0)) of
      Inl _ \<Rightarrow> []
    | Inr n \<Rightarrow> if n \<in> {1, 3, 5, 7} then ''sell'' else ''buy'')"

definition orphan_row :: "store_env \<Rightarrow> int \<Rightarrow> int \<Rightarrow> pydict \<Rightarrow> pending_row" where
  "orphan_row sv now ticket row =
    \<lparr>pr_account_alias = tv_account_alias sv, pr_account_key = tv_account_key sv, pr_order_ticket = ticket,
     pr_signal_id = None, pr_request_id = None, pr_symbol = str_or_empty (dget row ''symbol''),
     pr_direction = store_direction_from_order row, pr_strategy = [], pr_timeframe = [], pr_category = [], pr_order_kind = [],
     pr_comment = str_or_empty (dget row ''comment''), pr_entry_low = None, pr_entry_high = None, pr_trigger_price = None,
     pr_entry_price_requested = read_float sv (dget row ''price_open''), pr_stop_loss = None, pr_take_profit = None,
     pr_volume = float_or (read_float sv (dget row ''volume_current'')) (read_float sv (dget row ''volume_initial'')),
     pr_atr_at_entry = None, pr_confidence = None, pr_regime = None,
     pr_created_at = datetime_or_none sv (dget row ''time_setup''), pr_expires_at = None, pr_filled_at = None,
     pr_cancelled_at = None, pr_position_ticket = None, pr_deal_id = None, pr_fill_price = None, pr_status = ''orphan'',
     pr_status_reason = Some ''recovered_from_mt5_without_local_state'', pr_last_seen_at = Some now, pr_metadata = [],
     pr_updated_at = now, pr_order_group_id = None, pr_group_member_id = None, pr_group_role = None\<rparr>"

definition mark_pending_order_orphan :: "store_env \<Rightarrow> int \<Rightarrow> pydict \<Rightarrow> pending_table \<Rightarrow> pending_table" where
  "mark_pending_order_orphan sv now row t = (case read_int (dget row ''ticket'') of
      None \<Rightarrow> t
    | Some ticket \<Rightarrow> if ticket \<le> 0 then t else write_pending_order_state (orphan_row sv now ticket row) t)"

text \<open>The lifecycle hooks of the pending manager, as they are wired at start-up.\<close>

fun store_hook :: "store_env \<Rightarrow> int \<Rightarrow> lifecycle_hook \<Rightarrow> pending_table \<Rightarrow> pending_table" where
  "store_hook sv now (OnTracked info) t = record_pending_order_placed sv now info t"
| "store_hook sv now (OnFilled info state) t = mark_pending_order_filled sv now info state t"
| "store_hook sv now (OnExpired info reason) t = mark_pending_order_expired sv now info reason t"
| "store_hook sv now (OnCancelled info reason) t = mark_pending_order_cancelled sv now info reason t"
| "store_hook sv now (OnMissing info reason) t = mark_pending_order_missing sv now info reason t"

section \<open>Restoration at start-up\<close>

text \<open>The tickets in an answer of the broker, the dirty elements skipped, and whether a ticket counts as
  cancelled.\<close>

definition ticket_of_entry :: "pyval \<Rightarrow> int option" where
  "ticket_of_entry item = (case item of VDict d \<Rightarrow> read_int (dget d ''ticket'') | _ \<Rightarrow> read_int item)"

definition normalize_ticket_set :: "pyval \<Rightarrow> int list res" where
  "normalize_ticket_set items = rbind (list_or_empty items) (\<lambda>xs. ok (List.map_filter ticket_of_entry xs))"

definition ticket_was_cancelled :: "pyval \<Rightarrow> int \<Rightarrow> bool res" where
  "ticket_was_cancelled result ticket = (case result of
      VDict d \<Rightarrow>
        rbind (normalize_ticket_set (py_or (dget d ''canceled'') (dget d ''cancelled''))) (\<lambda>cancelled.
          rbind (normalize_ticket_set (dget d ''failed'')) (\<lambda>failed.
            if ticket \<in> set cancelled then ok True
            else if failed \<noteq> [] then ok (ticket \<notin> set failed)
            else ok (truthy result)))
    | _ \<Rightarrow> ok (truthy result))"

definition cancel_at_broker :: "'b cancel_port \<Rightarrow> int \<Rightarrow> 'b \<Rightarrow> bool \<times> 'b" where
  "cancel_at_broker port ticket b = (case port [ticket] b of
      (Inl _, b') \<Rightarrow> (False, b')
    | (Inr result, b') \<Rightarrow> (ticket_was_cancelled result ticket = ok True, b'))"

text \<open>The order a row stands for. \<open>dict(x or {})\<close> of something that is no dictionary raises.\<close>

definition dict_or_empty :: "pyval \<Rightarrow> pydict res" where
  "dict_or_empty v = (if \<not> truthy v then ok [] else case v of
      VDict d \<Rightarrow> ok d
    | _ \<Rightarrow> raise (TypeError ''cannot convert to a dictionary''))"

definition params_from_row :: "(string \<Rightarrow> rat option) \<Rightarrow> pydict \<Rightarrow> pending_row \<Rightarrow> trade_parameters res" where
  "params_from_row pf pm r =
    (let read = (\<lambda>key column fallback. py_float_of pf (py_or (py_or (dget pm key) (opt_float column)) (VFloat fallback)))
     in rbind (read ''entry_price'' (pr_trigger_price r) 0) (\<lambda>entry_price.
        rbind (read ''stop_loss'' (pr_stop_loss r) entry_price) (\<lambda>stop_loss.
        rbind (read ''take_profit'' (pr_take_profit r) entry_price) (\<lambda>take_profit.
        rbind (read ''position_size'' (pr_volume r) 0) (\<lambda>position_size.
        rbind (read ''atr_value'' (pr_atr_at_entry r) 0) (\<lambda>atr_value.
          let sld = \<bar>fl (entry_price - stop_loss)\<bar>; tpd = \<bar>fl (take_profit - entry_price)\<bar>
          in ok \<lparr>tp_entry_price = entry_price, tp_stop_loss = stop_loss, tp_take_profit = take_profit,
            tp_position_size = position_size, tp_risk_reward_ratio = (if 0 < sld then fl (tpd / sld) else 0),
            tp_atr_value = atr_value, tp_sl_distance = sld, tp_tp_distance = tpd\<rparr>))))))"

definition info_of_row :: "trade_parameters option \<Rightarrow> pending_row \<Rightarrow> mt5_order" where
  "info_of_row params r =
    (let md = pr_metadata r; text = (\<lambda>x. case x of None \<Rightarrow> [] | Some s \<Rightarrow> s)
     in \<lparr>mo_ticket = pr_order_ticket r, mo_signal_id = text (pr_signal_id r), mo_expires_at = pr_expires_at r,
       mo_direction = pr_direction r, mo_symbol = pr_symbol r, mo_strategy = pr_strategy r, mo_timeframe = pr_timeframe r,
       mo_confidence = pr_confidence r, mo_regime = opt_str (pr_regime r), mo_comment = pr_comment r, mo_params = params,
       mo_order_kind = [], mo_entry_low = pr_entry_low r, mo_entry_high = pr_entry_high r,
       mo_trigger_price = pr_trigger_price r, mo_entry_price_requested = pr_entry_price_requested r,
       mo_stop_loss = pr_stop_loss r, mo_take_profit = pr_take_profit r, mo_volume = pr_volume r,
       mo_created_at = pr_created_at r, mo_metadata = md,
       mo_exit_spec = (case dget md ''exit_spec'' of VDict d \<Rightarrow> Some d | _ \<Rightarrow> None),
       mo_strategy_category = str_or_empty (dget md ''strategy_category''),
       mo_order_group_id = text (pr_order_group_id r), mo_group_member_id = text (pr_group_member_id r),
       mo_group_role = text (pr_group_role r)\<rparr>)"

definition state_to_pending_info :: "(string \<Rightarrow> rat option) \<Rightarrow> pending_row \<Rightarrow> mt5_order res" where
  "state_to_pending_info pf r =
    rbind (dict_or_empty (dget (pr_metadata r) ''params'')) (\<lambda>pm.
      if pm = [] then ok (info_of_row None r)
      else rbind (params_from_row pf pm r) (\<lambda>params. ok (info_of_row (Some params) r)))"

record 'b restore_env =
  rx_store :: store_env
  rx_port :: "'b cancel_port"
  rx_inspect :: "(mt5_order \<Rightarrow> pydict res) option"
  rx_now :: int
  rx_orphan_action :: string
  rx_missing_action :: string

record 'b restore_state =
  rz_manager :: pending_manager
  rz_table :: pending_table
  rz_world :: 'b
  rz_summary :: "(string \<times> int) list"
  rz_index :: "(string \<times> string list) list"

definition inspect_mt5_order :: "(mt5_order \<Rightarrow> pydict res) option \<Rightarrow> mt5_order \<Rightarrow> pydict res" where
  "inspect_mt5_order inspect info = (case inspect of
      None \<Rightarrow> ok [(''status'', VStr ''pending'')]
    | Some f \<Rightarrow> rbind (f info) (\<lambda>state. ok (if state = [] then [(''status'', VStr ''pending'')] else state)))"

definition count_outcome :: "string \<Rightarrow> 'b restore_state \<Rightarrow> 'b restore_state" where
  "count_outcome outcome s = s\<lparr>rz_summary := bump outcome (rz_summary s)\<rparr>"

text \<open>A row of a group one of whose members is filled: cancelled at the broker if it can be, and in the
  table in any case.\<close>

definition cancel_sibling :: "'b restore_env \<Rightarrow> mt5_order \<Rightarrow> 'b restore_state \<Rightarrow> 'b restore_state" where
  "cancel_sibling rx info s =
    count_outcome ''oco_sibling_cancelled''
      (s\<lparr>rz_world := (if 0 < mo_ticket info then snd (cancel_at_broker (rx_port rx) (mo_ticket info) (rz_world s)) else rz_world s),
         rz_table := mark_pending_order_cancelled (rx_store rx) (rx_now rx) info ''startup_oco_sibling_filled'' (rz_table s)\<rparr>)"

definition keep_order :: "mt5_order \<Rightarrow> 'b restore_state \<Rightarrow> 'b restore_state" where
  "keep_order info s =
    (let s1 = count_outcome ''restored'' (s\<lparr>rz_manager := restore_mt5_order info (rz_manager s)\<rparr>)
     in if mo_order_group_id info = [] \<or> mo_signal_id info = [] then s1
        else s1\<lparr>rz_index := groups_add (mo_order_group_id info) [mo_signal_id info] (rz_index s1)\<rparr>)"

definition restore_live :: "'b restore_env \<Rightarrow> mt5_order \<Rightarrow> 'b restore_state \<Rightarrow> 'b restore_state" where
  "restore_live rx info s =
    (if \<not> order_expired (rx_now rx) info then keep_order info s
     else case cancel_at_broker (rx_port rx) (mo_ticket info) (rz_world s) of
       (True, b') \<Rightarrow> count_outcome ''expired'' (s\<lparr>rz_world := b',
         rz_table := mark_pending_order_expired (rx_store rx) (rx_now rx) info ''startup_expired'' (rz_table s)\<rparr>)
     | (False, b') \<Rightarrow> keep_order info (s\<lparr>rz_world := b'\<rparr>))"

definition handle_missing_pending_order :: "'b restore_env \<Rightarrow> mt5_order \<Rightarrow> pydict \<Rightarrow> 'b restore_state \<Rightarrow> 'b restore_state" where
  "handle_missing_pending_order rx info state s =
    (if rx_missing_action rx = ''ignore'' then count_outcome ''ignored_missing'' s
     else count_outcome ''missing'' (s\<lparr>rz_table := mark_pending_order_missing (rx_store rx) (rx_now rx) info
       (py_str (py_or (dget state ''reason'') (VStr ''startup_missing''))) (rz_table s)\<rparr>))"

definition settle_gone :: "'b restore_env \<Rightarrow> mt5_order \<Rightarrow> pydict \<Rightarrow> 'b restore_state \<Rightarrow> 'b restore_state" where
  "settle_gone rx info state s =
    (if lower (strip (py_str (py_or (dget state ''status'') (VStr ''missing'')))) = ''filled''
     then count_outcome ''filled'' (s\<lparr>rz_table := mark_pending_order_filled (rx_store rx) (rx_now rx) info state (rz_table s)\<rparr>)
     else handle_missing_pending_order rx info state s)"

definition restore_row :: "'b restore_env \<Rightarrow> string list \<Rightarrow> (int \<times> pydict) list \<Rightarrow> pending_row \<Rightarrow> 'b restore_state \<Rightarrow> unit res \<times> 'b restore_state" where
  "restore_row rx filled_groups live r s = (case state_to_pending_info (tv_float (rx_store rx)) r of
      Inl e \<Rightarrow> (raise e, s)
    | Inr info \<Rightarrow>
      if mo_order_group_id info \<noteq> [] \<and> mo_order_group_id info \<in> set filled_groups then (ok (), cancel_sibling rx info s)
      else case map_of live (mo_ticket info) of
        Some _ \<Rightarrow> (ok (), restore_live rx info s)
      | None \<Rightarrow> (case inspect_mt5_order (rx_inspect rx) info of
          Inl e \<Rightarrow> (raise e, s)
        | Inr state \<Rightarrow> (ok (), settle_gone rx info state s)))"

text \<open>The loop over the rows; an error ends it.\<close>

fun restore_rows :: "'b restore_env \<Rightarrow> string list \<Rightarrow> (int \<times> pydict) list \<Rightarrow> pending_row list \<Rightarrow> 'b restore_state \<Rightarrow> unit res \<times> 'b restore_state" where
  "restore_rows rx filled_groups live [] s = (ok (), s)"
| "restore_rows rx filled_groups live (r # rs) s = (case restore_row rx filled_groups live r s of
      (Inl e, s') \<Rightarrow> (raise e, s')
    | (Inr _, s') \<Rightarrow> restore_rows rx filled_groups live rs s')"

text \<open>The recovery policy reads the type of a live order, an integer, in its own way.\<close>

definition policy_direction_from_order :: "pydict \<Rightarrow> string" where
  "policy_direction_from_order row = (case dget row ''type'' of
      VInt n \<Rightarrow> if n \<in> {0, 2, 4, 6} then ''buy'' else if n \<in> {1, 3, 5, 7} then ''sell'' else []
    | _ \<Rightarrow> [])"

definition pending_info_from_order_row :: "store_env \<Rightarrow> int \<Rightarrow> pydict \<Rightarrow> mt5_order" where
  "pending_info_from_order_row sv ticket row =
    \<lparr>mo_ticket = ticket, mo_signal_id = [], mo_expires_at = None, mo_direction = policy_direction_from_order row,
     mo_symbol = str_or_empty (dget row ''symbol''), mo_strategy = [], mo_timeframe = [], mo_confidence = None, mo_regime = VNone,
     mo_comment = str_or_empty (dget row ''comment''), mo_params = None, mo_order_kind = [], mo_entry_low = None,
     mo_entry_high = None, mo_trigger_price = read_float sv (dget row ''price_open''),
     mo_entry_price_requested = read_float sv (dget row ''price_open''), mo_stop_loss = read_float sv (dget row ''sl''),
     mo_take_profit = read_float sv (dget row ''tp''),
     mo_volume = float_or (read_float sv (dget row ''volume_current'')) (read_float sv (dget row ''volume_initial'')),
     mo_created_at = datetime_or_none sv (dget row ''time_setup''), mo_metadata = [], mo_exit_spec = None,
     mo_strategy_category = [], mo_order_group_id = [], mo_group_member_id = [], mo_group_role = []\<rparr>"

definition order_row_ticket :: "pydict \<Rightarrow> int" where
  "order_row_ticket row = (case py_int_of (py_or (dget row ''ticket'') (VInt 0)) of Inr n \<Rightarrow> n | Inl _ \<Rightarrow> 0)"

definition handle_orphan_pending_order :: "'b restore_env \<Rightarrow> pydict \<Rightarrow> 'b restore_state \<Rightarrow> 'b restore_state" where
  "handle_orphan_pending_order rx row s =
    (let sv = rx_store rx; now = rx_now rx; ticket = order_row_ticket row;
         s1 = s\<lparr>rz_table := mark_pending_order_orphan sv now row (rz_table s)\<rparr>
     in if rx_orphan_action rx \<noteq> ''cancel'' \<or> ticket \<le> 0 then count_outcome ''orphan'' s1
        else case cancel_at_broker (rx_port rx) ticket (rz_world s1) of
          (False, b') \<Rightarrow> count_outcome ''orphan'' (s1\<lparr>rz_world := b'\<rparr>)
        | (True, b') \<Rightarrow> count_outcome ''orphan_cancelled'' (s1\<lparr>rz_world := b',
            rz_table := mark_pending_order_cancelled sv now (pending_info_from_order_row sv ticket row) ''startup_orphan_cancelled''
              (rz_table s1)\<rparr>))"

text \<open>The live orders by ticket; a later one with the same ticket replaces an earlier one.\<close>

definition live_by_ticket :: "pydict list \<Rightarrow> (int \<times> pydict) list" where
  "live_by_ticket rows = fold (\<lambda>row live. if 0 < order_row_ticket row then AList.update (order_row_ticket row) row live else live) rows []"

definition filled_groups :: "store_env \<Rightarrow> pending_row list \<Rightarrow> pending_table \<Rightarrow> string list" where
  "filled_groups sv states t =
    (let ids = List.map_filter (\<lambda>r. Option.bind (pr_order_group_id r) some_text) states
     in List.map_filter (\<lambda>r. if lower (strip (pr_status r)) = ''filled'' then Option.bind (pr_order_group_id r) some_text else None)
          (list_pending_orders_by_groups sv (remdups ids) t))"

definition restore_index :: "string \<times> string list \<Rightarrow> 'b restore_state \<Rightarrow> 'b restore_state" where
  "restore_index gk s = count_outcome ''oco_groups_restored'' (s\<lparr>rz_manager := restore_group_index (fst gk) (snd gk) (rz_manager s)\<rparr>)"

definition zero_summary :: "(string \<times> int) list" where
  "zero_summary = map (\<lambda>k. (k, 0)) [''restored'', ''expired'', ''filled'', ''missing'', ''orphan'', ''ignored_missing'',
     ''orphan_cancelled'', ''oco_sibling_cancelled'', ''oco_groups_restored'']"

text \<open>The whole restoration, given the broker's answer to the request for its orders. When that fails
  nothing is restored, and the summary says so; an error in the loop leaves the function.\<close>

definition restore_pending_orders :: "'b restore_env \<Rightarrow> pydict list res \<Rightarrow> pending_manager \<times> pending_table \<times> 'b \<Rightarrow>
    (py_error option) res \<times> 'b restore_state" where
  "restore_pending_orders rx orders mtb = (case mtb of (m, t, b) \<Rightarrow>
    (let s0 = \<lparr>rz_manager = m, rz_table = t, rz_world = b, rz_summary = zero_summary, rz_index = []\<rparr>
     in case orders of
       Inl e \<Rightarrow> (ok (Some e), s0\<lparr>rz_summary := take 5 zero_summary\<rparr>)
     | Inr rows \<Rightarrow>
       let states = list_active_pending_orders (rx_store rx) t; live = live_by_ticket rows;
           (res, s1) = restore_rows rx (filled_groups (rx_store rx) states t) live states s0
       in case res of
         Inl e \<Rightarrow> (raise e, s1)
       | Inr _ \<Rightarrow>
         let s2 = fold restore_index (rz_index s1) s1;
             orphans = filter (\<lambda>(ticket, _). ticket \<notin> set (map pr_order_ticket (filter (\<lambda>r. 0 < pr_order_ticket r) states))) live
         in (ok None, fold (\<lambda>(_, row). handle_orphan_pending_order rx row) orphans s2)))"

end
