(* ===== verification/Restart_Safety.thy ===== *)
theory Restart_Safety
  imports Trading_State
begin

text \<open>
  The pending manager with the table its hooks write, across restarts. A run is a sequence of the
  manager's operations, each followed by the writes of its hooks, and of restarts: a process that
  ends anywhere between two operations and a new one that restores its orders from the table. The
  orders the manager tracks and the placed rows of the account describe each other throughout, so
  that a restart finds every order that is still at the broker.

  What a run leaves out: a position record, which the store writes when a fill is seen as a position
  and which then marks the matching row as filled (\<open>record_position_tracked\<close> in \<open>store.py\<close>); writes
  that fail; a restart whose query of the broker's orders fails, or one under the setting that
  ignores missing orders (\<open>missing_action = ignore\<close>), which leaves their rows placed.
\<close>

section \<open>Runs\<close>

definition persisted_step :: "store_env \<Rightarrow> 'b pending_env \<Rightarrow> int \<Rightarrow> pending_event \<Rightarrow> pending_manager \<times> pending_table \<times> 'b \<Rightarrow>
    pending_manager \<times> pending_table \<times> 'b" where
  "persisted_step sv pn now ev mtb = (case mtb of (m, t, b) \<Rightarrow> (case pending_step pn ev (m, b) of (m', b') \<Rightarrow>
    (m', fold (store_hook sv now) (drop (length (pm_hooks m)) (pm_hooks m')) t, b')))"

text \<open>The broker never gives a ticket twice, and the executor tracks orders under a key that is not
  blank, with the parameters they were sized with. Orders are restored by restarts only.\<close>

fun admissible_event :: "store_env \<Rightarrow> pending_table \<Rightarrow> pending_event \<Rightarrow> bool" where
  "admissible_event sv t (TrackOrder i) = (0 < mo_ticket i \<and> (tv_account_key sv, mo_ticket i) \<notin> set (map row_key t) \<and>
     mo_signal_id i \<noteq> [] \<and> strip (mo_signal_id i) = mo_signal_id i \<and> mo_params i \<noteq> None)"
| "admissible_event sv t (RestoreOrder i) = False"
| "admissible_event sv t _ = True"

definition placed_rows :: "store_env \<Rightarrow> pending_table \<Rightarrow> pending_row list" where
  "placed_rows sv t = filter (\<lambda>r. pr_account_key r = tv_account_key sv \<and> pr_status r = ''placed'') t"

inductive desk_run :: "store_env \<Rightarrow> 'b pending_env \<Rightarrow> 'b \<Rightarrow> pending_manager \<Rightarrow> pending_table \<Rightarrow> 'b \<Rightarrow> bool" for sv pn b0 where
  start: "desk_run sv pn b0 PendingEntryManager [] b0"
| event: "desk_run sv pn b0 m t b \<Longrightarrow> admissible_event sv t ev \<Longrightarrow> persisted_step sv pn now ev (m, t, b) = (m', t', b') \<Longrightarrow>
    desk_run sv pn b0 m' t' b'"
| restart: "desk_run sv pn b0 m t b \<Longrightarrow> rx_store rx = sv \<Longrightarrow> rx_missing_action rx \<noteq> ''ignore'' \<Longrightarrow>
    length (placed_rows sv t) \<le> 5000 \<Longrightarrow> restore_pending_orders rx (ok rows) (PendingEntryManager, t, b) = (ok None, s) \<Longrightarrow>
    desk_run sv pn b0 (rz_manager s) (rz_table s) (rz_world s)"

section \<open>The table and its writes\<close>

lemma set_write: "set (write_pending_order_state r t) = insert r {q \<in> set t. row_key q \<noteq> row_key r}"
  by (auto simp: write_pending_order_state_def) (metis image_eqI)

lemma distinct_write: "distinct (map row_key t) \<Longrightarrow> distinct (map row_key (write_pending_order_state r t))"
proof -
  have "map row_key (map (\<lambda>q. if row_key q = row_key r then r else q) t) = map row_key t" by (induction t) simp_all
  then show "distinct (map row_key t) \<Longrightarrow> distinct (map row_key (write_pending_order_state r t))"
    by (simp add: write_pending_order_state_def del: map_map)
qed

text \<open>A write for a ticket of the account.\<close>

lemma placed_write:
  assumes "pr_account_key r = tv_account_key sv"
  shows "set (placed_rows sv (write_pending_order_state r t)) =
    (if pr_status r = ''placed'' then {r} else {}) \<union> {q \<in> set (placed_rows sv t). pr_order_ticket q \<noteq> pr_order_ticket r}"
  using assms by (auto simp: placed_rows_def set_write row_key_def)

lemma pending_state_fields [simp]:
  "pr_account_key (pending_state_from_info sv info status reason now) = tv_account_key sv"
  "pr_order_ticket (pending_state_from_info sv info status reason now) = mo_ticket info"
  "pr_status (pending_state_from_info sv info status reason now) = status"
  by (simp_all add: pending_state_from_info_def Let_def)

lemmas mark_defs = record_pending_order_placed_def mark_pending_order_filled_def mark_pending_order_expired_def
  mark_pending_order_cancelled_def mark_pending_order_missing_def

text \<open>A change of the table that takes at most one ticket out of the placed rows.\<close>

definition settles :: "store_env \<Rightarrow> int \<Rightarrow> pending_table \<Rightarrow> pending_table \<Rightarrow> bool" where
  "settles sv n t t' \<longleftrightarrow> (\<exists>q. t' = write_pending_order_state q t \<and> row_key q = (tv_account_key sv, n) \<and> pr_status q \<noteq> ''placed'')"

lemma settles_placed: "settles sv n t t' \<Longrightarrow> set (placed_rows sv t') = {q \<in> set (placed_rows sv t). pr_order_ticket q \<noteq> n}"
  by (auto simp: settles_def row_key_def placed_write)

lemma settles_distinct: "settles sv n t t' \<Longrightarrow> distinct (map row_key t) \<Longrightarrow> distinct (map row_key t')"
  by (auto simp: settles_def distinct_write)

text \<open>A row with a given status under a ticket of the account stays while other tickets are settled.\<close>

definition has_status :: "store_env \<Rightarrow> int \<Rightarrow> string \<Rightarrow> pending_table \<Rightarrow> bool" where
  "has_status sv n status t \<longleftrightarrow> (\<exists>c \<in> set t. row_key c = (tv_account_key sv, n) \<and> pr_status c = status)"

lemma settles_status: "settles sv n t t' \<Longrightarrow> n' \<noteq> n \<Longrightarrow> has_status sv n' status t \<Longrightarrow> has_status sv n' status t'"
  by (auto simp: settles_def has_status_def set_write)

lemma mark_settles:
  "settles sv (mo_ticket info) t (mark_pending_order_filled sv now info state t)"
  "settles sv (mo_ticket info) t (mark_pending_order_expired sv now info reason t)"
  "settles sv (mo_ticket info) t (mark_pending_order_cancelled sv now info reason t)"
  "settles sv (mo_ticket info) t (mark_pending_order_missing sv now info reason t)"
  unfolding settles_def mark_defs by (intro exI conjI, rule refl, simp_all add: row_key_def)+

lemma hook_settles: "ends (hook_order h) h \<Longrightarrow> settles sv (mo_ticket (hook_order h)) t (store_hook sv now h t)"
  by (cases h) (simp_all add: ends_def mark_settles)

lemma hooks_settle:
  assumes "\<forall>h \<in> set hs. ends (hook_order h) h"
  shows "set (placed_rows sv (fold (store_hook sv now) hs t)) =
      {q \<in> set (placed_rows sv t). pr_order_ticket q \<notin> (\<lambda>h. mo_ticket (hook_order h)) ` set hs}"
    and "distinct (map row_key t) \<Longrightarrow> distinct (map row_key (fold (store_hook sv now) hs t))"
  using assms
proof (induction hs arbitrary: t)
  case (Cons h hs)
  { case 1
    then show ?case using Cons.IH(1) settles_placed [OF hook_settles [of h sv t now]] by auto
  next
    case 2
    then show ?case using Cons.IH(2) settles_distinct [OF hook_settles [of h sv t now]] by auto
  }
qed simp_all

section \<open>Orders and rows describe each other\<close>

definition describes :: "pending_row \<Rightarrow> string \<Rightarrow> mt5_order \<Rightarrow> bool" where
  "describes r k i \<longleftrightarrow> pr_order_ticket r = mo_ticket i \<and> pr_signal_id r = Some k \<and> pr_expires_at r = mo_expires_at i \<and>
    pr_symbol r = mo_symbol i \<and> pr_direction r = mo_direction i \<and> pr_strategy r = mo_strategy i \<and>
    pr_timeframe r = mo_timeframe i \<and> pr_trigger_price r = mo_trigger_price i \<and> pr_stop_loss r = mo_stop_loss i \<and>
    pr_take_profit r = mo_take_profit i \<and> pr_volume r = mo_volume i \<and> pr_comment r = mo_comment i \<and>
    pr_order_group_id r = metadata_optional (mo_metadata i) ''order_group_id''"

text \<open>A row that can be read back, with a key and a ticket.\<close>

definition restorable :: "(string \<Rightarrow> rat option) \<Rightarrow> pending_row \<Rightarrow> bool" where
  "restorable pf r \<longleftrightarrow> (\<exists>i k. state_to_pending_info pf r = ok i \<and> pr_signal_id r = Some k \<and> k \<noteq> [] \<and> strip k = k \<and>
    0 < pr_order_ticket r \<and> pr_order_group_id r = metadata_optional (pr_metadata r) ''order_group_id'')"

definition mirrored :: "store_env \<Rightarrow> pending_manager \<Rightarrow> pending_table \<Rightarrow> bool" where
  "mirrored sv m t \<longleftrightarrow> distinct (map row_key t) \<and> orders_ok m \<and> tickets_ok m \<and>
    (\<forall>(k, i) \<in> set (pm_mt5_orders m). \<exists>r \<in> set (placed_rows sv t). describes r k i) \<and>
    (\<forall>r \<in> set (placed_rows sv t). restorable (tv_float sv) r \<and> (\<exists>(k, i) \<in> set (pm_mt5_orders m). describes r k i))"

lemma dget_pending_metadata:
  "f \<notin> {''params'', ''exit_spec'', ''strategy_category''} \<Longrightarrow> dget (pending_metadata info) f = dget (mo_metadata info) f"
  "mo_params info = Some p \<Longrightarrow> dget (pending_metadata info) ''params'' =
    VDict [(''entry_price'', VFloat (tp_entry_price p)), (''stop_loss'', VFloat (tp_stop_loss p)),
      (''take_profit'', VFloat (tp_take_profit p)), (''position_size'', VFloat (tp_position_size p)),
      (''atr_value'', VFloat (tp_atr_value p))]"
  by (simp_all add: pending_metadata_def Let_def dget_def split: option.split)

definition read_or :: "rat \<Rightarrow> rat option \<Rightarrow> rat \<Rightarrow> rat" where
  "read_or x c d = (if x \<noteq> 0 then x else case c of None \<Rightarrow> d | Some y \<Rightarrow> if y \<noteq> 0 then y else d)"

lemma read_column: "py_float_of pf (py_or (py_or (VFloat x) (opt_float c)) (VFloat d)) = ok (read_or x c d)"
  by (simp add: py_or_def opt_float_def read_or_def split: option.split)

lemma placed_row_restorable:
  assumes "0 < mo_ticket i" and "mo_signal_id i \<noteq> []" and "strip (mo_signal_id i) = mo_signal_id i" and "mo_params i \<noteq> None"
  shows "restorable pf (placed_row sv now i)" and "describes (placed_row sv now i) (mo_signal_id i) i"
proof -
  from assms(4) obtain p where "mo_params i = Some p" by blast
  note d = dget_pending_metadata(2) [OF this]
  have md: "pr_metadata (placed_row sv now i) = pending_metadata i"
    by (simp add: placed_row_def pending_state_from_info_def Let_def)
  let ?d = "[(''entry_price'', VFloat (tp_entry_price p)), (''stop_loss'', VFloat (tp_stop_loss p)),
      (''take_profit'', VFloat (tp_take_profit p)), (''position_size'', VFloat (tp_position_size p)),
      (''atr_value'', VFloat (tp_atr_value p))]"
  have "\<exists>params. params_from_row pf ?d r = ok params" for r
    by (simp add: params_from_row_def Let_def dget_def read_column)
  then have "\<exists>info. state_to_pending_info pf (placed_row sv now i) = ok info"
    by (auto simp: state_to_pending_info_def dict_or_empty_def md d res_simps)
  moreover have "pr_order_group_id (placed_row sv now i) = metadata_optional (pr_metadata (placed_row sv now i)) ''order_group_id''"
    unfolding md by (simp add: metadata_optional_def dget_pending_metadata(1) placed_row_def pending_state_from_info_def Let_def)
  ultimately show "restorable pf (placed_row sv now i)"
    using assms unfolding restorable_def
    by (simp add: placed_row_def pending_state_from_info_def Let_def some_text_def)
  show "describes (placed_row sv now i) (mo_signal_id i) i"
    using assms by (simp add: describes_def placed_row_def pending_state_from_info_def Let_def some_text_def)
qed

section \<open>Operations keep the mirror\<close>

lemma mirrored_inj:
  assumes "mirrored sv m t" and "r \<in> set (placed_rows sv t)" and "r' \<in> set (placed_rows sv t)"
  shows "pr_order_ticket r = pr_order_ticket r' \<Longrightarrow> r = r'" and "pr_signal_id r = pr_signal_id r' \<Longrightarrow> r = r'"
proof -
  have keyed: "distinct (map row_key t)" and sub: "r \<in> set t" "r' \<in> set t" "row_key r = (tv_account_key sv, pr_order_ticket r)"
    "row_key r' = (tv_account_key sv, pr_order_ticket r')"
    using assms by (auto simp: mirrored_def placed_rows_def row_key_def)
  then show ticket: "pr_order_ticket r = pr_order_ticket r' \<Longrightarrow> r = r'" by (metis distinct_map inj_onD)
  assume same: "pr_signal_id r = pr_signal_id r'"
  from assms obtain k i k' i' where "(k, i) \<in> set (pm_mt5_orders m)" "describes r k i" "(k', i') \<in> set (pm_mt5_orders m)" "describes r' k' i'"
    unfolding mirrored_def by blast
  moreover from this same have "k = k'" by (simp add: describes_def)
  moreover have "distinct (map fst (pm_mt5_orders m))" using assms(1) by (simp add: mirrored_def orders_ok_def)
  ultimately have "pr_order_ticket r = pr_order_ticket r'" by (metis describes_def eq_key_imp_eq_value)
  then show "r = r'" by (rule ticket)
qed

lemma mirrored_exits:
  assumes "mirrored sv m t" and "exits m m'"
  shows "mirrored sv m' (fold (store_hook sv now) (drop (length (pm_hooks m)) (pm_hooks m')) t)"
proof -
  from assms(1) have ok: "tickets_ok m" by (simp add: mirrored_def)
  from assms(2) obtain hs where hs: "pm_hooks m' = pm_hooks m @ hs"
      "\<And>k i. (k, i) \<in> set (pm_mt5_orders m) - set (pm_mt5_orders m') \<Longrightarrow> list_ex (ends i) hs"
      "\<forall>h \<in> set hs. ends (hook_order h) h" "\<And>h. h \<in> set hs \<Longrightarrow> mo_ticket (hook_order h) \<notin> tickets m'"
    using ok unfolding exits_def by blast
  have sub: "set (pm_mt5_orders m') \<subseteq> set (pm_mt5_orders m)" "orders_ok m'" using assms(2) by (auto simp: exits_def)
  let ?t = "fold (store_hook sv now) hs t"
  note placed = hooks_settle(1) [OF hs(3), of sv now t]
  have "\<exists>r \<in> set (placed_rows sv ?t). describes r k i" if ki: "(k, i) \<in> set (pm_mt5_orders m')" for k i
  proof -
    from ki sub assms(1) obtain r where r: "r \<in> set (placed_rows sv t)" "describes r k i" unfolding mirrored_def by blast
    moreover have "mo_ticket i \<in> tickets m'" using ki by (force simp: tickets_def)
    ultimately have "pr_order_ticket r \<notin> (\<lambda>h. mo_ticket (hook_order h)) ` set hs" using hs(4) by (auto simp: describes_def)
    with r show ?thesis unfolding placed by blast
  qed
  moreover have "restorable (tv_float sv) r \<and> (\<exists>(k, i) \<in> set (pm_mt5_orders m'). describes r k i)"
    if r: "r \<in> set (placed_rows sv ?t)" for r
  proof -
    from r assms(1) obtain k i where ki: "(k, i) \<in> set (pm_mt5_orders m)" "describes r k i" "restorable (tv_float sv) r"
      unfolding placed mirrored_def by blast
    have "(k, i) \<in> set (pm_mt5_orders m')"
    proof (rule ccontr)
      assume "(k, i) \<notin> set (pm_mt5_orders m')"
      with ki(1) hs(2) [of k i] obtain h where "h \<in> set hs" "ends i h" by (auto simp: list_ex_iff)
      with r ki(2) show False unfolding placed by (auto simp: describes_def dest!: ends_order)
    qed
    with ki show ?thesis by blast
  qed
  moreover have "tickets_ok m'" using ok sub(1) by (auto simp: tickets_ok_def intro: inj_on_subset)
  moreover have "distinct (map row_key ?t)" using hooks_settle(2) [OF hs(3)] assms(1) by (simp add: mirrored_def)
  ultimately show ?thesis using sub(2) by (auto simp: mirrored_def hs(1))
qed

lemma mirrored_track:
  assumes "mirrored sv m t" and "admissible_event sv t (TrackOrder i)"
  shows "mirrored sv (track_mt5_order i m)
    (fold (store_hook sv now) (drop (length (pm_hooks m)) (pm_hooks (track_mt5_order i m))) t)"
proof (cases "map_of (pm_mt5_orders m) (mo_signal_id i) = None")
  case False
  then show ?thesis using assms(1) by (simp add: track_mt5_order_def)
next
  case True
  let ?r = "placed_row sv now i" and ?t = "write_pending_order_state (placed_row sv now i) t"
  have i: "0 < mo_ticket i" "mo_signal_id i \<noteq> []" "strip (mo_signal_id i) = mo_signal_id i" "mo_params i \<noteq> None"
    and fresh: "(tv_account_key sv, mo_ticket i) \<notin> set (map row_key t)" using assms(2) by simp_all
  have r: "pr_account_key ?r = tv_account_key sv" "pr_status ?r = ''placed''" "pr_order_ticket ?r = mo_ticket i"
    by (simp_all add: placed_row_def)
  have new: "mo_ticket i \<noteq> pr_order_ticket q" if "q \<in> set (placed_rows sv t)" for q
    using that fresh by (auto simp: placed_rows_def row_key_def image_iff)
  then have placed: "set (placed_rows sv ?t) = insert ?r (set (placed_rows sv t))" using placed_write [OF r(1), of t] r by (auto dest: new)
  have "mo_ticket i \<noteq> mo_ticket j" if "(k, j) \<in> set (pm_mt5_orders m)" for k j
    using that assms(1) new unfolding mirrored_def by (fastforce simp: describes_def)
  then have "mo_ticket i \<notin> tickets m" by (auto simp: tickets_def)
  then have "inj_on (\<lambda>(_, j). mo_ticket j) (insert (mo_signal_id i, i) (set (pm_mt5_orders m)))"
    using assms(1) by (auto simp: mirrored_def tickets_ok_def tickets_def)
  moreover have orders: "set (AList.update (mo_signal_id i) i (pm_mt5_orders m)) = insert (mo_signal_id i, i) (set (pm_mt5_orders m))"
    using True assms(1) by (force simp: set_alist_update map_of_eq_None_iff mirrored_def orders_ok_def)
  ultimately show ?thesis using assms(1) placed_row_restorable(1) [OF i, of "tv_float sv" sv now] placed_row_restorable(2) [OF i, of sv now] True
    by (auto simp: track_mt5_order_def record_pending_order_placed_def mirrored_def placed distinct_write orders_ok_def
        distinct_update tickets_ok_def)
qed

lemma mirrored_step:
  assumes "mirrored sv m t" and "admissible_event sv t ev" and "persisted_step sv pn now ev (m, t, b) = (m', t', b')"
  shows "mirrored sv m' t'"
proof (cases "\<exists>i. ev = TrackOrder i")
  case True
  then show ?thesis using mirrored_track [OF assms(1)] assms(2,3) by (auto simp: persisted_step_def)
next
  case False
  then have "exits m (fst (pending_step pn ev (m, b)))"
    using step_exits [of m ev pn b] assms(1,2) by (cases ev) (auto simp: mirrored_def)
  then show ?thesis using mirrored_exits [OF assms(1)] assms(3) by (auto simp: persisted_step_def split: prod.splits)
qed

section \<open>Restarts keep the mirror\<close>

abbreviation row_info :: "(string \<Rightarrow> rat option) \<Rightarrow> pending_row \<Rightarrow> mt5_order" where
  "row_info pf r \<equiv> projr (state_to_pending_info pf r)"

abbreviation row_sid :: "pending_row \<Rightarrow> string" where
  "row_sid r \<equiv> the (pr_signal_id r)"

lemma state_to_pending_info_cases:
  assumes "state_to_pending_info pf r = ok i"
  obtains params where "i = info_of_row params r"
  using assms by (auto simp: state_to_pending_info_def res_simps split: if_splits)

lemma restorable_info:
  assumes "restorable pf r"
  shows "state_to_pending_info pf r = ok (row_info pf r)" and "describes r (row_sid r) (row_info pf r)"
    and "strip (mo_signal_id (row_info pf r)) = row_sid r" and "row_sid r \<noteq> []" and "mo_ticket (row_info pf r) = pr_order_ticket r"
    and "0 < pr_order_ticket r" and "mo_order_group_id (row_info pf r) = (case pr_order_group_id r of None \<Rightarrow> [] | Some g \<Rightarrow> g)"
proof -
  from assms obtain i k where i: "state_to_pending_info pf r = ok i" and k: "pr_signal_id r = Some k" "k \<noteq> []" "strip k = k"
    "0 < pr_order_ticket r" "pr_order_group_id r = metadata_optional (pr_metadata r) ''order_group_id''"
    unfolding restorable_def by blast
  then obtain params where "i = info_of_row params r" by (blast elim: state_to_pending_info_cases)
  then show "state_to_pending_info pf r = ok (row_info pf r)" "describes r (row_sid r) (row_info pf r)"
    "strip (mo_signal_id (row_info pf r)) = row_sid r" "row_sid r \<noteq> []" "mo_ticket (row_info pf r) = pr_order_ticket r"
    "0 < pr_order_ticket r" "mo_order_group_id (row_info pf r) = (case pr_order_group_id r of None \<Rightarrow> [] | Some g \<Rightarrow> g)"
    using k by (simp_all add: i info_of_row_def Let_def describes_def)
qed

lemma count_outcome_fields [simp]:
  "rz_manager (count_outcome c s) = rz_manager s" "rz_table (count_outcome c s) = rz_table s"
  "rz_world (count_outcome c s) = rz_world s" "rz_index (count_outcome c s) = rz_index s"
  by (simp_all add: count_outcome_def)

lemma keep_order_fields [simp]:
  "rz_manager (keep_order info s) = restore_mt5_order info (rz_manager s)" "rz_table (keep_order info s) = rz_table s"
  by (simp_all add: keep_order_def Let_def)

text \<open>What becomes of a row: the order is tracked again and the table is as before, or the row is no longer
  placed and nothing is tracked for it.\<close>

definition kept :: "(string \<Rightarrow> rat option) \<Rightarrow> pending_row \<Rightarrow> 'b restore_state \<Rightarrow> 'b restore_state \<Rightarrow> bool" where
  "kept pf r s s' \<longleftrightarrow> rz_table s' = rz_table s \<and> rz_manager s' = restore_mt5_order (row_info pf r) (rz_manager s)"

definition settled :: "store_env \<Rightarrow> pending_row \<Rightarrow> 'b restore_state \<Rightarrow> 'b restore_state \<Rightarrow> bool" where
  "settled sv r s s' \<longleftrightarrow> settles sv (pr_order_ticket r) (rz_table s) (rz_table s') \<and> rz_manager s' = rz_manager s"

lemma restore_row_cases:
  assumes "restorable (tv_float (rx_store rx)) r" and "rx_missing_action rx \<noteq> ''ignore''"
    and "restore_row rx fg live r s = (ok u, s')"
  shows "kept (tv_float (rx_store rx)) r s s' \<or> settled (rx_store rx) r s s'"
proof -
  obtain i where i: "state_to_pending_info (tv_float (rx_store rx)) r = ok i" using restorable_info(1) [OF assms(1)] by blast
  then have ticket: "pr_order_ticket r = mo_ticket i" using restorable_info(5) [OF assms(1)] by simp
  show ?thesis using assms(2,3)
    by (auto simp: restore_row_def i ticket kept_def settled_def cancel_sibling_def restore_live_def settle_gone_def
        handle_missing_pending_order_def mark_settles split: if_splits option.splits sum.splits prod.splits bool.splits)
qed

text \<open>The state of the loop: the placed rows are those still to do and those whose orders are tracked.\<close>

definition restoring :: "store_env \<Rightarrow> pending_row set \<Rightarrow> pending_row set \<Rightarrow> 'b restore_state \<Rightarrow> bool" where
  "restoring sv P todo s \<longleftrightarrow> distinct (map row_key (rz_table s)) \<and> orders_ok (rz_manager s) \<and>
    set (placed_rows sv (rz_table s)) \<subseteq> P \<and> todo \<subseteq> set (placed_rows sv (rz_table s)) \<and>
    set (pm_mt5_orders (rz_manager s)) = (\<lambda>r. (row_sid r, row_info (tv_float sv) r)) ` (set (placed_rows sv (rz_table s)) - todo)"

definition separate :: "(string \<Rightarrow> rat option) \<Rightarrow> pending_row set \<Rightarrow> bool" where
  "separate pf P \<longleftrightarrow> (\<forall>r \<in> P. restorable pf r) \<and> inj_on row_sid P \<and> inj_on pr_order_ticket P"

lemma mirrored_separate: "mirrored sv m t \<Longrightarrow> separate (tv_float sv) (set (placed_rows sv t))"
  unfolding separate_def inj_on_def
proof (intro conjI ballI impI)
  fix r r' assume m: "mirrored sv m t" and r: "r \<in> set (placed_rows sv t)" "r' \<in> set (placed_rows sv t)"
  show "row_sid r = row_sid r' \<Longrightarrow> r = r'"
    using mirrored_inj(2) [OF m r] m r unfolding mirrored_def restorable_def by (metis option.sel)
  show "pr_order_ticket r = pr_order_ticket r' \<Longrightarrow> r = r'" by (rule mirrored_inj(1) [OF m r])
qed (auto simp: mirrored_def)

lemma restoring_row:
  assumes "separate (tv_float sv) P" and "restoring sv P (insert r todo) s" and "r \<notin> todo"
    and "kept (tv_float sv) r s s' \<or> settled sv r s s'"
  shows "restoring sv P todo s'"
    and "q \<in> set (placed_rows sv (rz_table s)) \<Longrightarrow> q \<noteq> r \<or> kept (tv_float sv) r s s' \<Longrightarrow> q \<in> set (placed_rows sv (rz_table s'))"
proof -
  let ?placed = "set (placed_rows sv (rz_table s))" and ?f = "\<lambda>r. (row_sid r, row_info (tv_float sv) r)"
  have P: "?placed \<subseteq> P" "r \<in> ?placed" "todo \<subseteq> ?placed" and orders: "set (pm_mt5_orders (rz_manager s)) = ?f ` (?placed - insert r todo)"
    and ok: "orders_ok (rz_manager s)" "distinct (map row_key (rz_table s))"
    using assms(2) by (auto simp: restoring_def)
  have r: "restorable (tv_float sv) r" and ticket: "pr_order_ticket q = pr_order_ticket r \<Longrightarrow> q = r"
    and sid: "row_sid q = row_sid r \<Longrightarrow> q = r" if "q \<in> ?placed" for q
    using that P assms(1) unfolding separate_def by (blast dest: inj_onD)+
  have gone: "set (placed_rows sv (rz_table s')) = ?placed - {r}" if "settled sv r s s'"
    using that settles_placed [of sv "pr_order_ticket r" "rz_table s" "rz_table s'"] ticket P by (auto simp: settled_def)
  show "restoring sv P todo s'"
  proof (cases "kept (tv_float sv) r s s'")
    case True
    have key: "strip (mo_signal_id (row_info (tv_float sv) r)) = row_sid r" "row_sid r \<noteq> []"
      using restorable_info(3,4) [OF r] P(2) by blast+
    have "?placed - todo = insert r (?placed - insert r todo)" using P(2) assms(3) by blast
    moreover have "{p \<in> set (pm_mt5_orders (rz_manager s)). fst p \<noteq> row_sid r} = set (pm_mt5_orders (rz_manager s))"
      using sid by (auto simp: orders)
    ultimately show ?thesis using True ok P
      by (auto simp: restoring_def kept_def restore_mt5_order_def key set_alist_update orders_ok_def distinct_update orders)
  next
    case False
    with assms(4) have settled: "settled sv r s s'" by blast
    then have "distinct (map row_key (rz_table s'))" "rz_manager s' = rz_manager s"
      using settles_distinct [of sv "pr_order_ticket r" "rz_table s" "rz_table s'"] ok(2) by (simp_all add: settled_def)
    moreover have "?placed - {r} - todo = ?placed - insert r todo" by blast
    ultimately show ?thesis using ok(1) P assms(3) orders unfolding restoring_def gone [OF settled] by (simp only:) blast
  qed
  show "q \<in> set (placed_rows sv (rz_table s'))" if "q \<in> ?placed" "q \<noteq> r \<or> kept (tv_float sv) r s s'"
  proof (cases "kept (tv_float sv) r s s'")
    case True
    then show ?thesis using that(1) by (simp add: kept_def)
  next
    case False
    with assms(4) have "settled sv r s s'" by blast
    from gone [OF this] that False show ?thesis by blast
  qed
qed

lemma restore_rows_keep:
  assumes "separate (tv_float (rx_store rx)) P" and "rx_missing_action rx \<noteq> ''ignore''"
  shows "restoring (rx_store rx) P (set rs) s \<Longrightarrow> distinct rs \<Longrightarrow> restore_rows rx fg live rs s = (ok u, s') \<Longrightarrow>
      restoring (rx_store rx) P {} s' \<and> (\<forall>q \<in> set (placed_rows (rx_store rx) (rz_table s)).
        (\<forall>t t' v. q \<in> set rs \<longrightarrow> restore_row rx fg live q t = (ok v, t') \<longrightarrow> kept (tv_float (rx_store rx)) q t t') \<longrightarrow>
        q \<in> set (placed_rows (rx_store rx) (rz_table s')))"
proof (induction rs arbitrary: s)
  case (Cons r rs)
  from Cons.prems(3) obtain v s1 where row: "restore_row rx fg live r s = (ok v, s1)" and rest: "restore_rows rx fg live rs s1 = (ok u, s')"
    by (auto split: prod.splits sum.splits)
  have P: "restorable (tv_float (rx_store rx)) r" using Cons.prems(1) assms(1) by (auto simp: restoring_def separate_def)
  note outcome = restore_row_cases [OF P assms(2) row]
  have now: "restoring (rx_store rx) P (insert r (set rs)) s" "r \<notin> set rs" using Cons.prems(1,2) by simp_all
  note next_row = restoring_row [OF assms(1) now outcome]
  from Cons.IH [OF next_row(1) _ rest] Cons.prems(2) show ?case using next_row(2) row by (auto simp: list.set)
qed simp

lemma restore_rows_mark:
  assumes "separate (tv_float (rx_store rx)) P" and "rx_missing_action rx \<noteq> ''ignore''" and "q \<in> P"
    and "\<And>u u' v. restore_row rx fg live q u = (ok v, u') \<Longrightarrow> has_status (rx_store rx) (pr_order_ticket q) status (rz_table u')"
  shows "set rs \<subseteq> P \<Longrightarrow> restore_rows rx fg live rs s = (ok u, s') \<Longrightarrow>
    q \<in> set rs \<or> has_status (rx_store rx) (pr_order_ticket q) status (rz_table s) \<Longrightarrow>
    has_status (rx_store rx) (pr_order_ticket q) status (rz_table s')"
proof (induction rs arbitrary: s)
  case (Cons r rs)
  from Cons.prems(2) obtain v s1 where row: "restore_row rx fg live r s = (ok v, s1)" and rest: "restore_rows rx fg live rs s1 = (ok u, s')"
    by (auto split: prod.splits sum.splits)
  have P: "restorable (tv_float (rx_store rx)) r" "r \<in> P" using Cons.prems(1) assms(1) by (auto simp: separate_def)
  have "has_status (rx_store rx) (pr_order_ticket q) status (rz_table s1)"
    if "has_status (rx_store rx) (pr_order_ticket q) status (rz_table s)" "r \<noteq> q"
  proof -
    have "pr_order_ticket q \<noteq> pr_order_ticket r" using that(2) P(2) assms(1,3) unfolding separate_def by (blast dest: inj_onD)
    then show ?thesis using restore_row_cases [OF P(1) assms(2) row] that(1) settles_status by (auto simp: kept_def settled_def)
  qed
  with assms(4) [of s v s1] row Cons.prems(3) have "q \<in> set rs \<or> has_status (rx_store rx) (pr_order_ticket q) status (rz_table s1)" by auto
  with Cons.IH [OF _ rest] Cons.prems(1) show ?case by simp
qed simp

lemma restore_rows_return:
  assumes "\<forall>r \<in> set rs. restorable (tv_float (rx_store rx)) r" and "\<And>i. \<exists>state. inspect_mt5_order (rx_inspect rx) i = ok state"
  shows "\<exists>s'. restore_rows rx fg live rs s = (ok (), s')"
  using assms(1)
proof (induction rs arbitrary: s)
  case (Cons r rs)
  obtain i where i: "state_to_pending_info (tv_float (rx_store rx)) r = ok i" using restorable_info(1) [of "tv_float (rx_store rx)" r] Cons.prems by auto
  obtain state where "inspect_mt5_order (rx_inspect rx) i = ok state" using assms(2) by blast
  then have "\<exists>s1. restore_row rx fg live r s = (ok (), s1)" by (simp add: restore_row_def i split: option.split)
  then obtain s1 where "restore_row rx fg live r s = (ok (), s1)" by blast
  with Cons.IH [of s1] Cons.prems show ?case by simp
qed simp

text \<open>The group index and the orphans do not touch the tracked orders and the placed rows.\<close>

lemma restore_index_orders:
  "pm_mt5_orders (rz_manager (fold restore_index gs s)) = pm_mt5_orders (rz_manager s) \<and> rz_table (fold restore_index gs s) = rz_table s"
  by (induction gs arbitrary: s) (simp_all add: restore_index_def restore_group_index_def Let_def)

lemma live_by_ticket_ticket: "\<forall>(n, row) \<in> set (live_by_ticket rows). order_row_ticket row = n \<and> 0 < n"
  unfolding live_by_ticket_def
  by (rule fold_invariant [where P = "\<lambda>live. \<forall>(n, row) \<in> set live. order_row_ticket row = n \<and> 0 < n"])
    (auto dest!: subsetD [OF set_update_subset])

lemma orphan_settles:
  assumes "order_row_ticket row = n" and "0 < n"
  shows "settles sv n t (mark_pending_order_orphan sv now row t)"
proof -
  have "read_int (dget row ''ticket'') = Some n"
    using assms by (auto simp: order_row_ticket_def read_int_def py_or_def split: if_splits sum.splits)
  then show ?thesis using assms(2) unfolding settles_def
    by (intro exI [of _ "orphan_row sv now n row"]) (simp add: mark_pending_order_orphan_def row_key_def orphan_row_def)
qed

lemma handle_orphan_keeps:
  assumes "order_row_ticket row = n" and "0 < n" and "n \<notin> pr_order_ticket ` set (placed_rows (rx_store rx) (rz_table s))"
  shows "rz_manager (handle_orphan_pending_order rx row s) = rz_manager s"
    and "set (placed_rows (rx_store rx) (rz_table (handle_orphan_pending_order rx row s))) = set (placed_rows (rx_store rx) (rz_table s))"
    and "distinct (map row_key (rz_table s)) \<Longrightarrow> distinct (map row_key (rz_table (handle_orphan_pending_order rx row s)))"
    and "n' \<noteq> n \<Longrightarrow> has_status (rx_store rx) n' status (rz_table s) \<Longrightarrow>
      has_status (rx_store rx) n' status (rz_table (handle_orphan_pending_order rx row s))"
proof -
  let ?sv = "rx_store rx"
  let ?t = "mark_pending_order_orphan ?sv (rx_now rx) row (rz_table s)"
  let ?u = "mark_pending_order_cancelled ?sv (rx_now rx) (pending_info_from_order_row ?sv n row) ''startup_orphan_cancelled'' ?t"
  have cases: "rz_manager (handle_orphan_pending_order rx row s) = rz_manager s"
    "rz_table (handle_orphan_pending_order rx row s) \<in> {?t, ?u}"
    using assms(1,2) by (auto simp: handle_orphan_pending_order_def Let_def split: prod.splits bool.splits)
  have t: "settles ?sv n (rz_table s) ?t" by (rule orphan_settles [OF assms(1,2)])
  have u: "settles ?sv n ?t ?u" using mark_settles(3) [of ?sv "pending_info_from_order_row ?sv n row"] by (simp add: pending_info_from_order_row_def)
  show "rz_manager (handle_orphan_pending_order rx row s) = rz_manager s" by (rule cases(1))
  show "set (placed_rows ?sv (rz_table (handle_orphan_pending_order rx row s))) = set (placed_rows ?sv (rz_table s))"
    using cases(2) settles_placed [OF t] settles_placed [OF u] assms(3) by (auto simp: image_iff)
  show "distinct (map row_key (rz_table s)) \<Longrightarrow> distinct (map row_key (rz_table (handle_orphan_pending_order rx row s)))"
    using cases(2) settles_distinct [OF t] settles_distinct [OF u] by auto
  show "n' \<noteq> n \<Longrightarrow> has_status ?sv n' status (rz_table s) \<Longrightarrow> has_status ?sv n' status (rz_table (handle_orphan_pending_order rx row s))"
    using cases(2) settles_status [OF t, of n'] settles_status [OF u, of n'] by auto
qed

lemma orphans_keep:
  assumes "\<forall>(n, row) \<in> set xs. order_row_ticket row = n \<and> 0 < n \<and> n \<notin> pr_order_ticket ` set (placed_rows (rx_store rx) (rz_table s))"
  shows "rz_manager (fold (\<lambda>(_, row). handle_orphan_pending_order rx row) xs s) = rz_manager s \<and>
    set (placed_rows (rx_store rx) (rz_table (fold (\<lambda>(_, row). handle_orphan_pending_order rx row) xs s))) = set (placed_rows (rx_store rx) (rz_table s)) \<and>
    (distinct (map row_key (rz_table s)) \<longrightarrow> distinct (map row_key (rz_table (fold (\<lambda>(_, row). handle_orphan_pending_order rx row) xs s)))) \<and>
    (\<forall>n. n \<notin> fst ` set xs \<longrightarrow> has_status (rx_store rx) n status (rz_table s) \<longrightarrow>
      has_status (rx_store rx) n status (rz_table (fold (\<lambda>(_, row). handle_orphan_pending_order rx row) xs s)))"
  using assms
proof (induction xs arbitrary: s)
  case (Cons x xs)
  obtain n row where x: "x = (n, row)" by fastforce
  then have "order_row_ticket row = n" "0 < n" "n \<notin> pr_order_ticket ` set (placed_rows (rx_store rx) (rz_table s))" using Cons.prems by auto
  note this_row = handle_orphan_keeps(1-3) [OF this] handle_orphan_keeps(4) [OF this, of _ status]
  then show ?case using Cons.IH [of "handle_orphan_pending_order rx row s"] Cons.prems by (simp add: x)
qed simp

lemma active_orders:
  assumes "length (placed_rows sv t) \<le> 5000"
  shows "set (list_active_pending_orders sv t) = set (placed_rows sv t)"
    and "distinct (map row_key t) \<Longrightarrow> distinct (list_active_pending_orders sv t)"
  using assms distinct_filter [of t]
  by (simp_all add: list_active_pending_orders_def fetch_pending_order_states_def placed_rows_def [symmetric] distinct_map)
    (simp add: placed_rows_def)

lemma restored_mirrored:
  assumes "restoring sv P {} s" and "separate (tv_float sv) P"
  shows "mirrored sv (rz_manager s) (rz_table s)"
proof -
  let ?placed = "set (placed_rows sv (rz_table s))"
  have P: "?placed \<subseteq> P" and orders: "set (pm_mt5_orders (rz_manager s)) = (\<lambda>r. (row_sid r, row_info (tv_float sv) r)) ` ?placed"
    using assms(1) by (auto simp: restoring_def)
  have r: "restorable (tv_float sv) r" "mo_ticket (row_info (tv_float sv) r) = pr_order_ticket r" "describes r (row_sid r) (row_info (tv_float sv) r)"
    if "r \<in> ?placed" for r
    using that P assms(2) restorable_info(2,5) [of "tv_float sv" r] by (auto simp: separate_def)
  have inj: "q = r" if "q \<in> ?placed" "r \<in> ?placed" "pr_order_ticket q = pr_order_ticket r" for q r
    using that P assms(2) unfolding separate_def by (blast dest: inj_onD)
  have "tickets_ok (rz_manager s)" unfolding tickets_ok_def orders
    by (intro inj_onI) (auto simp: r(2) dest: inj)
  moreover have "\<forall>(k, i) \<in> set (pm_mt5_orders (rz_manager s)). \<exists>r \<in> ?placed. describes r k i" using r(3) by (auto simp: orders)
  moreover have "\<forall>r \<in> ?placed. \<exists>(k, i) \<in> set (pm_mt5_orders (rz_manager s)). describes r k i" using r(3) by (auto simp: orders)
  ultimately show ?thesis using assms(1) r(1) by (simp add: restoring_def mirrored_def)
qed

lemma restart_restores:
  assumes "mirrored sv m t" and "rx_store rx = sv" and "rx_missing_action rx \<noteq> ''ignore''" and "length (placed_rows sv t) \<le> 5000"
    and "restore_pending_orders rx (ok rows) (PendingEntryManager, t, b) = (ok None, s)"
  shows "restoring sv (set (placed_rows sv t)) {} s"
    and "q \<in> set (placed_rows sv t) \<Longrightarrow>
      (\<And>u u' v. restore_row rx (filled_groups sv (list_active_pending_orders sv t) t) (live_by_ticket rows) q u = (ok v, u') \<Longrightarrow>
        kept (tv_float sv) q u u') \<Longrightarrow> q \<in> set (placed_rows sv (rz_table s))"
    and "q \<in> set (placed_rows sv t) \<Longrightarrow>
      (\<And>u u' v. restore_row rx (filled_groups sv (list_active_pending_orders sv t) t) (live_by_ticket rows) q u = (ok v, u') \<Longrightarrow>
        has_status sv (pr_order_ticket q) status (rz_table u')) \<Longrightarrow> has_status sv (pr_order_ticket q) status (rz_table s)"
proof -
  let ?P = "set (placed_rows sv t)" and ?states = "list_active_pending_orders sv t" and ?live = "live_by_ticket rows"
  let ?fg = "filled_groups sv ?states t"
  let ?s0 = "\<lparr>rz_manager = PendingEntryManager, rz_table = t, rz_world = b, rz_summary = zero_summary, rz_index = []\<rparr>"
  let ?orphans = "filter (\<lambda>(n, _). n \<notin> set (map pr_order_ticket (filter (\<lambda>r. 0 < pr_order_ticket r) ?states))) ?live"
  obtain s1 where loop: "restore_rows rx ?fg ?live ?states ?s0 = (ok (), s1)"
      and s: "s = fold (\<lambda>(_, row). handle_orphan_pending_order rx row) ?orphans (fold restore_index (rz_index s1) s1)"
    using assms(5) unfolding restore_pending_orders_def assms(2) by (auto simp: Let_def split: prod.splits sum.splits)
  have sep: "separate (tv_float sv) ?P" by (rule mirrored_separate [OF assms(1)])
  have keyed: "distinct (map row_key t)" using assms(1) by (simp add: mirrored_def)
  note states = active_orders(1) [OF assms(4)] active_orders(2) [OF assms(4) keyed]
  have "restoring sv ?P (set ?states) ?s0"
    using keyed by (simp add: restoring_def states(1) orders_ok_def PendingEntryManager_def)
  note loop_done = restore_rows_keep [OF sep [folded assms(2)] assms(3), unfolded assms(2), OF this states(2) loop]
  have "0 < pr_order_ticket r" if "r \<in> ?P" for r using that sep restorable_info(6) by (auto simp: separate_def)
  then have local: "pr_order_ticket ` ?P = set (map pr_order_ticket (filter (\<lambda>r. 0 < pr_order_ticket r) ?states))"
    by (auto simp: states(1))
  have "set (placed_rows sv (rz_table s1)) \<subseteq> ?P" using loop_done by (simp add: restoring_def)
  then have apart: "\<forall>(n, row) \<in> set ?orphans. order_row_ticket row = n \<and> 0 < n \<and> n \<notin> pr_order_ticket ` set (placed_rows sv (rz_table s1))"
    using live_by_ticket_ticket [of rows] unfolding local [symmetric] by auto
  have index: "rz_table (fold restore_index (rz_index s1) s1) = rz_table s1"
    "pm_mt5_orders (rz_manager (fold restore_index (rz_index s1) s1)) = pm_mt5_orders (rz_manager s1)"
    using restore_index_orders [of "rz_index s1" s1] by simp_all
  note orphans = orphans_keep [of ?orphans rx "fold restore_index (rz_index s1) s1" status, unfolded assms(2) index, OF apart, folded s]
  have rest: "pm_mt5_orders (rz_manager s) = pm_mt5_orders (rz_manager s1)" "set (placed_rows sv (rz_table s)) = set (placed_rows sv (rz_table s1))"
    "distinct (map row_key (rz_table s1)) \<Longrightarrow> distinct (map row_key (rz_table s))"
    using orphans index(2) by metis+
  then show "restoring sv ?P {} s" using loop_done by (simp add: restoring_def orders_ok_def)
  show "q \<in> set (placed_rows sv (rz_table s))" if "q \<in> ?P"
      "\<And>u u' v. restore_row rx ?fg ?live q u = (ok v, u') \<Longrightarrow> kept (tv_float sv) q u u'"
    unfolding rest(2) using loop_done that by auto
  show "has_status sv (pr_order_ticket q) status (rz_table s)" if q: "q \<in> ?P"
      "\<And>u u' v. restore_row rx ?fg ?live q u = (ok v, u') \<Longrightarrow> has_status sv (pr_order_ticket q) status (rz_table u')"
  proof -
    have "has_status sv (pr_order_ticket q) status (rz_table s1)"
      using restore_rows_mark [where rx = rx and P = ?P, unfolded assms(2), OF sep assms(3) q(1) q(2) _ loop] q(1) by (simp add: states(1))
    moreover have "pr_order_ticket q \<notin> fst ` set ?orphans" using q(1) unfolding local [symmetric] by auto
    ultimately show ?thesis using orphans by blast
  qed
qed

lemma desk_run_mirrored: "desk_run sv pn b0 m t b \<Longrightarrow> mirrored sv m t"
proof (induction rule: desk_run.induct)
  case start
  then show ?case by (simp add: mirrored_def orders_ok_def tickets_ok_def PendingEntryManager_def placed_rows_def)
next
  case (event m t b ev now m' t' b')
  then show ?case by (blast intro: mirrored_step)
next
  case (restart m t b rx rows s)
  then show ?case by (blast intro: restored_mirrored restart_restores(1) mirrored_separate)
qed

section \<open>What a restart gives\<close>

text \<open>Is a member of the group recorded as filled?\<close>

definition group_filled :: "store_env \<Rightarrow> string option \<Rightarrow> pending_table \<Rightarrow> bool" where
  "group_filled sv gid t \<longleftrightarrow> gid \<noteq> None \<and> (\<exists>q \<in> set t. pr_account_key q = tv_account_key sv \<and> pr_order_group_id q = gid \<and>
     lower (strip (pr_status q)) = ''filled'')"

lemma some_text_Some: "some_text s = Some g \<longleftrightarrow> s = g \<and> g \<noteq> []"
  by (auto simp: some_text_def)

lemma mem_map_filter: "y \<in> set (List.map_filter f xs) \<longleftrightarrow> (\<exists>x \<in> set xs. f x = Some y)"
  by (force simp: map_filter_def)

lemma filled_groups_sound: "g \<in> set (filled_groups sv states t) \<Longrightarrow> group_filled sv (Some g) t"
  by (auto simp: filled_groups_def list_pending_orders_by_groups_def fetch_pending_order_states_def group_filled_def Let_def
      mem_map_filter some_text_Some bind_eq_Some_conv split: if_splits dest!: in_set_takeD)

lemma filled_groups_complete:
  assumes "length t \<le> 5000" and "group_filled sv (Some g) t" and "g \<noteq> []" and "r \<in> set states" and "pr_order_group_id r = Some g"
  shows "g \<in> set (filled_groups sv states t)"
proof -
  from assms(2) obtain q where q: "q \<in> set t" "pr_account_key q = tv_account_key sv" "pr_order_group_id q = Some g"
    "lower (strip (pr_status q)) = ''filled''" unfolding group_filled_def by blast
  let ?ids = "remdups (List.map_filter (\<lambda>r. Option.bind (pr_order_group_id r) some_text) states)"
  have g: "g \<in> set (filter (\<lambda>g. g \<noteq> []) ?ids)" using assms(3-5) by (auto simp: mem_map_filter some_text_Some bind_eq_Some_conv intro!: bexI [of _ r])
  let ?found = "filter (\<lambda>r. pr_account_key r = tv_account_key sv \<and> pr_order_group_id r \<in> Some ` set (filter (\<lambda>g. g \<noteq> []) ?ids)) t"
  have "length ?found \<le> 5000" using assms(1) length_filter_le [of _ t] le_trans by blast
  moreover have "q \<in> set ?found" using q g by auto
  moreover have "filter (\<lambda>g. g \<noteq> []) ?ids \<noteq> []" using g by (metis empty_iff empty_set)
  ultimately have "q \<in> set (list_pending_orders_by_groups sv ?ids t)"
    unfolding list_pending_orders_by_groups_def fetch_pending_order_states_def Let_def by auto
  then show ?thesis using q(3,4) assms(3) unfolding filled_groups_def Let_def
    by (auto simp: mem_map_filter some_text_Some bind_eq_Some_conv intro!: bexI [of _ q])
qed

lemma live_by_ticket_complete:
  assumes "row \<in> set rows" and "0 < order_row_ticket row"
  shows "map_of (live_by_ticket rows) (order_row_ticket row) \<noteq> None"
proof -
  have stays: "map_of acc n \<noteq> None \<Longrightarrow>
      map_of (fold (\<lambda>row live. if 0 < order_row_ticket row then AList.update (order_row_ticket row) row live else live) rs acc) n \<noteq> None" for n rs acc
    by (induction rs arbitrary: acc) simp_all
  have "map_of (fold (\<lambda>row live. if 0 < order_row_ticket row then AList.update (order_row_ticket row) row live else live) rows acc)
      (order_row_ticket row) \<noteq> None" for acc
    using assms(1)
  proof (induction rows arbitrary: acc)
    case (Cons r rows)
    then show ?case using assms(2) stays [of "AList.update (order_row_ticket row) row acc" "order_row_ticket row" rows] by (cases "r = row") auto
  qed simp
  then show ?thesis by (simp add: live_by_ticket_def)
qed

lemma restart_returns:
  assumes "mirrored sv m t" and "rx_store rx = sv" and "length (placed_rows sv t) \<le> 5000"
    and "\<And>j. \<exists>state. inspect_mt5_order (rx_inspect rx) j = ok state"
  shows "\<exists>s. restore_pending_orders rx (ok rows) (PendingEntryManager, t, b) = (ok None, s)"
proof -
  have "\<forall>r \<in> set (list_active_pending_orders sv t). restorable (tv_float (rx_store rx)) r"
    using assms(1) active_orders(1) [OF assms(3)] by (simp add: mirrored_def assms(2))
  then obtain s1 where "restore_rows rx (filled_groups sv (list_active_pending_orders sv t) t) (live_by_ticket rows)
      (list_active_pending_orders sv t)
      \<lparr>rz_manager = PendingEntryManager, rz_table = t, rz_world = b, rz_summary = zero_summary, rz_index = []\<rparr> = (ok (), s1)"
    using restore_rows_return assms(4) by blast
  then show ?thesis by (simp add: restore_pending_orders_def Let_def assms(2))
qed

lemma tracked_row:
  assumes "mirrored sv m t" and "(k, i) \<in> set (pm_mt5_orders m)"
  obtains q j where "q \<in> set (placed_rows sv t)" "describes q k i" "state_to_pending_info (tv_float sv) q = ok j" "describes q k j"
    "row_info (tv_float sv) q = j" "row_sid q = k" "0 < mo_ticket i"
    "mo_order_group_id j = (case metadata_optional (mo_metadata i) ''order_group_id'' of None \<Rightarrow> [] | Some g \<Rightarrow> g)"
proof -
  from assms obtain q where q: "q \<in> set (placed_rows sv t)" "describes q k i" "restorable (tv_float sv) q" unfolding mirrored_def by blast
  from q(2) have "row_sid q = k" "pr_order_ticket q = mo_ticket i" "pr_order_group_id q = metadata_optional (mo_metadata i) ''order_group_id''"
    by (simp_all add: describes_def)
  with that [OF q(1,2) restorable_info(1) [OF q(3)]] restorable_info(2,6,7) [OF q(3)] show thesis by simp
qed

text \<open>C11: a restart finds the orders again. Whatever the manager did before, with any number of earlier
  restarts: when the process ends and a new one restores its orders, with at most 5000 of them and an
  inspector that answers, the restoration returns, and every order that was tracked, is still at the
  broker, has time left and belongs to no group with a filled member is tracked again under its key,
  with the same ticket, expiry, instrument, levels, volume and comment.\<close>

theorem restart_recovers_orders:
  assumes "desk_run sv pn b0 m t b" and "(k, i) \<in> set (pm_mt5_orders m)" and "length (placed_rows sv t) \<le> 5000"
    and "rx_store rx = sv" and "rx_missing_action rx \<noteq> ''ignore''" and "\<And>j. \<exists>state. inspect_mt5_order (rx_inspect rx) j = ok state"
    and "row \<in> set rows" and "order_row_ticket row = mo_ticket i" and "\<not> order_expired (rx_now rx) i"
    and "\<not> group_filled sv (metadata_optional (mo_metadata i) ''order_group_id'') t"
  shows "\<exists>s j. restore_pending_orders rx (ok rows) (PendingEntryManager, t, b) = (ok None, s) \<and>
    map_of (pm_mt5_orders (rz_manager s)) k = Some j \<and> mo_ticket j = mo_ticket i \<and> mo_expires_at j = mo_expires_at i \<and>
    mo_symbol j = mo_symbol i \<and> mo_direction j = mo_direction i \<and> mo_strategy j = mo_strategy i \<and> mo_timeframe j = mo_timeframe i \<and>
    mo_trigger_price j = mo_trigger_price i \<and> mo_stop_loss j = mo_stop_loss i \<and> mo_take_profit j = mo_take_profit i \<and>
    mo_volume j = mo_volume i \<and> mo_comment j = mo_comment i"
proof -
  have mir: "mirrored sv m t" by (rule desk_run_mirrored [OF assms(1)])
  from tracked_row [OF mir assms(2)] obtain q j where q: "q \<in> set (placed_rows sv t)" "describes q k i"
    "state_to_pending_info (tv_float sv) q = ok j" "describes q k j" "row_info (tv_float sv) q = j" "row_sid q = k" "0 < mo_ticket i"
    and gid: "mo_order_group_id j = (case metadata_optional (mo_metadata i) ''order_group_id'' of None \<Rightarrow> [] | Some g \<Rightarrow> g)" .
  from restart_returns [OF mir assms(4,3,6)] obtain s where s: "restore_pending_orders rx (ok rows) (PendingEntryManager, t, b) = (ok None, s)" by blast
  note restored = restart_restores [OF mir assms(4,5,3) s]
  have same: "mo_ticket j = mo_ticket i" "mo_expires_at j = mo_expires_at i" using q(2,4) by (simp_all add: describes_def)
  have live: "map_of (live_by_ticket rows) (mo_ticket j) \<noteq> None"
    using live_by_ticket_complete [OF assms(7)] assms(8) q(7) same(1) by simp
  have open_group: "\<not> (mo_order_group_id j \<noteq> [] \<and> mo_order_group_id j \<in> set (filled_groups sv states t))" for states
    using filled_groups_sound assms(10) unfolding gid by (auto split: option.splits)
  have "q \<in> set (placed_rows sv (rz_table s))"
  proof (rule restored(2) [OF q(1)])
    fix u u' v assume "restore_row rx (filled_groups sv (list_active_pending_orders sv t) t) (live_by_ticket rows) q u = (ok v, u')"
    then show "kept (tv_float sv) q u u'" using live open_group assms(9) same(2) q(5)
      by (auto simp: restore_row_def assms(4) q(3) restore_live_def order_expired_def kept_def split: option.splits)
  qed
  then have "(k, j) \<in> set (pm_mt5_orders (rz_manager s))" and "distinct (map fst (pm_mt5_orders (rz_manager s)))"
    using restored(1) q(5,6) by (auto simp: restoring_def orders_ok_def)
  with s q(2,4) show ?thesis by (auto simp: describes_def)
qed

text \<open>C12: a restart ends the rest of a filled group. Whatever happened before, with a table of at most 5000
  rows: an order that was tracked and whose group has a member recorded as filled is not tracked after
  the restart and its row is marked as cancelled, whatever the broker answers to the request to cancel
  it.\<close>

theorem restart_ends_filled_groups:
  assumes "desk_run sv pn b0 m t b" and "(k, i) \<in> set (pm_mt5_orders m)" and "length t \<le> 5000"
    and "rx_store rx = sv" and "rx_missing_action rx \<noteq> ''ignore''" and "\<And>j. \<exists>state. inspect_mt5_order (rx_inspect rx) j = ok state"
    and "group_filled sv (metadata_optional (mo_metadata i) ''order_group_id'') t"
  shows "\<exists>s. restore_pending_orders rx (ok rows) (PendingEntryManager, t, b) = (ok None, s) \<and>
    map_of (pm_mt5_orders (rz_manager s)) k = None \<and> has_status sv (mo_ticket i) ''cancelled'' (rz_table s)"
proof -
  have mir: "mirrored sv m t" by (rule desk_run_mirrored [OF assms(1)])
  from tracked_row [OF mir assms(2)] obtain q j where q: "q \<in> set (placed_rows sv t)" "describes q k i"
    "state_to_pending_info (tv_float sv) q = ok j" "describes q k j" "row_info (tv_float sv) q = j" "row_sid q = k" "0 < mo_ticket i"
    and gid: "mo_order_group_id j = (case metadata_optional (mo_metadata i) ''order_group_id'' of None \<Rightarrow> [] | Some g \<Rightarrow> g)" .
  have few: "length (placed_rows sv t) \<le> 5000" using assms(3) length_filter_le [of _ t] le_trans unfolding placed_rows_def by blast
  from restart_returns [OF mir assms(4) few assms(6)] obtain s where s: "restore_pending_orders rx (ok rows) (PendingEntryManager, t, b) = (ok None, s)" by blast
  note restored = restart_restores [OF mir assms(4,5) few s]
  have ticket: "pr_order_ticket q = mo_ticket i" "mo_ticket j = mo_ticket i" using q(2,4) by (simp_all add: describes_def)
  from assms(7) obtain g where g: "metadata_optional (mo_metadata i) ''order_group_id'' = Some g" by (auto simp: group_filled_def)
  then have "g \<noteq> []" "pr_order_group_id q = Some g" using q(2) by (auto simp: metadata_optional_def some_text_Some describes_def split: if_splits)
  then have in_filled: "mo_order_group_id j \<noteq> []" "mo_order_group_id j \<in> set (filled_groups sv (list_active_pending_orders sv t) t)"
    using filled_groups_complete [OF assms(3), of sv g q "list_active_pending_orders sv t"] assms(7) q(1) by (simp_all add: gid g active_orders(1) [OF few])
  have "has_status sv (pr_order_ticket q) ''cancelled'' (rz_table s)"
  proof (rule restored(3) [OF q(1)])
    fix u u' v assume "restore_row rx (filled_groups sv (list_active_pending_orders sv t) t) (live_by_ticket rows) q u = (ok v, u')"
    then have "rz_table u' = mark_pending_order_cancelled sv (rx_now rx) j ''startup_oco_sibling_filled'' (rz_table u)"
      using in_filled by (auto simp: restore_row_def assms(4) q(3) cancel_sibling_def)
    then show "has_status sv (pr_order_ticket q) ''cancelled'' (rz_table u')"
      by (auto simp: has_status_def mark_pending_order_cancelled_def set_write row_key_def ticket)
  qed
  then obtain c where c: "c \<in> set (rz_table s)" "row_key c = (tv_account_key sv, mo_ticket i)" "pr_status c = ''cancelled''"
    by (auto simp: has_status_def ticket)
  have "map_of (pm_mt5_orders (rz_manager s)) k = None"
  proof (rule ccontr)
    assume "map_of (pm_mt5_orders (rz_manager s)) k \<noteq> None"
    then obtain p where p: "p \<in> set (placed_rows sv (rz_table s))" "row_sid p = k" "p \<in> set (placed_rows sv t)"
      using restored(1) by (auto simp: restoring_def dest!: map_of_SomeD) blast
    then have "p = q" using mirrored_separate [OF mir] q(1,6) unfolding separate_def by (blast dest: inj_onD)
    with p(1) have "q \<in> set (rz_table s)" "row_key q = row_key c" "pr_status q = ''placed''" using c(2) ticket by (auto simp: placed_rows_def row_key_def)
    moreover have "distinct (map row_key (rz_table s))" using restored(1) by (simp add: restoring_def)
    ultimately have "q = c" using c(1) by (metis distinct_map inj_onD)
    with \<open>pr_status q = ''placed''\<close> c(3) show False by simp
  qed
  with s c show ?thesis by (auto simp: has_status_def)
qed

text \<open>A desk with two members of a group at the broker, the first of which the inspector reports as
  filled, and a broker that cancels or refuses.\<close>

definition desk_store :: store_env where
  "desk_store = \<lparr>tv_account_alias = ''demo'', tv_account_key = ''demo-1'', tv_float = (\<lambda>_. None), tv_fromisoformat = (\<lambda>_. None)\<rparr>"

definition restart_env :: "bool \<Rightarrow> int \<Rightarrow> unit restore_env" where
  "restart_env obeys now = \<lparr>rx_store = desk_store,
     rx_port = (\<lambda>tickets b. (ok (VDict [(if obeys then ''canceled'' else ''failed'', VList (map VInt tickets))]), b)),
     rx_inspect = Some wait_inspect, rx_now = now, rx_orphan_action = ''record_only'', rx_missing_action = ''mark_missing''\<rparr>"

definition desk_after :: "(int \<times> pending_event) list \<Rightarrow> pending_manager \<times> pending_table \<times> unit" where
  "desk_after evs = fold (\<lambda>(now, ev). persisted_step desk_store wait_env now ev) evs (PendingEntryManager, [], ())"

definition two_members :: "(int \<times> pending_event) list" where
  "two_members = [(1, TrackOrder (wait_order 7 ''s1#limit'')), (2, TrackOrder (wait_order 8 ''s1#stop''))]"

lemma restart_env_fields: "rx_store (restart_env obeys now) = desk_store" "rx_missing_action (restart_env obeys now) \<noteq> ''ignore''"
  "\<exists>state. inspect_mt5_order (rx_inspect (restart_env obeys now)) j = ok state"
  by (simp_all add: restart_env_def inspect_mt5_order_def wait_inspect_def)

lemma desk_run_after:
  assumes "\<forall>n < length evs. admissible_event desk_store (fst (snd (desk_after (take n evs)))) (snd (evs ! n))"
  shows "desk_run desk_store wait_env () (fst (desk_after evs)) (fst (snd (desk_after evs))) ()"
  using assms
proof (induction evs rule: rev_induct)
  case Nil
  then show ?case by (simp add: desk_after_def desk_run.start)
next
  case (snoc x evs)
  obtain m t b where mtb: "desk_after evs = (m, t, b)" by (metis prod_cases3)
  from snoc.prems [rule_format, of "length evs"] have adm: "admissible_event desk_store t (snd x)" by (simp add: mtb)
  have "\<forall>n < length evs. admissible_event desk_store (fst (snd (desk_after (take n evs)))) (snd (evs ! n))"
    using snoc.prems by (metis (no_types, lifting) append_eq_conv_conj butlast_snoc length_append_singleton less_Suc_eq nth_butlast take_butlast)
  from snoc.IH [OF this] have "desk_run desk_store wait_env () m t ()" by (simp add: mtb)
  moreover obtain m' t' b' where "persisted_step desk_store wait_env (fst x) (snd x) (m, t, ()) = (m', t', b')" by (metis prod_cases3)
  moreover from this have "desk_after (evs @ [x]) = (m', t', b')" using mtb by (simp add: desk_after_def split_beta)
  ultimately show ?case using desk_run.event [OF _ adm] by simp
qed

lemma two_members_run:
  "desk_run desk_store wait_env () (fst (desk_after two_members)) (fst (snd (desk_after two_members))) ()"
  "desk_run desk_store wait_env () (fst (desk_after (two_members @ [(50, MonitorTurn 50 wait_quotes)])))
    (fst (snd (desk_after (two_members @ [(50, MonitorTurn 50 wait_quotes)])))) ()"
proof -
  have admissible: "list_all (\<lambda>n. admissible_event desk_store (fst (snd (desk_after (take n (two_members @ [(50, MonitorTurn 50 wait_quotes)])))))
      (snd ((two_members @ [(50, MonitorTurn 50 wait_quotes)]) ! n))) [0..<3]" by code_simp
  have adm: "admissible_event desk_store (fst (snd (desk_after (take n (two_members @ [(50, MonitorTurn 50 wait_quotes)])))))
      (snd ((two_members @ [(50, MonitorTurn 50 wait_quotes)]) ! n))" if "n < 3" for n
    using admissible that unfolding list_all_iff by simp
  have len: "length two_members = 2" by (simp add: two_members_def)
  show "desk_run desk_store wait_env () (fst (desk_after two_members)) (fst (snd (desk_after two_members))) ()"
  proof (rule desk_run_after, intro allI impI)
    fix n assume "n < length two_members"
    then show "admissible_event desk_store (fst (snd (desk_after (take n two_members)))) (snd (two_members ! n))"
      using adm [of n] by (simp add: len nth_append)
  qed
  show "desk_run desk_store wait_env () (fst (desk_after (two_members @ [(50, MonitorTurn 50 wait_quotes)])))
      (fst (snd (desk_after (two_members @ [(50, MonitorTurn 50 wait_quotes)])))) ()"
    by (rule desk_run_after) (use adm len in simp)
qed

theorem restart_recovers_orders_witness:
  "\<exists>s j. restore_pending_orders (restart_env True 50) (ok [[(''ticket'', VInt 7)]]) (PendingEntryManager, fst (snd (desk_after two_members)), ()) = (ok None, s) \<and>
    map_of (pm_mt5_orders (rz_manager s)) ''s1#limit'' = Some j \<and> mo_ticket j = 7 \<and> mo_stop_loss j = Some 60"
proof -
  let ?t = "fst (snd (desk_after two_members))"
  have tracked: "(''s1#limit'', wait_order 7 ''s1#limit'') \<in> set (pm_mt5_orders (fst (desk_after two_members)))"
    and few: "length (placed_rows desk_store ?t) \<le> 5000"
    and live: "order_row_ticket [(''ticket'', VInt 7)] = mo_ticket (wait_order 7 ''s1#limit'')"
    and time: "\<not> order_expired (rx_now (restart_env True 50)) (wait_order 7 ''s1#limit'')"
    and group: "\<not> group_filled desk_store (metadata_optional (mo_metadata (wait_order 7 ''s1#limit'')) ''order_group_id'') ?t"
    by code_simp+
  have i: "mo_ticket (wait_order 7 ''s1#limit'') = 7" "mo_stop_loss (wait_order 7 ''s1#limit'') = Some 60" by (simp_all add: wait_order_def)
  have "[(''ticket'', VInt 7)] \<in> set [[(''ticket'', VInt 7)]]" by simp
  from restart_recovers_orders [OF two_members_run(1) tracked few restart_env_fields this live time group]
  show ?thesis unfolding i by blast
qed

theorem restart_ends_filled_groups_witness:
  "\<exists>s. restore_pending_orders (restart_env False 60) (ok [[(''ticket'', VInt 8)]])
      (PendingEntryManager, fst (snd (desk_after (two_members @ [(50, MonitorTurn 50 wait_quotes)]))), ()) = (ok None, s) \<and>
    map_of (pm_mt5_orders (rz_manager s)) ''s1#stop'' = None \<and> has_status desk_store 8 ''cancelled'' (rz_table s)"
proof -
  let ?t = "fst (snd (desk_after (two_members @ [(50, MonitorTurn 50 wait_quotes)])))"
  have tracked: "(''s1#stop'', wait_order 8 ''s1#stop'') \<in> set (pm_mt5_orders (fst (desk_after (two_members @ [(50, MonitorTurn 50 wait_quotes)]))))"
    and few: "length ?t \<le> 5000"
    and group: "group_filled desk_store (metadata_optional (mo_metadata (wait_order 8 ''s1#stop'')) ''order_group_id'') ?t"
    by code_simp+
  have i: "mo_ticket (wait_order 8 ''s1#stop'') = 8" by (simp add: wait_order_def)
  from restart_ends_filled_groups [OF two_members_run(2) tracked few restart_env_fields group]
  show ?thesis unfolding i by blast
qed

text \<open>The comment in \<open>restore_pending_orders\<close> says that an order the broker refused to cancel is brought into line
  later. At the next start it is at the broker without a placed row: it is recorded as an orphan, and
  under the default policy nothing cancels or tracks it.\<close>

lemma refused_sibling_ends_as_orphan:
  "let t = fst (snd (desk_after (two_members @ [(50, MonitorTurn 50 wait_quotes)])));
       s1 = snd (restore_pending_orders (restart_env False 60) (ok [[(''ticket'', VInt 8)]]) (PendingEntryManager, t, ()));
       s2 = snd (restore_pending_orders (restart_env False 70) (ok [[(''ticket'', VInt 8)]]) (PendingEntryManager, rz_table s1, ()))
   in map (\<lambda>r. (pr_order_ticket r, pr_status r)) (rz_table s2) = [(7, ''filled''), (8, ''orphan'')] \<and> pm_mt5_orders (rz_manager s2) = []"
  by code_simp

end
