(* ===== verification/Spec2Isabelle.thy ===== *)
theory Spec2Isabelle
  imports Recovery_Execution Recovery_Entry Recovery_Ledger Recovery_Replay Signal_State Wal_Queue
    Notification_Limits Position_Exit Dependency_Graph Comment_Codec Runtime_Mode Trade_Sizing
    Risk_Service Margin_Guard Executor_Safety Trading_Desk Restart_Safety
begin

text \<open>
  A verification development for MT5Services, a MetaTrader 5 trading runtime written in Python.
  The sources are under \<^verbatim>\<open>src/src/\<close>; file names below are relative to it.

  \<^bold>\<open>The program and its parts.\<close> Ticks from the terminal are turned into feature snapshots
  (\<^verbatim>\<open>market/tick_features\<close>). Closed bars are run through the indicators in the order of their
  dependencies (\<^verbatim>\<open>indicators/engine\<close>) and produce confirmed signals, which pass a state machine
  and a write-ahead queue (\<^verbatim>\<open>signals/orchestration\<close>). The executor takes a signal through a chain
  of filters, among them the deployment of its strategy (\<^verbatim>\<open>signals/contracts\<close>), sizes it, lets
  the entry policy of the strategy and timeframe derive a group of orders (\<^verbatim>\<open>trading/entry_policy\<close>)
  and dispatches a market order or the group's pending ones (\<^verbatim>\<open>trading/execution\<close>), which the
  pending manager tracks until they are filled, cancelled or expired (\<^verbatim>\<open>trading/pending\<close>); its
  hooks keep them in the database, from which a new process restores them (\<^verbatim>\<open>trading/state\<close>). An
  order is assessed by the pre-trade risk service, which also reserves a slot of the account's
  trade quota (\<^verbatim>\<open>risk\<close>, \<^verbatim>\<open>trading/runtime\<close>), sent to the broker under a comment that identifies it
  (\<^verbatim>\<open>trading/broker\<close>), and the resulting position is managed by the exit rules
  (\<^verbatim>\<open>trading/positions\<close>). Independently of signals, the recovery subsystem
  (\<^verbatim>\<open>trading/recovery\<close>) opens and scales bounded cycles on tick features; it can be replayed on
  recorded ticks (\<^verbatim>\<open>backtesting/tick_replay\<close>). A mode controller (\<^verbatim>\<open>app_runtime\<close>) starts and stops
  these components, and notifications (\<^verbatim>\<open>notifications\<close>) are deduplicated and rate limited.

  \<^bold>\<open>Shared theories.\<close>
  \<^item> \<open>Py_Float\<close>: binary64 arithmetic as rational numbers rounded to 53 bits after every operation
    (\<open>fl\<close>), Python's \<open>round\<close> and \<open>int\<close>, with monotonicity, error bounds and the values that are
    kept. The exponent is unbounded: overflow to infinity, subnormal numbers, NaN and the sign
    of zero are not modelled.
  \<^item> \<open>Py_Base\<close>, \<open>Py_Repr\<close>: exceptions as the left side of a sum type, dynamic values, dictionaries
    as association lists in insertion order, the compensated \<open>sum\<close> of Python 3.12, ASCII strings, datetimes, \<open>str\<close> and \<open>repr\<close>.
  \<^item> \<open>Interfaces\<close>: the contracts several components meet, as locales: \<open>event_system\<close> (a state kept
    in an invariant by every event; interpreted by the dependency manager, the mode controller
    and the pending manager, once for its entries and once for its broker orders), \<open>guarded_loop\<close> (a loop whose body may raise or leave; the replay),
    \<open>bounded_fifo\<close> (a queue that evicts its oldest element; the snapshot bus), \<open>fifo_queue\<close>
    (the write-ahead queue) and \<open>windowed_quota\<close> (a usage that stays within its limit over a
    moving time window; the reservations of the hour and of the day, in the database and in the
    process). \<open>Executor_Safety\<close> adds \<open>guarded_port\<close>, what a port of the executor keeps of its world,
    interpreted by a port that records the orders and by the pending manager's own operations.

  \<^bold>\<open>Components.\<close> Each theory has the component's classes as records and datatypes, one definition
  per function, and the exceptions as values.
  \<^item> \<open>Tick_Features\<close> (\<^verbatim>\<open>market/tick_features/\<close>, with \<open>Tick\<close> and \<open>Quote\<close> of
    \<^verbatim>\<open>clients/mt5_market.py\<close>): the calculator describes exactly the ticks of its window; the bus
    keeps the latest snapshots and counts the rest; the engine respects the emission interval.
  \<^item> \<open>Recovery_Models\<close>, \<open>Recovery_Controller\<close>, \<open>Recovery_Execution\<close>
    (\<^verbatim>\<open>models.py\<close>, \<^verbatim>\<open>controller.py\<close>, \<^verbatim>\<open>guard.py\<close>, \<^verbatim>\<open>execution.py\<close>, \<^verbatim>\<open>canary.py\<close> of
    \<^verbatim>\<open>trading/recovery\<close>): the step decision, the exit model, the guard and the dispatch. Every
    reachable cycle keeps its caps, every dispatched order passed the guard and carries a stop.
  \<^item> \<open>Recovery_Entry\<close>, \<open>Recovery_Budget\<close>, \<open>Recovery_Ledger\<close> (\<^verbatim>\<open>entry_policies.py\<close>,
    \<^verbatim>\<open>risk_budget.py\<close>, \<^verbatim>\<open>exposure_ledger.py\<close>): entry confirmation, direction and cost gate, the
    loss budget, and the classification of submitted tickets against live positions.
  \<^item> \<open>Recovery_Replay\<close> (\<^verbatim>\<open>backtesting/tick_replay/recovery.py\<close>): the offline loop over the controller
    and the exit model, and the bounds of its report.
  \<^item> \<open>Signal_State\<close> (\<^verbatim>\<open>state_machine.py\<close>, \<^verbatim>\<open>policy.py\<close>): the transitions refine a three-state
    machine. \<open>Wal_Queue\<close> (\<^verbatim>\<open>wal_queue.py\<close>): the table refines a first-in first-out queue, also
    across a crash inside a dequeue.
  \<^item> \<open>Notification_Limits\<close> (\<^verbatim>\<open>dedup.py\<close>, \<^verbatim>\<open>rate_limit.py\<close>): cleaning is invisible, bursts stay
    within the limits.
  \<^item> \<open>Position_Exit\<close> (\<^verbatim>\<open>exit_rules.py\<close>): a stop only tightens, every close has its cause, the
    profile and breakeven bounds, the barrier and end-of-day closes.
  \<^item> \<open>Dependency_Graph\<close> (\<^verbatim>\<open>dependency_manager.py\<close>): the two graphs refine a relation and its
    converse; the execution order ends, is topological, and fails exactly on cycles; the
    recursive dependencies are the closure; configurations round-trip.
  \<^item> \<open>Comment_Codec\<close> (\<^verbatim>\<open>comment_codec.py\<close>): comments parse back to their parts and identify their
    request.
  \<^item> \<open>Runtime_Mode\<close> (\<^verbatim>\<open>mode_policy.py\<close>, \<^verbatim>\<open>mode_controller.py\<close>, \<^verbatim>\<open>lifecycle.py\<close>): the controller
    composed with the component registry; each entry into a mode is justified by the event that made it, running components match the mode,
    trading is never activated on its own unless configured, and the end-of-day cycle restores the mode.
  \<^item> \<open>Trade_Sizing\<close> (\<^verbatim>\<open>sizing.py\<close>, \<^verbatim>\<open>params.py\<close>, \<^verbatim>\<open>risk_caps.py\<close>): volume and price levels, their
    errors, bounds and monotonicity.
  \<^item> \<open>Risk_Rules\<close>, \<open>Risk_Spec\<close>, \<open>Risk_Service\<close> (\<^verbatim>\<open>risk/models.py\<close>, \<^verbatim>\<open>rules.py\<close>, \<^verbatim>\<open>profiles.py\<close>, \<^verbatim>\<open>service.py\<close>): each rule
    against a condition, the verdict as the disjunction of the enabled violations, and what holds of
    a trade that is let through. The conditions are in \<open>Risk_Spec\<close>, over the settings, the trade and
    the answers of the ports: they share the data types and the reading of a timestamp or a number
    with the rules, and none of the functions that decide.
  \<^item> \<open>Trade_Frequency\<close> (\<^verbatim>\<open>persistence/repositories/trade_repo.py\<close>, \<^verbatim>\<open>trading/runtime/trade_frequency.py\<close>):
    the reservations keep the quota when calls do not overlap, and lose it when the statements of
    two calls alternate.
  \<^item> \<open>Margin_Guard\<close> (\<^verbatim>\<open>risk/margin_guard.py\<close>, \<^verbatim>\<open>risk/runtime.py\<close>, two methods of
    \<^verbatim>\<open>trading/positions/manager.py\<close>): every call of a closing callback
    is observed: when it is made, how far it is from the last one that returned, and what is counted;
    the target of a closing; monotone alerts.

  \<^item> \<open>Strategy_Deployment\<close> (\<^verbatim>\<open>signals/contracts/deployment.py\<close>): what validation guarantees of the
    deployments, and reading them back.
  \<^item> \<open>Execution_Health\<close> (\<^verbatim>\<open>quote_health.py\<close>, \<^verbatim>\<open>market_data_health.py\<close>, \<^verbatim>\<open>tick_feature_health.py\<close>,
    \<^verbatim>\<open>intrabar_health.py\<close> of \<^verbatim>\<open>trading/execution\<close>): data that does not block is fresh.
  \<^item> \<open>Trade_Admission\<close> (\<^verbatim>\<open>pre_trade_checks.py\<close>, \<^verbatim>\<open>pre_trade_pipeline.py\<close>, \<^verbatim>\<open>gate.py\<close>, \<^verbatim>\<open>intrabar_guard.py\<close>,
    \<^verbatim>\<open>equity_filter.py\<close>, the counters of \<^verbatim>\<open>pending_orders.py\<close>): the filters as stages on the executor's
    state, and the chain as one condition on the state it starts from.
  \<^item> \<open>Trade_Executor\<close>, \<open>Executor_Safety\<close> (\<^verbatim>\<open>executor.py\<close>, \<^verbatim>\<open>decision_engine.py\<close>, \<^verbatim>\<open>entry_dispatch.py\<close>,
    \<^verbatim>\<open>eventing.py\<close>, \<^verbatim>\<open>pending_orders.py\<close>, \<^verbatim>\<open>reasons.py\<close>): the two handlers over a port; which orders are
    dispatched, no signal and no bar traded twice, the circuit breaker over runs, and two places
    where components that should work together do not (guarded deployments, intrabar positions).
  \<^item> \<open>Entry_Policy\<close> (\<^verbatim>\<open>trading/entry_policy/\<close>, \<^verbatim>\<open>config/models/entry_policy.py\<close>,
    \<^verbatim>\<open>app_runtime/factories/entry_policies.py\<close>, the intent of \<^verbatim>\<open>entry_dispatch.py\<close>): the five policies that
    turn a signal and its bars into a group of orders, the matching of their configured patterns and
    the registry that chooses one. Every derived group is well formed, a breakout order triggers
    beyond its bars, the registry resolves exactly what is declared; the Fibonacci policy takes the
    last open level and the pullback fallback of a buy lies not below the close.
  \<^item> \<open>Pending_Manager\<close>, \<open>Pending_Safety\<close> (\<^verbatim>\<open>manager.py\<close>, \<^verbatim>\<open>monitoring.py\<close>, \<^verbatim>\<open>lifecycle.py\<close>,
    \<^verbatim>\<open>snapshot.py\<close> of \<^verbatim>\<open>trading/pending\<close>): the table of waiting entries with its group index, fill queue and
    counters, and the table of orders at the broker. Over any run the counters balance, an executed
    fill leaves no sibling waiting, a cancellation by symbol is complete and no broker order
    disappears without a report; entries kept under a member key are never price checked, and the
    siblings of a filled broker order stay at the broker.
  \<^item> \<open>Trading_Desk\<close>: the executor composed with the entry policies and the pending manager. Placed
    orders are tracked under the ticket the broker answered, refused ones are not tracked, and while one
    is tracked further signals of its strategy are blocked; a
    strategy without a mapped policy is never traded, and the executor keeps the manager's
    invariant.
  \<^item> \<open>Trading_State\<close>, \<open>Restart_Safety\<close> (\<^verbatim>\<open>store.py\<close>, \<^verbatim>\<open>models.py\<close>, \<^verbatim>\<open>recovery.py\<close>, \<^verbatim>\<open>recovery_policy.py\<close> of
    \<^verbatim>\<open>trading/state\<close>, the pending orders of \<^verbatim>\<open>persistence/repositories/trading_state_repo.py\<close>): the table the
    hooks write and the restoration at start-up. Runs with restarts are an inductive relation; along
    them the tracked orders and the placed rows describe each other, a restart finds every order that
    is still open, and it ends what is left of a filled group, in the table whatever the broker does.

  \<^bold>\<open>Parameters.\<close> The clock, the broker and its answers, the executor's collaborators (of which \<open>Trading_Desk\<close> supplies the
  entry policies and the pending manager), the random identifier of an order group, the order
  inspector and cancel port of the pending manager, the state store, the parser of
  \<open>float(text)\<close>, the components' start and stop functions and the order in which Python iterates
  a set are arguments of the definitions that use them. What is assumed of the last two is named
  (\<open>components_sound\<close>, \<open>iterates_sets\<close>) and shown to hold for a concrete instance by the
  witnesses.

  \<^bold>\<open>Termination.\<close> Every definition is total: loops over data are structural, the graph loops and
  the topological sort carry termination proofs with lexicographic measures. The only fuel is in
  the shortest decimal form of a float, where 17 digits always suffice.

  \<^bold>\<open>Not modelled.\<close> The recovery runner's live loop, the trading module and the position manager behind
  the executor's port, the threads and status pages of the pending manager, the
  state store outside the pending orders, the HTTP API, wiring and threads, the
  backtesting engine outside the replay, network and database clients, configuration loading,
  numerical indicators and strategies, read models and research tooling. They are I/O around the
  components above, numerical code over arrays, or projections for display. Locks are not
  modelled: an operation under a lock is one step, and so is one event of the executor, whose worker
  takes them one at a time; only the reservation of a trade slot, whose
  lock does not outlive its statement, is also modelled statement by statement.
\<close>

end
